(* ===== verification/Prelude.thy ===== *)
theory Prelude
  imports Main "HOL-Library.Word"
begin

unbundle bit_operations_syntax

text \<open>
  Shared layer of the development: names of the C integer types, the error numbers the
  code returns, the jiffies comparison, substring tests, the bounded list scan, and the
  generic lemmas on words and on counting the elements of a slot list that satisfy a
  predicate.  The collection \<open>count_simps\<close> holds the counting rules the accounting
  proofs share.
\<close>

section \<open>Types of the C code\<close>

type_synonym u8 = "8 word"
type_synonym u16 = "16 word"
type_synonym u32 = "32 word"
type_synonym u64 = "64 word"

text \<open>A C enumeration that the code range-checks is kept as its raw value.\<close>

type_synonym c_enum = nat

text \<open>The error numbers the code returns (a call that returns 0 is \<open>Inr\<close>).\<close>

datatype errno =
    EINVAL | EBUSY | ENOMEM | ERANGE | ETIMEDOUT | EOVERFLOW | EAGAIN | ENOENT | E2BIG | EFAULT
  | EOTHER int

text \<open>Their values on Linux; a call returns the negated number, or 0.\<close>

fun errno_code :: "errno \<Rightarrow> int" where
  "errno_code EINVAL = 22"
| "errno_code EBUSY = 16"
| "errno_code ENOMEM = 12"
| "errno_code ERANGE = 34"
| "errno_code ETIMEDOUT = 110"
| "errno_code EOVERFLOW = 75"
| "errno_code EAGAIN = 11"
| "errno_code ENOENT = 2"
| "errno_code E2BIG = 7"
| "errno_code EFAULT = 14"
| "errno_code (EOTHER n) = n"

definition ret_code :: "errno option \<Rightarrow> int" where
  "ret_code r = (case r of None \<Rightarrow> 0 | Some e \<Rightarrow> - errno_code e)"

abbreviation u32_max :: u32 where "u32_max \<equiv> - 1"
abbreviation u64_max :: u64 where "u64_max \<equiv> - 1"

definition nsec_per_usec :: u64 where "nsec_per_usec = 1000"
definition nsec_per_msec :: u64 where "nsec_per_msec = 1000000"
definition nsec_per_sec :: u64 where "nsec_per_sec = 1000000000"

lemmas nsec_defs = nsec_per_usec_def nsec_per_msec_def nsec_per_sec_def

text \<open>The kernel's \<open>time_before(a, b)\<close>: the signed difference is negative.\<close>

definition time_before :: "u64 \<Rightarrow> u64 \<Rightarrow> bool" where
  "time_before a b \<longleftrightarrow> sint (a - b) < 0"

text \<open>C string tests: \<open>strstarts\<close> and \<open>strstr\<close>.\<close>

definition strstarts :: "string \<Rightarrow> string \<Rightarrow> bool" where
  "strstarts s p \<longleftrightarrow> take (length p) s = p"

fun strstr :: "string \<Rightarrow> string \<Rightarrow> bool" where
  "strstr [] p \<longleftrightarrow> p = []"
| "strstr (x # s) p \<longleftrightarrow> strstarts (x # s) p \<or> strstr s p"

lemma strstr_iff: "strstr s p \<longleftrightarrow> (\<exists>u v. s = u @ p @ v)"
proof (induction s)
  case Nil
  then show ?case by auto
next
  case (Cons x s)
  have start: "strstarts (x # s) p \<longleftrightarrow> (\<exists>v. x # s = p @ v)"
    by (metis append_eq_conv_conj append_take_drop_id strstarts_def)
  have "(\<exists>u v. x # s = u @ p @ v) \<longleftrightarrow> (\<exists>v. x # s = p @ v) \<or> (\<exists>u v. s = u @ p @ v)"
    by (metis append_Cons append_Nil list.inject list.exhaust)
  with start Cons.IH show ?case by simp
qed

text \<open>\<open>strscpy\<close> into a buffer of \<open>n\<close> bytes keeps at most \<open>n - 1\<close> characters.\<close>

definition strscpy :: "string \<Rightarrow> nat \<Rightarrow> string" where
  "strscpy src n = take (n - 1) src"

lemma length_strscpy: "0 < n \<Longrightarrow> length (strscpy s n) < n"
  by (auto simp: strscpy_def)

section \<open>Word arithmetic\<close>

lemma unat_inc: "x \<noteq> - 1 \<Longrightarrow> unat (x + 1) = Suc (unat (x :: 'a::len word))"
  using unatSuc [of x] by (metis add.commute add_eq_0_iff)

lemma unat_dec: "x \<noteq> 0 \<Longrightarrow> unat (x - 1) = unat (x :: 'a::len word) - 1"
  by (rule unat_minus_one)

lemma unat_zero_iff: "unat (x :: 'a::len word) = 0 \<longleftrightarrow> x = 0"
  by (simp add: unat_eq_zero)

lemma unat_le_u32_max: "unat (x :: u32) \<le> 4294967295"
  using unsigned_less [of x, where 'a = nat] by simp

lemma unat_u32_max: "unat u32_max = 4294967295"
  by (simp add: unsigned_minus_1_eq_mask mask_eq_exp_minus_1)

lemma u32_full_iff: "x = u32_max \<longleftrightarrow> unat x = 4294967295"
  by (metis unat_u32_max unsigned_word_eqI)

section \<open>Bounded scans\<close>

text \<open>
  The loops over a hash chain that start with \<open>if (!budget--) break\<close>: the first match
  among the first \<open>budget\<close> elements.
\<close>

fun scan_possible :: "u32 \<Rightarrow> ('a \<Rightarrow> bool) \<Rightarrow> 'a list \<Rightarrow> 'a option" where
  "scan_possible budget P [] = None"
| "scan_possible budget P (x # xs) =
     (if budget = 0 then None
      else if P x then Some x
      else scan_possible (budget - 1) P xs)"

lemma scan_possible_SomeD: "scan_possible b P xs = Some x \<Longrightarrow> x \<in> set xs \<and> P x"
  by (induction b P xs rule: scan_possible.induct) (auto split: if_splits)

lemma scan_possible_find:
  "length xs \<le> unat b \<Longrightarrow> scan_possible b P xs = find P xs"
proof (induction b P xs rule: scan_possible.induct)
  case (2 b P x xs)
  from "2.prems" have "b \<noteq> 0" by auto
  moreover from this "2.prems" have "length xs \<le> unat (b - 1)" by (simp add: unat_dec)
  ultimately show ?case using "2.IH" by simp
qed simp

lemma scan_possible_complete:
  assumes "length xs \<le> unat b" and "x \<in> set xs" and "P x"
  shows "\<exists>y. scan_possible b P xs = Some y"
proof -
  have "find P xs \<noteq> None" using assms(2,3) by (auto simp: find_None_iff)
  then show ?thesis using assms(1) by (simp add: scan_possible_find)
qed

section \<open>Counting slots\<close>

named_theorems count_simps

definition count_slots :: "('m \<Rightarrow> bool) \<Rightarrow> (nat \<Rightarrow> 'm) \<Rightarrow> nat list \<Rightarrow> nat" where
  "count_slots P pool xs = length (filter (\<lambda>i. P (pool i)) xs)"

lemma count_slots_Nil [count_simps]: "count_slots P pool [] = 0"
  by (simp add: count_slots_def)

lemma count_slots_Cons [count_simps]:
  "count_slots P pool (i # xs) = of_bool (P (pool i)) + count_slots P pool xs"
  by (simp add: count_slots_def)

lemma count_slots_le: "count_slots P pool xs \<le> length xs"
  by (simp add: count_slots_def)

lemma count_slots_other [count_simps]:
  "i \<notin> set xs \<Longrightarrow> count_slots P (pool(i := m)) xs = count_slots P pool xs"
  by (auto simp: count_slots_def intro!: arg_cong [where f = length] filter_cong)

lemma count_slots_upd:
  "distinct xs \<Longrightarrow> i \<in> set xs \<Longrightarrow>
   count_slots P (pool(i := m)) xs + of_bool (P (pool i)) = count_slots P pool xs + of_bool (P m)"
  by (induction xs) (auto simp: count_simps)

lemma count_slots_same:
  "P m = P (pool i) \<Longrightarrow> count_slots P (pool(i := m)) xs = count_slots P pool xs"
  by (auto simp: count_slots_def intro!: arg_cong [where f = length] filter_cong)

lemma count_slots_gain:
  "distinct xs \<Longrightarrow> i \<in> set xs \<Longrightarrow> P m \<Longrightarrow> \<not> P (pool i) \<Longrightarrow>
   count_slots P (pool(i := m)) xs = Suc (count_slots P pool xs)"
  using count_slots_upd [of xs i P pool m] by simp

lemma count_slots_loss:
  "distinct xs \<Longrightarrow> i \<in> set xs \<Longrightarrow> \<not> P m \<Longrightarrow> P (pool i) \<Longrightarrow>
   count_slots P (pool(i := m)) xs = count_slots P pool xs - 1"
  using count_slots_upd [of xs i P pool m] by simp

lemma count_slots_pos: "i \<in> set xs \<Longrightarrow> P (pool i) \<Longrightarrow> 0 < count_slots P pool xs"
  by (auto simp: count_slots_def filter_empty_conv)

lemma count_slots_lt: "i \<in> set xs \<Longrightarrow> \<not> P (pool i) \<Longrightarrow> count_slots P pool xs < length xs"
  by (simp add: count_slots_def length_filter_less)

lemma count_slots_mono:
  "(\<And>i. i \<in> set xs \<Longrightarrow> P (pool i) \<Longrightarrow> Q (pool i)) \<Longrightarrow>
   count_slots P pool xs \<le> count_slots Q pool xs"
  by (induction xs) (auto simp: count_simps)

lemma count_slots_split:
  "count_slots (\<lambda>m. P m \<and> Q m) pool xs + count_slots (\<lambda>m. P m \<and> \<not> Q m) pool xs =
   count_slots P pool xs"
  by (induction xs) (auto simp: count_simps)

lemma filter_snd_absent: "i \<notin> set (map snd xs) \<Longrightarrow> filter (\<lambda>e. snd e \<noteq> i) xs = xs"
  by (force simp: filter_id_conv)

lemma count_slots_remove:
  "distinct (map snd xs) \<Longrightarrow> i \<in> set (map snd xs) \<Longrightarrow>
   count_slots P pool (map snd (filter (\<lambda>e. snd e \<noteq> i) xs)) + of_bool (P (pool i)) =
   count_slots P pool (map snd xs)"
proof (induction xs)
  case (Cons e xs)
  show ?case
  proof (cases "snd e = i")
    case True
    with Cons.prems have "i \<notin> set (map snd xs)" by simp
    then have "filter (\<lambda>e. snd e \<noteq> i) xs = xs" by (rule filter_snd_absent)
    with True show ?thesis by (simp add: count_simps)
  next
    case False
    with Cons show ?thesis by (auto simp: count_simps)
  qed
qed simp

lemma count_slots_removed_free [count_simps]:
  assumes "\<not> P (pool i)" and "distinct (map snd xs)"
  shows "count_slots P pool (map snd (filter (\<lambda>e. snd e \<noteq> i) xs)) = count_slots P pool (map snd xs)"
proof (cases "i \<in> set (map snd xs)")
  case True
  with count_slots_remove [OF assms(2), of i P pool] assms(1) show ?thesis by simp
next
  case False
  then show ?thesis by (simp add: filter_snd_absent del: set_map)
qed

lemma length_filter_snd_neq:
  fixes xs :: "('k \<times> nat) list"
  shows "distinct (map snd xs) \<Longrightarrow> i \<in> set (map snd xs) \<Longrightarrow>
    length (filter (\<lambda>e. snd e \<noteq> i) xs) = length xs - 1"
  using count_slots_remove [of xs i "\<lambda>_. True" "\<lambda>_. ()"]
  by (simp add: count_slots_def)

end
