(* ===== verification/Throttle_Types.thy ===== *)
theory Throttle_Types
  imports Prelude
begin

text \<open>
  The data of \<open>smart_io_throttle.h\<close> and the static state of \<open>smart_io_throttle.c\<close>:
  enumerations, the action, the completion sample, the state snapshot, the request
  metadata, the per-queue context and the module-wide settings.  A pointer to a metadata
  object is the index of its slot in \<open>meta_pool\<close>; \<open>elv.priv[1]\<close> of the requests
  of the queue is the map \<open>c_elv_priv1\<close> from request pointers to slots.  The long
  context structure is a record built in steps, in the order of the C fields.
\<close>

section \<open>Enumerations\<close>

datatype rq_class = SMART_IO_RQ_FOREGROUND | SMART_IO_RQ_BACKGROUND

datatype queue_class = SMART_IO_QUEUE_HP | SMART_IO_QUEUE_RT | SMART_IO_QUEUE_BE

text \<open>Level, policy and source are range-checked by the code, so they stay raw values.\<close>

definition SMART_IO_THROTTLE_NO :: c_enum where [simp]: "SMART_IO_THROTTLE_NO = 0"
definition SMART_IO_THROTTLE_LIGHT :: c_enum where [simp]: "SMART_IO_THROTTLE_LIGHT = 1"
definition SMART_IO_THROTTLE_MEDIUM :: c_enum where [simp]: "SMART_IO_THROTTLE_MEDIUM = 2"
definition SMART_IO_THROTTLE_HEAVY :: c_enum where [simp]: "SMART_IO_THROTTLE_HEAVY = 3"
definition SMART_IO_THROTTLE_LEVEL_COUNT :: c_enum where [simp]: "SMART_IO_THROTTLE_LEVEL_COUNT = 4"

definition SMART_IO_DISPATCH_BASELINE :: c_enum where [simp]: "SMART_IO_DISPATCH_BASELINE = 0"
definition SMART_IO_DISPATCH_SEQ :: c_enum where [simp]: "SMART_IO_DISPATCH_SEQ = 1"
definition SMART_IO_DISPATCH_SMALL :: c_enum where [simp]: "SMART_IO_DISPATCH_SMALL = 2"
definition SMART_IO_DISPATCH_POLICY_COUNT :: c_enum where [simp]: "SMART_IO_DISPATCH_POLICY_COUNT = 3"

definition SMART_IO_ACTION_SOURCE_FIXED :: c_enum where [simp]: "SMART_IO_ACTION_SOURCE_FIXED = 0"
definition SMART_IO_ACTION_SOURCE_MODEL :: c_enum where [simp]: "SMART_IO_ACTION_SOURCE_MODEL = 1"
definition SMART_IO_ACTION_SOURCE_COUNT :: c_enum where [simp]: "SMART_IO_ACTION_SOURCE_COUNT = 2"

datatype feedback_state =
    SMART_IO_FEEDBACK_NONE
  | SMART_IO_FEEDBACK_WAIT_DISPATCH
  | SMART_IO_FEEDBACK_WAIT_ISSUE
  | SMART_IO_FEEDBACK_WAIT_COMPLETE

datatype gate_reason = SMART_IO_GATE_NONE | SMART_IO_GATE_INFERENCE | SMART_IO_GATE_DEPTH

datatype dispatch_selection =
    SMART_IO_SELECTION_FOREGROUND_FIFO
  | SMART_IO_SELECTION_SEQ_HIT
  | SMART_IO_SELECTION_SEQ_FALLBACK
  | SMART_IO_SELECTION_SMALL
  | SMART_IO_SELECTION_BACKGROUND_BASELINE
  | SMART_IO_SELECTION_BACKGROUND_DEADLINE

text \<open>The request operations the code names; any other operation is \<open>REQ_OP_OTHER\<close>.\<close>

datatype req_op =
    REQ_OP_READ | REQ_OP_WRITE | REQ_OP_FLUSH | REQ_OP_DISCARD | REQ_OP_SECURE_ERASE
  | REQ_OP_WRITE_ZEROES | REQ_OP_ZONE_APPEND | REQ_OP_OTHER nat

section \<open>What the kernel supplies\<close>

text \<open>
  Functions and constants of the kernel headers that the code uses and that are not part
  of the repository: the bucket a hash table key falls in, the numeric operation code, and
  the I/O priority macros.
\<close>

record kernel =
  k_bucket :: "u64 \<Rightarrow> nat"
  k_op_code :: "req_op \<Rightarrow> u8"
  k_prio_class :: "u16 \<Rightarrow> u8"
  k_prio_level :: "u16 \<Rightarrow> u16"
  k_prio_hint :: "u16 \<Rightarrow> u16"
  k_prio_value :: "u8 \<Rightarrow> u16 \<Rightarrow> u16"
  k_prio_value_hint :: "u8 \<Rightarrow> u16 \<Rightarrow> u16 \<Rightarrow> u16"
  k_class_none :: u8
  k_class_rt :: u8
  k_class_be :: u8
  k_class_idle :: u8
  k_be_norm :: u16
  k_hint_mask :: u16

text \<open>The fields of a block-layer request the code reads (and \<open>ioprio\<close>, which it writes).\<close>

record request =
  rq_ptr :: nat
  rq_q :: "nat option"
  rq_has_bio :: bool
  rq_bio_disk_name :: "string option"
  rq_q_disk_name :: "string option"
  rq_pos :: u64
  rq_sectors :: u32
  rq_bytes :: u32
  rq_op :: req_op
  rq_ioprio :: u16
  rq_use_sched :: bool
  rq_queue_depth :: u32

text \<open>The calling task and the foreground context of \<open>system_context.c\<close>.\<close>

record task_ctx =
  cur_uid :: u32
  cur_pid :: int
  cur_comm :: string
  fg_uid :: int
  fg_main_pid :: int

section \<open>Records of the throttle\<close>

definition SMART_IO_DEV_LAT_WINDOW :: nat where [simp]: "SMART_IO_DEV_LAT_WINDOW = 5"
definition SMART_IO_DEV_LAT_WINDOW_MAX_US :: u64 where [simp]: "SMART_IO_DEV_LAT_WINDOW_MAX_US = 10000"
definition SMART_IO_FEEDBACK_SAMPLE_MAX :: u8 where [simp]: "SMART_IO_FEEDBACK_SAMPLE_MAX = 5"
definition SMART_IO_INFERENCE_TIMEOUT_MS :: u64 where [simp]: "SMART_IO_INFERENCE_TIMEOUT_MS = 3"
definition SMART_IO_DEV_NAME_LEN :: nat where [simp]: "SMART_IO_DEV_NAME_LEN = 32"

record action =
  act_level :: c_enum
  act_policy :: c_enum
  act_ratio_pct :: u32
  act_queue_max :: u32
  act_target_depth :: u32
  act_decision_id :: u64

record completion_sample =
  smp_complete_ts_ns :: u64
  smp_dev_lat_us :: u32
  smp_is_fg :: bool

record state_snapshot =
  st_decision_ts_ns :: u64
  st_device_q_count :: u32
  st_reserved_depth_count :: u32
  st_device_q_fg_count :: u32
  st_device_q_slow_count :: u32
  st_queue_max :: u32
  st_dev_lat_threshold_us :: u32
  st_window_complete_count :: u32
  st_window_mean_dev_us :: u32
  st_window_span_us :: u32
  st_window_slow_count :: u32
  st_window_fg_complete_count :: u32
  st_waiting_total_count :: u32
  st_waiting_count :: u32
  st_waiting_fg :: u32
  st_waiting_high_ioprio_count :: u32
  st_waiting_to_issued_contiguous_count :: u32

record rq_meta =
  m_rq :: "nat option"
  m_class :: rq_class
  m_queue_class :: queue_class
  m_op :: req_op
  m_start_sector :: u64
  m_end_sector :: u64
  m_rq_id :: u64
  m_issue_ts_ns :: u64
  m_issue_session_id :: u64
  m_dispatch_decision_id :: u64
  m_queued_ts_ns :: u64
  m_tag_depth_max :: u32
  m_queued :: bool
  m_depth_accounted :: bool
  m_bg_depth_accounted :: bool
  m_issued_accounted :: bool
  m_inflight_indexed :: bool
  m_feedback_bound :: bool
  m_completion_sampled :: bool
  m_deadline_forced :: bool
  m_high_ioprio :: bool
  m_device_time_excluded :: bool

text \<open>
  The per-queue context.  A hash table is the list of its nodes, newest first, each with
  the key it was added under (\<open>hash_add\<close> inserts at the head of its bucket).
\<close>

record ctx_pool =
  c_queue :: nat
  c_elv_priv1 :: "nat \<Rightarrow> nat option"
  c_free_meta :: "nat list"
  c_meta_pool :: "nat \<Rightarrow> rq_meta"
  c_meta_capacity :: u32
  c_meta_inuse :: u32
  c_active :: "(u64 \<times> nat) list"
  c_inflight :: "(u64 \<times> nat) list"
  c_inflight_start :: "(u64 \<times> nat) list"

record ctx_depths = ctx_pool +
  c_dying :: bool
  c_throttle_active :: bool
  c_inference_pending :: bool
  c_action_valid :: bool
  c_gate_blocked :: bool
  c_deadline_forced_active :: bool
  c_gate_reason :: gate_reason
  c_feedback_state :: feedback_state
  c_current_depth :: u32
  c_bg_current_depth :: u32
  c_issued_depth :: u32
  c_pending_fg :: u32
  c_pending_bg :: u32
  c_dev_lat :: "completion_sample list"
  c_dev_lat_head :: u8
  c_dev_lat_count :: u8

record ctx_control = ctx_depths +
  c_session_id :: u64
  c_control_id :: u64
  c_decision_id :: u64
  c_next_rq_id :: u64
  c_action :: action
  c_feedback_meta :: "nat option"
  c_feedback_dispatch_ts_ns :: u64
  c_feedback_issue_ts_ns :: u64
  c_feedback_vote_count :: u8
  c_feedback_total_dev_lat_us :: u64
  c_feedback_max_dev_lat_us :: u32

record ctx_pending = ctx_control +
  c_pending_session_id :: u64
  c_pending_control_id :: u64
  c_pending_decision_id :: u64
  c_pending_source :: c_enum
  c_pending_fixed_action :: action
  c_pending_state :: state_snapshot
  c_pending_state_valid :: bool
  c_pending_light_pct :: u32
  c_pending_medium_pct :: u32
  c_pending_heavy_pct :: u32
  c_inference_timed_out :: bool
  c_inference_running :: bool
  c_model_trigger_ts_ns :: u64
  c_model_submit_ts_ns :: u64
  c_model_thread_start_ts_ns :: u64
  c_model_state_ts_ns :: u64
  c_model_predict_start_ts_ns :: u64
  c_model_predict_end_ts_ns :: u64
  c_model_action_apply_ts_ns :: u64
  c_model_post_apply_pending :: bool

record throttle_ctx = ctx_pending +
  c_inference_count :: u64
  c_timeout_count :: u64
  c_invalid_result_count :: u64
  c_fg_dispatched :: u64
  c_bg_dispatched :: u64
  c_bg_blocked :: u64
  c_bg_deadline_forced :: u64
  c_baseline_hits :: u64
  c_seq_hits :: u64
  c_seq_fallbacks :: u64
  c_small_hits :: u64
  c_depth_anomalies :: u64
  c_feedback_rebind_count :: u64
  c_allocation_failures :: u64

section \<open>Module-wide settings\<close>

record throttle_config =
  cfg_light_pct :: u32
  cfg_medium_pct :: u32
  cfg_heavy_pct :: u32
  cfg_source :: c_enum
  cfg_fixed_action :: action

text \<open>
  The atomic variables hold C \<open>int\<close> values.
\<close>

record throttle_globals =
  g_throttle_enabled :: int
  g_queue_rq_throttle_demo :: int
  g_ux_hp_enabled :: int
  g_rt_read_hp_enabled :: int
  g_dev_lat_threshold_us :: int
  g_background_deadline_ms :: int
  g_config :: throttle_config
  g_rawdata_trace_enabled :: int

definition zero_action :: action where
  "zero_action = \<lparr>act_level = 0, act_policy = 0, act_ratio_pct = 0, act_queue_max = 0,
     act_target_depth = 0, act_decision_id = 0\<rparr>"

definition zero_sample :: completion_sample where
  "zero_sample = \<lparr>smp_complete_ts_ns = 0, smp_dev_lat_us = 0, smp_is_fg = False\<rparr>"

definition zero_snapshot :: state_snapshot where
  "zero_snapshot = \<lparr>st_decision_ts_ns = 0, st_device_q_count = 0, st_reserved_depth_count = 0,
     st_device_q_fg_count = 0, st_device_q_slow_count = 0, st_queue_max = 0,
     st_dev_lat_threshold_us = 0, st_window_complete_count = 0, st_window_mean_dev_us = 0,
     st_window_span_us = 0, st_window_slow_count = 0, st_window_fg_complete_count = 0,
     st_waiting_total_count = 0, st_waiting_count = 0, st_waiting_fg = 0,
     st_waiting_high_ioprio_count = 0, st_waiting_to_issued_contiguous_count = 0\<rparr>"

text \<open>A metadata object after \<open>memset\<close> to zero (the first enumerators are zero).\<close>

definition zero_meta :: rq_meta where
  "zero_meta = \<lparr>m_rq = None, m_class = SMART_IO_RQ_FOREGROUND, m_queue_class = SMART_IO_QUEUE_HP,
     m_op = REQ_OP_READ, m_start_sector = 0, m_end_sector = 0, m_rq_id = 0, m_issue_ts_ns = 0,
     m_issue_session_id = 0, m_dispatch_decision_id = 0, m_queued_ts_ns = 0,
     m_tag_depth_max = 0, m_queued = False, m_depth_accounted = False,
     m_bg_depth_accounted = False, m_issued_accounted = False, m_inflight_indexed = False,
     m_feedback_bound = False, m_completion_sampled = False, m_deadline_forced = False,
     m_high_ioprio = False, m_device_time_excluded = False\<rparr>"

definition initial_globals :: throttle_globals where
  "initial_globals = \<lparr>g_throttle_enabled = 0, g_queue_rq_throttle_demo = 0, g_ux_hp_enabled = 0,
     g_rt_read_hp_enabled = 0, g_dev_lat_threshold_us = 600, g_background_deadline_ms = 2000,
     g_config = \<lparr>cfg_light_pct = 75, cfg_medium_pct = 50, cfg_heavy_pct = 25,
       cfg_source = SMART_IO_ACTION_SOURCE_FIXED,
       cfg_fixed_action = zero_action\<lparr>act_level := SMART_IO_THROTTLE_MEDIUM,
         act_policy := SMART_IO_DISPATCH_BASELINE\<rparr>\<rparr>,
     g_rawdata_trace_enabled = 0\<rparr>"

section \<open>Effects\<close>

text \<open>
  What a handler does outside its own state: running the hardware queues, arming and
  cancelling the inference timer, queueing work, waking the model thread, signalling the
  completion \<open>model_thread_idle\<close>, and emitting a raw trace line (its event name and the
  named values of its format string).
\<close>

datatype tval = TN nat | TZ int | TS string | TP "nat option"

datatype effect =
    RunHwQueues nat
  | TimerStart u64
  | TimerCancel
  | QueueInferenceWork
  | QueueTimeoutWork
  | CancelWorkSync
  | WakeModelThread
  | ModelThreadIdle
  | Emit string "(string \<times> tval) list"

end
