(* ===== verification/Throttle_Meta.thy ===== *)
theory Throttle_Meta
  imports Throttle_Types
begin

text \<open>
  The lower layer of \<open>smart_io_throttle.c\<close>: names, I/O priority and queue selection,
  pending counters, in-flight index, feedback binding, the fallback to the baseline
  action, metadata allocation and the depth reservations.  Every function that runs under
  \<open>ctx->lock\<close> takes the context and returns the updated one.
\<close>

section \<open>Names\<close>

definition smart_io_throttle_level_name :: "c_enum \<Rightarrow> string" where
  "smart_io_throttle_level_name level =
     (if level \<ge> SMART_IO_THROTTLE_LEVEL_COUNT then ''INVALID''
      else [''NO'', ''LIGHT'', ''MEDIUM'', ''HEAVY''] ! level)"

definition smart_io_dispatch_policy_name :: "c_enum \<Rightarrow> string" where
  "smart_io_dispatch_policy_name policy =
     (if policy \<ge> SMART_IO_DISPATCH_POLICY_COUNT then ''INVALID''
      else [''BASELINE'', ''SEQ'', ''SMALL''] ! policy)"

definition smart_io_action_source_name :: "c_enum \<Rightarrow> string" where
  "smart_io_action_source_name source =
     (if source \<ge> SMART_IO_ACTION_SOURCE_COUNT then ''invalid''
      else [''fixed'', ''model''] ! source)"

fun smart_io_gate_reason_name :: "gate_reason \<Rightarrow> string" where
  "smart_io_gate_reason_name SMART_IO_GATE_NONE = ''none''"
| "smart_io_gate_reason_name SMART_IO_GATE_INFERENCE = ''inference''"
| "smart_io_gate_reason_name SMART_IO_GATE_DEPTH = ''depth''"

fun smart_io_feedback_state_name :: "feedback_state \<Rightarrow> string" where
  "smart_io_feedback_state_name SMART_IO_FEEDBACK_NONE = ''none''"
| "smart_io_feedback_state_name SMART_IO_FEEDBACK_WAIT_DISPATCH = ''wait_dispatch''"
| "smart_io_feedback_state_name SMART_IO_FEEDBACK_WAIT_ISSUE = ''wait_issue''"
| "smart_io_feedback_state_name SMART_IO_FEEDBACK_WAIT_COMPLETE = ''wait_complete''"

fun selection_names :: "dispatch_selection \<Rightarrow> string" where
  "selection_names SMART_IO_SELECTION_FOREGROUND_FIFO = ''fg_fifo''"
| "selection_names SMART_IO_SELECTION_SEQ_HIT = ''seq_hit''"
| "selection_names SMART_IO_SELECTION_SEQ_FALLBACK = ''seq_fallback''"
| "selection_names SMART_IO_SELECTION_SMALL = ''small''"
| "selection_names SMART_IO_SELECTION_BACKGROUND_BASELINE = ''bg_baseline''"
| "selection_names SMART_IO_SELECTION_BACKGROUND_DEADLINE = ''bg_deadline''"

section \<open>Settings\<close>

definition smart_io_throttle_enabled :: "throttle_globals \<Rightarrow> bool" where
  "smart_io_throttle_enabled g \<longleftrightarrow> g_throttle_enabled g \<noteq> 0"

definition smart_io_throttle_get_queue_rq_demo :: "throttle_globals \<Rightarrow> bool" where
  "smart_io_throttle_get_queue_rq_demo g \<longleftrightarrow> g_queue_rq_throttle_demo g \<noteq> 0"

definition smart_io_throttle_get_dev_lat_threshold :: "throttle_globals \<Rightarrow> u32" where
  "smart_io_throttle_get_dev_lat_threshold g = word_of_int (g_dev_lat_threshold_us g)"

definition smart_io_throttle_get_background_deadline_ms :: "throttle_globals \<Rightarrow> u32" where
  "smart_io_throttle_get_background_deadline_ms g = word_of_int (g_background_deadline_ms g)"

section \<open>Device name and loop devices\<close>

text \<open>\<open>extract_device_name\<close> of \<open>block_helper.c\<close>: the name buffer after the call.\<close>

definition extract_device_name :: "request \<Rightarrow> string \<Rightarrow> nat \<Rightarrow> string" where
  "extract_device_name rq dev_name dev_name_len =
     (case (if rq_has_bio rq then rq_bio_disk_name rq else None) of
        Some n \<Rightarrow> strscpy n dev_name_len
      | None \<Rightarrow> (case (if rq_q rq \<noteq> None then rq_q_disk_name rq else None) of
                   Some n \<Rightarrow> strscpy n dev_name_len
                 | None \<Rightarrow> dev_name))"

text \<open>Returns the verdict and the queue depth written to \<open>tag_depth_max\<close>.\<close>

definition smart_io_throttle_device_time_excluded :: "request option \<Rightarrow> bool \<times> u32" where
  "smart_io_throttle_device_time_excluded rqo =
     (case rqo of
        None \<Rightarrow> (False, 0)
      | Some rq \<Rightarrow>
          (take 4 (extract_device_name rq ''unknown'' SMART_IO_DEV_NAME_LEN) = ''loop'',
           if rq_q rq \<noteq> None then rq_queue_depth rq else 0))"

section \<open>I/O priority and queue selection\<close>

definition smart_io_throttle_is_hp_ioprio :: "kernel \<Rightarrow> u16 \<Rightarrow> bool" where
  "smart_io_throttle_is_hp_ioprio K ioprio \<longleftrightarrow> k_prio_hint K ioprio = k_hint_mask K"

definition smart_io_throttle_add_hp_hint :: "kernel \<Rightarrow> u16 \<Rightarrow> u16" where
  "smart_io_throttle_add_hp_hint K ioprio =
     (let cl = k_prio_class K ioprio in
      if cl > k_class_idle K then ioprio
      else let (cl, ioprio) =
             (if cl = k_class_none K
              then (k_class_be K, k_prio_value K (k_class_be K) (k_be_norm K))
              else (cl, ioprio))
           in k_prio_value_hint K cl (k_prio_level K ioprio) (k_hint_mask K))"

definition smart_io_throttle_queue_from_ioprio :: "kernel \<Rightarrow> u16 \<Rightarrow> queue_class" where
  "smart_io_throttle_queue_from_ioprio K ioprio =
     (if k_prio_class K ioprio = k_class_rt K then SMART_IO_QUEUE_RT else SMART_IO_QUEUE_BE)"

definition smart_io_throttle_current_uid_is_fg :: "task_ctx \<Rightarrow> bool" where
  "smart_io_throttle_current_uid_is_fg t \<longleftrightarrow>
     0 \<le> fg_uid t \<and> cur_uid t = word_of_int (fg_uid t)"

definition smart_io_throttle_current_can_mark_hp :: "throttle_globals \<Rightarrow> task_ctx \<Rightarrow> bool" where
  "smart_io_throttle_current_can_mark_hp g t \<longleftrightarrow>
     (if \<not> smart_io_throttle_current_uid_is_fg t then False
      else if g_ux_hp_enabled g = 0 then True
      else cur_pid t = fg_main_pid t \<or> strstr (cur_comm t) ''RenderThread'' \<or>
           strstr (cur_comm t) ''GLThread'')"

definition smart_io_throttle_rt_read_can_mark_hp ::
  "kernel \<Rightarrow> throttle_globals \<Rightarrow> u16 \<Rightarrow> req_op \<Rightarrow> bool" where
  "smart_io_throttle_rt_read_can_mark_hp K g ioprio op \<longleftrightarrow>
     g_rt_read_hp_enabled g \<noteq> 0 \<and> k_prio_class K ioprio = k_class_rt K \<and> op = REQ_OP_READ"

text \<open>The queue class of a priority and an operation, shared by requests and bios.\<close>

definition smart_io_throttle_select_bio_queue ::
  "kernel \<Rightarrow> throttle_globals \<Rightarrow> task_ctx \<Rightarrow> (u16 \<times> req_op) option \<Rightarrow> queue_class" where
  "smart_io_throttle_select_bio_queue K g t bio =
     (case bio of
        None \<Rightarrow> SMART_IO_QUEUE_BE
      | Some (ioprio, op) \<Rightarrow>
          if smart_io_throttle_is_hp_ioprio K ioprio then SMART_IO_QUEUE_HP
          else if smart_io_throttle_current_can_mark_hp g t \<or>
                  smart_io_throttle_rt_read_can_mark_hp K g ioprio op
          then SMART_IO_QUEUE_HP
          else smart_io_throttle_queue_from_ioprio K ioprio)"

definition smart_io_throttle_rq_meta :: "throttle_ctx \<Rightarrow> request \<Rightarrow> nat option" where
  "smart_io_throttle_rq_meta c rq = c_elv_priv1 c (rq_ptr rq)"

definition smart_io_throttle_set_rq_meta :: "request \<Rightarrow> nat option \<Rightarrow> throttle_ctx \<Rightarrow> throttle_ctx" where
  "smart_io_throttle_set_rq_meta rq mo c = c\<lparr>c_elv_priv1 := (c_elv_priv1 c)(rq_ptr rq := mo)\<rparr>"

definition smart_io_throttle_select_queue ::
  "kernel \<Rightarrow> throttle_globals \<Rightarrow> task_ctx \<Rightarrow> throttle_ctx \<Rightarrow> request option \<Rightarrow> queue_class" where
  "smart_io_throttle_select_queue K g t c rqo =
     (case rqo of
        None \<Rightarrow> smart_io_throttle_queue_from_ioprio K 0
      | Some rq \<Rightarrow>
         (case smart_io_throttle_rq_meta c rq of
            Some i \<Rightarrow> m_queue_class (c_meta_pool c i)
          | None \<Rightarrow>
             if smart_io_throttle_is_hp_ioprio K (rq_ioprio rq) then SMART_IO_QUEUE_HP
             else if smart_io_throttle_current_can_mark_hp g t \<or>
                     smart_io_throttle_rt_read_can_mark_hp K g (rq_ioprio rq) (rq_op rq)
             then SMART_IO_QUEUE_HP
             else smart_io_throttle_queue_from_ioprio K (rq_ioprio rq)))"

text \<open>The new priority of a bio, and the request with its new priority.\<close>

definition smart_io_throttle_mark_bio_hp ::
  "kernel \<Rightarrow> throttle_globals \<Rightarrow> task_ctx \<Rightarrow> (u16 \<times> req_op) option \<Rightarrow> (u16 \<times> req_op) option" where
  "smart_io_throttle_mark_bio_hp K g t bio =
     (case bio of
        None \<Rightarrow> None
      | Some (ioprio, op) \<Rightarrow>
          if \<not> (smart_io_throttle_current_can_mark_hp g t \<or>
                smart_io_throttle_rt_read_can_mark_hp K g ioprio op)
          then Some (ioprio, op)
          else Some (smart_io_throttle_add_hp_hint K ioprio, op))"

definition smart_io_throttle_mark_request_hp :: "kernel \<Rightarrow> request \<Rightarrow> request" where
  "smart_io_throttle_mark_request_hp K rq =
     (if smart_io_throttle_is_hp_ioprio K (rq_ioprio rq) then rq
      else rq\<lparr>rq_ioprio := smart_io_throttle_add_hp_hint K (rq_ioprio rq)\<rparr>)"

definition smart_io_throttle_class_for_queue :: "queue_class \<Rightarrow> rq_class" where
  "smart_io_throttle_class_for_queue q =
     (if q = SMART_IO_QUEUE_HP then SMART_IO_RQ_FOREGROUND else SMART_IO_RQ_BACKGROUND)"

definition smart_io_throttle_rq_class :: "throttle_ctx \<Rightarrow> request option \<Rightarrow> rq_class" where
  "smart_io_throttle_rq_class c rqo =
     (case rqo of
        None \<Rightarrow> SMART_IO_RQ_BACKGROUND
      | Some rq \<Rightarrow> (case smart_io_throttle_rq_meta c rq of
                     Some i \<Rightarrow> m_class (c_meta_pool c i)
                   | None \<Rightarrow> SMART_IO_RQ_BACKGROUND))"

section \<open>Pending counters\<close>

definition upd_meta :: "nat \<Rightarrow> (rq_meta \<Rightarrow> rq_meta) \<Rightarrow> throttle_ctx \<Rightarrow> throttle_ctx" where
  "upd_meta i f c = c\<lparr>c_meta_pool := (c_meta_pool c)(i := f (c_meta_pool c i))\<rparr>"

definition count_anomaly :: "throttle_ctx \<Rightarrow> throttle_ctx" where
  "count_anomaly c = c\<lparr>c_depth_anomalies := c_depth_anomalies c + 1\<rparr>"

fun smart_io_throttle_pending_counter :: "throttle_ctx \<Rightarrow> rq_class \<Rightarrow> u32" where
  "smart_io_throttle_pending_counter c SMART_IO_RQ_FOREGROUND = c_pending_fg c"
| "smart_io_throttle_pending_counter c SMART_IO_RQ_BACKGROUND = c_pending_bg c"

fun set_pending_counter :: "rq_class \<Rightarrow> u32 \<Rightarrow> throttle_ctx \<Rightarrow> throttle_ctx" where
  "set_pending_counter SMART_IO_RQ_FOREGROUND v c = c\<lparr>c_pending_fg := v\<rparr>"
| "set_pending_counter SMART_IO_RQ_BACKGROUND v c = c\<lparr>c_pending_bg := v\<rparr>"

definition smart_io_throttle_pending_inc_locked ::
  "throttle_globals \<Rightarrow> u64 \<Rightarrow> nat \<Rightarrow> throttle_ctx \<Rightarrow> throttle_ctx" where
  "smart_io_throttle_pending_inc_locked g now i c =
     (let m = c_meta_pool c i; pending = smart_io_throttle_pending_counter c (m_class m) in
      if m_queued m then c
      else if pending = u32_max then count_anomaly c
      else upd_meta i (\<lambda>m. m\<lparr>m_queued := True,
               m_queued_ts_ns := (if m_class m = SMART_IO_RQ_BACKGROUND \<and> smart_io_throttle_enabled g
                                  then now else m_queued_ts_ns m)\<rparr>)
             (set_pending_counter (m_class m) (pending + 1) c))"

definition smart_io_throttle_pending_dec_locked :: "nat option \<Rightarrow> throttle_ctx \<Rightarrow> throttle_ctx" where
  "smart_io_throttle_pending_dec_locked mo c =
     (case mo of
        None \<Rightarrow> c
      | Some i \<Rightarrow>
         (let m = c_meta_pool c i; pending = smart_io_throttle_pending_counter c (m_class m) in
          if \<not> m_queued m then c
          else upd_meta i (\<lambda>m. m\<lparr>m_queued := False, m_queued_ts_ns := 0\<rparr>)
                 (if pending = 0 then count_anomaly c
                  else set_pending_counter (m_class m) (pending - 1) c)))"

section \<open>Hash tables\<close>

text \<open>The chain \<open>hash_for_each_possible\<close> walks, \<open>hash_add\<close> and \<open>hash_del\<close>.\<close>

definition hash_chain :: "kernel \<Rightarrow> (u64 \<times> nat) list \<Rightarrow> u64 \<Rightarrow> nat list" where
  "hash_chain K tbl key = map snd (filter (\<lambda>e. k_bucket K (fst e) = k_bucket K key) tbl)"

definition hash_add :: "u64 \<Rightarrow> nat \<Rightarrow> (u64 \<times> nat) list \<Rightarrow> (u64 \<times> nat) list" where
  "hash_add key i tbl = (key, i) # tbl"

definition hash_del :: "nat \<Rightarrow> (u64 \<times> nat) list \<Rightarrow> (u64 \<times> nat) list" where
  "hash_del i tbl = filter (\<lambda>e. snd e \<noteq> i) tbl"

definition hash_slots :: "(u64 \<times> nat) list \<Rightarrow> nat list" where
  "hash_slots tbl = map snd tbl"

lemma hash_slots_add [simp]: "hash_slots (hash_add k i t) = i # hash_slots t"
  by (simp add: hash_slots_def hash_add_def)

lemma hash_slots_del [simp]: "set (hash_slots (hash_del i t)) = set (hash_slots t) - {i}"
  by (auto simp: hash_slots_def hash_del_def)

lemma hash_slots_Nil [simp]: "hash_slots [] = []"
  by (simp add: hash_slots_def)

lemma length_hash_slots [simp]: "length (hash_slots t) = length t"
  by (simp add: hash_slots_def)

lemma length_hash_add [simp]: "length (hash_add k i t) = Suc (length t)"
  by (simp add: hash_add_def)

lemma distinct_hash_del: "distinct (hash_slots t) \<Longrightarrow> distinct (hash_slots (hash_del i t))"
  by (simp add: hash_slots_def hash_del_def distinct_map_filter)

lemma hash_del_absent: "i \<notin> set (hash_slots t) \<Longrightarrow> hash_del i t = t"
  unfolding hash_slots_def hash_del_def by (rule filter_snd_absent)

lemma length_hash_del:
  "distinct (hash_slots t) \<Longrightarrow> i \<in> set (hash_slots t) \<Longrightarrow> length (hash_del i t) = length t - 1"
  unfolding hash_slots_def hash_del_def by (rule length_filter_snd_neq)

lemma count_slots_hash_del:
  "distinct (hash_slots t) \<Longrightarrow> i \<in> set (hash_slots t) \<Longrightarrow>
   count_slots P pool (hash_slots (hash_del i t)) + of_bool (P (pool i)) =
   count_slots P pool (hash_slots t)"
  unfolding hash_slots_def hash_del_def by (rule count_slots_remove)

lemma set_hash_chain: "set (hash_chain K t key) \<subseteq> set (hash_slots t)"
  by (auto simp: hash_chain_def hash_slots_def)

lemma length_hash_chain: "length (hash_chain K t key) \<le> length t"
  by (simp add: hash_chain_def)

definition rq_key :: "nat \<Rightarrow> u64" where
  "rq_key p = word_of_nat p"

definition smart_io_throttle_inflight_key :: "kernel \<Rightarrow> req_op \<Rightarrow> u64 \<Rightarrow> u64" where
  "smart_io_throttle_inflight_key K op end_sector =
     push_bit 8 end_sector OR ucast (k_op_code K op)"

section \<open>In-flight index\<close>

definition smart_io_throttle_inflight_remove_locked :: "nat option \<Rightarrow> throttle_ctx \<Rightarrow> throttle_ctx" where
  "smart_io_throttle_inflight_remove_locked mo c =
     (case mo of
        None \<Rightarrow> c
      | Some i \<Rightarrow>
          if \<not> m_inflight_indexed (c_meta_pool c i) then c
          else upd_meta i (\<lambda>m. m\<lparr>m_inflight_indexed := False\<rparr>)
                 (c\<lparr>c_inflight := hash_del i (c_inflight c),
                    c_inflight_start := hash_del i (c_inflight_start c)\<rparr>))"

definition smart_io_throttle_inflight_add_locked ::
  "kernel \<Rightarrow> nat option \<Rightarrow> request \<Rightarrow> throttle_ctx \<Rightarrow> throttle_ctx" where
  "smart_io_throttle_inflight_add_locked K mo rq c =
     (case mo of
        None \<Rightarrow> c
      | Some i \<Rightarrow>
         (let m = c_meta_pool c i;
              start_sector = rq_pos rq;
              end_sector = start_sector + ucast (rq_sectors rq) in
          if m_inflight_indexed m \<or> (m_op m \<noteq> REQ_OP_READ \<and> m_op m \<noteq> REQ_OP_WRITE) then c
          else upd_meta i (\<lambda>m. m\<lparr>m_start_sector := start_sector, m_end_sector := end_sector,
                               m_inflight_indexed := True\<rparr>)
                 (c\<lparr>c_inflight := hash_add (smart_io_throttle_inflight_key K (m_op m) end_sector) i
                                   (c_inflight c),
                    c_inflight_start := hash_add (smart_io_throttle_inflight_key K (m_op m) start_sector) i
                                   (c_inflight_start c)\<rparr>)))"

section \<open>Feedback binding and fallback\<close>

definition smart_io_throttle_clear_feedback_binding_locked :: "throttle_ctx \<Rightarrow> throttle_ctx" where
  "smart_io_throttle_clear_feedback_binding_locked c =
     (case c_feedback_meta c of
        Some i \<Rightarrow> upd_meta i (\<lambda>m. m\<lparr>m_feedback_bound := False\<rparr>) c
      | None \<Rightarrow> c)
     \<lparr>c_feedback_meta := None, c_feedback_dispatch_ts_ns := 0, c_feedback_issue_ts_ns := 0,
      c_feedback_state := SMART_IO_FEEDBACK_NONE\<rparr>"

definition smart_io_throttle_reset_feedback_locked :: "throttle_ctx \<Rightarrow> throttle_ctx" where
  "smart_io_throttle_reset_feedback_locked c =
     (smart_io_throttle_clear_feedback_binding_locked c)
     \<lparr>c_feedback_vote_count := 0, c_feedback_total_dev_lat_us := 0, c_feedback_max_dev_lat_us := 0\<rparr>"

definition smart_io_throttle_feedback_mean_locked :: "throttle_ctx \<Rightarrow> u32" where
  "smart_io_throttle_feedback_mean_locked c =
     (if c_feedback_vote_count c = 0 then 0
      else ucast (min (c_feedback_total_dev_lat_us c div ucast (c_feedback_vote_count c)) (ucast u32_max)))"

definition smart_io_throttle_reset_window_locked :: "throttle_ctx \<Rightarrow> throttle_ctx" where
  "smart_io_throttle_reset_window_locked c =
     c\<lparr>c_dev_lat := replicate SMART_IO_DEV_LAT_WINDOW zero_sample, c_dev_lat_head := 0,
       c_dev_lat_count := 0\<rparr>"

definition smart_io_throttle_set_baseline_action_locked :: "throttle_ctx \<Rightarrow> throttle_ctx" where
  "smart_io_throttle_set_baseline_action_locked c =
     c\<lparr>c_action := \<lparr>act_level = SMART_IO_THROTTLE_NO, act_policy = SMART_IO_DISPATCH_BASELINE,
        act_ratio_pct = 0, act_queue_max = 0, act_target_depth = 0, act_decision_id = 0\<rparr>\<rparr>"

text \<open>Returns the new context and whether the hardware queues must be woken.\<close>

definition smart_io_throttle_fallback_locked :: "throttle_ctx \<Rightarrow> throttle_ctx \<times> bool" where
  "smart_io_throttle_fallback_locked c =
     (let wake = c_gate_blocked c;
          c = c\<lparr>c_throttle_active := False, c_inference_pending := False,
                c_inference_timed_out := False, c_inference_running := False,
                c_action_valid := False, c_pending_state_valid := False,
                c_model_post_apply_pending := False, c_gate_blocked := False,
                c_gate_reason := SMART_IO_GATE_NONE\<rparr>;
          c = smart_io_throttle_reset_feedback_locked c;
          c = smart_io_throttle_reset_window_locked c;
          c = smart_io_throttle_set_baseline_action_locked c
      in (c, wake))"

abbreviation fallback :: "throttle_ctx \<Rightarrow> throttle_ctx" where
  "fallback c \<equiv> fst (smart_io_throttle_fallback_locked c)"

definition smart_io_throttle_depth_can_run_locked :: "throttle_ctx \<Rightarrow> bool" where
  "smart_io_throttle_depth_can_run_locked c \<longleftrightarrow>
     (if \<not> c_throttle_active c \<or> \<not> c_action_valid c \<or>
         act_level (c_action c) = SMART_IO_THROTTLE_NO then True
      else c_bg_current_depth c < act_target_depth (c_action c))"

section \<open>Metadata objects\<close>

definition smart_io_throttle_find_meta_locked ::
  "kernel \<Rightarrow> throttle_ctx \<Rightarrow> request \<Rightarrow> nat option" where
  "smart_io_throttle_find_meta_locked K c rq =
     scan_possible (c_meta_capacity c) (\<lambda>i. m_rq (c_meta_pool c i) = Some (rq_ptr rq))
       (hash_chain K (c_active c) (rq_key (rq_ptr rq)))"

definition fresh_meta :: "kernel \<Rightarrow> request \<Rightarrow> rq_class \<Rightarrow> u64 \<Rightarrow> rq_meta" where
  "fresh_meta K rq cl rq_id = zero_meta\<lparr>m_rq := Some (rq_ptr rq), m_class := cl, m_op := rq_op rq,
     m_start_sector := rq_pos rq, m_end_sector := rq_pos rq + ucast (rq_sectors rq),
     m_device_time_excluded := fst (smart_io_throttle_device_time_excluded (Some rq)),
     m_tag_depth_max := snd (smart_io_throttle_device_time_excluded (Some rq)),
     m_high_ioprio := (k_prio_class K (rq_ioprio rq) = k_class_rt K),
     m_rq_id := rq_id\<rparr>"

definition smart_io_throttle_alloc_meta_locked ::
  "kernel \<Rightarrow> request \<Rightarrow> rq_class \<Rightarrow> throttle_ctx \<Rightarrow> throttle_ctx \<times> nat option" where
  "smart_io_throttle_alloc_meta_locked K rq cl c =
     (case c_free_meta c of
        [] \<Rightarrow> (fallback (count_anomaly (c\<lparr>c_allocation_failures := c_allocation_failures c + 1\<rparr>)), None)
      | i # rest \<Rightarrow>
         (let c = upd_meta i (\<lambda>_. fresh_meta K rq cl (c_next_rq_id c + 1))
                    (c\<lparr>c_free_meta := rest, c_next_rq_id := c_next_rq_id c + 1,
                       c_active := hash_add (rq_key (rq_ptr rq)) i (c_active c),
                       c_meta_inuse := c_meta_inuse c + 1\<rparr>)
          in ((if rq_use_sched rq then smart_io_throttle_set_rq_meta rq (Some i) c else c), Some i)))"

definition smart_io_throttle_free_meta_locked ::
  "request option \<Rightarrow> nat option \<Rightarrow> throttle_ctx \<Rightarrow> throttle_ctx" where
  "smart_io_throttle_free_meta_locked rqo mo c =
     (case mo of
        None \<Rightarrow> c
      | Some i \<Rightarrow>
         if c_meta_inuse c = 0 then fallback (count_anomaly c)
         else
         (let c = smart_io_throttle_pending_dec_locked (Some i) c;
              c = smart_io_throttle_inflight_remove_locked (Some i) c;
              c = (if c_feedback_meta c = Some i then smart_io_throttle_reset_feedback_locked c else c);
              c = (case rqo of
                     Some rq \<Rightarrow> if rq_use_sched rq \<and> smart_io_throttle_rq_meta c rq = Some i
                                then smart_io_throttle_set_rq_meta rq None c else c
                   | None \<Rightarrow> c);
              c = (if i \<in> set (hash_slots (c_active c))
                   then c\<lparr>c_active := hash_del i (c_active c)\<rparr> else c);
              c = c\<lparr>c_meta_inuse := c_meta_inuse c - 1\<rparr>;
              c = upd_meta i (\<lambda>_. zero_meta) c
          in c\<lparr>c_free_meta := c_free_meta c @ [i]\<rparr>))"

section \<open>Depth reservations\<close>

text \<open>
  \<open>release_depth\<close> returns the context, whether to wake the queues, and the gate reason it
  released, given the caller's current value of \<open>*released_reason\<close>.
\<close>

definition smart_io_throttle_release_depth_locked ::
  "nat option \<Rightarrow> gate_reason \<Rightarrow> throttle_ctx \<Rightarrow> throttle_ctx \<times> bool \<times> gate_reason" where
  "smart_io_throttle_release_depth_locked mo released c =
     (case mo of
        None \<Rightarrow> (c, False, released)
      | Some i \<Rightarrow>
         if \<not> m_depth_accounted (c_meta_pool c i) then (c, False, released)
         else
         (let c = upd_meta i (\<lambda>m. m\<lparr>m_depth_accounted := False\<rparr>) c in
          if c_current_depth c = 0 then
            (let c = count_anomaly c in
             (if c_throttle_active c then fallback c else c, True, released))
          else
          (let c = c\<lparr>c_current_depth := c_current_depth c - 1\<rparr>;
               bg = m_bg_depth_accounted (c_meta_pool c i);
               c = (if bg then upd_meta i (\<lambda>m. m\<lparr>m_bg_depth_accounted := False\<rparr>) c else c) in
           if bg \<and> c_bg_current_depth c = 0 then
             (let c = count_anomaly c in
              (if c_throttle_active c then fallback c else c, True, released))
           else
           (let c = (if bg then c\<lparr>c_bg_current_depth := c_bg_current_depth c - 1\<rparr> else c) in
            if c_gate_blocked c \<and> smart_io_throttle_depth_can_run_locked c then
              (c\<lparr>c_gate_blocked := False, c_gate_reason := SMART_IO_GATE_NONE\<rparr>, True, c_gate_reason c)
            else (c, False, released)))))"

definition smart_io_throttle_account_depth_locked ::
  "nat option \<Rightarrow> throttle_ctx \<Rightarrow> throttle_ctx \<times> bool" where
  "smart_io_throttle_account_depth_locked mo c =
     (case mo of
        None \<Rightarrow> (fallback (count_anomaly c), True)
      | Some i \<Rightarrow>
         (let m = c_meta_pool c i in
          if m_depth_accounted m then (fallback (count_anomaly c), True)
          else if c_current_depth c = u32_max \<or>
                  (m_queue_class m \<noteq> SMART_IO_QUEUE_HP \<and> c_bg_current_depth c = u32_max)
          then (fallback (count_anomaly c), True)
          else
          (let c = upd_meta i (\<lambda>m. m\<lparr>m_depth_accounted := True\<rparr>)
                     (c\<lparr>c_current_depth := c_current_depth c + 1\<rparr>) in
           if m_queue_class m \<noteq> SMART_IO_QUEUE_HP
           then (upd_meta i (\<lambda>m. m\<lparr>m_bg_depth_accounted := True\<rparr>)
                   (c\<lparr>c_bg_current_depth := c_bg_current_depth c + 1\<rparr>), False)
           else (c, False))))"

definition smart_io_throttle_account_issued_depth_locked ::
  "nat option \<Rightarrow> throttle_ctx \<Rightarrow> throttle_ctx \<times> bool" where
  "smart_io_throttle_account_issued_depth_locked mo c =
     (case mo of
        None \<Rightarrow> (fallback (count_anomaly c), True)
      | Some i \<Rightarrow>
          if m_issued_accounted (c_meta_pool c i) then (fallback (count_anomaly c), True)
          else if c_issued_depth c = u32_max then (fallback (count_anomaly c), True)
          else (upd_meta i (\<lambda>m. m\<lparr>m_issued_accounted := True\<rparr>)
                  (c\<lparr>c_issued_depth := c_issued_depth c + 1\<rparr>), False))"

definition smart_io_throttle_release_issued_depth_locked ::
  "nat option \<Rightarrow> throttle_ctx \<Rightarrow> throttle_ctx \<times> bool" where
  "smart_io_throttle_release_issued_depth_locked mo c =
     (case mo of
        None \<Rightarrow> (c, False)
      | Some i \<Rightarrow>
          if \<not> m_issued_accounted (c_meta_pool c i) then (c, False)
          else
          (let c = upd_meta i (\<lambda>m. m\<lparr>m_issued_accounted := False\<rparr>) c in
           if c_issued_depth c = 0 then
             (let c = count_anomaly c in
              if c_throttle_active c then smart_io_throttle_fallback_locked c else (c, False))
           else (c\<lparr>c_issued_depth := c_issued_depth c - 1\<rparr>, False)))"

definition smart_io_throttle_release_deadline_locked ::
  "nat option \<Rightarrow> throttle_ctx \<Rightarrow> throttle_ctx \<times> bool" where
  "smart_io_throttle_release_deadline_locked mo c =
     (case mo of
        None \<Rightarrow> (c, False)
      | Some i \<Rightarrow>
          if \<not> m_deadline_forced (c_meta_pool c i) then (c, False)
          else
          (let c = upd_meta i (\<lambda>m. m\<lparr>m_deadline_forced := False\<rparr>) c in
           if \<not> c_deadline_forced_active c then (count_anomaly c, False)
           else (c\<lparr>c_deadline_forced_active := False\<rparr>, True)))"

definition smart_io_throttle_invalidate_feedback_locked ::
  "nat option \<Rightarrow> throttle_ctx \<Rightarrow> throttle_ctx \<times> string option" where
  "smart_io_throttle_invalidate_feedback_locked mo c =
     (if c_feedback_meta c \<noteq> mo then (c, None)
      else
      (let result = (if c_feedback_state c = SMART_IO_FEEDBACK_WAIT_ISSUE
                     then ''invalid_preissue'' else ''invalid_requeue'');
           c = smart_io_throttle_clear_feedback_binding_locked c;
           c = (if c_throttle_active c \<and> c_action_valid c \<and> \<not> c_inference_pending c
                then c\<lparr>c_feedback_state := SMART_IO_FEEDBACK_WAIT_DISPATCH\<rparr> else c)
       in (c\<lparr>c_feedback_rebind_count := c_feedback_rebind_count c + 1\<rparr>, Some result)))"

end
