(* ===== verification/Throttle_Inv.thy ===== *)
theory Throttle_Inv
  imports Throttle_Meta
begin

text \<open>
  The accounting invariant of a throttle context and its preservation by the lower layer.
  \<open>pool_inv\<close>: every slot of the pool is either on the free list or in the active table.
  \<open>count_inv\<close>: each of the counters is the number of active metadata objects that carry
  the corresponding flag.  \<open>priv_inv\<close>: \<open>elv.priv[1]\<close> points to active metadata of the
  same request.  \<open>fb_inv\<close>: the feedback binding and its statistics.  \<open>idx_inv\<close>: the
  in-flight tables hold exactly the indexed metadata.  \<open>win_inv\<close>: shape of the ring of
  completion samples.  The collection \<open>ctx_frame\<close> (declared \<open>simp\<close>) says which
  fields do not matter.
\<close>

section \<open>The invariant\<close>

abbreviation active_slots :: "throttle_ctx \<Rightarrow> nat list" where
  "active_slots c \<equiv> hash_slots (c_active c)"

definition cnt :: "(rq_meta \<Rightarrow> bool) \<Rightarrow> throttle_ctx \<Rightarrow> nat" where
  "cnt P c = count_slots P (c_meta_pool c) (active_slots c)"

definition queued_in :: "rq_class \<Rightarrow> rq_meta \<Rightarrow> bool" where
  "queued_in cl m \<longleftrightarrow> m_queued m \<and> m_class m = cl"

definition pool_inv :: "throttle_ctx \<Rightarrow> bool" where
  "pool_inv c \<longleftrightarrow>
     distinct (active_slots c) \<and> distinct (c_free_meta c) \<and>
     set (active_slots c) \<inter> set (c_free_meta c) = {} \<and>
     set (active_slots c) \<union> set (c_free_meta c) = {..<unat (c_meta_capacity c)} \<and>
     unat (c_meta_inuse c) = length (c_active c) \<and>
     (\<forall>e \<in> set (c_active c). \<exists>p. m_rq (c_meta_pool c (snd e)) = Some p \<and> fst e = rq_key p)"

definition count_inv :: "throttle_ctx \<Rightarrow> bool" where
  "count_inv c \<longleftrightarrow>
     unat (c_pending_fg c) = cnt (queued_in SMART_IO_RQ_FOREGROUND) c \<and>
     unat (c_pending_bg c) = cnt (queued_in SMART_IO_RQ_BACKGROUND) c \<and>
     unat (c_current_depth c) = cnt m_depth_accounted c \<and>
     unat (c_bg_current_depth c) = cnt m_bg_depth_accounted c \<and>
     unat (c_issued_depth c) = cnt m_issued_accounted c \<and>
     (c_deadline_forced_active c \<longleftrightarrow> 0 < cnt m_deadline_forced c) \<and>
     cnt m_deadline_forced c \<le> 1 \<and>
     (\<forall>i \<in> set (active_slots c). m_bg_depth_accounted (c_meta_pool c i) \<longrightarrow>
        m_depth_accounted (c_meta_pool c i))"

definition priv_inv :: "throttle_ctx \<Rightarrow> bool" where
  "priv_inv c \<longleftrightarrow> (\<forall>p i. c_elv_priv1 c p = Some i \<longrightarrow>
     i \<in> set (active_slots c) \<and> m_rq (c_meta_pool c i) = Some p)"

definition fb_inv :: "throttle_ctx \<Rightarrow> bool" where
  "fb_inv c \<longleftrightarrow>
     (case c_feedback_meta c of
        None \<Rightarrow> c_feedback_state c \<in> {SMART_IO_FEEDBACK_NONE, SMART_IO_FEEDBACK_WAIT_DISPATCH}
      | Some i \<Rightarrow> i \<in> set (active_slots c) \<and>
          c_feedback_state c \<in> {SMART_IO_FEEDBACK_WAIT_ISSUE, SMART_IO_FEEDBACK_WAIT_COMPLETE}) \<and>
     (\<forall>i \<in> set (active_slots c). m_feedback_bound (c_meta_pool c i) \<longleftrightarrow> c_feedback_meta c = Some i) \<and>
     unat (c_feedback_vote_count c) \<le> 5 \<and>
     unat (c_feedback_total_dev_lat_us c) \<le>
       unat (c_feedback_vote_count c) * unat (c_feedback_max_dev_lat_us c)"

definition idx_inv :: "throttle_ctx \<Rightarrow> bool" where
  "idx_inv c \<longleftrightarrow>
     distinct (hash_slots (c_inflight c)) \<and> distinct (hash_slots (c_inflight_start c)) \<and>
     set (hash_slots (c_inflight c)) = {i \<in> set (active_slots c). m_inflight_indexed (c_meta_pool c i)} \<and>
     set (hash_slots (c_inflight_start c)) = {i \<in> set (active_slots c). m_inflight_indexed (c_meta_pool c i)}"

definition win_inv :: "throttle_ctx \<Rightarrow> bool" where
  "win_inv c \<longleftrightarrow> length (c_dev_lat c) = SMART_IO_DEV_LAT_WINDOW \<and> unat (c_dev_lat_head c) < 5 \<and>
     unat (c_dev_lat_count c) \<le> 5"

definition ctx_inv :: "throttle_ctx \<Rightarrow> bool" where
  "ctx_inv c \<longleftrightarrow> pool_inv c \<and> count_inv c \<and> priv_inv c \<and> fb_inv c \<and> idx_inv c \<and> win_inv c"

lemmas inv_defs = pool_inv_def count_inv_def priv_inv_def fb_inv_def idx_inv_def win_inv_def cnt_def

lemma ctx_invI:
  "pool_inv c \<Longrightarrow> count_inv c \<Longrightarrow> priv_inv c \<Longrightarrow> fb_inv c \<Longrightarrow> idx_inv c \<Longrightarrow> win_inv c \<Longrightarrow> ctx_inv c"
  by (simp add: ctx_inv_def)

lemma ctx_invD:
  assumes "ctx_inv c"
  shows "pool_inv c" and "count_inv c" and "priv_inv c" and "fb_inv c" and "idx_inv c" and "win_inv c"
  using assms by (simp_all add: ctx_inv_def)

section \<open>Fields outside the invariant\<close>

lemma ctx_inv_cong:
  assumes "c_elv_priv1 d = c_elv_priv1 c"
    and "c_free_meta d = c_free_meta c"
    and "c_meta_pool d = c_meta_pool c"
    and "c_meta_capacity d = c_meta_capacity c"
    and "c_meta_inuse d = c_meta_inuse c"
    and "c_active d = c_active c"
    and "c_inflight d = c_inflight c"
    and "c_inflight_start d = c_inflight_start c"
    and "c_deadline_forced_active d = c_deadline_forced_active c"
    and "c_feedback_state d = c_feedback_state c"
    and "c_current_depth d = c_current_depth c"
    and "c_bg_current_depth d = c_bg_current_depth c"
    and "c_issued_depth d = c_issued_depth c"
    and "c_pending_fg d = c_pending_fg c"
    and "c_pending_bg d = c_pending_bg c"
    and "c_dev_lat d = c_dev_lat c"
    and "c_dev_lat_head d = c_dev_lat_head c"
    and "c_dev_lat_count d = c_dev_lat_count c"
    and "c_feedback_meta d = c_feedback_meta c"
    and "c_feedback_vote_count d = c_feedback_vote_count c"
    and "c_feedback_total_dev_lat_us d = c_feedback_total_dev_lat_us c"
    and "c_feedback_max_dev_lat_us d = c_feedback_max_dev_lat_us c"
  shows "ctx_inv d = ctx_inv c"
  by (simp only: ctx_inv_def inv_defs assms)

lemma ctx_frame [simp]:
  "ctx_inv (c\<lparr>c_dying := x_c_dying\<rparr>) = ctx_inv c"
  "ctx_inv (c\<lparr>c_throttle_active := x_c_throttle_active\<rparr>) = ctx_inv c"
  "ctx_inv (c\<lparr>c_inference_pending := x_c_inference_pending\<rparr>) = ctx_inv c"
  "ctx_inv (c\<lparr>c_action_valid := x_c_action_valid\<rparr>) = ctx_inv c"
  "ctx_inv (c\<lparr>c_gate_blocked := x_c_gate_blocked\<rparr>) = ctx_inv c"
  "ctx_inv (c\<lparr>c_gate_reason := x_c_gate_reason\<rparr>) = ctx_inv c"
  "ctx_inv (c\<lparr>c_session_id := x_c_session_id\<rparr>) = ctx_inv c"
  "ctx_inv (c\<lparr>c_control_id := x_c_control_id\<rparr>) = ctx_inv c"
  "ctx_inv (c\<lparr>c_decision_id := x_c_decision_id\<rparr>) = ctx_inv c"
  "ctx_inv (c\<lparr>c_next_rq_id := x_c_next_rq_id\<rparr>) = ctx_inv c"
  "ctx_inv (c\<lparr>c_action := x_c_action\<rparr>) = ctx_inv c"
  "ctx_inv (c\<lparr>c_feedback_dispatch_ts_ns := x_c_feedback_dispatch_ts_ns\<rparr>) = ctx_inv c"
  "ctx_inv (c\<lparr>c_feedback_issue_ts_ns := x_c_feedback_issue_ts_ns\<rparr>) = ctx_inv c"
  "ctx_inv (c\<lparr>c_pending_session_id := x_c_pending_session_id\<rparr>) = ctx_inv c"
  "ctx_inv (c\<lparr>c_pending_control_id := x_c_pending_control_id\<rparr>) = ctx_inv c"
  "ctx_inv (c\<lparr>c_pending_decision_id := x_c_pending_decision_id\<rparr>) = ctx_inv c"
  "ctx_inv (c\<lparr>c_pending_source := x_c_pending_source\<rparr>) = ctx_inv c"
  "ctx_inv (c\<lparr>c_pending_fixed_action := x_c_pending_fixed_action\<rparr>) = ctx_inv c"
  "ctx_inv (c\<lparr>c_pending_state := x_c_pending_state\<rparr>) = ctx_inv c"
  "ctx_inv (c\<lparr>c_pending_state_valid := x_c_pending_state_valid\<rparr>) = ctx_inv c"
  "ctx_inv (c\<lparr>c_pending_light_pct := x_c_pending_light_pct\<rparr>) = ctx_inv c"
  "ctx_inv (c\<lparr>c_pending_medium_pct := x_c_pending_medium_pct\<rparr>) = ctx_inv c"
  "ctx_inv (c\<lparr>c_pending_heavy_pct := x_c_pending_heavy_pct\<rparr>) = ctx_inv c"
  "ctx_inv (c\<lparr>c_inference_timed_out := x_c_inference_timed_out\<rparr>) = ctx_inv c"
  "ctx_inv (c\<lparr>c_inference_running := x_c_inference_running\<rparr>) = ctx_inv c"
  "ctx_inv (c\<lparr>c_model_trigger_ts_ns := x_c_model_trigger_ts_ns\<rparr>) = ctx_inv c"
  "ctx_inv (c\<lparr>c_model_submit_ts_ns := x_c_model_submit_ts_ns\<rparr>) = ctx_inv c"
  "ctx_inv (c\<lparr>c_model_thread_start_ts_ns := x_c_model_thread_start_ts_ns\<rparr>) = ctx_inv c"
  "ctx_inv (c\<lparr>c_model_state_ts_ns := x_c_model_state_ts_ns\<rparr>) = ctx_inv c"
  "ctx_inv (c\<lparr>c_model_predict_start_ts_ns := x_c_model_predict_start_ts_ns\<rparr>) = ctx_inv c"
  "ctx_inv (c\<lparr>c_model_predict_end_ts_ns := x_c_model_predict_end_ts_ns\<rparr>) = ctx_inv c"
  "ctx_inv (c\<lparr>c_model_action_apply_ts_ns := x_c_model_action_apply_ts_ns\<rparr>) = ctx_inv c"
  "ctx_inv (c\<lparr>c_model_post_apply_pending := x_c_model_post_apply_pending\<rparr>) = ctx_inv c"
  "ctx_inv (c\<lparr>c_inference_count := x_c_inference_count\<rparr>) = ctx_inv c"
  "ctx_inv (c\<lparr>c_timeout_count := x_c_timeout_count\<rparr>) = ctx_inv c"
  "ctx_inv (c\<lparr>c_invalid_result_count := x_c_invalid_result_count\<rparr>) = ctx_inv c"
  "ctx_inv (c\<lparr>c_fg_dispatched := x_c_fg_dispatched\<rparr>) = ctx_inv c"
  "ctx_inv (c\<lparr>c_bg_dispatched := x_c_bg_dispatched\<rparr>) = ctx_inv c"
  "ctx_inv (c\<lparr>c_bg_blocked := x_c_bg_blocked\<rparr>) = ctx_inv c"
  "ctx_inv (c\<lparr>c_bg_deadline_forced := x_c_bg_deadline_forced\<rparr>) = ctx_inv c"
  "ctx_inv (c\<lparr>c_baseline_hits := x_c_baseline_hits\<rparr>) = ctx_inv c"
  "ctx_inv (c\<lparr>c_seq_hits := x_c_seq_hits\<rparr>) = ctx_inv c"
  "ctx_inv (c\<lparr>c_seq_fallbacks := x_c_seq_fallbacks\<rparr>) = ctx_inv c"
  "ctx_inv (c\<lparr>c_small_hits := x_c_small_hits\<rparr>) = ctx_inv c"
  "ctx_inv (c\<lparr>c_depth_anomalies := x_c_depth_anomalies\<rparr>) = ctx_inv c"
  "ctx_inv (c\<lparr>c_feedback_rebind_count := x_c_feedback_rebind_count\<rparr>) = ctx_inv c"
  "ctx_inv (c\<lparr>c_allocation_failures := x_c_allocation_failures\<rparr>) = ctx_inv c"
  by (rule ctx_inv_cong; simp)+

lemma count_anomaly_inv [simp]: "ctx_inv (count_anomaly c) = ctx_inv c"
  by (simp add: count_anomaly_def)

section \<open>Updates of one metadata object\<close>

text \<open>The flags the invariant looks at.\<close>

definition same_flags :: "rq_meta \<Rightarrow> rq_meta \<Rightarrow> bool" where
  "same_flags m m' \<longleftrightarrow> m_rq m = m_rq m' \<and> m_class m = m_class m' \<and> m_queued m = m_queued m' \<and>
     m_depth_accounted m = m_depth_accounted m' \<and>
     m_bg_depth_accounted m = m_bg_depth_accounted m' \<and>
     m_issued_accounted m = m_issued_accounted m' \<and>
     m_inflight_indexed m = m_inflight_indexed m' \<and>
     m_feedback_bound m = m_feedback_bound m' \<and> m_deadline_forced m = m_deadline_forced m'"

lemma upd_meta_same_flags:
  assumes "same_flags (f (c_meta_pool c i)) (c_meta_pool c i)" and "ctx_inv c"
  shows "ctx_inv (upd_meta i f c)"
proof (rule ctx_invI)
  note inv = ctx_invD [OF assms(2)] and fl = assms(1) [unfolded same_flags_def]
  show "pool_inv (upd_meta i f c)"
    using inv(1) fl by (auto simp: pool_inv_def upd_meta_def)
  show "count_inv (upd_meta i f c)"
    using inv(2) fl by (auto simp: count_inv_def upd_meta_def cnt_def queued_in_def count_slots_same)
  show "priv_inv (upd_meta i f c)"
    using inv(3) fl by (auto simp: priv_inv_def upd_meta_def)
  show "fb_inv (upd_meta i f c)"
    using inv(4) fl by (auto simp: fb_inv_def upd_meta_def split: option.splits)
  show "idx_inv (upd_meta i f c)"
    using inv(5) fl by (auto simp: idx_inv_def upd_meta_def)
  show "win_inv (upd_meta i f c)"
    using inv(6) by (simp add: win_inv_def upd_meta_def)
qed

end
