(* ===== verification/Throttle_Acct.thy ===== *)
theory Throttle_Acct
  imports Throttle_Inv
begin

text \<open>
  The operations of the lower layer keep the accounting invariant: pending counters,
  in-flight index, feedback binding, fallback, allocation and release of metadata, depth
  reservations.  Each lemma also says when the operation records no anomaly.
\<close>

section \<open>Operations that change flags and counters only\<close>

definition core_eq :: "throttle_ctx \<Rightarrow> throttle_ctx \<Rightarrow> bool" where
  "core_eq d c \<longleftrightarrow>
     c_elv_priv1 d = c_elv_priv1 c \<and> c_free_meta d = c_free_meta c \<and>
     c_meta_capacity d = c_meta_capacity c \<and> c_meta_inuse d = c_meta_inuse c \<and>
     c_active d = c_active c \<and> c_inflight d = c_inflight c \<and>
     c_inflight_start d = c_inflight_start c \<and> c_feedback_state d = c_feedback_state c \<and>
     c_feedback_meta d = c_feedback_meta c \<and>
     c_feedback_vote_count d = c_feedback_vote_count c \<and>
     c_feedback_total_dev_lat_us d = c_feedback_total_dev_lat_us c \<and>
     c_feedback_max_dev_lat_us d = c_feedback_max_dev_lat_us c \<and>
     c_dev_lat d = c_dev_lat c \<and> c_dev_lat_head d = c_dev_lat_head c \<and>
     c_dev_lat_count d = c_dev_lat_count c \<and>
     (\<forall>j. m_rq (c_meta_pool d j) = m_rq (c_meta_pool c j) \<and>
        m_inflight_indexed (c_meta_pool d j) = m_inflight_indexed (c_meta_pool c j) \<and>
        m_feedback_bound (c_meta_pool d j) = m_feedback_bound (c_meta_pool c j))"

lemma core_eq_inv:
  assumes "core_eq d c" and "ctx_inv c" and "count_inv d"
  shows "ctx_inv d"
proof (rule ctx_invI)
  note eq = assms(1) [unfolded core_eq_def] and inv = ctx_invD [OF assms(2)]
  show "pool_inv d" using inv(1) eq by (simp add: pool_inv_def)
  show "count_inv d" by (rule assms(3))
  show "priv_inv d" using inv(3) eq by (simp add: priv_inv_def)
  show "fb_inv d" using inv(4) eq by (auto simp: fb_inv_def split: option.splits)
  show "idx_inv d" using inv(5) eq by (simp add: idx_inv_def)
  show "win_inv d" using inv(6) eq by (simp add: win_inv_def)
qed

lemma ctx_inv_distinct: "ctx_inv c \<Longrightarrow> distinct (active_slots c)"
  by (simp add: ctx_inv_def pool_inv_def)

lemma ctx_inv_active_le: "ctx_inv c \<Longrightarrow> length (c_active c) \<le> unat (c_meta_capacity c)"
proof -
  assume inv: "ctx_inv c"
  then have "length (active_slots c) = card (set (active_slots c))"
    by (simp add: ctx_inv_distinct distinct_card)
  also have "\<dots> \<le> card {..<unat (c_meta_capacity c)}"
    by (rule card_mono) (use inv in \<open>auto simp: ctx_inv_def pool_inv_def\<close>)
  finally show ?thesis by simp
qed

text \<open>The flag a counter counts goes up or down at one active slot.\<close>

lemma cnt_gain:
  "ctx_inv c \<Longrightarrow> i \<in> set (active_slots c) \<Longrightarrow> P m \<Longrightarrow> \<not> P (c_meta_pool c i) \<Longrightarrow>
   count_slots P ((c_meta_pool c)(i := m)) (active_slots c) = Suc (cnt P c)"
  unfolding cnt_def by (rule count_slots_gain) (simp_all add: ctx_inv_distinct)

lemma cnt_loss:
  "ctx_inv c \<Longrightarrow> i \<in> set (active_slots c) \<Longrightarrow> \<not> P m \<Longrightarrow> P (c_meta_pool c i) \<Longrightarrow>
   count_slots P ((c_meta_pool c)(i := m)) (active_slots c) = cnt P c - 1"
  unfolding cnt_def by (rule count_slots_loss) (simp_all add: ctx_inv_distinct)

lemma cnt_same:
  "P m = P (c_meta_pool c i) \<Longrightarrow>
   count_slots P ((c_meta_pool c)(i := m)) (active_slots c) = cnt P c"
  unfolding cnt_def by (rule count_slots_same)

lemma cnt_pos: "i \<in> set (active_slots c) \<Longrightarrow> P (c_meta_pool c i) \<Longrightarrow> 0 < cnt P c"
  unfolding cnt_def by (rule count_slots_pos)

lemma cnt_lt_full:
  assumes "ctx_inv c" and "i \<in> set (active_slots c)" and "\<not> P (c_meta_pool c i)"
  shows "cnt P c < 4294967295"
proof -
  have "cnt P c < length (active_slots c)"
    unfolding cnt_def using assms(2,3) by (rule count_slots_lt)
  also have "\<dots> \<le> 4294967295"
    using ctx_inv_active_le [OF assms(1)] unat_le_u32_max [of "c_meta_capacity c"] by simp
  finally show ?thesis .
qed

lemmas cnt_step = cnt_gain cnt_loss cnt_same

lemma counter_not_full:
  assumes "ctx_inv c" and "i \<in> set (active_slots c)" and "\<not> P (c_meta_pool c i)"
    and "unat (x :: u32) = cnt P c"
  shows "x \<noteq> u32_max"
  using cnt_lt_full [where P = P, OF assms(1-3)] assms(4) unat_u32_max by (metis less_irrefl)

lemma counter_not_zero:
  assumes "i \<in> set (active_slots c)" and "P (c_meta_pool c i)" and "unat (x :: u32) = cnt P c"
  shows "x \<noteq> 0"
  using cnt_pos [where P = P, OF assms(1,2)] assms(3) by auto

lemma pending_counter_eq:
  "ctx_inv c \<Longrightarrow> unat (smart_io_throttle_pending_counter c cl) = cnt (queued_in cl) c"
  by (cases cl) (simp_all add: ctx_inv_def count_inv_def)

lemma pending_inc_inv:
  assumes inv: "ctx_inv c" and act: "i \<in> set (active_slots c)"
  shows "ctx_inv (smart_io_throttle_pending_inc_locked g now i c)"
proof (cases "m_queued (c_meta_pool c i)")
  case True
  with inv show ?thesis by (simp add: smart_io_throttle_pending_inc_locked_def)
next
  case False
  let ?cl = "m_class (c_meta_pool c i)" and ?d = "smart_io_throttle_pending_inc_locked g now i c"
  from False have nq: "\<not> queued_in ?cl (c_meta_pool c i)" by (simp add: queued_in_def)
  have nf: "smart_io_throttle_pending_counter c ?cl \<noteq> u32_max"
    by (rule counter_not_full [OF inv act nq pending_counter_eq [OF inv]])
  have "core_eq ?d c"
    using False nf by (cases ?cl) (auto simp: core_eq_def smart_io_throttle_pending_inc_locked_def upd_meta_def Let_def)
  moreover have "count_inv ?d"
    using inv act False nf unat_inc [OF nf]
    by (cases ?cl)
      (auto simp: smart_io_throttle_pending_inc_locked_def upd_meta_def Let_def count_inv_def
        ctx_inv_def cnt_def queued_in_def cnt_step [unfolded cnt_def])
  ultimately show ?thesis using inv by (blast intro: core_eq_inv)
qed

lemma pending_dec_inv:
  assumes inv: "ctx_inv c" and act: "\<And>i. mo = Some i \<Longrightarrow> i \<in> set (active_slots c)"
  shows "ctx_inv (smart_io_throttle_pending_dec_locked mo c)"
proof (cases "\<exists>i. mo = Some i \<and> m_queued (c_meta_pool c i)")
  case False
  with inv show ?thesis
    by (auto simp: smart_io_throttle_pending_dec_locked_def split: option.splits)
next
  case True
  then obtain i where mo: "mo = Some i" and q: "m_queued (c_meta_pool c i)" by blast
  let ?cl = "m_class (c_meta_pool c i)" and ?d = "smart_io_throttle_pending_dec_locked mo c"
  have act: "i \<in> set (active_slots c)" by (rule act [OF mo])
  have qi: "queued_in ?cl (c_meta_pool c i)" using q by (simp add: queued_in_def)
  have nz: "smart_io_throttle_pending_counter c ?cl \<noteq> 0"
    by (rule counter_not_zero [where P = "queued_in ?cl", OF act qi pending_counter_eq [OF inv]])
  have "core_eq ?d c"
    using q mo nz by (cases ?cl) (auto simp: core_eq_def smart_io_throttle_pending_dec_locked_def upd_meta_def Let_def)
  moreover have "count_inv ?d"
    using inv act q mo nz unat_dec [OF nz]
    by (cases ?cl)
      (auto simp: smart_io_throttle_pending_dec_locked_def upd_meta_def Let_def count_inv_def
        ctx_inv_def cnt_def queued_in_def cnt_step [unfolded cnt_def])
  ultimately show ?thesis using inv by (blast intro: core_eq_inv)
qed

section \<open>In-flight index\<close>

lemma inflight_remove_inv:
  assumes inv: "ctx_inv c" and act: "\<And>i. mo = Some i \<Longrightarrow> i \<in> set (active_slots c)"
  shows "ctx_inv (smart_io_throttle_inflight_remove_locked mo c)"
proof (cases "\<exists>i. mo = Some i \<and> m_inflight_indexed (c_meta_pool c i)")
  case False
  with inv show ?thesis
    by (auto simp: smart_io_throttle_inflight_remove_locked_def split: option.splits)
next
  case True
  then obtain i where mo: "mo = Some i" and ix: "m_inflight_indexed (c_meta_pool c i)" by blast
  let ?d = "smart_io_throttle_inflight_remove_locked mo c"
  note parts = ctx_invD [OF inv] and def = smart_io_throttle_inflight_remove_locked_def upd_meta_def
  show ?thesis
  proof (rule ctx_invI)
    show "pool_inv ?d" using parts(1) mo ix by (auto simp: def pool_inv_def)
    show "count_inv ?d" using parts(2) mo ix
      by (auto simp: def count_inv_def cnt_def queued_in_def count_slots_same)
    show "priv_inv ?d" using parts(3) mo ix by (auto simp: def priv_inv_def)
    show "fb_inv ?d" using parts(4) mo ix by (auto simp: def fb_inv_def split: option.splits)
    show "idx_inv ?d" using parts(5) mo ix by (auto simp: def idx_inv_def distinct_hash_del)
    show "win_inv ?d" using parts(6) mo ix by (simp add: def win_inv_def)
  qed
qed

lemma inflight_add_inv:
  assumes inv: "ctx_inv c" and act: "\<And>i. mo = Some i \<Longrightarrow> i \<in> set (active_slots c)"
  shows "ctx_inv (smart_io_throttle_inflight_add_locked K mo rq c)"
proof (cases "\<exists>i. mo = Some i \<and> \<not> m_inflight_indexed (c_meta_pool c i) \<and>
    (m_op (c_meta_pool c i) = REQ_OP_READ \<or> m_op (c_meta_pool c i) = REQ_OP_WRITE)")
  case False
  with inv show ?thesis
    by (auto simp: smart_io_throttle_inflight_add_locked_def Let_def split: option.splits)
next
  case True
  then obtain i where mo: "mo = Some i" and ix: "\<not> m_inflight_indexed (c_meta_pool c i)"
    and op: "m_op (c_meta_pool c i) = REQ_OP_READ \<or> m_op (c_meta_pool c i) = REQ_OP_WRITE" by blast
  let ?d = "smart_io_throttle_inflight_add_locked K mo rq c"
  note parts = ctx_invD [OF inv]
    and def = smart_io_throttle_inflight_add_locked_def upd_meta_def Let_def
  have d: "?d = upd_meta i (\<lambda>m. m\<lparr>m_start_sector := rq_pos rq, m_end_sector := rq_pos rq + ucast (rq_sectors rq),
             m_inflight_indexed := True\<rparr>)
       (c\<lparr>c_inflight := hash_add (smart_io_throttle_inflight_key K (m_op (c_meta_pool c i)) (rq_pos rq + ucast (rq_sectors rq))) i (c_inflight c),
          c_inflight_start := hash_add (smart_io_throttle_inflight_key K (m_op (c_meta_pool c i)) (rq_pos rq)) i (c_inflight_start c)\<rparr>)"
    using mo ix op by (auto simp: smart_io_throttle_inflight_add_locked_def Let_def)
  show ?thesis unfolding d
  proof (rule ctx_invI)
    let ?e = "upd_meta i (\<lambda>m. m\<lparr>m_start_sector := rq_pos rq, m_end_sector := rq_pos rq + ucast (rq_sectors rq),
             m_inflight_indexed := True\<rparr>)
       (c\<lparr>c_inflight := hash_add (smart_io_throttle_inflight_key K (m_op (c_meta_pool c i)) (rq_pos rq + ucast (rq_sectors rq))) i (c_inflight c),
          c_inflight_start := hash_add (smart_io_throttle_inflight_key K (m_op (c_meta_pool c i)) (rq_pos rq)) i (c_inflight_start c)\<rparr>)"
    show "pool_inv ?e" using parts(1) by (auto simp: upd_meta_def pool_inv_def)
    show "count_inv ?e" using parts(2)
      by (auto simp: upd_meta_def count_inv_def cnt_def queued_in_def count_slots_same)
    show "priv_inv ?e" using parts(3) by (auto simp: upd_meta_def priv_inv_def)
    show "fb_inv ?e" using parts(4) by (auto simp: upd_meta_def fb_inv_def split: option.splits)
    show "idx_inv ?e" using parts(5) act [OF mo] ix by (auto simp: upd_meta_def idx_inv_def)
    show "win_inv ?e" using parts(6) by (simp add: upd_meta_def win_inv_def)
  qed
qed

section \<open>Feedback and fallback\<close>

lemma clear_binding_inv:
  assumes inv: "ctx_inv c"
  shows "ctx_inv (smart_io_throttle_clear_feedback_binding_locked c)"
proof -
  let ?d = "smart_io_throttle_clear_feedback_binding_locked c"
  note parts = ctx_invD [OF inv]
    and def = smart_io_throttle_clear_feedback_binding_locked_def upd_meta_def
  show ?thesis
  proof (rule ctx_invI)
    show "pool_inv ?d" using parts(1) by (auto simp: def pool_inv_def split: option.splits)
    show "count_inv ?d" using parts(2)
      by (auto simp: def count_inv_def cnt_def queued_in_def count_slots_same split: option.splits)
    show "priv_inv ?d" using parts(3) by (auto simp: def priv_inv_def split: option.splits)
    show "fb_inv ?d" using parts(4) by (auto simp: def fb_inv_def split: option.splits)
    show "idx_inv ?d" using parts(5) by (auto simp: def idx_inv_def split: option.splits)
    show "win_inv ?d" using parts(6) by (simp add: def win_inv_def split: option.splits)
  qed
qed

lemma reset_feedback_inv: "ctx_inv c \<Longrightarrow> ctx_inv (smart_io_throttle_reset_feedback_locked c)"
  using clear_binding_inv [of c]
  by (auto simp: smart_io_throttle_reset_feedback_locked_def ctx_inv_def inv_defs split: option.splits)

lemma reset_window_inv: "ctx_inv c \<Longrightarrow> ctx_inv (smart_io_throttle_reset_window_locked c)"
  by (auto simp: smart_io_throttle_reset_window_locked_def ctx_inv_def inv_defs split: option.splits)

lemma set_baseline_inv: "ctx_inv (smart_io_throttle_set_baseline_action_locked c) = ctx_inv c"
  by (simp add: smart_io_throttle_set_baseline_action_locked_def)

lemma fallback_inv: "ctx_inv c \<Longrightarrow> ctx_inv (fallback c)"
  by (simp add: smart_io_throttle_fallback_locked_def Let_def set_baseline_inv reset_window_inv
      reset_feedback_inv)

lemma invalidate_feedback_inv:
  "ctx_inv c \<Longrightarrow> ctx_inv (fst (smart_io_throttle_invalidate_feedback_locked mo c))"
proof -
  assume inv: "ctx_inv c"
  let ?e = "smart_io_throttle_clear_feedback_binding_locked c"
  have e: "ctx_inv ?e" by (rule clear_binding_inv [OF inv])
  have "c_feedback_meta ?e = None" by (simp add: smart_io_throttle_clear_feedback_binding_locked_def)
  then have "ctx_inv (?e\<lparr>c_feedback_state := SMART_IO_FEEDBACK_WAIT_DISPATCH\<rparr>)"
    using e by (auto simp: ctx_inv_def inv_defs)
  with e inv show ?thesis by (simp add: smart_io_throttle_invalidate_feedback_locked_def Let_def)
qed

section \<open>Depth reservations\<close>

lemma depth_counters:
  assumes "ctx_inv c"
  shows "unat (c_current_depth c) = cnt m_depth_accounted c"
    and "unat (c_bg_current_depth c) = cnt m_bg_depth_accounted c"
    and "unat (c_issued_depth c) = cnt m_issued_accounted c"
    and "c_deadline_forced_active c \<longleftrightarrow> 0 < cnt m_deadline_forced c"
    and "cnt m_deadline_forced c \<le> 1"
  using assms by (simp_all add: ctx_inv_def count_inv_def)

lemma bg_le_depth: "ctx_inv c \<Longrightarrow> cnt m_bg_depth_accounted c \<le> cnt m_depth_accounted c"
  unfolding cnt_def
  by (rule count_slots_mono) (simp add: ctx_inv_def count_inv_def)

text \<open>
  Under the invariant the anomaly branches of the depth operations are unreachable: these
  equations are what each of them does.
\<close>

definition reserve_slot :: "nat \<Rightarrow> throttle_ctx \<Rightarrow> throttle_ctx" where
  "reserve_slot i c =
     (let bg = m_queue_class (c_meta_pool c i) \<noteq> SMART_IO_QUEUE_HP in
      if bg
      then upd_meta i (\<lambda>m. m\<lparr>m_depth_accounted := True, m_bg_depth_accounted := True\<rparr>)
             (c\<lparr>c_current_depth := c_current_depth c + 1,
                c_bg_current_depth := c_bg_current_depth c + 1\<rparr>)
      else upd_meta i (\<lambda>m. m\<lparr>m_depth_accounted := True\<rparr>)
             (c\<lparr>c_current_depth := c_current_depth c + 1\<rparr>))"

lemma account_depth_eq:
  assumes inv: "ctx_inv c" and act: "i \<in> set (active_slots c)"
    and na: "\<not> m_depth_accounted (c_meta_pool c i)"
  shows "smart_io_throttle_account_depth_locked (Some i) c = (reserve_slot i c, False)"
proof -
  have nbg: "\<not> m_bg_depth_accounted (c_meta_pool c i)"
    using inv act na by (auto simp: ctx_inv_def count_inv_def)
  have "c_current_depth c \<noteq> u32_max" "c_bg_current_depth c \<noteq> u32_max"
    using counter_not_full [where P = m_depth_accounted, OF inv act na depth_counters(1) [OF inv]]
      counter_not_full [where P = m_bg_depth_accounted, OF inv act nbg depth_counters(2) [OF inv]]
    by blast+
  with na nbg show ?thesis
    by (auto simp: smart_io_throttle_account_depth_locked_def reserve_slot_def Let_def upd_meta_def)
qed

lemma reserve_slot_inv:
  assumes inv: "ctx_inv c" and act: "i \<in> set (active_slots c)"
    and na: "\<not> m_depth_accounted (c_meta_pool c i)"
  shows "ctx_inv (reserve_slot i c)"
proof -
  have nbg: "\<not> m_bg_depth_accounted (c_meta_pool c i)"
    using inv act na by (auto simp: ctx_inv_def count_inv_def)
  note full = counter_not_full [where P = m_depth_accounted, OF inv act na depth_counters(1) [OF inv]]
    counter_not_full [where P = m_bg_depth_accounted, OF inv act nbg depth_counters(2) [OF inv]]
  have "core_eq (reserve_slot i c) c"
    by (auto simp: core_eq_def reserve_slot_def upd_meta_def Let_def)
  moreover have "count_inv (reserve_slot i c)"
    using inv act na nbg unat_inc [OF full(1)] unat_inc [OF full(2)]
    by (auto simp: reserve_slot_def upd_meta_def Let_def count_inv_def ctx_inv_def cnt_def
        queued_in_def cnt_step [unfolded cnt_def])
  ultimately show ?thesis using inv by (blast intro: core_eq_inv)
qed

lemma account_depth_inv:
  assumes "ctx_inv c" and "\<And>i. mo = Some i \<Longrightarrow> i \<in> set (active_slots c)"
  shows "ctx_inv (fst (smart_io_throttle_account_depth_locked mo c))"
proof (cases "\<exists>i. mo = Some i \<and> \<not> m_depth_accounted (c_meta_pool c i)")
  case True
  with assms show ?thesis by (auto simp: account_depth_eq reserve_slot_inv)
next
  case False
  with assms show ?thesis
    by (auto simp: smart_io_throttle_account_depth_locked_def fallback_inv Let_def split: option.splits)
qed

definition release_slot :: "nat \<Rightarrow> throttle_ctx \<Rightarrow> throttle_ctx" where
  "release_slot i c =
     (let bg = m_bg_depth_accounted (c_meta_pool c i) in
      if bg
      then upd_meta i (\<lambda>m. m\<lparr>m_depth_accounted := False, m_bg_depth_accounted := False\<rparr>)
             (c\<lparr>c_current_depth := c_current_depth c - 1,
                c_bg_current_depth := c_bg_current_depth c - 1\<rparr>)
      else upd_meta i (\<lambda>m. m\<lparr>m_depth_accounted := False\<rparr>)
             (c\<lparr>c_current_depth := c_current_depth c - 1\<rparr>))"

lemma release_depth_eq:
  assumes inv: "ctx_inv c" and act: "i \<in> set (active_slots c)"
  shows "smart_io_throttle_release_depth_locked (Some i) released c =
    (if \<not> m_depth_accounted (c_meta_pool c i) then (c, False, released)
     else let d = release_slot i c in
       if c_gate_blocked d \<and> smart_io_throttle_depth_can_run_locked d
       then (d\<lparr>c_gate_blocked := False, c_gate_reason := SMART_IO_GATE_NONE\<rparr>, True, c_gate_reason c)
       else (d, False, released))"
proof (cases "m_depth_accounted (c_meta_pool c i)")
  case False
  then show ?thesis by (simp add: smart_io_throttle_release_depth_locked_def)
next
  case True
  have nz: "c_current_depth c \<noteq> 0"
    by (rule counter_not_zero [where P = m_depth_accounted, OF act True depth_counters(1) [OF inv]])
  have nzb: "m_bg_depth_accounted (c_meta_pool c i) \<Longrightarrow> c_bg_current_depth c \<noteq> 0"
    by (rule counter_not_zero [where P = m_bg_depth_accounted, OF act _ depth_counters(2) [OF inv]])
  show ?thesis
  proof (cases "m_bg_depth_accounted (c_meta_pool c i)")
    case bg: True
    with True nz nzb show ?thesis
      by (simp add: smart_io_throttle_release_depth_locked_def release_slot_def upd_meta_def Let_def
          smart_io_throttle_depth_can_run_locked_def)
  next
    case bg: False
    with True nz show ?thesis
      by (simp add: smart_io_throttle_release_depth_locked_def release_slot_def upd_meta_def Let_def
          smart_io_throttle_depth_can_run_locked_def)
  qed
qed

lemma release_slot_inv:
  assumes inv: "ctx_inv c" and act: "i \<in> set (active_slots c)"
    and da: "m_depth_accounted (c_meta_pool c i)"
  shows "ctx_inv (release_slot i c)"
proof -
  have nz: "c_current_depth c \<noteq> 0"
    by (rule counter_not_zero [where P = m_depth_accounted, OF act da depth_counters(1) [OF inv]])
  have nzb: "m_bg_depth_accounted (c_meta_pool c i) \<Longrightarrow> c_bg_current_depth c \<noteq> 0"
    by (rule counter_not_zero [where P = m_bg_depth_accounted, OF act _ depth_counters(2) [OF inv]])
  have "core_eq (release_slot i c) c"
    by (auto simp: core_eq_def release_slot_def upd_meta_def Let_def)
  moreover have "count_inv (release_slot i c)"
    using inv act da unat_dec [OF nz] unat_dec [OF nzb]
    by (cases "m_bg_depth_accounted (c_meta_pool c i)")
      (auto simp: release_slot_def upd_meta_def Let_def count_inv_def ctx_inv_def cnt_def
        queued_in_def cnt_step [unfolded cnt_def])
  ultimately show ?thesis using inv by (blast intro: core_eq_inv)
qed

lemma release_depth_inv:
  assumes "ctx_inv c" and "i \<in> set (active_slots c)"
  shows "ctx_inv (fst (smart_io_throttle_release_depth_locked (Some i) released c))"
  using assms by (simp add: release_depth_eq Let_def release_slot_inv)

lemma account_issued_eq:
  assumes inv: "ctx_inv c" and act: "i \<in> set (active_slots c)"
    and na: "\<not> m_issued_accounted (c_meta_pool c i)"
  shows "smart_io_throttle_account_issued_depth_locked (Some i) c =
    (upd_meta i (\<lambda>m. m\<lparr>m_issued_accounted := True\<rparr>) (c\<lparr>c_issued_depth := c_issued_depth c + 1\<rparr>), False)"
  using counter_not_full [where P = m_issued_accounted, OF inv act na depth_counters(3) [OF inv]] na
  by (simp add: smart_io_throttle_account_issued_depth_locked_def)

lemma account_issued_inv:
  assumes inv: "ctx_inv c" and act: "i \<in> set (active_slots c)"
  shows "ctx_inv (fst (smart_io_throttle_account_issued_depth_locked (Some i) c))"
proof (cases "m_issued_accounted (c_meta_pool c i)")
  case True
  with inv show ?thesis
    by (simp add: smart_io_throttle_account_issued_depth_locked_def fallback_inv)
next
  case False
  let ?d = "fst (smart_io_throttle_account_issued_depth_locked (Some i) c)"
  note full = counter_not_full [where P = m_issued_accounted, OF inv act False depth_counters(3) [OF inv]]
  have "core_eq ?d c"
    by (auto simp: core_eq_def account_issued_eq [OF inv act False] upd_meta_def)
  moreover have "count_inv ?d"
    using inv act False unat_inc [OF full]
    by (auto simp: account_issued_eq upd_meta_def count_inv_def ctx_inv_def cnt_def
        queued_in_def cnt_step [unfolded cnt_def])
  ultimately show ?thesis using inv by (blast intro: core_eq_inv)
qed

lemma release_issued_eq:
  assumes inv: "ctx_inv c" and act: "i \<in> set (active_slots c)"
  shows "smart_io_throttle_release_issued_depth_locked (Some i) c =
    (if \<not> m_issued_accounted (c_meta_pool c i) then (c, False)
     else (upd_meta i (\<lambda>m. m\<lparr>m_issued_accounted := False\<rparr>)
             (c\<lparr>c_issued_depth := c_issued_depth c - 1\<rparr>), False))"
  using counter_not_zero [where P = m_issued_accounted, OF act _ depth_counters(3) [OF inv]]
  by (auto simp: smart_io_throttle_release_issued_depth_locked_def upd_meta_def)

lemma release_issued_inv:
  assumes inv: "ctx_inv c" and act: "i \<in> set (active_slots c)"
  shows "ctx_inv (fst (smart_io_throttle_release_issued_depth_locked (Some i) c))"
proof (cases "m_issued_accounted (c_meta_pool c i)")
  case False
  with inv act show ?thesis by (simp add: release_issued_eq)
next
  case True
  let ?d = "fst (smart_io_throttle_release_issued_depth_locked (Some i) c)"
  note nz = counter_not_zero [where P = m_issued_accounted, OF act True depth_counters(3) [OF inv]]
  have "core_eq ?d c"
    by (auto simp: core_eq_def release_issued_eq [OF inv act] upd_meta_def)
  moreover have "count_inv ?d"
    using inv act True unat_dec [OF nz]
    by (auto simp: release_issued_eq upd_meta_def count_inv_def ctx_inv_def cnt_def
        queued_in_def cnt_step [unfolded cnt_def])
  ultimately show ?thesis using inv by (blast intro: core_eq_inv)
qed

lemma release_deadline_eq:
  assumes inv: "ctx_inv c" and act: "i \<in> set (active_slots c)"
  shows "smart_io_throttle_release_deadline_locked (Some i) c =
    (if \<not> m_deadline_forced (c_meta_pool c i) then (c, False)
     else (upd_meta i (\<lambda>m. m\<lparr>m_deadline_forced := False\<rparr>) (c\<lparr>c_deadline_forced_active := False\<rparr>), True))"
  using cnt_pos [where P = m_deadline_forced, OF act] depth_counters(4) [OF inv]
  by (auto simp: smart_io_throttle_release_deadline_locked_def upd_meta_def)

lemma release_deadline_inv:
  assumes inv: "ctx_inv c" and act: "i \<in> set (active_slots c)"
  shows "ctx_inv (fst (smart_io_throttle_release_deadline_locked (Some i) c))"
proof (cases "m_deadline_forced (c_meta_pool c i)")
  case False
  with inv act show ?thesis by (simp add: release_deadline_eq)
next
  case True
  let ?d = "fst (smart_io_throttle_release_deadline_locked (Some i) c)"
  note one = depth_counters(5) [OF inv]
  have "core_eq ?d c"
    by (auto simp: core_eq_def release_deadline_eq [OF inv act] upd_meta_def)
  moreover have "count_inv ?d"
    using inv act True one
    by (auto simp: release_deadline_eq upd_meta_def count_inv_def ctx_inv_def cnt_def
        queued_in_def cnt_step [unfolded cnt_def])
  ultimately show ?thesis using inv by (blast intro: core_eq_inv)
qed

end
