(* ===== verification/Throttle_Frames.thy ===== *)
theory Throttle_Frames
  imports Throttle_Acct
begin

text \<open>
  Frame lemmas of the lower layer: which fields of the context and of the metadata each
  operation leaves alone, declared \<open>simp\<close> for the proofs about the handlers.
\<close>

section \<open>What the operations leave alone\<close>

text \<open>
  Links (tables, free list, private pointers), identities and the flags an operation does
  not own are unchanged by it; the bundle is declared \<open>simp\<close> and carries the proofs of
  the handlers.
\<close>

lemma set_pending_counter_frame [simp]:
  "c_active (set_pending_counter cl v c) = c_active c"
  "c_free_meta (set_pending_counter cl v c) = c_free_meta c"
  "c_elv_priv1 (set_pending_counter cl v c) = c_elv_priv1 c"
  "c_meta_capacity (set_pending_counter cl v c) = c_meta_capacity c"
  "c_meta_inuse (set_pending_counter cl v c) = c_meta_inuse c"
  "c_queue (set_pending_counter cl v c) = c_queue c"
  "c_session_id (set_pending_counter cl v c) = c_session_id c"
  "c_control_id (set_pending_counter cl v c) = c_control_id c"
  "c_decision_id (set_pending_counter cl v c) = c_decision_id c"
  "c_next_rq_id (set_pending_counter cl v c) = c_next_rq_id c"
  "c_meta_pool (set_pending_counter cl v c) = c_meta_pool c"
  by (cases cl; simp)+

lemma count_anomaly_frame [simp]:
  "c_active (count_anomaly c) = c_active c"
  "c_free_meta (count_anomaly c) = c_free_meta c"
  "c_elv_priv1 (count_anomaly c) = c_elv_priv1 c"
  "c_meta_capacity (count_anomaly c) = c_meta_capacity c"
  "c_meta_inuse (count_anomaly c) = c_meta_inuse c"
  "c_queue (count_anomaly c) = c_queue c"
  "c_session_id (count_anomaly c) = c_session_id c"
  "c_control_id (count_anomaly c) = c_control_id c"
  "c_decision_id (count_anomaly c) = c_decision_id c"
  "c_next_rq_id (count_anomaly c) = c_next_rq_id c"
  "m_rq (c_meta_pool (count_anomaly c) j) = m_rq (c_meta_pool c j)"
  "m_class (c_meta_pool (count_anomaly c) j) = m_class (c_meta_pool c j)"
  "m_queue_class (c_meta_pool (count_anomaly c) j) = m_queue_class (c_meta_pool c j)"
  "m_op (c_meta_pool (count_anomaly c) j) = m_op (c_meta_pool c j)"
  "m_start_sector (c_meta_pool (count_anomaly c) j) = m_start_sector (c_meta_pool c j)"
  "m_end_sector (c_meta_pool (count_anomaly c) j) = m_end_sector (c_meta_pool c j)"
  "m_issue_ts_ns (c_meta_pool (count_anomaly c) j) = m_issue_ts_ns (c_meta_pool c j)"
  "m_queued (c_meta_pool (count_anomaly c) j) = m_queued (c_meta_pool c j)"
  "m_depth_accounted (c_meta_pool (count_anomaly c) j) = m_depth_accounted (c_meta_pool c j)"
  "m_bg_depth_accounted (c_meta_pool (count_anomaly c) j) = m_bg_depth_accounted (c_meta_pool c j)"
  "m_issued_accounted (c_meta_pool (count_anomaly c) j) = m_issued_accounted (c_meta_pool c j)"
  "m_inflight_indexed (c_meta_pool (count_anomaly c) j) = m_inflight_indexed (c_meta_pool c j)"
  "m_deadline_forced (c_meta_pool (count_anomaly c) j) = m_deadline_forced (c_meta_pool c j)"
  by (auto simp: count_anomaly_def)

lemma clear_binding_frame [simp]:
  "c_active (smart_io_throttle_clear_feedback_binding_locked c) = c_active c"
  "c_free_meta (smart_io_throttle_clear_feedback_binding_locked c) = c_free_meta c"
  "c_elv_priv1 (smart_io_throttle_clear_feedback_binding_locked c) = c_elv_priv1 c"
  "c_meta_capacity (smart_io_throttle_clear_feedback_binding_locked c) = c_meta_capacity c"
  "c_meta_inuse (smart_io_throttle_clear_feedback_binding_locked c) = c_meta_inuse c"
  "c_queue (smart_io_throttle_clear_feedback_binding_locked c) = c_queue c"
  "c_session_id (smart_io_throttle_clear_feedback_binding_locked c) = c_session_id c"
  "c_control_id (smart_io_throttle_clear_feedback_binding_locked c) = c_control_id c"
  "c_decision_id (smart_io_throttle_clear_feedback_binding_locked c) = c_decision_id c"
  "c_next_rq_id (smart_io_throttle_clear_feedback_binding_locked c) = c_next_rq_id c"
  "m_rq (c_meta_pool (smart_io_throttle_clear_feedback_binding_locked c) j) = m_rq (c_meta_pool c j)"
  "m_class (c_meta_pool (smart_io_throttle_clear_feedback_binding_locked c) j) = m_class (c_meta_pool c j)"
  "m_queue_class (c_meta_pool (smart_io_throttle_clear_feedback_binding_locked c) j) = m_queue_class (c_meta_pool c j)"
  "m_op (c_meta_pool (smart_io_throttle_clear_feedback_binding_locked c) j) = m_op (c_meta_pool c j)"
  "m_start_sector (c_meta_pool (smart_io_throttle_clear_feedback_binding_locked c) j) = m_start_sector (c_meta_pool c j)"
  "m_end_sector (c_meta_pool (smart_io_throttle_clear_feedback_binding_locked c) j) = m_end_sector (c_meta_pool c j)"
  "m_issue_ts_ns (c_meta_pool (smart_io_throttle_clear_feedback_binding_locked c) j) = m_issue_ts_ns (c_meta_pool c j)"
  "m_queued (c_meta_pool (smart_io_throttle_clear_feedback_binding_locked c) j) = m_queued (c_meta_pool c j)"
  "m_depth_accounted (c_meta_pool (smart_io_throttle_clear_feedback_binding_locked c) j) = m_depth_accounted (c_meta_pool c j)"
  "m_bg_depth_accounted (c_meta_pool (smart_io_throttle_clear_feedback_binding_locked c) j) = m_bg_depth_accounted (c_meta_pool c j)"
  "m_issued_accounted (c_meta_pool (smart_io_throttle_clear_feedback_binding_locked c) j) = m_issued_accounted (c_meta_pool c j)"
  "m_inflight_indexed (c_meta_pool (smart_io_throttle_clear_feedback_binding_locked c) j) = m_inflight_indexed (c_meta_pool c j)"
  "m_deadline_forced (c_meta_pool (smart_io_throttle_clear_feedback_binding_locked c) j) = m_deadline_forced (c_meta_pool c j)"
  by (auto simp: smart_io_throttle_clear_feedback_binding_locked_def upd_meta_def split: option.splits)

lemma reset_feedback_frame [simp]:
  "c_active (smart_io_throttle_reset_feedback_locked c) = c_active c"
  "c_free_meta (smart_io_throttle_reset_feedback_locked c) = c_free_meta c"
  "c_elv_priv1 (smart_io_throttle_reset_feedback_locked c) = c_elv_priv1 c"
  "c_meta_capacity (smart_io_throttle_reset_feedback_locked c) = c_meta_capacity c"
  "c_meta_inuse (smart_io_throttle_reset_feedback_locked c) = c_meta_inuse c"
  "c_queue (smart_io_throttle_reset_feedback_locked c) = c_queue c"
  "c_session_id (smart_io_throttle_reset_feedback_locked c) = c_session_id c"
  "c_control_id (smart_io_throttle_reset_feedback_locked c) = c_control_id c"
  "c_decision_id (smart_io_throttle_reset_feedback_locked c) = c_decision_id c"
  "c_next_rq_id (smart_io_throttle_reset_feedback_locked c) = c_next_rq_id c"
  "m_rq (c_meta_pool (smart_io_throttle_reset_feedback_locked c) j) = m_rq (c_meta_pool c j)"
  "m_class (c_meta_pool (smart_io_throttle_reset_feedback_locked c) j) = m_class (c_meta_pool c j)"
  "m_queue_class (c_meta_pool (smart_io_throttle_reset_feedback_locked c) j) = m_queue_class (c_meta_pool c j)"
  "m_op (c_meta_pool (smart_io_throttle_reset_feedback_locked c) j) = m_op (c_meta_pool c j)"
  "m_start_sector (c_meta_pool (smart_io_throttle_reset_feedback_locked c) j) = m_start_sector (c_meta_pool c j)"
  "m_end_sector (c_meta_pool (smart_io_throttle_reset_feedback_locked c) j) = m_end_sector (c_meta_pool c j)"
  "m_issue_ts_ns (c_meta_pool (smart_io_throttle_reset_feedback_locked c) j) = m_issue_ts_ns (c_meta_pool c j)"
  "m_queued (c_meta_pool (smart_io_throttle_reset_feedback_locked c) j) = m_queued (c_meta_pool c j)"
  "m_depth_accounted (c_meta_pool (smart_io_throttle_reset_feedback_locked c) j) = m_depth_accounted (c_meta_pool c j)"
  "m_bg_depth_accounted (c_meta_pool (smart_io_throttle_reset_feedback_locked c) j) = m_bg_depth_accounted (c_meta_pool c j)"
  "m_issued_accounted (c_meta_pool (smart_io_throttle_reset_feedback_locked c) j) = m_issued_accounted (c_meta_pool c j)"
  "m_inflight_indexed (c_meta_pool (smart_io_throttle_reset_feedback_locked c) j) = m_inflight_indexed (c_meta_pool c j)"
  "m_deadline_forced (c_meta_pool (smart_io_throttle_reset_feedback_locked c) j) = m_deadline_forced (c_meta_pool c j)"
  by (auto simp: smart_io_throttle_reset_feedback_locked_def)

lemma reset_window_frame [simp]:
  "c_active (smart_io_throttle_reset_window_locked c) = c_active c"
  "c_free_meta (smart_io_throttle_reset_window_locked c) = c_free_meta c"
  "c_elv_priv1 (smart_io_throttle_reset_window_locked c) = c_elv_priv1 c"
  "c_meta_capacity (smart_io_throttle_reset_window_locked c) = c_meta_capacity c"
  "c_meta_inuse (smart_io_throttle_reset_window_locked c) = c_meta_inuse c"
  "c_queue (smart_io_throttle_reset_window_locked c) = c_queue c"
  "c_session_id (smart_io_throttle_reset_window_locked c) = c_session_id c"
  "c_control_id (smart_io_throttle_reset_window_locked c) = c_control_id c"
  "c_decision_id (smart_io_throttle_reset_window_locked c) = c_decision_id c"
  "c_next_rq_id (smart_io_throttle_reset_window_locked c) = c_next_rq_id c"
  "m_rq (c_meta_pool (smart_io_throttle_reset_window_locked c) j) = m_rq (c_meta_pool c j)"
  "m_class (c_meta_pool (smart_io_throttle_reset_window_locked c) j) = m_class (c_meta_pool c j)"
  "m_queue_class (c_meta_pool (smart_io_throttle_reset_window_locked c) j) = m_queue_class (c_meta_pool c j)"
  "m_op (c_meta_pool (smart_io_throttle_reset_window_locked c) j) = m_op (c_meta_pool c j)"
  "m_start_sector (c_meta_pool (smart_io_throttle_reset_window_locked c) j) = m_start_sector (c_meta_pool c j)"
  "m_end_sector (c_meta_pool (smart_io_throttle_reset_window_locked c) j) = m_end_sector (c_meta_pool c j)"
  "m_issue_ts_ns (c_meta_pool (smart_io_throttle_reset_window_locked c) j) = m_issue_ts_ns (c_meta_pool c j)"
  "m_queued (c_meta_pool (smart_io_throttle_reset_window_locked c) j) = m_queued (c_meta_pool c j)"
  "m_depth_accounted (c_meta_pool (smart_io_throttle_reset_window_locked c) j) = m_depth_accounted (c_meta_pool c j)"
  "m_bg_depth_accounted (c_meta_pool (smart_io_throttle_reset_window_locked c) j) = m_bg_depth_accounted (c_meta_pool c j)"
  "m_issued_accounted (c_meta_pool (smart_io_throttle_reset_window_locked c) j) = m_issued_accounted (c_meta_pool c j)"
  "m_inflight_indexed (c_meta_pool (smart_io_throttle_reset_window_locked c) j) = m_inflight_indexed (c_meta_pool c j)"
  "m_deadline_forced (c_meta_pool (smart_io_throttle_reset_window_locked c) j) = m_deadline_forced (c_meta_pool c j)"
  by (auto simp: smart_io_throttle_reset_window_locked_def)

lemma set_baseline_frame [simp]:
  "c_active (smart_io_throttle_set_baseline_action_locked c) = c_active c"
  "c_free_meta (smart_io_throttle_set_baseline_action_locked c) = c_free_meta c"
  "c_elv_priv1 (smart_io_throttle_set_baseline_action_locked c) = c_elv_priv1 c"
  "c_meta_capacity (smart_io_throttle_set_baseline_action_locked c) = c_meta_capacity c"
  "c_meta_inuse (smart_io_throttle_set_baseline_action_locked c) = c_meta_inuse c"
  "c_queue (smart_io_throttle_set_baseline_action_locked c) = c_queue c"
  "c_session_id (smart_io_throttle_set_baseline_action_locked c) = c_session_id c"
  "c_control_id (smart_io_throttle_set_baseline_action_locked c) = c_control_id c"
  "c_decision_id (smart_io_throttle_set_baseline_action_locked c) = c_decision_id c"
  "c_next_rq_id (smart_io_throttle_set_baseline_action_locked c) = c_next_rq_id c"
  "m_rq (c_meta_pool (smart_io_throttle_set_baseline_action_locked c) j) = m_rq (c_meta_pool c j)"
  "m_class (c_meta_pool (smart_io_throttle_set_baseline_action_locked c) j) = m_class (c_meta_pool c j)"
  "m_queue_class (c_meta_pool (smart_io_throttle_set_baseline_action_locked c) j) = m_queue_class (c_meta_pool c j)"
  "m_op (c_meta_pool (smart_io_throttle_set_baseline_action_locked c) j) = m_op (c_meta_pool c j)"
  "m_start_sector (c_meta_pool (smart_io_throttle_set_baseline_action_locked c) j) = m_start_sector (c_meta_pool c j)"
  "m_end_sector (c_meta_pool (smart_io_throttle_set_baseline_action_locked c) j) = m_end_sector (c_meta_pool c j)"
  "m_issue_ts_ns (c_meta_pool (smart_io_throttle_set_baseline_action_locked c) j) = m_issue_ts_ns (c_meta_pool c j)"
  "m_queued (c_meta_pool (smart_io_throttle_set_baseline_action_locked c) j) = m_queued (c_meta_pool c j)"
  "m_depth_accounted (c_meta_pool (smart_io_throttle_set_baseline_action_locked c) j) = m_depth_accounted (c_meta_pool c j)"
  "m_bg_depth_accounted (c_meta_pool (smart_io_throttle_set_baseline_action_locked c) j) = m_bg_depth_accounted (c_meta_pool c j)"
  "m_issued_accounted (c_meta_pool (smart_io_throttle_set_baseline_action_locked c) j) = m_issued_accounted (c_meta_pool c j)"
  "m_inflight_indexed (c_meta_pool (smart_io_throttle_set_baseline_action_locked c) j) = m_inflight_indexed (c_meta_pool c j)"
  "m_deadline_forced (c_meta_pool (smart_io_throttle_set_baseline_action_locked c) j) = m_deadline_forced (c_meta_pool c j)"
  by (auto simp: smart_io_throttle_set_baseline_action_locked_def)

lemma fallback_frame [simp]:
  "c_active (fallback c) = c_active c"
  "c_free_meta (fallback c) = c_free_meta c"
  "c_elv_priv1 (fallback c) = c_elv_priv1 c"
  "c_meta_capacity (fallback c) = c_meta_capacity c"
  "c_meta_inuse (fallback c) = c_meta_inuse c"
  "c_queue (fallback c) = c_queue c"
  "c_session_id (fallback c) = c_session_id c"
  "c_control_id (fallback c) = c_control_id c"
  "c_decision_id (fallback c) = c_decision_id c"
  "c_next_rq_id (fallback c) = c_next_rq_id c"
  "m_rq (c_meta_pool (fallback c) j) = m_rq (c_meta_pool c j)"
  "m_class (c_meta_pool (fallback c) j) = m_class (c_meta_pool c j)"
  "m_queue_class (c_meta_pool (fallback c) j) = m_queue_class (c_meta_pool c j)"
  "m_op (c_meta_pool (fallback c) j) = m_op (c_meta_pool c j)"
  "m_start_sector (c_meta_pool (fallback c) j) = m_start_sector (c_meta_pool c j)"
  "m_end_sector (c_meta_pool (fallback c) j) = m_end_sector (c_meta_pool c j)"
  "m_issue_ts_ns (c_meta_pool (fallback c) j) = m_issue_ts_ns (c_meta_pool c j)"
  "m_queued (c_meta_pool (fallback c) j) = m_queued (c_meta_pool c j)"
  "m_depth_accounted (c_meta_pool (fallback c) j) = m_depth_accounted (c_meta_pool c j)"
  "m_bg_depth_accounted (c_meta_pool (fallback c) j) = m_bg_depth_accounted (c_meta_pool c j)"
  "m_issued_accounted (c_meta_pool (fallback c) j) = m_issued_accounted (c_meta_pool c j)"
  "m_inflight_indexed (c_meta_pool (fallback c) j) = m_inflight_indexed (c_meta_pool c j)"
  "m_deadline_forced (c_meta_pool (fallback c) j) = m_deadline_forced (c_meta_pool c j)"
  by (auto simp: smart_io_throttle_fallback_locked_def Let_def)

lemma invalidate_frame [simp]:
  "c_active (fst (smart_io_throttle_invalidate_feedback_locked mo c)) = c_active c"
  "c_free_meta (fst (smart_io_throttle_invalidate_feedback_locked mo c)) = c_free_meta c"
  "c_elv_priv1 (fst (smart_io_throttle_invalidate_feedback_locked mo c)) = c_elv_priv1 c"
  "c_meta_capacity (fst (smart_io_throttle_invalidate_feedback_locked mo c)) = c_meta_capacity c"
  "c_meta_inuse (fst (smart_io_throttle_invalidate_feedback_locked mo c)) = c_meta_inuse c"
  "c_queue (fst (smart_io_throttle_invalidate_feedback_locked mo c)) = c_queue c"
  "c_session_id (fst (smart_io_throttle_invalidate_feedback_locked mo c)) = c_session_id c"
  "c_control_id (fst (smart_io_throttle_invalidate_feedback_locked mo c)) = c_control_id c"
  "c_decision_id (fst (smart_io_throttle_invalidate_feedback_locked mo c)) = c_decision_id c"
  "c_next_rq_id (fst (smart_io_throttle_invalidate_feedback_locked mo c)) = c_next_rq_id c"
  "m_rq (c_meta_pool (fst (smart_io_throttle_invalidate_feedback_locked mo c)) j) = m_rq (c_meta_pool c j)"
  "m_class (c_meta_pool (fst (smart_io_throttle_invalidate_feedback_locked mo c)) j) = m_class (c_meta_pool c j)"
  "m_queue_class (c_meta_pool (fst (smart_io_throttle_invalidate_feedback_locked mo c)) j) = m_queue_class (c_meta_pool c j)"
  "m_op (c_meta_pool (fst (smart_io_throttle_invalidate_feedback_locked mo c)) j) = m_op (c_meta_pool c j)"
  "m_start_sector (c_meta_pool (fst (smart_io_throttle_invalidate_feedback_locked mo c)) j) = m_start_sector (c_meta_pool c j)"
  "m_end_sector (c_meta_pool (fst (smart_io_throttle_invalidate_feedback_locked mo c)) j) = m_end_sector (c_meta_pool c j)"
  "m_issue_ts_ns (c_meta_pool (fst (smart_io_throttle_invalidate_feedback_locked mo c)) j) = m_issue_ts_ns (c_meta_pool c j)"
  "m_queued (c_meta_pool (fst (smart_io_throttle_invalidate_feedback_locked mo c)) j) = m_queued (c_meta_pool c j)"
  "m_depth_accounted (c_meta_pool (fst (smart_io_throttle_invalidate_feedback_locked mo c)) j) = m_depth_accounted (c_meta_pool c j)"
  "m_bg_depth_accounted (c_meta_pool (fst (smart_io_throttle_invalidate_feedback_locked mo c)) j) = m_bg_depth_accounted (c_meta_pool c j)"
  "m_issued_accounted (c_meta_pool (fst (smart_io_throttle_invalidate_feedback_locked mo c)) j) = m_issued_accounted (c_meta_pool c j)"
  "m_inflight_indexed (c_meta_pool (fst (smart_io_throttle_invalidate_feedback_locked mo c)) j) = m_inflight_indexed (c_meta_pool c j)"
  "m_deadline_forced (c_meta_pool (fst (smart_io_throttle_invalidate_feedback_locked mo c)) j) = m_deadline_forced (c_meta_pool c j)"
  by (auto simp: smart_io_throttle_invalidate_feedback_locked_def Let_def)

lemma pending_dec_frame [simp]:
  "c_active (smart_io_throttle_pending_dec_locked mo c) = c_active c"
  "c_free_meta (smart_io_throttle_pending_dec_locked mo c) = c_free_meta c"
  "c_elv_priv1 (smart_io_throttle_pending_dec_locked mo c) = c_elv_priv1 c"
  "c_meta_capacity (smart_io_throttle_pending_dec_locked mo c) = c_meta_capacity c"
  "c_meta_inuse (smart_io_throttle_pending_dec_locked mo c) = c_meta_inuse c"
  "c_queue (smart_io_throttle_pending_dec_locked mo c) = c_queue c"
  "c_session_id (smart_io_throttle_pending_dec_locked mo c) = c_session_id c"
  "c_control_id (smart_io_throttle_pending_dec_locked mo c) = c_control_id c"
  "c_decision_id (smart_io_throttle_pending_dec_locked mo c) = c_decision_id c"
  "c_next_rq_id (smart_io_throttle_pending_dec_locked mo c) = c_next_rq_id c"
  "m_rq (c_meta_pool (smart_io_throttle_pending_dec_locked mo c) j) = m_rq (c_meta_pool c j)"
  "m_class (c_meta_pool (smart_io_throttle_pending_dec_locked mo c) j) = m_class (c_meta_pool c j)"
  "m_queue_class (c_meta_pool (smart_io_throttle_pending_dec_locked mo c) j) = m_queue_class (c_meta_pool c j)"
  "m_op (c_meta_pool (smart_io_throttle_pending_dec_locked mo c) j) = m_op (c_meta_pool c j)"
  "m_start_sector (c_meta_pool (smart_io_throttle_pending_dec_locked mo c) j) = m_start_sector (c_meta_pool c j)"
  "m_end_sector (c_meta_pool (smart_io_throttle_pending_dec_locked mo c) j) = m_end_sector (c_meta_pool c j)"
  "m_issue_ts_ns (c_meta_pool (smart_io_throttle_pending_dec_locked mo c) j) = m_issue_ts_ns (c_meta_pool c j)"
  "m_depth_accounted (c_meta_pool (smart_io_throttle_pending_dec_locked mo c) j) = m_depth_accounted (c_meta_pool c j)"
  "m_bg_depth_accounted (c_meta_pool (smart_io_throttle_pending_dec_locked mo c) j) = m_bg_depth_accounted (c_meta_pool c j)"
  "m_issued_accounted (c_meta_pool (smart_io_throttle_pending_dec_locked mo c) j) = m_issued_accounted (c_meta_pool c j)"
  "m_inflight_indexed (c_meta_pool (smart_io_throttle_pending_dec_locked mo c) j) = m_inflight_indexed (c_meta_pool c j)"
  "m_deadline_forced (c_meta_pool (smart_io_throttle_pending_dec_locked mo c) j) = m_deadline_forced (c_meta_pool c j)"
  by (auto simp: smart_io_throttle_pending_dec_locked_def upd_meta_def Let_def split: option.splits)

lemma pending_inc_frame [simp]:
  "c_active (smart_io_throttle_pending_inc_locked g now i c) = c_active c"
  "c_free_meta (smart_io_throttle_pending_inc_locked g now i c) = c_free_meta c"
  "c_elv_priv1 (smart_io_throttle_pending_inc_locked g now i c) = c_elv_priv1 c"
  "c_meta_capacity (smart_io_throttle_pending_inc_locked g now i c) = c_meta_capacity c"
  "c_meta_inuse (smart_io_throttle_pending_inc_locked g now i c) = c_meta_inuse c"
  "c_queue (smart_io_throttle_pending_inc_locked g now i c) = c_queue c"
  "c_session_id (smart_io_throttle_pending_inc_locked g now i c) = c_session_id c"
  "c_control_id (smart_io_throttle_pending_inc_locked g now i c) = c_control_id c"
  "c_decision_id (smart_io_throttle_pending_inc_locked g now i c) = c_decision_id c"
  "c_next_rq_id (smart_io_throttle_pending_inc_locked g now i c) = c_next_rq_id c"
  "m_rq (c_meta_pool (smart_io_throttle_pending_inc_locked g now i c) j) = m_rq (c_meta_pool c j)"
  "m_class (c_meta_pool (smart_io_throttle_pending_inc_locked g now i c) j) = m_class (c_meta_pool c j)"
  "m_queue_class (c_meta_pool (smart_io_throttle_pending_inc_locked g now i c) j) = m_queue_class (c_meta_pool c j)"
  "m_op (c_meta_pool (smart_io_throttle_pending_inc_locked g now i c) j) = m_op (c_meta_pool c j)"
  "m_start_sector (c_meta_pool (smart_io_throttle_pending_inc_locked g now i c) j) = m_start_sector (c_meta_pool c j)"
  "m_end_sector (c_meta_pool (smart_io_throttle_pending_inc_locked g now i c) j) = m_end_sector (c_meta_pool c j)"
  "m_issue_ts_ns (c_meta_pool (smart_io_throttle_pending_inc_locked g now i c) j) = m_issue_ts_ns (c_meta_pool c j)"
  "m_depth_accounted (c_meta_pool (smart_io_throttle_pending_inc_locked g now i c) j) = m_depth_accounted (c_meta_pool c j)"
  "m_bg_depth_accounted (c_meta_pool (smart_io_throttle_pending_inc_locked g now i c) j) = m_bg_depth_accounted (c_meta_pool c j)"
  "m_issued_accounted (c_meta_pool (smart_io_throttle_pending_inc_locked g now i c) j) = m_issued_accounted (c_meta_pool c j)"
  "m_inflight_indexed (c_meta_pool (smart_io_throttle_pending_inc_locked g now i c) j) = m_inflight_indexed (c_meta_pool c j)"
  "m_deadline_forced (c_meta_pool (smart_io_throttle_pending_inc_locked g now i c) j) = m_deadline_forced (c_meta_pool c j)"
  by (auto simp: smart_io_throttle_pending_inc_locked_def upd_meta_def Let_def)

lemma inflight_remove_frame [simp]:
  "c_active (smart_io_throttle_inflight_remove_locked mo c) = c_active c"
  "c_free_meta (smart_io_throttle_inflight_remove_locked mo c) = c_free_meta c"
  "c_elv_priv1 (smart_io_throttle_inflight_remove_locked mo c) = c_elv_priv1 c"
  "c_meta_capacity (smart_io_throttle_inflight_remove_locked mo c) = c_meta_capacity c"
  "c_meta_inuse (smart_io_throttle_inflight_remove_locked mo c) = c_meta_inuse c"
  "c_queue (smart_io_throttle_inflight_remove_locked mo c) = c_queue c"
  "c_session_id (smart_io_throttle_inflight_remove_locked mo c) = c_session_id c"
  "c_control_id (smart_io_throttle_inflight_remove_locked mo c) = c_control_id c"
  "c_decision_id (smart_io_throttle_inflight_remove_locked mo c) = c_decision_id c"
  "c_next_rq_id (smart_io_throttle_inflight_remove_locked mo c) = c_next_rq_id c"
  "m_rq (c_meta_pool (smart_io_throttle_inflight_remove_locked mo c) j) = m_rq (c_meta_pool c j)"
  "m_class (c_meta_pool (smart_io_throttle_inflight_remove_locked mo c) j) = m_class (c_meta_pool c j)"
  "m_queue_class (c_meta_pool (smart_io_throttle_inflight_remove_locked mo c) j) = m_queue_class (c_meta_pool c j)"
  "m_op (c_meta_pool (smart_io_throttle_inflight_remove_locked mo c) j) = m_op (c_meta_pool c j)"
  "m_start_sector (c_meta_pool (smart_io_throttle_inflight_remove_locked mo c) j) = m_start_sector (c_meta_pool c j)"
  "m_end_sector (c_meta_pool (smart_io_throttle_inflight_remove_locked mo c) j) = m_end_sector (c_meta_pool c j)"
  "m_issue_ts_ns (c_meta_pool (smart_io_throttle_inflight_remove_locked mo c) j) = m_issue_ts_ns (c_meta_pool c j)"
  "m_queued (c_meta_pool (smart_io_throttle_inflight_remove_locked mo c) j) = m_queued (c_meta_pool c j)"
  "m_depth_accounted (c_meta_pool (smart_io_throttle_inflight_remove_locked mo c) j) = m_depth_accounted (c_meta_pool c j)"
  "m_bg_depth_accounted (c_meta_pool (smart_io_throttle_inflight_remove_locked mo c) j) = m_bg_depth_accounted (c_meta_pool c j)"
  "m_issued_accounted (c_meta_pool (smart_io_throttle_inflight_remove_locked mo c) j) = m_issued_accounted (c_meta_pool c j)"
  "m_deadline_forced (c_meta_pool (smart_io_throttle_inflight_remove_locked mo c) j) = m_deadline_forced (c_meta_pool c j)"
  by (auto simp: smart_io_throttle_inflight_remove_locked_def upd_meta_def split: option.splits)

lemma inflight_add_frame [simp]:
  "c_active (smart_io_throttle_inflight_add_locked K mo rq c) = c_active c"
  "c_free_meta (smart_io_throttle_inflight_add_locked K mo rq c) = c_free_meta c"
  "c_elv_priv1 (smart_io_throttle_inflight_add_locked K mo rq c) = c_elv_priv1 c"
  "c_meta_capacity (smart_io_throttle_inflight_add_locked K mo rq c) = c_meta_capacity c"
  "c_meta_inuse (smart_io_throttle_inflight_add_locked K mo rq c) = c_meta_inuse c"
  "c_queue (smart_io_throttle_inflight_add_locked K mo rq c) = c_queue c"
  "c_session_id (smart_io_throttle_inflight_add_locked K mo rq c) = c_session_id c"
  "c_control_id (smart_io_throttle_inflight_add_locked K mo rq c) = c_control_id c"
  "c_decision_id (smart_io_throttle_inflight_add_locked K mo rq c) = c_decision_id c"
  "c_next_rq_id (smart_io_throttle_inflight_add_locked K mo rq c) = c_next_rq_id c"
  "m_rq (c_meta_pool (smart_io_throttle_inflight_add_locked K mo rq c) j) = m_rq (c_meta_pool c j)"
  "m_class (c_meta_pool (smart_io_throttle_inflight_add_locked K mo rq c) j) = m_class (c_meta_pool c j)"
  "m_queue_class (c_meta_pool (smart_io_throttle_inflight_add_locked K mo rq c) j) = m_queue_class (c_meta_pool c j)"
  "m_op (c_meta_pool (smart_io_throttle_inflight_add_locked K mo rq c) j) = m_op (c_meta_pool c j)"
  "m_issue_ts_ns (c_meta_pool (smart_io_throttle_inflight_add_locked K mo rq c) j) = m_issue_ts_ns (c_meta_pool c j)"
  "m_queued (c_meta_pool (smart_io_throttle_inflight_add_locked K mo rq c) j) = m_queued (c_meta_pool c j)"
  "m_depth_accounted (c_meta_pool (smart_io_throttle_inflight_add_locked K mo rq c) j) = m_depth_accounted (c_meta_pool c j)"
  "m_bg_depth_accounted (c_meta_pool (smart_io_throttle_inflight_add_locked K mo rq c) j) = m_bg_depth_accounted (c_meta_pool c j)"
  "m_issued_accounted (c_meta_pool (smart_io_throttle_inflight_add_locked K mo rq c) j) = m_issued_accounted (c_meta_pool c j)"
  "m_deadline_forced (c_meta_pool (smart_io_throttle_inflight_add_locked K mo rq c) j) = m_deadline_forced (c_meta_pool c j)"
  by (auto simp: smart_io_throttle_inflight_add_locked_def upd_meta_def Let_def split: option.splits)

lemma account_depth_frame [simp]:
  "c_active (fst (smart_io_throttle_account_depth_locked mo c)) = c_active c"
  "c_free_meta (fst (smart_io_throttle_account_depth_locked mo c)) = c_free_meta c"
  "c_elv_priv1 (fst (smart_io_throttle_account_depth_locked mo c)) = c_elv_priv1 c"
  "c_meta_capacity (fst (smart_io_throttle_account_depth_locked mo c)) = c_meta_capacity c"
  "c_meta_inuse (fst (smart_io_throttle_account_depth_locked mo c)) = c_meta_inuse c"
  "c_queue (fst (smart_io_throttle_account_depth_locked mo c)) = c_queue c"
  "c_session_id (fst (smart_io_throttle_account_depth_locked mo c)) = c_session_id c"
  "c_control_id (fst (smart_io_throttle_account_depth_locked mo c)) = c_control_id c"
  "c_decision_id (fst (smart_io_throttle_account_depth_locked mo c)) = c_decision_id c"
  "c_next_rq_id (fst (smart_io_throttle_account_depth_locked mo c)) = c_next_rq_id c"
  "m_rq (c_meta_pool (fst (smart_io_throttle_account_depth_locked mo c)) j) = m_rq (c_meta_pool c j)"
  "m_class (c_meta_pool (fst (smart_io_throttle_account_depth_locked mo c)) j) = m_class (c_meta_pool c j)"
  "m_queue_class (c_meta_pool (fst (smart_io_throttle_account_depth_locked mo c)) j) = m_queue_class (c_meta_pool c j)"
  "m_op (c_meta_pool (fst (smart_io_throttle_account_depth_locked mo c)) j) = m_op (c_meta_pool c j)"
  "m_start_sector (c_meta_pool (fst (smart_io_throttle_account_depth_locked mo c)) j) = m_start_sector (c_meta_pool c j)"
  "m_end_sector (c_meta_pool (fst (smart_io_throttle_account_depth_locked mo c)) j) = m_end_sector (c_meta_pool c j)"
  "m_issue_ts_ns (c_meta_pool (fst (smart_io_throttle_account_depth_locked mo c)) j) = m_issue_ts_ns (c_meta_pool c j)"
  "m_queued (c_meta_pool (fst (smart_io_throttle_account_depth_locked mo c)) j) = m_queued (c_meta_pool c j)"
  "m_issued_accounted (c_meta_pool (fst (smart_io_throttle_account_depth_locked mo c)) j) = m_issued_accounted (c_meta_pool c j)"
  "m_inflight_indexed (c_meta_pool (fst (smart_io_throttle_account_depth_locked mo c)) j) = m_inflight_indexed (c_meta_pool c j)"
  "m_deadline_forced (c_meta_pool (fst (smart_io_throttle_account_depth_locked mo c)) j) = m_deadline_forced (c_meta_pool c j)"
  by (auto simp: smart_io_throttle_account_depth_locked_def upd_meta_def Let_def split: option.splits)

lemma account_issued_frame [simp]:
  "c_active (fst (smart_io_throttle_account_issued_depth_locked mo c)) = c_active c"
  "c_free_meta (fst (smart_io_throttle_account_issued_depth_locked mo c)) = c_free_meta c"
  "c_elv_priv1 (fst (smart_io_throttle_account_issued_depth_locked mo c)) = c_elv_priv1 c"
  "c_meta_capacity (fst (smart_io_throttle_account_issued_depth_locked mo c)) = c_meta_capacity c"
  "c_meta_inuse (fst (smart_io_throttle_account_issued_depth_locked mo c)) = c_meta_inuse c"
  "c_queue (fst (smart_io_throttle_account_issued_depth_locked mo c)) = c_queue c"
  "c_session_id (fst (smart_io_throttle_account_issued_depth_locked mo c)) = c_session_id c"
  "c_control_id (fst (smart_io_throttle_account_issued_depth_locked mo c)) = c_control_id c"
  "c_decision_id (fst (smart_io_throttle_account_issued_depth_locked mo c)) = c_decision_id c"
  "c_next_rq_id (fst (smart_io_throttle_account_issued_depth_locked mo c)) = c_next_rq_id c"
  "m_rq (c_meta_pool (fst (smart_io_throttle_account_issued_depth_locked mo c)) j) = m_rq (c_meta_pool c j)"
  "m_class (c_meta_pool (fst (smart_io_throttle_account_issued_depth_locked mo c)) j) = m_class (c_meta_pool c j)"
  "m_queue_class (c_meta_pool (fst (smart_io_throttle_account_issued_depth_locked mo c)) j) = m_queue_class (c_meta_pool c j)"
  "m_op (c_meta_pool (fst (smart_io_throttle_account_issued_depth_locked mo c)) j) = m_op (c_meta_pool c j)"
  "m_start_sector (c_meta_pool (fst (smart_io_throttle_account_issued_depth_locked mo c)) j) = m_start_sector (c_meta_pool c j)"
  "m_end_sector (c_meta_pool (fst (smart_io_throttle_account_issued_depth_locked mo c)) j) = m_end_sector (c_meta_pool c j)"
  "m_issue_ts_ns (c_meta_pool (fst (smart_io_throttle_account_issued_depth_locked mo c)) j) = m_issue_ts_ns (c_meta_pool c j)"
  "m_queued (c_meta_pool (fst (smart_io_throttle_account_issued_depth_locked mo c)) j) = m_queued (c_meta_pool c j)"
  "m_depth_accounted (c_meta_pool (fst (smart_io_throttle_account_issued_depth_locked mo c)) j) = m_depth_accounted (c_meta_pool c j)"
  "m_bg_depth_accounted (c_meta_pool (fst (smart_io_throttle_account_issued_depth_locked mo c)) j) = m_bg_depth_accounted (c_meta_pool c j)"
  "m_inflight_indexed (c_meta_pool (fst (smart_io_throttle_account_issued_depth_locked mo c)) j) = m_inflight_indexed (c_meta_pool c j)"
  "m_deadline_forced (c_meta_pool (fst (smart_io_throttle_account_issued_depth_locked mo c)) j) = m_deadline_forced (c_meta_pool c j)"
  by (auto simp: smart_io_throttle_account_issued_depth_locked_def upd_meta_def split: option.splits)

lemma release_deadline_frame [simp]:
  "c_active (fst (smart_io_throttle_release_deadline_locked mo c)) = c_active c"
  "c_free_meta (fst (smart_io_throttle_release_deadline_locked mo c)) = c_free_meta c"
  "c_elv_priv1 (fst (smart_io_throttle_release_deadline_locked mo c)) = c_elv_priv1 c"
  "c_meta_capacity (fst (smart_io_throttle_release_deadline_locked mo c)) = c_meta_capacity c"
  "c_meta_inuse (fst (smart_io_throttle_release_deadline_locked mo c)) = c_meta_inuse c"
  "c_queue (fst (smart_io_throttle_release_deadline_locked mo c)) = c_queue c"
  "c_session_id (fst (smart_io_throttle_release_deadline_locked mo c)) = c_session_id c"
  "c_control_id (fst (smart_io_throttle_release_deadline_locked mo c)) = c_control_id c"
  "c_decision_id (fst (smart_io_throttle_release_deadline_locked mo c)) = c_decision_id c"
  "c_next_rq_id (fst (smart_io_throttle_release_deadline_locked mo c)) = c_next_rq_id c"
  "m_rq (c_meta_pool (fst (smart_io_throttle_release_deadline_locked mo c)) j) = m_rq (c_meta_pool c j)"
  "m_class (c_meta_pool (fst (smart_io_throttle_release_deadline_locked mo c)) j) = m_class (c_meta_pool c j)"
  "m_queue_class (c_meta_pool (fst (smart_io_throttle_release_deadline_locked mo c)) j) = m_queue_class (c_meta_pool c j)"
  "m_op (c_meta_pool (fst (smart_io_throttle_release_deadline_locked mo c)) j) = m_op (c_meta_pool c j)"
  "m_start_sector (c_meta_pool (fst (smart_io_throttle_release_deadline_locked mo c)) j) = m_start_sector (c_meta_pool c j)"
  "m_end_sector (c_meta_pool (fst (smart_io_throttle_release_deadline_locked mo c)) j) = m_end_sector (c_meta_pool c j)"
  "m_issue_ts_ns (c_meta_pool (fst (smart_io_throttle_release_deadline_locked mo c)) j) = m_issue_ts_ns (c_meta_pool c j)"
  "m_queued (c_meta_pool (fst (smart_io_throttle_release_deadline_locked mo c)) j) = m_queued (c_meta_pool c j)"
  "m_depth_accounted (c_meta_pool (fst (smart_io_throttle_release_deadline_locked mo c)) j) = m_depth_accounted (c_meta_pool c j)"
  "m_bg_depth_accounted (c_meta_pool (fst (smart_io_throttle_release_deadline_locked mo c)) j) = m_bg_depth_accounted (c_meta_pool c j)"
  "m_issued_accounted (c_meta_pool (fst (smart_io_throttle_release_deadline_locked mo c)) j) = m_issued_accounted (c_meta_pool c j)"
  "m_inflight_indexed (c_meta_pool (fst (smart_io_throttle_release_deadline_locked mo c)) j) = m_inflight_indexed (c_meta_pool c j)"
  by (auto simp: smart_io_throttle_release_deadline_locked_def upd_meta_def Let_def split: option.splits)

lemma release_issued_frame [simp]:
  "c_active (fst (smart_io_throttle_release_issued_depth_locked mo c)) = c_active c"
  "c_free_meta (fst (smart_io_throttle_release_issued_depth_locked mo c)) = c_free_meta c"
  "c_elv_priv1 (fst (smart_io_throttle_release_issued_depth_locked mo c)) = c_elv_priv1 c"
  "c_meta_capacity (fst (smart_io_throttle_release_issued_depth_locked mo c)) = c_meta_capacity c"
  "c_meta_inuse (fst (smart_io_throttle_release_issued_depth_locked mo c)) = c_meta_inuse c"
  "c_queue (fst (smart_io_throttle_release_issued_depth_locked mo c)) = c_queue c"
  "c_session_id (fst (smart_io_throttle_release_issued_depth_locked mo c)) = c_session_id c"
  "c_control_id (fst (smart_io_throttle_release_issued_depth_locked mo c)) = c_control_id c"
  "c_decision_id (fst (smart_io_throttle_release_issued_depth_locked mo c)) = c_decision_id c"
  "c_next_rq_id (fst (smart_io_throttle_release_issued_depth_locked mo c)) = c_next_rq_id c"
  "m_rq (c_meta_pool (fst (smart_io_throttle_release_issued_depth_locked mo c)) j) = m_rq (c_meta_pool c j)"
  "m_class (c_meta_pool (fst (smart_io_throttle_release_issued_depth_locked mo c)) j) = m_class (c_meta_pool c j)"
  "m_queue_class (c_meta_pool (fst (smart_io_throttle_release_issued_depth_locked mo c)) j) = m_queue_class (c_meta_pool c j)"
  "m_op (c_meta_pool (fst (smart_io_throttle_release_issued_depth_locked mo c)) j) = m_op (c_meta_pool c j)"
  "m_start_sector (c_meta_pool (fst (smart_io_throttle_release_issued_depth_locked mo c)) j) = m_start_sector (c_meta_pool c j)"
  "m_end_sector (c_meta_pool (fst (smart_io_throttle_release_issued_depth_locked mo c)) j) = m_end_sector (c_meta_pool c j)"
  "m_issue_ts_ns (c_meta_pool (fst (smart_io_throttle_release_issued_depth_locked mo c)) j) = m_issue_ts_ns (c_meta_pool c j)"
  "m_queued (c_meta_pool (fst (smart_io_throttle_release_issued_depth_locked mo c)) j) = m_queued (c_meta_pool c j)"
  "m_depth_accounted (c_meta_pool (fst (smart_io_throttle_release_issued_depth_locked mo c)) j) = m_depth_accounted (c_meta_pool c j)"
  "m_bg_depth_accounted (c_meta_pool (fst (smart_io_throttle_release_issued_depth_locked mo c)) j) = m_bg_depth_accounted (c_meta_pool c j)"
  "m_inflight_indexed (c_meta_pool (fst (smart_io_throttle_release_issued_depth_locked mo c)) j) = m_inflight_indexed (c_meta_pool c j)"
  "m_deadline_forced (c_meta_pool (fst (smart_io_throttle_release_issued_depth_locked mo c)) j) = m_deadline_forced (c_meta_pool c j)"
  by (auto simp: smart_io_throttle_release_issued_depth_locked_def upd_meta_def Let_def split: option.splits)

lemma release_depth_frame [simp]:
  "c_active (fst (smart_io_throttle_release_depth_locked mo released c)) = c_active c"
  "c_free_meta (fst (smart_io_throttle_release_depth_locked mo released c)) = c_free_meta c"
  "c_elv_priv1 (fst (smart_io_throttle_release_depth_locked mo released c)) = c_elv_priv1 c"
  "c_meta_capacity (fst (smart_io_throttle_release_depth_locked mo released c)) = c_meta_capacity c"
  "c_meta_inuse (fst (smart_io_throttle_release_depth_locked mo released c)) = c_meta_inuse c"
  "c_queue (fst (smart_io_throttle_release_depth_locked mo released c)) = c_queue c"
  "c_session_id (fst (smart_io_throttle_release_depth_locked mo released c)) = c_session_id c"
  "c_control_id (fst (smart_io_throttle_release_depth_locked mo released c)) = c_control_id c"
  "c_decision_id (fst (smart_io_throttle_release_depth_locked mo released c)) = c_decision_id c"
  "c_next_rq_id (fst (smart_io_throttle_release_depth_locked mo released c)) = c_next_rq_id c"
  "m_rq (c_meta_pool (fst (smart_io_throttle_release_depth_locked mo released c)) j) = m_rq (c_meta_pool c j)"
  "m_class (c_meta_pool (fst (smart_io_throttle_release_depth_locked mo released c)) j) = m_class (c_meta_pool c j)"
  "m_queue_class (c_meta_pool (fst (smart_io_throttle_release_depth_locked mo released c)) j) = m_queue_class (c_meta_pool c j)"
  "m_op (c_meta_pool (fst (smart_io_throttle_release_depth_locked mo released c)) j) = m_op (c_meta_pool c j)"
  "m_start_sector (c_meta_pool (fst (smart_io_throttle_release_depth_locked mo released c)) j) = m_start_sector (c_meta_pool c j)"
  "m_end_sector (c_meta_pool (fst (smart_io_throttle_release_depth_locked mo released c)) j) = m_end_sector (c_meta_pool c j)"
  "m_issue_ts_ns (c_meta_pool (fst (smart_io_throttle_release_depth_locked mo released c)) j) = m_issue_ts_ns (c_meta_pool c j)"
  "m_queued (c_meta_pool (fst (smart_io_throttle_release_depth_locked mo released c)) j) = m_queued (c_meta_pool c j)"
  "m_issued_accounted (c_meta_pool (fst (smart_io_throttle_release_depth_locked mo released c)) j) = m_issued_accounted (c_meta_pool c j)"
  "m_inflight_indexed (c_meta_pool (fst (smart_io_throttle_release_depth_locked mo released c)) j) = m_inflight_indexed (c_meta_pool c j)"
  "m_deadline_forced (c_meta_pool (fst (smart_io_throttle_release_depth_locked mo released c)) j) = m_deadline_forced (c_meta_pool c j)"
  by (auto simp: smart_io_throttle_release_depth_locked_def upd_meta_def Let_def split: option.splits)

text \<open>After a release the slot does not carry the flag.\<close>

lemma release_flags [simp]:
  "\<not> m_deadline_forced (c_meta_pool (fst (smart_io_throttle_release_deadline_locked (Some i) c)) i)"
  "\<not> m_issued_accounted (c_meta_pool (fst (smart_io_throttle_release_issued_depth_locked (Some i) c)) i)"
  "\<not> m_depth_accounted (c_meta_pool (fst (smart_io_throttle_release_depth_locked (Some i) released c)) i)"
  "\<not> m_queued (c_meta_pool (smart_io_throttle_pending_dec_locked (Some i) c) i)"
  "\<not> m_inflight_indexed (c_meta_pool (smart_io_throttle_inflight_remove_locked (Some i) c) i)"
  by (auto simp: smart_io_throttle_release_deadline_locked_def
      smart_io_throttle_release_issued_depth_locked_def smart_io_throttle_release_depth_locked_def
      smart_io_throttle_pending_dec_locked_def smart_io_throttle_inflight_remove_locked_def
      upd_meta_def Let_def)

end
