(* ===== verification/Throttle_Slots.thy ===== *)
theory Throttle_Slots
  imports Throttle_Frames
begin

text \<open>
  Allocation and release of request metadata: both keep the accounting invariant, and a
  slot goes from the free list to the active table and back.
\<close>

section \<open>Allocation and release of metadata\<close>

lemma inuse_not_full:
  assumes "ctx_inv c" and "c_free_meta c = i # rest"
  shows "c_meta_inuse c \<noteq> u32_max"
proof -
  have inv: "pool_inv c" using assms(1) by (rule ctx_invD)
  have "i \<notin> set (active_slots c)" "i < unat (c_meta_capacity c)"
    using inv assms(2) by (auto simp: pool_inv_def)
  then have "set (active_slots c) \<subset> {..<unat (c_meta_capacity c)}"
    using inv by (auto simp: pool_inv_def)
  then have "card (set (active_slots c)) < unat (c_meta_capacity c)"
    by (metis card_lessThan finite_lessThan psubset_card_mono)
  then have "length (c_active c) < unat (c_meta_capacity c)"
    using ctx_inv_distinct [OF assms(1)] by (simp add: distinct_card)
  then have "unat (c_meta_inuse c) < 4294967295"
    using inv unat_le_u32_max [of "c_meta_capacity c"] by (simp add: pool_inv_def)
  then show ?thesis using unat_u32_max by (metis less_irrefl)
qed

lemma alloc_some_inv:
  assumes inv: "ctx_inv c" and free: "c_free_meta c = i # rest"
  shows "ctx_inv (fst (smart_io_throttle_alloc_meta_locked K rq cl c))"
proof -
  let ?d = "fst (smart_io_throttle_alloc_meta_locked K rq cl c)"
  note parts = ctx_invD [OF inv] and nf = unat_inc [OF inuse_not_full [OF inv free]]
    and def = smart_io_throttle_alloc_meta_locked_def upd_meta_def smart_io_throttle_set_rq_meta_def Let_def
      fresh_meta_def zero_meta_def
  have new: "i \<notin> set (active_slots c)" "i \<notin> set rest" "distinct rest"
    using parts(1) free by (auto simp: pool_inv_def)
  have other: "m_rq (c_meta_pool c (snd e)) = Some p \<Longrightarrow> e \<in> set (c_active c) \<Longrightarrow> snd e \<noteq> i" for e p
    using new by (auto simp: hash_slots_def)
  show ?thesis
  proof (rule ctx_invI)
    have keep: "m_rq (((c_meta_pool c)(i := m)) (snd e)) = m_rq (c_meta_pool c (snd e))"
      if "e \<in> set (c_active c)" for e m
      using that new by (auto simp: hash_slots_def)
    have tab: "set (hash_add k i (c_active c)) = insert (k, i) (set (c_active c))" for k
      by (simp add: hash_add_def)
    have absent: "(a, i) \<notin> set (c_active c)" for a
      using new by (force simp: hash_slots_def)
    show "pool_inv ?d" using parts(1) free new nf absent
      by (cases "rq_use_sched rq") (simp_all add: def pool_inv_def tab keep, safe, simp_all)
    show "count_inv ?d" using parts(2) free new
      by (auto simp: def count_inv_def cnt_def queued_in_def count_slots_Cons count_slots_other)
    show "priv_inv ?d" using parts(3) free new
      by (auto simp: def priv_inv_def)
    show "fb_inv ?d" using parts(4) free new
      by (auto simp: def fb_inv_def split: option.splits)
    show "idx_inv ?d" using parts(5) free new
      by (auto simp: def idx_inv_def)
    show "win_inv ?d" using parts(6) free by (simp add: def win_inv_def)
  qed
qed

lemma alloc_inv: "ctx_inv c \<Longrightarrow> ctx_inv (fst (smart_io_throttle_alloc_meta_locked K rq cl c))"
proof (cases "c_free_meta c")
  case Nil
  assume "ctx_inv c"
  with Nil show ?thesis by (simp add: smart_io_throttle_alloc_meta_locked_def fallback_inv)
qed (rule alloc_some_inv)

lemma alloc_active:
  "snd (smart_io_throttle_alloc_meta_locked K rq cl c) = Some i \<Longrightarrow>
   i \<in> set (active_slots (fst (smart_io_throttle_alloc_meta_locked K rq cl c)))"
  by (auto simp: smart_io_throttle_alloc_meta_locked_def Let_def upd_meta_def
      smart_io_throttle_set_rq_meta_def split: list.splits if_splits)

text \<open>Moving a slot without flags and without pointers back to the free list.\<close>

lemma unlink_inv:
  assumes inv: "ctx_inv c" and act: "i \<in> set (active_slots c)"
    and clean: "\<not> m_queued (c_meta_pool c i)" "\<not> m_depth_accounted (c_meta_pool c i)"
      "\<not> m_issued_accounted (c_meta_pool c i)" "\<not> m_inflight_indexed (c_meta_pool c i)"
      "\<not> m_deadline_forced (c_meta_pool c i)"
    and nofb: "c_feedback_meta c \<noteq> Some i" and nopriv: "\<And>p. c_elv_priv1 c p \<noteq> Some i"
  shows "ctx_inv (upd_meta i (\<lambda>_. zero_meta)
    (c\<lparr>c_active := hash_del i (c_active c), c_meta_inuse := c_meta_inuse c - 1\<rparr>)
    \<lparr>c_free_meta := c_free_meta c @ [i]\<rparr>)" (is "ctx_inv ?d")
proof (rule ctx_invI)
  note parts = ctx_invD [OF inv]
  have dist: "distinct (active_slots c)" by (rule ctx_inv_distinct [OF inv])
  have nbg: "\<not> m_bg_depth_accounted (c_meta_pool c i)"
    using parts(2) act clean(2) by (auto simp: count_inv_def)
  have pos: "c_meta_inuse c \<noteq> 0" using parts(1) act
    by (auto simp: pool_inv_def hash_slots_def)
  have cnt: "count_slots P ((c_meta_pool c)(i := m)) (hash_slots (hash_del i (c_active c))) = cnt P c"
    if "\<not> P (c_meta_pool c i)" for P m
    using count_slots_hash_del [OF dist act, of P "c_meta_pool c"] that
    by (simp add: cnt_def count_slots_other)
  have keep: "e \<in> set (hash_del i (c_active c)) \<Longrightarrow> e \<in> set (c_active c) \<and> snd e \<noteq> i" for e
    by (auto simp: hash_del_def)
  show "pool_inv ?d"
    using parts(1) act unat_dec [OF pos] keep
    by (auto simp: pool_inv_def upd_meta_def distinct_hash_del length_hash_del [OF dist act])
  have cntd: "cnt P ?d = cnt P c" if "\<not> P (c_meta_pool c i)" for P
    unfolding cnt_def [of _ ?d] using cnt [where P = P, OF that] by (simp add: upd_meta_def)
  have flags: "m_depth_accounted (c_meta_pool ?d j)"
    if "j \<in> set (active_slots ?d)" "m_bg_depth_accounted (c_meta_pool ?d j)" for j
    using that parts(2) by (auto simp: upd_meta_def count_inv_def zero_meta_def split: if_splits)
  have counters: "c_pending_fg ?d = c_pending_fg c" "c_pending_bg ?d = c_pending_bg c"
    "c_current_depth ?d = c_current_depth c" "c_bg_current_depth ?d = c_bg_current_depth c"
    "c_issued_depth ?d = c_issued_depth c"
    "c_deadline_forced_active ?d = c_deadline_forced_active c"
    by (simp_all add: upd_meta_def)
  have nq: "\<not> queued_in cl (c_meta_pool c i)" for cl using clean by (simp add: queued_in_def)
  note cntd = cntd [of "queued_in SMART_IO_RQ_FOREGROUND", OF nq]
    cntd [of "queued_in SMART_IO_RQ_BACKGROUND", OF nq] cntd [of m_depth_accounted, OF clean(2)]
    cntd [of m_bg_depth_accounted, OF nbg] cntd [of m_issued_accounted, OF clean(3)]
    cntd [of m_deadline_forced, OF clean(5)]
  show "count_inv ?d"
    unfolding count_inv_def counters cntd using parts(2) flags by (simp add: count_inv_def)
  show "priv_inv ?d" using parts(3) nopriv by (auto simp: priv_inv_def upd_meta_def)
  show "fb_inv ?d" using parts(4) nofb by (auto simp: fb_inv_def upd_meta_def split: option.splits)
  show "idx_inv ?d" using parts(5) clean(4) by (auto simp: idx_inv_def upd_meta_def)
  show "win_inv ?d" using parts(6) by (simp add: win_inv_def upd_meta_def)
qed

text \<open>
  Freeing metadata: the slot is active, holds no reservation, and the request it belongs to
  is the one passed in (or no private pointer leads to the slot).
\<close>

definition detach_meta :: "request option \<Rightarrow> nat \<Rightarrow> throttle_ctx \<Rightarrow> throttle_ctx" where
  "detach_meta rqo i c =
     (let c = smart_io_throttle_pending_dec_locked (Some i) c;
          c = smart_io_throttle_inflight_remove_locked (Some i) c;
          c = (if c_feedback_meta c = Some i then smart_io_throttle_reset_feedback_locked c else c)
      in case rqo of
           Some rq \<Rightarrow> if rq_use_sched rq \<and> smart_io_throttle_rq_meta c rq = Some i
                      then smart_io_throttle_set_rq_meta rq None c else c
         | None \<Rightarrow> c)"

lemma inuse_pos: "ctx_inv c \<Longrightarrow> i \<in> set (active_slots c) \<Longrightarrow> c_meta_inuse c \<noteq> 0"
  by (auto simp: ctx_inv_def pool_inv_def hash_slots_def)

lemma detach_frame [simp]:
  "c_active (detach_meta rqo i c) = c_active c"
  "c_meta_inuse (detach_meta rqo i c) = c_meta_inuse c"
  "c_free_meta (detach_meta rqo i c) = c_free_meta c"
  "m_depth_accounted (c_meta_pool (detach_meta rqo i c) j) = m_depth_accounted (c_meta_pool c j)"
  "m_issued_accounted (c_meta_pool (detach_meta rqo i c) j) = m_issued_accounted (c_meta_pool c j)"
  "m_deadline_forced (c_meta_pool (detach_meta rqo i c) j) = m_deadline_forced (c_meta_pool c j)"
  "m_rq (c_meta_pool (detach_meta rqo i c) j) = m_rq (c_meta_pool c j)"
  by (auto simp: detach_meta_def Let_def smart_io_throttle_set_rq_meta_def split: option.splits)

lemma reset_feedback_none [simp]: "c_feedback_meta (smart_io_throttle_reset_feedback_locked c) = None"
  by (simp add: smart_io_throttle_reset_feedback_locked_def
      smart_io_throttle_clear_feedback_binding_locked_def)

lemma detach_clean:
  "\<not> m_queued (c_meta_pool (detach_meta rqo i c) i)"
  "\<not> m_inflight_indexed (c_meta_pool (detach_meta rqo i c) i)"
  "c_feedback_meta (detach_meta rqo i c) \<noteq> Some i"
  by (auto simp: detach_meta_def Let_def smart_io_throttle_set_rq_meta_def split: option.splits)

lemma clear_priv_inv:
  assumes "ctx_inv c"
  shows "ctx_inv (smart_io_throttle_set_rq_meta rq None c)"
proof (rule ctx_invI)
  note inv = ctx_invD [OF assms] and def = smart_io_throttle_set_rq_meta_def
  show "pool_inv (smart_io_throttle_set_rq_meta rq None c)" using inv(1) by (simp add: def pool_inv_def)
  show "count_inv (smart_io_throttle_set_rq_meta rq None c)"
    using inv(2) by (simp add: def count_inv_def cnt_def)
  show "priv_inv (smart_io_throttle_set_rq_meta rq None c)" using inv(3) by (auto simp: def priv_inv_def)
  show "fb_inv (smart_io_throttle_set_rq_meta rq None c)"
    using inv(4) by (simp add: def fb_inv_def split: option.splits)
  show "idx_inv (smart_io_throttle_set_rq_meta rq None c)" using inv(5) by (simp add: def idx_inv_def)
  show "win_inv (smart_io_throttle_set_rq_meta rq None c)" using inv(6) by (simp add: def win_inv_def)
qed

lemma detach_inv:
  assumes inv: "ctx_inv c" and act: "i \<in> set (active_slots c)"
  shows "ctx_inv (detach_meta rqo i c)"
proof -
  have pend: "ctx_inv (smart_io_throttle_pending_dec_locked (Some i) c)"
    by (rule pending_dec_inv [OF inv]) (simp add: act)
  have "ctx_inv (smart_io_throttle_inflight_remove_locked (Some i)
      (smart_io_throttle_pending_dec_locked (Some i) c))"
    by (rule inflight_remove_inv [OF pend]) (simp add: act)
  then show ?thesis
    by (simp add: detach_meta_def Let_def clear_priv_inv reset_feedback_inv split: option.split)
qed

lemma detach_priv_eq:
  "c_elv_priv1 (detach_meta None i c) = c_elv_priv1 c"
  "c_elv_priv1 (detach_meta (Some rq) i c) =
    (if rq_use_sched rq \<and> c_elv_priv1 c (rq_ptr rq) = Some i
     then (c_elv_priv1 c)(rq_ptr rq := None) else c_elv_priv1 c)"
  by (auto simp: detach_meta_def Let_def smart_io_throttle_set_rq_meta_def
      smart_io_throttle_rq_meta_def)

lemma detach_priv:
  assumes inv: "ctx_inv c" and own: "rqo = Some rq \<and> m_rq (c_meta_pool c i) = Some (rq_ptr rq) \<and> rq_use_sched rq \<or>
      (\<forall>p. c_elv_priv1 c p \<noteq> Some i)"
  shows "c_elv_priv1 (detach_meta rqo i c) p \<noteq> Some i"
proof -
  have own_rq: "c_elv_priv1 c p = Some i \<Longrightarrow> m_rq (c_meta_pool c i) = Some p" for p
    using inv by (simp add: ctx_inv_def priv_inv_def)
  from own show ?thesis
  proof
    assume "rqo = Some rq \<and> m_rq (c_meta_pool c i) = Some (rq_ptr rq) \<and> rq_use_sched rq"
    with own_rq [of p] show ?thesis by (auto simp: detach_priv_eq)
  next
    assume "\<forall>p. c_elv_priv1 c p \<noteq> Some i"
    then show ?thesis by (cases rqo) (simp_all add: detach_priv_eq)
  qed
qed

lemma free_meta_eq:
  assumes "ctx_inv c" and "i \<in> set (active_slots c)"
  shows "smart_io_throttle_free_meta_locked rqo (Some i) c =
    (let d = detach_meta rqo i c in
     upd_meta i (\<lambda>_. zero_meta)
       (d\<lparr>c_active := hash_del i (c_active d), c_meta_inuse := c_meta_inuse d - 1\<rparr>)
       \<lparr>c_free_meta := c_free_meta d @ [i]\<rparr>)"
proof -
  let ?d = "detach_meta rqo i c"
  have "smart_io_throttle_free_meta_locked rqo (Some i) c =
    (let c = ?d; c = (if i \<in> set (hash_slots (c_active c))
                   then c\<lparr>c_active := hash_del i (c_active c)\<rparr> else c);
              c = c\<lparr>c_meta_inuse := c_meta_inuse c - 1\<rparr>;
              c = upd_meta i (\<lambda>_. zero_meta) c
          in c\<lparr>c_free_meta := c_free_meta c @ [i]\<rparr>)"
    using inuse_pos [OF assms]
    unfolding smart_io_throttle_free_meta_locked_def detach_meta_def Let_def option.case by simp
  then show ?thesis using assms(2) by (simp add: Let_def upd_meta_def)
qed

lemma free_meta_inv:
  assumes inv: "ctx_inv c" and act: "i \<in> set (active_slots c)"
    and clean: "\<not> m_depth_accounted (c_meta_pool c i)"
      "\<not> m_issued_accounted (c_meta_pool c i)" "\<not> m_deadline_forced (c_meta_pool c i)"
    and own: "rqo = Some rq \<and> m_rq (c_meta_pool c i) = Some (rq_ptr rq) \<and> rq_use_sched rq \<or>
      (\<forall>p. c_elv_priv1 c p \<noteq> Some i)"
  shows "ctx_inv (smart_io_throttle_free_meta_locked rqo (Some i) c)"
  unfolding free_meta_eq [OF inv act] Let_def
  by (rule unlink_inv) (use assms detach_inv [OF inv act] detach_clean [of rqo i c]
      detach_priv [OF inv own] in simp_all)

end
