(* ===== verification/Throttle_Window.thy ===== *)
theory Throttle_Window
  imports Throttle_Slots
begin

text \<open>
  The window of the last five device latencies and the snapshot of the queue state the
  decision is made on (\<open>smart_io_throttle_window_snapshot_locked\<close> and its callers).  The
  theory shows that the snapshot's cross-check of the counters cannot fail while the
  accounting invariant holds, and that the counts of the snapshot are the counts of the
  metadata objects they name.
\<close>

section \<open>Scans\<close>

definition smart_io_throttle_scan_budget :: "throttle_ctx option \<Rightarrow> u32" where
  "smart_io_throttle_scan_budget co = (case co of Some c \<Rightarrow> max 1 (c_meta_capacity c) | None \<Rightarrow> 1)"

definition smart_io_throttle_contiguous_locked :: "kernel \<Rightarrow> throttle_ctx \<Rightarrow> nat option \<Rightarrow> bool" where
  "smart_io_throttle_contiguous_locked K c waiting =
     (case waiting of
        None \<Rightarrow> False
      | Some w \<Rightarrow>
         (let wm = c_meta_pool c w in
          if m_op wm \<noteq> REQ_OP_READ \<and> m_op wm \<noteq> REQ_OP_WRITE then False
          else
            scan_possible (c_meta_capacity c)
              (\<lambda>i. let im = c_meta_pool c i in m_issued_accounted im \<and> m_op im = m_op wm \<and>
                    m_end_sector im = m_start_sector wm)
              (hash_chain K (c_inflight c) (smart_io_throttle_inflight_key K (m_op wm) (m_start_sector wm)))
              \<noteq> None \<or>
            scan_possible (c_meta_capacity c)
              (\<lambda>i. let im = c_meta_pool c i in m_issued_accounted im \<and> m_op im = m_op wm \<and>
                    m_start_sector im = m_end_sector wm)
              (hash_chain K (c_inflight_start c) (smart_io_throttle_inflight_key K (m_op wm) (m_end_sector wm)))
              \<noteq> None))"

definition smart_io_throttle_seq_match :: "kernel \<Rightarrow> throttle_ctx option \<Rightarrow> request option \<Rightarrow> bool" where
  "smart_io_throttle_seq_match K co rqo =
     (case (co, rqo) of
        (Some c, Some rq) \<Rightarrow>
          if smart_io_throttle_rq_class c (Some rq) \<noteq> SMART_IO_RQ_BACKGROUND then False
          else if rq_op rq \<noteq> REQ_OP_READ \<and> rq_op rq \<noteq> REQ_OP_WRITE then False
          else
            scan_possible (smart_io_throttle_scan_budget (Some c))
              (\<lambda>i. m_op (c_meta_pool c i) = rq_op rq \<and> m_end_sector (c_meta_pool c i) = rq_pos rq)
              (hash_chain K (c_inflight c) (smart_io_throttle_inflight_key K (rq_op rq) (rq_pos rq))) \<noteq> None
      | _ \<Rightarrow> False)"

section \<open>The latency window\<close>

definition count_sample :: "u32 \<Rightarrow> completion_sample \<Rightarrow> u64 \<times> u32 \<times> u32 \<Rightarrow> u64 \<times> u32 \<times> u32" where
  "count_sample threshold_us s acc =
     (case acc of (latency_sum, slow, fg) \<Rightarrow>
        (latency_sum + ucast (smp_dev_lat_us s),
         (if smp_dev_lat_us s \<ge> threshold_us then slow + 1 else slow),
         (if smp_is_fg s then fg + 1 else fg)))"

definition smart_io_throttle_window_snapshot_locked ::
  "throttle_ctx \<Rightarrow> state_snapshot \<Rightarrow> u32 \<Rightarrow> state_snapshot \<times> bool" where
  "smart_io_throttle_window_snapshot_locked c state threshold_us =
     (if unat (c_dev_lat_count c) \<noteq> SMART_IO_DEV_LAT_WINDOW then (state, False)
      else
      (let oldest = c_dev_lat c ! unat (c_dev_lat_head c);
           sample = c_dev_lat c ! ((unat (c_dev_lat_head c) + SMART_IO_DEV_LAT_WINDOW - 1) mod
                                     SMART_IO_DEV_LAT_WINDOW) in
       if smp_complete_ts_ns oldest = 0 \<or> smp_complete_ts_ns sample < smp_complete_ts_ns oldest
       then (state, False)
       else
       (let span_ns = smp_complete_ts_ns sample - smp_complete_ts_ns oldest in
        if span_ns > SMART_IO_DEV_LAT_WINDOW_MAX_US * nsec_per_usec then (state, False)
        else
        (let (latency_sum, slow, fg) =
               foldl (\<lambda>acc s. count_sample threshold_us s acc)
                 (0, st_window_slow_count state, st_window_fg_complete_count state) (c_dev_lat c) in
         (state\<lparr>st_window_complete_count := 5,
                st_window_span_us := ucast (span_ns div nsec_per_usec),
                st_window_slow_count := slow,
                st_window_fg_complete_count := fg,
                st_window_mean_dev_us := ucast (latency_sum div 5)\<rparr>, True)))))"

definition smart_io_throttle_slow_window_locked :: "throttle_ctx \<Rightarrow> u32 \<Rightarrow> bool" where
  "smart_io_throttle_slow_window_locked c threshold_us =
     (let (state, ok) = smart_io_throttle_window_snapshot_locked c zero_snapshot threshold_us
      in ok \<and> unat (st_window_slow_count state) = SMART_IO_DEV_LAT_WINDOW)"

section \<open>The state snapshot\<close>

text \<open>
  One iteration of \<open>hash_for_each\<close> over the active table, on the snapshot and the two
  local counters.  Every iteration only increments counters, so the order in which the
  buckets are visited does not matter.
\<close>

definition snapshot_step ::
  "kernel \<Rightarrow> throttle_ctx \<Rightarrow> u64 \<Rightarrow> u32 \<Rightarrow> nat \<Rightarrow> state_snapshot \<times> u32 \<times> u32
   \<Rightarrow> state_snapshot \<times> u32 \<times> u32" where
  "snapshot_step K c now_ns threshold_us i acc =
     (case acc of (st, issued_seen, waiting_seen) \<Rightarrow>
      (let m = c_meta_pool c i;
           (st, issued_seen) =
             (if m_issued_accounted m then
                (let st = (if m_class m = SMART_IO_RQ_FOREGROUND
                           then st\<lparr>st_device_q_fg_count := st_device_q_fg_count st + 1\<rparr> else st);
                     st = (if \<not> m_device_time_excluded m \<and> m_issue_ts_ns m \<noteq> 0 \<and>
                              now_ns \<ge> m_issue_ts_ns m \<and>
                              now_ns - m_issue_ts_ns m \<ge> ucast threshold_us * nsec_per_usec
                           then st\<lparr>st_device_q_slow_count := st_device_q_slow_count st + 1\<rparr> else st)
                 in (st, issued_seen + 1))
              else (st, issued_seen))
       in
       if \<not> m_queued m then (st, issued_seen, waiting_seen)
       else
       (let st = (case m_class m of
                    SMART_IO_RQ_BACKGROUND \<Rightarrow> st\<lparr>st_waiting_count := st_waiting_count st + 1\<rparr>
                  | SMART_IO_RQ_FOREGROUND \<Rightarrow> st\<lparr>st_waiting_fg := st_waiting_fg st + 1\<rparr>);
            st = (if m_high_ioprio m
                  then st\<lparr>st_waiting_high_ioprio_count := st_waiting_high_ioprio_count st + 1\<rparr> else st);
            st = (if smart_io_throttle_contiguous_locked K c (Some i)
                  then st\<lparr>st_waiting_to_issued_contiguous_count :=
                            st_waiting_to_issued_contiguous_count st + 1\<rparr> else st)
        in (st, issued_seen, waiting_seen + 1))))"

definition smart_io_throttle_snapshot_state_locked ::
  "kernel \<Rightarrow> u64 \<Rightarrow> u32 \<Rightarrow> u32 \<Rightarrow> throttle_ctx \<Rightarrow> throttle_ctx \<times> state_snapshot \<times> bool" where
  "smart_io_throttle_snapshot_state_locked K now_ns queue_max threshold_us c =
     (let st = zero_snapshot\<lparr>st_decision_ts_ns := now_ns, st_queue_max := queue_max,
                             st_dev_lat_threshold_us := threshold_us\<rparr> in
      if queue_max = 0 then (c, st, False)
      else
      (let (st, ok) = smart_io_throttle_window_snapshot_locked c st threshold_us in
       if \<not> ok then (c, st, False)
       else
       (let (st, issued_seen, waiting_seen) =
              fold (snapshot_step K c now_ns threshold_us) (hash_slots (c_active c)) (st, 0, 0);
            st = st\<lparr>st_device_q_count := c_issued_depth c,
                    st_reserved_depth_count := c_current_depth c,
                    st_waiting_total_count := waiting_seen\<rparr> in
        if issued_seen \<noteq> c_issued_depth c \<or> waiting_seen \<noteq> c_pending_fg c + c_pending_bg c
        then (count_anomaly c, st, False)
        else (c, st, True))))"

section \<open>The counts\<close>

text \<open>What one iteration adds to the two local counters and to the counts of the snapshot.\<close>

lemma snapshot_step_seen:
  "snd (snapshot_step K c now thr i (st, a, b)) =
    (a + of_bool (m_issued_accounted (c_meta_pool c i)), b + of_bool (m_queued (c_meta_pool c i)))"
  by (simp add: snapshot_step_def Let_def)

lemma snapshot_step_counts:
  "st_waiting_count (fst (snapshot_step K c now thr i (st, a, b))) =
    st_waiting_count st + of_bool (queued_in SMART_IO_RQ_BACKGROUND (c_meta_pool c i))"
  "st_waiting_fg (fst (snapshot_step K c now thr i (st, a, b))) =
    st_waiting_fg st + of_bool (queued_in SMART_IO_RQ_FOREGROUND (c_meta_pool c i))"
  "st_device_q_fg_count (fst (snapshot_step K c now thr i (st, a, b))) =
    st_device_q_fg_count st + of_bool (m_issued_accounted (c_meta_pool c i) \<and>
      m_class (c_meta_pool c i) = SMART_IO_RQ_FOREGROUND)"
  by (cases "m_class (c_meta_pool c i)"; simp add: snapshot_step_def Let_def queued_in_def)+

lemma snapshot_step_window:
  "st_window_slow_count (fst (snapshot_step K c now thr i (st, a, b))) = st_window_slow_count st"
  "st_window_mean_dev_us (fst (snapshot_step K c now thr i (st, a, b))) = st_window_mean_dev_us st"
  "st_queue_max (fst (snapshot_step K c now thr i (st, a, b))) = st_queue_max st"
  by (cases "m_class (c_meta_pool c i)"; simp add: snapshot_step_def Let_def)+

lemma snapshot_fold_seen:
  "snd (fold (snapshot_step K c now thr) xs (st, a, b)) =
    (a + word_of_nat (count_slots m_issued_accounted (c_meta_pool c) xs),
     b + word_of_nat (count_slots m_queued (c_meta_pool c) xs))"
proof (induction xs arbitrary: st a b)
  case (Cons i xs)
  obtain st' a' b' where step: "snapshot_step K c now thr i (st, a, b) = (st', a', b')"
    by (cases "snapshot_step K c now thr i (st, a, b)") auto
  have "a' = a + of_bool (m_issued_accounted (c_meta_pool c i))"
    "b' = b + of_bool (m_queued (c_meta_pool c i))"
    using snapshot_step_seen [of K c now thr i st a b] step by simp_all
  then show ?case using Cons.IH by (simp add: count_simps step add.assoc)
qed (simp add: count_simps)

lemma snapshot_fold_counts:
  "st_waiting_count (fst (fold (snapshot_step K c now thr) xs (st, a, b))) =
     st_waiting_count st + word_of_nat (count_slots (queued_in SMART_IO_RQ_BACKGROUND) (c_meta_pool c) xs) \<and>
   st_waiting_fg (fst (fold (snapshot_step K c now thr) xs (st, a, b))) =
     st_waiting_fg st + word_of_nat (count_slots (queued_in SMART_IO_RQ_FOREGROUND) (c_meta_pool c) xs) \<and>
   st_device_q_fg_count (fst (fold (snapshot_step K c now thr) xs (st, a, b))) =
     st_device_q_fg_count st + word_of_nat (count_slots (\<lambda>m. m_issued_accounted m \<and>
       m_class m = SMART_IO_RQ_FOREGROUND) (c_meta_pool c) xs) \<and>
   st_queue_max (fst (fold (snapshot_step K c now thr) xs (st, a, b))) = st_queue_max st"
proof (induction xs arbitrary: st a b)
  case (Cons i xs)
  obtain st' a' b' where step: "snapshot_step K c now thr i (st, a, b) = (st', a', b')"
    by (cases "snapshot_step K c now thr i (st, a, b)") auto
  show ?case
    using Cons.IH [of st' a' b'] snapshot_step_counts [of K c now thr i st a b]
      snapshot_step_window(3) [of K c now thr i st a b] step
    by (simp add: count_simps add.assoc)
qed (simp add: count_simps)

text \<open>The number of queued requests is the sum of the two pending counters.\<close>

lemma queued_split:
  assumes "ctx_inv c"
  shows "cnt m_queued c = unat (c_pending_fg c) + unat (c_pending_bg c)"
proof -
  have fg: "queued_in SMART_IO_RQ_FOREGROUND = (\<lambda>m. m_queued m \<and> m_class m = SMART_IO_RQ_FOREGROUND)"
    by (simp add: queued_in_def fun_eq_iff)
  have bg: "queued_in SMART_IO_RQ_BACKGROUND = (\<lambda>m. m_queued m \<and> \<not> m_class m = SMART_IO_RQ_FOREGROUND)"
    by (auto simp: queued_in_def fun_eq_iff intro: rq_class.exhaust)
  show ?thesis
    using assms count_slots_split [of m_queued "\<lambda>m. m_class m = SMART_IO_RQ_FOREGROUND"
        "c_meta_pool c" "active_slots c"]
    by (simp add: ctx_inv_def count_inv_def cnt_def fg bg)
qed

lemma snapshot_seen:
  assumes "ctx_inv c"
  shows "word_of_nat (count_slots m_issued_accounted (c_meta_pool c) (active_slots c)) = c_issued_depth c"
    and "word_of_nat (count_slots m_queued (c_meta_pool c) (active_slots c)) =
      c_pending_fg c + c_pending_bg c"
proof -
  have id: "word_of_nat (unat x) = (x :: u32)" for x by simp
  show "word_of_nat (count_slots m_issued_accounted (c_meta_pool c) (active_slots c)) = c_issued_depth c"
    using depth_counters(3) [OF assms] id [of "c_issued_depth c"] by (simp add: cnt_def)
  have "(word_of_nat (count_slots m_queued (c_meta_pool c) (active_slots c)) :: u32) =
      word_of_nat (unat (c_pending_fg c) + unat (c_pending_bg c))"
    using queued_split [OF assms] by (simp add: cnt_def)
  then show "word_of_nat (count_slots m_queued (c_meta_pool c) (active_slots c)) =
      c_pending_fg c + c_pending_bg c"
    by (simp only: of_nat_add id)
qed

lemma snapshot_fold_ctx:
  assumes "ctx_inv c" and "fold (snapshot_step K c now thr) (active_slots c) (st, 0, 0) = (st', a, b)"
  shows "a = c_issued_depth c" and "b = c_pending_fg c + c_pending_bg c"
  using snapshot_fold_seen [of K c now thr "active_slots c" st 0 0] assms
  by (simp_all add: snapshot_seen)

lemma snapshot_eq:
  assumes inv: "ctx_inv c"
  shows "smart_io_throttle_snapshot_state_locked K now qm thr c =
    (let st = zero_snapshot\<lparr>st_decision_ts_ns := now, st_queue_max := qm, st_dev_lat_threshold_us := thr\<rparr>;
         (st', ok) = smart_io_throttle_window_snapshot_locked c st thr in
     if qm = 0 then (c, st, False)
     else if \<not> ok then (c, st', False)
     else (c, (fst (fold (snapshot_step K c now thr) (active_slots c) (st', 0, 0)))
              \<lparr>st_device_q_count := c_issued_depth c, st_reserved_depth_count := c_current_depth c,
               st_waiting_total_count := c_pending_fg c + c_pending_bg c\<rparr>, True))"
proof -
  have seen: "snd (fold (snapshot_step K c now thr) (active_slots c) (st, 0, 0)) =
      (c_issued_depth c, c_pending_fg c + c_pending_bg c)" for st
    by (simp add: snapshot_fold_seen snapshot_seen [OF inv])
  have split: "(case x of (u, v, w) \<Rightarrow> f u v w) = f (fst x) (fst (snd x)) (snd (snd x))"
    for x :: "state_snapshot \<times> u32 \<times> u32" and f :: "_ \<Rightarrow> _ \<Rightarrow> _ \<Rightarrow> throttle_ctx \<times> state_snapshot \<times> bool"
    by (simp add: case_prod_beta)
  show ?thesis
    by (simp add: smart_io_throttle_snapshot_state_locked_def Let_def split seen split: prod.split)
qed

lemma snapshot_ctx:
  "ctx_inv c \<Longrightarrow> fst (smart_io_throttle_snapshot_state_locked K now qm thr c) = c"
  by (simp add: snapshot_eq Let_def split: prod.split)

section \<open>The slow window\<close>

lemma foldl_count_sample:
  "foldl (\<lambda>acc s. count_sample thr s acc) (l, a, b) xs =
    (l + (\<Sum>s\<leftarrow>xs. ucast (smp_dev_lat_us s)),
     a + word_of_nat (length (filter (\<lambda>s. thr \<le> smp_dev_lat_us s) xs)),
     b + word_of_nat (length (filter smp_is_fg xs)))"
  by (induction xs arbitrary: l a b) (auto simp: count_sample_def add.assoc)

lemma unat_small_count:
  "length xs \<le> 5 \<Longrightarrow> unat (word_of_nat (length (filter P xs)) :: u32) = length (filter P xs)"
proof -
  assume "length xs \<le> 5"
  then have "length (filter P xs) \<le> 5" using length_filter_le [of P xs] by linarith
  then show ?thesis by (simp add: unsigned_of_nat take_bit_nat_eq_self)
qed

lemma all_filter_full: "length (filter P xs) = length xs \<longleftrightarrow> (\<forall>x \<in> set xs. P x)"
  by (metis filter_True filter_id_conv length_filter_less less_irrefl)

definition window_span_ok :: "throttle_ctx \<Rightarrow> bool" where
  "window_span_ok c \<longleftrightarrow>
     (let oldest = smp_complete_ts_ns (c_dev_lat c ! unat (c_dev_lat_head c));
          newest = smp_complete_ts_ns (c_dev_lat c ! ((4 + unat (c_dev_lat_head c)) mod 5))
      in unat (c_dev_lat_count c) = 5 \<and> oldest \<noteq> 0 \<and> oldest \<le> newest \<and> unat newest - unat oldest \<le> 10000000)"

lemma window_snapshot_ok:
  "snd (smart_io_throttle_window_snapshot_locked c st thr) \<longleftrightarrow> window_span_ok c"
proof -
  have sub: "(a :: u64) \<le> b \<Longrightarrow> (b - a > 10000 * nsec_per_usec) \<longleftrightarrow> unat b - unat a > 10000000" for a b
    by (simp add: nsec_defs word_less_nat_alt unat_sub word_le_nat_alt)
  show ?thesis
    using sub
    by (auto simp: smart_io_throttle_window_snapshot_locked_def window_span_ok_def Let_def
        not_less not_le split: prod.splits)
qed

lemma window_snapshot_fields:
  assumes "snd (smart_io_throttle_window_snapshot_locked c st thr)"
  shows "st_window_slow_count (fst (smart_io_throttle_window_snapshot_locked c st thr)) =
      st_window_slow_count st + word_of_nat (length (filter (\<lambda>s. thr \<le> smp_dev_lat_us s) (c_dev_lat c)))"
    and "st_waiting_count (fst (smart_io_throttle_window_snapshot_locked c st thr)) = st_waiting_count st"
    and "st_waiting_fg (fst (smart_io_throttle_window_snapshot_locked c st thr)) = st_waiting_fg st"
    and "st_device_q_fg_count (fst (smart_io_throttle_window_snapshot_locked c st thr)) = st_device_q_fg_count st"
    and "st_queue_max (fst (smart_io_throttle_window_snapshot_locked c st thr)) = st_queue_max st"
  using assms
  by (auto simp: smart_io_throttle_window_snapshot_locked_def Let_def foldl_count_sample
      split: if_splits)

lemma slow_window_iff:
  assumes "ctx_inv c"
  shows "smart_io_throttle_slow_window_locked c thr \<longleftrightarrow>
    window_span_ok c \<and> (\<forall>s \<in> set (c_dev_lat c). thr \<le> smp_dev_lat_us s)"
proof -
  have len: "length (c_dev_lat c) = 5" using assms by (simp add: ctx_inv_def win_inv_def)
  have cnt: "unat (word_of_nat (length (filter P (c_dev_lat c))) :: u32) = 5 \<longleftrightarrow> (\<forall>s \<in> set (c_dev_lat c). P s)" for P
    using all_filter_full [of P "c_dev_lat c"] len by (simp add: unat_small_count)
  show ?thesis
    using window_snapshot_ok [of c zero_snapshot thr] window_snapshot_fields(1) [of c zero_snapshot thr]
      cnt [of "\<lambda>s. thr \<le> smp_dev_lat_us s"]
    by (auto simp: smart_io_throttle_slow_window_locked_def case_prod_beta zero_snapshot_def)
qed

text \<open>A valid snapshot reports the counters of the context.\<close>

lemma snapshot_counts:
  assumes inv: "ctx_inv c"
    and ok: "smart_io_throttle_snapshot_state_locked K now qm thr c = (d, st, True)"
  shows "d = c" and "window_span_ok c"
    and "st_waiting_count st = c_pending_bg c" and "st_waiting_fg st = c_pending_fg c"
    and "st_waiting_total_count st = c_pending_fg c + c_pending_bg c"
    and "st_device_q_count st = c_issued_depth c" and "st_reserved_depth_count st = c_current_depth c"
    and "st_queue_max st = qm" and "qm \<noteq> 0"
proof -
  let ?z = "zero_snapshot\<lparr>st_decision_ts_ns := now, st_queue_max := qm, st_dev_lat_threshold_us := thr\<rparr>"
  obtain w where w: "smart_io_throttle_window_snapshot_locked c ?z thr = (w, True)"
    and qm: "qm \<noteq> 0" and d: "d = c"
    and st: "st = (fst (fold (snapshot_step K c now thr) (active_slots c) (w, 0, 0)))
              \<lparr>st_device_q_count := c_issued_depth c, st_reserved_depth_count := c_current_depth c,
               st_waiting_total_count := c_pending_fg c + c_pending_bg c\<rparr>"
    using ok by (auto simp: snapshot_eq [OF inv] Let_def split: prod.splits if_splits)
  have wf: "st_waiting_count w = 0" "st_waiting_fg w = 0" "st_queue_max w = qm"
    using window_snapshot_fields [of c ?z thr] w by (simp_all add: zero_snapshot_def)
  have id: "word_of_nat (cnt P c) = x" if "unat (x :: u32) = cnt P c" for P x
    using that by (metis of_nat_unat ucast_id)
  note f = snapshot_fold_counts [of K c now thr "active_slots c" w 0 0]
  show "d = c" "qm \<noteq> 0" by (fact d, fact qm)
  show "window_span_ok c" using window_snapshot_ok [of c ?z thr] w by simp
  show "st_waiting_count st = c_pending_bg c" "st_waiting_fg st = c_pending_fg c" "st_queue_max st = qm"
    using f wf inv id [of "c_pending_bg c" "queued_in SMART_IO_RQ_BACKGROUND"]
      id [of "c_pending_fg c" "queued_in SMART_IO_RQ_FOREGROUND"]
    by (simp_all add: st ctx_inv_def count_inv_def cnt_def)
  show "st_waiting_total_count st = c_pending_fg c + c_pending_bg c"
    "st_device_q_count st = c_issued_depth c" "st_reserved_depth_count st = c_current_depth c"
    by (simp_all add: st)
qed

end
