(* ===== verification/Throttle_Trace.thy ===== *)
theory Throttle_Trace
  imports Throttle_Window
begin

text \<open>
  The raw trace lines of \<open>smart_io_throttle.c\<close>.  Every function is silent unless the
  raw trace is enabled; otherwise it emits one line, given here as the name of the event
  and the list of its fields in the order of the format string.  The clock value a line
  prints is an argument.
\<close>

abbreviation raw_emit :: "throttle_globals \<Rightarrow> string \<Rightarrow> (string \<times> tval) list \<Rightarrow> effect list" where
  "raw_emit g ev vals \<equiv> (if g_rawdata_trace_enabled g = 0 then [] else [Emit ev vals])"

definition w32 :: "u32 \<Rightarrow> tval" where "w32 x = TN (unat x)"
definition w64 :: "u64 \<Rightarrow> tval" where "w64 x = TN (unat x)"

definition class_code :: "rq_class \<Rightarrow> nat" where
  "class_code cl = (case cl of SMART_IO_RQ_FOREGROUND \<Rightarrow> 0 | SMART_IO_RQ_BACKGROUND \<Rightarrow> 1)"

definition smart_io_throttle_trace_decision ::
  "throttle_globals \<Rightarrow> u64 \<Rightarrow> throttle_ctx \<Rightarrow> string \<Rightarrow> string \<Rightarrow> u64 \<Rightarrow> u64 \<Rightarrow> action \<Rightarrow> effect list" where
  "smart_io_throttle_trace_decision g ts c trigger result control_id decision_id a =
     (let action_id = act_level a * SMART_IO_DISPATCH_POLICY_COUNT + act_policy a;
          model_impl = (if c_pending_source c = SMART_IO_ACTION_SOURCE_MODEL
                        then ''fp32_joint_11x32x32x12'' else ''none'')
      in raw_emit g ''io_throttle_decision''
        [(''ts_ns'', w64 ts), (''control_id'', w64 control_id), (''decision_id'', w64 decision_id),
         (''trigger'', TS trigger), (''result'', TS result),
         (''source'', TS (smart_io_action_source_name (c_pending_source c))),
         (''model_impl'', TS model_impl), (''action_id'', TN action_id),
         (''level'', TS (smart_io_throttle_level_name (act_level a))),
         (''policy'', TS (smart_io_dispatch_policy_name (act_policy a))),
         (''ratio_pct'', w32 (act_ratio_pct a)), (''queue_max'', w32 (act_queue_max a)),
         (''target_depth'', w32 (act_target_depth a)),
         (''current_depth'', w32 (c_current_depth c)),
         (''bg_current_depth'', w32 (c_bg_current_depth c)),
         (''reserved_depth'', w32 (c_current_depth c)),
         (''issued_depth'', w32 (c_issued_depth c))])"

definition smart_io_throttle_trace_state ::
  "throttle_globals \<Rightarrow> state_snapshot \<Rightarrow> u64 \<Rightarrow> u64 \<Rightarrow> bool \<Rightarrow> effect list" where
  "smart_io_throttle_trace_state g st control_id decision_id valid =
     raw_emit g ''io_rl_state''
       [(''decision_ts_ns'', w64 (st_decision_ts_ns st)), (''control_id'', w64 control_id),
        (''decision_id'', w64 decision_id), (''valid'', TN (if valid then 1 else 0)),
        (''threshold_us'', w32 (st_dev_lat_threshold_us st)),
        (''device_q'', w32 (st_device_q_count st)),
        (''reserved_depth'', w32 (st_reserved_depth_count st)),
        (''device_q_fg'', w32 (st_device_q_fg_count st)),
        (''device_q_slow'', w32 (st_device_q_slow_count st)),
        (''queue_max'', w32 (st_queue_max st)),
        (''window_complete'', w32 (st_window_complete_count st)),
        (''window_mean_dev_us'', w32 (st_window_mean_dev_us st)),
        (''window_span_us'', w32 (st_window_span_us st)),
        (''window_slow'', w32 (st_window_slow_count st)),
        (''window_fg_complete'', w32 (st_window_fg_complete_count st)),
        (''waiting_total'', w32 (st_waiting_total_count st)),
        (''waiting'', w32 (st_waiting_count st)), (''waiting_fg'', w32 (st_waiting_fg st)),
        (''waiting_high_ioprio'', w32 (st_waiting_high_ioprio_count st)),
        (''waiting_to_issued_contiguous'', w32 (st_waiting_to_issued_contiguous_count st))]"

definition smart_io_throttle_trace_model_thread_submit ::
  "throttle_globals \<Rightarrow> u64 \<Rightarrow> u64 \<Rightarrow> u64 \<Rightarrow> u64 \<Rightarrow> effect list" where
  "smart_io_throttle_trace_model_thread_submit g control_id decision_id trigger_ts_ns submit_ts_ns =
     raw_emit g ''io_model_thread_submit''
       [(''control_id'', w64 control_id), (''decision_id'', w64 decision_id),
        (''trigger_ts_ns'', w64 trigger_ts_ns), (''dispatch_submit_ts_ns'', w64 submit_ts_ns)]"

definition smart_io_throttle_trace_model_thread_apply ::
  "throttle_globals \<Rightarrow> u64 \<Rightarrow> u64 \<Rightarrow> u64 \<Rightarrow> effect list" where
  "smart_io_throttle_trace_model_thread_apply g control_id decision_id apply_ts_ns =
     raw_emit g ''io_model_thread_apply''
       [(''control_id'', w64 control_id), (''decision_id'', w64 decision_id),
        (''action_apply_ts_ns'', w64 apply_ts_ns)]"

definition smart_io_throttle_trace_model_thread_dispatch ::
  "throttle_globals \<Rightarrow> u64 \<Rightarrow> u64 \<Rightarrow> u64 \<Rightarrow> effect list" where
  "smart_io_throttle_trace_model_thread_dispatch g control_id decision_id dispatch_ts_ns =
     raw_emit g ''io_model_thread_dispatch''
       [(''control_id'', w64 control_id), (''decision_id'', w64 decision_id),
        (''first_dispatch_after_apply_ts_ns'', w64 dispatch_ts_ns)]"

text \<open>The metadata of the dispatched request, if any; depths as (before, after) pairs.\<close>

definition smart_io_throttle_trace_dispatch ::
  "throttle_globals \<Rightarrow> u64 \<Rightarrow> throttle_ctx \<Rightarrow> rq_meta option \<Rightarrow> dispatch_selection
   \<Rightarrow> u32 \<times> u32 \<Rightarrow> u32 \<times> u32 \<Rightarrow> u32 \<times> u32 \<Rightarrow> effect list" where
  "smart_io_throttle_trace_dispatch g ts c mo selection depth bg issued =
     raw_emit g ''io_throttle_dispatch''
       [(''ts_ns'', w64 ts), (''control_id'', w64 (c_control_id c)),
        (''decision_id'', w64 (case mo of Some m \<Rightarrow> m_dispatch_decision_id m | None \<Rightarrow> 0)),
        (''rq_p'', TP (case mo of Some m \<Rightarrow> m_rq m | None \<Rightarrow> None)),
        (''class'', TN (class_code (case mo of Some m \<Rightarrow> m_class m | None \<Rightarrow> SMART_IO_RQ_BACKGROUND))),
        (''selection'', TS (selection_names selection)),
        (''level'', TS (smart_io_throttle_level_name (act_level (c_action c)))),
        (''policy'', TS (smart_io_dispatch_policy_name (act_policy (c_action c)))),
        (''depth_before'', w32 (fst depth)), (''depth_after'', w32 (snd depth)),
        (''bg_before'', w32 (fst bg)), (''bg_after'', w32 (snd bg)),
        (''issued_before'', w32 (fst issued)), (''issued_after'', w32 (snd issued)),
        (''target_depth'', w32 (act_target_depth (c_action c)))]"

text \<open>
  The sample carries (number, total, mean, maximum); the action is the one given, or the
  action in force.
\<close>

record feedback_sample =
  fs_sample_no :: u32
  fs_total_dev_lat_us :: u64
  fs_mean_dev_lat_us :: u32
  fs_max_dev_lat_us :: u32

definition smart_io_throttle_trace_feedback ::
  "throttle_globals \<Rightarrow> throttle_ctx \<Rightarrow> rq_meta option \<Rightarrow> action option \<Rightarrow> string \<Rightarrow> u64 \<Rightarrow> u64 \<Rightarrow> u32
   \<Rightarrow> u32 \<Rightarrow> u32 \<Rightarrow> feedback_sample \<Rightarrow> effect list" where
  "smart_io_throttle_trace_feedback g c mo ao result issue_ns complete_ns latency_us status nr_bytes fs =
     (let a = (case ao of Some a \<Rightarrow> a | None \<Rightarrow> c_action c) in
      raw_emit g ''io_throttle_feedback''
       [(''control_id'', w64 (c_control_id c)),
        (''decision_id'', w64 (case mo of Some m \<Rightarrow> m_dispatch_decision_id m | None \<Rightarrow> 0)),
        (''rq_p'', TP (case mo of Some m \<Rightarrow> m_rq m | None \<Rightarrow> None)),
        (''class'', TN (class_code (case mo of Some m \<Rightarrow> m_class m | None \<Rightarrow> SMART_IO_RQ_BACKGROUND))),
        (''issue_ts_ns'', w64 issue_ns), (''completion_ts_ns'', w64 complete_ns),
        (''dev_lat_us'', w32 latency_us), (''status'', w32 status), (''nr_bytes'', w32 nr_bytes),
        (''sample_no'', w32 (fs_sample_no fs)),
        (''total_dev_lat_us'', w64 (fs_total_dev_lat_us fs)),
        (''mean_dev_lat_us'', w32 (fs_mean_dev_lat_us fs)),
        (''max_dev_lat_us'', w32 (fs_max_dev_lat_us fs)), (''result'', TS result),
        (''level'', TS (smart_io_throttle_level_name (act_level a))),
        (''policy'', TS (smart_io_dispatch_policy_name (act_policy a))),
        (''target_depth'', w32 (act_target_depth a)),
        (''reserved_depth'', w32 (c_current_depth c)),
        (''bg_cur_depth'', w32 (c_bg_current_depth c)),
        (''issued_depth'', w32 (c_issued_depth c))])"

definition smart_io_throttle_trace_gate ::
  "throttle_globals \<Rightarrow> u64 \<Rightarrow> throttle_ctx \<Rightarrow> string \<Rightarrow> gate_reason \<Rightarrow> u32 \<Rightarrow> u32 \<Rightarrow> u32 \<Rightarrow> effect list" where
  "smart_io_throttle_trace_gate g ts c event reason current_depth bg_current_depth target_depth =
     raw_emit g ''io_throttle_gate''
       [(''ts_ns'', w64 ts), (''control_id'', w64 (c_control_id c)),
        (''decision_id'', w64 (c_decision_id c)), (''event'', TS event),
        (''reason'', TS (smart_io_gate_reason_name reason)),
        (''cur_depth'', w32 current_depth), (''bg_cur_depth'', w32 bg_current_depth),
        (''reserved_depth'', w32 current_depth), (''issued_depth'', w32 (c_issued_depth c)),
        (''target_depth'', w32 target_depth), (''bg_pending'', w32 (c_pending_bg c))]"

lemmas trace_defs =
  smart_io_throttle_trace_decision_def smart_io_throttle_trace_state_def
  smart_io_throttle_trace_model_thread_submit_def smart_io_throttle_trace_model_thread_apply_def
  smart_io_throttle_trace_model_thread_dispatch_def smart_io_throttle_trace_dispatch_def
  smart_io_throttle_trace_feedback_def smart_io_throttle_trace_gate_def

text \<open>Traces never run the queues, arm the timer or queue work.\<close>

abbreviation only_emits :: "effect list \<Rightarrow> bool" where
  "only_emits es \<equiv> (\<forall>e \<in> set es. \<exists>ev fs. e = Emit ev fs)"

lemma traces_only_emit [simp]:
  "RunHwQueues q \<notin> set (smart_io_throttle_trace_decision g ts c tr res ci di a)"
  "RunHwQueues q \<notin> set (smart_io_throttle_trace_state g st ci di v)"
  "RunHwQueues q \<notin> set (smart_io_throttle_trace_model_thread_submit g ci di t1 t2)"
  "RunHwQueues q \<notin> set (smart_io_throttle_trace_model_thread_apply g ci di t1)"
  "RunHwQueues q \<notin> set (smart_io_throttle_trace_model_thread_dispatch g ci di t1)"
  "RunHwQueues q \<notin> set (smart_io_throttle_trace_dispatch g ts c mo sel d1 d2 d3)"
  "RunHwQueues q \<notin> set (smart_io_throttle_trace_feedback g c mo ao res t1 t2 l s n fs)"
  "RunHwQueues q \<notin> set (smart_io_throttle_trace_gate g ts c ev r x1 x2 x3)"
  by (simp_all add: trace_defs Let_def)

end
