(* ===== verification/Fp32.thy ===== *)
theory Fp32
  imports Complex_Main Throttle_Types
begin

text \<open>
  \<open>smart_io_model_fp32.c\<close>: the conversion of a ratio of two counters to the bits of an
  IEEE 754 single-precision number with integer arithmetic only, the validation of the
  snapshot, and the prediction.  The assembly routine \<open>smart_io_fp32_infer\<close> with its
  weights, \<open>may_use_simd\<close> and the clock are parameters.
\<close>

section \<open>Ratios as single-precision numbers\<close>

text \<open>The kernel's \<open>fls64\<close>: the position of the highest set bit, from 1.\<close>

fun bit_length :: "nat \<Rightarrow> nat" where
  "bit_length n = (if n = 0 then 0 else Suc (bit_length (n div 2)))"

declare bit_length.simps [simp del]

definition fls64 :: "u64 \<Rightarrow> nat" where
  "fls64 x = bit_length (unat x)"

definition ratio_exponent :: "u64 \<Rightarrow> u64 \<Rightarrow> int" where
  "ratio_exponent numerator denominator =
     (let exponent = int (fls64 numerator) - int (fls64 denominator) in
      if exponent \<ge> 0 then
        (if denominator > drop_bit (nat exponent) u64_max \<or>
            numerator < push_bit (nat exponent) denominator
         then exponent - 1 else exponent)
      else if numerator > drop_bit (nat (- exponent)) u64_max \<or>
              push_bit (nat (- exponent)) numerator < denominator
      then exponent - 1 else exponent)"

definition smart_io_model_ratio_bits :: "u64 \<Rightarrow> u64 \<Rightarrow> u32 option" where
  "smart_io_model_ratio_bits numerator denominator =
     (if denominator = 0 then None
      else if numerator = 0 then Some 0
      else
      (let exponent = ratio_exponent numerator denominator;
           shift = 23 - exponent in
       if shift < 0 \<or> shift \<ge> 64 \<or> numerator > drop_bit (nat shift) u64_max then None
       else
       (let scaled = push_bit (nat shift) numerator;
            quotient = scaled div denominator;
            remainder = scaled mod denominator;
            quotient = (if remainder > denominator - remainder \<or>
                           (remainder = denominator - remainder \<and> quotient AND 1 \<noteq> 0)
                        then quotient + 1 else quotient);
            (quotient, exponent) = (if quotient = 16777216 then (drop_bit 1 quotient, exponent + 1)
                                    else (quotient, exponent)) in
        if quotient < 8388608 \<or> quotient \<ge> 16777216 \<or> exponent < -126 \<or> exponent > 127 then None
        else Some (push_bit 23 (word_of_int (exponent + 127)) OR (ucast quotient - 8388608)))))"

section \<open>Prediction\<close>

record fp32_timing =
  tm_input_prepare_ns :: u64
  tm_simd_check_ns :: u64
  tm_neon_begin_ns :: u64
  tm_forward_ns :: u64
  tm_neon_end_ns :: u64
  tm_output_check_ns :: u64
  tm_total_ns :: u64

definition zero_timing :: fp32_timing where
  "zero_timing = \<lparr>tm_input_prepare_ns = 0, tm_simd_check_ns = 0, tm_neon_begin_ns = 0,
     tm_forward_ns = 0, tm_neon_end_ns = 0, tm_output_check_ns = 0, tm_total_ns = 0\<rparr>"

definition SMART_IO_MODEL_FP32_ACTIONS :: nat where [simp]: "SMART_IO_MODEL_FP32_ACTIONS = 12"

definition smart_io_model_q_bits_finite :: "u32 \<Rightarrow> bool" where
  "smart_io_model_q_bits_finite bits \<longleftrightarrow> bits AND 0x7f800000 \<noteq> 0x7f800000"

text \<open>The condition under which the prediction rejects the snapshot.\<close>

definition state_invalid :: "state_snapshot \<Rightarrow> bool" where
  "state_invalid st \<longleftrightarrow>
     st_queue_max st = 0 \<or> st_dev_lat_threshold_us st = 0 \<or>
     unat (st_window_complete_count st) \<noteq> SMART_IO_DEV_LAT_WINDOW \<or>
     ucast (st_window_span_us st) > SMART_IO_DEV_LAT_WINDOW_MAX_US \<or>
     st_device_q_count st > st_queue_max st \<or>
     st_device_q_fg_count st > st_device_q_count st \<or>
     st_device_q_slow_count st > st_device_q_count st \<or>
     st_window_slow_count st > st_window_complete_count st \<or>
     st_window_fg_complete_count st > st_window_complete_count st \<or>
     st_waiting_count st > st_waiting_total_count st \<or>
     st_waiting_fg st > st_waiting_total_count st \<or>
     st_waiting_high_ioprio_count st > st_waiting_total_count st \<or>
     st_waiting_to_issued_contiguous_count st > st_waiting_total_count st"

text \<open>The eleven ratios, in the order of \<open>input_bits\<close>.\<close>

definition input_ratios :: "state_snapshot \<Rightarrow> (u32 \<times> u32) list" where
  "input_ratios st =
     [(st_device_q_count st, st_queue_max st),
      (st_device_q_fg_count st, max 1 (st_device_q_count st)),
      (st_device_q_slow_count st, max 1 (st_device_q_count st)),
      (st_window_mean_dev_us st, st_dev_lat_threshold_us st),
      (st_window_span_us st, 10000),
      (st_window_slow_count st, st_window_complete_count st),
      (st_window_fg_complete_count st, st_window_complete_count st),
      (min (st_waiting_count st) (st_queue_max st), st_queue_max st),
      (min (st_waiting_fg st) (st_queue_max st), st_queue_max st),
      (st_waiting_high_ioprio_count st, max 1 (st_waiting_total_count st)),
      (st_waiting_to_issued_contiguous_count st, max 1 (st_waiting_total_count st))]"

definition input_bits :: "state_snapshot \<Rightarrow> u32 list option" where
  "input_bits st = those (map (\<lambda>(n, d). smart_io_model_ratio_bits (ucast n) (ucast d)) (input_ratios st))"

text \<open>
  The prediction: the error, the action number when it was written, and the timings.
  \<open>clk i\<close> is the \<open>i\<close>-th clock reading of the call; without \<open>timed\<close> no timing is kept.
\<close>

definition smart_io_model_fp32_predict_timed ::
  "bool \<Rightarrow> (u32 list \<Rightarrow> u32 \<times> u32 list) \<Rightarrow> (nat \<Rightarrow> u64) \<Rightarrow> bool \<Rightarrow> state_snapshot
   \<Rightarrow> errno option \<times> u32 option \<times> fp32_timing" where
  "smart_io_model_fp32_predict_timed simd infer clk timed st =
     (let fin = (\<lambda>i tm. if timed then tm\<lparr>tm_total_ns := clk i - clk 0\<rparr> else zero_timing);
          prep = zero_timing\<lparr>tm_input_prepare_ns := clk 1 - clk 0\<rparr> in
      if state_invalid st then (Some EINVAL, None, fin 2 prep)
      else case input_bits st of
        None \<Rightarrow> (Some ERANGE, None, fin 2 prep)
      | Some bits \<Rightarrow>
         (let checked = prep\<lparr>tm_simd_check_ns := clk 3 - clk 2\<rparr> in
          if \<not> simd then (Some EBUSY, None, fin 4 checked)
          else
          (let (action_id, q_bits) = infer bits;
               tm = checked\<lparr>tm_neon_begin_ns := clk 5 - clk 4, tm_forward_ns := clk 7 - clk 6,
                            tm_neon_end_ns := clk 9 - clk 8, tm_output_check_ns := clk 11 - clk 10\<rparr>;
               ret = (if unat action_id \<ge> SMART_IO_MODEL_FP32_ACTIONS \<or>
                         (\<exists>q \<in> set (take SMART_IO_MODEL_FP32_ACTIONS q_bits). \<not> smart_io_model_q_bits_finite q)
                      then Some ERANGE else None)
           in (ret, Some action_id, fin 12 tm))))"

definition smart_io_model_fp32_predict ::
  "bool \<Rightarrow> (u32 list \<Rightarrow> u32 \<times> u32 list) \<Rightarrow> state_snapshot \<Rightarrow> errno option \<times> u32 option" where
  "smart_io_model_fp32_predict simd infer st =
     (let (ret, action_id, _) = smart_io_model_fp32_predict_timed simd infer (\<lambda>_. 0) False st
      in (ret, action_id))"

lemma predict_ok_action:
  assumes "smart_io_model_fp32_predict_timed simd infer clk timed st = (None, a, tm)"
  shows "\<exists>aid. a = Some aid \<and> unat aid < 12"
  using assms
  by (auto simp: smart_io_model_fp32_predict_timed_def Let_def split: if_splits option.splits prod.splits)

section \<open>Correctness of the conversion\<close>

text \<open>The value of a single-precision pattern with a normal, positive encoding.\<close>

definition f32_exponent :: "u32 \<Rightarrow> int" where
  "f32_exponent b = int (unat (drop_bit 23 b AND 255)) - 127"

definition f32_mantissa :: "u32 \<Rightarrow> nat" where
  "f32_mantissa b = 8388608 + unat (take_bit 23 b)"

definition f32_value :: "u32 \<Rightarrow> real" where
  "f32_value b = (if b = 0 then 0 else real (f32_mantissa b) * 2 powi (f32_exponent b - 23))"

definition f32_ulp :: "u32 \<Rightarrow> real" where
  "f32_ulp b = 2 powi (f32_exponent b - 23)"

lemma bit_length_bounds: "0 < n \<Longrightarrow> 2 ^ (bit_length n - 1) \<le> n \<and> n < 2 ^ bit_length n \<and> 0 < bit_length n"
proof (induction n rule: bit_length.induct)
  case (1 n)
  show ?case
  proof (cases "n div 2 = 0")
    case True
    with "1.prems" have "n = 1" by auto
    then show ?thesis by (simp add: bit_length.simps)
  next
    case False
    with 1 have "2 ^ (bit_length (n div 2) - 1) \<le> n div 2" "n div 2 < 2 ^ bit_length (n div 2)"
      "0 < bit_length (n div 2)" by auto
    moreover have "bit_length n = Suc (bit_length (n div 2))"
      using "1.prems" by (simp add: bit_length.simps [of n])
    moreover obtain k where "bit_length (n div 2) = Suc k"
      using calculation(3) gr0_implies_Suc by blast
    ultimately show ?thesis by auto
  qed
qed

lemma bit_length_le: "n < 2 ^ k \<Longrightarrow> bit_length n \<le> k"
proof (cases "n = 0")
  case False
  assume "n < 2 ^ k"
  with bit_length_bounds [of n] False have "(2::nat) ^ (bit_length n - 1) < 2 ^ k"
    by (metis gr0I le_less_trans)
  then have "bit_length n - 1 < k" by (metis one_less_numeral_iff power_less_imp_less_exp semiring_norm(76))
  then show ?thesis by simp
qed (simp add: bit_length.simps)

lemma fls64_bounds:
  "x \<noteq> 0 \<Longrightarrow> 2 ^ (fls64 x - 1) \<le> unat x \<and> unat x < 2 ^ fls64 x \<and> 0 < fls64 x \<and> fls64 x \<le> 64"
  using bit_length_bounds [of "unat x"] bit_length_le [of "unat x" 64] unsigned_less [of x, where 'a = nat]
  by (simp add: fls64_def unat_gt_0)

text \<open>The overflow guards of the shifts.\<close>

lemma guard_shift:
  assumes "k < 64"
  shows "(x > drop_bit k u64_max) \<longleftrightarrow> 2 ^ 64 \<le> unat x * 2 ^ k"
proof -
  have "unat (drop_bit k u64_max) = (2 ^ 64 - 1) div 2 ^ k"
    by (subst unsigned_drop_bit_eq, subst unsigned_minus_1_eq_mask)
      (simp add: mask_eq_exp_minus_1 drop_bit_eq_div)
  then have "(x > drop_bit k u64_max) \<longleftrightarrow> (2 ^ 64 - 1) div 2 ^ k < unat x"
    by (simp add: word_less_nat_alt)
  also have "\<dots> \<longleftrightarrow> 2 ^ 64 - 1 < unat x * 2 ^ k"
    by (rule div_less_iff_less_mult) simp
  finally show ?thesis by auto
qed

lemma unat_push_bit:
  "k < 64 \<Longrightarrow> unat x * 2 ^ k < 2 ^ 64 \<Longrightarrow> unat (push_bit k (x :: u64)) = unat x * 2 ^ k"
  by (subst unsigned_push_bit_eq) (simp add: push_bit_eq_mult take_bit_nat_eq_self)

lemma unat_ucast_64: "unat (ucast (x :: u32) :: u64) = unat x"
  using unsigned_less [of x, where 'a = nat] by (simp add: unsigned_ucast_eq take_bit_nat_eq_self)

lemma unat_u64_max_gt: "16777216 < unat u64_max"
  by (simp add: unsigned_minus_1_eq_mask mask_eq_exp_minus_1)

lemma unat_lt_64: "unat (x :: u64) < 2 ^ 64"
  using unsigned_less [of x, where 'a = nat] by simp

text \<open>The exponent of the code is the binary exponent of the quotient.\<close>

lemma ratio_exponent_test:
  assumes n: "numerator \<noteq> 0" and d: "denominator \<noteq> 0"
  defines "e0 \<equiv> int (fls64 numerator) - int (fls64 denominator)"
  shows "ratio_exponent numerator denominator =
    (if real (unat numerator) < real (unat denominator) * 2 powi e0 then e0 - 1 else e0)"
proof -
  let ?n = "unat numerator" and ?d = "unat denominator"
  note N = fls64_bounds [OF n] and D = fls64_bounds [OF d]
  show ?thesis
  proof (cases "e0 \<ge> 0")
    case True
    define k where "k = nat e0"
    have k: "k < 64" "e0 = int k" using True N D by (auto simp: k_def e0_def)
    have "(denominator > drop_bit k u64_max \<or> numerator < push_bit k denominator) \<longleftrightarrow> ?n < ?d * 2 ^ k"
      using guard_shift [OF k(1), of denominator] unat_push_bit [OF k(1), of denominator] unat_lt_64 [of numerator]
      by (cases "?d * 2 ^ k < 2 ^ 64") (auto simp: word_less_nat_alt)
    moreover have "?n < ?d * 2 ^ k \<longleftrightarrow> real ?n < real ?d * 2 powi e0"
      unfolding k(2) power_int_of_nat by (metis of_nat_less_iff of_nat_mult of_nat_numeral of_nat_power)
    ultimately show ?thesis
      using True k by (simp add: ratio_exponent_def Let_def e0_def [symmetric] k_def [symmetric])
  next
    case False
    define k where "k = nat (- e0)"
    have k: "k < 64" "e0 = - int k" "fls64 denominator = fls64 numerator + k"
      using False N D by (auto simp: k_def e0_def)
    have "?n * 2 ^ k < 2 ^ (fls64 numerator + k)" using N by (simp add: power_add)
    also have "(2::nat) ^ (fls64 numerator + k) \<le> 2 ^ 64"
      unfolding k(3) [symmetric] using D by (intro power_increasing) auto
    finally have small: "?n * 2 ^ k < 2 ^ 64" .
    have "(numerator > drop_bit k u64_max \<or> push_bit k numerator < denominator) \<longleftrightarrow> ?n * 2 ^ k < ?d"
      using guard_shift [OF k(1), of numerator] unat_push_bit [OF k(1) small] small
      by (auto simp: word_less_nat_alt)
    moreover have "?n * 2 ^ k < ?d \<longleftrightarrow> real ?n * 2 ^ k < real ?d"
      by (metis of_nat_less_iff of_nat_mult of_nat_numeral of_nat_power)
    moreover have "real ?n * 2 ^ k < real ?d \<longleftrightarrow> real ?n < real ?d * 2 powi e0"
      unfolding k(2) by (simp add: power_int_minus field_simps)
    ultimately show ?thesis
      using False k by (simp add: ratio_exponent_def Let_def e0_def [symmetric] k_def [symmetric])
  qed
qed

lemma fls64_real:
  assumes "x \<noteq> 0"
  shows "2 powi (int (fls64 x) - 1) \<le> real (unat x)" and "real (unat x) < 2 powi (int (fls64 x))"
proof -
  note F = fls64_bounds [OF assms]
  have lo: "real (2 ^ (fls64 x - 1)) \<le> real (unat x)" and hi: "real (unat x) < real (2 ^ fls64 x)"
    using F by (simp_all only: of_nat_less_iff of_nat_le_iff)
  have "2 powi int n = real (2 ^ n)" for n by simp
  then have "2 powi (int (fls64 x) - 1) = real (2 ^ (fls64 x - 1))" "2 powi (int (fls64 x)) = real (2 ^ fls64 x)"
    using F by (metis int_ops(2) of_nat_diff Suc_leI One_nat_def, metis)
  with lo hi show "2 powi (int (fls64 x) - 1) \<le> real (unat x)" "real (unat x) < 2 powi (int (fls64 x))"
    by (simp_all only:)
qed

lemma ratio_exponent_bounds:
  assumes n: "numerator \<noteq> 0" and d: "denominator \<noteq> 0"
  defines "e \<equiv> ratio_exponent numerator denominator"
  shows "real (unat denominator) * 2 powi e \<le> real (unat numerator)"
    and "real (unat numerator) < real (unat denominator) * 2 powi (e + 1)"
    and "- 64 \<le> e" and "e \<le> 63"
proof -
  let ?n = "real (unat numerator)" and ?d = "real (unat denominator)"
  let ?N = "fls64 numerator" and ?D = "fls64 denominator"
  define e0 where "e0 = int ?N - int ?D"
  note N = fls64_bounds [OF n] and D = fls64_bounds [OF d]
  note N' = fls64_real [OF n] and D' = fls64_real [OF d]
  have upper: "?n < ?d * 2 powi (e0 + 1)"
  proof -
    have "2 powi (int ?N) = 2 powi (int ?D - 1) * (2 powi (e0 + 1) :: real)"
      unfolding e0_def by (subst power_int_add [symmetric]) (auto intro: arg_cong [where f = "\<lambda>x. 2 powi x"])
    also have "\<dots> \<le> ?d * 2 powi (e0 + 1)" using D'(1) by (intro mult_right_mono) auto
    finally show ?thesis using N'(2) by linarith
  qed
  have lower: "?d * 2 powi (e0 - 1) \<le> ?n"
  proof -
    have "?d * 2 powi (e0 - 1) \<le> 2 powi (int ?D) * 2 powi (e0 - 1)"
      using D'(2) by (intro mult_right_mono) auto
    also have "\<dots> = (2 powi (int ?N - 1) :: real)"
      unfolding e0_def by (subst power_int_add [symmetric]) (auto intro: arg_cong [where f = "\<lambda>x. 2 powi x"])
    finally show ?thesis using N'(1) by linarith
  qed
  note e = ratio_exponent_test [OF n d, folded e_def e0_def]
  show "?d * 2 powi e \<le> ?n" "?n < ?d * 2 powi (e + 1)"
    using upper lower by (auto simp: e)
  show "- 64 \<le> e" "e \<le> 63" using N D by (auto simp: e e0_def)
qed

text \<open>Packing and unpacking of the two fields.\<close>

lemma f32_pack:
  assumes "E < 256" and "m < 2 ^ 23"
  shows "unat (drop_bit 23 (push_bit 23 (word_of_nat E) OR word_of_nat m :: u32) AND 255) = E"
    and "unat (take_bit 23 (push_bit 23 (word_of_nat E) OR word_of_nat m :: u32)) = m"
proof -
  have E: "take_bit 8 (word_of_nat E :: u32) = word_of_nat E"
    and m: "take_bit 23 (word_of_nat m :: u32) = word_of_nat m"
    using of_nat_take_bit [of 8 E, where 'a = "32 word"] of_nat_take_bit [of 23 m, where 'a = "32 word"] assms
    by (simp_all add: take_bit_nat_eq_self)
  have mask: "x AND 255 = take_bit 8 (x :: u32)" for x
    by (simp add: take_bit_eq_mask mask_eq_exp_minus_1)
  have "drop_bit 23 (word_of_nat m :: u32) = 0"
    by (metis m drop_bit_take_bit diff_self_eq_0 take_bit_0)
  moreover have "take_bit 8 (drop_bit 23 (push_bit 23 (word_of_nat E :: u32))) = word_of_nat E"
  proof -
    have "take_bit 8 (drop_bit 23 (push_bit 23 w)) = take_bit 8 w" for w :: u32
      by (rule bit_word_eqI) (auto simp: bit_simps)
    with E show ?thesis by simp
  qed
  ultimately show "unat (drop_bit 23 (push_bit 23 (word_of_nat E) OR word_of_nat m :: u32) AND 255) = E"
    using assms by (simp add: mask drop_bit_or take_bit_or unsigned_of_nat take_bit_nat_eq_self)
  have "take_bit 23 (push_bit 23 (word_of_nat E :: u32)) = 0"
    by (simp add: take_bit_push_bit)
  then show "unat (take_bit 23 (push_bit 23 (word_of_nat E) OR word_of_nat m :: u32)) = m"
    using assms m by (simp add: take_bit_or unsigned_of_nat take_bit_nat_eq_self)
qed

lemma f32_decode:
  assumes b: "b = push_bit 23 (word_of_int (e + 127)) OR (ucast q - 8388608)"
    and q: "8388608 \<le> unat (q :: u64)" "unat q < 16777216" and e: "- 126 \<le> e" "e \<le> 127"
  shows "f32_exponent b = e" and "f32_mantissa b = unat q" and "b \<noteq> 0"
proof -
  let ?E = "nat (e + 127)" and ?m = "unat q - 8388608"
  have "(ucast q :: u32) = word_of_nat (unat q)" by simp
  also have "\<dots> - 8388608 = word_of_nat ?m"
    using q(1) by (simp add: of_nat_diff)
  finally have m: "ucast q - 8388608 = (word_of_nat ?m :: u32)" .
  have E: "(word_of_int (e + 127) :: u32) = word_of_nat ?E"
    using e by simp
  note pack = f32_pack [of ?E ?m, folded E m, folded b]
  show ex: "f32_exponent b = e" and "f32_mantissa b = unat q"
    using pack q e by (simp_all add: f32_exponent_def f32_mantissa_def)
  show "b \<noteq> 0" using ex e by (auto simp: f32_exponent_def)
qed

text \<open>Rounding to nearest, ties to even.\<close>

lemma round_step:
  fixes s d :: nat
  assumes "0 < d"
  shows "2 * s \<le> 2 * (s div d) * d + d \<Longrightarrow> \<bar>2 * int (s div d * d) - 2 * int s\<bar> \<le> int d"
    and "2 * (s div d) * d + d \<le> 2 * s \<Longrightarrow> \<bar>2 * int ((s div d + 1) * d) - 2 * int s\<bar> \<le> int d"
proof -
  have "s div d * d \<le> s" "s < s div d * d + d"
    using assms div_times_less_eq_dividend [of s d] dividend_less_div_times [of d s] by (simp_all add: ac_simps)
  then have b: "int (s div d * d) \<le> int s" "int s < int (s div d * d) + int d"
    by (simp_all only: flip: of_nat_add of_nat_less_iff of_nat_le_iff)
  show "2 * s \<le> 2 * (s div d) * d + d \<Longrightarrow> \<bar>2 * int (s div d * d) - 2 * int s\<bar> \<le> int d"
    using b by (auto simp: mult.assoc abs_le_iff simp flip: of_nat_le_iff [where 'a = int])
  show "2 * (s div d) * d + d \<le> 2 * s \<Longrightarrow> \<bar>2 * int ((s div d + 1) * d) - 2 * int s\<bar> \<le> int d"
    using b by (auto simp: mult.assoc distrib_right abs_le_iff simp flip: of_nat_le_iff [where 'a = int])
qed

definition rounded_quotient :: "u64 \<Rightarrow> u64 \<Rightarrow> u64" where
  "rounded_quotient scaled denominator =
     (let quotient = scaled div denominator; remainder = scaled mod denominator in
      if remainder > denominator - remainder \<or>
         (remainder = denominator - remainder \<and> quotient AND 1 \<noteq> 0)
      then quotient + 1 else quotient)"

lemma rounded_quotient_near:
  assumes d: "d \<noteq> 0" and lo: "unat d * 8388608 \<le> unat s" and hi: "unat s < unat d * 16777216"
  shows "\<bar>2 * int (unat (rounded_quotient s d) * unat d) - 2 * int (unat s)\<bar> \<le> int (unat d)"
    and "8388608 \<le> unat (rounded_quotient s d)" and "unat (rounded_quotient s d) \<le> 16777216"
proof -
  let ?q = "unat s div unat d" and ?r = "unat s mod unat d"
  have dpos: "0 < unat d" using d by (simp add: unat_gt_0)
  have q: "8388608 \<le> ?q" "?q < 16777216"
    using lo hi dpos by (simp_all add: less_eq_div_iff_mult_less_eq div_less_iff_less_mult mult.commute)
  have r: "unat (s mod d) = ?r" "unat (s div d) = ?q" by (simp_all add: unat_mod_distrib unat_div_distrib)
  have rd: "?r < unat d" using dpos by simp
  have sub: "unat (d - s mod d) = unat d - ?r"
    using rd r by (subst unat_sub) (simp_all add: word_le_nat_alt)
  have inc: "unat (s div d + 1) = ?q + 1"
    using unat_inc [of "s div d"] q r by (metis Suc_eq_plus1 less_irrefl less_trans unat_u64_max_gt)
  have s: "unat s = ?q * unat d + ?r" by simp
  have split: "unat (rounded_quotient s d) = ?q \<and> 2 * ?r \<le> unat d \<or>
      unat (rounded_quotient s d) = ?q + 1 \<and> unat d \<le> 2 * ?r"
    using r sub inc rd by (auto simp: rounded_quotient_def Let_def word_less_nat_alt word_unat_eq_iff)
  then show "8388608 \<le> unat (rounded_quotient s d)" "unat (rounded_quotient s d) \<le> 16777216"
    using q by auto
  from split show "\<bar>2 * int (unat (rounded_quotient s d) * unat d) - 2 * int (unat s)\<bar> \<le> int (unat d)"
  proof (elim disjE conjE)
    assume rq: "unat (rounded_quotient s d) = ?q" and "2 * ?r \<le> unat d"
    with s have "2 * unat s \<le> 2 * (?q * unat d) + unat d" by linarith
    then show ?thesis unfolding rq by (intro round_step(1) [OF dpos]) (simp only: mult.assoc)
  next
    assume rq: "unat (rounded_quotient s d) = ?q + 1" and "unat d \<le> 2 * ?r"
    with s have "2 * (?q * unat d) + unat d \<le> 2 * unat s" by linarith
    then show ?thesis unfolding rq by (intro round_step(2) [OF dpos]) (simp only: mult.assoc)
  qed
qed

lemma ratio_bits_unfold:
  assumes d: "denominator \<noteq> 0" and n: "numerator \<noteq> 0"
    and res: "smart_io_model_ratio_bits numerator denominator = Some b"
  defines "e \<equiv> ratio_exponent numerator denominator"
  obtains q where "- 40 \<le> e" "e \<le> 23" "unat numerator * 2 ^ nat (23 - e) < 2 ^ 64"
    and "q = rounded_quotient (push_bit (nat (23 - e)) numerator) denominator"
    and "b = (if q = 16777216
        then push_bit 23 (word_of_int (e + 1 + 127)) OR (ucast (8388608 :: u64) - 8388608)
        else push_bit 23 (word_of_int (e + 127)) OR (ucast q - 8388608))"
    and "q \<noteq> 16777216 \<Longrightarrow> 8388608 \<le> q \<and> q < 16777216"
proof -
  let ?s = "23 - e" and ?q = "rounded_quotient (push_bit (nat (23 - e)) numerator) denominator"
  have ok: "\<not> (?s < 0 \<or> 64 \<le> ?s \<or> numerator > drop_bit (nat ?s) u64_max)"
    using res d n by (auto simp: smart_io_model_ratio_bits_def Let_def e_def split: if_splits)
  have half: "drop_bit 1 (16777216 :: u64) = 8388608" by (simp add: drop_bit_eq_div)
  have b: "b = (if ?q = 16777216
        then push_bit 23 (word_of_int (e + 1 + 127)) OR (ucast (8388608 :: u64) - 8388608)
        else push_bit 23 (word_of_int (e + 127)) OR (ucast ?q - 8388608))"
    and rng: "?q \<noteq> 16777216 \<Longrightarrow> 8388608 \<le> ?q \<and> ?q < 16777216"
    using res d n ok
    unfolding smart_io_model_ratio_bits_def Let_def e_def [symmetric] rounded_quotient_def [unfolded Let_def, symmetric] half
    by (auto simp: not_less not_le split: if_splits prod.splits)
  have "nat ?s < 64" using ok by linarith
  then have "unat numerator * 2 ^ nat ?s < 2 ^ 64"
    using guard_shift [of "nat ?s" numerator] ok by (metis not_le)
  then show thesis
    by (rule that [of ?q, rotated 2]) (rule refl, rule b, erule rng, use ok in linarith, use ok in linarith)
qed

lemma powi_scale:
  assumes "e = 23 - int k"
  shows "2 powi (e - 23) = 1 / (2 :: real) ^ k" and "2 powi e = 8388608 / (2 :: real) ^ k"
    and "2 powi (e + 1) = 16777216 / (2 :: real) ^ k"
proof -
  have m: "2 powi (z - int k) = 2 powi z / (2 :: real) ^ k" for z
    by (simp add: power_int_diff)
  show "2 powi (e - 23) = 1 / (2 :: real) ^ k" "2 powi e = 8388608 / (2 :: real) ^ k"
    "2 powi (e + 1) = 16777216 / (2 :: real) ^ k"
    using m [of 0] m [of 23] m [of 24] by (simp_all add: assms)
qed

lemma ratio_bits_value:
  assumes d: "denominator \<noteq> 0" and n: "numerator \<noteq> 0"
    and res: "smart_io_model_ratio_bits numerator denominator = Some b"
  defines "e \<equiv> ratio_exponent numerator denominator"
  shows "\<bar>real (unat numerator) / real (unat denominator) - f32_value b\<bar> \<le> 2 powi (e - 23) / 2"
    and "2 powi (e - 23) \<le> f32_ulp b" and "b \<noteq> 0"
proof -
  let ?n = "real (unat numerator)" and ?d = "real (unat denominator)"
  have eq: "e = ratio_exponent numerator denominator" by (simp add: e_def)
  note bounds = ratio_exponent_bounds [OF n d, folded eq]
  from ratio_bits_unfold [OF d n res, folded eq] obtain q where
    e: "- 40 \<le> e" "e \<le> 23" and small: "unat numerator * 2 ^ nat (23 - e) < 2 ^ 64"
    and q: "q = rounded_quotient (push_bit (nat (23 - e)) numerator) denominator"
    and b: "b = (if q = 16777216
        then push_bit 23 (word_of_int (e + 1 + 127)) OR (ucast (8388608 :: u64) - 8388608)
        else push_bit 23 (word_of_int (e + 127)) OR (ucast q - 8388608))"
    and rng: "q \<noteq> 16777216 \<Longrightarrow> 8388608 \<le> q \<and> q < 16777216" by blast
  let ?k = "nat (23 - e)"
  have s: "unat (push_bit ?k numerator) = unat numerator * 2 ^ ?k"
    using e small by (intro unat_push_bit) linarith+
  have ek: "e = 23 - int ?k" using e by simp
  note powi = powi_scale [OF ek]
  have dpos: "0 < ?d" using d by (metis of_nat_0_less_iff unat_gt_0)
  have "unat denominator * 8388608 \<le> unat (push_bit ?k numerator)"
    "unat (push_bit ?k numerator) < unat denominator * 16777216"
    using bounds(1,2) unfolding powi s
    by (simp_all add: field_simps flip: of_nat_le_iff [where 'a = real] of_nat_less_iff [where 'a = real])
  note near = rounded_quotient_near [OF d this, folded q]
  have "real_of_int \<bar>2 * int (unat q * unat denominator) - 2 * int (unat numerator * 2 ^ ?k)\<bar> \<le> ?d"
    using near(1) s by (metis of_int_le_iff of_int_of_nat_eq)
  then have "\<bar>2 * (real (unat q) * ?d) - 2 * (?n * 2 ^ ?k)\<bar> \<le> ?d" by simp
  then have r: "\<bar>real (unat q) * 2 powi (e - 23) - ?n / ?d\<bar> \<le> 2 powi (e - 23) / 2"
  proof -
    assume A: "\<bar>2 * (real (unat q) * ?d) - 2 * (?n * 2 ^ ?k)\<bar> \<le> ?d"
    have "real (unat q) * (1 / 2 ^ ?k) - ?n / ?d =
        (2 * (real (unat q) * ?d) - 2 * (?n * 2 ^ ?k)) / (2 * ?d * 2 ^ ?k)"
      using dpos by (simp add: field_simps)
    then have "\<bar>real (unat q) * (1 / 2 ^ ?k) - ?n / ?d\<bar> =
        \<bar>2 * (real (unat q) * ?d) - 2 * (?n * 2 ^ ?k)\<bar> / (2 * ?d * 2 ^ ?k)"
      using dpos by (simp add: abs_mult)
    also have "\<dots> \<le> ?d / (2 * ?d * 2 ^ ?k)" using A dpos by (intro divide_right_mono) auto
    also have "\<dots> = 1 / 2 ^ ?k / 2" using dpos by simp
    finally show ?thesis unfolding powi .
  qed
  have val: "f32_value b = real (unat q) * 2 powi (e - 23) \<and> 2 powi (e - 23) \<le> f32_ulp b \<and> b \<noteq> 0"
  proof (cases "q = 16777216")
    case True
    have "f32_exponent b = e + 1" "f32_mantissa b = 8388608" "b \<noteq> 0"
      using f32_decode [of b "e + 1" 8388608] b True e by simp_all
    moreover have "real (unat q) = 16777216" using True by simp
    moreover have "2 powi (e + 1 - 23) = (2 :: real) * 2 powi (e - 23)" for e
      using power_int_add_1 [of "2 :: real" "e - 23"] by (simp add: algebra_simps)
    ultimately show ?thesis by (simp add: f32_value_def f32_ulp_def)
  next
    case False
    have "f32_exponent b = e" "f32_mantissa b = unat q" "b \<noteq> 0"
      using f32_decode [of b e q] b False rng e by (simp_all add: word_le_nat_alt word_less_nat_alt)
    then show ?thesis by (simp add: f32_value_def f32_ulp_def)
  qed
  then show "2 powi (e - 23) \<le> f32_ulp b" "b \<noteq> 0" by simp_all
  show "\<bar>?n / ?d - f32_value b\<bar> \<le> 2 powi (e - 23) / 2"
    using r val by (simp add: abs_minus_commute)
qed

text \<open>C34: Whenever the integer conversion succeeds, the single-precision number it returns is
  within half a unit in the last place of the exact ratio (round to nearest).\<close>

theorem ratio_bits_nearest:
  assumes "smart_io_model_ratio_bits numerator denominator = Some b"
  shows "\<bar>real (unat numerator) / real (unat denominator) - f32_value b\<bar> \<le> f32_ulp b / 2"
proof (cases "numerator = 0")
  case True
  with assms have "b = 0" by (auto simp: smart_io_model_ratio_bits_def split: if_splits)
  with True show ?thesis by (simp add: f32_value_def f32_ulp_def)
next
  case False
  have d: "denominator \<noteq> 0"
    using assms by (auto simp: smart_io_model_ratio_bits_def split: if_splits)
  show ?thesis using ratio_bits_value [OF d False assms] by linarith
qed

lemma one_third: "smart_io_model_ratio_bits 1 3 = Some 1051372203"
  by code_simp

lemma ratio_bits_nearest_witness:
  "\<bar>real (unat (1 :: u64)) / real (unat (3 :: u64)) - f32_value 1051372203\<bar> \<le> f32_ulp 1051372203 / 2"
  by (rule ratio_bits_nearest [OF one_third])

lemma ratio_bits_defined:
  assumes d: "denominator \<noteq> 0" and n: "numerator \<noteq> 0"
    and e: "- 40 \<le> ratio_exponent numerator denominator" "ratio_exponent numerator denominator \<le> 23"
    and small: "unat numerator * 2 ^ nat (23 - ratio_exponent numerator denominator) < 2 ^ 64"
  shows "\<exists>b. smart_io_model_ratio_bits numerator denominator = Some b"
proof -
  define e where "e = ratio_exponent numerator denominator"
  let ?k = "nat (23 - e)"
  note e = e [folded e_def] and small = small [folded e_def]
    and bounds = ratio_exponent_bounds [OF n d, folded e_def]
  have k: "?k < 64" using e by linarith
  have ok: "\<not> (23 - e < 0 \<or> 64 \<le> 23 - e \<or> numerator > drop_bit ?k u64_max)"
    using e small guard_shift [OF k, of numerator] by linarith
  have s: "unat (push_bit ?k numerator) = unat numerator * 2 ^ ?k"
    by (rule unat_push_bit [OF k small])
  have "e = 23 - int ?k" using e by simp
  note powi = powi_scale [OF this]
  have "unat denominator * 8388608 \<le> unat (push_bit ?k numerator)"
    "unat (push_bit ?k numerator) < unat denominator * 16777216"
    using bounds(1,2) unfolding powi s
    by (simp_all add: field_simps flip: of_nat_le_iff [where 'a = real] of_nat_less_iff [where 'a = real])
  note near = rounded_quotient_near [OF d this]
  have half: "drop_bit 1 (16777216 :: u64) = 8388608" by (simp add: drop_bit_eq_div)
  let ?q = "rounded_quotient (push_bit ?k numerator) denominator"
  have eq: "smart_io_model_ratio_bits numerator denominator =
    (let (quotient, exponent) = (if ?q = 16777216 then (8388608, e + 1) else (?q, e)) in
     if quotient < 8388608 \<or> quotient \<ge> 16777216 \<or> exponent < -126 \<or> exponent > 127 then None
     else Some (push_bit 23 (word_of_int (exponent + 127)) OR (ucast quotient - 8388608)))"
    using d n ok
    unfolding smart_io_model_ratio_bits_def Let_def e_def [symmetric] rounded_quotient_def [unfolded Let_def, symmetric] half
    by simp
  have "?q \<noteq> 16777216 \<Longrightarrow> 8388608 \<le> ?q \<and> ?q < 16777216"
    using near(2,3) by (auto simp: word_le_nat_alt word_less_nat_alt word_unat_eq_iff)
  then show ?thesis using e by (cases "?q = 16777216") (simp_all add: eq not_less not_le)
qed

lemma u32_exponent:
  assumes "numerator \<noteq> 0" and "denominator \<noteq> 0"
    and "unat numerator < 2 ^ 32" and "unat denominator < 2 ^ 32"
  shows "- 33 \<le> ratio_exponent numerator denominator"
proof -
  have "fls64 denominator \<le> 32" using assms(4) unfolding fls64_def by (rule bit_length_le)
  then show ?thesis using fls64_bounds [OF assms(1)] fls64_bounds [OF assms(2)]
    by (simp add: ratio_exponent_test [OF assms(1,2)])
qed

text \<open>For 32-bit counters the conversion succeeds whenever the denominator is not zero and the
  ratio is below 2 to the 24; the calls that clamp or validate their operands never fail.\<close>

theorem ratio_bits_total:
  assumes d: "den \<noteq> 0" and lt: "unat num < 16777216 * unat den"
  shows "\<exists>b. smart_io_model_ratio_bits (ucast (num :: u32)) (ucast (den :: u32)) = Some b"
proof (cases "num = 0")
  case True
  have "unat (ucast den :: u64) = unat den" by (rule unat_ucast_64)
  then have "(ucast den :: u64) \<noteq> 0" using d by (metis unat_eq_0)
  with True show ?thesis by (auto simp: smart_io_model_ratio_bits_def)
next
  case False
  let ?n = "ucast num :: u64" and ?d = "ucast den :: u64"
  have u: "unat ?n = unat num" "unat ?d = unat den" by (simp_all add: unat_ucast_64)
  have nz: "?n \<noteq> 0" "?d \<noteq> 0" using False d by (metis u unat_eq_0)+
  have lt32: "unat num < 2 ^ 32" "unat den < 2 ^ 32"
    using unsigned_less [of num, where 'a = nat] unsigned_less [of den, where 'a = nat] by simp_all
  let ?e = "ratio_exponent ?n ?d"
  have lo: "- 33 \<le> ?e" by (rule u32_exponent [OF nz]) (use lt32 u in auto)
  note b = ratio_exponent_bounds [OF nz, unfolded u]
  have hi: "?e \<le> 23"
  proof (rule ccontr)
    assume "\<not> ?e \<le> 23"
    then have "(2::real) powi 24 \<le> 2 powi ?e" by (intro power_int_increasing) auto
    then have "real (unat den) * 16777216 \<le> real (unat den) * 2 powi ?e"
      by (intro mult_left_mono of_nat_0_le_iff) simp
    with b(1) have "real (unat den) * 16777216 \<le> real (unat num)" by linarith
    with lt show False by (simp flip: of_nat_le_iff [where 'a = real] of_nat_less_iff [where 'a = real])
  qed
  let ?k = "nat (23 - ?e)"
  have ek: "?e = 23 - int ?k" using hi by simp
  have "real (unat num) * 2 ^ ?k < real (unat den) * 16777216"
    using b(2) unfolding powi_scale(3) [OF ek] by (simp add: field_simps)
  then have "unat num * 2 ^ ?k < unat den * 16777216"
    by (simp flip: of_nat_less_iff [where 'a = real])
  also have "\<dots> < 2 ^ 64" using lt32 by simp
  finally show ?thesis using lo hi nz by (intro ratio_bits_defined) (simp_all add: u)
qed

lemma ratio_bits_total_witness:
  "\<exists>b. smart_io_model_ratio_bits (ucast (7 :: u32)) (ucast (600 :: u32)) = Some b"
  by (rule ratio_bits_total) simp_all

end
