(* ===== verification/Throttle_Control.thy ===== *)
theory Throttle_Control
  imports Throttle_Trace Fp32
begin

text \<open>
  The control path of \<open>smart_io_throttle.c\<close>: starting an inference, the inference work,
  the model thread, the inference timer and its timeout work, and the life of a context.
  A function with two lock regions is split at the unlock, so that other handlers can run
  in between: the local variables that survive form an \<open>infer_frame\<close>.  \<open>clk i\<close> is
  the \<open>i\<close>-th clock reading of a call; \<open>qdepth\<close> is \<open>blk_queue_depth\<close> of the
  queue.
\<close>

section \<open>Starting an inference\<close>

definition smart_io_throttle_snapshot_config_locked ::
  "throttle_globals \<Rightarrow> throttle_ctx \<Rightarrow> throttle_ctx" where
  "smart_io_throttle_snapshot_config_locked g c =
     c\<lparr>c_pending_source := cfg_source (g_config g),
       c_pending_fixed_action := cfg_fixed_action (g_config g),
       c_pending_light_pct := cfg_light_pct (g_config g),
       c_pending_medium_pct := cfg_medium_pct (g_config g),
       c_pending_heavy_pct := cfg_heavy_pct (g_config g)\<rparr>"

text \<open>The assignments after the checks have passed; \<open>state\<close> is only valid for the fixed source.\<close>

definition begin_inference :: "u64 \<Rightarrow> bool \<Rightarrow> state_snapshot \<Rightarrow> throttle_ctx \<Rightarrow> throttle_ctx" where
  "begin_inference now_ns new_control state c =
     (let c = (if new_control then c\<lparr>c_control_id := c_control_id c + 1\<rparr> else c);
          c = c\<lparr>c_throttle_active := True, c_inference_pending := True,
                c_inference_timed_out := False, c_inference_running := False,
                c_action_valid := False, c_model_post_apply_pending := False,
                c_pending_state_valid := (c_pending_source c \<noteq> SMART_IO_ACTION_SOURCE_MODEL)\<rparr>;
          c = smart_io_throttle_reset_feedback_locked c;
          c = c\<lparr>c_decision_id := c_decision_id c + 1\<rparr>;
          c = c\<lparr>c_pending_session_id := c_session_id c, c_pending_control_id := c_control_id c,
                c_pending_decision_id := c_decision_id c\<rparr>
      in if c_pending_state_valid c then c\<lparr>c_pending_state := state\<rparr>
         else c\<lparr>c_model_trigger_ts_ns := now_ns\<rparr>)"

definition smart_io_throttle_start_inference_locked ::
  "kernel \<Rightarrow> throttle_globals \<Rightarrow> u64 \<Rightarrow> u32 \<Rightarrow> bool \<Rightarrow> throttle_ctx \<Rightarrow> throttle_ctx \<times> bool" where
  "smart_io_throttle_start_inference_locked K g now_ns qdepth new_control c =
     (if \<not> smart_io_throttle_enabled g \<or> c_dying c \<or> c_inference_pending c then (c, False)
      else
      (let c = smart_io_throttle_snapshot_config_locked g c in
       if c_pending_source c \<noteq> SMART_IO_ACTION_SOURCE_MODEL then
         (case smart_io_throttle_snapshot_state_locked K now_ns qdepth
                 (smart_io_throttle_get_dev_lat_threshold g) c of
            (c, state, ok) \<Rightarrow>
              if \<not> ok then (c, False) else (begin_inference now_ns new_control state c, True))
       else (begin_inference now_ns new_control zero_snapshot c, True)))"

text \<open>\<open>work_queued\<close> is the result of \<open>queue_work\<close>: false when the work is already pending.\<close>

definition smart_io_throttle_schedule_inference :: "bool \<Rightarrow> throttle_ctx \<Rightarrow> throttle_ctx \<times> effect list" where
  "smart_io_throttle_schedule_inference work_queued c =
     (if work_queued then (c, [TimerStart SMART_IO_INFERENCE_TIMEOUT_MS, QueueInferenceWork])
      else
      (let (c, wake) = (if c_inference_pending c then smart_io_throttle_fallback_locked c else (c, False))
       in (c, [TimerStart SMART_IO_INFERENCE_TIMEOUT_MS, QueueInferenceWork, TimerCancel] @
              (if wake then [RunHwQueues (c_queue c)] else []))))"

section \<open>The inference work\<close>

definition smart_io_throttle_action_valid :: "action \<Rightarrow> bool" where
  "smart_io_throttle_action_valid a \<longleftrightarrow>
     act_level a < SMART_IO_THROTTLE_LEVEL_COUNT \<and> act_policy a < SMART_IO_DISPATCH_POLICY_COUNT"

type_synonym predictor = "bool \<Rightarrow> state_snapshot \<Rightarrow> errno option \<times> u32 option \<times> fp32_timing"

definition smart_io_throttle_model_fp32_action ::
  "predictor \<Rightarrow> bool \<Rightarrow> state_snapshot \<Rightarrow> action \<Rightarrow> errno option \<times> action \<times> fp32_timing" where
  "smart_io_throttle_model_fp32_action predict timed state a =
     (case predict timed state of
        (Some ret, _, tm) \<Rightarrow> (Some ret, a, tm)
      | (None, aid, tm) \<Rightarrow>
         (let action_id = (case aid of Some x \<Rightarrow> unat x | None \<Rightarrow> 0) in
          (None, a\<lparr>act_level := action_id div SMART_IO_DISPATCH_POLICY_COUNT,
                  act_policy := action_id mod SMART_IO_DISPATCH_POLICY_COUNT\<rparr>, tm)))"

definition smart_io_throttle_action_ratio :: "throttle_ctx \<Rightarrow> c_enum \<Rightarrow> u32" where
  "smart_io_throttle_action_ratio c level =
     (if level = SMART_IO_THROTTLE_LIGHT then c_pending_light_pct c
      else if level = SMART_IO_THROTTLE_MEDIUM then c_pending_medium_pct c
      else if level = SMART_IO_THROTTLE_HEAVY then c_pending_heavy_pct c
      else 0)"

text \<open>The locals that survive the unlock of the first lock region.\<close>

record infer_frame =
  if_session_id :: u64
  if_control_id :: u64
  if_decision_id :: u64
  if_source :: c_enum
  if_action :: action
  if_state :: state_snapshot
  if_model_trigger_ts_ns :: u64
  if_model_submit_ts_ns :: u64
  if_model_thread_start_ts_ns :: u64
  if_model_state_ts_ns :: u64

definition inference_work_begin :: "throttle_ctx \<Rightarrow> throttle_ctx \<times> infer_frame option" where
  "inference_work_begin c =
     (if \<not> c_inference_pending c \<or> c_inference_timed_out c \<or> c_dying c
      then (c\<lparr>c_inference_running := False\<rparr>, None)
      else if \<not> c_pending_state_valid c then (c\<lparr>c_inference_running := False\<rparr>, None)
      else (c, Some \<lparr>if_session_id = c_pending_session_id c, if_control_id = c_pending_control_id c,
              if_decision_id = c_pending_decision_id c, if_source = c_pending_source c,
              if_action = c_pending_fixed_action c, if_state = c_pending_state c,
              if_model_trigger_ts_ns = c_model_trigger_ts_ns c,
              if_model_submit_ts_ns = c_model_submit_ts_ns c,
              if_model_thread_start_ts_ns = c_model_thread_start_ts_ns c,
              if_model_state_ts_ns = c_model_state_ts_ns c\<rparr>))"

text \<open>
  Between the lock regions: the action of the frame and the error, the context with the two
  time stamps written, and the traces.  Clock readings: 0 and 3 around the prediction, 1
  and 2 for the elapsed time.
\<close>

definition inference_work_evaluate ::
  "throttle_globals \<Rightarrow> predictor \<Rightarrow> (nat \<Rightarrow> u64) \<Rightarrow> infer_frame \<Rightarrow> throttle_ctx
   \<Rightarrow> throttle_ctx \<times> infer_frame \<times> errno option \<times> effect list" where
  "inference_work_evaluate g predict clk f c =
     (let tr = smart_io_throttle_trace_state g (if_state f) (if_control_id f) (if_decision_id f) True in
      if if_source f = SMART_IO_ACTION_SOURCE_MODEL then
        (let c = c\<lparr>c_model_predict_start_ts_ns := clk 0\<rparr>;
             (ret, a, tm) = smart_io_throttle_model_fp32_action predict (g_rawdata_trace_enabled g \<noteq> 0)
                              (if_state f) (if_action f);
             elapsed = clk 2 - clk 1;
             c = c\<lparr>c_model_predict_end_ts_ns := clk 3\<rparr>;
             ret = (if ret = None \<and> elapsed > SMART_IO_INFERENCE_TIMEOUT_MS * nsec_per_msec
                    then Some ETIMEDOUT else ret)
         in (c, f\<lparr>if_action := a\<rparr>, ret, tr @ raw_emit g ''io_model_inference''
               [(''control_id'', w64 (if_control_id f)), (''decision_id'', w64 (if_decision_id f)),
                (''trigger_ts_ns'', w64 (if_model_trigger_ts_ns f)),
                (''dispatch_submit_ts_ns'', w64 (if_model_submit_ts_ns f)),
                (''thread_start_ts_ns'', w64 (if_model_thread_start_ts_ns f)),
                (''state_ts_ns'', w64 (if_model_state_ts_ns f)),
                (''predict_start_ts_ns'', w64 (clk 0)), (''predict_end_ts_ns'', w64 (clk 3)),
                (''input_prepare_ns'', w64 (tm_input_prepare_ns tm)),
                (''simd_check_ns'', w64 (tm_simd_check_ns tm)),
                (''neon_begin_ns'', w64 (tm_neon_begin_ns tm)), (''forward_ns'', w64 (tm_forward_ns tm)),
                (''neon_end_ns'', w64 (tm_neon_end_ns tm)),
                (''output_check_ns'', w64 (tm_output_check_ns tm)),
                (''predict_total_ns'', w64 (tm_total_ns tm)), (''elapsed_ns'', w64 elapsed),
                (''ret'', TZ (ret_code ret))]))
      else if \<not> smart_io_throttle_action_valid (if_action f) then (c, f, Some EINVAL, tr)
      else (c, f, None, tr))"

text \<open>The target depth: the ratio of the queue depth, rounded up, at most the queue depth.\<close>

definition target_depth_of :: "c_enum \<Rightarrow> u32 \<Rightarrow> u32 \<Rightarrow> u32" where
  "target_depth_of level queue_max ratio_pct =
     (if level = SMART_IO_THROTTLE_NO then 0
      else ucast (min (ucast queue_max :: u64) ((ucast queue_max * ucast ratio_pct + 99) div 100)))"

definition inference_work_fail ::
  "throttle_globals \<Rightarrow> u64 \<Rightarrow> infer_frame \<Rightarrow> throttle_ctx \<Rightarrow> throttle_ctx \<times> effect list" where
  "inference_work_fail g ts f c =
     (let (c, wake) =
            (if c_inference_pending c \<and> \<not> c_inference_timed_out c \<and>
                if_session_id f = c_pending_session_id c \<and> if_control_id f = c_pending_control_id c \<and>
                if_decision_id f = c_pending_decision_id c
             then smart_io_throttle_fallback_locked (c\<lparr>c_invalid_result_count := c_invalid_result_count c + 1\<rparr>)
             else (c, False))
      in (c, smart_io_throttle_trace_decision g ts c ''inference'' ''provider_error''
               (if_control_id f) (if_decision_id f) (if_action f) @
             (if wake then [RunHwQueues (c_queue c)] else [])))"

definition inference_work_reject ::
  "throttle_globals \<Rightarrow> u64 \<Rightarrow> infer_frame \<Rightarrow> action \<Rightarrow> throttle_ctx \<Rightarrow> throttle_ctx \<times> effect list" where
  "inference_work_reject g ts f a c =
     (let (c, wake) = smart_io_throttle_fallback_locked
                        (c\<lparr>c_invalid_result_count := c_invalid_result_count c + 1\<rparr>)
      in (c, smart_io_throttle_trace_decision g ts c ''inference'' ''invalid''
               (if_control_id f) (if_decision_id f) a @
             (if wake then [RunHwQueues (c_queue c)] else [])))"

definition inference_work_apply ::
  "throttle_globals \<Rightarrow> (nat \<Rightarrow> u64) \<Rightarrow> infer_frame \<Rightarrow> action \<Rightarrow> throttle_ctx \<Rightarrow> throttle_ctx \<times> effect list" where
  "inference_work_apply g clk f a c =
     (let a = a\<lparr>act_decision_id := if_decision_id f\<rparr>;
          c = c\<lparr>c_action := a, c_action_valid := True, c_inference_pending := False,
                c_inference_timed_out := False, c_inference_running := False,
                c_feedback_state := SMART_IO_FEEDBACK_WAIT_DISPATCH,
                c_inference_count := c_inference_count c + 1,
                c_gate_blocked := False, c_gate_reason := SMART_IO_GATE_NONE\<rparr>;
          model = (if_source f = SMART_IO_ACTION_SOURCE_MODEL);
          apply_ts = (if model then clk 0 else 0);
          c = (if model then c\<lparr>c_model_action_apply_ts_ns := apply_ts, c_model_post_apply_pending := True\<rparr>
               else c)
      in (c, [TimerCancel] @
             smart_io_throttle_trace_decision g (clk 1) c ''inference'' ''applied''
               (if_control_id f) (if_decision_id f) a @
             (if apply_ts \<noteq> 0
              then smart_io_throttle_trace_model_thread_apply g (if_control_id f) (if_decision_id f) apply_ts
              else []) @
             [RunHwQueues (c_queue c)]))"

definition inference_work_finish ::
  "throttle_globals \<Rightarrow> (nat \<Rightarrow> u64) \<Rightarrow> u32 \<Rightarrow> infer_frame \<Rightarrow> errno option \<Rightarrow> throttle_ctx
   \<Rightarrow> throttle_ctx \<times> effect list" where
  "inference_work_finish g clk qdepth f ret c =
     (if ret \<noteq> None \<or> qdepth = 0 then inference_work_fail g (clk 1) f c
      else if \<not> c_inference_pending c \<or> c_inference_timed_out c \<or> c_dying c \<or>
              if_session_id f \<noteq> c_pending_session_id c \<or> if_control_id f \<noteq> c_pending_control_id c \<or>
              if_decision_id f \<noteq> c_pending_decision_id c
      then (c\<lparr>c_inference_running := False\<rparr>, [])
      else
      (let level = act_level (if_action f);
           ratio_pct = smart_io_throttle_action_ratio c level in
       if level \<noteq> SMART_IO_THROTTLE_NO \<and> (ratio_pct = 0 \<or> ratio_pct > 100)
       then inference_work_reject g (clk 1) f (if_action f) c
       else
       (let a = (if_action f)\<lparr>act_ratio_pct := ratio_pct, act_queue_max := qdepth,
                  act_target_depth := target_depth_of level qdepth ratio_pct\<rparr> in
        if level \<noteq> SMART_IO_THROTTLE_NO \<and> act_target_depth a = 0
        then inference_work_reject g (clk 1) f a c
        else inference_work_apply g clk f a c)))"

text \<open>The whole work, when no other handler runs between its two lock regions.\<close>

definition smart_io_throttle_inference_work ::
  "throttle_globals \<Rightarrow> predictor \<Rightarrow> (nat \<Rightarrow> u64) \<Rightarrow> (nat \<Rightarrow> u64) \<Rightarrow> u32 \<Rightarrow> throttle_ctx \<Rightarrow> throttle_ctx \<times> effect list" where
  "smart_io_throttle_inference_work g predict clk1 clk2 qdepth c =
     (case inference_work_begin c of
        (c, None) \<Rightarrow> (c, [])
      | (c, Some f) \<Rightarrow>
         (case inference_work_evaluate g predict clk1 f c of
            (c, f, ret, es) \<Rightarrow>
              (case inference_work_finish g clk2 qdepth f ret c of (c, es') \<Rightarrow> (c, es @ es'))))"

section \<open>The model thread\<close>

text \<open>The static variables of the model thread; a context is named by its queue.\<close>

record model_thread =
  mt_task :: bool
  mt_ctx :: "nat option"
  mt_running :: "nat option"

definition model_thread_run_begin ::
  "kernel \<Rightarrow> throttle_globals \<Rightarrow> (nat \<Rightarrow> u64) \<Rightarrow> u32 \<Rightarrow> throttle_ctx \<Rightarrow> throttle_ctx \<times> bool \<times> effect list" where
  "model_thread_run_begin K g clk qdepth c =
     (if \<not> c_inference_pending c \<or> c_inference_timed_out c \<or> c_dying c \<or>
         c_pending_source c \<noteq> SMART_IO_ACTION_SOURCE_MODEL
      then (c\<lparr>c_inference_running := False\<rparr>, False, [])
      else
      (let c = c\<lparr>c_model_thread_start_ts_ns := clk 0\<rparr>;
           control_id = c_pending_control_id c; decision_id = c_pending_decision_id c;
           a = c_pending_fixed_action c in
       case smart_io_throttle_snapshot_state_locked K (clk 1) qdepth
              (smart_io_throttle_get_dev_lat_threshold g) c of
         (c, state, ok) \<Rightarrow>
           if \<not> ok then
             (let (c, wake) = smart_io_throttle_fallback_locked c in
              (c, False, [TimerCancel] @
                 smart_io_throttle_trace_decision g (clk 2) c ''inference'' ''state_invalid''
                   control_id decision_id a @
                 (if wake then [RunHwQueues (c_queue c)] else [])))
           else (c\<lparr>c_pending_state := state, c_pending_state_valid := True,
                   c_model_state_ts_ns := st_decision_ts_ns state\<rparr>, True, [])))"

definition smart_io_throttle_model_thread_run ::
  "kernel \<Rightarrow> throttle_globals \<Rightarrow> predictor \<Rightarrow> (nat \<Rightarrow> nat \<Rightarrow> u64) \<Rightarrow> u32 \<Rightarrow> throttle_ctx
   \<Rightarrow> throttle_ctx \<times> effect list" where
  "smart_io_throttle_model_thread_run K g predict clk qdepth c =
     (case model_thread_run_begin K g (clk 0) qdepth c of
        (c, False, es) \<Rightarrow> (c, es)
      | (c, True, es) \<Rightarrow>
         (case smart_io_throttle_inference_work g predict (clk 1) (clk 2) qdepth c of
            (c, es') \<Rightarrow> (c, es @ es')))"

text \<open>
  One turn of the thread's loop on the static variables and the contexts: \<open>None\<close> when the
  thread is to stop, and nothing happens while no context is submitted.
\<close>

definition smart_io_throttle_model_thread_main ::
  "bool \<Rightarrow> (throttle_ctx \<Rightarrow> throttle_ctx \<times> effect list) \<Rightarrow> model_thread \<times> (nat \<Rightarrow> throttle_ctx)
   \<Rightarrow> ((model_thread \<times> (nat \<Rightarrow> throttle_ctx)) \<times> effect list) option" where
  "smart_io_throttle_model_thread_main should_stop run s =
     (let (mt, ctxs) = s in
      if should_stop then None
      else case mt_ctx mt of
        None \<Rightarrow> Some ((mt, ctxs), [])
      | Some q \<Rightarrow>
         (let mt = mt\<lparr>mt_ctx := None, mt_running := Some q\<rparr>;
              (c, es) = run (ctxs q);
              mt = (if mt_running mt = Some q then mt\<lparr>mt_running := None\<rparr> else mt)
          in Some ((mt, ctxs(q := c)), es @ [ModelThreadIdle])))"

text \<open>\<open>created\<close> is the error of \<open>kthread_run\<close>, if any.\<close>

definition smart_io_throttle_model_thread_ensure ::
  "errno option \<Rightarrow> model_thread \<Rightarrow> model_thread \<times> errno option" where
  "smart_io_throttle_model_thread_ensure created mt =
     (if mt_task mt then (mt, None)
      else case created of Some e \<Rightarrow> (mt, Some e) | None \<Rightarrow> (mt\<lparr>mt_task := True\<rparr>, None))"

definition smart_io_throttle_model_thread_cancel_ctx ::
  "nat \<Rightarrow> model_thread \<Rightarrow> model_thread \<times> effect list" where
  "smart_io_throttle_model_thread_cancel_ctx q mt =
     (if mt_ctx mt = Some q then (mt\<lparr>mt_ctx := None\<rparr>, [ModelThreadIdle]) else (mt, []))"

definition smart_io_throttle_model_thread_exit :: "model_thread \<Rightarrow> model_thread \<times> bool" where
  "smart_io_throttle_model_thread_exit mt = (mt\<lparr>mt_task := False\<rparr>, mt_task mt)"

definition smart_io_throttle_model_dispatch_needed_locked :: "throttle_ctx \<Rightarrow> bool" where
  "smart_io_throttle_model_dispatch_needed_locked c \<longleftrightarrow>
     c_inference_pending c \<and> \<not> c_inference_running c \<and>
     c_pending_source c = SMART_IO_ACTION_SOURCE_MODEL \<and> c_pending_bg c \<noteq> 0"

definition smart_io_throttle_model_dispatch_needed ::
  "throttle_globals \<Rightarrow> throttle_ctx option \<Rightarrow> bool" where
  "smart_io_throttle_model_dispatch_needed g co =
     (case co of
        None \<Rightarrow> False
      | Some c \<Rightarrow> smart_io_throttle_enabled g \<and> smart_io_throttle_model_dispatch_needed_locked c)"

definition smart_io_throttle_dispatch_model_if_needed ::
  "throttle_globals \<Rightarrow> (nat \<Rightarrow> u64) \<Rightarrow> model_thread \<Rightarrow> throttle_ctx
   \<Rightarrow> model_thread \<times> throttle_ctx \<times> effect list" where
  "smart_io_throttle_dispatch_model_if_needed g clk mt c =
     (if \<not> smart_io_throttle_enabled g \<or> \<not> smart_io_throttle_model_dispatch_needed_locked c
      then (mt, c, [])
      else
      (let c = c\<lparr>c_inference_running := True, c_model_submit_ts_ns := clk 0\<rparr>;
           control_id = c_pending_control_id c; decision_id = c_pending_decision_id c in
       if mt_ctx mt = None \<and> mt_running mt = None then
         (mt\<lparr>mt_ctx := Some (c_queue c)\<rparr>, c,
          [TimerStart SMART_IO_INFERENCE_TIMEOUT_MS] @
          smart_io_throttle_trace_model_thread_submit g control_id decision_id
            (c_model_trigger_ts_ns c) (c_model_submit_ts_ns c) @
          [WakeModelThread])
       else
       (let a = c_pending_fixed_action c;
            (c, wake) = smart_io_throttle_fallback_locked c
        in (mt, c, if wake then smart_io_throttle_trace_decision g (clk 1) c ''inference'' ''thread_busy''
                                  control_id decision_id a @ [RunHwQueues (c_queue c)]
                   else []))))"

section \<open>Timer and timeout\<close>

definition smart_io_throttle_timeout_work ::
  "throttle_globals \<Rightarrow> u64 \<Rightarrow> throttle_ctx \<Rightarrow> throttle_ctx \<times> effect list" where
  "smart_io_throttle_timeout_work g ts c =
     (if \<not> (c_inference_pending c \<and> c_inference_timed_out c) then (c, [])
      else
      (let session_id = c_pending_session_id c; control_id = c_pending_control_id c;
           decision_id = c_pending_decision_id c; a = c_pending_fixed_action c;
           (c, wake) = smart_io_throttle_fallback_locked (c\<lparr>c_timeout_count := c_timeout_count c + 1\<rparr>) in
       if session_id = 0 then (c, [])
       else (c, smart_io_throttle_trace_decision g ts c ''inference'' ''timeout'' control_id decision_id a @
                (if wake then [RunHwQueues (c_queue c)] else []))))"

definition smart_io_throttle_inference_timer :: "throttle_ctx \<Rightarrow> throttle_ctx \<times> effect list" where
  "smart_io_throttle_inference_timer c =
     (if c_inference_pending c \<and> \<not> c_dying c
      then (c\<lparr>c_inference_timed_out := True\<rparr>, [QueueTimeoutWork]) else (c, []))"

section \<open>Life of a context\<close>

text \<open>The fields of the request queue the capacity depends on.\<close>

record queue_info =
  qi_id :: nat
  qi_shared_tags :: "u32 option"
  qi_hw_sched_tags :: "u32 option list"
  qi_nr_hw_queues :: u32

definition check_add_overflow :: "u32 \<Rightarrow> u32 \<Rightarrow> u32 option" where
  "check_add_overflow a b = (if unat a + unat b \<ge> 2 ^ 32 then None else Some (a + b))"

fun add_hw_tags :: "u32 option list \<Rightarrow> u32 \<Rightarrow> u32 option" where
  "add_hw_tags [] tag_slots = Some tag_slots"
| "add_hw_tags (t # ts) tag_slots =
     (case t of
        None \<Rightarrow> None
      | Some n \<Rightarrow> (case check_add_overflow tag_slots n of
                    None \<Rightarrow> None
                  | Some tag_slots \<Rightarrow> add_hw_tags ts tag_slots))"

definition smart_io_throttle_meta_capacity :: "queue_info \<Rightarrow> errno + u32" where
  "smart_io_throttle_meta_capacity q =
     (case (case qi_shared_tags q of Some n \<Rightarrow> Some n | None \<Rightarrow> add_hw_tags (qi_hw_sched_tags q) 0) of
        None \<Rightarrow> Inl EOVERFLOW
      | Some tag_slots \<Rightarrow>
          if tag_slots = 0 \<or> qi_nr_hw_queues q = 0 then Inl EOVERFLOW
          else case check_add_overflow tag_slots (qi_nr_hw_queues q) of
                 None \<Rightarrow> Inl EOVERFLOW
               | Some slots \<Rightarrow> Inr slots)"

text \<open>A context after \<open>memset\<close> to zero; no request of the new queue has metadata.\<close>

definition zero_ctx :: throttle_ctx where
  "zero_ctx =
     \<lparr>c_queue = 0, c_elv_priv1 = (\<lambda>_. None), c_free_meta = [], c_meta_pool = (\<lambda>_. zero_meta),
      c_meta_capacity = 0, c_meta_inuse = 0, c_active = [], c_inflight = [], c_inflight_start = [],
      c_dying = False, c_throttle_active = False, c_inference_pending = False, c_action_valid = False,
      c_gate_blocked = False, c_deadline_forced_active = False, c_gate_reason = SMART_IO_GATE_NONE,
      c_feedback_state = SMART_IO_FEEDBACK_NONE, c_current_depth = 0, c_bg_current_depth = 0,
      c_issued_depth = 0, c_pending_fg = 0, c_pending_bg = 0,
      c_dev_lat = replicate SMART_IO_DEV_LAT_WINDOW zero_sample, c_dev_lat_head = 0, c_dev_lat_count = 0,
      c_session_id = 0, c_control_id = 0, c_decision_id = 0, c_next_rq_id = 0, c_action = zero_action,
      c_feedback_meta = None, c_feedback_dispatch_ts_ns = 0, c_feedback_issue_ts_ns = 0,
      c_feedback_vote_count = 0, c_feedback_total_dev_lat_us = 0, c_feedback_max_dev_lat_us = 0,
      c_pending_session_id = 0, c_pending_control_id = 0, c_pending_decision_id = 0,
      c_pending_source = 0, c_pending_fixed_action = zero_action, c_pending_state = zero_snapshot,
      c_pending_state_valid = False, c_pending_light_pct = 0, c_pending_medium_pct = 0,
      c_pending_heavy_pct = 0, c_inference_timed_out = False, c_inference_running = False,
      c_model_trigger_ts_ns = 0, c_model_submit_ts_ns = 0, c_model_thread_start_ts_ns = 0,
      c_model_state_ts_ns = 0, c_model_predict_start_ts_ns = 0, c_model_predict_end_ts_ns = 0,
      c_model_action_apply_ts_ns = 0, c_model_post_apply_pending = False,
      c_inference_count = 0, c_timeout_count = 0, c_invalid_result_count = 0, c_fg_dispatched = 0,
      c_bg_dispatched = 0, c_bg_blocked = 0, c_bg_deadline_forced = 0, c_baseline_hits = 0,
      c_seq_hits = 0, c_seq_fallbacks = 0, c_small_hits = 0, c_depth_anomalies = 0,
      c_feedback_rebind_count = 0, c_allocation_failures = 0\<rparr>"

text \<open>
  \<open>meta_size\<close> is the size of a metadata object; the flags say whether the allocation of
  the pool and of the two work queues succeeded.
\<close>

definition smart_io_throttle_queue_init ::
  "nat \<Rightarrow> bool \<Rightarrow> bool \<Rightarrow> bool \<Rightarrow> queue_info \<Rightarrow> errno + throttle_ctx" where
  "smart_io_throttle_queue_init meta_size pool_ok infer_wq_ok timeout_wq_ok q =
     (case smart_io_throttle_meta_capacity q of
        Inl e \<Rightarrow> Inl e
      | Inr capacity \<Rightarrow>
          if unat capacity * meta_size \<ge> 2 ^ 64 then Inl EOVERFLOW
          else if \<not> pool_ok then Inl ENOMEM
          else
          (let c = zero_ctx\<lparr>c_queue := qi_id q, c_meta_capacity := capacity,
                            c_free_meta := [0..<unat capacity]\<rparr>;
               c = smart_io_throttle_set_baseline_action_locked c
           in if \<not> infer_wq_ok then Inl ENOMEM
              else if \<not> timeout_wq_ok then Inl ENOMEM
              else Inr c))"

text \<open>
  Tear-down: the static variables, the context, the effects, the five warnings (depth, bg
  depth, issued depth, pending, deadline) and whether the pool is freed.
\<close>

definition smart_io_throttle_queue_exit ::
  "model_thread \<Rightarrow> throttle_ctx \<Rightarrow> model_thread \<times> throttle_ctx \<times> effect list \<times> bool list \<times> bool" where
  "smart_io_throttle_queue_exit mt c =
     (let c = c\<lparr>c_dying := True\<rparr>;
          (mt, es) = smart_io_throttle_model_thread_cancel_ctx (c_queue c) mt;
          warns = [c_current_depth c \<noteq> 0, c_bg_current_depth c \<noteq> 0, c_issued_depth c \<noteq> 0,
                   c_pending_fg c \<noteq> 0 \<or> c_pending_bg c \<noteq> 0, c_deadline_forced_active c];
          active_busy = (c_active c \<noteq> []);
          meta_busy = (c_meta_inuse c \<noteq> 0)
      in (mt, c, [TimerCancel] @ es @ [CancelWorkSync, CancelWorkSync], warns,
          \<not> (meta_busy \<or> active_busy)))"

end
