(* ===== verification/Throttle_Events.thy ===== *)
theory Throttle_Events
  imports Throttle_Control
begin

text \<open>
  The handlers of \<open>smart_io_throttle.c\<close> that the elevator and the block tracepoints call:
  classify, update, unqueue, dispatch, finish, issue, requeue and complete, and the queries of
  the dispatcher.  Each takes the context and returns it with the effects in program order.
  The elevator passes its context; the tracepoint handlers look it up in the list of active
  queues.
\<close>

abbreviation run_queues :: "bool \<Rightarrow> throttle_ctx \<Rightarrow> effect list" where
  "run_queues wake c \<equiv> (if wake then [RunHwQueues (c_queue c)] else [])"

section \<open>Insertion\<close>

definition smart_io_throttle_prepare_request :: "request option \<Rightarrow> throttle_ctx \<Rightarrow> throttle_ctx" where
  "smart_io_throttle_prepare_request rqo c =
     (case rqo of None \<Rightarrow> c | Some rq \<Rightarrow> smart_io_throttle_set_rq_meta rq None c)"

definition smart_io_throttle_classify_request ::
  "kernel \<Rightarrow> throttle_globals \<Rightarrow> task_ctx \<Rightarrow> u64 \<Rightarrow> request \<Rightarrow> throttle_ctx \<Rightarrow> throttle_ctx" where
  "smart_io_throttle_classify_request K g t now rq c =
     (let queue_class = smart_io_throttle_select_queue K g t c (Some rq);
          (c, mo) = (case smart_io_throttle_rq_meta c rq of
                       Some i \<Rightarrow> (c, Some i)
                     | None \<Rightarrow> smart_io_throttle_alloc_meta_locked K rq
                                 (smart_io_throttle_class_for_queue queue_class) c)
      in case mo of
           None \<Rightarrow> c
         | Some i \<Rightarrow> smart_io_throttle_pending_inc_locked g now i
                       (upd_meta i (\<lambda>m. m\<lparr>m_queue_class := queue_class\<rparr>) c))"

definition smart_io_throttle_update_request ::
  "kernel \<Rightarrow> request \<Rightarrow> throttle_ctx \<Rightarrow> throttle_ctx" where
  "smart_io_throttle_update_request K rq c =
     (case smart_io_throttle_rq_meta c rq of
        None \<Rightarrow> c
      | Some i \<Rightarrow>
          if m_issued_accounted (c_meta_pool c i) then c
          else upd_meta i (\<lambda>m. m\<lparr>m_op := rq_op rq, m_start_sector := rq_pos rq,
                 m_end_sector := rq_pos rq + ucast (rq_sectors rq),
                 m_device_time_excluded := fst (smart_io_throttle_device_time_excluded (Some rq)),
                 m_tag_depth_max := snd (smart_io_throttle_device_time_excluded (Some rq)),
                 m_high_ioprio := (k_prio_class K (rq_ioprio rq) = k_class_rt K)\<rparr>) c)"

definition smart_io_throttle_unqueue_request :: "request \<Rightarrow> throttle_ctx \<Rightarrow> throttle_ctx" where
  "smart_io_throttle_unqueue_request rq c =
     smart_io_throttle_pending_dec_locked (smart_io_throttle_rq_meta c rq) c"

section \<open>Dispatch\<close>

text \<open>The counter the selection increments, and the deadline reservation.\<close>

definition count_selection :: "dispatch_selection \<Rightarrow> nat \<Rightarrow> throttle_ctx \<Rightarrow> throttle_ctx" where
  "count_selection selection i c =
     (case selection of
        SMART_IO_SELECTION_BACKGROUND_BASELINE \<Rightarrow> c\<lparr>c_baseline_hits := c_baseline_hits c + 1\<rparr>
      | SMART_IO_SELECTION_BACKGROUND_DEADLINE \<Rightarrow>
          if c_deadline_forced_active c then count_anomaly c
          else upd_meta i (\<lambda>m. m\<lparr>m_deadline_forced := True\<rparr>)
                 (c\<lparr>c_deadline_forced_active := True, c_bg_deadline_forced := c_bg_deadline_forced c + 1\<rparr>)
      | SMART_IO_SELECTION_SEQ_HIT \<Rightarrow> c\<lparr>c_seq_hits := c_seq_hits c + 1\<rparr>
      | SMART_IO_SELECTION_SEQ_FALLBACK \<Rightarrow> c\<lparr>c_seq_fallbacks := c_seq_fallbacks c + 1\<rparr>
      | SMART_IO_SELECTION_SMALL \<Rightarrow> c\<lparr>c_small_hits := c_small_hits c + 1\<rparr>
      | SMART_IO_SELECTION_FOREGROUND_FIFO \<Rightarrow> c)"

text \<open>The condition under which a dispatched request becomes the next feedback sample.\<close>

definition bind_feedback_ok :: "throttle_globals \<Rightarrow> nat \<Rightarrow> throttle_ctx \<Rightarrow> bool" where
  "bind_feedback_ok g i c \<longleftrightarrow>
     \<not> m_device_time_excluded (c_meta_pool c i) \<and> smart_io_throttle_enabled g \<and>
     c_throttle_active c \<and> c_action_valid c \<and> \<not> c_inference_pending c \<and>
     c_feedback_state c = SMART_IO_FEEDBACK_WAIT_DISPATCH \<and>
     c_feedback_vote_count c < SMART_IO_FEEDBACK_SAMPLE_MAX"

definition bind_feedback :: "nat \<Rightarrow> u64 \<Rightarrow> throttle_ctx \<Rightarrow> throttle_ctx" where
  "bind_feedback i ts c =
     upd_meta i (\<lambda>m. m\<lparr>m_feedback_bound := True, m_dispatch_decision_id := act_decision_id (c_action c)\<rparr>)
       (c\<lparr>c_feedback_meta := Some i, c_feedback_dispatch_ts_ns := ts, c_feedback_issue_ts_ns := 0,
          c_feedback_state := SMART_IO_FEEDBACK_WAIT_ISSUE\<rparr>)"

text \<open>The part before the depth is reserved: device name, pending counter, decision number.\<close>

definition dispatch_mark :: "throttle_globals \<Rightarrow> request \<Rightarrow> nat \<Rightarrow> throttle_ctx \<Rightarrow> throttle_ctx" where
  "dispatch_mark g rq i c =
     (let c = upd_meta i (\<lambda>m. m\<lparr>
                m_device_time_excluded := fst (smart_io_throttle_device_time_excluded (Some rq)),
                m_tag_depth_max := snd (smart_io_throttle_device_time_excluded (Some rq))\<rparr>) c;
          c = smart_io_throttle_pending_dec_locked (Some i) c
      in upd_meta i (\<lambda>m. m\<lparr>m_dispatch_decision_id :=
              (if smart_io_throttle_enabled g \<and> c_throttle_active c \<and> c_action_valid c \<and>
                  \<not> c_inference_pending c
               then act_decision_id (c_action c) else 0)\<rparr>) c)"

text \<open>Clock readings: 0 at entry, 1 when the feedback sample is bound, 2 in the trace.\<close>

definition smart_io_throttle_account_dispatch ::
  "throttle_globals \<Rightarrow> (nat \<Rightarrow> u64) \<Rightarrow> request \<Rightarrow> dispatch_selection \<Rightarrow> throttle_ctx
   \<Rightarrow> throttle_ctx \<times> effect list" where
  "smart_io_throttle_account_dispatch g clk rq selection c =
     (case smart_io_throttle_rq_meta c rq of
        None \<Rightarrow>
          (let (c, wake) = smart_io_throttle_fallback_locked (count_anomaly c) in (c, run_queues wake c))
      | Some i \<Rightarrow>
         (let cl = m_class (c_meta_pool c i);
              c = dispatch_mark g rq i c;
              trace_model_dispatch = (c_model_post_apply_pending c \<and> c_action_valid c \<and>
                                      \<not> c_inference_pending c);
              c = (if trace_model_dispatch then c\<lparr>c_model_post_apply_pending := False\<rparr> else c);
              model_control_id = c_control_id c;
              model_decision_id = act_decision_id (c_action c);
              depth_before = c_current_depth c; bg_before = c_bg_current_depth c;
              issued_before = c_issued_depth c;
              (c, wake) = smart_io_throttle_account_depth_locked (Some i) c;
              c = (if cl = SMART_IO_RQ_FOREGROUND then c\<lparr>c_fg_dispatched := c_fg_dispatched c + 1\<rparr>
                   else c\<lparr>c_bg_dispatched := c_bg_dispatched c + 1\<rparr>);
              c = count_selection selection i c;
              c = (if bind_feedback_ok g i c then bind_feedback i (clk 1) c else c)
          in (c,
              (if smart_io_throttle_enabled g
               then smart_io_throttle_trace_dispatch g (clk 2) c (Some (c_meta_pool c i)) selection
                      (depth_before, c_current_depth c) (bg_before, c_bg_current_depth c)
                      (issued_before, c_issued_depth c)
               else []) @
              (if trace_model_dispatch
               then smart_io_throttle_trace_model_thread_dispatch g model_control_id model_decision_id (clk 0)
               else []) @
              run_queues wake c)))"

section \<open>Finish, issue and requeue\<close>

text \<open>
  Releasing everything a request holds: in-flight index, deadline, issued and reserved depth.
  Returns whether to wake the queues and the gate reason released.
\<close>

definition release_all :: "nat \<Rightarrow> throttle_ctx \<Rightarrow> throttle_ctx \<times> bool \<times> gate_reason" where
  "release_all i c =
     (let c = smart_io_throttle_inflight_remove_locked (Some i) c;
          (c, w1) = smart_io_throttle_release_deadline_locked (Some i) c;
          (c, w2) = smart_io_throttle_release_issued_depth_locked (Some i) c;
          (c, w3, released) = smart_io_throttle_release_depth_locked (Some i) SMART_IO_GATE_NONE c
      in (c, w1 \<or> w2 \<or> w3, released))"

definition zero_feedback_sample :: "u32 \<Rightarrow> feedback_sample" where
  "zero_feedback_sample n = \<lparr>fs_sample_no = n, fs_total_dev_lat_us = 0, fs_mean_dev_lat_us = 0,
     fs_max_dev_lat_us = 0\<rparr>"

text \<open>The number of the next sample when the metadata carries the feedback binding.\<close>

definition feedback_sample_no_of :: "nat \<Rightarrow> throttle_ctx \<Rightarrow> u32" where
  "feedback_sample_no_of i c =
     (if c_feedback_meta c = Some i then ucast (c_feedback_vote_count c) + 1 else 0)"

definition smart_io_throttle_finish_request ::
  "throttle_globals \<Rightarrow> u64 \<Rightarrow> request \<Rightarrow> throttle_ctx \<Rightarrow> throttle_ctx \<times> effect list" where
  "smart_io_throttle_finish_request g ts rq c =
     (case smart_io_throttle_rq_meta c rq of
        None \<Rightarrow> (c, [])
      | Some i \<Rightarrow>
         (let sample_no = feedback_sample_no_of i c;
              (c, feedback_result) = smart_io_throttle_invalidate_feedback_locked (Some i) c;
              feedback_meta = c_meta_pool c i;
              (c, wake, released) = release_all i c;
              c = smart_io_throttle_free_meta_locked (Some rq) (Some i) c
          in (c,
              (case feedback_result of
                 Some result \<Rightarrow>
                   smart_io_throttle_trace_feedback g c (Some feedback_meta) (Some (c_action c)) result
                     0 0 0 0 0 (zero_feedback_sample sample_no)
               | None \<Rightarrow> []) @
              (if wake then
                 smart_io_throttle_trace_gate g ts c ''release'' released (c_current_depth c)
                   (c_bg_current_depth c) (act_target_depth (c_action c))
               else []) @
              run_queues wake c)))"

text \<open>The assignments of the issue handler after the reservations.\<close>

definition issue_mark ::
  "kernel \<Rightarrow> throttle_globals \<Rightarrow> u64 \<Rightarrow> request \<Rightarrow> nat \<Rightarrow> throttle_ctx \<Rightarrow> throttle_ctx" where
  "issue_mark K g now rq i c =
     (let c = upd_meta i (\<lambda>m. m\<lparr>m_op := rq_op rq\<rparr>) c;
          c = smart_io_throttle_inflight_add_locked K (Some i) rq c
      in if m_issue_ts_ns (c_meta_pool c i) = 0
         then upd_meta i (\<lambda>m. m\<lparr>m_issue_ts_ns := now, m_completion_sampled := False,
                m_issue_session_id := (if smart_io_throttle_enabled g then c_session_id c else 0)\<rparr>) c
         else c)"

definition issue_feedback :: "nat \<Rightarrow> throttle_ctx \<Rightarrow> bool" where
  "issue_feedback i c \<longleftrightarrow>
     \<not> m_device_time_excluded (c_meta_pool c i) \<and> c_feedback_meta c = Some i \<and>
     c_feedback_state c = SMART_IO_FEEDBACK_WAIT_ISSUE \<and>
     m_dispatch_decision_id (c_meta_pool c i) = act_decision_id (c_action c)"

text \<open>The handler on the context of the request's queue; the clock is read once, before the lock.\<close>

definition record_issue_ctx ::
  "kernel \<Rightarrow> throttle_globals \<Rightarrow> task_ctx \<Rightarrow> u64 \<Rightarrow> request \<Rightarrow> throttle_ctx \<Rightarrow> throttle_ctx \<times> effect list" where
  "record_issue_ctx K g t now rq c =
     (let (c, mo) = (case smart_io_throttle_find_meta_locked K c rq of
                       Some i \<Rightarrow> (c, Some i)
                     | None \<Rightarrow> smart_io_throttle_alloc_meta_locked K rq
                                 (smart_io_throttle_class_for_queue
                                   (smart_io_throttle_select_queue K g t c (Some rq))) c)
      in case mo of
           None \<Rightarrow> (c, run_queues True c)
         | Some i \<Rightarrow>
            (let c = upd_meta i (\<lambda>m. m\<lparr>
                   m_device_time_excluded := fst (smart_io_throttle_device_time_excluded (Some rq)),
                   m_tag_depth_max := snd (smart_io_throttle_device_time_excluded (Some rq))\<rparr>) c;
                 (c, w1) = (if \<not> m_depth_accounted (c_meta_pool c i)
                            then smart_io_throttle_account_depth_locked (Some i) c else (c, False));
                 (c, w2) = (if \<not> m_issued_accounted (c_meta_pool c i)
                            then smart_io_throttle_account_issued_depth_locked (Some i) c else (c, False));
                 c = issue_mark K g now rq i c
             in if issue_feedback i c then
                  (let c = c\<lparr>c_feedback_issue_ts_ns := m_issue_ts_ns (c_meta_pool c i),
                             c_feedback_state := SMART_IO_FEEDBACK_WAIT_COMPLETE\<rparr>
                   in (c, smart_io_throttle_trace_feedback g c (Some (c_meta_pool c i)) (Some (c_action c))
                            ''issued'' (m_issue_ts_ns (c_meta_pool c i)) 0 0 0 0
                            (zero_feedback_sample (ucast (c_feedback_vote_count c) + 1)) @
                          run_queues (w1 \<or> w2) c))
                else (c, run_queues (w1 \<or> w2) c)))"

definition requeue_mark :: "nat \<Rightarrow> throttle_ctx \<Rightarrow> throttle_ctx" where
  "requeue_mark i c = upd_meta i (\<lambda>m. m\<lparr>m_issue_ts_ns := 0, m_issue_session_id := 0,
     m_dispatch_decision_id := 0, m_completion_sampled := False\<rparr>) c"

definition record_requeue_ctx ::
  "kernel \<Rightarrow> throttle_globals \<Rightarrow> u64 \<Rightarrow> request \<Rightarrow> throttle_ctx \<Rightarrow> throttle_ctx \<times> effect list" where
  "record_requeue_ctx K g ts rq c =
     (case smart_io_throttle_find_meta_locked K c rq of
        None \<Rightarrow> (c, [])
      | Some i \<Rightarrow>
         (let sample_no = feedback_sample_no_of i c;
              (c, feedback_result) = smart_io_throttle_invalidate_feedback_locked (Some i) c;
              feedback_meta = c_meta_pool c i;
              feedback_action = c_action c;
              (c, wake, released) = release_all i c;
              c = requeue_mark i c
          in (c,
              (case feedback_result of
                 Some result \<Rightarrow>
                   smart_io_throttle_trace_feedback g c (Some feedback_meta) (Some feedback_action) result
                     0 0 0 0 0 (zero_feedback_sample sample_no)
               | None \<Rightarrow> []) @
              (if released \<noteq> SMART_IO_GATE_NONE then
                 smart_io_throttle_trace_gate g ts c ''release'' released (c_current_depth c)
                   (c_bg_current_depth c) (act_target_depth (c_action c))
               else []) @
              run_queues wake c)))"

section \<open>Completion\<close>

definition completion_final :: "request \<Rightarrow> u32 \<Rightarrow> bool" where
  "completion_final rq nr_bytes \<longleftrightarrow> \<not> rq_has_bio rq \<or> nr_bytes \<ge> rq_bytes rq"

text \<open>The device latency in microseconds, when it is valid.\<close>

definition completion_latency :: "u64 \<Rightarrow> rq_meta \<Rightarrow> u32 option" where
  "completion_latency now m =
     (if m_issue_ts_ns m \<noteq> 0 \<and> now > m_issue_ts_ns m
      then Some (ucast (min ((now - m_issue_ts_ns m) div nsec_per_usec) (ucast u32_max)))
      else None)"

definition push_sample :: "completion_sample \<Rightarrow> throttle_ctx \<Rightarrow> throttle_ctx" where
  "push_sample s c =
     c\<lparr>c_dev_lat := (c_dev_lat c)[unat (c_dev_lat_head c) := s],
       c_dev_lat_head := (c_dev_lat_head c + 1) mod 5,
       c_dev_lat_count := (if c_dev_lat_count c < 5 then c_dev_lat_count c + 1 else c_dev_lat_count c)\<rparr>"

text \<open>The sampling of the latency window; the flag says that the window has become slow.\<close>

definition complete_sample ::
  "throttle_globals \<Rightarrow> u64 \<Rightarrow> u32 \<Rightarrow> bool \<Rightarrow> u32 option \<Rightarrow> nat \<Rightarrow> throttle_ctx \<Rightarrow> throttle_ctx \<times> bool" where
  "complete_sample g now threshold_us final lat i c =
     (case lat of
        Some latency_us \<Rightarrow>
          if final \<and> \<not> m_completion_sampled (c_meta_pool c i) then
            (let c = upd_meta i (\<lambda>m. m\<lparr>m_completion_sampled := True\<rparr>) c;
                 m = c_meta_pool c i in
             if \<not> m_device_time_excluded m \<and> smart_io_throttle_enabled g \<and>
                m_issue_session_id m = c_session_id c then
               (let c = push_sample \<lparr>smp_complete_ts_ns = now, smp_dev_lat_us = latency_us,
                                     smp_is_fg = (m_class m = SMART_IO_RQ_FOREGROUND)\<rparr> c
                in (c, \<not> c_throttle_active c \<and> \<not> c_inference_pending c \<and>
                       smart_io_throttle_slow_window_locked c threshold_us))
             else (c, False))
          else (c, False)
      | None \<Rightarrow> (c, False))"

text \<open>What the feedback part of the handler hands to the rest.\<close>

record feedback_outcome =
  fo_complete :: bool
  fo_reinfer :: bool
  fo_wake :: bool
  fo_trace :: "(rq_meta \<times> action \<times> string option \<times> feedback_sample) option"

definition vote_feedback :: "u32 \<Rightarrow> throttle_ctx \<Rightarrow> throttle_ctx" where
  "vote_feedback latency_us c =
     c\<lparr>c_feedback_vote_count := c_feedback_vote_count c + 1,
       c_feedback_total_dev_lat_us := c_feedback_total_dev_lat_us c + ucast latency_us,
       c_feedback_max_dev_lat_us := max (c_feedback_max_dev_lat_us c) latency_us\<rparr>"

definition complete_feedback ::
  "u32 \<Rightarrow> bool \<Rightarrow> u32 option \<Rightarrow> nat \<Rightarrow> throttle_ctx \<Rightarrow> throttle_ctx \<times> feedback_outcome" where
  "complete_feedback threshold_us final lat i c =
     (case lat of
        Some latency_us \<Rightarrow>
          if final \<and> \<not> m_device_time_excluded (c_meta_pool c i) \<and> c_feedback_meta c = Some i \<and>
             c_feedback_state c = SMART_IO_FEEDBACK_WAIT_COMPLETE \<and> c_feedback_issue_ts_ns c \<noteq> 0
          then
            (let m = c_meta_pool c i; a = c_action c;
                 c = vote_feedback latency_us c;
                 mean = smart_io_throttle_feedback_mean_locked c;
                 fs = \<lparr>fs_sample_no = ucast (c_feedback_vote_count c),
                       fs_total_dev_lat_us = c_feedback_total_dev_lat_us c,
                       fs_mean_dev_lat_us = mean, fs_max_dev_lat_us = c_feedback_max_dev_lat_us c\<rparr>;
                 c = smart_io_throttle_clear_feedback_binding_locked c in
             if c_feedback_vote_count c = SMART_IO_FEEDBACK_SAMPLE_MAX then
               if mean < threshold_us then
                 (let (c, wake) = smart_io_throttle_fallback_locked c in
                  (c, \<lparr>fo_complete = True, fo_reinfer = False, fo_wake = wake,
                       fo_trace = Some (m, a, Some ''recovered'', fs)\<rparr>))
               else (c, \<lparr>fo_complete = True, fo_reinfer = True, fo_wake = False,
                         fo_trace = Some (m, a, Some ''slow_reinfer'', fs)\<rparr>)
             else (c\<lparr>c_feedback_state := SMART_IO_FEEDBACK_WAIT_DISPATCH\<rparr>,
                   \<lparr>fo_complete = True, fo_reinfer = False, fo_wake = False,
                    fo_trace = Some (m, a, Some ''sample'', fs)\<rparr>))
          else (c, \<lparr>fo_complete = False, fo_reinfer = False, fo_wake = False, fo_trace = None\<rparr>)
      | None \<Rightarrow> (c, \<lparr>fo_complete = False, fo_reinfer = False, fo_wake = False, fo_trace = None\<rparr>))"

text \<open>A final completion that did not complete the bound sample invalidates it.\<close>

definition complete_invalidate ::
  "bool \<Rightarrow> nat \<Rightarrow> throttle_ctx \<Rightarrow> feedback_outcome \<Rightarrow> throttle_ctx \<times> feedback_outcome" where
  "complete_invalidate final i c fo =
     (if \<not> fo_complete fo \<and> final \<and> c_feedback_meta c = Some i then
        (let m = c_meta_pool c i; a = c_action c; n = feedback_sample_no_of i c;
             (c, result) = smart_io_throttle_invalidate_feedback_locked (Some i) c
         in (c, fo\<lparr>fo_trace := (case result of None \<Rightarrow> None
                                | Some r \<Rightarrow> Some (m, a, Some r, zero_feedback_sample n))\<rparr>))
      else (c, fo))"

text \<open>
  Clock readings: 0 at entry, 1 in \<open>start_inference\<close>, 2 and 3 in the traces.
\<close>

definition complete_inference ::
  "kernel \<Rightarrow> throttle_globals \<Rightarrow> (nat \<Rightarrow> u64) \<Rightarrow> u32 \<Rightarrow> bool \<Rightarrow> bool \<Rightarrow> throttle_ctx
   \<Rightarrow> throttle_ctx \<times> bool \<times> bool" where
  "complete_inference K g clk qdepth reinfer slow c =
     (if reinfer \<or> slow then
        (case smart_io_throttle_start_inference_locked K g (clk 1) qdepth slow c of
           (c, True) \<Rightarrow> (c, True, False)
         | (c, False) \<Rightarrow>
             if reinfer then (let (c, wake) = smart_io_throttle_fallback_locked c in (c, False, wake))
             else (c, False, False))
      else (c, False, False))"

definition record_complete_locked ::
  "kernel \<Rightarrow> throttle_globals \<Rightarrow> (nat \<Rightarrow> u64) \<Rightarrow> u32 \<Rightarrow> request \<Rightarrow> u32 \<Rightarrow> nat \<Rightarrow> throttle_ctx
   \<Rightarrow> throttle_ctx \<times> feedback_outcome \<times> gate_reason \<times> bool \<times> bool" where
  "record_complete_locked K g clk qdepth rq nr_bytes i c =
     (let final = completion_final rq nr_bytes;
          threshold_us = smart_io_throttle_get_dev_lat_threshold g;
          lat = completion_latency (clk 0) (c_meta_pool c i);
          (c, slow) = complete_sample g (clk 0) threshold_us final lat i c;
          (c, fo) = complete_feedback threshold_us final lat i c;
          (c, fo) = complete_invalidate final i c fo;
          (c, w, released) = (if final then
               (let (c, w, r) = release_all i c
                in (smart_io_throttle_free_meta_locked (Some rq) (Some i) c, w, r))
             else (c, False, SMART_IO_GATE_NONE));
          (c, started, w') = complete_inference K g clk qdepth (fo_reinfer fo) slow c
      in (c, fo, released, started, fo_wake fo \<or> w \<or> w'))"

definition record_complete_ctx ::
  "kernel \<Rightarrow> throttle_globals \<Rightarrow> (nat \<Rightarrow> u64) \<Rightarrow> u32 \<Rightarrow> bool \<Rightarrow> request \<Rightarrow> u32 \<Rightarrow> u32 \<Rightarrow> throttle_ctx
   \<Rightarrow> throttle_ctx \<times> effect list" where
  "record_complete_ctx K g clk qdepth work_queued rq status nr_bytes c =
     (case smart_io_throttle_find_meta_locked K c rq of
        None \<Rightarrow> (c, [])
      | Some i \<Rightarrow>
         (let lat = completion_latency (clk 0) (c_meta_pool c i);
              (c, fo, released, started, wake) = record_complete_locked K g clk qdepth rq nr_bytes i c;
              current_depth = c_current_depth c; target_depth = act_target_depth (c_action c);
              source = c_pending_source c;
              es1 = (case fo_trace fo of
                       Some (m, a, result, fs) \<Rightarrow>
                         smart_io_throttle_trace_feedback g c (Some m) (Some a)
                           (case result of Some r \<Rightarrow> r | None \<Rightarrow> [])
                           (m_issue_ts_ns m) (clk 0) (case lat of Some l \<Rightarrow> l | None \<Rightarrow> 0) status nr_bytes fs
                     | None \<Rightarrow> []);
              es2 = (if started then smart_io_throttle_trace_decision g (clk 2) c
                       (if fo_complete fo then ''feedback_slow'' else ''slow_window'')
                       (if source = SMART_IO_ACTION_SOURCE_MODEL then ''pending_dispatch'' else ''queued'')
                       (c_pending_control_id c) (c_pending_decision_id c) (c_pending_fixed_action c)
                     else []);
              (c, es3) = (if started \<and> source \<noteq> SMART_IO_ACTION_SOURCE_MODEL
                          then smart_io_throttle_schedule_inference work_queued c else (c, []))
          in (c, es1 @ es2 @ es3 @
              (if released \<noteq> SMART_IO_GATE_NONE then
                 smart_io_throttle_trace_gate g (clk 3) c ''release'' released current_depth
                   (c_bg_current_depth c) target_depth
               else []) @
              run_queues wake c)))"

section \<open>Queries of the dispatcher\<close>

definition ufs_should_requeue_ctx :: "kernel \<Rightarrow> request \<Rightarrow> throttle_ctx \<Rightarrow> bool" where
  "ufs_should_requeue_ctx K rq c =
     (case smart_io_throttle_find_meta_locked K c rq of
        None \<Rightarrow> False
      | Some i \<Rightarrow>
          c_throttle_active c \<and> c_action_valid c \<and> \<not> c_inference_pending c \<and>
          act_level (c_action c) \<noteq> SMART_IO_THROTTLE_NO \<and>
          m_queue_class (c_meta_pool c i) \<noteq> SMART_IO_QUEUE_HP \<and>
          c_bg_current_depth c > act_target_depth (c_action c))"

definition smart_io_throttle_has_pending :: "throttle_ctx option \<Rightarrow> rq_class \<Rightarrow> bool" where
  "smart_io_throttle_has_pending co cl =
     (case co of None \<Rightarrow> False | Some c \<Rightarrow> smart_io_throttle_pending_counter c cl \<noteq> 0)"

text \<open>Whether a request outside the high-priority class may be dispatched now.\<close>

definition smart_io_throttle_non_hp_allowed ::
  "throttle_globals \<Rightarrow> u64 \<Rightarrow> throttle_ctx \<Rightarrow> throttle_ctx \<times> bool \<times> effect list" where
  "smart_io_throttle_non_hp_allowed g ts c =
     (if \<not> smart_io_throttle_enabled g then (c, True, [])
      else
      (let (allowed, reason) =
             (if \<not> smart_io_throttle_get_queue_rq_demo g \<and> c_inference_pending c
              then (False, SMART_IO_GATE_INFERENCE)
              else if \<not> smart_io_throttle_get_queue_rq_demo g \<and> \<not> smart_io_throttle_depth_can_run_locked c
              then (False, SMART_IO_GATE_DEPTH)
              else (True, SMART_IO_GATE_NONE)) in
       if \<not> allowed \<and> (\<not> c_gate_blocked c \<or> c_gate_reason c \<noteq> reason) then
         (let c = c\<lparr>c_gate_blocked := True, c_gate_reason := reason, c_bg_blocked := c_bg_blocked c + 1\<rparr>
          in (c, allowed, smart_io_throttle_trace_gate g ts c ''enter'' reason (c_current_depth c)
                            (c_bg_current_depth c) (act_target_depth (c_action c))))
       else (c, allowed, [])))"

definition smart_io_throttle_deadline_escape_available ::
  "throttle_globals \<Rightarrow> throttle_ctx option \<Rightarrow> bool" where
  "smart_io_throttle_deadline_escape_available g co =
     (case co of None \<Rightarrow> False
      | Some c \<Rightarrow> smart_io_throttle_enabled g \<and> \<not> c_deadline_forced_active c)"

text \<open>Returns the time the request was queued when its deadline has passed.\<close>

definition smart_io_throttle_background_deadline_expired ::
  "throttle_globals \<Rightarrow> throttle_ctx option \<Rightarrow> request option \<Rightarrow> u64 \<Rightarrow> u64 option" where
  "smart_io_throttle_background_deadline_expired g co rqo now_ns =
     (case (co, rqo) of
        (Some c, Some rq) \<Rightarrow>
          if \<not> smart_io_throttle_enabled g then None
          else (case smart_io_throttle_rq_meta c rq of
            None \<Rightarrow> None
          | Some i \<Rightarrow>
             (let m = c_meta_pool c i in
              if m_class m \<noteq> SMART_IO_RQ_BACKGROUND \<or> \<not> m_queued m then None
              else if m_queued_ts_ns m = 0 \<or> now_ns \<le> m_queued_ts_ns m then None
              else if now_ns - m_queued_ts_ns m <
                      ucast (smart_io_throttle_get_background_deadline_ms g) * nsec_per_msec then None
              else Some (m_queued_ts_ns m)))
      | _ \<Rightarrow> None)"

definition smart_io_throttle_effective_policy :: "throttle_globals \<Rightarrow> throttle_ctx option \<Rightarrow> c_enum" where
  "smart_io_throttle_effective_policy g co =
     (case co of
        None \<Rightarrow> SMART_IO_DISPATCH_BASELINE
      | Some c \<Rightarrow>
          if smart_io_throttle_enabled g \<and> c_throttle_active c \<and> c_action_valid c \<and> \<not> c_inference_pending c
          then act_policy (c_action c) else SMART_IO_DISPATCH_BASELINE)"

section \<open>The tracepoint handlers on the list of active queues\<close>

definition smart_io_throttle_find_ctx_rcu :: "nat \<Rightarrow> throttle_ctx list \<Rightarrow> throttle_ctx option" where
  "smart_io_throttle_find_ctx_rcu q ctxs = find (\<lambda>c. c_queue c = q) ctxs"

text \<open>Runs a handler on the context of a queue and stores the result in its place.\<close>

fun on_ctx :: "nat \<Rightarrow> (throttle_ctx \<Rightarrow> throttle_ctx \<times> effect list) \<Rightarrow> throttle_ctx list
    \<Rightarrow> throttle_ctx list \<times> effect list" where
  "on_ctx q h [] = ([], [])"
| "on_ctx q h (c # cs) =
     (if c_queue c = q then (case h c of (c, es) \<Rightarrow> (c # cs, es))
      else (case on_ctx q h cs of (cs, es) \<Rightarrow> (c # cs, es)))"

definition on_request :: "request option \<Rightarrow> (request \<Rightarrow> throttle_ctx \<Rightarrow> throttle_ctx \<times> effect list)
    \<Rightarrow> throttle_ctx list \<Rightarrow> throttle_ctx list \<times> effect list" where
  "on_request rqo h ctxs =
     (case rqo of
        None \<Rightarrow> (ctxs, [])
      | Some rq \<Rightarrow> (case rq_q rq of None \<Rightarrow> (ctxs, []) | Some q \<Rightarrow> on_ctx q (h rq) ctxs))"

definition smart_io_throttle_record_issue ::
  "kernel \<Rightarrow> throttle_globals \<Rightarrow> task_ctx \<Rightarrow> u64 \<Rightarrow> request option \<Rightarrow> throttle_ctx list
   \<Rightarrow> throttle_ctx list \<times> effect list" where
  "smart_io_throttle_record_issue K g t now rqo = on_request rqo (record_issue_ctx K g t now)"

definition smart_io_throttle_record_requeue ::
  "kernel \<Rightarrow> throttle_globals \<Rightarrow> u64 \<Rightarrow> request option \<Rightarrow> throttle_ctx list
   \<Rightarrow> throttle_ctx list \<times> effect list" where
  "smart_io_throttle_record_requeue K g ts rqo = on_request rqo (record_requeue_ctx K g ts)"

definition smart_io_throttle_record_complete ::
  "kernel \<Rightarrow> throttle_globals \<Rightarrow> (nat \<Rightarrow> u64) \<Rightarrow> u32 \<Rightarrow> bool \<Rightarrow> request option \<Rightarrow> u32 \<Rightarrow> u32
   \<Rightarrow> throttle_ctx list \<Rightarrow> throttle_ctx list \<times> effect list" where
  "smart_io_throttle_record_complete K g clk qdepth work_queued rqo status nr_bytes =
     on_request rqo (\<lambda>rq. record_complete_ctx K g clk qdepth work_queued rq status nr_bytes)"

definition smart_io_throttle_ufs_should_requeue ::
  "kernel \<Rightarrow> throttle_globals \<Rightarrow> request option \<Rightarrow> throttle_ctx list \<Rightarrow> bool" where
  "smart_io_throttle_ufs_should_requeue K g rqo ctxs =
     (case rqo of
        None \<Rightarrow> False
      | Some rq \<Rightarrow>
         (case rq_q rq of
            None \<Rightarrow> False
          | Some q \<Rightarrow>
             if \<not> smart_io_throttle_enabled g \<or> \<not> smart_io_throttle_get_queue_rq_demo g then False
             else (case smart_io_throttle_find_ctx_rcu q ctxs of
                     None \<Rightarrow> False
                   | Some c \<Rightarrow> ufs_should_requeue_ctx K rq c)))"

end
