(* ===== verification/Throttle_Config.thy ===== *)
theory Throttle_Config
  imports Throttle_Events
begin

text \<open>
  The settings interface of \<open>smart_io_throttle.c\<close>: enabling with the reset of every
  active queue, the validated setters and their getters, and the statistics.  A setter
  returns \<open>None\<close> for 0.  The theory proves that the settings stay in the ranges the
  control path relies on.
\<close>

section \<open>Enabling\<close>

definition smart_io_throttle_reset_context ::
  "bool \<Rightarrow> u64 \<Rightarrow> throttle_ctx \<Rightarrow> throttle_ctx \<times> effect list" where
  "smart_io_throttle_reset_context new_session now c =
     (let now_ns = (if new_session then now else 0);
          c = (if new_session then c\<lparr>c_session_id := c_session_id c + 1\<rparr> else c);
          c = fallback c;
          act = hash_slots (c_active c);
          c = c\<lparr>c_meta_pool := (\<lambda>i. let m = c_meta_pool c i in
                 if i \<in> set act
                 then m\<lparr>m_queued_ts_ns :=
                        (if new_session \<and> m_queued m \<and> m_class m = SMART_IO_RQ_BACKGROUND
                         then now_ns else 0)\<rparr>
                 else m)\<rparr>
      in (c, [TimerCancel, CancelWorkSync, CancelWorkSync, RunHwQueues (c_queue c)]))"

definition smart_io_throttle_set_enabled ::
  "bool \<Rightarrow> u64 \<Rightarrow> throttle_globals \<Rightarrow> throttle_ctx list
   \<Rightarrow> throttle_globals \<times> throttle_ctx list \<times> effect list" where
  "smart_io_throttle_set_enabled enabled now g ctxs =
     (if enabled = smart_io_throttle_enabled g then (g, ctxs, [])
      else
      (let g = g\<lparr>g_throttle_enabled := 0\<rparr>;
           rs = map (smart_io_throttle_reset_context enabled now) ctxs;
           g = (if enabled then g\<lparr>g_throttle_enabled := 1\<rparr> else g)
       in (g, map fst rs, concat (map snd rs))))"

definition smart_io_throttle_get_enabled :: "throttle_globals \<Rightarrow> bool" where
  "smart_io_throttle_get_enabled g = smart_io_throttle_enabled g"

section \<open>Setters and getters\<close>

definition int_max :: nat where [simp]: "int_max = 2147483647"

definition smart_io_throttle_set_queue_rq_demo :: "bool \<Rightarrow> throttle_globals \<Rightarrow> throttle_globals \<times> errno option" where
  "smart_io_throttle_set_queue_rq_demo enabled g =
     (g\<lparr>g_queue_rq_throttle_demo := (if enabled then 1 else 0)\<rparr>, None)"

definition smart_io_throttle_set_ux_hp_enable :: "bool \<Rightarrow> throttle_globals \<Rightarrow> throttle_globals \<times> errno option" where
  "smart_io_throttle_set_ux_hp_enable enabled g = (g\<lparr>g_ux_hp_enabled := (if enabled then 1 else 0)\<rparr>, None)"

definition smart_io_throttle_get_ux_hp_enable :: "throttle_globals \<Rightarrow> bool" where
  "smart_io_throttle_get_ux_hp_enable g \<longleftrightarrow> g_ux_hp_enabled g \<noteq> 0"

definition smart_io_throttle_set_rt_read_hp_enable :: "bool \<Rightarrow> throttle_globals \<Rightarrow> throttle_globals \<times> errno option" where
  "smart_io_throttle_set_rt_read_hp_enable enabled g =
     (g\<lparr>g_rt_read_hp_enabled := (if enabled then 1 else 0)\<rparr>, None)"

definition smart_io_throttle_get_rt_read_hp_enable :: "throttle_globals \<Rightarrow> bool" where
  "smart_io_throttle_get_rt_read_hp_enable g \<longleftrightarrow> g_rt_read_hp_enabled g \<noteq> 0"

definition smart_io_throttle_set_dev_lat_threshold :: "u32 \<Rightarrow> throttle_globals \<Rightarrow> throttle_globals \<times> errno option" where
  "smart_io_throttle_set_dev_lat_threshold threshold_us g =
     (if threshold_us = 0 \<or> unat threshold_us > int_max then (g, Some EINVAL)
      else if smart_io_throttle_enabled g then (g, Some EBUSY)
      else (g\<lparr>g_dev_lat_threshold_us := int (unat threshold_us)\<rparr>, None))"

definition smart_io_throttle_set_background_deadline_ms :: "u32 \<Rightarrow> throttle_globals \<Rightarrow> throttle_globals \<times> errno option" where
  "smart_io_throttle_set_background_deadline_ms deadline_ms g =
     (if deadline_ms = 0 \<or> unat deadline_ms > int_max then (g, Some EINVAL)
      else if smart_io_throttle_enabled g then (g, Some EBUSY)
      else (g\<lparr>g_background_deadline_ms := int (unat deadline_ms)\<rparr>, None))"

definition smart_io_throttle_set_ratios ::
  "u32 \<Rightarrow> u32 \<Rightarrow> u32 \<Rightarrow> throttle_globals \<Rightarrow> throttle_globals \<times> errno option" where
  "smart_io_throttle_set_ratios light_pct medium_pct heavy_pct g =
     (if light_pct > 100 \<or> light_pct = 0 \<or> light_pct \<le> medium_pct \<or> medium_pct = 0 \<or>
         medium_pct \<le> heavy_pct \<or> heavy_pct = 0
      then (g, Some EINVAL)
      else (g\<lparr>g_config := (g_config g)\<lparr>cfg_light_pct := light_pct, cfg_medium_pct := medium_pct,
              cfg_heavy_pct := heavy_pct\<rparr>\<rparr>, None))"

definition smart_io_throttle_get_ratios :: "throttle_globals \<Rightarrow> u32 \<times> u32 \<times> u32" where
  "smart_io_throttle_get_ratios g =
     (cfg_light_pct (g_config g), cfg_medium_pct (g_config g), cfg_heavy_pct (g_config g))"

text \<open>Selecting the model needs the thread; \<open>created\<close> is the error of \<open>kthread_run\<close>.\<close>

definition smart_io_throttle_set_action_source ::
  "errno option \<Rightarrow> c_enum \<Rightarrow> throttle_globals \<times> model_thread
   \<Rightarrow> (throttle_globals \<times> model_thread) \<times> errno option" where
  "smart_io_throttle_set_action_source created source s =
     (let (g, mt) = s in
      if source \<ge> SMART_IO_ACTION_SOURCE_COUNT then ((g, mt), Some EINVAL)
      else
      (let (mt, ret) = (if source = SMART_IO_ACTION_SOURCE_MODEL
                        then smart_io_throttle_model_thread_ensure created mt else (mt, None)) in
       if ret \<noteq> None then ((g, mt), ret)
       else ((g\<lparr>g_config := (g_config g)\<lparr>cfg_source := source\<rparr>\<rparr>, mt), None)))"

definition smart_io_throttle_get_action_source :: "throttle_globals \<Rightarrow> c_enum" where
  "smart_io_throttle_get_action_source g = cfg_source (g_config g)"

definition smart_io_throttle_set_fixed_action ::
  "c_enum \<Rightarrow> c_enum \<Rightarrow> throttle_globals \<Rightarrow> throttle_globals \<times> errno option" where
  "smart_io_throttle_set_fixed_action level policy g =
     (if level \<ge> SMART_IO_THROTTLE_LEVEL_COUNT \<or> policy \<ge> SMART_IO_DISPATCH_POLICY_COUNT
      then (g, Some EINVAL)
      else (g\<lparr>g_config := (g_config g)\<lparr>cfg_fixed_action :=
              (cfg_fixed_action (g_config g))\<lparr>act_level := level, act_policy := policy\<rparr>\<rparr>\<rparr>, None))"

definition smart_io_throttle_get_fixed_action :: "throttle_globals \<Rightarrow> c_enum \<times> c_enum" where
  "smart_io_throttle_get_fixed_action g =
     (act_level (cfg_fixed_action (g_config g)), act_policy (cfg_fixed_action (g_config g)))"

section \<open>Statistics\<close>

record throttle_stats_cfg =
  s_enabled :: bool
  s_active :: bool
  s_inference_pending :: bool
  s_action_valid :: bool
  s_active_queues :: u32
  s_action_source :: c_enum
  s_level :: c_enum
  s_policy :: c_enum
  s_gate_reason :: gate_reason
  s_feedback_state :: feedback_state
  s_light_pct :: u32
  s_medium_pct :: u32
  s_heavy_pct :: u32
  s_resolved_ratio_pct :: u32
  s_queue_max :: u32
  s_target_depth :: u32

record throttle_stats_depth = throttle_stats_cfg +
  s_current_depth :: u32
  s_bg_current_depth :: u32
  s_issued_depth :: u32
  s_meta_capacity :: u32
  s_meta_inuse :: u32
  s_fg_pending :: u32
  s_bg_pending :: u32
  s_dev_lat_threshold_us :: u32
  s_background_deadline_ms :: u32
  s_deadline_forced_active :: bool
  s_session_id :: u64
  s_control_id :: u64
  s_decision_id :: u64
  s_feedback_rq_id :: u64
  s_feedback_vote_count :: u32
  s_feedback_mean_dev_lat_us :: u32
  s_feedback_max_dev_lat_us :: u32

record throttle_stats = throttle_stats_depth +
  s_inference_count :: u64
  s_timeout_count :: u64
  s_invalid_result_count :: u64
  s_fg_dispatched :: u64
  s_bg_dispatched :: u64
  s_bg_blocked :: u64
  s_bg_deadline_forced :: u64
  s_baseline_hits :: u64
  s_seq_hits :: u64
  s_seq_fallbacks :: u64
  s_small_hits :: u64
  s_depth_anomalies :: u64
  s_feedback_rebind_count :: u64
  s_allocation_failures :: u64

definition stats_init :: "throttle_globals \<Rightarrow> throttle_stats" where
  "stats_init g =
     \<lparr>s_enabled = smart_io_throttle_enabled g, s_active = False, s_inference_pending = False,
      s_action_valid = False, s_active_queues = 0,
      s_action_source = smart_io_throttle_get_action_source g, s_level = 0, s_policy = 0,
      s_gate_reason = SMART_IO_GATE_NONE, s_feedback_state = SMART_IO_FEEDBACK_NONE,
      s_light_pct = fst (smart_io_throttle_get_ratios g),
      s_medium_pct = fst (snd (smart_io_throttle_get_ratios g)),
      s_heavy_pct = snd (snd (smart_io_throttle_get_ratios g)),
      s_resolved_ratio_pct = 0, s_queue_max = 0, s_target_depth = 0,
      s_current_depth = 0, s_bg_current_depth = 0, s_issued_depth = 0, s_meta_capacity = 0,
      s_meta_inuse = 0, s_fg_pending = 0, s_bg_pending = 0,
      s_dev_lat_threshold_us = smart_io_throttle_get_dev_lat_threshold g,
      s_background_deadline_ms = smart_io_throttle_get_background_deadline_ms g,
      s_deadline_forced_active = False, s_session_id = 0, s_control_id = 0, s_decision_id = 0,
      s_feedback_rq_id = 0, s_feedback_vote_count = 0, s_feedback_mean_dev_lat_us = 0,
      s_feedback_max_dev_lat_us = 0, s_inference_count = 0, s_timeout_count = 0,
      s_invalid_result_count = 0, s_fg_dispatched = 0, s_bg_dispatched = 0, s_bg_blocked = 0,
      s_bg_deadline_forced = 0, s_baseline_hits = 0, s_seq_hits = 0, s_seq_fallbacks = 0,
      s_small_hits = 0, s_depth_anomalies = 0, s_feedback_rebind_count = 0,
      s_allocation_failures = 0\<rparr>"

definition stats_add :: "throttle_ctx \<Rightarrow> throttle_stats \<Rightarrow> throttle_stats" where
  "stats_add c s =
     \<lparr>s_enabled = s_enabled s,
      s_active = (s_active s \<or> c_throttle_active c),
      s_inference_pending = (s_inference_pending s \<or> c_inference_pending c),
      s_action_valid = (s_action_valid s \<or> c_action_valid c),
      s_active_queues = s_active_queues s + 1,
      s_action_source = s_action_source s,
      s_level = act_level (c_action c),
      s_policy = act_policy (c_action c),
      s_gate_reason = c_gate_reason c,
      s_feedback_state = c_feedback_state c,
      s_light_pct = s_light_pct s, s_medium_pct = s_medium_pct s, s_heavy_pct = s_heavy_pct s,
      s_resolved_ratio_pct = act_ratio_pct (c_action c),
      s_queue_max = act_queue_max (c_action c),
      s_target_depth = act_target_depth (c_action c),
      s_current_depth = s_current_depth s + c_current_depth c,
      s_bg_current_depth = s_bg_current_depth s + c_bg_current_depth c,
      s_issued_depth = s_issued_depth s + c_issued_depth c,
      s_meta_capacity = s_meta_capacity s + c_meta_capacity c,
      s_meta_inuse = s_meta_inuse s + c_meta_inuse c,
      s_fg_pending = s_fg_pending s + c_pending_fg c,
      s_bg_pending = s_bg_pending s + c_pending_bg c,
      s_dev_lat_threshold_us = s_dev_lat_threshold_us s,
      s_background_deadline_ms = s_background_deadline_ms s,
      s_deadline_forced_active = (s_deadline_forced_active s \<or> c_deadline_forced_active c),
      s_session_id = c_session_id c, s_control_id = c_control_id c, s_decision_id = c_decision_id c,
      s_feedback_rq_id = (case c_feedback_meta c of Some i \<Rightarrow> m_rq_id (c_meta_pool c i) | None \<Rightarrow> 0),
      s_feedback_vote_count = s_feedback_vote_count s + ucast (c_feedback_vote_count c),
      s_feedback_mean_dev_lat_us = smart_io_throttle_feedback_mean_locked c,
      s_feedback_max_dev_lat_us = max (s_feedback_max_dev_lat_us s) (c_feedback_max_dev_lat_us c),
      s_inference_count = s_inference_count s + c_inference_count c,
      s_timeout_count = s_timeout_count s + c_timeout_count c,
      s_invalid_result_count = s_invalid_result_count s + c_invalid_result_count c,
      s_fg_dispatched = s_fg_dispatched s + c_fg_dispatched c,
      s_bg_dispatched = s_bg_dispatched s + c_bg_dispatched c,
      s_bg_blocked = s_bg_blocked s + c_bg_blocked c,
      s_bg_deadline_forced = s_bg_deadline_forced s + c_bg_deadline_forced c,
      s_baseline_hits = s_baseline_hits s + c_baseline_hits c,
      s_seq_hits = s_seq_hits s + c_seq_hits c,
      s_seq_fallbacks = s_seq_fallbacks s + c_seq_fallbacks c,
      s_small_hits = s_small_hits s + c_small_hits c,
      s_depth_anomalies = s_depth_anomalies s + c_depth_anomalies c,
      s_feedback_rebind_count = s_feedback_rebind_count s + c_feedback_rebind_count c,
      s_allocation_failures = s_allocation_failures s + c_allocation_failures c\<rparr>"

definition smart_io_throttle_get_stats :: "throttle_globals \<Rightarrow> throttle_ctx list \<Rightarrow> throttle_stats" where
  "smart_io_throttle_get_stats g ctxs = fold stats_add ctxs (stats_init g)"

section \<open>The settings stay in range\<close>

definition globals_inv :: "throttle_globals \<Rightarrow> bool" where
  "globals_inv g \<longleftrightarrow>
     (0 < g_dev_lat_threshold_us g \<and> g_dev_lat_threshold_us g \<le> int int_max) \<and>
     (0 < g_background_deadline_ms g \<and> g_background_deadline_ms g \<le> int int_max) \<and>
     g_throttle_enabled g \<in> {0, 1} \<and>
     (0 < cfg_heavy_pct (g_config g) \<and> cfg_heavy_pct (g_config g) < cfg_medium_pct (g_config g) \<and>
      cfg_medium_pct (g_config g) < cfg_light_pct (g_config g) \<and> cfg_light_pct (g_config g) \<le> 100) \<and>
     cfg_source (g_config g) < SMART_IO_ACTION_SOURCE_COUNT \<and>
     smart_io_throttle_action_valid (cfg_fixed_action (g_config g))"

text \<open>The calls of the settings interface, as a step on the settings and the model thread.\<close>

datatype setting =
    SetEnabled bool u64 "throttle_ctx list"
  | SetDemo bool
  | SetUxHp bool
  | SetRtReadHp bool
  | SetThreshold u32
  | SetDeadline u32
  | SetRatios u32 u32 u32
  | SetSource "errno option" c_enum
  | SetFixedAction c_enum c_enum

fun apply_setting :: "setting \<Rightarrow> throttle_globals \<times> model_thread \<Rightarrow> throttle_globals \<times> model_thread" where
  "apply_setting (SetEnabled b now cs) (g, mt) = (fst (smart_io_throttle_set_enabled b now g cs), mt)"
| "apply_setting (SetDemo b) (g, mt) = (fst (smart_io_throttle_set_queue_rq_demo b g), mt)"
| "apply_setting (SetUxHp b) (g, mt) = (fst (smart_io_throttle_set_ux_hp_enable b g), mt)"
| "apply_setting (SetRtReadHp b) (g, mt) = (fst (smart_io_throttle_set_rt_read_hp_enable b g), mt)"
| "apply_setting (SetThreshold v) (g, mt) = (fst (smart_io_throttle_set_dev_lat_threshold v g), mt)"
| "apply_setting (SetDeadline v) (g, mt) = (fst (smart_io_throttle_set_background_deadline_ms v g), mt)"
| "apply_setting (SetRatios l m h) (g, mt) = (fst (smart_io_throttle_set_ratios l m h g), mt)"
| "apply_setting (SetSource created src) (g, mt) = fst (smart_io_throttle_set_action_source created src (g, mt))"
| "apply_setting (SetFixedAction l p) (g, mt) = (fst (smart_io_throttle_set_fixed_action l p g), mt)"

lemma u32_int_range: "v \<noteq> 0 \<Longrightarrow> 0 < uint (v :: u32)" "unat v \<le> 2147483647 \<Longrightarrow> uint v \<le> 2147483647"
  by (metis unat_gt_0 of_nat_0_less_iff of_nat_unat) (metis of_nat_unat of_nat_le_iff of_nat_numeral)

lemma setters_globals_inv:
  assumes "globals_inv g"
  shows "globals_inv (fst (smart_io_throttle_set_enabled b now g cs))"
    and "globals_inv (fst (smart_io_throttle_set_queue_rq_demo b g))"
    and "globals_inv (fst (smart_io_throttle_set_ux_hp_enable b g))"
    and "globals_inv (fst (smart_io_throttle_set_rt_read_hp_enable b g))"
    and "globals_inv (fst (smart_io_throttle_set_dev_lat_threshold v g))"
    and "globals_inv (fst (smart_io_throttle_set_background_deadline_ms v g))"
    and "globals_inv (fst (smart_io_throttle_set_ratios l m h g))"
    and "globals_inv (fst (fst (smart_io_throttle_set_action_source created src (g, mt))))"
    and "globals_inv (fst (smart_io_throttle_set_fixed_action lv p g))"
  using assms
  by (auto simp: globals_inv_def smart_io_throttle_set_enabled_def smart_io_throttle_set_queue_rq_demo_def
      smart_io_throttle_set_ux_hp_enable_def smart_io_throttle_set_rt_read_hp_enable_def
      smart_io_throttle_set_dev_lat_threshold_def smart_io_throttle_set_background_deadline_ms_def
      smart_io_throttle_set_ratios_def smart_io_throttle_set_action_source_def
      smart_io_throttle_set_fixed_action_def smart_io_throttle_action_valid_def Let_def
      not_less not_le u32_int_range word_gt_0 split: prod.splits)

lemma initial_globals_inv: "globals_inv initial_globals"
  by (simp add: globals_inv_def initial_globals_def smart_io_throttle_action_valid_def zero_action_def)

text \<open>Whatever sequence of settings calls is made, valid or not, starting from the module's
  initial settings, the thresholds stay positive 31-bit values, the throttle ratios stay
  strictly ordered between 0 and 100 percent, and the configured action and source stay valid.\<close>

theorem settings_stay_valid: "globals_inv (fst (fold apply_setting calls (initial_globals, mt)))"
proof -
  have "globals_inv (fst s) \<Longrightarrow> globals_inv (fst (fold apply_setting calls s))" for s
  proof (induction calls arbitrary: s)
    case (Cons x calls)
    have "globals_inv (fst (apply_setting x s))"
      using Cons.prems setters_globals_inv by (cases x; cases s) simp_all
    then show ?case using Cons.IH by simp
  qed simp
  then show ?thesis using initial_globals_inv by simp
qed

end
