(* ===== verification/Throttle_Gate.thy ===== *)
theory Throttle_Gate
  imports Throttle_Config
begin

text \<open>
  The invariant of the control state: inference, action, gate and feedback counter.  In
  particular a gate that is marked blocked has a reason that still holds, which is what
  makes waking the queues whenever it opens sufficient.  The parameter \<open>n\<close> bounds the number of
  feedback votes: 4 between handlers, 5 inside the completion handler.
\<close>

section \<open>The control state\<close>

definition baseline_action :: action where
  "baseline_action = \<lparr>act_level = SMART_IO_THROTTLE_NO, act_policy = SMART_IO_DISPATCH_BASELINE,
     act_ratio_pct = 0, act_queue_max = 0, act_target_depth = 0, act_decision_id = 0\<rparr>"

text \<open>An action in force: valid codes and, unless the level is NO, a target of at least one.\<close>

definition action_ok :: "action \<Rightarrow> bool" where
  "action_ok a \<longleftrightarrow> smart_io_throttle_action_valid a \<and> act_queue_max a \<noteq> 0 \<and>
     (act_level a \<noteq> SMART_IO_THROTTLE_NO \<longrightarrow>
        1 \<le> act_ratio_pct a \<and> act_ratio_pct a \<le> 100 \<and>
        1 \<le> act_target_depth a \<and> act_target_depth a \<le> act_queue_max a)"

definition control_inv :: "u8 \<Rightarrow> throttle_ctx \<Rightarrow> bool" where
  "control_inv n c \<longleftrightarrow>
     (c_inference_pending c \<longrightarrow> c_throttle_active c \<and> \<not> c_action_valid c \<and> c_feedback_meta c = None) \<and>
     (c_action_valid c \<longrightarrow> c_throttle_active c \<and> action_ok (c_action c)) \<and>
     (c_throttle_active c \<longrightarrow> c_inference_pending c \<or> c_action_valid c) \<and>
     (\<not> c_throttle_active c \<longrightarrow> c_action c = baseline_action \<and> c_feedback_vote_count c = 0 \<and>
        c_feedback_meta c = None) \<and>
     (c_inference_timed_out c \<longrightarrow> c_inference_pending c) \<and>
     (c_gate_blocked c \<longleftrightarrow> c_gate_reason c \<noteq> SMART_IO_GATE_NONE) \<and>
     (c_gate_blocked c \<longrightarrow> c_inference_pending c \<or> \<not> smart_io_throttle_depth_can_run_locked c) \<and>
     c_feedback_vote_count c \<le> n"

text \<open>The fields the control invariant reads.\<close>

definition control_of :: "throttle_ctx \<Rightarrow>
    (bool \<times> bool \<times> bool \<times> bool \<times> action) \<times> (bool \<times> gate_reason) \<times> u8 \<times> u32 \<times> nat option" where
  "control_of c =
     ((c_inference_pending c, c_throttle_active c, c_action_valid c, c_inference_timed_out c, c_action c),
      (c_gate_blocked c, c_gate_reason c), c_feedback_vote_count c, c_bg_current_depth c, c_feedback_meta c)"

lemma control_cong: "control_of d = control_of c \<Longrightarrow> control_inv n d = control_inv n c"
  by (simp add: control_of_def control_inv_def smart_io_throttle_depth_can_run_locked_def)

text \<open>Clearing the binding leaves the rest of the control state alone.\<close>

lemma clear_binding_control [simp]:
  "c_inference_pending (smart_io_throttle_clear_feedback_binding_locked c) = c_inference_pending c"
  "c_throttle_active (smart_io_throttle_clear_feedback_binding_locked c) = c_throttle_active c"
  "c_action_valid (smart_io_throttle_clear_feedback_binding_locked c) = c_action_valid c"
  "c_inference_timed_out (smart_io_throttle_clear_feedback_binding_locked c) = c_inference_timed_out c"
  "c_action (smart_io_throttle_clear_feedback_binding_locked c) = c_action c"
  "c_gate_blocked (smart_io_throttle_clear_feedback_binding_locked c) = c_gate_blocked c"
  "c_gate_reason (smart_io_throttle_clear_feedback_binding_locked c) = c_gate_reason c"
  "c_bg_current_depth (smart_io_throttle_clear_feedback_binding_locked c) = c_bg_current_depth c"
  "c_dying (smart_io_throttle_clear_feedback_binding_locked c) = c_dying c"
  "c_inference_running (smart_io_throttle_clear_feedback_binding_locked c) = c_inference_running c"
  "c_depth_anomalies (smart_io_throttle_clear_feedback_binding_locked c) = c_depth_anomalies c"
  "c_current_depth (smart_io_throttle_clear_feedback_binding_locked c) = c_current_depth c"
  "c_issued_depth (smart_io_throttle_clear_feedback_binding_locked c) = c_issued_depth c"
  "c_pending_bg (smart_io_throttle_clear_feedback_binding_locked c) = c_pending_bg c"
  "c_pending_fg (smart_io_throttle_clear_feedback_binding_locked c) = c_pending_fg c"
  "c_pending_source (smart_io_throttle_clear_feedback_binding_locked c) = c_pending_source c"
  "c_session_id (smart_io_throttle_clear_feedback_binding_locked c) = c_session_id c"
  "c_feedback_vote_count (smart_io_throttle_clear_feedback_binding_locked c) = c_feedback_vote_count c"
  "c_feedback_meta (smart_io_throttle_clear_feedback_binding_locked c) = None"
  "c_feedback_state (smart_io_throttle_clear_feedback_binding_locked c) = SMART_IO_FEEDBACK_NONE"
  by (cases "c_feedback_meta c"; simp add: smart_io_throttle_clear_feedback_binding_locked_def upd_meta_def)+

lemma reset_feedback_control [simp]:
  "c_inference_pending (smart_io_throttle_reset_feedback_locked c) = c_inference_pending c"
  "c_throttle_active (smart_io_throttle_reset_feedback_locked c) = c_throttle_active c"
  "c_action_valid (smart_io_throttle_reset_feedback_locked c) = c_action_valid c"
  "c_inference_timed_out (smart_io_throttle_reset_feedback_locked c) = c_inference_timed_out c"
  "c_action (smart_io_throttle_reset_feedback_locked c) = c_action c"
  "c_gate_blocked (smart_io_throttle_reset_feedback_locked c) = c_gate_blocked c"
  "c_gate_reason (smart_io_throttle_reset_feedback_locked c) = c_gate_reason c"
  "c_bg_current_depth (smart_io_throttle_reset_feedback_locked c) = c_bg_current_depth c"
  "c_dying (smart_io_throttle_reset_feedback_locked c) = c_dying c"
  "c_inference_running (smart_io_throttle_reset_feedback_locked c) = c_inference_running c"
  "c_depth_anomalies (smart_io_throttle_reset_feedback_locked c) = c_depth_anomalies c"
  "c_current_depth (smart_io_throttle_reset_feedback_locked c) = c_current_depth c"
  "c_issued_depth (smart_io_throttle_reset_feedback_locked c) = c_issued_depth c"
  "c_pending_bg (smart_io_throttle_reset_feedback_locked c) = c_pending_bg c"
  "c_pending_fg (smart_io_throttle_reset_feedback_locked c) = c_pending_fg c"
  "c_pending_source (smart_io_throttle_reset_feedback_locked c) = c_pending_source c"
  "c_session_id (smart_io_throttle_reset_feedback_locked c) = c_session_id c"
  "c_feedback_vote_count (smart_io_throttle_reset_feedback_locked c) = 0"
  "c_feedback_state (smart_io_throttle_reset_feedback_locked c) = SMART_IO_FEEDBACK_NONE"
  by (simp_all add: smart_io_throttle_reset_feedback_locked_def)

lemma reset_window_control [simp]:
  "c_inference_pending (smart_io_throttle_reset_window_locked c) = c_inference_pending c"
  "c_throttle_active (smart_io_throttle_reset_window_locked c) = c_throttle_active c"
  "c_action_valid (smart_io_throttle_reset_window_locked c) = c_action_valid c"
  "c_inference_timed_out (smart_io_throttle_reset_window_locked c) = c_inference_timed_out c"
  "c_gate_blocked (smart_io_throttle_reset_window_locked c) = c_gate_blocked c"
  "c_gate_reason (smart_io_throttle_reset_window_locked c) = c_gate_reason c"
  "c_bg_current_depth (smart_io_throttle_reset_window_locked c) = c_bg_current_depth c"
  "c_dying (smart_io_throttle_reset_window_locked c) = c_dying c"
  "c_inference_running (smart_io_throttle_reset_window_locked c) = c_inference_running c"
  "c_depth_anomalies (smart_io_throttle_reset_window_locked c) = c_depth_anomalies c"
  "c_current_depth (smart_io_throttle_reset_window_locked c) = c_current_depth c"
  "c_issued_depth (smart_io_throttle_reset_window_locked c) = c_issued_depth c"
  "c_pending_bg (smart_io_throttle_reset_window_locked c) = c_pending_bg c"
  "c_pending_fg (smart_io_throttle_reset_window_locked c) = c_pending_fg c"
  "c_feedback_vote_count (smart_io_throttle_reset_window_locked c) = c_feedback_vote_count c"
  "c_feedback_meta (smart_io_throttle_reset_window_locked c) = c_feedback_meta c"
  "c_action (smart_io_throttle_reset_window_locked c) = c_action c"
  by (simp_all add: smart_io_throttle_reset_window_locked_def)

lemma set_baseline_control [simp]:
  "c_inference_pending (smart_io_throttle_set_baseline_action_locked c) = c_inference_pending c"
  "c_throttle_active (smart_io_throttle_set_baseline_action_locked c) = c_throttle_active c"
  "c_action_valid (smart_io_throttle_set_baseline_action_locked c) = c_action_valid c"
  "c_inference_timed_out (smart_io_throttle_set_baseline_action_locked c) = c_inference_timed_out c"
  "c_gate_blocked (smart_io_throttle_set_baseline_action_locked c) = c_gate_blocked c"
  "c_gate_reason (smart_io_throttle_set_baseline_action_locked c) = c_gate_reason c"
  "c_bg_current_depth (smart_io_throttle_set_baseline_action_locked c) = c_bg_current_depth c"
  "c_dying (smart_io_throttle_set_baseline_action_locked c) = c_dying c"
  "c_inference_running (smart_io_throttle_set_baseline_action_locked c) = c_inference_running c"
  "c_depth_anomalies (smart_io_throttle_set_baseline_action_locked c) = c_depth_anomalies c"
  "c_current_depth (smart_io_throttle_set_baseline_action_locked c) = c_current_depth c"
  "c_issued_depth (smart_io_throttle_set_baseline_action_locked c) = c_issued_depth c"
  "c_pending_bg (smart_io_throttle_set_baseline_action_locked c) = c_pending_bg c"
  "c_pending_fg (smart_io_throttle_set_baseline_action_locked c) = c_pending_fg c"
  "c_feedback_vote_count (smart_io_throttle_set_baseline_action_locked c) = c_feedback_vote_count c"
  "c_feedback_meta (smart_io_throttle_set_baseline_action_locked c) = c_feedback_meta c"
  "c_action (smart_io_throttle_set_baseline_action_locked c) = baseline_action"
  by (simp_all add: smart_io_throttle_set_baseline_action_locked_def baseline_action_def)

lemma fallback_eq:
  "fallback c = smart_io_throttle_set_baseline_action_locked (smart_io_throttle_reset_window_locked
    (smart_io_throttle_reset_feedback_locked
      (c\<lparr>c_throttle_active := False, c_inference_pending := False, c_inference_timed_out := False,
         c_inference_running := False, c_action_valid := False, c_pending_state_valid := False,
         c_model_post_apply_pending := False, c_gate_blocked := False,
         c_gate_reason := SMART_IO_GATE_NONE\<rparr>)))"
  unfolding smart_io_throttle_fallback_locked_def Let_def by simp

lemma fallback_fields [simp]:
  "\<not> c_throttle_active (fallback c)" "\<not> c_inference_pending (fallback c)" "\<not> c_action_valid (fallback c)"
  "\<not> c_gate_blocked (fallback c)" "c_gate_reason (fallback c) = SMART_IO_GATE_NONE"
  "c_action (fallback c) = baseline_action" "c_feedback_meta (fallback c) = None"
  "\<not> c_inference_timed_out (fallback c)" "\<not> c_inference_running (fallback c)"
  "c_feedback_vote_count (fallback c) = 0"
  "c_dying (fallback c) = c_dying c" "c_depth_anomalies (fallback c) = c_depth_anomalies c"
  "c_bg_current_depth (fallback c) = c_bg_current_depth c" "c_current_depth (fallback c) = c_current_depth c"
  by (simp_all add: fallback_eq)

lemma fallback_counters [simp]:
  "c_issued_depth (fallback c) = c_issued_depth c"
  "c_pending_bg (fallback c) = c_pending_bg c" "c_pending_fg (fallback c) = c_pending_fg c"
  by (simp_all add: fallback_eq)

lemma fallback_control: "control_inv n (fallback c)"
  by (simp add: control_inv_def)

lemma fallback_wake: "snd (smart_io_throttle_fallback_locked c) = c_gate_blocked c"
  by (simp add: smart_io_throttle_fallback_locked_def Let_def)

section \<open>Both invariants\<close>

definition good :: "u8 \<Rightarrow> throttle_ctx \<Rightarrow> bool" where
  "good n c \<longleftrightarrow> ctx_inv c \<and> control_inv n c"

lemma goodI: "ctx_inv c \<Longrightarrow> control_inv n c \<Longrightarrow> good n c" by (simp add: good_def)

lemma goodD: "good n c \<Longrightarrow> ctx_inv c" "good n c \<Longrightarrow> control_inv n c" by (simp_all add: good_def)

lemma good_same: "good n c \<Longrightarrow> ctx_inv d \<Longrightarrow> control_of d = control_of c \<Longrightarrow> good n d"
  unfolding good_def using control_cong by blast

lemma good_fallback: "ctx_inv c \<Longrightarrow> good n (fallback c)"
  by (simp add: good_def fallback_inv fallback_control)

text \<open>Operations that do not touch the control state.\<close>

lemma control_of_ops [simp]:
  "control_of (upd_meta i f c) = control_of c"
  "control_of (count_anomaly c) = control_of c"
  "control_of (smart_io_throttle_set_rq_meta rq mo c) = control_of c"
  "control_of (smart_io_throttle_pending_inc_locked g now i c) = control_of c"
  "control_of (smart_io_throttle_pending_dec_locked po c) = control_of c"
  "control_of (smart_io_throttle_inflight_remove_locked po c) = control_of c"
  "control_of (smart_io_throttle_inflight_add_locked K po rq c) = control_of c"
  "control_of (fst (smart_io_throttle_release_deadline_locked po c)) = control_of c"
proof -
  have p: "control_of (set_pending_counter cl v c) = control_of c" for cl v c
    by (cases cl) (simp_all add: control_of_def)
  show u: "control_of (upd_meta i f c) = control_of c" for i f c by (simp add: control_of_def upd_meta_def)
  show a: "control_of (count_anomaly c) = control_of c" for c by (simp add: control_of_def count_anomaly_def)
  show "control_of (smart_io_throttle_set_rq_meta rq mo c) = control_of c"
    by (simp add: control_of_def smart_io_throttle_set_rq_meta_def)
  show "control_of (smart_io_throttle_pending_inc_locked g now i c) = control_of c"
    by (simp add: smart_io_throttle_pending_inc_locked_def Let_def p u a)
  show "control_of (smart_io_throttle_pending_dec_locked po c) = control_of c"
    by (simp add: smart_io_throttle_pending_dec_locked_def Let_def p u a split: option.split)
  show "control_of (smart_io_throttle_inflight_remove_locked po c) = control_of c"
    by (simp add: smart_io_throttle_inflight_remove_locked_def u split: option.split)
      (simp add: control_of_def)
  show "control_of (smart_io_throttle_inflight_add_locked K po rq c) = control_of c"
    by (simp add: smart_io_throttle_inflight_add_locked_def Let_def u split: option.split)
      (simp add: control_of_def)
  show "control_of (fst (smart_io_throttle_release_deadline_locked po c)) = control_of c"
    by (simp add: smart_io_throttle_release_deadline_locked_def Let_def u a split: option.split)
      (simp add: control_of_def upd_meta_def)
qed

lemmas good_simple = good_same [OF _ _ control_of_ops(1)] good_same [OF _ _ control_of_ops(2)]

text \<open>Fields outside both invariants.\<close>

lemma good_frame [simp]:
  "good n (c\<lparr>c_fg_dispatched := x1\<rparr>) = good n c"
  "good n (c\<lparr>c_bg_dispatched := x1\<rparr>) = good n c"
  "good n (c\<lparr>c_bg_blocked := x1\<rparr>) = good n c"
  "good n (c\<lparr>c_baseline_hits := x1\<rparr>) = good n c"
  "good n (c\<lparr>c_seq_hits := x1\<rparr>) = good n c"
  "good n (c\<lparr>c_seq_fallbacks := x1\<rparr>) = good n c"
  "good n (c\<lparr>c_small_hits := x1\<rparr>) = good n c"
  "good n (c\<lparr>c_allocation_failures := x1\<rparr>) = good n c"
  "good n (c\<lparr>c_invalid_result_count := x1\<rparr>) = good n c"
  "good n (c\<lparr>c_timeout_count := x1\<rparr>) = good n c"
  "good n (c\<lparr>c_feedback_rebind_count := x1\<rparr>) = good n c"
  "good n (c\<lparr>c_model_post_apply_pending := x2\<rparr>) = good n c"
  "good n (c\<lparr>c_inference_running := x2\<rparr>) = good n c"
  "good n (c\<lparr>c_model_submit_ts_ns := x1\<rparr>) = good n c"
  "good n (c\<lparr>c_model_thread_start_ts_ns := x1\<rparr>) = good n c"
  "good n (c\<lparr>c_model_predict_start_ts_ns := x1\<rparr>) = good n c"
  "good n (c\<lparr>c_model_predict_end_ts_ns := x1\<rparr>) = good n c"
  "good n (c\<lparr>c_dying := x2\<rparr>) = good n c"
  "good n (c\<lparr>c_session_id := x1\<rparr>) = good n c"
  by (simp add: good_def control_inv_def smart_io_throttle_depth_can_run_locked_def)+

lemma good_anomaly [simp]: "good n (count_anomaly c) = good n c"
  unfolding good_def using control_cong [OF control_of_ops(2)] by simp

end
