(* ===== verification/Throttle_Good.thy ===== *)
theory Throttle_Good
  imports Throttle_Gate
begin

text \<open>
  The operations under the context lock keep both invariants.
\<close>

lemma good_upd:
  "same_flags (f (c_meta_pool c i)) (c_meta_pool c i) \<Longrightarrow> good n c \<Longrightarrow> good n (upd_meta i f c)"
  by (rule good_same) (simp_all add: good_def upd_meta_same_flags)

lemma good_fallback_anomaly: "good n c \<Longrightarrow> good n (fallback (count_anomaly c))"
  by (rule good_fallback) (simp add: good_def)

text \<open>Dropping the feedback binding or the votes keeps the control invariant.\<close>

lemma control_weaken:
  assumes "control_inv n c"
    and "c_inference_pending d = c_inference_pending c" "c_throttle_active d = c_throttle_active c"
      "c_action_valid d = c_action_valid c" "c_inference_timed_out d = c_inference_timed_out c"
      "c_action d = c_action c" "c_gate_blocked d = c_gate_blocked c" "c_gate_reason d = c_gate_reason c"
      "c_bg_current_depth d = c_bg_current_depth c"
    and "c_feedback_vote_count d \<in> {0, c_feedback_vote_count c}"
    and "c_feedback_meta d \<in> {None, c_feedback_meta c}"
  shows "control_inv n d"
proof -
  have run: "smart_io_throttle_depth_can_run_locked d = smart_io_throttle_depth_can_run_locked c"
    unfolding smart_io_throttle_depth_can_run_locked_def assms(2-9) by (rule refl)
  have fb: "c_feedback_meta c = None \<Longrightarrow> c_feedback_meta d = None" using assms(11) by auto
  have vote: "c_feedback_vote_count c = 0 \<Longrightarrow> c_feedback_vote_count d = 0"
    "c_feedback_vote_count c \<le> n \<Longrightarrow> c_feedback_vote_count d \<le> n" using assms(10) by auto
  from assms(1) show ?thesis
    unfolding control_inv_def assms(2-9) run using fb vote by blast
qed

lemma good_active: "good n c \<Longrightarrow> c_elv_priv1 c p = Some i \<Longrightarrow> i \<in> set (active_slots c)"
  by (simp add: good_def ctx_inv_def priv_inv_def)

lemma good_rq_meta:
  "good n c \<Longrightarrow> smart_io_throttle_rq_meta c rq = Some i \<Longrightarrow>
   i \<in> set (active_slots c) \<and> m_rq (c_meta_pool c i) = Some (rq_ptr rq)"
  by (simp add: good_def ctx_inv_def priv_inv_def smart_io_throttle_rq_meta_def)

lemma find_meta_active:
  "smart_io_throttle_find_meta_locked K c rq = Some i \<Longrightarrow>
   i \<in> set (active_slots c) \<and> m_rq (c_meta_pool c i) = Some (rq_ptr rq)"
  using set_hash_chain [of K "c_active c" "rq_key (rq_ptr rq)"]
  by (auto simp: smart_io_throttle_find_meta_locked_def dest: scan_possible_SomeD)

lemma good_pending_inc:
  "good n c \<Longrightarrow> i \<in> set (active_slots c) \<Longrightarrow> good n (smart_io_throttle_pending_inc_locked g now i c)"
  by (rule good_same) (simp_all add: good_def pending_inc_inv)

lemma good_pending_dec:
  "good n c \<Longrightarrow> (\<And>i. mo = Some i \<Longrightarrow> i \<in> set (active_slots c)) \<Longrightarrow>
   good n (smart_io_throttle_pending_dec_locked mo c)"
  by (rule good_same) (simp_all add: good_def pending_dec_inv)

lemma good_inflight_remove:
  "good n c \<Longrightarrow> i \<in> set (active_slots c) \<Longrightarrow> good n (smart_io_throttle_inflight_remove_locked (Some i) c)"
  by (rule good_same) (auto simp: good_def intro: inflight_remove_inv)

lemma good_inflight_add:
  "good n c \<Longrightarrow> i \<in> set (active_slots c) \<Longrightarrow> good n (smart_io_throttle_inflight_add_locked K (Some i) rq c)"
  by (rule good_same) (auto simp: good_def intro: inflight_add_inv)

lemma good_release_deadline:
  "good n c \<Longrightarrow> i \<in> set (active_slots c) \<Longrightarrow> good n (fst (smart_io_throttle_release_deadline_locked (Some i) c))"
  by (rule good_same) (simp_all add: good_def release_deadline_inv)

lemma good_release_issued:
  assumes "good n c" and "i \<in> set (active_slots c)"
  shows "good n (fst (smart_io_throttle_release_issued_depth_locked (Some i) c))"
    and "\<not> snd (smart_io_throttle_release_issued_depth_locked (Some i) c)"
proof -
  note eq = release_issued_eq [OF goodD(1) [OF assms(1)] assms(2)]
  have "ctx_inv (fst (smart_io_throttle_release_issued_depth_locked (Some i) c))"
    using assms by (simp add: good_def release_issued_inv)
  then show "good n (fst (smart_io_throttle_release_issued_depth_locked (Some i) c))"
    by (rule good_same [OF assms(1)]) (simp add: eq control_of_def upd_meta_def)
  show "\<not> snd (smart_io_throttle_release_issued_depth_locked (Some i) c)" by (simp add: eq)
qed

lemma good_account_issued:
  assumes "good n c" and "i \<in> set (active_slots c)"
  shows "good n (fst (smart_io_throttle_account_issued_depth_locked (Some i) c))"
proof (cases "m_issued_accounted (c_meta_pool c i)")
  case True
  with assms show ?thesis
    by (simp add: smart_io_throttle_account_issued_depth_locked_def good_fallback_anomaly)
next
  case False
  have "ctx_inv (fst (smart_io_throttle_account_issued_depth_locked (Some i) c))"
    using assms by (simp add: good_def account_issued_inv)
  then show ?thesis
    by (rule good_same [OF assms(1)])
      (simp add: account_issued_eq [OF goodD(1) [OF assms(1)] assms(2) False] control_of_def upd_meta_def)
qed

section \<open>Depth and the gate\<close>

lemma reserve_slot_fields:
  "c_bg_current_depth (reserve_slot i c) =
    c_bg_current_depth c + of_bool (m_queue_class (c_meta_pool c i) \<noteq> SMART_IO_QUEUE_HP)"
  "c_action (reserve_slot i c) = c_action c" "c_gate_blocked (reserve_slot i c) = c_gate_blocked c"
  "c_current_depth (reserve_slot i c) = c_current_depth c + 1"
  by (simp_all add: reserve_slot_def upd_meta_def Let_def)

lemma good_reserve:
  assumes g: "good n c" and act: "i \<in> set (active_slots c)" and na: "\<not> m_depth_accounted (c_meta_pool c i)"
  shows "good n (reserve_slot i c)"
proof (rule goodI)
  note inv = goodD(1) [OF g]
  show "ctx_inv (reserve_slot i c)" by (rule reserve_slot_inv [OF inv act na])
  have nbg: "\<not> m_bg_depth_accounted (c_meta_pool c i)"
    using inv act na by (auto simp: ctx_inv_def count_inv_def)
  have "c_bg_current_depth c \<noteq> u32_max"
    by (rule counter_not_full [where P = m_bg_depth_accounted, OF inv act nbg depth_counters(2) [OF inv]])
  then have mono: "c_bg_current_depth c + 1 < x \<Longrightarrow> c_bg_current_depth c < x" for x
    using unat_inc [of "c_bg_current_depth c"] by (simp add: word_less_nat_alt)
  show "control_inv n (reserve_slot i c)"
    using goodD(2) [OF g] mono
    by (auto simp: control_inv_def reserve_slot_def upd_meta_def Let_def
        smart_io_throttle_depth_can_run_locked_def split: if_splits)
qed

lemma good_account_depth:
  assumes "good n c" and "i \<in> set (active_slots c)"
  shows "good n (fst (smart_io_throttle_account_depth_locked (Some i) c))"
proof (cases "m_depth_accounted (c_meta_pool c i)")
  case True
  with assms show ?thesis
    by (simp add: smart_io_throttle_account_depth_locked_def good_fallback_anomaly Let_def)
next
  case False
  with assms show ?thesis by (simp add: account_depth_eq goodD good_reserve)
qed

text \<open>After a release the gate is open, or it has a reason.\<close>

lemma good_release_depth:
  assumes g: "good n c" and act: "i \<in> set (active_slots c)"
  shows "good n (fst (smart_io_throttle_release_depth_locked (Some i) released c))"
proof (rule goodI)
  note inv = goodD(1) [OF g]
  show "ctx_inv (fst (smart_io_throttle_release_depth_locked (Some i) released c))"
    by (rule release_depth_inv [OF inv act])
  have rel: "control_of (release_slot i c) = (let ((p, a, v, t, x), gate, vote, bg, fb) = control_of c in
      ((p, a, v, t, x), gate, vote, c_bg_current_depth (release_slot i c), fb))"
    by (simp add: control_of_def release_slot_def upd_meta_def Let_def)
  show "control_inv n (fst (smart_io_throttle_release_depth_locked (Some i) released c))"
  proof (cases "m_depth_accounted (c_meta_pool c i)")
    case False
    then show ?thesis using goodD(2) [OF g] by (simp add: release_depth_eq [OF inv act])
  next
    case True
    let ?d = "release_slot i c"
    show ?thesis
      using goodD(2) [OF g] True rel
      by (auto simp: release_depth_eq [OF inv act] Let_def control_inv_def control_of_def
          smart_io_throttle_depth_can_run_locked_def split: if_splits)
  qed
qed

text \<open>When releasing opens the gate, it reports the wake-up.\<close>

lemma release_depth_wake:
  assumes g: "good n c" and act: "i \<in> set (active_slots c)"
    and "c_gate_blocked c" and "\<not> c_gate_blocked (fst (smart_io_throttle_release_depth_locked (Some i) released c))"
  shows "fst (snd (smart_io_throttle_release_depth_locked (Some i) released c))"
proof -
  have "c_gate_blocked (release_slot i c) = c_gate_blocked c"
    by (simp add: release_slot_def upd_meta_def Let_def)
  then show ?thesis
    using assms(3,4) by (auto simp: release_depth_eq [OF goodD(1) [OF g] act] Let_def split: if_splits)
qed

section \<open>Feedback\<close>

lemma good_clear_binding:
  assumes "good n c"
  shows "good n (smart_io_throttle_clear_feedback_binding_locked c)"
  by (rule goodI, rule clear_binding_inv [OF goodD(1) [OF assms]],
      rule control_weaken [OF goodD(2) [OF assms]]) simp_all

lemma good_reset_feedback:
  assumes "good n c"
  shows "good n (smart_io_throttle_reset_feedback_locked c)"
  by (rule goodI, rule reset_feedback_inv [OF goodD(1) [OF assms]],
      rule control_weaken [OF goodD(2) [OF assms]]) simp_all

lemma good_wait_dispatch:
  assumes "good n c" and "c_feedback_meta c = None"
  shows "good n (c\<lparr>c_feedback_state := SMART_IO_FEEDBACK_WAIT_DISPATCH\<rparr>)"
proof (rule goodI)
  note inv = ctx_invD [OF goodD(1) [OF assms(1)]]
  let ?d = "c\<lparr>c_feedback_state := SMART_IO_FEEDBACK_WAIT_DISPATCH\<rparr>"
  have cnt: "cnt P ?d = cnt P c" for P by (simp add: cnt_def)
  show "ctx_inv ?d"
  proof (rule ctx_invI)
    show "pool_inv ?d" using inv(1) by (simp add: pool_inv_def)
    show "count_inv ?d" using inv(2) by (simp add: count_inv_def cnt)
    show "priv_inv ?d" using inv(3) by (simp add: priv_inv_def)
    show "fb_inv ?d" using inv(4) assms(2) by (simp add: fb_inv_def)
    show "idx_inv ?d" using inv(5) by (simp add: idx_inv_def)
    show "win_inv ?d" using inv(6) by (simp add: win_inv_def)
  qed
  show "control_inv n ?d" by (rule control_weaken [OF goodD(2) [OF assms(1)]]) simp_all
qed

lemma good_invalidate:
  assumes "good n c"
  shows "good n (fst (smart_io_throttle_invalidate_feedback_locked mo c))"
  using assms good_clear_binding [OF assms] good_wait_dispatch [OF good_clear_binding [OF assms]]
  by (simp add: smart_io_throttle_invalidate_feedback_locked_def Let_def)

lemma invalidate_control [simp]:
  "c_gate_blocked (fst (smart_io_throttle_invalidate_feedback_locked mo c)) = c_gate_blocked c"
  by (simp add: smart_io_throttle_invalidate_feedback_locked_def Let_def)

section \<open>Allocation and release\<close>

lemma good_alloc:
  assumes "good n c"
  shows "good n (fst (smart_io_throttle_alloc_meta_locked K rq cl c))"
proof (cases "c_free_meta c")
  case Nil
  have "ctx_inv (count_anomaly (c\<lparr>c_allocation_failures := c_allocation_failures c + 1\<rparr>))"
    using assms by (simp add: good_def)
  with Nil show ?thesis by (simp add: smart_io_throttle_alloc_meta_locked_def good_fallback)
next
  case (Cons i rest)
  have "ctx_inv (fst (smart_io_throttle_alloc_meta_locked K rq cl c))"
    using assms by (simp add: good_def alloc_inv)
  then show ?thesis
    by (rule good_same [OF assms])
      (simp add: smart_io_throttle_alloc_meta_locked_def Cons Let_def control_of_def upd_meta_def
        smart_io_throttle_set_rq_meta_def)
qed

lemma detach_control:
  "control_of (detach_meta rqo i c) =
    (if c_feedback_meta c = Some i then control_of (smart_io_throttle_reset_feedback_locked c)
     else control_of c)"
proof -
  let ?e = "smart_io_throttle_inflight_remove_locked (Some i) (smart_io_throttle_pending_dec_locked (Some i) c)"
  have e: "control_of ?e = control_of c" by simp
  then have fb: "c_feedback_meta ?e = c_feedback_meta c" by (simp add: control_of_def)
  have "control_of (smart_io_throttle_reset_feedback_locked ?e) =
      control_of (smart_io_throttle_reset_feedback_locked c)"
    using e by (simp add: control_of_def)
  then show ?thesis using e fb by (simp add: detach_meta_def Let_def split: option.split)
qed

lemma good_free_meta:
  assumes g: "good n c" and act: "i \<in> set (active_slots c)"
    and clean: "\<not> m_depth_accounted (c_meta_pool c i)" "\<not> m_issued_accounted (c_meta_pool c i)"
      "\<not> m_deadline_forced (c_meta_pool c i)"
    and own: "m_rq (c_meta_pool c i) = Some (rq_ptr rq)"
      "rq_use_sched rq \<or> c_elv_priv1 c (rq_ptr rq) \<noteq> Some i"
  shows "good n (smart_io_throttle_free_meta_locked (Some rq) (Some i) c)"
proof (rule goodI)
  note inv = goodD(1) [OF g]
  have "c_elv_priv1 c p = Some i \<Longrightarrow> p = rq_ptr rq" for p
    using inv own(1) by (auto simp: ctx_inv_def priv_inv_def)
  with own have "Some rq = Some rq \<and> m_rq (c_meta_pool c i) = Some (rq_ptr rq) \<and> rq_use_sched rq \<or>
      (\<forall>p. c_elv_priv1 c p \<noteq> Some i)" by blast
  then show "ctx_inv (smart_io_throttle_free_meta_locked (Some rq) (Some i) c)"
    by (rule free_meta_inv [OF inv act clean])
  have "control_of (smart_io_throttle_free_meta_locked (Some rq) (Some i) c) =
      control_of (detach_meta (Some rq) i c)"
    unfolding free_meta_eq [OF inv act] Let_def by (simp add: control_of_def upd_meta_def)
  moreover have "control_inv n (detach_meta (Some rq) i c)"
    using goodD(2) [OF g] goodD(2) [OF good_reset_feedback [OF g]] detach_control [of "Some rq" i c]
    by (metis control_cong)
  ultimately show "control_inv n (smart_io_throttle_free_meta_locked (Some rq) (Some i) c)"
    by (metis control_cong)
qed

lemma free_meta_gate:
  assumes "good n c" and "i \<in> set (active_slots c)"
  shows "c_gate_blocked (smart_io_throttle_free_meta_locked rqo (Some i) c) = c_gate_blocked c"
proof -
  have "c_gate_blocked (smart_io_throttle_free_meta_locked rqo (Some i) c) =
      c_gate_blocked (detach_meta rqo i c)"
    unfolding free_meta_eq [OF goodD(1) [OF assms(1)] assms(2)] Let_def by (simp add: upd_meta_def)
  also have "\<dots> = c_gate_blocked c"
    using detach_control [of rqo i c] by (auto simp: control_of_def split: if_splits)
  finally show ?thesis .
qed

end
