(* ===== verification/Throttle_Safety.thy ===== *)
theory Throttle_Safety
  imports Throttle_Good
begin

text \<open>
  Every handler keeps both invariants.  The properties of the throttle that follow from them
  are stated over reachable states in the next theory.
\<close>

section \<open>Inference\<close>

lemma baseline_target: "target_depth_of SMART_IO_THROTTLE_NO q r = 0"
  by (simp add: target_depth_of_def)

text \<open>The target depth never exceeds the queue depth, and is positive when the ratio is.\<close>

lemma target_depth_bounds:
  assumes "level \<noteq> SMART_IO_THROTTLE_NO" and "r \<le> 100"
  shows "unat (target_depth_of level q r) = min (unat q) ((unat q * unat r + 99) div 100)"
proof -
  let ?Q = "ucast q :: u64" and ?R = "ucast r :: u64"
  have r: "unat r \<le> 100" using assms(2) by (simp add: word_le_nat_alt)
  have q: "unat q < 2 ^ 32" using unsigned_less [of q, where 'a = nat] by simp
  have prod: "unat q * unat r + 99 < 2 ^ 64"
    using mult_mono [OF less_imp_le [OF q] r] by simp
  have "unat (?Q * ?R) = unat q * unat r"
    using prod by (simp add: unat_word_ariths unat_ucast_64)
  then have "unat (?Q * ?R + 99) = unat q * unat r + 99"
    using prod by (simp add: unat_word_ariths)
  then have d: "unat ((?Q * ?R + 99) div 100) = (unat q * unat r + 99) div 100"
    by (simp add: unat_div_distrib)
  have m: "unat (min ?Q ((?Q * ?R + 99) div 100)) = min (unat q) ((unat q * unat r + 99) div 100)"
    using d by (simp add: min_def word_le_nat_alt unat_ucast_64)
  have "unat (ucast (x :: u64) :: u32) = unat x" if "unat x < 2 ^ 32" for x
    using that by (simp add: unsigned_ucast_eq take_bit_nat_eq_self)
  moreover have "min (unat q) ((unat q * unat r + 99) div 100) < 2 ^ 32" using q by linarith
  ultimately show ?thesis using assms(1) m by (simp add: target_depth_of_def)
qed

lemma target_depth_le: "level \<noteq> SMART_IO_THROTTLE_NO \<Longrightarrow> r \<le> 100 \<Longrightarrow> target_depth_of level q r \<le> q"
  using target_depth_bounds [of level r q] by (simp add: word_le_nat_alt)

lemma good_snapshot_config: "good n c \<Longrightarrow> good n (smart_io_throttle_snapshot_config_locked g c)"
  by (rule good_same) (simp_all add: smart_io_throttle_snapshot_config_locked_def good_def control_of_def)

lemma begin_inference_eq:
  "\<exists>d. begin_inference now nc st c = d \<and>
    control_of d = ((True, True, False, False, c_action c), (c_gate_blocked c, c_gate_reason c), 0,
      c_bg_current_depth c, None)"
  by (auto simp: begin_inference_def Let_def control_of_def)

lemma good_begin_inference:
  assumes "good n c"
  shows "good n (begin_inference now nc st c)"
proof (rule goodI)
  have "ctx_inv (begin_inference now nc st c)"
    using goodD(1) [OF assms] by (simp add: begin_inference_def Let_def reset_feedback_inv)
  then show "ctx_inv (begin_inference now nc st c)" .
  have "control_of (begin_inference now nc st c) =
      ((True, True, False, False, c_action c), (c_gate_blocked c, c_gate_reason c), 0,
       c_bg_current_depth c, None)"
    using begin_inference_eq by blast
  then show "control_inv n (begin_inference now nc st c)"
    using goodD(2) [OF assms] by (simp add: control_inv_def control_of_def)
qed

lemma start_inference_cases:
  assumes "good n c"
  shows "good n (fst (smart_io_throttle_start_inference_locked K g now qd nc c))"
    and "c_gate_blocked (fst (smart_io_throttle_start_inference_locked K g now qd nc c)) = c_gate_blocked c"
proof -
  let ?s = "smart_io_throttle_snapshot_config_locked g c"
  have s: "good n ?s" by (rule good_snapshot_config [OF assms])
  have snap: "smart_io_throttle_snapshot_state_locked K now qd thr ?s = (d, st, ok) \<Longrightarrow> d = ?s" for thr d st ok
    using snapshot_ctx [OF goodD(1) [OF s], of K now qd thr] by simp
  have gate: "c_gate_blocked (begin_inference now nc st ?s) = c_gate_blocked c" for st
    using begin_inference_eq [of now nc st ?s]
    by (simp add: control_of_def smart_io_throttle_snapshot_config_locked_def)
  have gs: "c_gate_blocked ?s = c_gate_blocked c" by (simp add: smart_io_throttle_snapshot_config_locked_def)
  show "good n (fst (smart_io_throttle_start_inference_locked K g now qd nc c))"
    "c_gate_blocked (fst (smart_io_throttle_start_inference_locked K g now qd nc c)) = c_gate_blocked c"
    using assms s gate gs
    by (auto simp: smart_io_throttle_start_inference_locked_def Let_def good_begin_inference
        split: prod.split dest: snap)
qed

lemma good_schedule: "good n c \<Longrightarrow> good n (fst (smart_io_throttle_schedule_inference wq c))"
  by (auto simp: smart_io_throttle_schedule_inference_def Let_def good_fallback goodD split: prod.split)
    (metis fst_conv good_fallback goodD(1))

lemma good_work_begin: "good n c \<Longrightarrow> good n (fst (inference_work_begin c))"
  by (simp add: inference_work_begin_def)

lemma good_evaluate: "good n c \<Longrightarrow> good n (fst (inference_work_evaluate g predict clk f c))"
  by (simp add: inference_work_evaluate_def Let_def split: prod.split)

text \<open>The policy of a frame that was evaluated without an error is valid.\<close>

lemma evaluate_policy:
  "inference_work_evaluate g predict clk f c = (d, f', None, es) \<Longrightarrow> act_policy (if_action f') < 3"
  by (auto simp: inference_work_evaluate_def Let_def smart_io_throttle_model_fp32_action_def
      smart_io_throttle_action_valid_def split: if_splits prod.splits option.splits)

lemma good_fail: "good n c \<Longrightarrow> good n (fst (inference_work_fail g ts f c))"
proof -
  assume "good n c"
  then have "good n (fallback (c\<lparr>c_invalid_result_count := c_invalid_result_count c + 1\<rparr>))"
    by (intro good_fallback) (simp add: good_def)
  with \<open>good n c\<close> show ?thesis
    by (auto simp: inference_work_fail_def Let_def split: prod.split dest: arg_cong [where f = fst])
qed

lemma good_reject: "good n c \<Longrightarrow> good n (fst (inference_work_reject g ts f a c))"
proof -
  assume "good n c"
  then have "good n (fallback (c\<lparr>c_invalid_result_count := c_invalid_result_count c + 1\<rparr>))"
    by (intro good_fallback) (simp add: good_def)
  then show ?thesis
    by (auto simp: inference_work_reject_def Let_def split: prod.split dest: arg_cong [where f = fst])
qed

text \<open>Applying a decision: the binding is empty while an inference is pending.\<close>

lemma apply_control:
  "control_of (fst (inference_work_apply g clk f a c)) =
    ((False, c_throttle_active c, True, False, a\<lparr>act_decision_id := if_decision_id f\<rparr>),
     (False, SMART_IO_GATE_NONE), c_feedback_vote_count c, c_bg_current_depth c, c_feedback_meta c)"
  by (simp add: inference_work_apply_def Let_def control_of_def)

lemma apply_ctx:
  "ctx_inv (fst (inference_work_apply g clk f a c)) =
    ctx_inv (c\<lparr>c_feedback_state := SMART_IO_FEEDBACK_WAIT_DISPATCH\<rparr>)"
  by (rule ctx_inv_cong) (simp_all add: inference_work_apply_def Let_def)

lemma good_apply:
  assumes g: "good n c" and pend: "c_inference_pending c" and ok: "action_ok a"
  shows "good n (fst (inference_work_apply g' clk f a c))"
proof (rule goodI)
  have none: "c_feedback_meta c = None" "c_throttle_active c" "c_feedback_vote_count c \<le> n"
    using goodD(2) [OF g] pend by (simp_all add: control_inv_def)
  show "ctx_inv (fst (inference_work_apply g' clk f a c))"
    using good_wait_dispatch [OF g none(1)] by (simp add: apply_ctx good_def)
  have "action_ok (a\<lparr>act_decision_id := if_decision_id f\<rparr>)"
    using ok by (simp add: action_ok_def smart_io_throttle_action_valid_def)
  then show "control_inv n (fst (inference_work_apply g' clk f a c))"
    using apply_control [of g' clk f a c] none by (simp add: control_of_def control_inv_def)
qed

lemma action_ratio_level:
  "smart_io_throttle_action_ratio c level \<noteq> 0 \<Longrightarrow> level < 4"
  by (simp add: smart_io_throttle_action_ratio_def split: if_splits)

lemma good_finish:
  assumes g: "good n c" and policy: "ret = None \<Longrightarrow> act_policy (if_action f) < 3"
  shows "good n (fst (inference_work_finish g' clk qd f ret c))"
proof -
  let ?level = "act_level (if_action f)"
  let ?ratio = "smart_io_throttle_action_ratio c ?level"
  let ?a = "(if_action f)\<lparr>act_ratio_pct := ?ratio, act_queue_max := qd,
      act_target_depth := target_depth_of ?level qd ?ratio\<rparr>"
  have ok: "action_ok ?a"
    if "ret = None" "qd \<noteq> 0" "?level = SMART_IO_THROTTLE_NO \<or> ?ratio \<noteq> 0 \<and> ?ratio \<le> 100"
      "?level = SMART_IO_THROTTLE_NO \<or> act_target_depth ?a \<noteq> 0"
    using that policy action_ratio_level [of c ?level] target_depth_le [of ?level ?ratio qd]
    by (auto simp: action_ok_def smart_io_throttle_action_valid_def word_le_nat_alt unat_gt_0 Suc_le_eq)
  show ?thesis
    using g ok
    by (auto simp: inference_work_finish_def Let_def not_less intro!: good_fail good_reject good_apply)
qed

section \<open>The model thread, the timer and the timeout\<close>

lemma good_pending_state: "good n (c\<lparr>c_pending_state := x, c_pending_state_valid := y, c_model_state_ts_ns := z\<rparr>) = good n c"
  by (simp add: good_def control_inv_def smart_io_throttle_depth_can_run_locked_def)

lemma good_run_begin:
  assumes "good n c"
  shows "good n (fst (model_thread_run_begin K g clk qd c))"
proof -
  let ?c = "c\<lparr>c_model_thread_start_ts_ns := clk 0\<rparr>"
  have g: "good n ?c" using assms by simp
  have snap: "smart_io_throttle_snapshot_state_locked K now qd thr ?c = (d, st, ok) \<Longrightarrow> d = ?c" for now thr d st ok
    using snapshot_ctx [OF goodD(1) [OF g], of K now qd thr] by simp
  show ?thesis
    using assms g good_fallback [OF goodD(1) [OF g]]
    by (auto simp: model_thread_run_begin_def Let_def good_pending_state split: prod.split
        dest!: snap dest: arg_cong [where f = fst])
qed

lemma good_dispatch_model:
  "good n c \<Longrightarrow> good n (fst (snd (smart_io_throttle_dispatch_model_if_needed g clk mt c)))"
proof -
  assume "good n c"
  then have "good n (c\<lparr>c_inference_running := True, c_model_submit_ts_ns := clk 0\<rparr>)" by simp
  note this good_fallback [OF goodD(1) [OF this]]
  with \<open>good n c\<close> show ?thesis
    by (auto simp: smart_io_throttle_dispatch_model_if_needed_def Let_def split: prod.split
        dest: arg_cong [where f = fst])
qed

lemma good_timeout_work: "good n c \<Longrightarrow> good n (fst (smart_io_throttle_timeout_work g ts c))"
proof -
  assume "good n c"
  then have "good n (fallback (c\<lparr>c_timeout_count := c_timeout_count c + 1\<rparr>))"
    by (intro good_fallback) (simp add: good_def)
  with \<open>good n c\<close> show ?thesis
    by (auto simp: smart_io_throttle_timeout_work_def Let_def split: prod.split
        dest: arg_cong [where f = fst])
qed

lemma good_timer: "good n c \<Longrightarrow> good n (fst (smart_io_throttle_inference_timer c))"
proof -
  assume g: "good n c"
  have run: "smart_io_throttle_depth_can_run_locked (c\<lparr>c_inference_timed_out := True\<rparr>) =
      smart_io_throttle_depth_can_run_locked c"
    by (simp add: smart_io_throttle_depth_can_run_locked_def)
  have "control_inv n c \<Longrightarrow> c_inference_pending c \<Longrightarrow> control_inv n (c\<lparr>c_inference_timed_out := True\<rparr>)"
    by (simp add: control_inv_def run)
  with g show ?thesis by (simp add: smart_io_throttle_inference_timer_def good_def)
qed

section \<open>Insertion and dispatch\<close>

lemma good_set_rq_meta: "good n c \<Longrightarrow> good n (smart_io_throttle_set_rq_meta rq None c)"
  by (rule good_same) (simp_all add: good_def clear_priv_inv)

lemma good_prepare: "good n c \<Longrightarrow> good n (smart_io_throttle_prepare_request rqo c)"
  by (simp add: smart_io_throttle_prepare_request_def good_set_rq_meta split: option.split)

lemma upd_meta_links [simp]:
  "c_active (upd_meta i f c) = c_active c" "c_elv_priv1 (upd_meta i f c) = c_elv_priv1 c"
  "c_gate_blocked (upd_meta i f c) = c_gate_blocked c" "c_action_valid (upd_meta i f c) = c_action_valid c"
  "c_throttle_active (upd_meta i f c) = c_throttle_active c" "c_queue (upd_meta i f c) = c_queue c"
  "c_inference_pending (upd_meta i f c) = c_inference_pending c" "c_action (upd_meta i f c) = c_action c"
  "c_feedback_meta (upd_meta i f c) = c_feedback_meta c" "c_feedback_state (upd_meta i f c) = c_feedback_state c"
  by (simp_all add: upd_meta_def)

lemma good_classify: "good n c \<Longrightarrow> good n (smart_io_throttle_classify_request K g t now rq c)"
proof -
  assume g: "good n c"
  let ?q = "smart_io_throttle_select_queue K g t c (Some rq)"
  have step: "good n (smart_io_throttle_pending_inc_locked g now i (upd_meta i (\<lambda>m. m\<lparr>m_queue_class := ?q\<rparr>) d))"
    if "good n d" "i \<in> set (active_slots d)" for d i
    using that by (intro good_pending_inc good_upd) (simp_all add: same_flags_def)
  show ?thesis
  proof (cases "smart_io_throttle_rq_meta c rq")
    case (Some i)
    then show ?thesis
      using step [OF g] good_rq_meta [OF g Some]
      by (simp add: smart_io_throttle_classify_request_def Let_def)
  next
    case None
    obtain d mo where al: "smart_io_throttle_alloc_meta_locked K rq (smart_io_throttle_class_for_queue ?q) c = (d, mo)"
      by fastforce
    then have "good n d" using good_alloc [OF g] by (metis fst_conv)
    moreover have "mo = Some i \<Longrightarrow> i \<in> set (active_slots d)" for i
      using alloc_active [of K rq _ c i] al by (metis fst_conv snd_conv)
    ultimately show ?thesis
      using step by (simp add: smart_io_throttle_classify_request_def Let_def None al split: option.split)
  qed
qed

lemma good_update: "good n c \<Longrightarrow> good n (smart_io_throttle_update_request K rq c)"
  by (auto simp: smart_io_throttle_update_request_def same_flags_def intro!: good_upd split: option.split)

lemma good_unqueue: "good n c \<Longrightarrow> good n (smart_io_throttle_unqueue_request rq c)"
  unfolding smart_io_throttle_unqueue_request_def
  by (rule good_pending_dec) (auto dest: good_rq_meta)

lemma good_dispatch_mark:
  assumes "good n c" and "i \<in> set (active_slots c)"
  shows "good n (dispatch_mark g rq i c)"
  unfolding dispatch_mark_def Let_def
  by (rule good_upd, simp add: same_flags_def, rule good_pending_dec, rule good_upd)
    (use assms in \<open>auto simp: same_flags_def\<close>)

text \<open>The deadline reservation: free before, held by exactly one slot after.\<close>

lemma deadline_free:
  assumes "ctx_inv c" and "\<not> c_deadline_forced_active c" and "i \<in> set (active_slots c)"
  shows "\<not> m_deadline_forced (c_meta_pool c i)" and "cnt m_deadline_forced c = 0"
proof -
  show zero: "cnt m_deadline_forced c = 0" using depth_counters(4) [OF assms(1)] assms(2) by simp
  show "\<not> m_deadline_forced (c_meta_pool c i)"
    using cnt_pos [where P = m_deadline_forced, OF assms(3)] zero by auto
qed

lemma count_deadline_inv:
  assumes inv: "ctx_inv c" and act: "i \<in> set (active_slots c)" and free: "\<not> c_deadline_forced_active c"
  shows "ctx_inv (upd_meta i (\<lambda>m. m\<lparr>m_deadline_forced := True\<rparr>)
      (c\<lparr>c_deadline_forced_active := True, c_bg_deadline_forced := x\<rparr>))" (is "ctx_inv ?d")
proof -
  note nf = deadline_free [OF inv free act]
  have "core_eq ?d c" by (simp add: core_eq_def upd_meta_def)
  moreover have "count_inv ?d"
    using inv act nf
    by (auto simp: upd_meta_def count_inv_def ctx_inv_def cnt_def queued_in_def cnt_step [unfolded cnt_def])
  ultimately show ?thesis using inv by (blast intro: core_eq_inv)
qed

lemma good_count_selection:
  assumes "good n c" and "i \<in> set (active_slots c)"
  shows "good n (count_selection sel i c)"
proof (cases "sel = SMART_IO_SELECTION_BACKGROUND_DEADLINE \<and> \<not> c_deadline_forced_active c")
  case True
  have "ctx_inv (count_selection sel i c)"
    using True count_deadline_inv [OF goodD(1) [OF assms(1)] assms(2)] by (simp add: count_selection_def)
  then show ?thesis
    by (rule good_same [OF assms(1)]) (use True in \<open>simp add: count_selection_def control_of_def upd_meta_def\<close>)
next
  case False
  with assms(1) show ?thesis by (cases sel) (auto simp: count_selection_def)
qed

lemma good_bind_feedback:
  assumes g: "good n c" and act: "i \<in> set (active_slots c)" and ok: "bind_feedback_ok gl i c"
  shows "good n (bind_feedback i ts c)"
proof (rule goodI)
  note parts = ctx_invD [OF goodD(1) [OF g]]
  have none: "c_feedback_meta c = None"
    using parts(4) ok by (auto simp: fb_inv_def bind_feedback_ok_def split: option.splits)
  let ?d = "bind_feedback i ts c"
  note def = bind_feedback_def upd_meta_def
  show "ctx_inv ?d"
  proof (rule ctx_invI)
    show "pool_inv ?d" using parts(1) by (auto simp: def pool_inv_def)
    show "count_inv ?d" using parts(2)
      by (auto simp: def count_inv_def cnt_def queued_in_def count_slots_same)
    show "priv_inv ?d" using parts(3) by (auto simp: def priv_inv_def)
    show "fb_inv ?d" using parts(4) none act by (auto simp: def fb_inv_def)
    show "idx_inv ?d" using parts(5) by (auto simp: def idx_inv_def)
    show "win_inv ?d" using parts(6) by (simp add: def win_inv_def)
  qed
  have run: "smart_io_throttle_depth_can_run_locked ?d = smart_io_throttle_depth_can_run_locked c"
    by (simp add: smart_io_throttle_depth_can_run_locked_def def)
  show "control_inv n ?d"
    unfolding control_inv_def run
    using goodD(2) [OF g, unfolded control_inv_def] ok by (simp add: def bind_feedback_ok_def)
qed

lemma dispatch_mark_active [simp]: "c_active (dispatch_mark g rq i c) = c_active c"
  by (simp add: dispatch_mark_def Let_def)

lemma count_selection_active [simp]: "c_active (count_selection sel i c) = c_active c"
  by (cases sel) (simp_all add: count_selection_def upd_meta_def count_anomaly_def)

lemma good_account_dispatch:
  assumes "good n c"
  shows "good n (fst (smart_io_throttle_account_dispatch g clk rq sel c))"
proof (cases "smart_io_throttle_rq_meta c rq")
  case None
  with assms good_fallback_anomaly [OF assms] show ?thesis
    by (auto simp: smart_io_throttle_account_dispatch_def split: prod.split dest: arg_cong [where f = fst])
next
  case (Some i)
  have act: "i \<in> set (active_slots c)" using good_rq_meta [OF assms Some] by simp
  let ?m = "dispatch_mark g rq i c"
  have m: "good n ?m" by (rule good_dispatch_mark [OF assms act])
  have tail: "good n (if bind_feedback_ok g i (count_selection sel i d)
      then bind_feedback i (clk 1) (count_selection sel i d) else count_selection sel i d)"
    if "good n d" "i \<in> set (active_slots d)" for d
    using good_count_selection [OF that] good_bind_feedback [of n "count_selection sel i d" i g] that(2) by simp
  have acc: "good n (fst (smart_io_throttle_account_depth_locked (Some i) d))" if "good n d" "c_active d = c_active c" for d
    using good_account_depth [OF that(1), of i] act that(2) by simp
  show ?thesis
    unfolding smart_io_throttle_account_dispatch_def Let_def Some option.case
    using m acc act tail
    by (simp add: case_prod_beta)
qed

end
