(* ===== verification/Throttle_Complete.thy ===== *)
theory Throttle_Complete
  imports Throttle_Safety
begin

text \<open>
  The remaining handlers keep both invariants: finish, issue, requeue, completion, the gate
  query, the reset of a context and its initialisation.  Each section also shows when the
  handler wakes the hardware queues.
\<close>

section \<open>Releasing a request\<close>

lemma release_all_links [simp]:
  "c_active (fst (release_all i c)) = c_active c"
  "c_elv_priv1 (fst (release_all i c)) = c_elv_priv1 c"
  "c_queue (fst (release_all i c)) = c_queue c"
  "m_rq (c_meta_pool (fst (release_all i c)) j) = m_rq (c_meta_pool c j)"
  "\<not> m_depth_accounted (c_meta_pool (fst (release_all i c)) i)"
  "\<not> m_issued_accounted (c_meta_pool (fst (release_all i c)) i)"
  "\<not> m_deadline_forced (c_meta_pool (fst (release_all i c)) i)"
  by (simp_all add: release_all_def Let_def case_prod_beta)

lemma good_release_all:
  assumes g: "good n c" and act: "i \<in> set (active_slots c)"
  shows "good n (fst (release_all i c))"
proof -
  let ?c1 = "smart_io_throttle_inflight_remove_locked (Some i) c"
  let ?c2 = "fst (smart_io_throttle_release_deadline_locked (Some i) ?c1)"
  let ?c3 = "fst (smart_io_throttle_release_issued_depth_locked (Some i) ?c2)"
  have "good n ?c1" by (rule good_inflight_remove [OF g act])
  then have "good n ?c2" by (rule good_release_deadline) (simp add: act)
  then have "good n ?c3" by (rule good_release_issued(1)) (simp add: act)
  then have "good n (fst (smart_io_throttle_release_depth_locked (Some i) SMART_IO_GATE_NONE ?c3))"
    by (rule good_release_depth) (simp add: act)
  then show ?thesis by (simp add: release_all_def Let_def case_prod_beta)
qed

text \<open>If releasing a request opens the gate, the caller is told to wake the queues.\<close>

lemma release_all_wake:
  assumes g: "good n c" and act: "i \<in> set (active_slots c)"
    and "c_gate_blocked c" and "\<not> c_gate_blocked (fst (release_all i c))"
  shows "fst (snd (release_all i c))"
proof -
  let ?c1 = "smart_io_throttle_inflight_remove_locked (Some i) c"
  let ?c2 = "fst (smart_io_throttle_release_deadline_locked (Some i) ?c1)"
  let ?c3 = "fst (smart_io_throttle_release_issued_depth_locked (Some i) ?c2)"
  have g1: "good n ?c1" by (rule good_inflight_remove [OF g act])
  then have g2: "good n ?c2" by (rule good_release_deadline) (simp add: act)
  then have g3: "good n ?c3" by (rule good_release_issued(1)) (simp add: act)
  have a2: "i \<in> set (active_slots ?c2)" and a3: "i \<in> set (active_slots ?c3)" using act by simp_all
  have "control_of ?c2 = control_of c" by simp
  moreover have "c_gate_blocked ?c3 = c_gate_blocked ?c2"
    by (simp add: release_issued_eq [OF goodD(1) [OF g2] a2])
  ultimately have "c_gate_blocked ?c3" using assms(3) by (simp add: control_of_def)
  moreover have "\<not> c_gate_blocked (fst (smart_io_throttle_release_depth_locked (Some i) SMART_IO_GATE_NONE ?c3))"
    using assms(4) by (simp add: release_all_def Let_def case_prod_beta)
  ultimately have "fst (snd (smart_io_throttle_release_depth_locked (Some i) SMART_IO_GATE_NONE ?c3))"
    using release_depth_wake [OF g3 a3] by blast
  then show ?thesis by (simp add: release_all_def Let_def case_prod_beta)
qed

lemma good_release_free:
  assumes g: "good n c" and act: "i \<in> set (active_slots c)" and rq: "m_rq (c_meta_pool c i) = Some (rq_ptr rq)"
    and own: "rq_use_sched rq \<or> c_elv_priv1 c (rq_ptr rq) = None"
  shows "good n (smart_io_throttle_free_meta_locked (Some rq) (Some i) (fst (release_all i c)))"
  by (rule good_free_meta [OF good_release_all [OF g act]]) (use act rq own in auto)

lemma invalidate_links [simp]:
  "c_active (fst (smart_io_throttle_invalidate_feedback_locked mo c)) = c_active c"
  "c_elv_priv1 (fst (smart_io_throttle_invalidate_feedback_locked mo c)) = c_elv_priv1 c"
  "m_rq (c_meta_pool (fst (smart_io_throttle_invalidate_feedback_locked mo c)) j) = m_rq (c_meta_pool c j)"
  by simp_all

lemma good_release_if:
  assumes "good n c" and "i \<in> set (active_slots c)" and "m_rq (c_meta_pool c i) = Some (rq_ptr rq)"
    and "rq_use_sched rq \<or> c_elv_priv1 c (rq_ptr rq) = None"
  shows "good n (if b then smart_io_throttle_free_meta_locked (Some rq) (Some i) (fst (release_all i c)) else c)"
  using good_release_free [OF assms] assms(1) by (cases b) (simp_all only: if_True if_False)

text \<open>What the block layer guarantees: a request whose private pointer is set uses the scheduler.\<close>

definition sched_ok :: "throttle_ctx \<Rightarrow> request \<Rightarrow> bool" where
  "sched_ok c rq \<longleftrightarrow> rq_use_sched rq \<or> c_elv_priv1 c (rq_ptr rq) = None"

lemma good_finish_request:
  assumes g: "good n c" and own: "sched_ok c rq"
  shows "good n (fst (smart_io_throttle_finish_request gl ts rq c))"
proof (cases "smart_io_throttle_rq_meta c rq")
  case None
  with g show ?thesis by (simp add: smart_io_throttle_finish_request_def)
next
  case (Some i)
  note act = good_rq_meta [OF g Some]
  let ?c1 = "fst (smart_io_throttle_invalidate_feedback_locked (Some i) c)"
  have "good n (smart_io_throttle_free_meta_locked (Some rq) (Some i) (fst (release_all i ?c1)))"
    by (rule good_release_free [OF good_invalidate [OF g]]) (use act own in \<open>auto simp: sched_ok_def\<close>)
  then show ?thesis
    by (simp add: smart_io_throttle_finish_request_def Some Let_def case_prod_beta)
qed

lemma good_requeue:
  assumes g: "good n c"
  shows "good n (fst (record_requeue_ctx K gl ts rq c))"
proof (cases "smart_io_throttle_find_meta_locked K c rq")
  case None
  with g show ?thesis by (simp add: record_requeue_ctx_def)
next
  case (Some i)
  note act = find_meta_active [OF Some]
  let ?c1 = "fst (smart_io_throttle_invalidate_feedback_locked (Some i) c)"
  have "good n (fst (release_all i ?c1))"
    by (rule good_release_all [OF good_invalidate [OF g]]) (simp add: act)
  then have "good n (requeue_mark i (fst (release_all i ?c1)))"
    unfolding requeue_mark_def by (rule good_upd [rotated]) (simp add: same_flags_def)
  then show ?thesis by (simp add: record_requeue_ctx_def Some Let_def case_prod_beta)
qed

section \<open>Issue\<close>

lemma good_issue_mark:
  assumes "good n c" and "i \<in> set (active_slots c)"
  shows "good n (issue_mark K g now rq i c)"
proof -
  let ?c1 = "upd_meta i (\<lambda>m. m\<lparr>m_op := rq_op rq\<rparr>) c"
  have "good n ?c1" by (rule good_upd) (simp_all add: same_flags_def assms(1))
  then have "good n (smart_io_throttle_inflight_add_locked K (Some i) rq ?c1)"
    by (rule good_inflight_add) (simp add: assms(2))
  then show ?thesis
    by (auto simp: issue_mark_def Let_def same_flags_def intro!: good_upd)
qed

lemma good_wait_complete:
  assumes g: "good n c" and b: "c_feedback_meta c = Some i"
  shows "good n (c\<lparr>c_feedback_issue_ts_ns := x, c_feedback_state := SMART_IO_FEEDBACK_WAIT_COMPLETE\<rparr>)"
proof (rule goodI)
  note inv = ctx_invD [OF goodD(1) [OF g]]
  let ?d = "c\<lparr>c_feedback_issue_ts_ns := x, c_feedback_state := SMART_IO_FEEDBACK_WAIT_COMPLETE\<rparr>"
  have cnt: "cnt P ?d = cnt P c" for P by (simp add: cnt_def)
  show "ctx_inv ?d"
  proof (rule ctx_invI)
    show "pool_inv ?d" using inv(1) by (simp add: pool_inv_def)
    show "count_inv ?d" using inv(2) by (simp add: count_inv_def cnt)
    show "priv_inv ?d" using inv(3) by (simp add: priv_inv_def)
    show "fb_inv ?d" using inv(4) b by (simp add: fb_inv_def)
    show "idx_inv ?d" using inv(5) by (simp add: idx_inv_def)
    show "win_inv ?d" using inv(6) by (simp add: win_inv_def)
  qed
  show "control_inv n ?d" by (rule control_weaken [OF goodD(2) [OF g]]) simp_all
qed

lemma issue_mark_active [simp]: "c_active (issue_mark K g now rq i c) = c_active c"
  by (simp add: issue_mark_def Let_def)

lemma good_issue:
  assumes g: "good n c"
  shows "good n (fst (record_issue_ctx K gl t now rq c))"
proof -
  let ?al = "case smart_io_throttle_find_meta_locked K c rq of Some i \<Rightarrow> (c, Some i)
    | None \<Rightarrow> smart_io_throttle_alloc_meta_locked K rq
        (smart_io_throttle_class_for_queue (smart_io_throttle_select_queue K gl t c (Some rq))) c"
  have al: "good n (fst ?al)" "snd ?al = Some i \<Longrightarrow> i \<in> set (active_slots (fst ?al))" for i
    using g good_alloc [OF g] alloc_active find_meta_active [of K c rq]
    by (auto split: option.splits)
  show ?thesis
  proof (cases "snd ?al")
    case None
    with al(1) show ?thesis by (simp add: record_issue_ctx_def Let_def case_prod_beta)
  next
    case (Some i)
    let ?c1 = "upd_meta i (\<lambda>m. m\<lparr>
       m_device_time_excluded := fst (smart_io_throttle_device_time_excluded (Some rq)),
       m_tag_depth_max := snd (smart_io_throttle_device_time_excluded (Some rq))\<rparr>) (fst ?al)"
    let ?c2 = "fst (if \<not> m_depth_accounted (c_meta_pool ?c1 i)
        then smart_io_throttle_account_depth_locked (Some i) ?c1 else (?c1, False))"
    let ?c3 = "fst (if \<not> m_issued_accounted (c_meta_pool ?c2 i)
        then smart_io_throttle_account_issued_depth_locked (Some i) ?c2 else (?c2, False))"
    have act: "i \<in> set (active_slots ?c1)" using al(2) [OF Some] by simp
    have g1: "good n ?c1" using al(1) by (intro good_upd) (simp_all add: same_flags_def)
    have g2: "good n ?c2" "c_active ?c2 = c_active ?c1" using good_account_depth [OF g1 act] g1 by simp_all
    have g3: "good n ?c3" "c_active ?c3 = c_active ?c1"
      using good_account_issued [OF g2(1), of i] act g2 by simp_all
    have g4: "good n (issue_mark K gl now rq i ?c3)"
      by (rule good_issue_mark [OF g3(1)]) (use act g3 in simp)
    have "issue_feedback i d \<Longrightarrow> c_feedback_meta d = Some i" for d by (simp add: issue_feedback_def)
    then show ?thesis
      using g4 good_wait_complete [OF g4, of i]
      by (simp add: record_issue_ctx_def Let_def case_prod_beta Some)
  qed
qed

section \<open>Completion\<close>

lemma push_sample_links [simp]:
  "c_active (push_sample s c) = c_active c" "c_elv_priv1 (push_sample s c) = c_elv_priv1 c"
  "c_meta_pool (push_sample s c) = c_meta_pool c" "c_gate_blocked (push_sample s c) = c_gate_blocked c"
  "c_queue (push_sample s c) = c_queue c" "c_feedback_meta (push_sample s c) = c_feedback_meta c"
  "c_feedback_state (push_sample s c) = c_feedback_state c"
  "c_feedback_vote_count (push_sample s c) = c_feedback_vote_count c"
  "c_feedback_total_dev_lat_us (push_sample s c) = c_feedback_total_dev_lat_us c"
  "c_feedback_max_dev_lat_us (push_sample s c) = c_feedback_max_dev_lat_us c"
  by (simp_all add: push_sample_def)

lemma good_push_sample:
  assumes g: "good n c"
  shows "good n (push_sample s c)"
proof (rule goodI)
  note inv = ctx_invD [OF goodD(1) [OF g]]
  have cnt: "cnt P (push_sample s c) = cnt P c" for P by (simp add: cnt_def push_sample_def)
  have head: "unat ((x + 1) mod 5 :: u8) < 5" for x
    using word_mod_less_divisor [of 5 "x + 1"] by (simp add: word_less_nat_alt)
  have count: "unat (x + 1 :: u8) \<le> 5" if "x < 5" for x
  proof -
    have "x \<noteq> - 1" using that by auto
    then show ?thesis using that by (simp add: unat_inc word_less_nat_alt)
  qed
  show "ctx_inv (push_sample s c)"
  proof (rule ctx_invI)
    show "pool_inv (push_sample s c)" using inv(1) by (simp add: pool_inv_def push_sample_def)
    show "count_inv (push_sample s c)" using inv(2) unfolding count_inv_def cnt by (simp add: push_sample_def)
    show "priv_inv (push_sample s c)" using inv(3) by (simp add: priv_inv_def push_sample_def)
    show "fb_inv (push_sample s c)" using inv(4) by (simp add: fb_inv_def split: option.splits)
    show "idx_inv (push_sample s c)" using inv(5) by (simp add: idx_inv_def push_sample_def)
    show "win_inv (push_sample s c)"
      using inv(6) head count by (simp add: win_inv_def push_sample_def)
  qed
  show "control_inv n (push_sample s c)"
    by (rule control_weaken [OF goodD(2) [OF g]]) (simp_all add: push_sample_def)
qed

lemma good_complete_sample:
  assumes g: "good n c"
  shows "good n (fst (complete_sample gl now thr final lat i c))"
proof -
  have "good n (upd_meta i (\<lambda>m. m\<lparr>m_completion_sampled := True\<rparr>) c)"
    by (rule good_upd) (simp_all add: same_flags_def g)
  then show ?thesis
    using g by (simp add: complete_sample_def Let_def good_push_sample split: option.split)
qed

lemma complete_sample_links [simp]:
  "c_active (fst (complete_sample gl now thr final lat i c)) = c_active c"
  "c_elv_priv1 (fst (complete_sample gl now thr final lat i c)) = c_elv_priv1 c"
  "c_gate_blocked (fst (complete_sample gl now thr final lat i c)) = c_gate_blocked c"
  "c_queue (fst (complete_sample gl now thr final lat i c)) = c_queue c"
  "m_rq (c_meta_pool (fst (complete_sample gl now thr final lat i c)) j) = m_rq (c_meta_pool c j)"
  by (auto simp: complete_sample_def Let_def upd_meta_def split: option.split)

text \<open>A vote: the statistics stay within the bounds of the feedback invariant.\<close>

lemma good_vote:
  assumes g: "good 4 c" and act: "c_throttle_active c"
  shows "good 5 (vote_feedback lat c)"
proof (rule goodI)
  note inv = ctx_invD [OF goodD(1) [OF g]] and ctl = goodD(2) [OF g]
  let ?d = "vote_feedback lat c"
  let ?v = "c_feedback_vote_count c" and ?t = "c_feedback_total_dev_lat_us c"
    and ?m = "c_feedback_max_dev_lat_us c"
  have v4: "unat ?v \<le> 4" using ctl by (simp add: control_inv_def word_le_nat_alt)
  then have "?v \<noteq> - 1" by (auto simp: unsigned_minus_1_eq_mask mask_eq_exp_minus_1)
  then have v: "unat (?v + 1) = unat ?v + 1" by (simp add: unat_inc)
  have t: "unat ?t \<le> unat ?v * unat ?m" using inv(4) by (simp add: fb_inv_def)
  also have "\<dots> \<le> 4 * 4294967295" using v4 unat_le_u32_max [of ?m] by (rule mult_le_mono)
  finally have "unat ?t + unat lat < 2 ^ 64" using unat_le_u32_max [of lat] by simp
  then have sum: "unat (?t + ucast lat) = unat ?t + unat lat"
    by (simp add: unat_word_ariths unat_ucast_64)
  have mx: "unat (max ?m lat) = max (unat ?m) (unat lat)" by (simp add: max_def word_le_nat_alt)
  have bound: "unat ?t + unat lat \<le> (unat ?v + 1) * max (unat ?m) (unat lat)"
  proof -
    have "unat ?t \<le> unat ?v * max (unat ?m) (unat lat)"
      using t by (meson le_trans max.cobounded1 mult_le_mono2)
    then show ?thesis by simp
  qed
  have cnt: "cnt P ?d = cnt P c" for P by (simp add: cnt_def vote_feedback_def)
  show "ctx_inv ?d"
  proof (rule ctx_invI)
    show "pool_inv ?d" using inv(1) by (simp add: pool_inv_def vote_feedback_def)
    show "count_inv ?d" using inv(2) unfolding count_inv_def cnt by (simp add: vote_feedback_def)
    show "priv_inv ?d" using inv(3) by (simp add: priv_inv_def vote_feedback_def)
    show "fb_inv ?d" using inv(4) v v4 sum mx bound
      by (simp add: fb_inv_def vote_feedback_def split: option.splits)
    show "idx_inv ?d" using inv(5) by (simp add: idx_inv_def vote_feedback_def)
    show "win_inv ?d" using inv(6) by (simp add: win_inv_def vote_feedback_def)
  qed
  have run: "smart_io_throttle_depth_can_run_locked ?d = smart_io_throttle_depth_can_run_locked c"
    by (simp add: smart_io_throttle_depth_can_run_locked_def vote_feedback_def)
  have "c_feedback_vote_count ?d \<le> 5" using v v4 by (simp add: vote_feedback_def word_le_nat_alt)
  then show "control_inv 5 ?d"
    unfolding control_inv_def run
    using ctl [unfolded control_inv_def] act by (simp add: vote_feedback_def)
qed

lemma good_le: "good m c \<Longrightarrow> c_feedback_vote_count c \<le> n \<Longrightarrow> good n c"
  by (auto simp: good_def control_inv_def)

lemma good_4_5: "good 4 c \<Longrightarrow> good 5 c"
  by (rule good_le) (auto simp: good_def control_inv_def intro: order_trans)

text \<open>The bound sample belongs to an active, valid action.\<close>

lemma bound_active: "good n c \<Longrightarrow> c_feedback_meta c = Some i \<Longrightarrow> c_throttle_active c"
  by (auto simp: good_def control_inv_def)

lemma complete_feedback_cases:
  fixes thr :: u32 and final :: bool and lat :: "u32 option" and i :: nat
  assumes g: "good 4 c"
  defines "r \<equiv> complete_feedback thr final lat i c"
  shows "good 5 (fst r)" and "\<not> fo_reinfer (snd r) \<Longrightarrow> good 4 (fst r)"
    and "c_active (fst r) = c_active c" and "c_elv_priv1 (fst r) = c_elv_priv1 c"
    and "c_queue (fst r) = c_queue c"
    and "m_rq (c_meta_pool (fst r) j) = m_rq (c_meta_pool c j)"
    and "fo_wake (snd r) \<or> c_gate_blocked (fst r) = c_gate_blocked c"
proof -
  have g5: "good 5 c" by (rule good_4_5 [OF g])
  have links: "c_active (vote_feedback l c) = c_active c" "c_elv_priv1 (vote_feedback l c) = c_elv_priv1 c"
    "c_queue (vote_feedback l c) = c_queue c" "c_gate_blocked (vote_feedback l c) = c_gate_blocked c"
    "c_meta_pool (vote_feedback l c) = c_meta_pool c" for l
    by (simp_all add: vote_feedback_def)
  have vote: "good 5 (smart_io_throttle_clear_feedback_binding_locked (vote_feedback l c))"
    if "c_feedback_meta c = Some i" for l
    by (rule good_clear_binding [OF good_vote [OF g bound_active [OF g that]]])
  have open_votes: "c_feedback_vote_count d \<noteq> 5 \<Longrightarrow> good 5 d \<Longrightarrow> good 4 d" for d
    by (rule good_le) (auto simp: good_def control_inv_def word_le_nat_alt word_unat_eq_iff)
  have fin: "good 4 (smart_io_throttle_clear_feedback_binding_locked (vote_feedback l c)
      \<lparr>c_feedback_state := SMART_IO_FEEDBACK_WAIT_DISPATCH\<rparr>)"
    if "c_feedback_meta c = Some i" "c_feedback_vote_count (vote_feedback l c) \<noteq> 5" for l
    by (rule good_wait_dispatch, rule open_votes) (simp_all add: that vote)
  have fall: "good m (fallback (smart_io_throttle_clear_feedback_binding_locked (vote_feedback l c)))"
    if "c_feedback_meta c = Some i" for l m
    by (rule good_fallback [OF goodD(1) [OF vote [OF that]]])
  show "good 5 (fst r)" "\<not> fo_reinfer (snd r) \<Longrightarrow> good 4 (fst r)"
    using g g5 vote fin fall good_4_5 [OF fin]
    by (auto simp: r_def complete_feedback_def Let_def case_prod_beta split: option.splits if_splits)
  show "c_active (fst r) = c_active c" "c_elv_priv1 (fst r) = c_elv_priv1 c"
    "c_queue (fst r) = c_queue c"
    "m_rq (c_meta_pool (fst r) j) = m_rq (c_meta_pool c j)"
    by (auto simp: r_def complete_feedback_def Let_def case_prod_beta links split: option.splits)
  show "fo_wake (snd r) \<or> c_gate_blocked (fst r) = c_gate_blocked c"
    by (auto simp: r_def complete_feedback_def Let_def case_prod_beta links fallback_wake split: option.splits)
qed

lemma complete_invalidate_cases:
  "good n c \<Longrightarrow> good n (fst (complete_invalidate final i c fo))"
  "c_active (fst (complete_invalidate final i c fo)) = c_active c"
  "c_elv_priv1 (fst (complete_invalidate final i c fo)) = c_elv_priv1 c"
  "c_queue (fst (complete_invalidate final i c fo)) = c_queue c"
  "m_rq (c_meta_pool (fst (complete_invalidate final i c fo)) j) = m_rq (c_meta_pool c j)"
  "c_gate_blocked (fst (complete_invalidate final i c fo)) = c_gate_blocked c"
  "fo_reinfer (snd (complete_invalidate final i c fo)) = fo_reinfer fo"
  "fo_wake (snd (complete_invalidate final i c fo)) = fo_wake fo"
  using good_invalidate [of n c "Some i"]
  by (auto simp: complete_invalidate_def Let_def case_prod_beta)

text \<open>Starting an inference resets the votes; otherwise the fallback does.\<close>

lemma start_inference_votes:
  "snd (smart_io_throttle_start_inference_locked K gl now qd nc c) \<Longrightarrow>
   c_feedback_vote_count (fst (smart_io_throttle_start_inference_locked K gl now qd nc c)) = 0"
proof -
  have b: "c_feedback_vote_count (begin_inference now nc st d) = 0" for st d
    using begin_inference_eq [of now nc st d] by (simp add: control_of_def)
  show "snd (smart_io_throttle_start_inference_locked K gl now qd nc c) \<Longrightarrow> ?thesis"
    by (auto simp: smart_io_throttle_start_inference_locked_def Let_def b split: prod.splits if_splits)
qed

lemma complete_inference_cases:
  assumes g: "good 5 c" and open4: "\<not> reinfer \<Longrightarrow> good 4 c"
  shows "good 4 (fst (complete_inference K gl clk qd reinfer slow c))"
    and "snd (snd (complete_inference K gl clk qd reinfer slow c)) \<or>
      c_gate_blocked (fst (complete_inference K gl clk qd reinfer slow c)) = c_gate_blocked c"
proof -
  let ?st = "smart_io_throttle_start_inference_locked K gl (clk 1) qd slow c"
  note st = start_inference_cases [of _ c K gl "clk 1" qd slow]
  have started: "snd ?st \<Longrightarrow> good 4 (fst ?st)"
    using st(1) [OF g] start_inference_votes [of K gl "clk 1" qd slow c] by (auto intro: good_le)
  have fall: "good 4 (fallback (fst ?st))" using st(1) [OF g] by (intro good_fallback) (rule goodD)
  have stay: "\<not> reinfer \<Longrightarrow> good 4 (fst ?st)" using st(1) open4 by blast
  have gate: "c_gate_blocked (fst ?st) = c_gate_blocked c" by (rule st(2) [OF g])
  have wake: "c_gate_blocked (fst ?st) \<or> c_gate_blocked (fallback (fst ?st)) = c_gate_blocked (fst ?st)"
    by simp
  obtain d ok where eq: "?st = (d, ok)" by fastforce
  show "good 4 (fst (complete_inference K gl clk qd reinfer slow c))"
    using started fall stay open4 eq
    by (auto simp: complete_inference_def case_prod_beta Let_def split: bool.splits)
  show "snd (snd (complete_inference K gl clk qd reinfer slow c)) \<or>
      c_gate_blocked (fst (complete_inference K gl clk qd reinfer slow c)) = c_gate_blocked c"
    using gate wake eq
    by (auto simp: complete_inference_def case_prod_beta Let_def fallback_wake split: bool.splits)
qed

lemma complete_locked_cases:
  fixes gl :: throttle_globals and clk :: "nat \<Rightarrow> u64" and qd nr :: u32
  assumes g: "good 4 c" and find: "smart_io_throttle_find_meta_locked K c rq = Some i" and own: "sched_ok c rq"
  defines "r \<equiv> record_complete_locked K gl clk qd rq nr i c"
  shows "good 4 (fst r)"
    and "snd (snd (snd (snd r))) \<or> c_gate_blocked c \<longrightarrow> snd (snd (snd (snd r))) \<or> c_gate_blocked (fst r)"
proof -
  note act = find_meta_active [OF find]
  let ?final = "completion_final rq nr" and ?thr = "smart_io_throttle_get_dev_lat_threshold gl"
  let ?lat = "completion_latency (clk 0) (c_meta_pool c i)"
  let ?s = "complete_sample gl (clk 0) ?thr ?final ?lat i c"
  let ?f = "complete_feedback ?thr ?final ?lat i (fst ?s)"
  let ?v = "complete_invalidate ?final i (fst ?f) (snd ?f)"
  let ?rel = "release_all i (fst ?v)"
  let ?x = "if ?final then smart_io_throttle_free_meta_locked (Some rq) (Some i) (fst ?rel) else fst ?v"
  let ?w = "?final \<and> fst (snd ?rel)"
  let ?z = "complete_inference K gl clk qd (fo_reinfer (snd ?v)) (snd ?s) ?x"
  have s: "good 4 (fst ?s)" by (rule good_complete_sample [OF g])
  note f = complete_feedback_cases [OF s, of ?thr ?final ?lat i]
  have v5: "good 5 (fst ?v)" by (rule complete_invalidate_cases(1) [OF f(1)])
  have v4: "\<not> fo_reinfer (snd ?v) \<Longrightarrow> good 4 (fst ?v)"
    by (rule complete_invalidate_cases(1) [OF f(2)]) (simp add: complete_invalidate_cases)
  have vact: "i \<in> set (active_slots (fst ?v))" and vrq: "m_rq (c_meta_pool (fst ?v) i) = Some (rq_ptr rq)"
    and vown: "rq_use_sched rq \<or> c_elv_priv1 (fst ?v) (rq_ptr rq) = None"
    using act own f(3,4,6) by (simp_all add: complete_invalidate_cases sched_ok_def)
  have x5: "good 5 ?x" by (rule good_release_if [OF v5 vact vrq vown])
  have x4: "\<not> fo_reinfer (snd ?v) \<Longrightarrow> good 4 ?x" by (rule good_release_if [OF v4 vact vrq vown])
  have gate: "fo_wake (snd ?v) \<or> c_gate_blocked (fst ?v) = c_gate_blocked c"
    using f(7) by (simp add: complete_invalidate_cases)
  have xgate: "c_gate_blocked (fst ?v) \<Longrightarrow> ?w \<or> c_gate_blocked ?x"
    using release_all_wake [OF v5 vact] free_meta_gate [OF good_release_all [OF v5 vact], of i "Some rq"] vact
    by auto
  note z = complete_inference_cases [where reinfer = "fo_reinfer (snd ?v)" and K = K and gl = gl and clk = clk
      and qd = qd and slow = "snd ?s", OF x5 x4]
  have r: "r = (fst ?z, snd ?v, (if ?final then snd (snd ?rel) else SMART_IO_GATE_NONE), fst (snd ?z),
      fo_wake (snd ?v) \<or> ?w \<or> snd (snd ?z))"
    by (simp add: r_def record_complete_locked_def Let_def case_prod_beta)
  show "good 4 (fst r)" using z(1) by (simp add: r)
  show "snd (snd (snd (snd r))) \<or> c_gate_blocked c \<longrightarrow> snd (snd (snd (snd r))) \<or> c_gate_blocked (fst r)"
    using gate xgate z(2) by (auto simp: r)
qed

lemma good_complete:
  assumes g: "good 4 c" and own: "sched_ok c rq"
  shows "good 4 (fst (record_complete_ctx K gl clk qd wq rq status nr c))"
proof (cases "smart_io_throttle_find_meta_locked K c rq")
  case None
  with g show ?thesis by (simp add: record_complete_ctx_def)
next
  case (Some i)
  note l = complete_locked_cases(1) [OF g Some own, of gl clk qd nr]
  then show ?thesis
    using good_schedule [OF l, of wq]
    by (simp add: record_complete_ctx_def Some Let_def case_prod_beta)
qed

section \<open>The gate query, reset and initialisation\<close>

lemma good_non_hp_allowed:
  "good n c \<Longrightarrow> good n (fst (smart_io_throttle_non_hp_allowed gl ts c))"
proof -
  assume g: "good n c"
  have upd: "good n (c\<lparr>c_gate_blocked := True, c_gate_reason := r\<rparr>)"
    if "r \<noteq> SMART_IO_GATE_NONE" "c_inference_pending c \<or> \<not> smart_io_throttle_depth_can_run_locked c" for r
  proof -
    have run: "smart_io_throttle_depth_can_run_locked (c\<lparr>c_gate_blocked := True, c_gate_reason := r\<rparr>)
        = smart_io_throttle_depth_can_run_locked c"
      by (simp add: smart_io_throttle_depth_can_run_locked_def)
    show ?thesis
      using g that unfolding good_def control_inv_def run by simp
  qed
  show ?thesis
    using g by (auto simp: smart_io_throttle_non_hp_allowed_def Let_def intro!: upd)
qed

lemma good_pool:
  assumes g: "good n c" and sf: "\<And>j. same_flags (f j) (c_meta_pool c j)"
  shows "good n (c\<lparr>c_meta_pool := f\<rparr>)"
proof -
  let ?d = "c\<lparr>c_meta_pool := f\<rparr>"
  have cnt: "cnt P ?d = cnt P c" if "\<And>j. P (f j) = P (c_meta_pool c j)" for P
    unfolding cnt_def count_slots_def using that by simp
  note inv = ctx_invD [OF goodD(1) [OF g]] and sf = sf [unfolded same_flags_def]
  have "ctx_inv ?d"
  proof (rule ctx_invI)
    show "pool_inv ?d" using inv(1) sf by (simp add: pool_inv_def)
    show "count_inv ?d" using inv(2) sf by (simp add: count_inv_def cnt queued_in_def)
    show "priv_inv ?d" using inv(3) sf by (simp add: priv_inv_def)
    show "fb_inv ?d" using inv(4) sf by (simp add: fb_inv_def split: option.splits)
    show "idx_inv ?d" using inv(5) sf by (simp add: idx_inv_def)
    show "win_inv ?d" using inv(6) by (simp add: win_inv_def)
  qed
  then show ?thesis by (rule good_same [OF g]) (simp add: control_of_def)
qed

lemma reset_context_good:
  assumes "good n c"
  shows "good m (fst (smart_io_throttle_reset_context ns now c))"
proof -
  have "good m (fallback (if ns then c\<lparr>c_session_id := c_session_id c + 1\<rparr> else c))"
    using assms by (intro good_fallback) (simp add: good_def)
  from good_pool [OF this] show ?thesis
    unfolding smart_io_throttle_reset_context_def Let_def fst_conv by (simp add: same_flags_def)
qed

lemma queue_init_good:
  assumes "smart_io_throttle_queue_init sz p w1 w2 q = Inr c"
  shows "good n c"
proof -
  obtain cap where c: "c = smart_io_throttle_set_baseline_action_locked
      (zero_ctx\<lparr>c_queue := qi_id q, c_meta_capacity := cap, c_free_meta := [0..<unat cap]\<rparr>)"
    using assms by (auto simp: smart_io_throttle_queue_init_def Let_def split: sum.splits if_splits)
  have "ctx_inv c"
    by (simp add: c smart_io_throttle_set_baseline_action_locked_def zero_ctx_def ctx_inv_def inv_defs
        count_slots_def atLeast_upt)
  moreover have "control_inv n c"
    by (simp add: c smart_io_throttle_set_baseline_action_locked_def zero_ctx_def control_inv_def
        baseline_action_def)
  ultimately show ?thesis by (rule goodI)
qed

end
