(* ===== verification/Machine.thy ===== *)
theory Machine
  imports Main
begin

text \<open>
  Transition systems whose steps carry a list of effects: reachability, invariants, and
  the contract of a component that owes its clients a signal whenever a condition ends.
  The components of the development interpret these locales on their own step relations.
\<close>

inductive reaches :: "('s \<Rightarrow> 'e list \<Rightarrow> 's \<Rightarrow> bool) \<Rightarrow> 's \<Rightarrow> 'e list \<Rightarrow> 's \<Rightarrow> bool"
  for step :: "'s \<Rightarrow> 'e list \<Rightarrow> 's \<Rightarrow> bool" where
  reaches_refl: "reaches step s [] s"
| reaches_step: "reaches step s es t \<Longrightarrow> step t fs u \<Longrightarrow> reaches step s (es @ fs) u"

lemma reaches_one: "step s es t \<Longrightarrow> reaches step s es t"
  using reaches_step [OF reaches_refl, of step s es t] by simp

lemma reaches_trans: "reaches step t fs u \<Longrightarrow> reaches step s es t \<Longrightarrow> reaches step s (es @ fs) u"
proof (induction arbitrary: rule: reaches.induct)
  case (reaches_refl t)
  then show ?case by simp
next
  case (reaches_step t fs u gs v)
  then have "reaches step s ((es @ fs) @ gs) v" by (blast intro: reaches.reaches_step)
  then show ?case by simp
qed

locale invariant_machine =
  fixes step :: "'s \<Rightarrow> 'e list \<Rightarrow> 's \<Rightarrow> bool" and init :: "'s \<Rightarrow> bool" and inv :: "'s \<Rightarrow> bool"
  assumes init_inv: "init s \<Longrightarrow> inv s"
    and step_inv: "inv s \<Longrightarrow> step s es t \<Longrightarrow> inv t"
begin

lemma reaches_inv: "reaches step s es t \<Longrightarrow> inv s \<Longrightarrow> inv t"
  by (induction rule: reaches.induct) (auto intro: step_inv)

lemma reachable_inv: "init s \<Longrightarrow> reaches step s es t \<Longrightarrow> inv t"
  by (rule reaches_inv) (auto intro: init_inv)

end

text \<open>
  A machine with a condition \<open>held\<close> that other parties wait on: every step that ends the
  condition in a state where \<open>signalling\<close> is owed signals it.
\<close>

locale signalling_machine = invariant_machine +
  fixes held :: "'s \<Rightarrow> bool" and signal :: "'s \<Rightarrow> 'e" and owed :: "'s \<Rightarrow> bool"
  assumes signals: "inv s \<Longrightarrow> owed s \<Longrightarrow> step s es t \<Longrightarrow> held s \<Longrightarrow> \<not> held t \<Longrightarrow> signal s \<in> set es"
    and signal_stable: "inv s \<Longrightarrow> owed s \<Longrightarrow> step s es t \<Longrightarrow> signal t = signal s"
begin

text \<open>A run that owes the signal throughout and ends the condition has signalled it.\<close>

lemma run_signals:
  assumes "reaches (\<lambda>s es t. owed s \<and> step s es t) s es t" and "inv s" and "held s" and "\<not> held t"
  shows "signal s \<in> set es"
proof -
  have "inv t \<and> signal t = signal s \<and> (held t \<or> signal s \<in> set es)"
    using assms(1,2,3)
  proof (induction rule: reaches.induct)
    case (reaches_step s es t fs u)
    then have "inv t" "signal t = signal s" "held t \<or> signal s \<in> set es" "owed t" "step t fs u" by auto
    then show ?case using signals [of t fs u] step_inv [of t fs u] signal_stable [of t fs u] by auto
  qed simp
  with assms(4) show ?thesis by simp
qed

end

text \<open>
  A machine that runs on top of another: each of its steps is a run of the lower machine on the
  abstracted states with the abstracted effects.
\<close>

locale layered_machine = invariant_machine +
  fixes lower :: "'t \<Rightarrow> 'f list \<Rightarrow> 't \<Rightarrow> bool" and abs :: "'s \<Rightarrow> 't" and effects :: "'e list \<Rightarrow> 'f list"
  assumes simulates: "inv s \<Longrightarrow> step s es t \<Longrightarrow> reaches lower (abs s) (effects es) (abs t)"
    and effects_append: "effects (xs @ ys) = effects xs @ effects ys"
    and effects_Nil: "effects [] = []"
begin

lemma run_simulates: "reaches step s es t \<Longrightarrow> inv s \<Longrightarrow> reaches lower (abs s) (effects es) (abs t)"
proof (induction rule: reaches.induct)
  case (reaches_refl s)
  then show ?case by (simp add: effects_Nil reaches.reaches_refl)
next
  case (reaches_step s es t fs u)
  then have "reaches lower (abs s) (effects es) (abs t)" "inv t" by (auto intro: reaches_inv)
  then show ?case
    using reaches_trans simulates [OF _ reaches_step.hyps(2)] effects_append by metis
qed

end

end
