(* ===== verification/Throttle_Machine.thy ===== *)
theory Throttle_Machine
  imports Throttle_Complete Machine
begin

text \<open>
  The throttle as a transition system on the settings, the model thread and the context of one
  queue.  A step is one lock region or one handler; steps interleave freely, so an inference
  result can be applied long after it was requested, the timer can fire between any two
  handlers, and the queue can be reset or torn down at any time.
\<close>

type_synonym throttle_state = "throttle_globals \<times> model_thread \<times> throttle_ctx"

inductive throttle_step :: "kernel \<Rightarrow> throttle_state \<Rightarrow> effect list \<Rightarrow> throttle_state \<Rightarrow> bool"
  for K :: kernel where
  prepare: "throttle_step K (g, mt, c) [] (g, mt, smart_io_throttle_prepare_request rqo c)"
| classify: "throttle_step K (g, mt, c) [] (g, mt, smart_io_throttle_classify_request K g t now rq c)"
| update: "throttle_step K (g, mt, c) [] (g, mt, smart_io_throttle_update_request K rq c)"
| unqueue: "throttle_step K (g, mt, c) [] (g, mt, smart_io_throttle_unqueue_request rq c)"
| dispatch: "smart_io_throttle_account_dispatch g clk rq sel c = (d, es) \<Longrightarrow>
    throttle_step K (g, mt, c) es (g, mt, d)"
| finish: "sched_ok c rq \<Longrightarrow> smart_io_throttle_finish_request g ts rq c = (d, es) \<Longrightarrow>
    throttle_step K (g, mt, c) es (g, mt, d)"
| issue: "record_issue_ctx K g t now rq c = (d, es) \<Longrightarrow> throttle_step K (g, mt, c) es (g, mt, d)"
| requeue: "record_requeue_ctx K g ts rq c = (d, es) \<Longrightarrow> throttle_step K (g, mt, c) es (g, mt, d)"
| complete: "sched_ok c rq \<Longrightarrow> record_complete_ctx K g clk qd wq rq status nr c = (d, es) \<Longrightarrow>
    throttle_step K (g, mt, c) es (g, mt, d)"
| gate: "smart_io_throttle_non_hp_allowed g ts c = (d, ok, es) \<Longrightarrow> throttle_step K (g, mt, c) es (g, mt, d)"
| submit: "smart_io_throttle_dispatch_model_if_needed g clk mt c = (mt', d, es) \<Longrightarrow>
    throttle_step K (g, mt, c) es (g, mt', d)"
| model_state: "model_thread_run_begin K g clk qd c = (d, ok, es) \<Longrightarrow> throttle_step K (g, mt, c) es (g, mt, d)"
| work_begin: "inference_work_begin c = (d, fo) \<Longrightarrow> throttle_step K (g, mt, c) [] (g, mt, d)"
| work_evaluate: "inference_work_evaluate g predict clk f c = (d, f', ret, es) \<Longrightarrow>
    throttle_step K (g, mt, c) es (g, mt, d)"
| work_finish: "inference_work_evaluate g0 predict clk0 f0 c0 = (c1, f, ret, es0) \<Longrightarrow>
    inference_work_finish g clk qd f ret c = (d, es) \<Longrightarrow> throttle_step K (g, mt, c) es (g, mt, d)"
| timer: "smart_io_throttle_inference_timer c = (d, es) \<Longrightarrow> throttle_step K (g, mt, c) es (g, mt, d)"
| timeout: "smart_io_throttle_timeout_work g ts c = (d, es) \<Longrightarrow> throttle_step K (g, mt, c) es (g, mt, d)"
| reset: "smart_io_throttle_reset_context ns now c = (d, es) \<Longrightarrow> throttle_step K (g, mt, c) es (g, mt, d)"
| exit: "throttle_step K (g, mt, c) [] (g, mt, c\<lparr>c_dying := True\<rparr>)"
| setting: "apply_setting s (g, mt) = (g', mt') \<Longrightarrow> throttle_step K (g, mt, c) [] (g', mt', c)"

inductive_cases throttle_stepE: "throttle_step K (g, mt, c) es s'"

definition throttle_init :: "throttle_state \<Rightarrow> bool" where
  "throttle_init s \<longleftrightarrow> globals_inv (fst s) \<and>
     (\<exists>sz p w1 w2 q. smart_io_throttle_queue_init sz p w1 w2 q = Inr (snd (snd s)))"

definition throttle_good :: "throttle_state \<Rightarrow> bool" where
  "throttle_good s \<longleftrightarrow> globals_inv (fst s) \<and> good 4 (snd (snd s))"

lemma apply_setting_globals_inv:
  "globals_inv g \<Longrightarrow> globals_inv (fst (apply_setting s (g, mt)))"
  using setters_globals_inv by (cases s) simp_all

lemma throttle_step_good:
  assumes "throttle_good s" and "throttle_step K s es t"
  shows "throttle_good t"
  using assms(2,1)
proof (cases rule: throttle_step.cases)
  case (setting s g mt g' mt' c)
  then show ?thesis using assms(1) apply_setting_globals_inv [of g s mt] by (simp add: throttle_good_def)
next
  case (work_finish g0 predict clk0 f0 c0 c1 f ret es0 g clk qd c d mt)
  have "ret = None \<Longrightarrow> act_policy (if_action f) < 3" using work_finish(3) evaluate_policy by blast
  from good_finish [of 4 c, OF _ this] show ?thesis
    using work_finish assms(1) by (metis fst_conv snd_conv throttle_good_def)
qed (use assms(1) in \<open>simp_all add: throttle_good_def\<close>,
  (metis fst_conv snd_conv good_prepare good_classify good_update good_unqueue good_account_dispatch
    good_finish_request good_issue good_requeue good_complete good_non_hp_allowed good_dispatch_model
    good_run_begin good_work_begin good_evaluate good_timer good_timeout_work reset_context_good)+)

interpretation throttle: invariant_machine "throttle_step K" throttle_init throttle_good for K
proof
  fix s assume "throttle_init s"
  then show "throttle_good s" by (auto simp: throttle_init_def throttle_good_def queue_init_good)
next
  fix s es t assume "throttle_good s" "throttle_step K s es t"
  then show "throttle_good t" by (rule throttle_step_good)
qed

end
