(* ===== verification/Throttle_Wake.thy ===== *)
theory Throttle_Wake
  imports Throttle_Machine
begin

text \<open>
  No lost wake-up: a step that opens a blocked gate runs the hardware queues, so the requests
  the gate held back are dispatched again.  Two cases are excluded, as the code does not run the
  queues there: an exhausted metadata pool in \<open>classify\<close>, and a timeout whose session
  number is 0.
\<close>

section \<open>The queue of a context\<close>

lemma control_gate: "control_of d = control_of c \<Longrightarrow> c_gate_blocked d = c_gate_blocked c"
  by (simp add: control_of_def)

lemma run_queues_mem [simp]: "RunHwQueues q \<in> set (run_queues w c) \<longleftrightarrow> w \<and> q = c_queue c"
  by auto

lemma alloc_queue [simp]: "c_queue (fst (smart_io_throttle_alloc_meta_locked K rq cl c)) = c_queue c"
  by (auto simp: smart_io_throttle_alloc_meta_locked_def Let_def upd_meta_def smart_io_throttle_set_rq_meta_def
      split: list.split)

lemma free_queue [simp]: "c_queue (smart_io_throttle_free_meta_locked rqo mo c) = c_queue c"
  by (auto simp: smart_io_throttle_free_meta_locked_def Let_def smart_io_throttle_set_rq_meta_def
      split: option.split)

lemma start_queue [simp]:
  "c_queue (fst (smart_io_throttle_start_inference_locked K g now qd nc c)) = c_queue c"
proof -
  have b: "c_queue (begin_inference now nc st c) = c_queue c" for st c
    by (simp add: begin_inference_def Let_def)
  have s: "c_queue (smart_io_throttle_snapshot_config_locked g c) = c_queue c"
    by (simp add: smart_io_throttle_snapshot_config_locked_def)
  have q: "c_queue (fst (smart_io_throttle_snapshot_state_locked K now qd thr c)) = c_queue c" for thr c
    by (simp add: smart_io_throttle_snapshot_state_locked_def Let_def case_prod_beta count_anomaly_def)
  show ?thesis
    using q by (auto simp: smart_io_throttle_start_inference_locked_def Let_def b s split: prod.split)
      (metis fst_conv q s)+
qed

lemma count_selection_queue [simp]: "c_queue (count_selection sel i c) = c_queue c"
  by (cases sel) (simp_all add: count_selection_def upd_meta_def count_anomaly_def)

section \<open>Handler by handler\<close>

lemma alloc_control:
  "c_free_meta c \<noteq> [] \<Longrightarrow>
   control_of (fst (smart_io_throttle_alloc_meta_locked K rq cl c)) = control_of c"
  by (cases "c_free_meta c")
    (simp_all add: smart_io_throttle_alloc_meta_locked_def Let_def control_of_def upd_meta_def
      smart_io_throttle_set_rq_meta_def)

lemma classify_gate:
  assumes "c_free_meta c \<noteq> []"
  shows "c_gate_blocked (smart_io_throttle_classify_request K g t now rq c) = c_gate_blocked c"
    and "c_queue (smart_io_throttle_classify_request K g t now rq c) = c_queue c"
  by (rule control_gate, use alloc_control [OF assms] in
      \<open>simp add: smart_io_throttle_classify_request_def Let_def case_prod_beta split: option.split\<close>)
    (simp add: smart_io_throttle_classify_request_def Let_def case_prod_beta split: option.split)

lemma simple_gate:
  "c_gate_blocked (smart_io_throttle_prepare_request rqo c) = c_gate_blocked c"
  "c_gate_blocked (smart_io_throttle_update_request K rq c) = c_gate_blocked c"
  "c_gate_blocked (smart_io_throttle_unqueue_request rq c) = c_gate_blocked c"
  by (rule control_gate, simp add: smart_io_throttle_prepare_request_def
      smart_io_throttle_update_request_def smart_io_throttle_unqueue_request_def split: option.split)+

text \<open>A handler that returns effects: a gate it opens is announced.\<close>

definition wakes :: "throttle_ctx \<Rightarrow> throttle_ctx \<times> effect list \<Rightarrow> bool" where
  "wakes c r \<longleftrightarrow> c_queue (fst r) = c_queue c \<and>
     (c_gate_blocked c \<longrightarrow> c_gate_blocked (fst r) \<or> RunHwQueues (c_queue c) \<in> set (snd r))"

lemma fallback_queue [simp]: "c_queue (fallback c) = c_queue c" by simp

lemma wakes_finish:
  assumes g: "good n c"
  shows "wakes c (smart_io_throttle_finish_request gl ts rq c)"
proof (cases "smart_io_throttle_rq_meta c rq")
  case None
  then show ?thesis by (simp add: wakes_def smart_io_throttle_finish_request_def)
next
  case (Some i)
  note act = good_rq_meta [OF g Some]
  let ?c1 = "fst (smart_io_throttle_invalidate_feedback_locked (Some i) c)"
  have g1: "good n ?c1" by (rule good_invalidate [OF g])
  have a1: "i \<in> set (active_slots ?c1)" and a2: "i \<in> set (active_slots (fst (release_all i ?c1)))"
    using act by simp_all
  have "c_gate_blocked ?c1 \<Longrightarrow> fst (snd (release_all i ?c1)) \<or>
      c_gate_blocked (smart_io_throttle_free_meta_locked (Some rq) (Some i) (fst (release_all i ?c1)))"
    using release_all_wake [OF g1 a1] free_meta_gate [OF good_release_all [OF g1 a1] a2] by auto
  then show ?thesis
    by (auto simp: wakes_def smart_io_throttle_finish_request_def Some Let_def case_prod_beta)
qed

lemma wakes_requeue:
  assumes g: "good n c"
  shows "wakes c (record_requeue_ctx K gl ts rq c)"
proof (cases "smart_io_throttle_find_meta_locked K c rq")
  case None
  then show ?thesis by (simp add: wakes_def record_requeue_ctx_def)
next
  case (Some i)
  note act = find_meta_active [OF Some]
  let ?c1 = "fst (smart_io_throttle_invalidate_feedback_locked (Some i) c)"
  have g1: "good n ?c1" by (rule good_invalidate [OF g])
  have "c_gate_blocked ?c1 \<Longrightarrow> fst (snd (release_all i ?c1)) \<or> c_gate_blocked (fst (release_all i ?c1))"
    using release_all_wake [OF g1, of i] act by auto
  then show ?thesis
    by (auto simp: wakes_def record_requeue_ctx_def Some Let_def case_prod_beta requeue_mark_def)
qed

lemma account_depth_gate:
  "c_gate_blocked (fst (smart_io_throttle_account_depth_locked mo c)) \<or>
   snd (smart_io_throttle_account_depth_locked mo c) \<or> \<not> c_gate_blocked c"
  by (auto simp: smart_io_throttle_account_depth_locked_def Let_def upd_meta_def split: option.split)

lemma account_issued_gate:
  "c_gate_blocked (fst (smart_io_throttle_account_issued_depth_locked mo c)) \<or>
   snd (smart_io_throttle_account_issued_depth_locked mo c) \<or> \<not> c_gate_blocked c"
  by (auto simp: smart_io_throttle_account_issued_depth_locked_def Let_def upd_meta_def split: option.split)

lemma dispatch_mark_links [simp]:
  "c_gate_blocked (dispatch_mark g rq i c) = c_gate_blocked c"
  "c_queue (dispatch_mark g rq i c) = c_queue c"
proof -
  show "c_gate_blocked (dispatch_mark g rq i c) = c_gate_blocked c"
    by (rule control_gate) (simp add: dispatch_mark_def Let_def)
  show "c_queue (dispatch_mark g rq i c) = c_queue c" by (simp add: dispatch_mark_def Let_def)
qed

lemma count_selection_gate [simp]: "c_gate_blocked (count_selection sel i c) = c_gate_blocked c"
  by (cases sel) (simp_all add: count_selection_def upd_meta_def count_anomaly_def)

lemma bind_feedback_links [simp]:
  "c_gate_blocked (bind_feedback i ts c) = c_gate_blocked c" "c_queue (bind_feedback i ts c) = c_queue c"
  by (simp_all add: bind_feedback_def upd_meta_def)

lemma wakes_dispatch: "wakes c (smart_io_throttle_account_dispatch gl clk rq sel c)"
proof (cases "smart_io_throttle_rq_meta c rq")
  case None
  have "c_gate_blocked (count_anomaly c) = c_gate_blocked c" by (rule control_gate) simp
  then show ?thesis
    by (simp add: wakes_def smart_io_throttle_account_dispatch_def None case_prod_beta fallback_wake)
next
  case (Some i)
  let ?m = "dispatch_mark gl rq i c"
  show ?thesis
    using account_depth_gate [of "Some i" ?m]
      account_depth_gate [of "Some i" "?m\<lparr>c_model_post_apply_pending := False\<rparr>"]
    by (auto simp: wakes_def smart_io_throttle_account_dispatch_def Some Let_def case_prod_beta)
qed

lemma issue_mark_links [simp]:
  "c_gate_blocked (issue_mark K g now rq i c) = c_gate_blocked c" "c_queue (issue_mark K g now rq i c) = c_queue c"
proof -
  show "c_gate_blocked (issue_mark K g now rq i c) = c_gate_blocked c"
    by (rule control_gate) (simp add: issue_mark_def Let_def)
  show "c_queue (issue_mark K g now rq i c) = c_queue c" by (simp add: issue_mark_def Let_def)
qed

definition issue_tail :: "throttle_globals \<Rightarrow> nat \<Rightarrow> bool \<Rightarrow> throttle_ctx \<Rightarrow> throttle_ctx \<times> effect list" where
  "issue_tail gl i w d =
     (if issue_feedback i d then
        (let d = d\<lparr>c_feedback_issue_ts_ns := m_issue_ts_ns (c_meta_pool d i),
                   c_feedback_state := SMART_IO_FEEDBACK_WAIT_COMPLETE\<rparr>
         in (d, smart_io_throttle_trace_feedback gl d (Some (c_meta_pool d i)) (Some (c_action d))
                  ''issued'' (m_issue_ts_ns (c_meta_pool d i)) 0 0 0 0
                  (zero_feedback_sample (ucast (c_feedback_vote_count d) + 1)) @ run_queues w d))
      else (d, run_queues w d))"

lemma wakes_issue_tail:
  "c_queue d = c_queue c \<Longrightarrow> (c_gate_blocked c \<Longrightarrow> w \<or> c_gate_blocked d) \<Longrightarrow> wakes c (issue_tail gl i w d)"
  by (auto simp: wakes_def issue_tail_def Let_def)

lemma wakes_issue: "wakes c (record_issue_ctx K gl t now rq c)"
proof -
  let ?al = "case smart_io_throttle_find_meta_locked K c rq of Some i \<Rightarrow> (c, Some i)
    | None \<Rightarrow> smart_io_throttle_alloc_meta_locked K rq
        (smart_io_throttle_class_for_queue (smart_io_throttle_select_queue K gl t c (Some rq))) c"
  have alq: "c_queue (fst ?al) = c_queue c" by (simp split: option.split)
  show ?thesis
  proof (cases "snd ?al")
    case None
    then show ?thesis using alq by (simp add: wakes_def record_issue_ctx_def Let_def case_prod_beta)
  next
    case (Some i)
    have alg: "c_gate_blocked (fst ?al) = c_gate_blocked c"
      using Some by (auto split: option.splits intro!: control_gate alloc_control)
        (auto simp: smart_io_throttle_alloc_meta_locked_def split: list.splits)
    let ?c1 = "upd_meta i (\<lambda>m. m\<lparr>
       m_device_time_excluded := fst (smart_io_throttle_device_time_excluded (Some rq)),
       m_tag_depth_max := snd (smart_io_throttle_device_time_excluded (Some rq))\<rparr>) (fst ?al)"
    let ?r2 = "if \<not> m_depth_accounted (c_meta_pool ?c1 i)
        then smart_io_throttle_account_depth_locked (Some i) ?c1 else (?c1, False)"
    let ?r3 = "if \<not> m_issued_accounted (c_meta_pool (fst ?r2) i)
        then smart_io_throttle_account_issued_depth_locked (Some i) (fst ?r2) else (fst ?r2, False)"
    have q: "c_queue (fst ?r3) = c_queue c" using alq by simp
    have "c_gate_blocked c \<Longrightarrow> snd ?r2 \<or> c_gate_blocked (fst ?r2)"
      using account_depth_gate [of "Some i" ?c1] alg by auto
    moreover have "c_gate_blocked (fst ?r2) \<Longrightarrow> snd ?r3 \<or> c_gate_blocked (fst ?r3)"
      using account_issued_gate [of "Some i" "fst ?r2"] by auto
    ultimately have gate: "c_gate_blocked c \<Longrightarrow> snd ?r2 \<or> snd ?r3 \<or> c_gate_blocked (fst ?r3)" by blast
    have eq: "record_issue_ctx K gl t now rq c =
        issue_tail gl i (snd ?r2 \<or> snd ?r3) (issue_mark K gl now rq i (fst ?r3))"
      unfolding record_issue_ctx_def issue_tail_def Let_def case_prod_beta Some option.case by (rule refl)
    show ?thesis
      unfolding eq by (rule wakes_issue_tail) (use gate q in \<open>simp_all only: issue_mark_links, blast\<close>)
  qed
qed

lemma wakes_schedule: "wakes c (smart_io_throttle_schedule_inference wq c)"
  by (auto simp: wakes_def smart_io_throttle_schedule_inference_def Let_def case_prod_beta fallback_wake)

lemma complete_locked_queue:
  "c_queue (fst (record_complete_locked K gl clk qd rq nr i c)) = c_queue c"
proof -
  have f: "c_queue (fst (complete_feedback thr final lat i c)) = c_queue c" for thr final lat c
    by (auto simp: complete_feedback_def Let_def case_prod_beta vote_feedback_def split: option.splits)
  have z: "c_queue (fst (complete_inference K gl clk qd re slow c)) = c_queue c" for re slow c
    by (auto simp: complete_inference_def Let_def case_prod_beta split: bool.splits)
  show ?thesis
    by (simp add: record_complete_locked_def Let_def case_prod_beta z f complete_invalidate_cases(4))
qed

lemma wakes_complete:
  assumes g: "good 4 c" and own: "sched_ok c rq"
  shows "wakes c (record_complete_ctx K gl clk qd wq rq status nr c)"
proof (cases "smart_io_throttle_find_meta_locked K c rq")
  case None
  then show ?thesis by (simp add: wakes_def record_complete_ctx_def)
next
  case (Some i)
  let ?r = "record_complete_locked K gl clk qd rq nr i c"
  note l = complete_locked_cases(2) [OF g Some own, of gl clk qd nr]
  have q: "c_queue (fst ?r) = c_queue c" by (rule complete_locked_queue)
  note sch = wakes_schedule [of "fst ?r" wq, unfolded wakes_def]
  show ?thesis
    using l q sch
    by (auto simp: wakes_def record_complete_ctx_def Some Let_def case_prod_beta)
qed

lemma wakes_non_hp:
  "smart_io_throttle_non_hp_allowed gl ts c = (d, ok, es) \<Longrightarrow> wakes c (d, es)"
  by (auto simp: wakes_def smart_io_throttle_non_hp_allowed_def Let_def split: if_splits)

lemma wakes_submit:
  "smart_io_throttle_dispatch_model_if_needed gl clk mt c = (mt', d, es) \<Longrightarrow> wakes c (d, es)"
  by (auto simp: wakes_def smart_io_throttle_dispatch_model_if_needed_def Let_def case_prod_beta fallback_wake
      split: if_splits)

lemma wakes_run_begin:
  assumes "good n c" and "model_thread_run_begin K gl clk qd c = (d, ok, es)"
  shows "wakes c (d, es)"
proof -
  let ?c = "c\<lparr>c_model_thread_start_ts_ns := clk 0\<rparr>"
  have "good n ?c" using assms(1) by simp
  then have "fst (smart_io_throttle_snapshot_state_locked K now qd thr ?c) = ?c" for now thr
    by (rule snapshot_ctx [OF goodD(1)])
  then show ?thesis
    using assms(2)
    by (auto simp: wakes_def model_thread_run_begin_def Let_def case_prod_beta fallback_wake split: if_splits)
qed

lemma wakes_work:
  "wakes c (inference_work_finish gl clk qd f ret c)"
  "wakes c (smart_io_throttle_inference_timer c)"
  "wakes c (smart_io_throttle_reset_context ns now c)"
  by (auto simp: wakes_def inference_work_finish_def inference_work_fail_def inference_work_reject_def
      inference_work_apply_def smart_io_throttle_inference_timer_def smart_io_throttle_reset_context_def
      Let_def case_prod_beta fallback_wake)

lemma wakes_timeout:
  "c_pending_session_id c \<noteq> 0 \<Longrightarrow> wakes c (smart_io_throttle_timeout_work gl ts c)"
  by (auto simp: wakes_def smart_io_throttle_timeout_work_def Let_def case_prod_beta fallback_wake)

section \<open>The contract\<close>

definition gate_blocked :: "throttle_state \<Rightarrow> bool" where
  "gate_blocked s = c_gate_blocked (snd (snd s))"

definition queue_signal :: "throttle_state \<Rightarrow> effect" where
  "queue_signal s = RunHwQueues (c_queue (snd (snd s)))"

definition wake_owed :: "throttle_state \<Rightarrow> bool" where
  "wake_owed s \<longleftrightarrow> c_free_meta (snd (snd s)) \<noteq> [] \<and> c_pending_session_id (snd (snd s)) \<noteq> 0"

lemma wakes_quiet: "c_queue d = c_queue c \<Longrightarrow> c_gate_blocked d = c_gate_blocked c \<Longrightarrow> wakes c (d, es)"
  by (simp add: wakes_def)

lemma simple_queue:
  "c_queue (smart_io_throttle_prepare_request rqo c) = c_queue c"
  "c_queue (smart_io_throttle_update_request K rq c) = c_queue c"
  "c_queue (smart_io_throttle_unqueue_request rq c) = c_queue c"
  by (simp_all add: smart_io_throttle_prepare_request_def smart_io_throttle_set_rq_meta_def
      smart_io_throttle_update_request_def smart_io_throttle_unqueue_request_def split: option.split)

lemma wakes_simple:
  "wakes c (smart_io_throttle_prepare_request rqo c, [])"
  "wakes c (smart_io_throttle_update_request K rq c, [])"
  "wakes c (smart_io_throttle_unqueue_request rq c, [])"
  "wakes c (c\<lparr>c_dying := True\<rparr>, [])" "wakes c (c, [])"
  "c_free_meta c \<noteq> [] \<Longrightarrow> wakes c (smart_io_throttle_classify_request K g t now rq c, [])"
  by (rule wakes_quiet; simp add: simple_gate classify_gate simple_queue)+

lemma wakes_begin: "inference_work_begin c = (d, fo) \<Longrightarrow> wakes c (d, [])"
  by (rule wakes_quiet) (auto simp: inference_work_begin_def split: if_splits)

lemma wakes_evaluate: "inference_work_evaluate g p clk f c = (d, f', ret, es) \<Longrightarrow> wakes c (d, es)"
  by (rule wakes_quiet) (auto simp: inference_work_evaluate_def Let_def case_prod_beta split: if_splits)

lemma throttle_step_wakes:
  assumes good: "throttle_good s" and owed: "wake_owed s" and step: "throttle_step K s es t"
  shows "wakes (snd (snd s)) (snd (snd t), es)"
  using step good owed
  by (cases rule: throttle_step.cases; simp add: throttle_good_def wake_owed_def wakes_simple
      wakes_begin wakes_evaluate wakes_non_hp wakes_submit)
    (metis wakes_dispatch wakes_finish wakes_issue wakes_requeue wakes_complete wakes_run_begin
      wakes_work wakes_timeout)+

interpretation throttle_wake: signalling_machine "throttle_step K" throttle_init throttle_good
    gate_blocked queue_signal wake_owed for K
proof
  fix s es t assume "throttle_good s" "wake_owed s" "throttle_step K s es t"
  note w = throttle_step_wakes [OF this]
  then show "queue_signal t = queue_signal s" by (simp add: wakes_def queue_signal_def)
  assume "gate_blocked s" "\<not> gate_blocked t"
  with w show "queue_signal s \<in> set es" by (simp add: wakes_def queue_signal_def gate_blocked_def)
qed

end
