(* ===== verification/Throttle_Props.thy ===== *)
theory Throttle_Props
  imports Throttle_Wake
begin

text \<open>
  The properties of the throttle.  Statements about reachable states rest on the
  interpretations \<open>throttle\<close> and \<open>throttle_wake\<close>; the concrete context, kernel and
  requests at the start are the inputs of the witnesses.
\<close>

section \<open>Concrete inputs\<close>

text \<open>The layout of an I/O priority in the Linux headers: class, hint, level.\<close>

definition linux_kernel :: kernel where
  "linux_kernel = \<lparr>k_bucket = (\<lambda>k. unat k mod 64),
     k_op_code = (\<lambda>op. case op of REQ_OP_READ \<Rightarrow> 0 | REQ_OP_WRITE \<Rightarrow> 1 | REQ_OP_FLUSH \<Rightarrow> 2
        | REQ_OP_DISCARD \<Rightarrow> 3 | REQ_OP_SECURE_ERASE \<Rightarrow> 5 | REQ_OP_WRITE_ZEROES \<Rightarrow> 9
        | REQ_OP_ZONE_APPEND \<Rightarrow> 7 | REQ_OP_OTHER n \<Rightarrow> word_of_nat n),
     k_prio_class = (\<lambda>p. ucast (drop_bit 13 p)), k_prio_level = (\<lambda>p. p AND 7),
     k_prio_hint = (\<lambda>p. drop_bit 3 p AND 1023),
     k_prio_value = (\<lambda>cl l. push_bit 13 (ucast cl) OR l),
     k_prio_value_hint = (\<lambda>cl l h. push_bit 13 (ucast cl) OR push_bit 3 h OR l),
     k_class_none = 0, k_class_rt = 1, k_class_be = 2, k_class_idle = 3, k_be_norm = 4,
     k_hint_mask = 1023\<rparr>"

definition demo_queue :: queue_info where
  "demo_queue = \<lparr>qi_id = 7, qi_shared_tags = Some 3, qi_hw_sched_tags = [], qi_nr_hw_queues = 1\<rparr>"

definition demo_ctx :: throttle_ctx where
  "demo_ctx = zero_ctx\<lparr>c_queue := 7, c_meta_capacity := 4, c_free_meta := [0, 1, 2, 3]\<rparr>"

definition demo_request :: "nat \<Rightarrow> request" where
  "demo_request p = \<lparr>rq_ptr = p, rq_q = Some 7, rq_has_bio = True, rq_bio_disk_name = Some ''sda'',
     rq_q_disk_name = Some ''sda'', rq_pos = 4096, rq_sectors = 8, rq_bytes = 4096,
     rq_op = REQ_OP_READ, rq_ioprio = 0, rq_use_sched = True, rq_queue_depth = 32\<rparr>"

definition demo_thread :: model_thread where
  "demo_thread = \<lparr>mt_task = False, mt_ctx = None, mt_running = None\<rparr>"

definition demo_task :: task_ctx where
  "demo_task = \<lparr>cur_uid = 0, cur_pid = 1, cur_comm = ''kworker'', fg_uid = -1, fg_main_pid = -1\<rparr>"

definition demo_globals :: throttle_globals where
  "demo_globals = initial_globals\<lparr>g_throttle_enabled := 1\<rparr>"

lemma demo_queue_init: "smart_io_throttle_queue_init 144 True True True demo_queue = Inr demo_ctx"
proof -
  have "check_add_overflow 3 1 = Some 4" by (simp add: check_add_overflow_def)
  moreover have "[0..<4] = [0, 1, 2, 3]" by (simp add: upt_rec)
  ultimately show ?thesis
    by (simp add: smart_io_throttle_queue_init_def smart_io_throttle_meta_capacity_def demo_queue_def
        demo_ctx_def smart_io_throttle_set_baseline_action_locked_def zero_ctx_def zero_action_def Let_def)
qed

lemma demo_init: "throttle_init (demo_globals, demo_thread, demo_ctx)"
  unfolding throttle_init_def
proof
  show "globals_inv (fst (demo_globals, demo_thread, demo_ctx))"
    by (simp add: demo_globals_def initial_globals_def globals_inv_def zero_action_def
        smart_io_throttle_action_valid_def)
  show "\<exists>sz p w1 w2 q. smart_io_throttle_queue_init sz p w1 w2 q =
      Inr (snd (snd (demo_globals, demo_thread, demo_ctx)))"
    unfolding snd_conv using demo_queue_init by (intro exI)
qed

lemma demo_good: "throttle_good (demo_globals, demo_thread, demo_ctx)"
  by (rule throttle.init_inv [OF demo_init])

definition demo_queued :: throttle_ctx where
  "demo_queued = smart_io_throttle_classify_request linux_kernel demo_globals demo_task 5 (demo_request 9) demo_ctx"

lemma demo_step: "throttle_step linux_kernel (demo_globals, demo_thread, demo_ctx) [] (demo_globals, demo_thread, demo_queued)"
  unfolding demo_queued_def by (rule throttle_step.classify)

lemmas demo_reached = reaches_one [where step = "throttle_step linux_kernel", OF demo_step]

text \<open>A context with the medium action in force and a gate that is closed by the depth.\<close>

definition demo_action :: action where
  "demo_action = \<lparr>act_level = 2, act_policy = 0, act_ratio_pct = 50, act_queue_max = 4,
     act_target_depth = 2, act_decision_id = 1\<rparr>"

definition demo_active :: throttle_ctx where
  "demo_active = demo_ctx\<lparr>c_throttle_active := True, c_action_valid := True, c_action := demo_action,
     c_feedback_state := SMART_IO_FEEDBACK_WAIT_DISPATCH\<rparr>"

definition demo_pending :: throttle_ctx where
  "demo_pending = demo_ctx\<lparr>c_throttle_active := True, c_inference_pending := True,
     c_gate_blocked := True, c_gate_reason := SMART_IO_GATE_INFERENCE, c_session_id := 1,
     c_control_id := 1, c_decision_id := 1, c_pending_session_id := 1, c_pending_control_id := 1,
     c_pending_decision_id := 1, c_pending_state_valid := True, c_pending_light_pct := 75,
     c_pending_medium_pct := 50, c_pending_heavy_pct := 25,
     c_pending_fixed_action := zero_action\<lparr>act_level := 2\<rparr>\<rparr>"

lemma demo_ctx_inv: "ctx_inv demo_ctx"
  using demo_good by (simp add: throttle_good_def good_def)

lemma demo_active_good: "good 4 demo_active"
proof (rule goodI)
  show "ctx_inv demo_active"
    using demo_ctx_inv by (simp add: demo_active_def ctx_inv_def inv_defs demo_ctx_def zero_ctx_def)
  show "control_inv 4 demo_active"
    by (simp add: demo_active_def control_inv_def demo_ctx_def zero_ctx_def demo_action_def action_ok_def
        smart_io_throttle_action_valid_def)
qed

lemma demo_pending_good: "good 4 demo_pending"
proof (rule goodI)
  show "ctx_inv demo_pending" using demo_ctx_inv by (simp add: demo_pending_def)
  show "control_inv 4 demo_pending"
    by (simp add: demo_pending_def control_inv_def demo_ctx_def zero_ctx_def)
qed

lemma demo_globals_good: "globals_inv demo_globals"
  using demo_init by (simp add: throttle_init_def)

section \<open>Accounting\<close>

lemma cnt_card: "ctx_inv c \<Longrightarrow> cnt P c = card {i \<in> set (active_slots c). P (c_meta_pool c i)}"
  by (simp add: cnt_def count_slots_def ctx_inv_distinct flip: distinct_card)

text \<open>C1: In every state reachable from a fresh queue, through any interleaving of requests, timers,
  inference results, resets and settings calls, each depth and pending counter is exactly the number
  of live metadata objects that carry the corresponding reservation.\<close>

theorem counters_are_exact:
  assumes "throttle_init s" and "reaches (throttle_step K) s es (g, mt, c)"
  shows "unat (c_current_depth c) = card {i \<in> set (active_slots c). m_depth_accounted (c_meta_pool c i)} \<and>
    unat (c_bg_current_depth c) = card {i \<in> set (active_slots c). m_bg_depth_accounted (c_meta_pool c i)} \<and>
    unat (c_issued_depth c) = card {i \<in> set (active_slots c). m_issued_accounted (c_meta_pool c i)} \<and>
    unat (c_pending_fg c) = card {i \<in> set (active_slots c). queued_in SMART_IO_RQ_FOREGROUND (c_meta_pool c i)} \<and>
    unat (c_pending_bg c) = card {i \<in> set (active_slots c). queued_in SMART_IO_RQ_BACKGROUND (c_meta_pool c i)} \<and>
    unat (c_meta_inuse c) = card (set (active_slots c)) \<and> c_bg_current_depth c \<le> c_current_depth c"
proof -
  have inv: "ctx_inv c" using throttle.reachable_inv [OF assms] by (simp add: throttle_good_def good_def)
  have inuse: "unat (c_meta_inuse c) = card (set (active_slots c))"
    using inv ctx_inv_distinct [OF inv] by (simp add: ctx_inv_def pool_inv_def distinct_card)
  have "unat (c_bg_current_depth c) \<le> unat (c_current_depth c)"
    using bg_le_depth [OF inv] depth_counters [OF inv] by simp
  then show ?thesis
    using inv inuse by (simp add: ctx_inv_def count_inv_def cnt_card [OF inv] word_le_nat_alt)
qed

lemma counters_are_exact_witness:
  "unat (c_pending_bg demo_queued) =
   card {i \<in> set (active_slots demo_queued). queued_in SMART_IO_RQ_BACKGROUND (c_meta_pool demo_queued i)}"
  using counters_are_exact [OF demo_init demo_reached] by blast

text \<open>No metadata object leaks: in every reachable state each slot of the pool is either free or
  in use by one request, never both, and no slot appears twice.\<close>

theorem no_slot_leaks:
  assumes "throttle_init s" and "reaches (throttle_step K) s es (g, mt, c)"
  shows "distinct (c_free_meta c @ active_slots c) \<and>
    set (c_free_meta c) \<union> set (active_slots c) = {..<unat (c_meta_capacity c)}"
proof -
  have "pool_inv c" using throttle.reachable_inv [OF assms] by (simp add: throttle_good_def good_def ctx_inv_def)
  then show ?thesis by (auto simp: pool_inv_def)
qed

lemma no_slot_leaks_witness:
  "distinct (c_free_meta demo_queued @ active_slots demo_queued) \<and>
    set (c_free_meta demo_queued) \<union> set (active_slots demo_queued) = {..<unat (c_meta_capacity demo_queued)}"
  by (rule no_slot_leaks [OF demo_init demo_reached])

section \<open>The action in force\<close>




definition demo_frame :: infer_frame where
  "demo_frame = the (snd (inference_work_begin demo_pending))"


lemma apply_result:
  "c_action (fst (inference_work_apply g clk f a c)) = a\<lparr>act_decision_id := if_decision_id f\<rparr>"
  "c_action_valid (fst (inference_work_apply g clk f a c))"
  "\<not> c_inference_pending (fst (inference_work_apply g clk f a c))"
  "\<not> c_gate_blocked (fst (inference_work_apply g clk f a c))"
  "c_feedback_state (fst (inference_work_apply g clk f a c)) = SMART_IO_FEEDBACK_WAIT_DISPATCH"
  "RunHwQueues (c_queue c) \<in> set (snd (inference_work_apply g clk f a c))"
  unfolding inference_work_apply_def Let_def by simp_all

text \<open>C4: The decision the inference work applies: the level of the frame, the configured ratio of that
  level, the queue depth, and a target of the rounded-up percentage, which opens the gate, starts
  feedback and runs the queues.\<close>

theorem applied_action:
  assumes "c_inference_pending c" and "\<not> c_inference_timed_out c" and "\<not> c_dying c"
    and "if_session_id f = c_pending_session_id c" and "if_control_id f = c_pending_control_id c"
    and "if_decision_id f = c_pending_decision_id c" and "qd \<noteq> 0"
    and "act_level (if_action f) = level" and "level \<noteq> SMART_IO_THROTTLE_NO"
    and "smart_io_throttle_action_ratio c level = r" and "0 < r" and "r \<le> 100"
  shows "let d = fst (inference_work_finish g clk qd f None c) in
    c_action_valid d \<and> \<not> c_inference_pending d \<and> \<not> c_gate_blocked d \<and>
    c_feedback_state d = SMART_IO_FEEDBACK_WAIT_DISPATCH \<and>
    act_level (c_action d) = level \<and> act_ratio_pct (c_action d) = r \<and> act_queue_max (c_action d) = qd \<and>
    unat (act_target_depth (c_action d)) = (unat qd * unat r + 99) div 100 \<and>
    RunHwQueues (c_queue c) \<in> set (snd (inference_work_finish g clk qd f None c))"
proof -
  have pos: "0 < unat r" "0 < unat qd" "unat r \<le> 100"
    using assms(7,11,12) by (simp_all add: word_less_nat_alt word_le_nat_alt unat_gt_0)
  have le: "(unat qd * unat r + 99) div 100 \<le> unat qd"
  proof -
    have "unat qd * unat r \<le> unat qd * 100" using pos(3) by (rule mult_le_mono2)
    then show ?thesis by linarith
  qed
  have t: "unat (target_depth_of level qd r) = (unat qd * unat r + 99) div 100"
    using target_depth_bounds [of level r qd] assms(9,12) le by simp
  have "0 < unat qd * unat r" using pos by simp
  then have "100 \<le> unat qd * unat r + 99" by linarith
  then have "1 \<le> (unat qd * unat r + 99) div 100" by linarith
  then have nz: "target_depth_of level qd r \<noteq> 0" using t by auto
  let ?a = "(if_action f)\<lparr>act_ratio_pct := r, act_queue_max := qd, act_target_depth := target_depth_of level qd r\<rparr>"
  have bad: "\<not> (r = 0 \<or> 100 < r)" using assms(11,12) by (simp add: not_less word_gt_0)
  have eq: "inference_work_finish g clk qd f None c = inference_work_apply g clk f ?a c"
    unfolding inference_work_finish_def Let_def using assms(1-10) nz bad by simp
  show ?thesis unfolding Let_def eq using assms(8) t by (simp add: apply_result)
qed

lemma applied_action_witness:
  "unat (act_target_depth (c_action (fst (inference_work_finish demo_globals (\<lambda>_. 0) 5 demo_frame None demo_pending)))) = 3"
  using applied_action [of demo_pending demo_frame 5 2 50 demo_globals "\<lambda>_. 0"]
  by (simp add: Let_def demo_frame_def inference_work_begin_def demo_pending_def demo_ctx_def zero_ctx_def
      zero_action_def smart_io_throttle_action_ratio_def)

end
