(* ===== verification/Throttle_Laws.thy ===== *)
theory Throttle_Laws
  imports Throttle_Props
begin

text \<open>
  The properties of the gate, the timeouts, the snapshot, the lookup of metadata and the
  queue selection.
\<close>

section \<open>The gate\<close>


definition demo_timed :: throttle_ctx where
  "demo_timed = demo_pending\<lparr>c_inference_timed_out := True\<rparr>"

lemma demo_timed_good: "good 4 demo_timed"
proof (rule goodI)
  show "ctx_inv demo_timed" using goodD(1) [OF demo_pending_good] by (simp add: demo_timed_def)
  show "control_inv 4 demo_timed"
    by (simp add: demo_timed_def demo_pending_def control_inv_def demo_ctx_def zero_ctx_def)
qed

lemma demo_timed_fields [simp]:
  "c_inference_pending demo_timed" "c_inference_timed_out demo_timed" "c_gate_blocked demo_timed"
  "c_pending_session_id demo_timed = 1" "c_free_meta demo_timed = [0, 1, 2, 3]" "c_queue demo_timed = 7"
  by (simp_all add: demo_timed_def demo_pending_def demo_ctx_def zero_ctx_def)


text \<open>C40: The exception is real: a queue initialised while throttling is already enabled has session
  number 0, its inferences inherit it, and their timeout opens the gate without running the
  queues or leaving a trace.\<close>

theorem timeout_loses_wakeup:
  assumes "smart_io_throttle_queue_init sz p w1 w2 q = Inr c0"
    and "begin_inference now True st c0 = c"
  shows "c_pending_session_id c = 0 \<and>
    (let d = c\<lparr>c_gate_blocked := True, c_gate_reason := SMART_IO_GATE_INFERENCE, c_inference_timed_out := True\<rparr>;
         (e, es) = smart_io_throttle_timeout_work g ts d
     in c_gate_blocked d \<and> \<not> c_gate_blocked e \<and> \<not> c_inference_pending e \<and> es = [])"
proof -
  have "c_session_id c0 = 0"
    using assms(1) by (auto simp: smart_io_throttle_queue_init_def Let_def zero_ctx_def
        smart_io_throttle_set_baseline_action_locked_def split: sum.splits if_splits)
  then have c: "c_pending_session_id c = 0" "c_inference_pending c"
    using assms(2) by (auto simp: begin_inference_def Let_def smart_io_throttle_reset_feedback_locked_def
        smart_io_throttle_clear_feedback_binding_locked_def upd_meta_def split: option.splits if_splits)
  then show ?thesis
    by (simp add: Let_def smart_io_throttle_timeout_work_def case_prod_beta)
qed

lemma timeout_loses_wakeup_witness:
  "c_pending_session_id (begin_inference 5 True zero_snapshot demo_ctx) = 0"
  using timeout_loses_wakeup [OF demo_queue_init refl] by blast

text \<open>C7: The gate fails open: an inference that never answers holds the queue no longer than its timer.
  After the timer and its timeout work the baseline action is in force, nothing is pending, and
  the next background request is allowed.\<close>

theorem timeout_opens_gate:
  assumes "c_inference_pending c" and "\<not> c_dying c"
  shows "let (c1, es1) = smart_io_throttle_inference_timer c;
             (c2, es2) = smart_io_throttle_timeout_work g ts c1
         in QueueTimeoutWork \<in> set es1 \<and> \<not> c_inference_pending c2 \<and> \<not> c_gate_blocked c2 \<and>
            c_action c2 = baseline_action \<and> c_timeout_count c2 = c_timeout_count c + 1 \<and>
            smart_io_throttle_non_hp_allowed g' ts' c2 = (c2, True, [])"
proof -
  have cnt: "c_timeout_count (fallback d) = c_timeout_count d" for d
    by (simp add: fallback_eq smart_io_throttle_set_baseline_action_locked_def
        smart_io_throttle_reset_window_locked_def smart_io_throttle_reset_feedback_locked_def
        smart_io_throttle_clear_feedback_binding_locked_def upd_meta_def split: option.split)
  have allowed: "smart_io_throttle_non_hp_allowed g' ts' (fallback d) = (fallback d, True, [])" for d
    by (simp add: smart_io_throttle_non_hp_allowed_def smart_io_throttle_depth_can_run_locked_def)
  show ?thesis
    using assms by (simp add: smart_io_throttle_inference_timer_def smart_io_throttle_timeout_work_def
        Let_def case_prod_beta allowed cnt)
qed

lemma timeout_opens_gate_witness:
  "QueueTimeoutWork \<in> set (snd (smart_io_throttle_inference_timer demo_pending))"
  using timeout_opens_gate [of demo_pending demo_globals 0 demo_globals 0]
  by (simp add: case_prod_beta Let_def demo_pending_def demo_ctx_def zero_ctx_def)

text \<open>C3: While throttling is on and the demo mode is off, a request outside the high-priority class may
  run exactly when no inference is pending and either no limiting action is in force or fewer
  background requests hold a reservation than the target depth; a refusal always leaves the gate
  closed, so that the release of a reservation will open it.\<close>

theorem non_hp_verdict:
  assumes "throttle_good s" and "reaches (throttle_step K) s es0 (g, mt, c)"
    and "smart_io_throttle_enabled g" and "\<not> smart_io_throttle_get_queue_rq_demo g"
    and "smart_io_throttle_non_hp_allowed g ts c = (d, ok, es)"
  shows "(ok \<longleftrightarrow> \<not> c_inference_pending c \<and>
            (c_action_valid c \<and> act_level (c_action c) \<noteq> SMART_IO_THROTTLE_NO \<longrightarrow>
             card {i \<in> set (active_slots c). m_bg_depth_accounted (c_meta_pool c i)} <
             unat (act_target_depth (c_action c)))) \<and>
    (\<not> ok \<longrightarrow> c_gate_blocked d \<and> c_gate_reason d \<noteq> SMART_IO_GATE_NONE)"
proof -
  have good: "good 4 c" using throttle.reaches_inv [OF assms(2,1)] by (simp add: throttle_good_def)
  have bg: "card {i \<in> set (active_slots c). m_bg_depth_accounted (c_meta_pool c i)} = unat (c_bg_current_depth c)"
    using depth_counters(2) [OF goodD(1) [OF good]] cnt_card [OF goodD(1) [OF good]] by simp
  have ctl: "c_action_valid c \<longrightarrow> c_throttle_active c" "c_throttle_active c \<and> \<not> c_inference_pending c \<longrightarrow> c_action_valid c"
    using goodD(2) [OF good] by (auto simp: control_inv_def)
  show ?thesis
    using assms(3-5) ctl goodD(2) [OF good]
    by (auto simp: smart_io_throttle_non_hp_allowed_def Let_def smart_io_throttle_depth_can_run_locked_def
        bg control_inv_def word_less_nat_alt split: if_splits)
qed

lemma non_hp_verdict_witness:
  "\<not> fst (snd (smart_io_throttle_non_hp_allowed demo_globals 0 demo_pending))"
proof -
  obtain d ok es where r: "smart_io_throttle_non_hp_allowed demo_globals 0 demo_pending = (d, ok, es)"
    by (cases "smart_io_throttle_non_hp_allowed demo_globals 0 demo_pending") auto
  have "throttle_good (demo_globals, demo_thread, demo_pending)"
    by (simp add: throttle_good_def demo_globals_good demo_pending_good)
  then have "\<not> ok"
    using non_hp_verdict [OF _ reaches_refl [where step = "throttle_step linux_kernel"] _ _ r]
    by (simp add: smart_io_throttle_enabled_def smart_io_throttle_get_queue_rq_demo_def demo_globals_def
        initial_globals_def demo_pending_def)
  then show ?thesis using r by simp
qed

section \<open>Snapshot and window\<close>

text \<open>C22: In every reachable state the cross-check of the snapshot against the depth counters passes, so
  taking a snapshot never counts an anomaly; and a snapshot that is returned as valid reports the
  counters of the queue and was taken from a full latency window.\<close>

theorem snapshot_reports_counters:
  assumes "throttle_init s" and "reaches (throttle_step K) s es (g, mt, c)"
    and "smart_io_throttle_snapshot_state_locked K now qm thr c = (d, st, ok)"
  shows "d = c \<and>
    (ok \<longrightarrow> qm \<noteq> 0 \<and> window_span_ok c \<and> st_queue_max st = qm \<and>
       st_waiting_count st = c_pending_bg c \<and> st_waiting_fg st = c_pending_fg c \<and>
       st_waiting_total_count st = c_pending_fg c + c_pending_bg c \<and>
       st_device_q_count st = c_issued_depth c \<and> st_reserved_depth_count st = c_current_depth c)"
proof -
  have inv: "ctx_inv c"
    using throttle.reachable_inv [OF assms(1,2)] by (simp add: throttle_good_def good_def)
  show ?thesis
  proof (cases ok)
    case True
    then show ?thesis using snapshot_counts [OF inv, of K now qm thr d st] assms(3) by simp
  next
    case False
    then show ?thesis using snapshot_ctx [OF inv, of K now qm thr] assms(3) by simp
  qed
qed

lemma snapshot_reports_counters_witness:
  "fst (smart_io_throttle_snapshot_state_locked linux_kernel 9 32 600 demo_queued) = demo_queued"
  using snapshot_reports_counters [OF demo_init demo_reached, of 9 32 600] by (metis prod.exhaust_sel)

text \<open>C23: The trigger of throttling: in every reachable state the window is slow exactly when it holds
  five samples spanning at most ten milliseconds, the newest not older than the oldest, and each
  of the five device latencies reaches the threshold.\<close>

theorem slow_window_trigger:
  assumes "throttle_init s" and "reaches (throttle_step K) s es (g, mt, c)"
  shows "smart_io_throttle_slow_window_locked c thr \<longleftrightarrow>
    unat (c_dev_lat_count c) = 5 \<and>
    (let oldest = smp_complete_ts_ns (c_dev_lat c ! unat (c_dev_lat_head c));
         newest = smp_complete_ts_ns (c_dev_lat c ! ((4 + unat (c_dev_lat_head c)) mod 5))
     in oldest \<noteq> 0 \<and> oldest \<le> newest \<and> unat newest - unat oldest \<le> 10000000) \<and>
    (\<forall>s \<in> set (c_dev_lat c). thr \<le> smp_dev_lat_us s)"
proof -
  have "ctx_inv c" using throttle.reachable_inv [OF assms] by (simp add: throttle_good_def good_def)
  then show ?thesis by (simp add: slow_window_iff window_span_ok_def Let_def)
qed

lemma slow_window_trigger_witness: "\<not> smart_io_throttle_slow_window_locked demo_ctx 600"
  using slow_window_trigger [OF demo_init reaches_refl, where thr = 600]
  by (simp add: demo_ctx_def zero_ctx_def)

lemma unat_u8_small: "unat (x :: u8) < 2 ^ 64"
  using unsigned_less [of x, where 'a = nat] by simp

text \<open>The feedback samples of an action: in every reachable state at most four votes are counted and
  their mean never exceeds their maximum, so the recovery test compares a true mean.\<close>

theorem feedback_mean_bounded:
  assumes "throttle_good s" and "reaches (throttle_step K) s es (g, mt, c)"
  shows "c_feedback_vote_count c \<le> 4 \<and>
    smart_io_throttle_feedback_mean_locked c \<le> c_feedback_max_dev_lat_us c \<and>
    unat (smart_io_throttle_feedback_mean_locked c) =
      unat (c_feedback_total_dev_lat_us c) div unat (c_feedback_vote_count c)"
proof -
  have good: "good 4 c" using throttle.reaches_inv [OF assms(2,1)] by (simp add: throttle_good_def)
  have le4: "c_feedback_vote_count c \<le> 4" using goodD(2) [OF good] by (simp add: control_inv_def)
  have tot: "unat (c_feedback_total_dev_lat_us c) \<le> unat (c_feedback_vote_count c) * unat (c_feedback_max_dev_lat_us c)"
    using goodD(1) [OF good] by (simp add: ctx_inv_def fb_inv_def)
  define v where "v = unat (c_feedback_vote_count c)"
  define q where "q = unat (c_feedback_total_dev_lat_us c) div v"
  have qle: "q \<le> unat (c_feedback_max_dev_lat_us c)"
  proof (cases "v = 0")
    case False
    then show ?thesis using div_le_mono [OF tot [folded v_def], of v] by (simp add: q_def)
  qed (simp add: q_def)
  then have q32: "q < 2 ^ 32" using unat_le_u32_max [of "c_feedback_max_dev_lat_us c"] by simp
  have m: "unat (smart_io_throttle_feedback_mean_locked c) = q"
  proof (cases "c_feedback_vote_count c = 0")
    case True
    then show ?thesis by (simp add: smart_io_throttle_feedback_mean_locked_def q_def v_def)
  next
    case False
    let ?d = "c_feedback_total_dev_lat_us c div ucast (c_feedback_vote_count c)"
    have vc: "unat (ucast (c_feedback_vote_count c) :: u64) = v" by (simp add: v_def unsigned_ucast_eq take_bit_nat_eq_self [OF unat_u8_small])
    have d: "unat ?d = q" by (simp add: unat_div_distrib vc q_def)
    have "unat (ucast u32_max :: u64) = 4294967295" using unat_u32_max by (simp add: unat_ucast_64)
    then have "min ?d (ucast u32_max) = ?d" using d q32 by (simp add: min_def word_le_nat_alt)
    then show ?thesis
      using False d q32 by (simp add: smart_io_throttle_feedback_mean_locked_def unsigned_ucast_eq take_bit_nat_eq_self)
  qed
  show ?thesis using le4 m qle by (simp add: word_le_nat_alt q_def v_def)
qed

lemma feedback_mean_bounded_witness:
  "c_feedback_vote_count demo_queued \<le> 4"
  using feedback_mean_bounded [OF demo_good demo_reached] by blast

section \<open>Lookup, deadline and priority\<close>

text \<open>C21: The bounded scan of the hash chain never misses: in every reachable state, a request that owns a
  metadata object is found, and what is found is owned by the request.\<close>

theorem find_meta_complete:
  assumes "throttle_init s" and "reaches (throttle_step K) s es (g, mt, c)"
    and "i \<in> set (active_slots c)" and "m_rq (c_meta_pool c i) = Some (rq_ptr rq)"
  shows "\<exists>j. smart_io_throttle_find_meta_locked K c rq = Some j \<and> j \<in> set (active_slots c) \<and>
    m_rq (c_meta_pool c j) = Some (rq_ptr rq)"
proof -
  have inv: "ctx_inv c" using throttle.reachable_inv [OF assms(1,2)] by (simp add: throttle_good_def good_def)
  obtain k where e: "(k, i) \<in> set (c_active c)" using assms(3) by (auto simp: hash_slots_def)
  then have "k = rq_key (rq_ptr rq)" using inv assms(4) by (fastforce simp: ctx_inv_def pool_inv_def)
  then have mem: "i \<in> set (hash_chain K (c_active c) (rq_key (rq_ptr rq)))"
    using e by (force simp: hash_chain_def)
  have len: "length (hash_chain K (c_active c) (rq_key (rq_ptr rq))) \<le> unat (c_meta_capacity c)"
    using length_hash_chain ctx_inv_active_le [OF inv] by (rule le_trans)
  obtain j where j: "smart_io_throttle_find_meta_locked K c rq = Some j"
    using scan_possible_complete [OF len mem, of "\<lambda>i. m_rq (c_meta_pool c i) = Some (rq_ptr rq)"] assms(4)
    by (auto simp: smart_io_throttle_find_meta_locked_def)
  then show ?thesis
    using scan_possible_SomeD [OF j [unfolded smart_io_throttle_find_meta_locked_def]]
      set_hash_chain [of K "c_active c" "rq_key (rq_ptr rq)"] by blast
qed

lemma demo_queued_slot: "0 \<in> set (active_slots demo_queued) \<and> m_rq (c_meta_pool demo_queued 0) = Some 9"
proof -
  have "smart_io_throttle_rq_meta demo_ctx (demo_request 9) = None"
    by (simp add: smart_io_throttle_rq_meta_def demo_ctx_def zero_ctx_def)
  then show ?thesis
    by (simp add: demo_queued_def smart_io_throttle_classify_request_def Let_def case_prod_beta
        smart_io_throttle_alloc_meta_locked_def demo_ctx_def zero_ctx_def demo_request_def upd_meta_def
        smart_io_throttle_set_rq_meta_def smart_io_throttle_pending_inc_locked_def fresh_meta_def
        smart_io_throttle_rq_meta_def zero_meta_def split: rq_class.split)
qed

lemma find_meta_complete_witness:
  "\<exists>j. smart_io_throttle_find_meta_locked linux_kernel demo_queued (demo_request 9) = Some j"
  using find_meta_complete [OF demo_init demo_reached, of 0 "demo_request 9"] demo_queued_slot
  by (auto simp: demo_request_def)

text \<open>A background request is due exactly when throttling is on, it is queued with a time stamp, and
  the time since then has reached the configured deadline; the time stamp is what is returned.\<close>

theorem deadline_due:
  "smart_io_throttle_background_deadline_expired g (Some c) (Some rq) now = Some ts \<longleftrightarrow>
   smart_io_throttle_enabled g \<and>
   (\<exists>i. smart_io_throttle_rq_meta c rq = Some i \<and> m_class (c_meta_pool c i) = SMART_IO_RQ_BACKGROUND \<and>
     m_queued (c_meta_pool c i) \<and> m_queued_ts_ns (c_meta_pool c i) = ts) \<and>
   ts \<noteq> 0 \<and> unat ts + unat (smart_io_throttle_get_background_deadline_ms g) * 1000000 \<le> unat now \<and> ts < now"
proof -
  let ?D = "smart_io_throttle_get_background_deadline_ms g"
  have D: "unat (ucast ?D * nsec_per_msec :: u64) = unat ?D * 1000000"
    using unat_le_u32_max [of ?D] by (simp add: nsec_defs unat_word_ariths unat_ucast_64)
  have "ts < now \<Longrightarrow> (\<not> now - ts < ucast ?D * nsec_per_msec) \<longleftrightarrow> unat ts + unat ?D * 1000000 \<le> unat now"
    using D by (auto simp: word_less_nat_alt unat_sub word_le_nat_alt)
  then show ?thesis
    by (auto simp: smart_io_throttle_background_deadline_expired_def Let_def not_le
        intro: rq_class.exhaust split: option.splits)
qed

text \<open>A bio marked high-priority is queued high-priority: when the kernel's packing of I/O
  priorities is a round trip for the hint, a task that may mark its bios puts them in the
  high-priority queue, whatever their priority was before, and marking keeps the real-time class.\<close>

theorem marked_bio_is_hp:
  assumes "\<And>cl p. k_prio_hint K (k_prio_value_hint K cl (k_prio_level K p) (k_hint_mask K)) = k_hint_mask K"
    and "\<And>cl p. cl \<le> k_class_idle K \<Longrightarrow>
      k_prio_class K (k_prio_value_hint K cl (k_prio_level K p) (k_hint_mask K)) = cl"
    and "k_prio_class K ioprio \<le> k_class_idle K" and "k_prio_class K ioprio \<noteq> k_class_none K"
    and "smart_io_throttle_current_can_mark_hp g t \<or> smart_io_throttle_rt_read_can_mark_hp K g ioprio op"
  shows "\<exists>p. smart_io_throttle_mark_bio_hp K g t (Some (ioprio, op)) = Some (p, op) \<and>
    smart_io_throttle_is_hp_ioprio K p \<and> k_prio_class K p = k_prio_class K ioprio \<and>
    smart_io_throttle_select_bio_queue K g' t' (Some (p, op)) = SMART_IO_QUEUE_HP"
  using assms
  by (auto simp: smart_io_throttle_mark_bio_hp_def smart_io_throttle_add_hp_hint_def Let_def
      smart_io_throttle_is_hp_ioprio_def smart_io_throttle_select_bio_queue_def not_le)

lemma prio_hint_law:
  "k_prio_hint linux_kernel (k_prio_value_hint linux_kernel cl (k_prio_level linux_kernel p)
     (k_hint_mask linux_kernel)) = k_hint_mask linux_kernel"
proof -
  have "drop_bit 3 (push_bit 13 (ucast cl) OR push_bit 3 1023 OR (p AND 7)) AND 1023 = (1023 :: u16)"
  proof (rule bit_word_eqI)
    fix n assume "n < LENGTH(16)"
    then have "n \<in> {0..<16}" by simp
    then have "n \<in> set [0..<16]" by simp
    then show "bit (drop_bit 3 (push_bit 13 (ucast cl) OR push_bit 3 1023 OR (p AND 7)) AND 1023 :: u16) n = bit (1023 :: u16) n"
      by (auto simp: upt_rec bit_simps)
  qed
  then show ?thesis by (simp add: linux_kernel_def)
qed

lemma prio_class_law:
  assumes "cl \<le> k_class_idle linux_kernel"
  shows "k_prio_class linux_kernel (k_prio_value_hint linux_kernel cl (k_prio_level linux_kernel p)
     (k_hint_mask linux_kernel)) = cl"
proof -
  have "drop_bit 13 (push_bit 13 x OR push_bit 3 1023 OR (p AND 7)) = (x AND 7 :: u16)" for x
  proof (rule bit_word_eqI)
    fix n assume "n < LENGTH(16)"
    then have "n \<in> set [0..<16]" by simp
    then show "bit (drop_bit 13 (push_bit 13 x OR push_bit 3 1023 OR (p AND 7)) :: u16) n = bit (x AND 7 :: u16) n"
      by (auto simp: upt_rec bit_simps)
  qed
  moreover have "cl \<in> {0, 1, 2, 3}"
  proof -
    have "unat cl \<le> 3" using assms by (simp add: linux_kernel_def word_le_nat_alt)
    then show ?thesis unfolding insert_iff word_unat_eq_iff by auto
  qed
  ultimately show ?thesis by (auto simp: linux_kernel_def)
qed

lemma marked_bio_is_hp_witness:
  "\<exists>p. smart_io_throttle_mark_bio_hp linux_kernel demo_globals
      \<lparr>cur_uid = 10077, cur_pid = 4, cur_comm = ''app'', fg_uid = 10077, fg_main_pid = 4\<rparr> (Some (16388, REQ_OP_READ)) =
    Some (p, REQ_OP_READ) \<and> smart_io_throttle_is_hp_ioprio linux_kernel p"
proof -
  let ?t = "\<lparr>cur_uid = 10077, cur_pid = 4, cur_comm = ''app'', fg_uid = 10077, fg_main_pid = 4\<rparr>"
  have "k_prio_class linux_kernel 16388 = 2" by (simp add: linux_kernel_def)
  moreover have "smart_io_throttle_current_can_mark_hp demo_globals ?t"
    by (simp add: smart_io_throttle_current_can_mark_hp_def smart_io_throttle_current_uid_is_fg_def
        demo_globals_def initial_globals_def)
  ultimately show ?thesis
    using marked_bio_is_hp [OF prio_hint_law prio_class_law, of 16388 demo_globals ?t REQ_OP_READ]
    by (fastforce simp: linux_kernel_def)
qed

end
