(* ===== verification/Deadline.thy ===== *)
theory Deadline
  imports Throttle_Laws "HOL-Library.Tree"
begin

text \<open>
  The elevator of \<open>smart_deadline.c\<close> (the code outside \<open>#if 0\<close>): three priorities,
  each with a dispatch list, a position-sorted tree and an arrival-ordered list per direction.
  A request is named by its pointer; its mutable fields are in the store \<open>dd_rqs\<close>.  The
  intrusive node \<open>queuelist\<close> is in at most one list, so \<open>list_del\<close> removes the
  request from every list.  The red-black tree, the request hash and the merge search are the
  kernel's: \<open>elv_lib\<close> holds them.
\<close>

section \<open>Data\<close>

datatype dd_data_dir = DD_READ | DD_WRITE

datatype dd_prio = DD_HP_PRIO | DD_RT_PRIO | DD_BE_PRIO

text \<open>The cast from the queue class to the priority: both count from 0.\<close>

fun prio_of_queue :: "queue_class \<Rightarrow> dd_prio" where
  "prio_of_queue SMART_IO_QUEUE_HP = DD_HP_PRIO"
| "prio_of_queue SMART_IO_QUEUE_RT = DD_RT_PRIO"
| "prio_of_queue SMART_IO_QUEUE_BE = DD_BE_PRIO"

text \<open>The elements of a request the elevator writes, beside the fields of the block layer.\<close>

record elv_request =
  er_rq :: request
  er_fifo_time :: u64
  er_rb :: bool
  er_priv0 :: "dd_prio option"
  er_started :: bool

record dd_per_prio =
  pp_dispatch :: "nat list"
  pp_sort_list :: "dd_data_dir \<Rightarrow> nat tree"
  pp_fifo_list :: "dd_data_dir \<Rightarrow> nat list"
  pp_latest_pos :: "dd_data_dir \<Rightarrow> u64"
  pp_inserted :: u32
  pp_merged :: u32
  pp_dispatched :: u32
  pp_completed :: u32

record deadline_data =
  dd_per_prio :: "dd_prio \<Rightarrow> dd_per_prio"
  dd_throttle :: throttle_ctx
  dd_last_dir :: dd_data_dir
  dd_batching :: u32
  dd_starved :: u32
  dd_fifo_expire :: "dd_data_dir \<Rightarrow> int"
  dd_fifo_batch :: int
  dd_writes_starved :: int
  dd_front_merges :: int
  dd_async_depth :: u32
  dd_prio_aging_expire :: int
  dd_rqs :: "nat \<Rightarrow> elv_request"
  dd_last_merge :: "nat option"

text \<open>What the block layer supplies: the tree by position and the merge predicates.\<close>

record bio =
  bio_ioprio :: u16
  bio_op :: req_op
  bio_end_sector :: u64

record elv_lib =
  el_rb_add :: "(nat \<Rightarrow> u64) \<Rightarrow> nat \<Rightarrow> nat tree \<Rightarrow> nat tree"
  el_rb_del :: "nat \<Rightarrow> nat tree \<Rightarrow> nat tree"
  el_rb_find :: "(nat \<Rightarrow> u64) \<Rightarrow> u64 \<Rightarrow> nat tree \<Rightarrow> nat option"
  el_bio_merge_ok :: "request \<Rightarrow> bio \<Rightarrow> bool"
  el_discard_mergable :: "request \<Rightarrow> bool"
  el_mergeable :: "request \<Rightarrow> bool"

datatype dd_effect = Throttle effect | RqHashAdd nat | RqHashDel nat | TraceBlockRqInsert nat

definition rq_data_dir :: "kernel \<Rightarrow> req_op \<Rightarrow> dd_data_dir" where
  "rq_data_dir K op = (if k_op_code K op AND 1 \<noteq> 0 then DD_WRITE else DD_READ)"

definition blk_pos :: "deadline_data \<Rightarrow> nat \<Rightarrow> u64" where
  "blk_pos dd r = rq_pos (er_rq (dd_rqs dd r))"

definition rq_dir :: "kernel \<Rightarrow> deadline_data \<Rightarrow> nat \<Rightarrow> dd_data_dir" where
  "rq_dir K dd r = rq_data_dir K (rq_op (er_rq (dd_rqs dd r)))"

definition upd_prio :: "dd_prio \<Rightarrow> (dd_per_prio \<Rightarrow> dd_per_prio) \<Rightarrow> deadline_data \<Rightarrow> deadline_data" where
  "upd_prio p f dd = dd\<lparr>dd_per_prio := (dd_per_prio dd)(p := f (dd_per_prio dd p))\<rparr>"

definition upd_rq :: "nat \<Rightarrow> (elv_request \<Rightarrow> elv_request) \<Rightarrow> deadline_data \<Rightarrow> deadline_data" where
  "upd_rq r f dd = dd\<lparr>dd_rqs := (dd_rqs dd)(r := f (dd_rqs dd r))\<rparr>"

section \<open>Lists and trees\<close>

text \<open>\<open>list_empty(&rq->queuelist)\<close> holds when the request is in no list.\<close>

definition on_list :: "deadline_data \<Rightarrow> nat \<Rightarrow> bool" where
  "on_list dd r \<longleftrightarrow> (\<exists>p \<in> {DD_HP_PRIO, DD_RT_PRIO, DD_BE_PRIO}.
     r \<in> set (pp_dispatch (dd_per_prio dd p)) \<or>
     (\<exists>d \<in> {DD_READ, DD_WRITE}. r \<in> set (pp_fifo_list (dd_per_prio dd p) d)))"

definition list_del_init :: "nat \<Rightarrow> deadline_data \<Rightarrow> deadline_data" where
  "list_del_init r dd = dd\<lparr>dd_per_prio := (\<lambda>p. (dd_per_prio dd p)
     \<lparr>pp_dispatch := removeAll r (pp_dispatch (dd_per_prio dd p)),
      pp_fifo_list := (\<lambda>d. removeAll r (pp_fifo_list (dd_per_prio dd p) d))\<rparr>)\<rparr>"

fun insert_after :: "nat \<Rightarrow> nat \<Rightarrow> nat list \<Rightarrow> nat list" where
  "insert_after r n [] = []"
| "insert_after r n (x # xs) = (if x = n then x # r # xs else x # insert_after r n xs)"

text \<open>\<open>list_move(&r->queuelist, &n->queuelist)\<close>: out of its list, then right behind \<open>n\<close>.\<close>

definition list_move :: "nat \<Rightarrow> nat \<Rightarrow> deadline_data \<Rightarrow> deadline_data" where
  "list_move r n dd =
     (let dd = list_del_init r dd in
      dd\<lparr>dd_per_prio := (\<lambda>p. (dd_per_prio dd p)
        \<lparr>pp_dispatch := insert_after r n (pp_dispatch (dd_per_prio dd p)),
         pp_fifo_list := (\<lambda>d. insert_after r n (pp_fifo_list (dd_per_prio dd p) d))\<rparr>)\<rparr>)"

text \<open>The search of \<open>deadline_from_pos\<close> down the tree: the first request at or after a position.\<close>

fun deadline_from_pos :: "(nat \<Rightarrow> u64) \<Rightarrow> u64 \<Rightarrow> nat option \<Rightarrow> nat tree \<Rightarrow> nat option" where
  "deadline_from_pos f pos res \<langle>\<rangle> = res"
| "deadline_from_pos f pos res \<langle>l, r, rr\<rangle> =
     (if pos \<le> f r then deadline_from_pos f pos (Some r) l else deadline_from_pos f pos res rr)"

definition deadline_add_rq_rb :: "kernel \<Rightarrow> elv_lib \<Rightarrow> dd_prio \<Rightarrow> nat \<Rightarrow> deadline_data \<Rightarrow> deadline_data" where
  "deadline_add_rq_rb K E p r dd =
     (let d = rq_dir K dd r in
      upd_rq r (\<lambda>e. e\<lparr>er_rb := True\<rparr>)
        (upd_prio p (\<lambda>pp. pp\<lparr>pp_sort_list := (pp_sort_list pp)
           (d := el_rb_add E (blk_pos dd) r (pp_sort_list pp d))\<rparr>) dd))"

definition deadline_del_rq_rb :: "kernel \<Rightarrow> elv_lib \<Rightarrow> dd_prio \<Rightarrow> nat \<Rightarrow> deadline_data \<Rightarrow> deadline_data" where
  "deadline_del_rq_rb K E p r dd =
     (let d = rq_dir K dd r in
      upd_rq r (\<lambda>e. e\<lparr>er_rb := False\<rparr>)
        (upd_prio p (\<lambda>pp. pp\<lparr>pp_sort_list := (pp_sort_list pp)
           (d := el_rb_del E r (pp_sort_list pp d))\<rparr>) dd))"

definition deadline_remove_request ::
  "kernel \<Rightarrow> elv_lib \<Rightarrow> dd_prio \<Rightarrow> nat \<Rightarrow> deadline_data \<Rightarrow> deadline_data \<times> dd_effect list" where
  "deadline_remove_request K E p r dd =
     (let dd = list_del_init r dd;
          dd = (if er_rb (dd_rqs dd r) then deadline_del_rq_rb K E p r dd else dd)
      in (if dd_last_merge dd = Some r then dd\<lparr>dd_last_merge := None\<rparr> else dd, [RqHashDel r]))"

definition deadline_move_request ::
  "kernel \<Rightarrow> elv_lib \<Rightarrow> dd_prio \<Rightarrow> nat \<Rightarrow> deadline_data \<Rightarrow> deadline_data \<times> dd_effect list" where
  "deadline_move_request K E p r dd = deadline_remove_request K E p r dd"

section \<open>Queries\<close>

definition dd_queued :: "deadline_data \<Rightarrow> dd_prio \<Rightarrow> u32" where
  "dd_queued dd p = pp_inserted (dd_per_prio dd p) - pp_completed (dd_per_prio dd p)"

definition dd_has_work_for_prio :: "dd_per_prio \<Rightarrow> bool" where
  "dd_has_work_for_prio pp \<longleftrightarrow>
     pp_dispatch pp \<noteq> [] \<or> pp_fifo_list pp DD_READ \<noteq> [] \<or> pp_fifo_list pp DD_WRITE \<noteq> []"

text \<open>Only called on a non-empty list; \<open>None\<close> is the undefined read of the list head.\<close>

definition deadline_check_fifo :: "u64 \<Rightarrow> deadline_data \<Rightarrow> dd_prio \<Rightarrow> dd_data_dir \<Rightarrow> bool option" where
  "deadline_check_fifo jiffies dd p d =
     (case pp_fifo_list (dd_per_prio dd p) d of
        [] \<Rightarrow> None
      | r # _ \<Rightarrow> Some (\<not> time_before jiffies (er_fifo_time (dd_rqs dd r))))"

definition deadline_fifo_request :: "deadline_data \<Rightarrow> dd_prio \<Rightarrow> dd_data_dir \<Rightarrow> nat option" where
  "deadline_fifo_request dd p d =
     (case pp_fifo_list (dd_per_prio dd p) d of [] \<Rightarrow> None | r # _ \<Rightarrow> Some r)"

definition deadline_next_request :: "deadline_data \<Rightarrow> dd_prio \<Rightarrow> dd_data_dir \<Rightarrow> nat option" where
  "deadline_next_request dd p d =
     deadline_from_pos (blk_pos dd) (pp_latest_pos (dd_per_prio dd p) d) None
       (pp_sort_list (dd_per_prio dd p) d)"

definition started_after :: "kernel \<Rightarrow> deadline_data \<Rightarrow> nat \<Rightarrow> u64 \<Rightarrow> bool" where
  "started_after K dd r latest_start =
     time_before latest_start (er_fifo_time (dd_rqs dd r) - word_of_int (dd_fifo_expire dd (rq_dir K dd r)))"

section \<open>Dispatch\<close>

text \<open>The request \<open>dd_dispatch_fifo\<close> picks: the dispatch list first, then the older list head.\<close>

definition fifo_head :: "deadline_data \<Rightarrow> dd_prio \<Rightarrow> nat option" where
  "fifo_head dd p =
     (let pp = dd_per_prio dd p in
      case pp_dispatch pp of
        r # _ \<Rightarrow> Some r
      | [] \<Rightarrow>
         (case (pp_fifo_list pp DD_READ, pp_fifo_list pp DD_WRITE) of
            ([], []) \<Rightarrow> None
          | ([], w # _) \<Rightarrow> Some w
          | (r # _, []) \<Rightarrow> Some r
          | (r # _, w # _) \<Rightarrow>
              Some (if time_before (er_fifo_time (dd_rqs dd r)) (er_fifo_time (dd_rqs dd w)) then r else w)))"

definition dd_dispatch_fifo ::
  "kernel \<Rightarrow> elv_lib \<Rightarrow> dd_prio \<Rightarrow> deadline_data \<Rightarrow> deadline_data \<times> nat option \<times> dd_effect list" where
  "dd_dispatch_fifo K E p dd =
     (case fifo_head dd p of
        None \<Rightarrow> (dd, None, [])
      | Some r \<Rightarrow>
         (let (dd, es) = deadline_move_request K E p r dd;
              dd = upd_prio p (\<lambda>pp. pp\<lparr>pp_dispatched := pp_dispatched pp + 1\<rparr>) dd;
              dd = upd_rq r (\<lambda>e. e\<lparr>er_started := True\<rparr>) dd
          in (dd, Some r, es)))"

text \<open>One attempt outside the high-priority class: only when nothing is picked yet and the gate allows.\<close>

definition dd_try_non_hp ::
  "kernel \<Rightarrow> throttle_globals \<Rightarrow> elv_lib \<Rightarrow> u64 \<Rightarrow> dd_prio
   \<Rightarrow> deadline_data \<times> nat option \<times> dd_effect list \<Rightarrow> deadline_data \<times> nat option \<times> dd_effect list" where
  "dd_try_non_hp K g E ts p s =
     (case s of (dd, ro, es) \<Rightarrow>
        if ro \<noteq> None then (dd, ro, es)
        else
        (let (c, ok, es1) = smart_io_throttle_non_hp_allowed g ts (dd_throttle dd);
             dd = dd\<lparr>dd_throttle := c\<rparr> in
         if \<not> ok then (dd, None, es @ map Throttle es1)
         else
         (let (dd, ro, es2) = dd_dispatch_fifo K E p dd in (dd, ro, es @ map Throttle es1 @ es2))))"

text \<open>Clock readings: \<open>clk 0\<close> of the model dispatch, \<open>clk 1\<close> and \<open>clk 2\<close> of the gate, \<open>clk 3\<close> of the accounting.\<close>

definition dd_dispatch_request ::
  "kernel \<Rightarrow> throttle_globals \<Rightarrow> elv_lib \<Rightarrow> (nat \<Rightarrow> nat \<Rightarrow> u64) \<Rightarrow> model_thread \<times> deadline_data
   \<Rightarrow> (model_thread \<times> deadline_data) \<times> nat option \<times> dd_effect list" where
  "dd_dispatch_request K g E clk s =
     (let (mt, dd) = s;
          (mt, c, es0) = smart_io_throttle_dispatch_model_if_needed g (clk 0) mt (dd_throttle dd);
          dd = dd\<lparr>dd_throttle := c\<rparr>;
          (dd, ro, es) = dd_try_non_hp K g E (clk 2 0) DD_BE_PRIO
                          (dd_try_non_hp K g E (clk 1 0) DD_RT_PRIO (dd_dispatch_fifo K E DD_HP_PRIO dd))
      in case ro of
           None \<Rightarrow> ((mt, dd), None, map Throttle es0 @ es)
         | Some r \<Rightarrow>
            (let (c, es1) = smart_io_throttle_account_dispatch g (clk 3) (er_rq (dd_rqs dd r))
                              SMART_IO_SELECTION_BACKGROUND_BASELINE (dd_throttle dd)
             in ((mt, dd\<lparr>dd_throttle := c\<rparr>), Some r, map Throttle es0 @ es @ map Throttle es1)))"

definition dd_has_work ::
  "throttle_globals \<Rightarrow> u64 \<Rightarrow> deadline_data \<Rightarrow> deadline_data \<times> bool \<times> dd_effect list" where
  "dd_has_work g ts dd =
     (if \<not> smart_io_throttle_enabled g then
        (dd, list_ex (\<lambda>p. dd_has_work_for_prio (dd_per_prio dd p)) [DD_HP_PRIO, DD_RT_PRIO, DD_BE_PRIO], [])
      else if smart_io_throttle_model_dispatch_needed g (Some (dd_throttle dd)) then (dd, True, [])
      else if dd_has_work_for_prio (dd_per_prio dd DD_HP_PRIO) then (dd, True, [])
      else if \<not> dd_has_work_for_prio (dd_per_prio dd DD_RT_PRIO) \<and>
              \<not> dd_has_work_for_prio (dd_per_prio dd DD_BE_PRIO) then (dd, False, [])
      else (let (c, ok, es) = smart_io_throttle_non_hp_allowed g ts (dd_throttle dd)
            in (dd\<lparr>dd_throttle := c\<rparr>, ok, map Throttle es)))"

section \<open>Merging\<close>

datatype elv_merge = ELEVATOR_NO_MERGE | ELEVATOR_FRONT_MERGE | ELEVATOR_BACK_MERGE | ELEVATOR_DISCARD_MERGE

definition select_prio :: "kernel \<Rightarrow> throttle_globals \<Rightarrow> task_ctx \<Rightarrow> deadline_data \<Rightarrow> nat \<Rightarrow> dd_prio" where
  "select_prio K g t dd r =
     prio_of_queue (smart_io_throttle_select_queue K g t (dd_throttle dd) (Some (er_rq (dd_rqs dd r))))"

definition upd_throttle :: "(throttle_ctx \<Rightarrow> throttle_ctx) \<Rightarrow> deadline_data \<Rightarrow> deadline_data" where
  "upd_throttle f dd = dd\<lparr>dd_throttle := f (dd_throttle dd)\<rparr>"

definition dd_request_merged ::
  "kernel \<Rightarrow> throttle_globals \<Rightarrow> task_ctx \<Rightarrow> elv_lib \<Rightarrow> nat \<Rightarrow> elv_merge \<Rightarrow> deadline_data \<Rightarrow> deadline_data" where
  "dd_request_merged K g t E r type dd =
     (let p = select_prio K g t dd r;
          dd = (if type = ELEVATOR_FRONT_MERGE
                then deadline_add_rq_rb K E p r (deadline_del_rq_rb K E p r dd) else dd)
      in upd_throttle (smart_io_throttle_update_request K (er_rq (dd_rqs dd r))) dd)"

definition dd_merged_requests ::
  "kernel \<Rightarrow> throttle_globals \<Rightarrow> task_ctx \<Rightarrow> elv_lib \<Rightarrow> nat \<Rightarrow> nat \<Rightarrow> deadline_data
   \<Rightarrow> deadline_data \<times> dd_effect list" where
  "dd_merged_requests K g t E r n dd =
     (let p = select_prio K g t dd n;
          dd = upd_throttle (smart_io_throttle_update_request K (er_rq (dd_rqs dd r))) dd;
          dd = upd_throttle (smart_io_throttle_unqueue_request (er_rq (dd_rqs dd n))) dd;
          dd = upd_prio p (\<lambda>pp. pp\<lparr>pp_merged := pp_merged pp + 1\<rparr>) dd;
          dd = (if on_list dd r \<and> on_list dd n \<and>
                   time_before (er_fifo_time (dd_rqs dd n)) (er_fifo_time (dd_rqs dd r))
                then upd_rq r (\<lambda>e. e\<lparr>er_fifo_time := er_fifo_time (dd_rqs dd n)\<rparr>) (list_move r n dd)
                else dd)
      in deadline_remove_request K E p n dd)"

text \<open>Whether a bio can be merged in front of a request, and which one.\<close>

definition dd_request_merge ::
  "kernel \<Rightarrow> throttle_globals \<Rightarrow> task_ctx \<Rightarrow> elv_lib \<Rightarrow> bio \<Rightarrow> deadline_data \<Rightarrow> nat option \<times> elv_merge" where
  "dd_request_merge K g t E b dd =
     (let p = prio_of_queue (smart_io_throttle_select_bio_queue K g t (Some (bio_ioprio b, bio_op b))) in
      if dd_front_merges dd = 0 then (None, ELEVATOR_NO_MERGE)
      else
        case el_rb_find E (blk_pos dd) (bio_end_sector b)
               (pp_sort_list (dd_per_prio dd p) (rq_data_dir K (bio_op b))) of
          None \<Rightarrow> (None, ELEVATOR_NO_MERGE)
        | Some r \<Rightarrow>
            if el_bio_merge_ok E (er_rq (dd_rqs dd r)) b
            then (Some r, if el_discard_mergable E (er_rq (dd_rqs dd r))
                          then ELEVATOR_DISCARD_MERGE else ELEVATOR_FRONT_MERGE)
            else (None, ELEVATOR_NO_MERGE))"

text \<open>
  What \<open>blk_mq_sched_try_insert_merge\<close> did with a request: the chain of requests it was
  merged into, each with its fields after the merge, for which the block layer calls back.
\<close>

fun insert_merges ::
  "kernel \<Rightarrow> throttle_globals \<Rightarrow> task_ctx \<Rightarrow> elv_lib \<Rightarrow> (nat \<times> request) list \<Rightarrow> nat \<Rightarrow> deadline_data
   \<Rightarrow> deadline_data \<times> dd_effect list" where
  "insert_merges K g t E [] n dd = (dd, [])"
| "insert_merges K g t E ((r, v) # ms) n dd =
     (let (dd, es) = dd_merged_requests K g t E r n (upd_rq r (\<lambda>e. e\<lparr>er_rq := v\<rparr>) dd);
          (dd, es') = insert_merges K g t E ms r dd
      in (dd, es @ es'))"

section \<open>Insertion\<close>

record insert_env =
  ie_task :: task_ctx
  ie_now :: u64
  ie_jiffies :: u64
  ie_merges :: "(nat \<times> request) list"

text \<open>The part before the merge attempt: classification, priority, the hint, the counter.\<close>

definition insert_mark :: "kernel \<Rightarrow> dd_prio \<Rightarrow> nat \<Rightarrow> deadline_data \<Rightarrow> deadline_data" where
  "insert_mark K p r dd =
     (if p = DD_HP_PRIO
      then upd_rq r (\<lambda>e. e\<lparr>er_rq := smart_io_throttle_mark_request_hp K (er_rq e)\<rparr>) dd else dd)"

definition insert_count :: "dd_prio \<Rightarrow> nat \<Rightarrow> deadline_data \<Rightarrow> deadline_data" where
  "insert_count p r dd =
     upd_rq r (\<lambda>e. e\<lparr>er_priv0 := Some p\<rparr>)
       (if er_priv0 (dd_rqs dd r) = None
        then upd_prio p (\<lambda>pp. pp\<lparr>pp_inserted := pp_inserted pp + 1\<rparr>) dd else dd)"

definition insert_classify ::
  "kernel \<Rightarrow> throttle_globals \<Rightarrow> insert_env \<Rightarrow> nat \<Rightarrow> deadline_data \<Rightarrow> deadline_data \<times> dd_prio" where
  "insert_classify K g ie r dd =
     (let dd = upd_throttle (smart_io_throttle_classify_request K g (ie_task ie) (ie_now ie)
                               (er_rq (dd_rqs dd r))) dd;
          p = select_prio K g (ie_task ie) dd r
      in (insert_count p r (insert_mark K p r dd), p))"

definition insert_queue ::
  "kernel \<Rightarrow> elv_lib \<Rightarrow> insert_env \<Rightarrow> bool \<Rightarrow> dd_prio \<Rightarrow> nat \<Rightarrow> deadline_data
   \<Rightarrow> deadline_data \<times> dd_effect list" where
  "insert_queue K E ie at_head p r dd =
     (if at_head then
        (upd_rq r (\<lambda>e. e\<lparr>er_fifo_time := ie_jiffies ie\<rparr>)
           (upd_prio p (\<lambda>pp. pp\<lparr>pp_dispatch := r # pp_dispatch pp\<rparr>) dd), [])
      else
      (let dd = deadline_add_rq_rb K E p r dd;
           mergeable = el_mergeable E (er_rq (dd_rqs dd r));
           dd = (if mergeable \<and> dd_last_merge dd = None then dd\<lparr>dd_last_merge := Some r\<rparr> else dd);
           dd = upd_rq r (\<lambda>e. e\<lparr>er_fifo_time := ie_jiffies ie\<rparr>) dd;
           d = rq_dir K dd r
       in (upd_prio p (\<lambda>pp. pp\<lparr>pp_fifo_list := (pp_fifo_list pp)(d := pp_fifo_list pp d @ [r])\<rparr>) dd,
           if mergeable then [RqHashAdd r] else [])))"

definition dd_insert_request ::
  "kernel \<Rightarrow> throttle_globals \<Rightarrow> elv_lib \<Rightarrow> insert_env \<Rightarrow> bool \<Rightarrow> nat \<Rightarrow> deadline_data
   \<Rightarrow> deadline_data \<times> dd_effect list" where
  "dd_insert_request K g E ie at_head r dd =
     (case insert_classify K g ie r dd of (dd, p) \<Rightarrow>
        if ie_merges ie \<noteq> [] then insert_merges K g (ie_task ie) E (ie_merges ie) r dd
        else (case insert_queue K E ie at_head p r dd of (dd, es) \<Rightarrow> (dd, TraceBlockRqInsert r # es)))"

fun dd_insert_requests ::
  "kernel \<Rightarrow> throttle_globals \<Rightarrow> elv_lib \<Rightarrow> bool \<Rightarrow> (nat \<times> insert_env) list \<Rightarrow> deadline_data
   \<Rightarrow> deadline_data \<times> dd_effect list" where
  "dd_insert_requests K g E at_head [] dd = (dd, [])"
| "dd_insert_requests K g E at_head ((r, ie) # rs) dd =
     (let (dd, es) = dd_insert_request K g E ie at_head r dd;
          (dd, es') = dd_insert_requests K g E at_head rs dd
      in (dd, es @ es'))"

section \<open>Preparation and completion\<close>

definition dd_prepare_request :: "nat \<Rightarrow> deadline_data \<Rightarrow> deadline_data" where
  "dd_prepare_request r dd =
     (let dd = upd_rq r (\<lambda>e. e\<lparr>er_priv0 := None\<rparr>) dd
      in upd_throttle (smart_io_throttle_prepare_request (Some (er_rq (dd_rqs dd r)))) dd)"

text \<open>\<open>has_elevator\<close>: whether the queue of the request has an elevator; it is this one.\<close>

definition finish_throttle ::
  "throttle_globals \<Rightarrow> u64 \<Rightarrow> bool \<Rightarrow> elv_request \<Rightarrow> deadline_data \<Rightarrow> deadline_data \<times> dd_effect list" where
  "finish_throttle g ts has_elevator e dd =
     (if er_priv0 e \<noteq> None \<or> (rq_q (er_rq e) \<noteq> None \<and> has_elevator)
      then (case smart_io_throttle_finish_request g ts (er_rq e) (dd_throttle dd) of
              (c, es) \<Rightarrow> (dd\<lparr>dd_throttle := c\<rparr>, map Throttle es))
      else (dd, []))"

definition dd_finish_request ::
  "throttle_globals \<Rightarrow> u64 \<Rightarrow> bool \<Rightarrow> nat \<Rightarrow> deadline_data \<Rightarrow> deadline_data \<times> dd_effect list" where
  "dd_finish_request g ts has_elevator r dd =
     (let e = dd_rqs dd r;
          (dd, es) = finish_throttle g ts has_elevator e dd;
          dd = (case er_priv0 e of
                  Some p \<Rightarrow> upd_prio p (\<lambda>pp. pp\<lparr>pp_completed := pp_completed pp + 1\<rparr>) dd
                | None \<Rightarrow> dd)
      in (upd_rq r (\<lambda>e. e\<lparr>er_priv0 := None\<rparr>) dd, es))"

section \<open>Depth limits\<close>

definition dd_to_word_depth :: "nat \<Rightarrow> u32 \<Rightarrow> u32 \<Rightarrow> u32" where
  "dd_to_word_depth shift nr_requests qdepth = (push_bit shift qdepth + nr_requests - 1) div nr_requests"

text \<open>The new \<open>shallow_depth\<close> of an allocation, if it is set.\<close>

definition dd_limit_depth :: "bool \<Rightarrow> bool \<Rightarrow> nat \<Rightarrow> u32 \<Rightarrow> deadline_data \<Rightarrow> u32 option" where
  "dd_limit_depth op_is_sync op_is_write shift nr_requests dd =
     (if op_is_sync \<and> \<not> op_is_write then None
      else Some (dd_to_word_depth shift nr_requests (dd_async_depth dd)))"

definition dd_depth_updated :: "u32 \<Rightarrow> deadline_data \<Rightarrow> deadline_data" where
  "dd_depth_updated nr_requests dd = dd\<lparr>dd_async_depth := nr_requests\<rparr>"

definition dd_init_hctx :: "u32 \<Rightarrow> deadline_data \<Rightarrow> deadline_data" where
  "dd_init_hctx nr_requests dd = dd_depth_updated nr_requests dd"

section \<open>Life of the elevator\<close>

definition empty_prio :: dd_per_prio where
  "empty_prio = \<lparr>pp_dispatch = [], pp_sort_list = (\<lambda>_. \<langle>\<rangle>), pp_fifo_list = (\<lambda>_. []), pp_latest_pos = (\<lambda>_. 0),
     pp_inserted = 0, pp_merged = 0, pp_dispatched = 0, pp_completed = 0\<rparr>"

text \<open>
  \<open>elv_ok\<close> and \<open>dd_ok\<close> say whether the two allocations succeeded; \<open>throttle\<close> is the
  result of \<open>smart_io_throttle_queue_init\<close>; \<open>hz\<close> is the tick rate of the kernel.
\<close>

definition dd_init_sched ::
  "int \<Rightarrow> bool \<Rightarrow> bool \<Rightarrow> errno + throttle_ctx \<Rightarrow> (nat \<Rightarrow> elv_request) \<Rightarrow> errno + deadline_data" where
  "dd_init_sched hz elv_ok dd_ok throttle rqs =
     (if \<not> elv_ok then Inl ENOMEM
      else if \<not> dd_ok then Inl ENOMEM
      else case throttle of
        Inl e \<Rightarrow> Inl e
      | Inr c \<Rightarrow> Inr \<lparr>dd_per_prio = (\<lambda>_. empty_prio), dd_throttle = c, dd_last_dir = DD_WRITE,
          dd_batching = 0, dd_starved = 0,
          dd_fifo_expire = (\<lambda>d. case d of DD_READ \<Rightarrow> hz div 2 | DD_WRITE \<Rightarrow> 5 * hz),
          dd_fifo_batch = 16, dd_writes_starved = 2, dd_front_merges = 1, dd_async_depth = 0,
          dd_prio_aging_expire = 10 * hz, dd_rqs = rqs, dd_last_merge = None\<rparr>)"

text \<open>Tear-down: the throttle's part, then per priority the warnings on the two lists and the counters.\<close>

definition dd_exit_sched ::
  "model_thread \<Rightarrow> deadline_data \<Rightarrow> (model_thread \<times> throttle_ctx \<times> effect list \<times> bool list \<times> bool) \<times> bool list" where
  "dd_exit_sched mt dd =
     (smart_io_throttle_queue_exit mt (dd_throttle dd),
      concat (map (\<lambda>p. [pp_fifo_list (dd_per_prio dd p) DD_READ \<noteq> [], pp_fifo_list (dd_per_prio dd p) DD_WRITE \<noteq> [],
                        dd_queued dd p \<noteq> 0]) [DD_HP_PRIO, DD_RT_PRIO, DD_BE_PRIO]))"

definition smart_deadline_rq_is_foreground :: "bool \<Rightarrow> throttle_ctx \<Rightarrow> request option \<Rightarrow> bool" where
  "smart_deadline_rq_is_foreground elevator_is_smart c rqo =
     (case rqo of
        None \<Rightarrow> False
      | Some rq \<Rightarrow>
          if rq_q rq = None \<or> \<not> elevator_is_smart then False
          else smart_io_throttle_rq_class c (Some rq) = SMART_IO_RQ_FOREGROUND)"

section \<open>The attributes\<close>

datatype dd_attr = ReadExpire | WriteExpire | WritesStarved | FrontMerges | AsyncDepth | FifoBatch | PrioAgingExpire

definition INT_MAX :: int where [simp]: "INT_MAX = 2147483647"
definition INT_MIN :: int where [simp]: "INT_MIN = - 2147483648"

text \<open>The bounds the macros give each attribute.\<close>

fun attr_min :: "dd_attr \<Rightarrow> int" where
  "attr_min WritesStarved = INT_MIN"
| "attr_min AsyncDepth = 1"
| "attr_min _ = 0"

fun attr_max :: "dd_attr \<Rightarrow> int" where
  "attr_max FrontMerges = 1"
| "attr_max _ = INT_MAX"

definition clamp_int :: "int \<Rightarrow> int \<Rightarrow> int \<Rightarrow> int" where
  "clamp_int lo hi v = (if v < lo then lo else if v > hi then hi else v)"

text \<open>The conversions between milliseconds and jiffies are the kernel's.\<close>

fun deadline_store ::
  "(int \<Rightarrow> int) \<Rightarrow> dd_attr \<Rightarrow> errno + int \<Rightarrow> nat \<Rightarrow> deadline_data \<Rightarrow> deadline_data \<times> (errno + nat)" where
  "deadline_store to_jiffies a (Inl e) count dd = (dd, Inl e)"
| "deadline_store to_jiffies a (Inr v) count dd =
     (let x = clamp_int (attr_min a) (attr_max a) v in
      (case a of
         ReadExpire \<Rightarrow> dd\<lparr>dd_fifo_expire := (dd_fifo_expire dd)(DD_READ := to_jiffies x)\<rparr>
       | WriteExpire \<Rightarrow> dd\<lparr>dd_fifo_expire := (dd_fifo_expire dd)(DD_WRITE := to_jiffies x)\<rparr>
       | WritesStarved \<Rightarrow> dd\<lparr>dd_writes_starved := x\<rparr>
       | FrontMerges \<Rightarrow> dd\<lparr>dd_front_merges := x\<rparr>
       | AsyncDepth \<Rightarrow> dd\<lparr>dd_async_depth := word_of_int x\<rparr>
       | FifoBatch \<Rightarrow> dd\<lparr>dd_fifo_batch := x\<rparr>
       | PrioAgingExpire \<Rightarrow> dd\<lparr>dd_prio_aging_expire := to_jiffies x\<rparr>, Inr count))"

fun deadline_show :: "(int \<Rightarrow> int) \<Rightarrow> dd_attr \<Rightarrow> deadline_data \<Rightarrow> int" where
  "deadline_show to_msecs ReadExpire dd = to_msecs (dd_fifo_expire dd DD_READ)"
| "deadline_show to_msecs WriteExpire dd = to_msecs (dd_fifo_expire dd DD_WRITE)"
| "deadline_show to_msecs WritesStarved dd = dd_writes_starved dd"
| "deadline_show to_msecs FrontMerges dd = dd_front_merges dd"
| "deadline_show to_msecs AsyncDepth dd = sint (dd_async_depth dd)"
| "deadline_show to_msecs FifoBatch dd = dd_fifo_batch dd"
| "deadline_show to_msecs PrioAgingExpire dd = to_msecs (dd_prio_aging_expire dd)"

end
