(* ===== verification/Deadline_Lists.thy ===== *)
theory Deadline_Lists
  imports Deadline "HOL-Library.Multiset"
begin

text \<open>
  The lists of the elevator: a request waits in at most one list and at most once, the
  position-sorted tree of a priority and direction holds exactly the requests of its arrival
  list, and insertion, dispatch and merging keep this.
\<close>

declare set_inorder [simp del]

section \<open>The tree by position\<close>

text \<open>The binary search finds the first request at or after the position in sorted order.\<close>

lemma from_pos_find:
  "sorted (map f (inorder t)) \<Longrightarrow>
   deadline_from_pos f pos res t = (case find (\<lambda>r. pos \<le> f r) (inorder t) of Some r \<Rightarrow> Some r | None \<Rightarrow> res)"
proof (induction t arbitrary: res)
  case (Node l x r)
  have s: "sorted (map f (inorder l))" "sorted (map f (inorder r))"
    "\<forall>y \<in> set (inorder l). f y \<le> f x" "\<forall>y \<in> set (inorder r). f x \<le> f y"
    using Node.prems by (simp_all add: sorted_append)
  have find_app: "find P (xs @ ys) = (case find P xs of None \<Rightarrow> find P ys | Some z \<Rightarrow> Some z)" for P and xs ys :: "nat list"
    by (induction xs) auto
  show ?case
  proof (cases "pos \<le> f x")
    case True
    then show ?thesis using Node.IH(1) [OF s(1)] by (simp add: find_app split: option.split)
  next
    case False
    have "find (\<lambda>r. pos \<le> f r) (inorder l) = None"
      using False s(3) by (force simp: find_None_iff)
    then show ?thesis using False Node.IH(2) [OF s(2)] by (simp add: find_app)
  qed
qed simp

text \<open>What the block layer promises of its tree: insertion keeps it sorted, deletion is by identity.\<close>

definition elv_rb_ok :: "elv_lib \<Rightarrow> bool" where
  "elv_rb_ok E \<longleftrightarrow>
     (\<forall>f r t. set (inorder (el_rb_add E f r t)) = insert r (set (inorder t)) \<and>
        (distinct (inorder t) \<longrightarrow> r \<notin> set (inorder t) \<longrightarrow> distinct (inorder (el_rb_add E f r t))) \<and>
        (sorted (map f (inorder t)) \<longrightarrow> sorted (map f (inorder (el_rb_add E f r t))))) \<and>
     (\<forall>r t. inorder (el_rb_del E r t) = filter (\<lambda>x. x \<noteq> r) (inorder t))"

lemma rb_add:
  assumes "elv_rb_ok E"
  shows "set (inorder (el_rb_add E f r t)) = insert r (set (inorder t))"
    and "distinct (inorder t) \<Longrightarrow> r \<notin> set (inorder t) \<Longrightarrow> distinct (inorder (el_rb_add E f r t))"
    and "sorted (map f (inorder t)) \<Longrightarrow> sorted (map f (inorder (el_rb_add E f r t)))"
  using assms by (simp_all add: elv_rb_ok_def)

lemma rb_del: "elv_rb_ok E \<Longrightarrow> inorder (el_rb_del E r t) = filter (\<lambda>x. x \<noteq> r) (inorder t)"
  by (simp add: elv_rb_ok_def)

lemma sorted_map_filter: "sorted (map f xs) \<Longrightarrow> sorted (map f (filter P xs))"
  by (induction xs) auto

section \<open>The waiting requests\<close>

definition prio_lists :: "dd_per_prio \<Rightarrow> nat list" where
  "prio_lists pp = pp_dispatch pp @ pp_fifo_list pp DD_READ @ pp_fifo_list pp DD_WRITE"

definition waiting :: "deadline_data \<Rightarrow> nat list" where
  "waiting dd = prio_lists (dd_per_prio dd DD_HP_PRIO) @ prio_lists (dd_per_prio dd DD_RT_PRIO) @
     prio_lists (dd_per_prio dd DD_BE_PRIO)"

lemma prio_cases: "(\<forall>p. P p) \<longleftrightarrow> P DD_HP_PRIO \<and> P DD_RT_PRIO \<and> P DD_BE_PRIO"
  by (metis dd_prio.exhaust)

lemma dir_cases: "(\<forall>d. P d) \<longleftrightarrow> P DD_READ \<and> P DD_WRITE"
  by (metis dd_data_dir.exhaust)

lemma waiting_iff: "r \<in> set (waiting dd) \<longleftrightarrow> (\<exists>p. r \<in> set (prio_lists (dd_per_prio dd p)))"
proof -
  have "(\<exists>p. Q p) \<longleftrightarrow> Q DD_HP_PRIO \<or> Q DD_RT_PRIO \<or> Q DD_BE_PRIO" for Q
    by (metis dd_prio.exhaust)
  then show ?thesis by (simp add: waiting_def)
qed

lemma on_list_iff: "on_list dd r \<longleftrightarrow> r \<in> set (waiting dd)"
  by (auto simp: on_list_def waiting_def prio_lists_def)

text \<open>The trees mirror the arrival lists.\<close>

definition tree_ok :: "kernel \<Rightarrow> deadline_data \<Rightarrow> dd_prio \<Rightarrow> dd_data_dir \<Rightarrow> bool" where
  "tree_ok K dd p d \<longleftrightarrow>
     (let t = pp_sort_list (dd_per_prio dd p) d in
      set (inorder t) = set (pp_fifo_list (dd_per_prio dd p) d) \<and> distinct (inorder t) \<and>
      sorted (map (blk_pos dd) (inorder t)) \<and>
      (\<forall>r \<in> set (inorder t). rq_dir K dd r = d \<and> er_rb (dd_rqs dd r)))"

definition dd_inv :: "kernel \<Rightarrow> deadline_data \<Rightarrow> bool" where
  "dd_inv K dd \<longleftrightarrow>
     distinct (waiting dd) \<and> (\<forall>p d. tree_ok K dd p d) \<and>
     (\<forall>r. er_rb (dd_rqs dd r) \<longrightarrow> (\<exists>p d. r \<in> set (inorder (pp_sort_list (dd_per_prio dd p) d)))) \<and>
     (\<forall>r. rq_ptr (er_rq (dd_rqs dd r)) = r)"

lemma dd_invD:
  assumes "dd_inv K dd"
  shows "distinct (waiting dd)" and "tree_ok K dd p d"
    and "er_rb (dd_rqs dd r) \<Longrightarrow> \<exists>p d. r \<in> set (inorder (pp_sort_list (dd_per_prio dd p) d))"
    and "rq_ptr (er_rq (dd_rqs dd r)) = r"
  using assms by (simp_all add: dd_inv_def)

lemma distinct_waiting:
  assumes "distinct (waiting dd)" and "r \<in> set (prio_lists (dd_per_prio dd p))"
    and "r \<in> set (prio_lists (dd_per_prio dd q))"
  shows "p = q"
  using assms by (cases p; cases q; auto simp: waiting_def)

lemma distinct_dirs:
  assumes "distinct (waiting dd)" and "r \<in> set (pp_fifo_list (dd_per_prio dd p) d)"
  shows "r \<notin> set (pp_dispatch (dd_per_prio dd p))"
    and "r \<in> set (pp_fifo_list (dd_per_prio dd p) e) \<Longrightarrow> e = d"
  using assms by (cases p; cases d; cases e; auto simp: waiting_def prio_lists_def)+

text \<open>Where a request with a tree node is.\<close>

lemma rb_place:
  assumes "dd_inv K dd" and "er_rb (dd_rqs dd r)"
  shows "\<exists>p. r \<in> set (pp_fifo_list (dd_per_prio dd p) (rq_dir K dd r))"
proof -
  obtain p d where "r \<in> set (inorder (pp_sort_list (dd_per_prio dd p) d))" using dd_invD(3) [OF assms] by blast
  then show ?thesis using dd_invD(2) [OF assms(1), of p d] by (auto simp: tree_ok_def Let_def)
qed

lemma fifo_waiting: "r \<in> set (pp_fifo_list (dd_per_prio dd p) d) \<Longrightarrow> r \<in> set (prio_lists (dd_per_prio dd p))"
  by (cases d) (auto simp: prio_lists_def)

section \<open>Fields of the requests\<close>

lemma upd_rq_fields [simp]:
  "dd_per_prio (upd_rq r f dd) = dd_per_prio dd" "dd_throttle (upd_rq r f dd) = dd_throttle dd"
  "dd_last_merge (upd_rq r f dd) = dd_last_merge dd"
  "dd_rqs (upd_rq r f dd) = (dd_rqs dd)(r := f (dd_rqs dd r))"
  by (simp_all add: upd_rq_def)

lemma upd_prio_fields [simp]:
  "dd_rqs (upd_prio p f dd) = dd_rqs dd" "dd_throttle (upd_prio p f dd) = dd_throttle dd"
  "dd_last_merge (upd_prio p f dd) = dd_last_merge dd"
  "dd_per_prio (upd_prio p f dd) = (dd_per_prio dd)(p := f (dd_per_prio dd p))"
  by (simp_all add: upd_prio_def)

lemma upd_throttle_fields [simp]:
  "dd_rqs (upd_throttle f dd) = dd_rqs dd" "dd_per_prio (upd_throttle f dd) = dd_per_prio dd"
  "dd_throttle (upd_throttle f dd) = f (dd_throttle dd)" "dd_last_merge (upd_throttle f dd) = dd_last_merge dd"
  by (simp_all add: upd_throttle_def)

lemma waiting_cong: "dd_per_prio d2 = dd_per_prio d1 \<Longrightarrow> waiting d2 = waiting d1"
  by (simp add: waiting_def)

text \<open>The invariant reads the lists, the trees and four fields of the requests.\<close>

lemma dd_inv_cong:
  assumes "\<And>p. pp_dispatch (dd_per_prio d2 p) = pp_dispatch (dd_per_prio d1 p)"
    and "\<And>p. pp_fifo_list (dd_per_prio d2 p) = pp_fifo_list (dd_per_prio d1 p)"
    and "\<And>p. pp_sort_list (dd_per_prio d2 p) = pp_sort_list (dd_per_prio d1 p)"
    and "\<And>r. er_rb (dd_rqs d2 r) = er_rb (dd_rqs d1 r)"
    and "\<And>r. rq_ptr (er_rq (dd_rqs d2 r)) = rq_ptr (er_rq (dd_rqs d1 r))"
    and "\<And>r. rq_pos (er_rq (dd_rqs d2 r)) = rq_pos (er_rq (dd_rqs d1 r))"
    and "\<And>r. rq_op (er_rq (dd_rqs d2 r)) = rq_op (er_rq (dd_rqs d1 r))"
  shows "dd_inv K d2 = dd_inv K d1" and "waiting d2 = waiting d1"
proof -
  have "blk_pos d2 = blk_pos d1" "rq_dir K d2 = rq_dir K d1"
    using assms by (simp_all add: fun_eq_iff blk_pos_def rq_dir_def)
  then show "dd_inv K d2 = dd_inv K d1"
    by (simp add: dd_inv_def tree_ok_def waiting_def prio_lists_def assms)
  show "waiting d2 = waiting d1" by (simp add: waiting_def prio_lists_def assms)
qed

section \<open>Removal\<close>

lemma list_del_fields [simp]:
  "dd_rqs (list_del_init r dd) = dd_rqs dd" "dd_throttle (list_del_init r dd) = dd_throttle dd"
  "dd_last_merge (list_del_init r dd) = dd_last_merge dd"
  "pp_sort_list (dd_per_prio (list_del_init r dd) p) = pp_sort_list (dd_per_prio dd p)"
  "pp_dispatch (dd_per_prio (list_del_init r dd) p) = removeAll r (pp_dispatch (dd_per_prio dd p))"
  "pp_fifo_list (dd_per_prio (list_del_init r dd) p) d = removeAll r (pp_fifo_list (dd_per_prio dd p) d)"
  by (simp_all add: list_del_init_def)

lemma waiting_del: "waiting (list_del_init r dd) = removeAll r (waiting dd)"
  by (simp add: waiting_def prio_lists_def)

text \<open>The lists, the flag and the tree after a removal, for a request that waits in priority \<open>p\<close> or not at all.\<close>

definition removed :: "kernel \<Rightarrow> nat \<Rightarrow> dd_prio \<Rightarrow> elv_lib \<Rightarrow> deadline_data \<Rightarrow> deadline_data" where
  "removed K r p E dd = fst (deadline_remove_request K E p r dd)"

lemma removed_lists [simp]:
  "pp_dispatch (dd_per_prio (removed K r p E dd) q) = removeAll r (pp_dispatch (dd_per_prio dd q))"
  "pp_fifo_list (dd_per_prio (removed K r p E dd) q) d = removeAll r (pp_fifo_list (dd_per_prio dd q) d)"
  "dd_throttle (removed K r p E dd) = dd_throttle dd"
  "er_rq (dd_rqs (removed K r p E dd) x) = er_rq (dd_rqs dd x)"
  "er_fifo_time (dd_rqs (removed K r p E dd) x) = er_fifo_time (dd_rqs dd x)"
  "er_priv0 (dd_rqs (removed K r p E dd) x) = er_priv0 (dd_rqs dd x)"
  "er_rb (dd_rqs (removed K r p E dd) x) = (er_rb (dd_rqs dd x) \<and> x \<noteq> r)"
  by (auto simp: removed_def deadline_remove_request_def deadline_del_rq_rb_def Let_def)

lemma removed_tree:
  "pp_sort_list (dd_per_prio (removed K r p E dd) q) d =
    (if q = p \<and> d = rq_dir K dd r \<and> er_rb (dd_rqs dd r)
     then el_rb_del E r (pp_sort_list (dd_per_prio dd q) d) else pp_sort_list (dd_per_prio dd q) d)"
  by (auto simp: removed_def deadline_remove_request_def deadline_del_rq_rb_def Let_def rq_dir_def)

lemma removed_dir [simp]: "rq_dir K (removed K r p E dd) = rq_dir K dd" "blk_pos (removed K r p E dd) = blk_pos dd"
  by (simp_all add: fun_eq_iff rq_dir_def blk_pos_def)

lemma removed_waiting: "waiting (removed K r p E dd) = removeAll r (waiting dd)"
  by (simp add: waiting_def prio_lists_def)

lemma removed_inv:
  assumes E: "elv_rb_ok E" and inv: "dd_inv K dd"
    and at: "r \<in> set (prio_lists (dd_per_prio dd p)) \<or> r \<notin> set (waiting dd)"
  shows "dd_inv K (removed K r p E dd)"
proof -
  have place: "er_rb (dd_rqs dd r) \<Longrightarrow> r \<in> set (pp_fifo_list (dd_per_prio dd p) (rq_dir K dd r))"
  proof -
    assume "er_rb (dd_rqs dd r)"
    then obtain q where q: "r \<in> set (pp_fifo_list (dd_per_prio dd q) (rq_dir K dd r))"
      using rb_place [OF inv] by blast
    then have "r \<in> set (prio_lists (dd_per_prio dd q))" by (rule fifo_waiting)
    moreover have "r \<in> set (waiting dd)" using calculation by (auto simp: waiting_iff)
    ultimately have "q = p" using at distinct_waiting [OF dd_invD(1) [OF inv]] by blast
    with q show ?thesis by simp
  qed
  have t0: "tree_ok K dd q d" for q d by (rule dd_invD(2) [OF inv])
  have t: "tree_ok K (removed K r p E dd) q d" for q d
  proof (cases "q = p \<and> d = rq_dir K dd r \<and> er_rb (dd_rqs dd r)")
    case True
    then have eq: "inorder (pp_sort_list (dd_per_prio (removed K r p E dd) q) d) =
        filter (\<lambda>x. x \<noteq> r) (inorder (pp_sort_list (dd_per_prio dd q) d))"
      by (simp add: removed_tree rb_del [OF E])
    show ?thesis using t0 [of q d] unfolding tree_ok_def Let_def eq
      by (auto simp: sorted_map_filter)
  next
    case False
    have "r \<notin> set (inorder (pp_sort_list (dd_per_prio dd q) d))"
    proof
      assume m: "r \<in> set (inorder (pp_sort_list (dd_per_prio dd q) d))"
      then have rb: "er_rb (dd_rqs dd r)" "rq_dir K dd r = d" "r \<in> set (pp_fifo_list (dd_per_prio dd q) d)"
        using t0 [of q d] by (auto simp: tree_ok_def Let_def)
      then have "q = p" using place fifo_waiting distinct_waiting [OF dd_invD(1) [OF inv]] by blast
      with False rb show False by blast
    qed
    then show ?thesis using t0 [of q d] False
      by (auto simp: tree_ok_def Let_def removed_tree)
  qed
  have "\<exists>q d. x \<in> set (inorder (pp_sort_list (dd_per_prio (removed K r p E dd) q) d))"
    if rb: "er_rb (dd_rqs dd x)" and ne: "x \<noteq> r" for x
  proof -
    obtain q d where "x \<in> set (inorder (pp_sort_list (dd_per_prio dd q) d))"
      using dd_invD(3) [OF inv rb] by blast
    then have "x \<in> set (inorder (pp_sort_list (dd_per_prio (removed K r p E dd) q) d))"
      using ne by (auto simp: removed_tree rb_del [OF E])
    then show ?thesis by blast
  qed
  moreover have "distinct (waiting (removed K r p E dd))"
    using dd_invD(1) [OF inv] by (simp add: removed_waiting distinct_removeAll)
  ultimately show ?thesis using t dd_invD(4) [OF inv] by (simp add: dd_inv_def)
qed

section \<open>Dispatch\<close>

lemma fifo_head_mem: "fifo_head dd p = Some r \<Longrightarrow> r \<in> set (prio_lists (dd_per_prio dd p))"
  by (auto simp: fifo_head_def Let_def prio_lists_def split: list.splits if_splits)

lemma fifo_head_None: "fifo_head dd p = None \<longleftrightarrow> \<not> dd_has_work_for_prio (dd_per_prio dd p)"
  by (auto simp: fifo_head_def Let_def dd_has_work_for_prio_def split: list.splits)

lemma has_work_lists: "dd_has_work_for_prio pp \<longleftrightarrow> prio_lists pp \<noteq> []"
  by (simp add: dd_has_work_for_prio_def prio_lists_def)

definition started :: "dd_prio \<Rightarrow> nat \<Rightarrow> deadline_data \<Rightarrow> deadline_data" where
  "started p r dd = upd_rq r (\<lambda>e. e\<lparr>er_started := True\<rparr>)
     (upd_prio p (\<lambda>pp. pp\<lparr>pp_dispatched := pp_dispatched pp + 1\<rparr>) dd)"

lemma started_inv [simp]: "dd_inv K (started p r dd) = dd_inv K dd" "waiting (started p r dd) = waiting dd"
  "dd_throttle (started p r dd) = dd_throttle dd" "er_rq (dd_rqs (started p r dd) x) = er_rq (dd_rqs dd x)"
  by (rule dd_inv_cong; simp add: started_def)+ (simp_all add: started_def)

lemma dispatch_fifo_eq:
  "dd_dispatch_fifo K E p dd =
    (case fifo_head dd p of
       None \<Rightarrow> (dd, None, [])
     | Some r \<Rightarrow> (started p r (removed K r p E dd), Some r, [RqHashDel r]))"
  by (simp add: dd_dispatch_fifo_def deadline_move_request_def removed_def started_def case_prod_beta Let_def
      deadline_remove_request_def split: option.split)

lemma dispatch_fifo_inv:
  assumes "elv_rb_ok E" and "dd_inv K dd" and "dd_dispatch_fifo K E p dd = (dd', ro, es)"
  shows "dd_inv K dd'" and "dd_throttle dd' = dd_throttle dd"
    and "ro = fifo_head dd p"
    and "waiting dd' = (case ro of None \<Rightarrow> waiting dd | Some r \<Rightarrow> removeAll r (waiting dd))"
    and "\<And>x. er_rq (dd_rqs dd' x) = er_rq (dd_rqs dd x)"
  using assms fifo_head_mem [of dd p]
  by (auto simp: dispatch_fifo_eq removed_inv removed_waiting split: option.splits)

section \<open>Insertion\<close>

lemma add_rb_fields [simp]:
  "pp_dispatch (dd_per_prio (deadline_add_rq_rb K E p r dd) q) = pp_dispatch (dd_per_prio dd q)"
  "pp_fifo_list (dd_per_prio (deadline_add_rq_rb K E p r dd) q) = pp_fifo_list (dd_per_prio dd q)"
  "dd_throttle (deadline_add_rq_rb K E p r dd) = dd_throttle dd"
  "dd_last_merge (deadline_add_rq_rb K E p r dd) = dd_last_merge dd"
  "er_rq (dd_rqs (deadline_add_rq_rb K E p r dd) x) = er_rq (dd_rqs dd x)"
  "er_fifo_time (dd_rqs (deadline_add_rq_rb K E p r dd) x) = er_fifo_time (dd_rqs dd x)"
  "er_priv0 (dd_rqs (deadline_add_rq_rb K E p r dd) x) = er_priv0 (dd_rqs dd x)"
  "er_rb (dd_rqs (deadline_add_rq_rb K E p r dd) x) = (er_rb (dd_rqs dd x) \<or> x = r)"
  by (auto simp: deadline_add_rq_rb_def Let_def)

lemma add_rb_tree:
  "pp_sort_list (dd_per_prio (deadline_add_rq_rb K E p r dd) q) d =
    (if q = p \<and> d = rq_dir K dd r then el_rb_add E (blk_pos dd) r (pp_sort_list (dd_per_prio dd q) d)
     else pp_sort_list (dd_per_prio dd q) d)"
  by (auto simp: deadline_add_rq_rb_def Let_def)

text \<open>Putting a request into its tree and at the end of its arrival list.\<close>

definition enqueue :: "kernel \<Rightarrow> elv_lib \<Rightarrow> u64 \<Rightarrow> dd_prio \<Rightarrow> nat \<Rightarrow> deadline_data \<Rightarrow> deadline_data" where
  "enqueue K E j p r dd =
     upd_prio p (\<lambda>pp. pp\<lparr>pp_fifo_list := (pp_fifo_list pp)(rq_dir K dd r := pp_fifo_list pp (rq_dir K dd r) @ [r])\<rparr>)
       (upd_rq r (\<lambda>e. e\<lparr>er_fifo_time := j\<rparr>) (deadline_add_rq_rb K E p r dd))"

lemma enqueue_fields [simp]:
  "pp_dispatch (dd_per_prio (enqueue K E j p r dd) q) = pp_dispatch (dd_per_prio dd q)"
  "dd_throttle (enqueue K E j p r dd) = dd_throttle dd"
  "er_rq (dd_rqs (enqueue K E j p r dd) x) = er_rq (dd_rqs dd x)"
  "er_rb (dd_rqs (enqueue K E j p r dd) x) = (er_rb (dd_rqs dd x) \<or> x = r)"
  "pp_sort_list (dd_per_prio (enqueue K E j p r dd) q) = pp_sort_list (dd_per_prio (deadline_add_rq_rb K E p r dd) q)"
  by (simp_all add: enqueue_def)

lemma enqueue_fifo:
  "pp_fifo_list (dd_per_prio (enqueue K E j p r dd) q) d =
    (if q = p \<and> d = rq_dir K dd r then pp_fifo_list (dd_per_prio dd q) d @ [r]
     else pp_fifo_list (dd_per_prio dd q) d)"
  by (simp add: enqueue_def)

lemma enqueue_dir [simp]: "rq_dir K (enqueue K E j p r dd) = rq_dir K dd" "blk_pos (enqueue K E j p r dd) = blk_pos dd"
  by (simp_all add: fun_eq_iff rq_dir_def blk_pos_def)

lemma enqueue_waiting: "mset (waiting (enqueue K E j p r dd)) = add_mset r (mset (waiting dd))"
  by (cases p; cases "rq_dir K dd r") (simp_all add: waiting_def prio_lists_def enqueue_fifo)

lemma distinct_mset_eq: "mset xs = add_mset r (mset ys) \<Longrightarrow> distinct xs \<longleftrightarrow> distinct ys \<and> r \<notin> set ys"
  by (metis distinct.simps(2) mset.simps(2) mset_eq_imp_distinct_iff)

lemma set_mset_eq: "mset xs = add_mset r (mset ys) \<Longrightarrow> set xs = insert r (set ys)"
  by (metis set_mset_add_mset_insert set_mset_mset)

lemma enqueue_inv:
  assumes E: "elv_rb_ok E" and inv: "dd_inv K dd" and new: "r \<notin> set (waiting dd)"
  shows "dd_inv K (enqueue K E j p r dd)"
proof -
  have nf: "r \<notin> set (pp_fifo_list (dd_per_prio dd q) d)" for q d
    using new fifo_waiting waiting_iff by blast
  have t: "tree_ok K (enqueue K E j p r dd) q d" for q d
  proof (cases "q = p \<and> d = rq_dir K dd r")
    case True
    let ?t = "pp_sort_list (dd_per_prio dd q) d"
    have eq: "pp_sort_list (dd_per_prio (enqueue K E j p r dd) q) d = el_rb_add E (blk_pos dd) r ?t"
      "pp_fifo_list (dd_per_prio (enqueue K E j p r dd) q) d = pp_fifo_list (dd_per_prio dd q) d @ [r]"
      using True by (simp_all add: add_rb_tree enqueue_fifo)
    have old: "set (inorder ?t) = set (pp_fifo_list (dd_per_prio dd q) d)" "distinct (inorder ?t)"
      "sorted (map (blk_pos dd) (inorder ?t))" "\<forall>x \<in> set (inorder ?t). rq_dir K dd x = d \<and> er_rb (dd_rqs dd x)"
      using dd_invD(2) [OF inv, of q d] by (simp_all add: tree_ok_def Let_def)
    have notin: "r \<notin> set (inorder ?t)" unfolding old(1) by (rule nf)
    show ?thesis unfolding tree_ok_def Let_def eq enqueue_dir
    proof (intro conjI)
      show "set (inorder (el_rb_add E (blk_pos dd) r ?t)) = set (pp_fifo_list (dd_per_prio dd q) d @ [r])"
        unfolding rb_add(1) [OF E] old(1) by simp
      show "distinct (inorder (el_rb_add E (blk_pos dd) r ?t))" by (rule rb_add(2) [OF E old(2) notin])
      show "sorted (map (blk_pos dd) (inorder (el_rb_add E (blk_pos dd) r ?t)))" by (rule rb_add(3) [OF E old(3)])
      show "\<forall>x \<in> set (inorder (el_rb_add E (blk_pos dd) r ?t)).
          rq_dir K dd x = d \<and> er_rb (dd_rqs (enqueue K E j p r dd) x)"
        unfolding rb_add(1) [OF E] enqueue_fields using old(4) True by blast
    qed
  next
    case False
    then have eq: "pp_sort_list (dd_per_prio (enqueue K E j p r dd) q) d = pp_sort_list (dd_per_prio dd q) d"
      "pp_fifo_list (dd_per_prio (enqueue K E j p r dd) q) d = pp_fifo_list (dd_per_prio dd q) d"
      by (auto simp: add_rb_tree enqueue_fifo)
    show ?thesis using dd_invD(2) [OF inv, of q d] unfolding tree_ok_def Let_def eq enqueue_dir by auto
  qed
  have "\<exists>q d. x \<in> set (inorder (pp_sort_list (dd_per_prio (enqueue K E j p r dd) q) d))"
    if "er_rb (dd_rqs (enqueue K E j p r dd) x)" for x
  proof (cases "x = r")
    case True
    then have "x \<in> set (inorder (pp_sort_list (dd_per_prio (enqueue K E j p r dd) p) (rq_dir K dd r)))"
      by (simp add: add_rb_tree rb_add [OF E])
    then show ?thesis by blast
  next
    case False
    then have "er_rb (dd_rqs dd x)" using that by simp
    then obtain q d where "x \<in> set (inorder (pp_sort_list (dd_per_prio dd q) d))"
      using dd_invD(3) [OF inv] by blast
    then have "x \<in> set (inorder (pp_sort_list (dd_per_prio (enqueue K E j p r dd) q) d))"
      by (auto simp: add_rb_tree rb_add [OF E])
    then show ?thesis by blast
  qed
  moreover have "distinct (waiting (enqueue K E j p r dd))"
    using distinct_mset_eq [OF enqueue_waiting] dd_invD(1) [OF inv] new by blast
  ultimately show ?thesis using t dd_invD(4) [OF inv] by (simp add: dd_inv_def)
qed

text \<open>Putting a request at the head of the dispatch list.\<close>

definition push_head :: "u64 \<Rightarrow> dd_prio \<Rightarrow> nat \<Rightarrow> deadline_data \<Rightarrow> deadline_data" where
  "push_head j p r dd = upd_rq r (\<lambda>e. e\<lparr>er_fifo_time := j\<rparr>)
     (upd_prio p (\<lambda>pp. pp\<lparr>pp_dispatch := r # pp_dispatch pp\<rparr>) dd)"

lemma push_head_waiting: "mset (waiting (push_head j p r dd)) = add_mset r (mset (waiting dd))"
  by (cases p) (simp_all add: waiting_def prio_lists_def push_head_def)

lemma push_head_inv:
  assumes inv: "dd_inv K dd" and new: "r \<notin> set (waiting dd)"
  shows "dd_inv K (push_head j p r dd)"
proof -
  have "rq_dir K (push_head j p r dd) = rq_dir K dd" "blk_pos (push_head j p r dd) = blk_pos dd"
    by (simp_all add: fun_eq_iff rq_dir_def blk_pos_def push_head_def)
  moreover have "pp_sort_list (dd_per_prio (push_head j p r dd) q) = pp_sort_list (dd_per_prio dd q)"
    "pp_fifo_list (dd_per_prio (push_head j p r dd) q) = pp_fifo_list (dd_per_prio dd q)"
    "er_rb (dd_rqs (push_head j p r dd) x) = er_rb (dd_rqs dd x)"
    "er_rq (dd_rqs (push_head j p r dd) x) = er_rq (dd_rqs dd x)" for q x
    by (simp_all add: push_head_def)
  moreover have "distinct (waiting (push_head j p r dd))"
    using distinct_mset_eq [OF push_head_waiting] dd_invD(1) [OF inv] new by blast
  ultimately show ?thesis using inv by (simp add: dd_inv_def tree_ok_def)
qed

section \<open>Merging\<close>

text \<open>The block layer changes the fields of a request when it merges into it.\<close>

definition set_rq :: "nat \<Rightarrow> request \<Rightarrow> deadline_data \<Rightarrow> deadline_data" where
  "set_rq r v dd = upd_rq r (\<lambda>e. e\<lparr>er_rq := v\<rparr>) dd"

lemma set_rq_fields [simp]:
  "dd_per_prio (set_rq r v dd) = dd_per_prio dd" "dd_throttle (set_rq r v dd) = dd_throttle dd"
  "er_rb (dd_rqs (set_rq r v dd) x) = er_rb (dd_rqs dd x)"
  "er_rq (dd_rqs (set_rq r v dd) x) = (if x = r then v else er_rq (dd_rqs dd x))"
  "waiting (set_rq r v dd) = waiting dd"
  by (simp_all add: set_rq_def waiting_def)

lemma set_rq_inv:
  assumes "dd_inv K dd" and "rq_ptr v = r" and "rq_pos v = rq_pos (er_rq (dd_rqs dd r))"
    and "rq_op v = rq_op (er_rq (dd_rqs dd r))"
  shows "dd_inv K (set_rq r v dd)"
proof -
  have "rq_ptr (er_rq (dd_rqs dd r)) = r" using assms(1) by (rule dd_invD(4))
  then have "dd_inv K (set_rq r v dd) = dd_inv K dd" using assms by (intro dd_inv_cong(1)) auto
  with assms(1) show ?thesis by simp
qed

lemma del_rb_fields [simp]:
  "pp_dispatch (dd_per_prio (deadline_del_rq_rb K E p r dd) q) = pp_dispatch (dd_per_prio dd q)"
  "pp_fifo_list (dd_per_prio (deadline_del_rq_rb K E p r dd) q) = pp_fifo_list (dd_per_prio dd q)"
  "dd_throttle (deadline_del_rq_rb K E p r dd) = dd_throttle dd"
  "er_rq (dd_rqs (deadline_del_rq_rb K E p r dd) x) = er_rq (dd_rqs dd x)"
  "er_rb (dd_rqs (deadline_del_rq_rb K E p r dd) x) = (er_rb (dd_rqs dd x) \<and> x \<noteq> r)"
  "rq_dir K (deadline_del_rq_rb K E p r dd) = rq_dir K dd"
  "blk_pos (deadline_del_rq_rb K E p r dd) = blk_pos dd"
  by (auto simp: deadline_del_rq_rb_def Let_def rq_dir_def blk_pos_def fun_eq_iff)

lemma add_rb_dir [simp]:
  "rq_dir K (deadline_add_rq_rb K E p r dd) = rq_dir K dd" "blk_pos (deadline_add_rq_rb K E p r dd) = blk_pos dd"
  by (simp_all add: rq_dir_def blk_pos_def fun_eq_iff)

lemma del_rb_tree:
  "pp_sort_list (dd_per_prio (deadline_del_rq_rb K E p r dd) q) d =
    (if q = p \<and> d = rq_dir K dd r then el_rb_del E r (pp_sort_list (dd_per_prio dd q) d)
     else pp_sort_list (dd_per_prio dd q) d)"
  by (auto simp: deadline_del_rq_rb_def Let_def)

text \<open>A front merge moves a request to its new position in the tree.\<close>

lemma front_merge_inv:
  assumes E: "elv_rb_ok E" and inv: "dd_inv K dd" and at: "r \<in> set (pp_fifo_list (dd_per_prio dd p) (rq_dir K dd r))"
    and v: "rq_ptr v = r" "rq_op v = rq_op (er_rq (dd_rqs dd r))"
  defines "d0 \<equiv> set_rq r v dd"
  shows "dd_inv K (deadline_add_rq_rb K E p r (deadline_del_rq_rb K E p r d0))"
    (is "dd_inv K ?d2")
proof -
  let ?d = "rq_dir K dd r"
  have dir: "rq_dir K d0 = rq_dir K dd" using v(2) by (auto simp: fun_eq_iff rq_dir_def d0_def)
  have pp0: "dd_per_prio d0 = dd_per_prio dd" by (simp add: d0_def)
  have dir2: "rq_dir K ?d2 = rq_dir K dd" "blk_pos ?d2 = blk_pos d0" using dir by simp_all
  have pos: "blk_pos d0 x = blk_pos dd x" if "x \<noteq> r" for x using that by (simp add: blk_pos_def d0_def)
  have lists: "pp_fifo_list (dd_per_prio ?d2 q) = pp_fifo_list (dd_per_prio dd q)"
    "pp_dispatch (dd_per_prio ?d2 q) = pp_dispatch (dd_per_prio dd q)" for q
    by (simp_all add: d0_def)
  have tree: "pp_sort_list (dd_per_prio ?d2 q) e =
      (if q = p \<and> e = ?d then el_rb_add E (blk_pos d0) r (el_rb_del E r (pp_sort_list (dd_per_prio dd p) ?d))
       else pp_sort_list (dd_per_prio dd q) e)" for q e
    using pp0 by (simp add: add_rb_tree del_rb_tree dir)
  have rb: "er_rb (dd_rqs ?d2 x) \<longleftrightarrow> er_rb (dd_rqs dd x) \<or> x = r" for x
    by (auto simp: d0_def)
  have rq: "rq_ptr (er_rq (dd_rqs ?d2 x)) = x" for x
    using v(1) dd_invD(4) [OF inv] by (simp add: d0_def)
  have t: "tree_ok K ?d2 q e" for q e
  proof (cases "q = p \<and> e = ?d")
    case True
    let ?t = "pp_sort_list (dd_per_prio dd p) ?d" and ?u = "el_rb_del E r (pp_sort_list (dd_per_prio dd p) ?d)"
    have old: "set (inorder ?t) = set (pp_fifo_list (dd_per_prio dd p) ?d)" "distinct (inorder ?t)"
      "sorted (map (blk_pos dd) (inorder ?t))" "\<forall>x \<in> set (inorder ?t). rq_dir K dd x = ?d \<and> er_rb (dd_rqs dd x)"
      using dd_invD(2) [OF inv, of p ?d] unfolding tree_ok_def Let_def by blast+
    have u: "inorder ?u = filter (\<lambda>x. x \<noteq> r) (inorder ?t)" by (rule rb_del [OF E])
    have m: "map (blk_pos d0) (inorder ?u) = map (blk_pos dd) (inorder ?u)" using pos by (simp add: u)
    have sr: "sorted (map (blk_pos d0) (inorder ?u))" unfolding m unfolding u by (rule sorted_map_filter [OF old(3)])
    have du: "distinct (inorder ?u)" "r \<notin> set (inorder ?u)" using old(2) by (simp_all add: u)
    have su: "insert r (set (inorder ?u)) = set (pp_fifo_list (dd_per_prio dd p) ?d)"
      using at old(1) by (auto simp: u)
    have eq: "pp_sort_list (dd_per_prio ?d2 p) ?d = el_rb_add E (blk_pos d0) r ?u"
      "pp_fifo_list (dd_per_prio ?d2 p) ?d = pp_fifo_list (dd_per_prio dd p) ?d"
      using tree lists by simp_all
    have "tree_ok K ?d2 p ?d" unfolding tree_ok_def Let_def dir2 eq rb_add(1) [OF E] rb
    proof (intro conjI)
      show "insert r (set (inorder ?u)) = set (pp_fifo_list (dd_per_prio dd p) ?d)" by (rule su)
      show "distinct (inorder (el_rb_add E (blk_pos d0) r ?u))" by (rule rb_add(2) [OF E du])
      show "sorted (map (blk_pos d0) (inorder (el_rb_add E (blk_pos d0) r ?u)))" by (rule rb_add(3) [OF E sr])
      show "\<forall>x \<in> insert r (set (inorder ?u)). rq_dir K dd x = ?d \<and> (er_rb (dd_rqs dd x) \<or> x = r)"
        using old(4) unfolding u set_filter by blast
    qed
    with True show ?thesis by simp
  next
    case False
    have old: "set (inorder (pp_sort_list (dd_per_prio dd q) e)) = set (pp_fifo_list (dd_per_prio dd q) e)"
      using dd_invD(2) [OF inv, of q e] by (simp add: tree_ok_def Let_def)
    have "r \<notin> set (pp_fifo_list (dd_per_prio dd q) e)"
    proof
      assume "r \<in> set (pp_fifo_list (dd_per_prio dd q) e)"
      moreover from this have "q = p"
        using at fifo_waiting distinct_waiting [OF dd_invD(1) [OF inv]] by blast
      ultimately show False using False at distinct_dirs(2) [OF dd_invD(1) [OF inv], of r p ?d e] by blast
    qed
    then have m: "map (blk_pos d0) (inorder (pp_sort_list (dd_per_prio dd q) e)) =
        map (blk_pos dd) (inorder (pp_sort_list (dd_per_prio dd q) e))"
      unfolding map_eq_conv old using pos by metis
    show ?thesis using dd_invD(2) [OF inv, of q e] False
      unfolding tree_ok_def Let_def dir2 tree lists rb if_not_P [OF False] m by blast
  qed
  have "waiting ?d2 = waiting dd" unfolding waiting_def prio_lists_def lists ..
  moreover have "\<exists>q e. x \<in> set (inorder (pp_sort_list (dd_per_prio ?d2 q) e))" if x: "er_rb (dd_rqs ?d2 x)" for x
  proof -
    have "\<exists>q e. x \<in> set (pp_fifo_list (dd_per_prio dd q) e)"
      using x at rb_place [OF inv, of x] unfolding rb by blast
    then show ?thesis using t unfolding tree_ok_def Let_def lists by blast
  qed
  ultimately show ?thesis using t rq dd_invD(1) [OF inv] by (simp add: dd_inv_def)
qed

text \<open>Moving a request behind the one merged into it.\<close>

lemma mset_insert_after:
  "mset (insert_after r n xs) = (if n \<in> set xs then add_mset r (mset xs) else mset xs)"
  by (induction r n xs rule: insert_after.induct) auto

lemma insert_after_absent: "n \<notin> set xs \<Longrightarrow> insert_after r n xs = xs"
  by (induction r n xs rule: insert_after.induct) auto

lemma list_move_fields [simp]:
  "dd_rqs (list_move r n dd) = dd_rqs dd" "dd_throttle (list_move r n dd) = dd_throttle dd"
  "pp_sort_list (dd_per_prio (list_move r n dd) p) = pp_sort_list (dd_per_prio dd p)"
  "pp_dispatch (dd_per_prio (list_move r n dd) p) = insert_after r n (removeAll r (pp_dispatch (dd_per_prio dd p)))"
  "pp_fifo_list (dd_per_prio (list_move r n dd) p) d = insert_after r n (removeAll r (pp_fifo_list (dd_per_prio dd p) d))"
  by (simp_all add: list_move_def Let_def)

lemma list_move_same:
  assumes inv: "dd_inv K dd" and r: "r \<in> set (pp_fifo_list (dd_per_prio dd p) d)"
    and n: "n \<in> set (pp_fifo_list (dd_per_prio dd p) d)" and ne: "n \<noteq> r"
  shows "dd_inv K (list_move r n dd)" and "mset (waiting (list_move r n dd)) = mset (waiting dd)"
proof -
  have dist: "distinct (waiting dd)" by (rule dd_invD(1) [OF inv])
  have other: "x \<notin> set (pp_fifo_list (dd_per_prio dd q) e)"
    if "x \<in> set (pp_fifo_list (dd_per_prio dd p) d)" "\<not> (q = p \<and> e = d)" for x q e
    using that distinct_waiting [OF dist fifo_waiting fifo_waiting] distinct_dirs(2) [OF dist] by metis
  have disp: "x \<notin> set (pp_dispatch (dd_per_prio dd q))" if "x \<in> set (pp_fifo_list (dd_per_prio dd p) d)" for x q
  proof
    assume "x \<in> set (pp_dispatch (dd_per_prio dd q))"
    moreover from this have "q = p"
      using distinct_waiting [OF dist, of x q p] fifo_waiting [OF that] by (auto simp: prio_lists_def)
    ultimately show False using distinct_dirs(1) [OF dist that] by blast
  qed
  have D: "pp_dispatch (dd_per_prio (list_move r n dd) q) = pp_dispatch (dd_per_prio dd q)" for q
    using disp [OF r, of q] disp [OF n, of q] by (simp add: removeAll_id insert_after_absent)
  have F: "mset (pp_fifo_list (dd_per_prio (list_move r n dd) q) e) = mset (pp_fifo_list (dd_per_prio dd q) e)" for q e
  proof (cases "q = p \<and> e = d")
    case True
    have "distinct (pp_fifo_list (dd_per_prio dd p) d)"
      using dist by (cases p; cases d) (auto simp: waiting_def prio_lists_def)
    then have "add_mset r (mset (removeAll r (pp_fifo_list (dd_per_prio dd p) d))) = mset (pp_fifo_list (dd_per_prio dd p) d)"
      using r by (metis distinct_remove1_removeAll insert_DiffM mset_remove1 set_mset_mset)
    then show ?thesis using True n ne by (simp add: mset_insert_after)
  next
    case False
    then show ?thesis using other [OF r False] other [OF n False] by (simp add: removeAll_id insert_after_absent)
  qed
  show m: "mset (waiting (list_move r n dd)) = mset (waiting dd)"
    unfolding waiting_def prio_lists_def mset_append D F ..
  have "set (pp_fifo_list (dd_per_prio (list_move r n dd) q) e) = set (pp_fifo_list (dd_per_prio dd q) e)" for q e
    using F by (metis set_mset_mset)
  moreover have "rq_dir K (list_move r n dd) = rq_dir K dd" "blk_pos (list_move r n dd) = blk_pos dd"
    by (simp_all add: fun_eq_iff rq_dir_def blk_pos_def)
  ultimately have "tree_ok K (list_move r n dd) q e" for q e
    using dd_invD(2) [OF inv, of q e] by (simp add: tree_ok_def)
  then show "dd_inv K (list_move r n dd)"
    using inv m mset_eq_imp_distinct_iff [OF m] by (simp add: dd_inv_def)
qed

end
