(* ===== verification/Deadline_Machine.thy ===== *)
theory Deadline_Machine
  imports Deadline_Lists
begin

text \<open>
  The elevator and the throttle together: every entry point of the elevator is a step on the
  settings, the model thread and the elevator data.  The elevator keeps its lists well formed, and
  what it does to the throttle is a run of throttle steps with the same effects, so everything
  proved of throttle runs holds below the elevator.
\<close>

section \<open>What the entry points do to the waiting requests\<close>

lemma insert_queue_eq:
  "insert_queue K E ie True p r dd = (push_head (ie_jiffies ie) p r dd, [])"
  "fst (insert_queue K E ie False p r dd) =
     (let m = enqueue K E (ie_jiffies ie) p r dd in
      if el_mergeable E (er_rq (dd_rqs dd r)) \<and> dd_last_merge dd = None then m\<lparr>dd_last_merge := Some r\<rparr> else m)"
  by (simp_all add: insert_queue_def push_head_def enqueue_def Let_def upd_rq_def upd_prio_def rq_dir_def)

lemma last_merge_irrelevant [simp]:
  "dd_inv K (dd\<lparr>dd_last_merge := x\<rparr>) = dd_inv K dd" "waiting (dd\<lparr>dd_last_merge := x\<rparr>) = waiting dd"
  by (rule dd_inv_cong; simp)+

lemma insert_queue_inv:
  assumes "elv_rb_ok E" and "dd_inv K dd" and "r \<notin> set (waiting dd)"
  shows "dd_inv K (fst (insert_queue K E ie h p r dd))"
    and "mset (waiting (fst (insert_queue K E ie h p r dd))) = add_mset r (mset (waiting dd))"
    and "dd_throttle (fst (insert_queue K E ie h p r dd)) = dd_throttle dd"
proof -
  have eq: "fst (insert_queue K E ie h p r dd) =
      (if h then push_head (ie_jiffies ie) p r dd
       else (enqueue K E (ie_jiffies ie) p r dd)\<lparr>dd_last_merge :=
              dd_last_merge (fst (insert_queue K E ie h p r dd))\<rparr>)"
    by (cases h) (simp_all add: insert_queue_eq Let_def enqueue_def)
  show "dd_inv K (fst (insert_queue K E ie h p r dd))"
    by (subst eq) (simp add: push_head_inv [OF assms(2,3)] enqueue_inv [OF assms])
  show "mset (waiting (fst (insert_queue K E ie h p r dd))) = add_mset r (mset (waiting dd))"
    by (subst eq) (simp add: push_head_waiting enqueue_waiting)
  show "dd_throttle (fst (insert_queue K E ie h p r dd)) = dd_throttle dd"
    by (subst eq) (simp add: push_head_def)
qed

lemma add_hint_keeps: "rq_ptr (smart_io_throttle_mark_request_hp K rq) = rq_ptr rq"
  "rq_pos (smart_io_throttle_mark_request_hp K rq) = rq_pos rq" "rq_op (smart_io_throttle_mark_request_hp K rq) = rq_op rq"
  by (simp_all add: smart_io_throttle_mark_request_hp_def)

lemma insert_mark_inv [simp]:
  "dd_inv K (insert_mark K' p r dd) = dd_inv K dd" "waiting (insert_mark K' p r dd) = waiting dd"
  "dd_throttle (insert_mark K' p r dd) = dd_throttle dd"
  by (rule dd_inv_cong; simp add: insert_mark_def add_hint_keeps)+ (simp add: insert_mark_def)

lemma insert_count_inv [simp]:
  "dd_inv K (insert_count p r dd) = dd_inv K dd" "waiting (insert_count p r dd) = waiting dd"
  "dd_throttle (insert_count p r dd) = dd_throttle dd"
  by (rule dd_inv_cong; simp add: insert_count_def)+ (simp add: insert_count_def)

lemma upd_throttle_inv [simp]: "dd_inv K (upd_throttle f dd) = dd_inv K dd" "waiting (upd_throttle f dd) = waiting dd"
  by (rule dd_inv_cong; simp)+

lemma insert_classify_inv:
  assumes "insert_classify K g ie r dd = (dd', p)"
  shows "dd_inv K dd' = dd_inv K dd" and "waiting dd' = waiting dd"
    and "dd_throttle dd' = smart_io_throttle_classify_request K g (ie_task ie) (ie_now ie) (er_rq (dd_rqs dd r)) (dd_throttle dd)"
  using assms by (auto simp: insert_classify_def Let_def)

section \<open>Merges\<close>

text \<open>
  What the block layer guarantees of a merge of \<open>n\<close> into \<open>r\<close>: the target keeps its
  position and operation, and a request that is itself waiting is in the target's list.
\<close>

definition merge_ok ::
  "kernel \<Rightarrow> throttle_globals \<Rightarrow> task_ctx \<Rightarrow> deadline_data \<Rightarrow> nat \<Rightarrow> request \<Rightarrow> nat \<Rightarrow> bool" where
  "merge_ok K g t dd r v n \<longleftrightarrow>
     n \<noteq> r \<and> rq_ptr v = r \<and> rq_pos v = rq_pos (er_rq (dd_rqs dd r)) \<and> rq_op v = rq_op (er_rq (dd_rqs dd r)) \<and>
     (n \<in> set (waiting dd) \<longrightarrow>
        (\<exists>d. let p = select_prio K g t (set_rq r v dd) n in
           r \<in> set (pp_fifo_list (dd_per_prio dd p) d) \<and> n \<in> set (pp_fifo_list (dd_per_prio dd p) d)))"

definition merge_one ::
  "kernel \<Rightarrow> throttle_globals \<Rightarrow> task_ctx \<Rightarrow> elv_lib \<Rightarrow> nat \<Rightarrow> request \<Rightarrow> nat \<Rightarrow> deadline_data \<Rightarrow> deadline_data \<times> dd_effect list" where
  "merge_one K g t E r v n dd = dd_merged_requests K g t E r n (set_rq r v dd)"

fun merges_ok ::
  "kernel \<Rightarrow> throttle_globals \<Rightarrow> task_ctx \<Rightarrow> elv_lib \<Rightarrow> (nat \<times> request) list \<Rightarrow> nat \<Rightarrow> deadline_data \<Rightarrow> bool" where
  "merges_ok K g t E [] n dd = True"
| "merges_ok K g t E ((r, v) # ms) n dd \<longleftrightarrow>
     merge_ok K g t dd r v n \<and> merges_ok K g t E ms r (fst (merge_one K g t E r v n dd))"

definition merge_throttle :: "kernel \<Rightarrow> request \<Rightarrow> request \<Rightarrow> throttle_ctx \<Rightarrow> throttle_ctx" where
  "merge_throttle K v w c = smart_io_throttle_unqueue_request w (smart_io_throttle_update_request K v c)"

lemma merged_counter [simp]:
  "dd_inv K (upd_prio p (\<lambda>pp. pp\<lparr>pp_merged := x pp\<rparr>) dd) = dd_inv K dd"
  "waiting (upd_prio p (\<lambda>pp. pp\<lparr>pp_merged := x pp\<rparr>) dd) = waiting dd"
  by (rule dd_inv_cong; simp)+

lemma fifo_time_inv [simp]:
  "dd_inv K (upd_rq r (\<lambda>e. e\<lparr>er_fifo_time := x\<rparr>) dd) = dd_inv K dd"
  "waiting (upd_rq r (\<lambda>e. e\<lparr>er_fifo_time := x\<rparr>) dd) = waiting dd"
  by (rule dd_inv_cong; simp)+

lemma merge_one_inv:
  assumes E: "elv_rb_ok E" and inv: "dd_inv K dd" and ok: "merge_ok K g t dd r v n"
  shows "dd_inv K (fst (merge_one K g t E r v n dd))"
    and "mset (waiting (fst (merge_one K g t E r v n dd))) = mset (removeAll n (waiting dd))"
    and "dd_throttle (fst (merge_one K g t E r v n dd)) = merge_throttle K v (er_rq (dd_rqs dd n)) (dd_throttle dd)"
    and "snd (merge_one K g t E r v n dd) = [RqHashDel n]"
proof -
  let ?d0 = "set_rq r v dd"
  let ?p = "select_prio K g t ?d0 n"
  have v: "n \<noteq> r" "rq_ptr v = r" "rq_pos v = rq_pos (er_rq (dd_rqs dd r))" "rq_op v = rq_op (er_rq (dd_rqs dd r))"
    using ok by (simp_all add: merge_ok_def)
  define d1 where "d1 = upd_prio ?p (\<lambda>pp. pp\<lparr>pp_merged := pp_merged pp + 1\<rparr>)
    (upd_throttle (smart_io_throttle_unqueue_request (er_rq (dd_rqs ?d0 n)))
      (upd_throttle (smart_io_throttle_update_request K (er_rq (dd_rqs ?d0 r))) ?d0))"
  define d2 where "d2 = (if on_list d1 r \<and> on_list d1 n \<and> time_before (er_fifo_time (dd_rqs d1 n)) (er_fifo_time (dd_rqs d1 r))
      then upd_rq r (\<lambda>e. e\<lparr>er_fifo_time := er_fifo_time (dd_rqs d1 n)\<rparr>) (list_move r n d1) else d1)"
  have eq: "merge_one K g t E r v n dd = deadline_remove_request K E ?p n d2"
    by (simp add: merge_one_def dd_merged_requests_def Let_def d1_def d2_def)
  have i1: "dd_inv K d1" "waiting d1 = waiting dd" using set_rq_inv [OF inv v(2-4)] by (simp_all add: d1_def)
  have th: "dd_throttle d2 = merge_throttle K v (er_rq (dd_rqs dd n)) (dd_throttle dd)"
    using v(1) by (simp add: d2_def d1_def merge_throttle_def)
  have lists: "pp_fifo_list (dd_per_prio d1 q) = pp_fifo_list (dd_per_prio dd q)" for q by (simp add: d1_def)
  have i2: "dd_inv K d2 \<and> mset (waiting d2) = mset (waiting dd) \<and>
      (n \<in> set (waiting dd) \<longrightarrow> n \<in> set (prio_lists (dd_per_prio d2 ?p)))"
  proof (cases "n \<in> set (waiting dd)")
    case True
    then obtain d where m: "r \<in> set (pp_fifo_list (dd_per_prio d1 ?p) d)" "n \<in> set (pp_fifo_list (dd_per_prio d1 ?p) d)"
      using ok by (auto simp: merge_ok_def Let_def lists)
    note mv = list_move_same [OF i1(1) m v(1)]
    have "n \<in> set (pp_fifo_list (dd_per_prio (list_move r n d1) ?p) d)"
      using m(2) v(1) by (simp add: set_mset_eq [OF mset_insert_after [THEN trans]] flip: set_mset_mset)
        (simp add: mset_insert_after)
    then have "n \<in> set (pp_fifo_list (dd_per_prio d2 ?p) d)" using m(2) by (simp add: d2_def)
    then have "n \<in> set (prio_lists (dd_per_prio d2 ?p))" by (rule fifo_waiting)
    then show ?thesis using mv i1 by (simp add: d2_def)
  next
    case False
    then have "d2 = d1" using i1(2) by (simp add: d2_def on_list_iff)
    then show ?thesis using i1 False by simp
  qed
  have at: "n \<in> set (prio_lists (dd_per_prio d2 ?p)) \<or> n \<notin> set (waiting d2)"
    using i2 by (metis set_mset_mset)
  have rem: "fst (merge_one K g t E r v n dd) = removed K n ?p E d2" by (simp add: eq removed_def)
  show "dd_inv K (fst (merge_one K g t E r v n dd))"
    unfolding rem using removed_inv [OF E _ at] i2 by blast
  show "mset (waiting (fst (merge_one K g t E r v n dd))) = mset (removeAll n (waiting dd))"
    unfolding rem removed_waiting using i2 by (metis mset_filter removeAll_filter_not_eq)
  show "dd_throttle (fst (merge_one K g t E r v n dd)) = merge_throttle K v (er_rq (dd_rqs dd n)) (dd_throttle dd)"
    unfolding rem using th by simp
  show "snd (merge_one K g t E r v n dd) = [RqHashDel n]"
    by (simp add: eq deadline_remove_request_def Let_def)
qed

section \<open>The throttle below the elevator\<close>

fun throttle_effects :: "dd_effect list \<Rightarrow> effect list" where
  "throttle_effects [] = []"
| "throttle_effects (Throttle e # es) = e # throttle_effects es"
| "throttle_effects (_ # es) = throttle_effects es"

lemma throttle_effects_append [simp]: "throttle_effects (xs @ ys) = throttle_effects xs @ throttle_effects ys"
  by (induction xs rule: throttle_effects.induct) auto

lemma throttle_effects_map [simp]: "throttle_effects (map Throttle es) = es"
  by (induction es) auto

abbreviation throttle_run ::
  "kernel \<Rightarrow> throttle_globals \<Rightarrow> model_thread \<times> throttle_ctx \<Rightarrow> effect list \<Rightarrow> model_thread \<times> throttle_ctx \<Rightarrow> bool" where
  "throttle_run K g s es t \<equiv> reaches (throttle_step K) (g, s) es (g, t)"

lemma merge_throttle_run: "throttle_run K g (mt, c) [] (mt, merge_throttle K v w c)"
proof -
  have "throttle_run K g (mt, c) [] (mt, smart_io_throttle_update_request K v c)"
    by (rule reaches_one) (rule throttle_step.update)
  from reaches_step [OF this throttle_step.unqueue] show ?thesis by (simp add: merge_throttle_def)
qed

lemma insert_merges_Cons:
  "insert_merges K g t E ((r, v) # ms) n dd =
     (let d1 = fst (merge_one K g t E r v n dd); m = insert_merges K g t E ms r d1
      in (fst m, snd (merge_one K g t E r v n dd) @ snd m))"
  by (simp add: merge_one_def set_rq_def case_prod_beta Let_def)

lemma insert_merges_inv:
  assumes E: "elv_rb_ok E"
  shows "dd_inv K dd \<Longrightarrow> merges_ok K g t E ms n dd \<Longrightarrow>
    dd_inv K (fst (insert_merges K g t E ms n dd)) \<and>
    set (waiting (fst (insert_merges K g t E ms n dd))) \<subseteq> set (waiting dd) \<and>
    (ms \<noteq> [] \<longrightarrow> n \<notin> set (waiting (fst (insert_merges K g t E ms n dd)))) \<and>
    throttle_effects (snd (insert_merges K g t E ms n dd)) = [] \<and>
    throttle_run K g (mt, dd_throttle dd) [] (mt, dd_throttle (fst (insert_merges K g t E ms n dd)))"
proof (induction ms arbitrary: n dd)
  case Nil
  then show ?case by (simp add: reaches_refl)
next
  case (Cons m ms)
  obtain r v where m: "m = (r, v)" by fastforce
  let ?d = "fst (merge_one K g t E r v n dd)"
  have ok: "merge_ok K g t dd r v n" "merges_ok K g t E ms r ?d" using Cons.prems(2) by (simp_all add: m)
  note one = merge_one_inv [OF E Cons.prems(1) ok(1)]
  note IH = Cons.IH [OF one(1) ok(2)]
  have w: "set (waiting ?d) = set (waiting dd) - {n}" using one(2) by (metis set_mset_mset set_removeAll)
  have run: "throttle_run K g (mt, dd_throttle dd) ([] @ []) (mt, dd_throttle (fst (insert_merges K g t E ms r ?d)))"
    using IH merge_throttle_run [of K g mt "dd_throttle dd" v "er_rq (dd_rqs dd n)"] one(3)
    by (metis reaches_trans)
  show ?case using IH w run one(4) unfolding m insert_merges_Cons Let_def fst_conv snd_conv by auto
qed

section \<open>Dispatch\<close>

text \<open>What an attempt to pick a request does to the waiting requests.\<close>

definition took :: "deadline_data \<Rightarrow> nat option \<Rightarrow> deadline_data \<Rightarrow> bool" where
  "took dd ro dd' \<longleftrightarrow>
     waiting dd' = (case ro of None \<Rightarrow> waiting dd | Some r \<Rightarrow> removeAll r (waiting dd)) \<and>
     (\<forall>r. ro = Some r \<longrightarrow> r \<in> set (waiting dd)) \<and>
     (\<forall>x. er_rq (dd_rqs dd' x) = er_rq (dd_rqs dd x))"

lemma took_trans: "took dd None d1 \<Longrightarrow> took d1 ro d2 \<Longrightarrow> took dd ro d2"
  by (cases ro) (simp_all add: took_def)

lemma set_throttle [simp]:
  "dd_inv K (dd\<lparr>dd_throttle := c\<rparr>) = dd_inv K dd" "waiting (dd\<lparr>dd_throttle := c\<rparr>) = waiting dd"
  "fifo_head (dd\<lparr>dd_throttle := c\<rparr>) p = fifo_head dd p"
  by (rule dd_inv_cong; simp)+ (simp add: fifo_head_def Let_def split: list.split)

lemma fifo_took:
  assumes "elv_rb_ok E" and "dd_inv K dd" and "dd_dispatch_fifo K E p dd = (dd', ro, es)"
  shows "dd_inv K dd' \<and> took dd ro dd' \<and> dd_throttle dd' = dd_throttle dd \<and> throttle_effects es = [] \<and>
    ro = fifo_head dd p"
proof -
  note f = dispatch_fifo_inv [OF assms]
  have "throttle_effects es = []" using assms(3) by (auto simp: dispatch_fifo_eq split: option.splits)
  moreover have "ro = Some r \<Longrightarrow> r \<in> set (waiting dd)" for r
    using f(3) fifo_head_mem [of dd p r] by (auto simp: waiting_iff)
  ultimately show ?thesis using f by (simp add: took_def)
qed

lemma try_non_hp_skip: "dd_try_non_hp K g E ts p (dd, Some r, es) = (dd, Some r, es)"
  by (simp add: dd_try_non_hp_def)

lemma try_non_hp_eq:
  "dd_try_non_hp K g E ts p (dd, None, es) =
    (let a = smart_io_throttle_non_hp_allowed g ts (dd_throttle dd); d1 = dd\<lparr>dd_throttle := fst a\<rparr>;
         f = dd_dispatch_fifo K E p d1 in
     if fst (snd a) then (fst f, fst (snd f), es @ map Throttle (snd (snd a)) @ snd (snd f))
     else (d1, None, es @ map Throttle (snd (snd a))))"
  by (simp add: dd_try_non_hp_def Let_def case_prod_beta)

lemma try_took:
  assumes E: "elv_rb_ok E" and inv: "dd_inv K dd"
    and res: "dd_try_non_hp K g E ts p (dd, None, es) = (dd', ro, es')"
  shows "dd_inv K dd' \<and> took dd ro dd' \<and>
    (\<exists>fs. throttle_effects es' = throttle_effects es @ fs \<and>
       throttle_run K g (mt, dd_throttle dd) fs (mt, dd_throttle dd')) \<and>
    dd_throttle dd' = fst (smart_io_throttle_non_hp_allowed g ts (dd_throttle dd)) \<and>
    ro = (if fst (snd (smart_io_throttle_non_hp_allowed g ts (dd_throttle dd))) then fifo_head dd p else None)"
proof -
  obtain c ok gs where a: "smart_io_throttle_non_hp_allowed g ts (dd_throttle dd) = (c, ok, gs)"
    by (metis prod_cases3)
  have run: "throttle_run K g (mt, dd_throttle dd) gs (mt, c)"
    by (rule reaches_one) (rule throttle_step.gate [OF a])
  let ?d = "dd\<lparr>dd_throttle := c\<rparr>"
  have same: "took dd None ?d" by (simp add: took_def)
  show ?thesis
  proof (cases ok)
    case True
    obtain d2 r2 fs where f: "dd_dispatch_fifo K E p ?d = (d2, r2, fs)" by (metis prod_cases3)
    have i: "dd_inv K ?d" using inv by simp
    note t = fifo_took [OF E i f]
    have "dd' = d2" "ro = r2" "es' = es @ map Throttle gs @ fs"
      using res True by (simp_all add: try_non_hp_eq a f Let_def)
    then show ?thesis using t True run took_trans [OF same] by (simp add: a; blast)
  next
    case False
    have "dd' = ?d" "ro = None" "es' = es @ map Throttle gs"
      using res False by (simp_all add: try_non_hp_eq a Let_def)
    then show ?thesis using inv same False run by (simp add: a; blast)
  qed
qed

text \<open>The three attempts of a dispatch, before the accounting.\<close>

definition dispatch_pick ::
  "kernel \<Rightarrow> throttle_globals \<Rightarrow> elv_lib \<Rightarrow> u64 \<Rightarrow> u64 \<Rightarrow> deadline_data \<Rightarrow> deadline_data \<times> nat option \<times> dd_effect list" where
  "dispatch_pick K g E t1 t2 dd =
     dd_try_non_hp K g E t2 DD_BE_PRIO (dd_try_non_hp K g E t1 DD_RT_PRIO (dd_dispatch_fifo K E DD_HP_PRIO dd))"

lemma pick_took:
  assumes E: "elv_rb_ok E" and inv: "dd_inv K dd" and res: "dispatch_pick K g E t1 t2 dd = (dd', ro, es)"
  shows "dd_inv K dd' \<and> took dd ro dd' \<and>
    (\<exists>fs. throttle_effects es = fs \<and> throttle_run K g (mt, dd_throttle dd) fs (mt, dd_throttle dd'))"
proof -
  obtain d1 r1 es1 where f1: "dd_dispatch_fifo K E DD_HP_PRIO dd = (d1, r1, es1)" by (metis prod_cases3)
  obtain d2 r2 es2 where f2: "dd_try_non_hp K g E t1 DD_RT_PRIO (d1, r1, es1) = (d2, r2, es2)" by (metis prod_cases3)
  have f3: "dd_try_non_hp K g E t2 DD_BE_PRIO (d2, r2, es2) = (dd', ro, es)"
    using res by (simp add: dispatch_pick_def f1 f2)
  note t1 = fifo_took [OF E inv f1]
  show ?thesis
  proof (cases r1)
    case (Some r)
    with f2 have "d2 = d1" "r2 = Some r" "es2 = es1" by (auto simp: try_non_hp_skip)
    with f3 have "dd' = d1" "ro = Some r" "es = es1" by (auto simp: try_non_hp_skip)
    with Some have "dd' = d1" "ro = r1" "es = es1" by simp_all
    then show ?thesis using t1 by (auto simp: reaches_refl)
  next
    case None
    have i1: "dd_inv K d1" using t1 by simp
    note t2 = try_took [OF E i1 f2 [unfolded None], of mt]
    have run2: "throttle_run K g (mt, dd_throttle dd) (throttle_effects es2) (mt, dd_throttle d2)"
      using t1 t2 by auto
    have "took dd None d1" using t1 None by metis
    moreover have "took d1 r2 d2" using t2 by blast
    ultimately have k2: "took dd r2 d2" by (rule took_trans)
    show ?thesis
    proof (cases r2)
      case (Some r)
      with f3 have "dd' = d2" "ro = Some r" "es = es2" by (auto simp: try_non_hp_skip)
      with Some have "dd' = d2" "ro = r2" "es = es2" by simp_all
      then show ?thesis using t2 run2 k2 by simp
    next
      case None
      have i2: "dd_inv K d2" using t2 by simp
      note t3 = try_took [OF E i2 f3 [unfolded None], of mt]
      have "throttle_run K g (mt, dd_throttle dd) (throttle_effects es) (mt, dd_throttle dd')"
        using t3 run2 reaches_trans by fastforce
      moreover have "took dd ro dd'"
        by (rule took_trans [of dd d2]) (use k2 None t3 in blast)+
      ultimately show ?thesis using t3 by blast
    qed
  qed
qed

lemma dispatch_request_eq:
  "dd_dispatch_request K g E clk (mt, dd) =
    (let m = smart_io_throttle_dispatch_model_if_needed g (clk 0) mt (dd_throttle dd);
         p = dispatch_pick K g E (clk 1 0) (clk 2 0) (dd\<lparr>dd_throttle := fst (snd m)\<rparr>) in
     case fst (snd p) of
       None \<Rightarrow> ((fst m, fst p), None, map Throttle (snd (snd m)) @ snd (snd p))
     | Some r \<Rightarrow>
        (let a = smart_io_throttle_account_dispatch g (clk 3) (er_rq (dd_rqs (fst p) r))
                   SMART_IO_SELECTION_BACKGROUND_BASELINE (dd_throttle (fst p))
         in ((fst m, (fst p)\<lparr>dd_throttle := fst a\<rparr>), Some r,
             map Throttle (snd (snd m)) @ snd (snd p) @ map Throttle (snd a))))"
  unfolding dd_dispatch_request_def dispatch_pick_def Let_def case_prod_beta
  by (simp split: option.split)

lemma dispatch_request_inv:
  assumes E: "elv_rb_ok E" and inv: "dd_inv K dd"
    and res: "dd_dispatch_request K g E clk (mt, dd) = ((mt', dd'), ro, es)"
  shows "dd_inv K dd' \<and> took dd ro dd' \<and>
    throttle_run K g (mt, dd_throttle dd) (throttle_effects es) (mt', dd_throttle dd')"
proof -
  obtain m c es0 where m: "smart_io_throttle_dispatch_model_if_needed g (clk 0) mt (dd_throttle dd) = (m, c, es0)"
    by (metis prod_cases3)
  let ?d = "dd\<lparr>dd_throttle := c\<rparr>"
  obtain d1 r1 es1 where p: "dispatch_pick K g E (clk 1 0) (clk 2 0) ?d = (d1, r1, es1)" by (metis prod_cases3)
  have i: "dd_inv K ?d" using inv by simp
  have r0: "throttle_run K g (mt, dd_throttle dd) es0 (m, c)"
    by (rule reaches_one) (rule throttle_step.submit [OF m])
  note t = pick_took [OF E i p, of m]
  have r1: "throttle_run K g (mt, dd_throttle dd) (es0 @ throttle_effects es1) (m, dd_throttle d1)"
    using t r0 reaches_trans by fastforce
  have k: "took dd r1 d1" using t took_trans [of dd ?d r1 d1] by (simp add: took_def)
  show ?thesis
  proof (cases r1)
    case None
    then show ?thesis using res t r1 k by (auto simp: dispatch_request_eq m p Let_def simp del: One_nat_def)
  next
    case (Some r)
    obtain c2 es2 where a: "smart_io_throttle_account_dispatch g (clk 3) (er_rq (dd_rqs d1 r))
        SMART_IO_SELECTION_BACKGROUND_BASELINE (dd_throttle d1) = (c2, es2)" by fastforce
    have "throttle_run K g (mt, dd_throttle dd) ((es0 @ throttle_effects es1) @ es2) (m, c2)"
      by (rule reaches_step [OF r1]) (rule throttle_step.dispatch [OF a])
    then show ?thesis using res t k Some
      by (auto simp: dispatch_request_eq m p a Let_def took_def simp del: One_nat_def)
  qed
qed

section \<open>The elevator as a machine\<close>

type_synonym elevator_state = "throttle_globals \<times> model_thread \<times> deadline_data"

text \<open>
  The steps: the entry points of the elevator, and the steps of the throttle that do not come
  from the elevator (timers, tracepoints, settings).  A request that is inserted, freed or
  prepared is not waiting; a merge obeys the block layer's rules.
\<close>

inductive elevator_step :: "kernel \<Rightarrow> elv_lib \<Rightarrow> elevator_state \<Rightarrow> dd_effect list \<Rightarrow> elevator_state \<Rightarrow> bool"
  for K :: kernel and E :: elv_lib where
  prepare: "r \<notin> set (waiting dd) \<Longrightarrow> elevator_step K E (g, mt, dd) [] (g, mt, dd_prepare_request r dd)"
| insert: "r \<notin> set (waiting dd) \<Longrightarrow> ie_merges ie = [] \<Longrightarrow>
    dd_insert_request K g E ie h r dd = (dd', es) \<Longrightarrow> elevator_step K E (g, mt, dd) es (g, mt, dd')"
| insert_merge: "r \<notin> set (waiting dd) \<Longrightarrow> ie_merges ie \<noteq> [] \<Longrightarrow>
    merges_ok K g (ie_task ie) E (ie_merges ie) r (fst (insert_classify K g ie r dd)) \<Longrightarrow>
    dd_insert_request K g E ie h r dd = (dd', es) \<Longrightarrow> elevator_step K E (g, mt, dd) es (g, mt, dd')"
| merged: "merge_ok K g t dd r v n \<Longrightarrow> dd_merged_requests K g t E r n (set_rq r v dd) = (dd', es) \<Longrightarrow>
    elevator_step K E (g, mt, dd) es (g, mt, dd')"
| back_merge: "type \<noteq> ELEVATOR_FRONT_MERGE \<Longrightarrow> rq_ptr v = r \<Longrightarrow> rq_pos v = rq_pos (er_rq (dd_rqs dd r)) \<Longrightarrow>
    rq_op v = rq_op (er_rq (dd_rqs dd r)) \<Longrightarrow>
    elevator_step K E (g, mt, dd) [] (g, mt, dd_request_merged K g t E r type (set_rq r v dd))"
| front_merge: "rq_ptr v = r \<Longrightarrow> rq_op v = rq_op (er_rq (dd_rqs dd r)) \<Longrightarrow>
    r \<in> set (pp_fifo_list (dd_per_prio dd (select_prio K g t (set_rq r v dd) r)) (rq_dir K dd r)) \<Longrightarrow>
    elevator_step K E (g, mt, dd) [] (g, mt, dd_request_merged K g t E r ELEVATOR_FRONT_MERGE (set_rq r v dd))"
| dispatch: "dd_dispatch_request K g E clk (mt, dd) = ((mt', dd'), ro, es) \<Longrightarrow>
    elevator_step K E (g, mt, dd) es (g, mt', dd')"
| has_work: "dd_has_work g ts dd = (dd', ok, es) \<Longrightarrow> elevator_step K E (g, mt, dd) es (g, mt, dd')"
| finish: "r \<notin> set (waiting dd) \<Longrightarrow> sched_ok (dd_throttle dd) (er_rq (dd_rqs dd r)) \<Longrightarrow>
    dd_finish_request g ts has_elevator r dd = (dd', es) \<Longrightarrow> elevator_step K E (g, mt, dd) es (g, mt, dd')"
| throttle: "throttle_step K (g, mt, dd_throttle dd) es (g', mt', c) \<Longrightarrow>
    elevator_step K E (g, mt, dd) (map Throttle es) (g', mt', dd\<lparr>dd_throttle := c\<rparr>)"

definition throttle_of :: "elevator_state \<Rightarrow> throttle_state" where
  "throttle_of s = (fst s, fst (snd s), dd_throttle (snd (snd s)))"

text \<open>Entry points that neither pick nor queue a request.\<close>

lemma prepare_inv [simp]:
  "dd_inv K (dd_prepare_request r dd) = dd_inv K dd" "waiting (dd_prepare_request r dd) = waiting dd"
  "\<exists>rq. dd_throttle (dd_prepare_request r dd) = smart_io_throttle_prepare_request (Some rq) (dd_throttle dd)"
proof -
  have p: "dd_inv K (upd_rq r (\<lambda>e. e\<lparr>er_priv0 := x\<rparr>) dd) = dd_inv K dd"
    "waiting (upd_rq r (\<lambda>e. e\<lparr>er_priv0 := x\<rparr>) dd) = waiting dd" for x dd
    by (rule dd_inv_cong; simp)+
  then show "dd_inv K (dd_prepare_request r dd) = dd_inv K dd" "waiting (dd_prepare_request r dd) = waiting dd"
    by (simp_all add: dd_prepare_request_def Let_def)
  show "\<exists>rq. dd_throttle (dd_prepare_request r dd) = smart_io_throttle_prepare_request (Some rq) (dd_throttle dd)"
    by (auto simp: dd_prepare_request_def Let_def)
qed

lemma finish_inv:
  assumes "dd_finish_request g ts h r dd = (dd', es)"
  shows "dd_inv K dd' = dd_inv K dd" and "waiting dd' = waiting dd"
    and "(dd_throttle dd' = dd_throttle dd \<and> es = []) \<or>
      (\<exists>fs. smart_io_throttle_finish_request g ts (er_rq (dd_rqs dd r)) (dd_throttle dd) = (dd_throttle dd', fs) \<and>
        es = map Throttle fs)"
proof -
  let ?e = "dd_rqs dd r"
  define b where "b = finish_throttle g ts h ?e dd"
  have dd': "dd' = upd_rq r (\<lambda>e. e\<lparr>er_priv0 := None\<rparr>)
      (case er_priv0 ?e of Some p \<Rightarrow> upd_prio p (\<lambda>pp. pp\<lparr>pp_completed := pp_completed pp + 1\<rparr>) (fst b) | None \<Rightarrow> fst b)"
    "es = snd b"
    using assms unfolding dd_finish_request_def b_def Let_def case_prod_beta by auto
  have bi: "dd_inv K (fst b) = dd_inv K dd" "waiting (fst b) = waiting dd"
    by (simp_all add: b_def finish_throttle_def case_prod_beta)
  have c: "dd_inv K (upd_prio p (\<lambda>pp. pp\<lparr>pp_completed := pp_completed pp + 1\<rparr>) d) = dd_inv K d"
    "waiting (upd_prio p (\<lambda>pp. pp\<lparr>pp_completed := pp_completed pp + 1\<rparr>) d) = waiting d"
    "dd_inv K (upd_rq r (\<lambda>e. e\<lparr>er_priv0 := None\<rparr>) d) = dd_inv K d"
    "waiting (upd_rq r (\<lambda>e. e\<lparr>er_priv0 := None\<rparr>) d) = waiting d" for p d
    by (rule dd_inv_cong; simp)+
  show "dd_inv K dd' = dd_inv K dd" "waiting dd' = waiting dd"
    by (simp_all add: dd' c bi split: option.split)
  have "dd_throttle dd' = dd_throttle (fst b)" by (simp add: dd' split: option.split)
  then show "(dd_throttle dd' = dd_throttle dd \<and> es = []) \<or>
      (\<exists>fs. smart_io_throttle_finish_request g ts (er_rq (dd_rqs dd r)) (dd_throttle dd) = (dd_throttle dd', fs) \<and>
        es = map Throttle fs)"
    by (auto simp: dd'(2) b_def finish_throttle_def split: prod.split)
qed

lemma has_work_inv:
  assumes "dd_has_work g ts dd = (dd', ok, es)"
  shows "dd_inv K dd' = dd_inv K dd" and "waiting dd' = waiting dd"
    and "throttle_run K g (mt, dd_throttle dd) (throttle_effects es) (mt, dd_throttle dd')"
proof -
  have "(dd' = dd \<and> es = []) \<or> (\<exists>c ok fs. smart_io_throttle_non_hp_allowed g ts (dd_throttle dd) = (c, ok, fs) \<and>
      dd' = dd\<lparr>dd_throttle := c\<rparr> \<and> es = map Throttle fs)"
    using assms by (auto simp: dd_has_work_def case_prod_beta Let_def prod_eq_iff split: if_splits)
  then consider "dd' = dd" "es = []"
    | c k fs where "smart_io_throttle_non_hp_allowed g ts (dd_throttle dd) = (c, k, fs)"
        "dd' = dd\<lparr>dd_throttle := c\<rparr>" "es = map Throttle fs" by blast
  then have "dd_inv K dd' = dd_inv K dd \<and> waiting dd' = waiting dd \<and>
      throttle_run K g (mt, dd_throttle dd) (throttle_effects es) (mt, dd_throttle dd')"
  proof cases
    case 1
    then show ?thesis by (simp add: reaches_refl)
  next
    case 2
    have "throttle_run K g (mt, dd_throttle dd) fs (mt, c)"
      by (rule reaches_one) (rule throttle_step.gate [OF 2(1)])
    then show ?thesis using 2 by simp
  qed
  then show "dd_inv K dd' = dd_inv K dd" "waiting dd' = waiting dd"
    "throttle_run K g (mt, dd_throttle dd) (throttle_effects es) (mt, dd_throttle dd')" by blast+
qed

lemma request_merged_throttle:
  "\<exists>rq. dd_throttle (dd_request_merged K g t E r type dd) = smart_io_throttle_update_request K rq (dd_throttle dd)"
  by (auto simp: dd_request_merged_def Let_def)

section \<open>The refinement\<close>

text \<open>Every step of the elevator is a run of throttle steps with the throttle's effects.\<close>

lemma elevator_simulation:
  assumes E: "elv_rb_ok E" and step: "elevator_step K E s es s'" and inv: "dd_inv K (snd (snd s))"
  shows "reaches (throttle_step K) (throttle_of s) (throttle_effects es) (throttle_of s') \<and> dd_inv K (snd (snd s'))"
  using step inv
proof (cases rule: elevator_step.cases)
  case (prepare r dd g mt)
  obtain rq where "dd_throttle (dd_prepare_request r dd) = smart_io_throttle_prepare_request (Some rq) (dd_throttle dd)"
    using prepare_inv(3) by blast
  then show ?thesis using prepare inv
    by (simp add: throttle_of_def) (metis reaches_one throttle_step.prepare)
next
  case (insert r dd ie g h dd' mt)
  obtain d1 p where c: "insert_classify K g ie r dd = (d1, p)" by fastforce
  note i = insert_classify_inv [OF c]
  have "dd_inv K d1" "r \<notin> set (waiting d1)" using i insert inv by simp_all
  note q = insert_queue_inv [OF E this, of ie h p]
  have d: "dd' = fst (insert_queue K E ie h p r d1)" "throttle_effects es = []"
    using insert by (auto simp: dd_insert_request_def c insert_queue_def Let_def split: prod.splits if_splits)
  have "throttle_run K g (mt, dd_throttle dd) [] (mt, dd_throttle dd')"
    unfolding d q(3) i(3) by (rule reaches_one) (rule throttle_step.classify)
  then show ?thesis using insert d q(1) by (simp add: throttle_of_def)
next
  case (insert_merge r dd ie g h dd' mt)
  obtain d1 p where c: "insert_classify K g ie r dd = (d1, p)" by fastforce
  note i = insert_classify_inv [OF c]
  have d: "dd' = fst (insert_merges K g (ie_task ie) E (ie_merges ie) r d1)"
    "es = snd (insert_merges K g (ie_task ie) E (ie_merges ie) r d1)"
    using insert_merge by (simp_all add: dd_insert_request_def c)
  have "dd_inv K d1" "merges_ok K g (ie_task ie) E (ie_merges ie) r d1" using i insert_merge inv c by simp_all
  note m = insert_merges_inv [OF E this, of mt]
  have "throttle_run K g (mt, dd_throttle dd) [] (mt, dd_throttle d1)"
    unfolding i(3) by (rule reaches_one) (rule throttle_step.classify)
  from reaches_trans [OF _ this] m have "throttle_run K g (mt, dd_throttle dd) ([] @ []) (mt, dd_throttle dd')"
    unfolding d by blast
  then show ?thesis using insert_merge m d by (simp add: throttle_of_def)
next
  case (merged g t dd r v n dd' mt)
  have i: "dd_inv K dd" using merged inv by simp
  note m = merge_one_inv [OF E i merged(3)]
  have d: "dd' = fst (merge_one K g t E r v n dd)" "es = snd (merge_one K g t E r v n dd)"
    using merged by (simp_all add: merge_one_def)
  show ?thesis using merged m merge_throttle_run by (simp add: throttle_of_def d)
next
  case (back_merge type v r dd g mt t)
  have "dd_inv K (set_rq r v dd)" using set_rq_inv [of K dd v r] back_merge inv by simp
  then have "dd_inv K (dd_request_merged K g t E r type (set_rq r v dd))"
    using back_merge by (simp add: dd_request_merged_def Let_def)
  then show ?thesis using back_merge request_merged_throttle [of K g t E r type "set_rq r v dd"]
    by (simp add: throttle_of_def) (metis reaches_one throttle_step.update)
next
  case (front_merge v r dd g t mt)
  have "dd_inv K dd" using front_merge inv by simp
  from front_merge_inv [OF E this front_merge(6,4,5)]
  have "dd_inv K (dd_request_merged K g t E r ELEVATOR_FRONT_MERGE (set_rq r v dd))"
    by (simp add: dd_request_merged_def Let_def)
  then show ?thesis using front_merge request_merged_throttle [of K g t E r ELEVATOR_FRONT_MERGE "set_rq r v dd"]
    by (simp add: throttle_of_def) (metis reaches_one throttle_step.update)
next
  case (dispatch g clk mt dd mt' dd' ro)
  have "dd_inv K dd" using dispatch inv by simp
  from dispatch_request_inv [OF E this dispatch(3)] show ?thesis using dispatch by (simp add: throttle_of_def)
next
  case (has_work g ts dd dd' ok mt)
  then show ?thesis using has_work_inv [OF has_work(3)] inv by (simp add: throttle_of_def)
next
  case (finish r dd g ts has_elevator dd' mt)
  note f = finish_inv [OF finish(5)]
  have "throttle_run K g (mt, dd_throttle dd) (throttle_effects es) (mt, dd_throttle dd')"
    using f(3)
  proof (elim disjE exE conjE)
    fix fs assume "smart_io_throttle_finish_request g ts (er_rq (dd_rqs dd r)) (dd_throttle dd) = (dd_throttle dd', fs)"
      "es = map Throttle fs"
    then show ?thesis using throttle_step.finish [OF finish(4)] by (simp add: reaches_one)
  qed (simp add: reaches_refl)
  then show ?thesis using finish f inv by (simp add: throttle_of_def)
next
  case (throttle g mt dd es' g' mt' c)
  then show ?thesis using inv by (simp add: throttle_of_def reaches_one)
qed

definition elevator_init :: "kernel \<Rightarrow> elv_lib \<Rightarrow> elevator_state \<Rightarrow> bool" where
  "elevator_init K E s \<longleftrightarrow> elv_rb_ok E \<and> throttle_init (throttle_of s) \<and>
     (\<exists>hz rqs. dd_init_sched hz True True (Inr (dd_throttle (snd (snd s)))) rqs = Inr (snd (snd s)) \<and>
        (\<forall>r. rq_ptr (er_rq (rqs r)) = r \<and> \<not> er_rb (rqs r)))"

definition elevator_good :: "kernel \<Rightarrow> elv_lib \<Rightarrow> elevator_state \<Rightarrow> bool" where
  "elevator_good K E s \<longleftrightarrow> elv_rb_ok E \<and> throttle_good (throttle_of s) \<and> dd_inv K (snd (snd s))"

lemma init_sched_inv:
  assumes "dd_init_sched hz True True (Inr c) rqs = Inr dd" and "\<forall>r. rq_ptr (er_rq (rqs r)) = r \<and> \<not> er_rb (rqs r)"
  shows "dd_inv K dd"
  using assms by (auto simp: dd_init_sched_def dd_inv_def tree_ok_def waiting_def prio_lists_def empty_prio_def)

interpretation elevator: layered_machine "elevator_step K E" "elevator_init K E" "elevator_good K E"
    "throttle_step K" throttle_of throttle_effects for K E
proof
  fix s assume "elevator_init K E s"
  then show "elevator_good K E s"
    unfolding elevator_init_def elevator_good_def using init_sched_inv throttle.init_inv by blast
next
  fix s es t assume good: "elevator_good K E s" and step: "elevator_step K E s es t"
  then have sim: "reaches (throttle_step K) (throttle_of s) (throttle_effects es) (throttle_of t) \<and> dd_inv K (snd (snd t))"
    using elevator_simulation unfolding elevator_good_def by blast
  then show "reaches (throttle_step K) (throttle_of s) (throttle_effects es) (throttle_of t)" by blast
  show "elevator_good K E t"
    using good sim throttle.reaches_inv [of K "throttle_of s"] unfolding elevator_good_def by blast
qed simp_all

end
