(* ===== verification/Admission.thy ===== *)
theory Admission
  imports Throttle_Laws
begin

text \<open>
  The interface between the throttle and the dispatcher: a client asks the gate, and admits a
  request only when it is allowed.  The client's lemma is that a gated admission never exceeds
  the limit in force; the throttle is the provider.
\<close>

locale admission_gate =
  fixes inv :: "'c \<Rightarrow> bool" and limited :: "'c \<Rightarrow> bool" and used :: "'c \<Rightarrow> nat" and limit :: "'c \<Rightarrow> nat"
    and ask :: "'t \<Rightarrow> 'c \<Rightarrow> 'c" and allowed :: "'c \<Rightarrow> bool" and admit :: "'r \<Rightarrow> 'c \<Rightarrow> 'c"
  assumes ask_inv: "inv c \<Longrightarrow> inv (ask t c)"
    and ask_same: "allowed (ask t c) = allowed c"
    and allowed_room: "inv c \<Longrightarrow> allowed c \<Longrightarrow> limited c \<Longrightarrow> used c < limit c"
    and admit_inv: "inv c \<Longrightarrow> inv (admit r c)"
    and admit_limit: "inv c \<Longrightarrow> limited (admit r c) \<Longrightarrow> limited c \<and> limit (admit r c) = limit c"
    and admit_used: "inv c \<Longrightarrow> used (admit r c) \<le> used c + 1"
begin

text \<open>Asking any number of times, then admitting.\<close>

lemma asks_inv: "inv c \<Longrightarrow> inv (fold ask ts c)"
  by (induction ts arbitrary: c) (auto intro: ask_inv)

lemma asks_same: "allowed (fold ask ts c) = allowed c"
  by (induction ts arbitrary: c) (auto simp: ask_same)

lemma gated_admit:
  assumes "inv c" and "allowed c" and "limited (admit r (fold ask ts c))"
  shows "used (admit r (fold ask ts c)) \<le> limit (admit r (fold ask ts c))"
proof -
  let ?d = "fold ask ts c"
  have d: "inv ?d" "allowed ?d" using asks_inv [OF assms(1)] assms(2) by (simp_all add: asks_same)
  have l: "limited ?d" "limit (admit r ?d) = limit ?d" using admit_limit [OF d(1) assms(3)] by simp_all
  have "used ?d < limit ?d" by (rule allowed_room [OF d l(1)])
  then show ?thesis using admit_used [OF d(1), of r] l(2) by simp
qed

end

section \<open>The throttle as a provider\<close>

text \<open>The verdict of the gate, without its state change.\<close>

definition gate_verdict :: "throttle_globals \<Rightarrow> throttle_ctx \<Rightarrow> bool" where
  "gate_verdict g c \<longleftrightarrow> \<not> smart_io_throttle_enabled g \<or> smart_io_throttle_get_queue_rq_demo g \<or>
     \<not> c_inference_pending c \<and> smart_io_throttle_depth_can_run_locked c"

lemma gate_verdict: "fst (snd (smart_io_throttle_non_hp_allowed g ts c)) = gate_verdict g c"
  by (auto simp: smart_io_throttle_non_hp_allowed_def gate_verdict_def Let_def split: if_splits)

definition gate_ask :: "throttle_globals \<Rightarrow> u64 \<Rightarrow> throttle_ctx \<Rightarrow> throttle_ctx" where
  "gate_ask g ts c = fst (smart_io_throttle_non_hp_allowed g ts c)"

lemma gate_ask_same: "gate_verdict g (gate_ask g ts c) = gate_verdict g c"
  by (cases "c_inference_pending c"; cases "smart_io_throttle_depth_can_run_locked c")
    (auto simp: gate_ask_def smart_io_throttle_non_hp_allowed_def gate_verdict_def Let_def
      smart_io_throttle_depth_can_run_locked_def)

definition gate_limited :: "throttle_globals \<Rightarrow> throttle_ctx \<Rightarrow> bool" where
  "gate_limited g c \<longleftrightarrow> smart_io_throttle_enabled g \<and> \<not> smart_io_throttle_get_queue_rq_demo g \<and>
     c_action_valid c \<and> act_level (c_action c) \<noteq> SMART_IO_THROTTLE_NO"

definition gate_admit ::
  "throttle_globals \<Rightarrow> (nat \<Rightarrow> u64) \<times> request \<times> dispatch_selection \<Rightarrow> throttle_ctx \<Rightarrow> throttle_ctx" where
  "gate_admit g r c = fst (smart_io_throttle_account_dispatch g (fst r) (fst (snd r)) (snd (snd r)) c)"

lemma dispatch_mark_control [simp]: "control_of (dispatch_mark g rq i c) = control_of c"
  by (simp add: dispatch_mark_def Let_def)

lemma control_fields:
  assumes "control_of d = control_of c"
  shows "c_action d = c_action c" and "c_action_valid d = c_action_valid c" and "c_bg_current_depth d = c_bg_current_depth c"
  using assms by (simp_all add: control_of_def)

lemma account_depth_used:
  "c_action_valid (fst (smart_io_throttle_account_depth_locked mo c)) \<Longrightarrow>
    c_action (fst (smart_io_throttle_account_depth_locked mo c)) = c_action c \<and> c_action_valid c"
  "unat (c_bg_current_depth (fst (smart_io_throttle_account_depth_locked mo c))) \<le> unat (c_bg_current_depth c) + 1"
  by (auto simp: smart_io_throttle_account_depth_locked_def Let_def upd_meta_def count_anomaly_def unat_inc split: option.splits if_splits)

lemma count_selection_fields:
  "c_action (count_selection sel i c) = c_action c" "c_action_valid (count_selection sel i c) = c_action_valid c"
  "c_bg_current_depth (count_selection sel i c) = c_bg_current_depth c"
  by (cases sel; simp add: count_selection_def upd_meta_def count_anomaly_def)+

lemma bind_feedback_fields:
  "c_action (bind_feedback i ts c) = c_action c" "c_action_valid (bind_feedback i ts c) = c_action_valid c"
  "c_bg_current_depth (bind_feedback i ts c) = c_bg_current_depth c"
  by (simp_all add: bind_feedback_def upd_meta_def)

lemma account_dispatch_used:
  assumes "smart_io_throttle_account_dispatch g clk rq sel c = (d, es)"
  shows "(c_action_valid d \<longrightarrow> c_action d = c_action c \<and> c_action_valid c) \<and>
    unat (c_bg_current_depth d) \<le> unat (c_bg_current_depth c) + 1"
proof (cases "smart_io_throttle_rq_meta c rq")
  case None
  have "control_of (count_anomaly c) = control_of c" by simp
  from control_fields(3) [OF this] show ?thesis
    using assms by (auto simp: smart_io_throttle_account_dispatch_def None case_prod_beta)
next
  case (Some i)
  let ?m = "dispatch_mark g rq i c"
  have m: "c_action ?m = c_action c" "c_action_valid ?m = c_action_valid c" "c_bg_current_depth ?m = c_bg_current_depth c"
    by (rule control_fields; simp)+
  show ?thesis
    using assms account_depth_used [of "Some i" ?m]
      account_depth_used [of "Some i" "?m\<lparr>c_model_post_apply_pending := False\<rparr>"]
    by (auto simp: smart_io_throttle_account_dispatch_def Some Let_def case_prod_beta m
        count_selection_fields bind_feedback_fields split: if_splits)
qed

interpretation throttle_gate: admission_gate "good 4" "gate_limited g" "\<lambda>c. unat (c_bg_current_depth c)"
    "\<lambda>c. unat (act_target_depth (c_action c))" "gate_ask g" "gate_verdict g" "gate_admit g" for g
proof
  fix c t r
  assume good: "good 4 c"
  show "good 4 (gate_ask g t c)"
    unfolding gate_ask_def by (rule good_non_hp_allowed [OF good])
  show "good 4 (gate_admit g r c)" unfolding gate_admit_def by (rule good_account_dispatch [OF good])
  obtain d es where d: "smart_io_throttle_account_dispatch g (fst r) (fst (snd r)) (snd (snd r)) c = (d, es)" by fastforce
  note u = account_dispatch_used [OF d]
  show "unat (c_bg_current_depth (gate_admit g r c)) \<le> unat (c_bg_current_depth c) + 1"
    using u by (simp add: gate_admit_def d)
  show "gate_limited g c \<and> unat (act_target_depth (c_action (gate_admit g r c))) = unat (act_target_depth (c_action c))"
    if "gate_limited g (gate_admit g r c)"
    using that u by (auto simp: gate_admit_def d gate_limited_def)
  show "unat (c_bg_current_depth c) < unat (act_target_depth (c_action c))" if "gate_verdict g c" "gate_limited g c"
    using that goodD(2) [OF good]
    by (auto simp: gate_verdict_def gate_limited_def smart_io_throttle_depth_can_run_locked_def
        control_inv_def word_less_nat_alt)
qed (rule gate_ask_same)

end
