(* ===== verification/Deadline_Props.thy ===== *)
theory Deadline_Props
  imports Deadline_Machine Admission Throttle_Props
begin

text \<open>
  The properties of the elevator.  The concrete tree, request table and elevator at the start are
  the inputs of the witnesses; the tree inserts by position, equal positions to the right, as the
  block layer does.
\<close>

section \<open>A concrete elevator\<close>

fun demo_rb_add :: "(nat \<Rightarrow> u64) \<Rightarrow> nat \<Rightarrow> nat tree \<Rightarrow> nat tree" where
  "demo_rb_add f r \<langle>\<rangle> = \<langle>\<langle>\<rangle>, r, \<langle>\<rangle>\<rangle>"
| "demo_rb_add f r \<langle>a, x, b\<rangle> = (if f r < f x then \<langle>demo_rb_add f r a, x, b\<rangle> else \<langle>a, x, demo_rb_add f r b\<rangle>)"

fun demo_spine :: "nat list \<Rightarrow> nat tree" where
  "demo_spine [] = \<langle>\<rangle>"
| "demo_spine (x # xs) = \<langle>\<langle>\<rangle>, x, demo_spine xs\<rangle>"

definition demo_elv :: elv_lib where
  "demo_elv = \<lparr>el_rb_add = demo_rb_add, el_rb_del = (\<lambda>r t. demo_spine (filter (\<lambda>x. x \<noteq> r) (inorder t))),
     el_rb_find = (\<lambda>f pos t. find (\<lambda>r. f r = pos) (inorder t)), el_bio_merge_ok = (\<lambda>_ _. True),
     el_discard_mergable = (\<lambda>_. False), el_mergeable = (\<lambda>_. True)\<rparr>"

lemma inorder_spine [simp]: "inorder (demo_spine xs) = xs"
  by (induction xs) simp_all

lemma demo_rb_add_set: "set (inorder (demo_rb_add f r t)) = insert r (set (inorder t))"
  by (induction t) auto

lemma demo_rb_add_distinct: "distinct (inorder t) \<Longrightarrow> r \<notin> set (inorder t) \<Longrightarrow> distinct (inorder (demo_rb_add f r t))"
  by (induction t) (auto simp: demo_rb_add_set)

lemma demo_rb_add_sorted: "sorted (map f (inorder t)) \<Longrightarrow> sorted (map f (inorder (demo_rb_add f r t)))"
  by (induction t) (fastforce simp: sorted_append demo_rb_add_set)+

lemma demo_elv_ok: "elv_rb_ok demo_elv"
  by (simp add: elv_rb_ok_def demo_elv_def demo_rb_add_set demo_rb_add_distinct demo_rb_add_sorted)

definition demo_dd :: deadline_data where
  "demo_dd = \<lparr>dd_per_prio = (\<lambda>_. empty_prio), dd_throttle = demo_ctx, dd_last_dir = DD_WRITE,
     dd_batching = 0, dd_starved = 0, dd_fifo_expire = (\<lambda>d. case d of DD_READ \<Rightarrow> 125 | DD_WRITE \<Rightarrow> 1250),
     dd_fifo_batch = 16, dd_writes_starved = 2, dd_front_merges = 1, dd_async_depth = 0,
     dd_prio_aging_expire = 2500,
     dd_rqs = (\<lambda>r. \<lparr>er_rq = demo_request r, er_fifo_time = 0, er_rb = False, er_priv0 = None, er_started = False\<rparr>),
     dd_last_merge = None\<rparr>"

definition demo_ie :: insert_env where
  "demo_ie = \<lparr>ie_task = demo_task, ie_now = 5, ie_jiffies = 40, ie_merges = []\<rparr>"

abbreviation demo_start :: elevator_state where
  "demo_start \<equiv> (demo_globals, demo_thread, demo_dd)"

definition demo_dd1 :: deadline_data where
  "demo_dd1 = fst (dd_insert_request linux_kernel demo_globals demo_elv demo_ie False 9 demo_dd)"

lemma demo_elevator_init: "elevator_init linux_kernel demo_elv demo_start"
proof -
  have "dd_init_sched 250 True True (Inr demo_ctx) (dd_rqs demo_dd) = Inr demo_dd"
    by (simp add: dd_init_sched_def demo_dd_def fun_eq_iff split: dd_data_dir.split)
  moreover have "\<forall>r. rq_ptr (er_rq (dd_rqs demo_dd r)) = r \<and> \<not> er_rb (dd_rqs demo_dd r)"
    by (simp add: demo_dd_def demo_request_def)
  moreover have "dd_throttle demo_dd = demo_ctx" by (simp add: demo_dd_def)
  ultimately show ?thesis
    using demo_elv_ok demo_init unfolding elevator_init_def throttle_of_def fst_conv snd_conv by metis
qed

lemma demo_waiting: "waiting demo_dd = []"
  by (simp add: waiting_def prio_lists_def demo_dd_def empty_prio_def)

lemma demo_inserted:
  "reaches (elevator_step linux_kernel demo_elv) demo_start
     (snd (dd_insert_request linux_kernel demo_globals demo_elv demo_ie False 9 demo_dd))
     (demo_globals, demo_thread, demo_dd1)"
  by (rule reaches_one, rule elevator_step.insert [where r = 9 and ie = demo_ie and h = False])
    (simp_all add: demo_waiting demo_ie_def demo_dd1_def)

text \<open>The request just inserted is dispatched.\<close>

abbreviation demo_out :: "(model_thread \<times> deadline_data) \<times> nat option \<times> dd_effect list" where
  "demo_out \<equiv> dd_dispatch_request linux_kernel demo_globals demo_elv (\<lambda>_ _. 7) (demo_thread, demo_dd1)"

lemma demo_out_picks: "fst (snd demo_out) = Some 9"
  by code_simp

lemma demo_out_split: "demo_out = ((fst (fst demo_out), snd (fst demo_out)), Some 9, snd (snd demo_out))"
  using demo_out_picks by (simp add: prod_eq_iff)

text \<open>The same with an action in force: target 2, and the background depth goes from 0 to 1.\<close>

definition demo_dd2 :: deadline_data where
  "demo_dd2 = fst (dd_insert_request linux_kernel demo_globals demo_elv demo_ie False 9
     (demo_dd\<lparr>dd_throttle := demo_active\<rparr>))"

abbreviation demo_out2 :: "(model_thread \<times> deadline_data) \<times> nat option \<times> dd_effect list" where
  "demo_out2 \<equiv> dd_dispatch_request linux_kernel demo_globals demo_elv (\<lambda>_ _. 7) (demo_thread, demo_dd2)"

lemma demo_out2_eval:
  "fst (snd demo_out2) = Some 9" "c_action_valid (dd_throttle (snd (fst demo_out2)))"
  "act_level (c_action (dd_throttle (snd (fst demo_out2)))) = 2"
  "c_bg_current_depth (dd_throttle (snd (fst demo_out2))) = 1"
  by code_simp+

lemma demo_dd2_good: "elevator_good linux_kernel demo_elv (demo_globals, demo_thread, demo_dd2)"
proof -
  have "elevator_good linux_kernel demo_elv demo_start" by (rule elevator.init_inv [OF demo_elevator_init])
  then have "elevator_good linux_kernel demo_elv (demo_globals, demo_thread, demo_dd\<lparr>dd_throttle := demo_active\<rparr>)"
    using demo_active_good by (simp add: elevator_good_def throttle_good_def throttle_of_def)
  moreover have "elevator_step linux_kernel demo_elv (demo_globals, demo_thread, demo_dd\<lparr>dd_throttle := demo_active\<rparr>)
      (snd (dd_insert_request linux_kernel demo_globals demo_elv demo_ie False 9 (demo_dd\<lparr>dd_throttle := demo_active\<rparr>)))
      (demo_globals, demo_thread, demo_dd2)"
    by (rule elevator_step.insert [where r = 9 and ie = demo_ie and h = False])
      (simp_all add: demo_waiting demo_ie_def demo_dd2_def)
  ultimately show ?thesis by (rule elevator.step_inv)
qed

section \<open>Refinement and lists\<close>

text \<open>Every run of the elevator from its initial state is, seen through the throttle it embeds, a run of the throttle with the same throttle effects.\<close>

theorem elevator_refines_throttle:
  assumes "elevator_init K E s" and "reaches (elevator_step K E) s es t"
  shows "reaches (throttle_step K) (throttle_of s) (throttle_effects es) (throttle_of t)"
  by (rule elevator.run_simulates [OF assms(2) elevator.init_inv [OF assms(1)]])

lemma elevator_refines_throttle_witness:
  "reaches (throttle_step linux_kernel) (throttle_of demo_start)
     (throttle_effects (snd (dd_insert_request linux_kernel demo_globals demo_elv demo_ie False 9 demo_dd)))
     (throttle_of (demo_globals, demo_thread, demo_dd1))"
  by (rule elevator_refines_throttle [OF demo_elevator_init demo_inserted])

lemma elevator_reached:
  assumes "elevator_init K E s" and "reaches (elevator_step K E) s es (g, mt, dd)"
  shows "elv_rb_ok E" and "dd_inv K dd" and "good 4 (dd_throttle dd)"
  using elevator.reaches_inv [OF assms(2) elevator.init_inv [OF assms(1)]]
  by (simp_all add: elevator_good_def throttle_good_def throttle_of_def)



text \<open>The first element of a sorted list that is not below a bound.\<close>

lemma sorted_find:
  assumes "sorted (map f xs)"
  shows "case find (\<lambda>r. pos \<le> f r) xs of
      None \<Rightarrow> \<forall>x \<in> set xs. f x < pos
    | Some r \<Rightarrow> r \<in> set xs \<and> pos \<le> f r \<and> (\<forall>x \<in> set xs. pos \<le> f x \<longrightarrow> f r \<le> (f x :: u64))"
  using assms by (induction xs) (auto split: option.splits)

section \<open>Dispatch\<close>

text \<open>C9: a dispatch neither loses nor duplicates a request: what waited before waits afterwards, in the same order, except for the one request that is returned.\<close>

theorem dispatch_conserves:
  assumes "elevator_init K E s" and "reaches (elevator_step K E) s es (g, mt, dd)"
    and "dd_dispatch_request K g E clk (mt, dd) = ((mt', dd'), ro, fs)"
  shows "waiting dd' = filter (\<lambda>x. ro \<noteq> Some x) (waiting dd) \<and>
    mset (waiting dd) = mset (waiting dd') + (case ro of None \<Rightarrow> {#} | Some r \<Rightarrow> {#r#})"
proof -
  note r = elevator_reached [OF assms(1,2)]
  have t: "took dd ro dd'" using dispatch_request_inv [OF r(1,2) assms(3)] by blast
  then have w: "waiting dd' = filter (\<lambda>x. ro \<noteq> Some x) (waiting dd)"
    by (cases ro) (auto simp: took_def removeAll_filter_not_eq intro!: filter_cong)
  have "mset (waiting dd) = add_mset x (mset (removeAll x (waiting dd)))" if "ro = Some x" for x
    using t that dd_invD(1) [OF r(2)] by (simp add: took_def distinct_remove1_removeAll [symmetric])
  then show ?thesis using w t by (cases ro) (simp_all add: took_def)
qed

lemma dispatch_conserves_witness:
  "waiting (snd (fst demo_out)) = filter (\<lambda>x. Some (9 :: nat) \<noteq> Some x) (waiting demo_dd1) \<and>
    mset (waiting demo_dd1) = mset (waiting (snd (fst demo_out))) + (case Some 9 of None \<Rightarrow> {#} | Some r \<Rightarrow> {#r#})"
  by (rule dispatch_conserves [OF demo_elevator_init demo_inserted demo_out_split])

text \<open>Which request an attempt returns, and the context it leaves when there is none.\<close>

lemma try_choice:
  "fst (snd (dd_try_non_hp K g E ts p (dd, None, es))) =
     (if gate_verdict g (dd_throttle dd) then fifo_head dd p else None)"
proof -
  let ?a = "smart_io_throttle_non_hp_allowed g ts (dd_throttle dd)"
  have "fst (snd (dd_dispatch_fifo K E p (dd\<lparr>dd_throttle := fst ?a\<rparr>))) = fifo_head dd p"
    by (simp add: dispatch_fifo_eq split: option.split)
  then show ?thesis
    by (simp add: dd_try_non_hp_def case_prod_beta Let_def gate_verdict flip: One_nat_def)
qed

lemma try_none:
  assumes "fst (snd (dd_try_non_hp K g E ts p (dd, None, es))) = None"
  shows "fst (dd_try_non_hp K g E ts p (dd, None, es)) = dd\<lparr>dd_throttle := gate_ask g ts (dd_throttle dd)\<rparr>"
  using assms
  by (auto simp: dd_try_non_hp_def case_prod_beta Let_def gate_ask_def dispatch_fifo_eq split: option.splits if_splits)

lemma pick_choice:
  "fst (snd (dispatch_pick K g E t1 t2 dd)) =
     (case fifo_head dd DD_HP_PRIO of
        Some r \<Rightarrow> Some r
      | None \<Rightarrow>
          if gate_verdict g (dd_throttle dd)
          then (case fifo_head dd DD_RT_PRIO of Some r \<Rightarrow> Some r | None \<Rightarrow> fifo_head dd DD_BE_PRIO)
          else None)"
proof (cases "fifo_head dd DD_HP_PRIO")
  case (Some r)
  then show ?thesis by (simp add: dispatch_pick_def dispatch_fifo_eq try_non_hp_skip)
next
  case None
  let ?s = "dd_try_non_hp K g E t1 DD_RT_PRIO (dd, None, [])"
  have p: "dispatch_pick K g E t1 t2 dd = dd_try_non_hp K g E t2 DD_BE_PRIO ?s"
    using None by (simp add: dispatch_pick_def dispatch_fifo_eq)
  obtain d r es where s: "?s = (d, r, es)" by (metis prod_cases3)
  have r: "r = (if gate_verdict g (dd_throttle dd) then fifo_head dd DD_RT_PRIO else None)"
    using try_choice [of K g E t1 DD_RT_PRIO dd "[]"] by (simp add: s)
  show ?thesis
  proof (cases r)
    case (Some x)
    then show ?thesis using None r by (auto simp: p s try_non_hp_skip split: if_splits)
  next
    case None2: None
    have "d = dd\<lparr>dd_throttle := gate_ask g t1 (dd_throttle dd)\<rparr>"
      using try_none [of K g E t1 DD_RT_PRIO dd "[]"] None2 by (simp add: s)
    then show ?thesis using None None2 r
      by (auto simp: p s try_choice gate_ask_same split: if_splits option.splits)
  qed
qed

lemma dispatch_choice_gate:
  "fst (snd (dd_dispatch_request K g E clk (mt, dd))) =
     (case fifo_head dd DD_HP_PRIO of
        Some r \<Rightarrow> Some r
      | None \<Rightarrow>
          if gate_verdict g (fst (snd (smart_io_throttle_dispatch_model_if_needed g (clk 0) mt (dd_throttle dd))))
          then (case fifo_head dd DD_RT_PRIO of Some r \<Rightarrow> Some r | None \<Rightarrow> fifo_head dd DD_BE_PRIO)
          else None)"
proof -
  let ?c = "fst (snd (smart_io_throttle_dispatch_model_if_needed g (clk 0) mt (dd_throttle dd)))"
  have "fst (snd (dd_dispatch_request K g E clk (mt, dd))) =
      fst (snd (dispatch_pick K g E (clk 1 0) (clk 2 0) (dd\<lparr>dd_throttle := ?c\<rparr>)))"
    unfolding dispatch_request_eq Let_def by (simp split: option.split)
  then show ?thesis unfolding pick_choice set_throttle(3) by simp
qed




text \<open>The search of the position tree returns the waiting request of the smallest position at or after the given one, and none only when there is none.\<close>

theorem next_request_is_first:
  assumes "elevator_init K E s" and "reaches (elevator_step K E) s es (g, mt, dd)"
  shows "case deadline_next_request dd p d of
      None \<Rightarrow> \<forall>x \<in> set (pp_fifo_list (dd_per_prio dd p) d). blk_pos dd x < pp_latest_pos (dd_per_prio dd p) d
    | Some r \<Rightarrow> r \<in> set (pp_fifo_list (dd_per_prio dd p) d) \<and> pp_latest_pos (dd_per_prio dd p) d \<le> blk_pos dd r \<and>
        (\<forall>x \<in> set (pp_fifo_list (dd_per_prio dd p) d).
           pp_latest_pos (dd_per_prio dd p) d \<le> blk_pos dd x \<longrightarrow> blk_pos dd r \<le> blk_pos dd x)"
proof -
  let ?t = "pp_sort_list (dd_per_prio dd p) d" and ?pos = "pp_latest_pos (dd_per_prio dd p) d"
  have t: "set (pp_fifo_list (dd_per_prio dd p) d) = set (inorder ?t)" "sorted (map (blk_pos dd) (inorder ?t))"
    using dd_invD(2) [OF elevator_reached(2) [OF assms], of p d] by (simp_all add: tree_ok_def Let_def)
  have "deadline_next_request dd p d = find (\<lambda>r. ?pos \<le> blk_pos dd r) (inorder ?t)"
    by (simp add: deadline_next_request_def from_pos_find [OF t(2)] split: option.split)
  then show ?thesis using sorted_find [OF t(2), of ?pos] by (simp add: t(1) split: option.splits)
qed

lemma next_request_is_first_witness:
  "deadline_next_request demo_dd1 DD_BE_PRIO DD_READ = Some 9 \<and>
    9 \<in> set (pp_fifo_list (dd_per_prio demo_dd1 DD_BE_PRIO) DD_READ)"
proof -
  have "deadline_next_request demo_dd1 DD_BE_PRIO DD_READ = Some 9" by code_simp
  then show ?thesis
    using next_request_is_first [OF demo_elevator_init demo_inserted, of DD_BE_PRIO DD_READ] by simp
qed

section \<open>Admission below the target\<close>

lemma try_throttle:
  "dd_throttle (fst (dd_try_non_hp K g E ts p (dd, None, es))) = gate_ask g ts (dd_throttle dd)"
  by (simp add: dd_try_non_hp_def case_prod_beta Let_def gate_ask_def dispatch_fifo_eq split: option.split)

lemma pick_gate:
  assumes "fifo_head dd DD_HP_PRIO = None" and "fst (snd (dispatch_pick K g E t1 t2 dd)) = Some r"
  shows "gate_verdict g (dd_throttle dd) \<and>
    (\<exists>ts. dd_throttle (fst (dispatch_pick K g E t1 t2 dd)) = fold (gate_ask g) ts (dd_throttle dd))"
proof -
  let ?s = "dd_try_non_hp K g E t1 DD_RT_PRIO (dd, None, [])"
  obtain d r' es where s: "?s = (d, r', es)" by (metis prod_cases3)
  have p: "dispatch_pick K g E t1 t2 dd = dd_try_non_hp K g E t2 DD_BE_PRIO (d, r', es)"
    using assms(1) by (simp add: dispatch_pick_def dispatch_fifo_eq s)
  have d: "dd_throttle d = fold (gate_ask g) [t1] (dd_throttle dd)"
    using try_throttle [of K g E t1 DD_RT_PRIO dd "[]"] by (simp add: s)
  have "\<exists>ts. dd_throttle (fst (dispatch_pick K g E t1 t2 dd)) = fold (gate_ask g) ts (dd_throttle dd)"
  proof (cases r')
    case None
    then have "dd_throttle (fst (dispatch_pick K g E t1 t2 dd)) = fold (gate_ask g) [t1, t2] (dd_throttle dd)"
      using d by (simp add: p try_throttle)
    then show ?thesis by blast
  next
    case (Some x)
    then show ?thesis using d by (metis p fst_conv try_non_hp_skip)
  qed
  moreover have "gate_verdict g (dd_throttle dd)" using assms by (auto simp: pick_choice split: if_splits)
  ultimately show ?thesis by blast
qed

text \<open>C12: a request that is dispatched while no high-priority request waits keeps the background depth within the target of the action in force: in every state that satisfies the invariant, the dispatch of a request outside the high-priority class never takes the device past the target.\<close>

theorem gated_dispatch_within_target:
  assumes "elevator_good K E (g, mt, dd)" and "prio_lists (dd_per_prio dd DD_HP_PRIO) = []"
    and "dd_dispatch_request K g E clk (mt, dd) = ((mt', dd'), Some r, fs)"
    and "smart_io_throttle_enabled g \<and> \<not> smart_io_throttle_get_queue_rq_demo g"
    and "c_action_valid (dd_throttle dd') \<and> act_level (c_action (dd_throttle dd')) \<noteq> SMART_IO_THROTTLE_NO"
  shows "c_bg_current_depth (dd_throttle dd') \<le> act_target_depth (c_action (dd_throttle dd'))"
proof -
  obtain m c es0 where m: "smart_io_throttle_dispatch_model_if_needed g (clk 0) mt (dd_throttle dd) = (m, c, es0)"
    by (metis prod_cases3)
  obtain d x es1 where p: "dispatch_pick K g E (clk 1 0) (clk 2 0) (dd\<lparr>dd_throttle := c\<rparr>) = (d, x, es1)"
    by (metis prod_cases3)
  have x: "x = Some r" and dd': "dd_throttle dd' = gate_admit g (clk 3, er_rq (dd_rqs d r),
      SMART_IO_SELECTION_BACKGROUND_BASELINE) (dd_throttle d)"
    using assms(3) by (cases x; auto simp: dispatch_request_eq m p Let_def gate_admit_def simp del: One_nat_def)+
  have "good 4 c"
    using assms(1) good_dispatch_model [of 4 "dd_throttle dd" g "clk 0" mt]
    by (simp add: m elevator_good_def throttle_good_def throttle_of_def)
  moreover have "fifo_head dd DD_HP_PRIO = None" using assms(2) by (simp add: fifo_head_None has_work_lists)
  then obtain ts where ts: "gate_verdict g c" "dd_throttle d = fold (gate_ask g) ts c"
    using pick_gate [of "dd\<lparr>dd_throttle := c\<rparr>" K g E "clk 1 0" "clk 2 0" r]
    by (auto simp: p x simp del: One_nat_def)
  moreover have "gate_limited g (dd_throttle dd')" using assms(4,5) by (simp add: gate_limited_def)
  ultimately show ?thesis
    using throttle_gate.gated_admit [of c g] unfolding dd' ts(2) word_le_nat_alt by blast
qed

lemma gated_dispatch_within_target_witness:
  "c_bg_current_depth (dd_throttle (snd (fst demo_out2))) = 1 \<and>
    c_bg_current_depth (dd_throttle (snd (fst demo_out2))) \<le> act_target_depth (c_action (dd_throttle (snd (fst demo_out2))))"
proof -
  have hp: "prio_lists (dd_per_prio demo_dd2 DD_HP_PRIO) = []" by code_simp
  have "c_bg_current_depth (dd_throttle (snd (fst demo_out2))) \<le> act_target_depth (c_action (dd_throttle (snd (fst demo_out2))))"
    by (rule gated_dispatch_within_target [OF demo_dd2_good hp, where clk = "\<lambda>_ _. 7" and r = 9
          and mt' = "fst (fst demo_out2)" and fs = "snd (snd demo_out2)"])
      (use demo_out2_eval in \<open>auto simp: prod_eq_iff demo_globals_def initial_globals_def
          smart_io_throttle_enabled_def smart_io_throttle_get_queue_rq_demo_def\<close>)
  with demo_out2_eval(4) show ?thesis by blast
qed

section \<open>Attributes and depths\<close>

lemma clamp_max_min: "lo \<le> hi \<Longrightarrow> clamp_int lo hi v = max lo (min v hi)"
  by (auto simp: clamp_int_def)

text \<open>An attribute read back after a write is the written value clamped to the attribute's range, whatever the attribute, when the kernel's tick conversions are inverse on that value; a value that does not parse changes nothing.\<close>

theorem store_show_roundtrip:
  assumes "ms (jf (max (attr_min a) (min v (attr_max a)))) = max (attr_min a) (min v (attr_max a))"
  shows "deadline_show ms a (fst (deadline_store jf a (Inr v) n dd)) = max (attr_min a) (min v (attr_max a)) \<and>
    deadline_store jf a (Inl e) n dd = (dd, Inl e)"
proof -
  have s: "sint (word_of_int x :: u32) = x" if "1 \<le> x" "x \<le> INT_MAX" for x :: int
    using that by (simp add: signed_of_int signed_take_bit_int_eq_self)
  show ?thesis using assms s [of "max 1 (min v INT_MAX)"] by (cases a) (simp_all add: clamp_max_min Let_def)
qed

lemma store_show_roundtrip_witness:
  "deadline_show (\<lambda>j. 4 * j) ReadExpire (fst (deadline_store (\<lambda>m. m div 4) ReadExpire (Inr 500) 3 demo_dd)) = 500"
  using store_show_roundtrip [of "\<lambda>j. 4 * j" "\<lambda>m. m div 4" ReadExpire 500 3 demo_dd EINVAL] by simp

text \<open>The depth of a shared tag word is the rounded-up share of the asynchronous depth: at least one and at most the width of the word, when the depth is between one and the number of requests and the product does not overflow.\<close>

theorem word_depth_bounds:
  assumes "1 \<le> q" and "q \<le> nr" and "unat q * 2 ^ shift + unat nr \<le> 2 ^ 32"
  shows "unat (dd_to_word_depth shift nr q) = (unat q * 2 ^ shift + unat nr - 1) div unat nr \<and>
    1 \<le> unat (dd_to_word_depth shift nr q) \<and> unat (dd_to_word_depth shift nr q) \<le> 2 ^ shift"
proof -
  let ?n = "unat q * 2 ^ shift + unat nr - 1"
  have pos: "0 < unat q" "0 < unat nr" "unat q \<le> unat nr"
    using assms(1,2) by (simp_all add: word_le_nat_alt)
  have "2 ^ shift \<le> unat q * 2 ^ shift" using pos by simp
  then have "(2 :: nat) ^ shift < 2 ^ 32" using assms(3) pos by linarith
  then have le: "shift < 32" by (rule power_less_imp_less_exp [rotated]) simp
  have "unat (push_bit shift q) = unat q * 2 ^ shift"
    using assms(3) pos le by (subst unsigned_push_bit_eq) (simp add: push_bit_eq_mult take_bit_nat_eq_self)
  moreover have "unat (nr - 1) = unat nr - 1" using pos by (intro unat_dec) auto
  moreover have "push_bit shift q + nr - 1 = push_bit shift q + (nr - 1)" by simp
  ultimately have "unat (push_bit shift q + nr - 1) = ?n"
    using assms(3) pos by (simp only: unat_word_ariths) simp
  then have d: "unat (dd_to_word_depth shift nr q) = ?n div unat nr"
    by (simp add: dd_to_word_depth_def unat_div)
  have "1 \<le> unat q * 2 ^ shift" using pos by (simp add: Suc_le_eq)
  then have "1 * unat nr \<le> ?n" by linarith
  then have "1 \<le> ?n div unat nr" using pos(2) by (metis div_le_mono nonzero_mult_div_cancel_right not_gr_zero)
  moreover have "?n < (2 ^ shift + 1) * unat nr"
    using pos(2) mult_le_mono1 [OF pos(3), of "2 ^ shift"] unfolding distrib_right
    by (simp only: mult.commute [of "unat nr"])
  then have "?n div unat nr < 2 ^ shift + 1" by (rule less_mult_imp_div_less)
  ultimately show ?thesis using d by simp
qed

lemma word_depth_bounds_witness:
  "unat (dd_to_word_depth 6 128 96) = 48 \<and> (1 :: nat) \<le> 48 \<and> (48 :: nat) \<le> 64"
  using word_depth_bounds [of 96 128 6] by simp

end
