(* ===== verification/Dirtyrate.thy ===== *)
theory Dirtyrate
  imports Machine Prelude
begin

text \<open>
  \<open>smart_io_dirtyrate.c\<close>: the token bucket that paces writers of the background group.  The
  module's static variables are the record \<open>dirtyrate\<close>; a lock region is one definition on it.
  The kernel's 128-bit multiply-and-divide and its page size are parameters, and so are the
  clock, the foreground user and the answer of \<open>cgroup_path\<close>.
\<close>

section \<open>State\<close>

record dirtyrate =
  dr_config_seq :: u64
  dr_enabled :: bool
  dr_active :: bool
  dr_config_wbps :: u64
  dr_wbps :: u64
  dr_burst_bytes :: u64
  dr_tokens :: u64
  dr_last_refill_ns :: u64
  dr_charged_bytes :: u64
  dr_wait_count :: u64
  dr_wait_ns :: u64
  dr_bypass_fg_count :: u64
  dr_bypass_invalid_fg_count :: u64

definition dirtyrate_initial :: dirtyrate where
  "dirtyrate_initial = \<lparr>dr_config_seq = 1, dr_enabled = False, dr_active = False, dr_config_wbps = 0,
     dr_wbps = 0, dr_burst_bytes = 0, dr_tokens = 0, dr_last_refill_ns = 0, dr_charged_bytes = 0,
     dr_wait_count = 0, dr_wait_ns = 0, dr_bypass_fg_count = 0, dr_bypass_invalid_fg_count = 0\<rparr>"

record dirtyrate_lib =
  dl_mul_div :: "u64 \<Rightarrow> u64 \<Rightarrow> u64 \<Rightarrow> u64"
  dl_page_size :: u64

text \<open>The effects of the module: \<open>wake_up_all\<close> on its wait queue, and the admission of one page.\<close>

datatype dr_effect = WakeWriters | ChargePage

definition smart_io_dirtyrate_max_sleep_ns :: u64 where "smart_io_dirtyrate_max_sleep_ns = nsec_per_sec"
definition smart_io_dirtyrate_kib_bytes :: u64 where "smart_io_dirtyrate_kib_bytes = 1024"

section \<open>Arithmetic\<close>

definition dirtyrate_add_sat :: "u64 \<Rightarrow> u64 \<Rightarrow> u64" where
  "dirtyrate_add_sat left right = (if u64_max - left < right then u64_max else left + right)"

definition dirtyrate_bytes_for_ns :: "dirtyrate_lib \<Rightarrow> u64 \<Rightarrow> u64 \<Rightarrow> u64" where
  "dirtyrate_bytes_for_ns L duration_ns rate_bps = dl_mul_div L duration_ns rate_bps nsec_per_sec"

definition dirtyrate_ns_for_bytes :: "dirtyrate_lib \<Rightarrow> u64 \<Rightarrow> u64 \<Rightarrow> bool \<Rightarrow> u64" where
  "dirtyrate_ns_for_bytes L bytes rate_bps round_up =
     (let remainder = bytes mod rate_bps; seconds = bytes div rate_bps in
      if seconds > u64_max div nsec_per_sec then u64_max
      else
      (let duration_ns = seconds * nsec_per_sec;
           partial_ns = dl_mul_div L remainder nsec_per_sec rate_bps;
           duration_ns = dirtyrate_add_sat duration_ns partial_ns
       in if round_up \<and> remainder \<noteq> 0 then dirtyrate_add_sat duration_ns 1 else duration_ns))"

section \<open>The bucket\<close>

definition dirtyrate_reset_bucket_locked :: "dirtyrate_lib \<Rightarrow> u64 \<Rightarrow> u64 \<Rightarrow> dirtyrate \<Rightarrow> dirtyrate" where
  "dirtyrate_reset_bucket_locked L wbps now_ns s =
     (let burst = (if wbps \<noteq> 0 then max (dl_page_size L) (wbps div 8) else 0)
      in s\<lparr>dr_wbps := wbps, dr_burst_bytes := burst, dr_tokens := burst, dr_last_refill_ns := now_ns\<rparr>)"

definition dirtyrate_refill_locked :: "dirtyrate_lib \<Rightarrow> u64 \<Rightarrow> dirtyrate \<Rightarrow> dirtyrate" where
  "dirtyrate_refill_locked L now_ns s =
     (if dr_wbps s = 0 \<or> dr_burst_bytes s = 0 then s
      else if dr_tokens s \<ge> dr_burst_bytes s
      then s\<lparr>dr_tokens := dr_burst_bytes s, dr_last_refill_ns := now_ns\<rparr>
      else if now_ns \<le> dr_last_refill_ns s then s
      else
      (let elapsed = now_ns - dr_last_refill_ns s;
           missing = dr_burst_bytes s - dr_tokens s;
           full_refill_ns = dirtyrate_ns_for_bytes L missing (dr_wbps s) True in
       if elapsed \<ge> full_refill_ns
       then s\<lparr>dr_tokens := dr_burst_bytes s, dr_last_refill_ns := now_ns\<rparr>
       else
       (let added = dirtyrate_bytes_for_ns L elapsed (dr_wbps s) in
        if added = 0 then s
        else if added \<ge> missing
        then s\<lparr>dr_tokens := dr_burst_bytes s, dr_last_refill_ns := now_ns\<rparr>
        else
        (let advanced = dirtyrate_ns_for_bytes L added (dr_wbps s) False;
             advanced = max advanced 1;
             advanced = dirtyrate_add_sat (dr_last_refill_ns s) advanced
         in s\<lparr>dr_tokens := dr_tokens s + added, dr_last_refill_ns := min now_ns advanced\<rparr>))))"

section \<open>The hook\<close>

definition dirtyrate_wait_changed :: "u64 \<Rightarrow> u32 \<Rightarrow> int \<Rightarrow> dirtyrate \<Rightarrow> bool" where
  "dirtyrate_wait_changed config_seq uid fg_uid s \<longleftrightarrow>
     config_seq \<noteq> dr_config_seq s \<or> \<not> dr_enabled s \<or> \<not> dr_active s \<or> dr_wbps s = 0 \<or>
     fg_uid < 0 \<or> word_of_int fg_uid = uid"

text \<open>The group of the current task: the value \<open>cgroup_path\<close> returns and the path it writes.\<close>

definition dirtyrate_current_is_background :: "(int \<times> string) option \<Rightarrow> bool" where
  "dirtyrate_current_is_background cg =
     (case cg of None \<Rightarrow> False | Some (ret, path) \<Rightarrow> ret = 0 \<and> path = ''/background'')"

text \<open>The test without the lock: a writer outside the background group is not paced.\<close>

definition dirty_rate_unlocked :: "u32 \<Rightarrow> int \<Rightarrow> (int \<times> string) option \<Rightarrow> dirtyrate \<Rightarrow> bool" where
  "dirty_rate_unlocked uid fg_uid cg s \<longleftrightarrow>
     dr_enabled s \<and> dr_active s \<and> dr_wbps s \<noteq> 0 \<and> fg_uid \<ge> 0 \<and> word_of_int fg_uid \<noteq> uid \<and>
     \<not> dirtyrate_current_is_background cg"

text \<open>Refill, then take a page from the bucket when it holds one.\<close>

definition dirty_rate_take :: "dirtyrate_lib \<Rightarrow> u64 \<Rightarrow> dirtyrate \<Rightarrow> dirtyrate \<times> bool" where
  "dirty_rate_take L now_ns s =
     (let s = dirtyrate_refill_locked L now_ns s in
      if dr_tokens s \<ge> dl_page_size L
      then (s\<lparr>dr_tokens := dr_tokens s - dl_page_size L,
              dr_charged_bytes := dirtyrate_add_sat (dr_charged_bytes s) (dl_page_size L)\<rparr>, True)
      else (s, False))"

definition dirty_rate_wait_ns :: "dirtyrate_lib \<Rightarrow> dirtyrate \<Rightarrow> u64" where
  "dirty_rate_wait_ns L s =
     min (dirtyrate_ns_for_bytes L (dl_page_size L - dr_tokens s) (dr_wbps s) True)
       smart_io_dirtyrate_max_sleep_ns"

text \<open>The first lock region: the hook returns, or waits for a time under a configuration number.\<close>

datatype hook_result = HookReturn | HookWait u64 u64

definition dirty_rate_locked ::
  "dirtyrate_lib \<Rightarrow> u32 \<Rightarrow> int \<Rightarrow> u64 \<Rightarrow> dirtyrate \<Rightarrow> dirtyrate \<times> hook_result \<times> dr_effect list" where
  "dirty_rate_locked L uid fg_uid now_ns s =
     (if \<not> dr_enabled s \<or> \<not> dr_active s \<or> dr_wbps s = 0 then (s, HookReturn, [])
      else if fg_uid < 0 then
        (s\<lparr>dr_bypass_invalid_fg_count := dirtyrate_add_sat (dr_bypass_invalid_fg_count s) 1\<rparr>, HookReturn, [])
      else if word_of_int fg_uid = uid then
        (s\<lparr>dr_bypass_fg_count := dirtyrate_add_sat (dr_bypass_fg_count s) 1\<rparr>, HookReturn, [])
      else
      (let (s, taken) = dirty_rate_take L now_ns s in
       if taken then (s, HookReturn, [ChargePage])
       else (s\<lparr>dr_wait_count := dirtyrate_add_sat (dr_wait_count s) 1\<rparr>,
             HookWait (dirty_rate_wait_ns L s) (dr_config_seq s), [])))"

text \<open>The second lock region, after the wait.\<close>

definition dirty_rate_waited :: "u64 \<Rightarrow> u64 \<Rightarrow> dirtyrate \<Rightarrow> dirtyrate" where
  "dirty_rate_waited wait_start_ns now_ns s =
     s\<lparr>dr_wait_ns := dirtyrate_add_sat (dr_wait_ns s) (now_ns - wait_start_ns)\<rparr>"

text \<open>
  One turn of the hook's loop: what it reads, and what other threads do to the module before its
  lock region and while it waits.
\<close>

record hook_turn =
  ht_fg_uid :: int
  ht_cgroup :: "(int \<times> string) option"
  ht_now :: u64
  ht_before :: "dirtyrate \<Rightarrow> dirtyrate"
  ht_during :: "dirtyrate \<Rightarrow> dirtyrate"
  ht_wait_start :: u64
  ht_wait_end :: u64
  ht_interrupted :: bool

text \<open>The flag tells whether the hook has returned within the given turns.\<close>

fun dirty_rate_loop :: "dirtyrate_lib \<Rightarrow> u32 \<Rightarrow> hook_turn list \<Rightarrow> dirtyrate \<Rightarrow> dirtyrate \<times> bool" where
  "dirty_rate_loop L uid [] s = (s, False)"
| "dirty_rate_loop L uid (t # ts) s =
     (if dirty_rate_unlocked uid (ht_fg_uid t) (ht_cgroup t) s then (s, True)
      else case dirty_rate_locked L uid (ht_fg_uid t) (ht_now t) (ht_before t s) of
        (s, HookReturn, _) \<Rightarrow> (s, True)
      | (s, HookWait _ _, _) \<Rightarrow>
          (let s = dirty_rate_waited (ht_wait_start t) (ht_wait_end t) (ht_during t s)
           in if ht_interrupted t then (s, True) else dirty_rate_loop L uid ts s))"

definition smart_io_dirtyrate_dirty_rate ::
  "dirtyrate_lib \<Rightarrow> bool \<Rightarrow> bool \<Rightarrow> u32 \<Rightarrow> hook_turn list \<Rightarrow> dirtyrate \<Rightarrow> dirtyrate \<times> bool" where
  "smart_io_dirtyrate_dirty_rate L inode fatal_signal uid turns s =
     (if \<not> inode \<or> fatal_signal then (s, True) else dirty_rate_loop L uid turns s)"

section \<open>Configuration\<close>

text \<open>\<open>in_use\<close>: whether the hook point is taken; \<open>reg\<close>: what the registration returns.\<close>

definition smart_io_dirtyrate_init :: "bool \<Rightarrow> errno option \<Rightarrow> errno option" where
  "smart_io_dirtyrate_init in_use reg = (if in_use then Some EBUSY else reg)"

definition smart_io_dirtyrate_fg_uid_changed :: "dirtyrate \<Rightarrow> dirtyrate \<times> dr_effect list" where
  "smart_io_dirtyrate_fg_uid_changed s = (s\<lparr>dr_config_seq := dr_config_seq s + 1\<rparr>, [WakeWriters])"

definition smart_io_dirtyrate_set_enabled ::
  "dirtyrate_lib \<Rightarrow> u64 \<Rightarrow> bool \<Rightarrow> dirtyrate \<Rightarrow> dirtyrate \<times> dr_effect list" where
  "smart_io_dirtyrate_set_enabled L now_ns enabled s =
     (let s = s\<lparr>dr_enabled := enabled, dr_active := False\<rparr>;
          s = dirtyrate_reset_bucket_locked L 0 now_ns s
      in (s\<lparr>dr_config_seq := dr_config_seq s + 1\<rparr>, [WakeWriters]))"

definition smart_io_dirtyrate_get_enabled :: "dirtyrate \<Rightarrow> bool" where
  "smart_io_dirtyrate_get_enabled s = dr_enabled s"

definition smart_io_dirtyrate_set_active ::
  "dirtyrate_lib \<Rightarrow> u64 \<Rightarrow> bool \<Rightarrow> dirtyrate \<Rightarrow> dirtyrate \<times> dr_effect list" where
  "smart_io_dirtyrate_set_active L now_ns active s =
     (let active = (if \<not> dr_enabled s then False else active) in
      if dr_active s = active then (s, [WakeWriters])
      else
      (let s = s\<lparr>dr_active := active\<rparr>;
           s = dirtyrate_reset_bucket_locked L (if active then dr_config_wbps s else 0) now_ns s
       in (s\<lparr>dr_config_seq := dr_config_seq s + 1\<rparr>, [WakeWriters])))"

definition smart_io_dirtyrate_set_wkbps ::
  "dirtyrate_lib \<Rightarrow> u64 \<Rightarrow> u64 \<Rightarrow> dirtyrate \<Rightarrow> dirtyrate \<times> errno option \<times> dr_effect list" where
  "smart_io_dirtyrate_set_wkbps L now_ns wkbps s =
     (if wkbps > u64_max div smart_io_dirtyrate_kib_bytes then (s, Some ERANGE, [])
      else
      (let wbps = wkbps * smart_io_dirtyrate_kib_bytes;
           s = s\<lparr>dr_config_wbps := wbps\<rparr>;
           s = (if dr_active s then dirtyrate_reset_bucket_locked L wbps now_ns s else s)
       in (s\<lparr>dr_config_seq := dr_config_seq s + 1\<rparr>, None, [WakeWriters])))"

definition smart_io_dirtyrate_get_wkbps :: "dirtyrate \<Rightarrow> u64" where
  "smart_io_dirtyrate_get_wkbps s = dr_config_wbps s div smart_io_dirtyrate_kib_bytes"

end
