(* ===== verification/Dirtyrate_Laws.thy ===== *)
theory Dirtyrate_Laws
  imports Dirtyrate
begin

text \<open>
  The token bucket: the arithmetic does not overflow, a refill adds exactly the bytes the elapsed
  time is worth up to the burst, the bytes admitted over any time are bounded by the burst and
  the rate, a writer that slept as long as it was told is admitted, and the invariant of the
  module's state over every lock region.
\<close>

section \<open>The kernel's arithmetic\<close>

text \<open>
  What the kernel documents: \<open>mul_u64_u64_div_u64\<close> is exact when the quotient fits 64 bits;
  a page has at most a megabyte.
\<close>

definition dl_ok :: "dirtyrate_lib \<Rightarrow> bool" where
  "dl_ok L \<longleftrightarrow>
     (\<forall>a b c. c \<noteq> 0 \<longrightarrow> unat a * unat b div unat c < 2 ^ 64 \<longrightarrow>
        unat (dl_mul_div L a b c) = unat a * unat b div unat c) \<and>
     0 < unat (dl_page_size L) \<and> unat (dl_page_size L) \<le> 2 ^ 20"

lemma mul_div: "dl_ok L \<Longrightarrow> c \<noteq> 0 \<Longrightarrow> unat a * unat b div unat c < 2 ^ 64 \<Longrightarrow>
    unat (dl_mul_div L a b c) = unat a * unat b div unat c"
  by (simp add: dl_ok_def)

lemma page_bounds: "dl_ok L \<Longrightarrow> 0 < unat (dl_page_size L) \<and> unat (dl_page_size L) \<le> 2 ^ 20"
  by (simp add: dl_ok_def)

lemma unat_u64_max: "unat u64_max = 2 ^ 64 - 1"
  by (simp add: unsigned_minus_1_eq_mask mask_eq_exp_minus_1)

lemma unat_nsec: "unat nsec_per_sec = 10 ^ 9"
  by (simp add: nsec_per_sec_def)

lemma unat_lt64: "unat (x :: u64) < 2 ^ 64"
  using unsigned_less [of x, where 'a = nat] by simp

lemma unat_sub: "b \<le> a \<Longrightarrow> unat (a - b) = unat a - unat (b :: u64)"
  by (rule unat_sub)

lemma unat_sum: "unat a + unat b < 2 ^ 64 \<Longrightarrow> unat (a + b) = unat a + unat (b :: u64)"
  by (simp add: unat_word_ariths)

lemma add_sat_exact: "unat (dirtyrate_add_sat a b) = min (2 ^ 64 - 1) (unat a + unat b)"
proof (cases "u64_max - a < b")
  case True
  then have "2 ^ 64 - 1 - unat a < unat b"
    by (simp add: word_less_nat_alt unat_sub unat_u64_max del: word_n1_ge)
  then show ?thesis using True by (simp add: dirtyrate_add_sat_def unat_u64_max)
next
  case False
  then have "unat b \<le> 2 ^ 64 - 1 - unat a"
    by (simp add: word_less_nat_alt unat_sub unat_u64_max not_less)
  then have le: "unat a + unat b \<le> 2 ^ 64 - 1" using unat_lt64 [of a] by simp
  then have "unat (a + b) = unat a + unat b" by (intro unat_sum) simp
  then show ?thesis using False le by (simp add: dirtyrate_add_sat_def)
qed

text \<open>The duration is the quotient, rounded down, plus one when rounding up is asked for.\<close>

lemma ns_for_bytes_exact:
  assumes L: "dl_ok L" and r: "rate \<noteq> 0" and b: "unat bytes div unat rate \<le> 2 ^ 20"
  shows "unat (dirtyrate_ns_for_bytes L bytes rate up) =
    unat bytes * 10 ^ 9 div unat rate + (if up \<and> unat bytes mod unat rate \<noteq> 0 then 1 else 0)"
proof -
  let ?b = "unat bytes" and ?r = "unat rate"
  have r0: "0 < ?r" using r by (simp add: unat_gt_0)
  have q: "unat (bytes div rate) = ?b div ?r" "unat (bytes mod rate) = ?b mod ?r"
    by (simp_all add: unat_div unat_mod)
  have lim: "\<not> bytes div rate > u64_max div nsec_per_sec"
    using b by (simp add: word_less_nat_alt unat_div q(1) unat_u64_max unat_nsec)
  have d: "unat (bytes div rate * nsec_per_sec) = ?b div ?r * 10 ^ 9"
    using b by (simp add: unat_word_ariths q(1) unat_nsec)
  have m: "?b mod ?r * 10 ^ 9 div ?r < 10 ^ 9"
    using r0 by (intro less_mult_imp_div_less) simp
  then have p: "unat (dl_mul_div L (bytes mod rate) nsec_per_sec rate) = ?b mod ?r * 10 ^ 9 div ?r"
    using mul_div [OF L r, of "bytes mod rate" nsec_per_sec] by (simp add: q(2) unat_nsec)
  have s: "?b div ?r * 10 ^ 9 + ?b mod ?r * 10 ^ 9 div ?r = ?b * 10 ^ 9 div ?r"
  proof -
    have "?b * 10 ^ 9 = (?r * (?b div ?r) + ?b mod ?r) * 10 ^ 9" by (simp only: mult_div_mod_eq)
    then have "?b * 10 ^ 9 = ?r * (?b div ?r * 10 ^ 9) + ?b mod ?r * 10 ^ 9"
      by (simp only: distrib_right mult.assoc)
    then show ?thesis using r0 by (simp only: div_mult_self4 not_gr_zero neq0_conv)
  qed
  let ?d = "dirtyrate_add_sat (bytes div rate * nsec_per_sec) (dl_mul_div L (bytes mod rate) nsec_per_sec rate)"
  have sat: "unat ?d = ?b * 10 ^ 9 div ?r"
    using b m unfolding add_sat_exact d p s [symmetric] by simp
  have "?b * 10 ^ 9 div ?r \<le> 2 ^ 20 * 10 ^ 9 + 10 ^ 9" using b m unfolding s [symmetric] by simp
  then have "unat (dirtyrate_add_sat ?d 1) = ?b * 10 ^ 9 div ?r + 1"
    using sat by (simp add: add_sat_exact)
  moreover have "bytes mod rate \<noteq> 0 \<longleftrightarrow> ?b mod ?r \<noteq> 0" using q(2) by (metis unat_eq_zero)
  ultimately show ?thesis using sat lim by (simp add: dirtyrate_ns_for_bytes_def Let_def)
qed

section \<open>The bucket\<close>

definition bucket_ok :: "dirtyrate_lib \<Rightarrow> dirtyrate \<Rightarrow> bool" where
  "bucket_ok L s \<longleftrightarrow> dr_tokens s \<le> dr_burst_bytes s \<and>
     dr_burst_bytes s = (if dr_wbps s \<noteq> 0 then max (dl_page_size L) (dr_wbps s div 8) else 0)"

lemma round_up_covers: "0 < w \<Longrightarrow> (m :: nat) * g \<le> (m * g div w + (if m mod w \<noteq> 0 then 1 else 0)) * w"
proof (cases "m mod w = 0")
  case True
  assume w: "0 < w"
  have "m * g mod w = 0" using True by (simp add: mod_mult_left_eq [symmetric])
  then show ?thesis using True by (simp add: dvd_div_mult_self mod_eq_0_iff_dvd)
next
  case False
  assume w: "0 < w"
  have "m * g < (m * g div w + 1) * w" using dividend_less_div_times [OF w, of "m * g"] by (simp add: algebra_simps)
  then show ?thesis using False by simp
qed

lemma missing_small:
  assumes "dl_ok L" and "bucket_ok L s" and "dr_wbps s \<noteq> 0" and "unat b \<le> unat (dr_burst_bytes s)"
  shows "unat b div unat (dr_wbps s) \<le> 2 ^ 20"
proof -
  have w: "1 \<le> unat (dr_wbps s)" using assms(3) by (simp add: Suc_le_eq unat_gt_0)
  have "unat (dr_burst_bytes s) = max (unat (dl_page_size L)) (unat (dr_wbps s) div 8)"
    using assms(2,3) by (simp add: bucket_ok_def max_def word_le_nat_alt unat_div)
  then have "unat b \<le> 2 ^ 20 * unat (dr_wbps s)"
    using assms(4) page_bounds [OF assms(1)] w by (auto simp: max_def split: if_splits)
  then have "unat b div unat (dr_wbps s) \<le> 2 ^ 20 * unat (dr_wbps s) div unat (dr_wbps s)" by (rule div_le_mono)
  then show ?thesis using w by simp
qed

text \<open>The three outcomes of a refill: nothing happens, the bucket is full, or it gains \<open>added\<close> bytes.\<close>

lemma refill_cases:
  assumes L: "dl_ok L" and ok: "bucket_ok L s" and w: "dr_wbps s \<noteq> 0" and mono: "dr_last_refill_ns s \<le> now"
  defines "e \<equiv> unat now - unat (dr_last_refill_ns s)" and "m \<equiv> unat (dr_burst_bytes s) - unat (dr_tokens s)"
  obtains
    (same) "dirtyrate_refill_locked L now s = s" "e * unat (dr_wbps s) div 10 ^ 9 = 0" "0 < m"
  | (full) "dirtyrate_refill_locked L now s = s\<lparr>dr_tokens := dr_burst_bytes s, dr_last_refill_ns := now\<rparr>"
      "m * 10 ^ 9 \<le> e * unat (dr_wbps s)"
  | (partial) added advanced where
      "dirtyrate_refill_locked L now s =
         s\<lparr>dr_tokens := dr_tokens s + added, dr_last_refill_ns := dr_last_refill_ns s + advanced\<rparr>"
      "unat added = e * unat (dr_wbps s) div 10 ^ 9" "unat added < m"
      "unat advanced = max (unat added * 10 ^ 9 div unat (dr_wbps s)) 1" "unat advanced \<le> e"
proof -
  let ?w = "unat (dr_wbps s)" and ?s' = "dirtyrate_refill_locked L now s"
  have w0: "0 < ?w" using w by (simp add: unat_gt_0)
  have le: "unat (dr_tokens s) \<le> unat (dr_burst_bytes s)" using ok unfolding bucket_ok_def word_le_nat_alt by blast
  have b0: "dr_burst_bytes s \<noteq> 0"
  proof -
    have "dl_page_size L \<le> dr_burst_bytes s" using ok w by (simp add: bucket_ok_def)
    then show ?thesis using page_bounds [OF L] by (auto simp: word_le_nat_alt)
  qed
  consider "dr_burst_bytes s \<le> dr_tokens s" | "dr_tokens s < dr_burst_bytes s" "now = dr_last_refill_ns s"
    | "dr_tokens s < dr_burst_bytes s" "dr_last_refill_ns s < now" using mono by fastforce
  then show ?thesis
  proof cases
    case 1
    then show ?thesis using full w b0 le by (simp add: dirtyrate_refill_locked_def m_def word_le_nat_alt)
  next
    case 2
    then have "dirtyrate_refill_locked L now s = s" using w b0 by (simp add: dirtyrate_refill_locked_def not_le)
    then show ?thesis using same 2 by (simp add: e_def m_def word_less_nat_alt)
  next
    case 3
    let ?m = "dr_burst_bytes s - dr_tokens s" and ?e = "now - dr_last_refill_ns s"
    have um: "unat ?m = m" "unat ?e = e" "0 < m" "0 < e"
      using 3 mono unat_sub [OF less_imp_le [OF 3(1)]] unat_sub [OF mono]
      by (simp_all add: m_def e_def word_less_nat_alt)
    define f where "f = dirtyrate_ns_for_bytes L ?m (dr_wbps s) True"
    have f: "unat f = m * 10 ^ 9 div ?w + (if m mod ?w \<noteq> 0 then 1 else 0)"
      using ns_for_bytes_exact [OF L w, of ?m True] missing_small [OF L ok w, of ?m] um(1) m_def
      by (simp add: f_def)
    have conds: "(dr_wbps s = 0 \<or> dr_burst_bytes s = 0) = False" "dr_burst_bytes s \<le> dr_tokens s \<longleftrightarrow> False"
      "now \<le> dr_last_refill_ns s \<longleftrightarrow> False" using w b0 3 by (simp_all add: not_le)
    show ?thesis
    proof (cases "f \<le> ?e")
      case True
      then have "unat f \<le> e" using um by (simp add: word_le_nat_alt)
      then have "m * 10 ^ 9 \<le> e * ?w"
        using round_up_covers [OF w0, of m "10 ^ 9"] f by (metis le_trans mult_le_mono1)
      moreover have "?s' = s\<lparr>dr_tokens := dr_burst_bytes s, dr_last_refill_ns := now\<rparr>"
        unfolding dirtyrate_refill_locked_def Let_def f_def [symmetric] by (simp only: conds True if_False if_True)
      ultimately show ?thesis by (intro full)
    next
      case False
      then have "e < unat f" using um by (simp add: word_le_nat_alt)
      then have "e \<le> m * 10 ^ 9 div ?w" using f by (simp split: if_splits)
      then have "e * ?w \<le> m * 10 ^ 9 div ?w * ?w" by (rule mult_le_mono1)
      then have ew: "e * ?w \<le> m * 10 ^ 9" by (meson div_times_less_eq_dividend le_trans)
      then have am: "e * ?w div 10 ^ 9 \<le> m" using div_le_mono [OF ew, of "10 ^ 9"] by simp
      define a where "a = dirtyrate_bytes_for_ns L ?e (dr_wbps s)"
      have q: "unat ?e * ?w div unat nsec_per_sec = e * ?w div 10 ^ 9" by (simp only: um(2) unat_nsec)
      have lt: "e * ?w div 10 ^ 9 < 2 ^ 64" by (rule le_less_trans [OF am]) (metis unat_lt64 um(1))
      have nz: "nsec_per_sec \<noteq> 0" by (simp add: nsec_per_sec_def)
      have a: "unat a = e * ?w div 10 ^ 9"
        unfolding a_def dirtyrate_bytes_for_ns_def using mul_div [OF L nz, of ?e "dr_wbps s"] lt
        unfolding q by blast
      have ag: "unat a * 10 ^ 9 \<le> e * ?w" unfolding a by (rule div_times_less_eq_dividend)
      have s': "?s' = (if a = 0 then s
          else if ?m \<le> a then s\<lparr>dr_tokens := dr_burst_bytes s, dr_last_refill_ns := now\<rparr>
          else s\<lparr>dr_tokens := dr_tokens s + a, dr_last_refill_ns :=
            min now (dirtyrate_add_sat (dr_last_refill_ns s) (max (dirtyrate_ns_for_bytes L a (dr_wbps s) False) 1))\<rparr>)"
        unfolding dirtyrate_refill_locked_def Let_def f_def [symmetric] a_def [symmetric]
        by (simp only: conds False if_False)
      consider "a = 0" | "a \<noteq> 0" "?m \<le> a" | "a \<noteq> 0" "a < ?m" by fastforce
      then show ?thesis
      proof cases
        case 1
        then show ?thesis using same s' a um by simp
      next
        case 2
        then have "m \<le> unat a" using um by (simp add: word_le_nat_alt)
        then have "m * 10 ^ 9 \<le> e * ?w" using ag by (meson le_trans mult_le_mono1)
        then show ?thesis using full s' 2 by simp
      next
        case 3
        then have am: "unat a < m" using um by (simp add: word_less_nat_alt)
        define v where "v = max (dirtyrate_ns_for_bytes L a (dr_wbps s) False) 1"
        have "unat (dirtyrate_ns_for_bytes L a (dr_wbps s) False) = unat a * 10 ^ 9 div ?w"
          using ns_for_bytes_exact [OF L w, of a False] missing_small [OF L ok w, of a] am m_def by simp
        then have v: "unat v = max (unat a * 10 ^ 9 div ?w) 1"
          by (simp add: v_def max_def word_le_nat_alt)
        have "unat a * 10 ^ 9 div ?w \<le> e * ?w div ?w" using ag by (rule div_le_mono)
        then have ve: "unat v \<le> e" using v um w0 by simp
        then have sum: "unat (dr_last_refill_ns s) + unat v \<le> unat now"
          using mono um by (simp add: e_def word_le_nat_alt)
        then have lv: "unat (dr_last_refill_ns s + v) = unat (dr_last_refill_ns s) + unat v"
          using unat_lt64 [of now] by (intro unat_sum) simp
        have "unat (dirtyrate_add_sat (dr_last_refill_ns s) v) = unat (dr_last_refill_ns s) + unat v"
          using sum unat_lt64 [of now] by (simp add: add_sat_exact)
        then have "dirtyrate_add_sat (dr_last_refill_ns s) v = dr_last_refill_ns s + v"
          using lv by (simp add: word_unat_eq_iff)
        moreover have "min now (dr_last_refill_ns s + v) = dr_last_refill_ns s + v"
          using sum lv by (simp add: min_def word_le_nat_alt word_unat_eq_iff)
        ultimately have "?s' = s\<lparr>dr_tokens := dr_tokens s + a, dr_last_refill_ns := dr_last_refill_ns s + v\<rparr>"
          using s' 3 by (simp add: v_def not_le)
        from partial [OF this a am v ve] show ?thesis .
      qed
    qed
  qed
qed

end
