(* ===== verification/Dirtyrate_Props.thy ===== *)
theory Dirtyrate_Props
  imports Dirtyrate_Laws "HOL-Library.Multiset"
begin

text \<open>
  What the limiter promises: how much it admits, when a waiting writer gets through, what a
  configuration call changes and signals, and which writers it paces at all.
\<close>

section \<open>One refill\<close>

lemma refill_frame [simp]:
  "dr_wbps (dirtyrate_refill_locked L now s) = dr_wbps s"
  "dr_burst_bytes (dirtyrate_refill_locked L now s) = dr_burst_bytes s"
  "dr_enabled (dirtyrate_refill_locked L now s) = dr_enabled s"
  "dr_active (dirtyrate_refill_locked L now s) = dr_active s"
  "dr_config_wbps (dirtyrate_refill_locked L now s) = dr_config_wbps s"
  "dr_config_seq (dirtyrate_refill_locked L now s) = dr_config_seq s"
  by (simp_all add: dirtyrate_refill_locked_def Let_def)

lemma bucket_le: "bucket_ok L s \<Longrightarrow> unat (dr_tokens s) \<le> unat (dr_burst_bytes s)"
  unfolding bucket_ok_def word_le_nat_alt by blast

lemma refill_tokens:
  assumes "dl_ok L" and "bucket_ok L s" and "dr_wbps s \<noteq> 0" and "dr_last_refill_ns s \<le> now"
  shows "unat (dr_tokens (dirtyrate_refill_locked L now s)) = min (unat (dr_burst_bytes s))
    (unat (dr_tokens s) + (unat now - unat (dr_last_refill_ns s)) * unat (dr_wbps s) div 10 ^ 9)"
  using assms
proof (cases rule: refill_cases)
  case same
  then show ?thesis using bucket_le [OF assms(2)] by simp
next
  case full
  have "unat (dr_burst_bytes s) - unat (dr_tokens s)
      \<le> (unat now - unat (dr_last_refill_ns s)) * unat (dr_wbps s) div 10 ^ 9"
    using div_le_mono [OF full(2), of "10 ^ 9"] by simp
  then show ?thesis using full(1) by simp
next
  case (partial added advanced)
  have "unat (dr_tokens s + added) = unat (dr_tokens s) + unat added"
    using partial(3) unat_lt64 [of "dr_burst_bytes s"] by (intro unat_sum) simp
  moreover have "unat (dr_tokens s) + unat added \<le> unat (dr_burst_bytes s)" using partial(3) by simp
  ultimately show ?thesis unfolding partial(1) partial(2) [symmetric] by simp
qed

lemma refill_time:
  assumes "dl_ok L" and "bucket_ok L s" and "dr_wbps s \<noteq> 0" and "dr_last_refill_ns s \<le> now"
  defines "s' \<equiv> dirtyrate_refill_locked L now s"
  shows "bucket_ok L s' \<and> unat (dr_last_refill_ns s) \<le> unat (dr_last_refill_ns s') \<and> dr_last_refill_ns s' \<le> now \<and>
    unat (dr_tokens s') * 10 ^ 9 \<le> unat (dr_tokens s) * 10 ^ 9 +
      unat (dr_wbps s) * (unat (dr_last_refill_ns s') - unat (dr_last_refill_ns s) + 1)"
  using assms(1-4)
proof (cases rule: refill_cases)
  case same
  then show ?thesis using assms(2,4) by (simp add: s'_def)
next
  case full
  have "unat (dr_burst_bytes s) * 10 ^ 9 \<le> unat (dr_tokens s) * 10 ^ 9 +
      unat (dr_wbps s) * (unat now - unat (dr_last_refill_ns s))"
    using full(2) bucket_le [OF assms(2)] by (simp add: diff_mult_distrib mult.commute)
  then have "unat (dr_burst_bytes s) * 10 ^ 9 \<le> unat (dr_tokens s) * 10 ^ 9 +
      unat (dr_wbps s) * (unat now - unat (dr_last_refill_ns s) + 1)" by simp
  then show ?thesis using assms(2,4) full(1) by (simp add: s'_def bucket_ok_def flip: word_le_nat_alt)
next
  case (partial added advanced)
  have t: "unat (dr_tokens s + added) = unat (dr_tokens s) + unat added"
    using partial(3) unat_lt64 [of "dr_burst_bytes s"] by (intro unat_sum) simp
  have sum: "unat (dr_last_refill_ns s) + unat advanced \<le> unat now"
    using partial(5) assms(4) by (simp add: word_le_nat_alt)
  then have l: "unat (dr_last_refill_ns s + advanced) = unat (dr_last_refill_ns s) + unat advanced"
    using unat_lt64 [of now] by (intro unat_sum) simp
  have w0: "0 < unat (dr_wbps s)" using assms(3) by (simp add: unat_gt_0)
  have "unat added * 10 ^ 9 \<le> (unat added * 10 ^ 9 div unat (dr_wbps s) + 1) * unat (dr_wbps s)"
    using dividend_less_div_times [OF w0, of "unat added * 10 ^ 9"] by (simp add: algebra_simps)
  also have "\<dots> \<le> (unat advanced + 1) * unat (dr_wbps s)"
    using partial(4) by (intro mult_le_mono1) simp
  finally have c: "unat added * 10 ^ 9 \<le> unat (dr_wbps s) * (unat advanced + 1)" by (simp only: mult.commute)
  have "dr_tokens s + added \<le> dr_burst_bytes s" using partial(3) t by (simp add: word_le_nat_alt)
  then have "bucket_ok L s'" using assms(2) by (simp add: s'_def partial(1) bucket_ok_def)
  moreover have "dr_last_refill_ns s' \<le> now" using partial(1) l sum by (simp add: s'_def word_le_nat_alt)
  ultimately show ?thesis using c t l by (simp add: s'_def partial(1) distrib_right)
qed

section \<open>The rate limit\<close>

text \<open>The lock regions of many writers, one after another, with the effects of all of them.\<close>

fun dirty_rate_writers ::
  "dirtyrate_lib \<Rightarrow> (u32 \<times> int \<times> u64) list \<Rightarrow> dirtyrate \<Rightarrow> dirtyrate \<times> dr_effect list" where
  "dirty_rate_writers L [] s = (s, [])"
| "dirty_rate_writers L ((uid, fg, now) # ws) s =
     (case dirty_rate_locked L uid fg now s of (s, _, es) \<Rightarrow>
        (case dirty_rate_writers L ws s of (s, es') \<Rightarrow> (s, es @ es')))"



lemma bucket_ok_frame [simp]:
  "bucket_ok L (s\<lparr>dr_wait_count := x\<rparr>) = bucket_ok L s"
  "bucket_ok L (s\<lparr>dr_bypass_fg_count := x\<rparr>) = bucket_ok L s"
  "bucket_ok L (s\<lparr>dr_bypass_invalid_fg_count := x\<rparr>) = bucket_ok L s"
  by (simp_all add: bucket_ok_def)

lemma take_credit:
  assumes L: "dl_ok L" and ok: "bucket_ok L s" and w: "dr_wbps s \<noteq> 0" and mono: "dr_last_refill_ns s \<le> now"
    and t: "dirty_rate_take L now s = (s', taken)"
  shows "bucket_ok L s' \<and> dr_wbps s' = dr_wbps s \<and> dr_burst_bytes s' = dr_burst_bytes s \<and>
    unat (dr_last_refill_ns s) \<le> unat (dr_last_refill_ns s') \<and> dr_last_refill_ns s' \<le> now \<and>
    (if taken then unat (dl_page_size L) else 0) * 10 ^ 9 + unat (dr_tokens s') * 10 ^ 9 \<le>
      unat (dr_tokens s) * 10 ^ 9 + unat (dr_wbps s) * (unat (dr_last_refill_ns s') - unat (dr_last_refill_ns s) + 1)"
proof -
  let ?r = "dirtyrate_refill_locked L now s"
  note r = refill_time [OF L ok w mono]
  show ?thesis
  proof (cases "dl_page_size L \<le> dr_tokens ?r")
    case True
    have s': "s' = ?r\<lparr>dr_tokens := dr_tokens ?r - dl_page_size L,
        dr_charged_bytes := dirtyrate_add_sat (dr_charged_bytes ?r) (dl_page_size L)\<rparr>" "taken"
      using t True by (auto simp: dirty_rate_take_def Let_def)
    have le: "unat (dl_page_size L) \<le> unat (dr_tokens ?r)" using True by (simp add: word_le_nat_alt)
    have sub: "unat (dr_tokens ?r - dl_page_size L) = unat (dr_tokens ?r) - unat (dl_page_size L)"
      by (rule unat_sub [OF True])
    have "dr_tokens ?r - dl_page_size L \<le> dr_tokens ?r" using sub by (simp add: word_le_nat_alt)
    then have "bucket_ok L s'" using r by (auto simp: s'(1) bucket_ok_def)
    moreover have "unat (dl_page_size L) * 10 ^ 9 + unat (dr_tokens s') * 10 ^ 9 = unat (dr_tokens ?r) * 10 ^ 9"
      using le by (simp add: s'(1) sub flip: distrib_right)
    ultimately show ?thesis using r s'(2) by (simp add: s'(1))
  next
    case False
    then have "s' = ?r" "\<not> taken" using t by (auto simp: dirty_rate_take_def Let_def)
    then show ?thesis using r by simp
  qed
qed

lemma locked_credit:
  assumes L: "dl_ok L" and ok: "bucket_ok L s" and w: "dr_wbps s \<noteq> 0" and mono: "dr_last_refill_ns s \<le> now"
    and t: "dirty_rate_locked L uid fg now s = (s', r, es)"
  shows "bucket_ok L s' \<and> dr_wbps s' = dr_wbps s \<and> dr_burst_bytes s' = dr_burst_bytes s \<and>
    unat (dr_last_refill_ns s) \<le> unat (dr_last_refill_ns s') \<and> dr_last_refill_ns s' \<le> now \<and>
    count_list es ChargePage * (unat (dl_page_size L) * 10 ^ 9) + unat (dr_tokens s') * 10 ^ 9 \<le>
      unat (dr_tokens s) * 10 ^ 9 + unat (dr_wbps s) * (unat (dr_last_refill_ns s') - unat (dr_last_refill_ns s) + 1)"
proof -
  obtain s1 taken where k: "dirty_rate_take L now s = (s1, taken)" by fastforce
  note c = take_credit [OF L ok w mono k]
  define off where "off = (\<not> dr_enabled s \<or> \<not> dr_active s \<or> dr_wbps s = 0)"
  note d = t [unfolded dirty_rate_locked_def k Let_def prod.case off_def [symmetric]]
  consider "off" | "\<not> off" "fg < 0" | "\<not> off" "\<not> fg < 0" "word_of_int fg = uid"
    | "\<not> off" "\<not> fg < 0" "word_of_int fg \<noteq> uid" "taken" | "\<not> off" "\<not> fg < 0" "word_of_int fg \<noteq> uid" "\<not> taken"
    by blast
  then show ?thesis
  proof cases
    case 4
    then have "s' = s1" "es = [ChargePage]" using d by simp_all
    then show ?thesis using c 4 by simp
  next
    case 5
    then have "s' = s1\<lparr>dr_wait_count := dirtyrate_add_sat (dr_wait_count s1) 1\<rparr>" "es = []" using d by auto
    then show ?thesis using c 5 by simp
  qed (use d ok mono in auto)
qed

lemma writers_credit:
  assumes L: "dl_ok L"
  shows "bucket_ok L s \<Longrightarrow> dr_wbps s \<noteq> 0 \<Longrightarrow> sorted (dr_last_refill_ns s # map (\<lambda>(_, _, t). t) ws) \<Longrightarrow>
    dirty_rate_writers L ws s = (s', es) \<Longrightarrow>
    unat (dr_last_refill_ns s) \<le> unat (dr_last_refill_ns s') \<and>
    dr_last_refill_ns s' \<le> last (dr_last_refill_ns s # map (\<lambda>(_, _, t). t) ws) \<and>
    count_list es ChargePage * (unat (dl_page_size L) * 10 ^ 9) + unat (dr_tokens s') * 10 ^ 9 \<le>
      unat (dr_tokens s) * 10 ^ 9 +
      unat (dr_wbps s) * (unat (dr_last_refill_ns s') - unat (dr_last_refill_ns s) + length ws)"
proof (induction ws arbitrary: s es)
  case (Cons w ws)
  obtain uid fg now where w: "w = (uid, fg, now)" by (metis prod_cases3)
  obtain s1 r es1 where k: "dirty_rate_locked L uid fg now s = (s1, r, es1)" by (metis prod_cases3)
  obtain es2 where k2: "dirty_rate_writers L ws s1 = (s', es2)" and es: "es = es1 @ es2"
    using Cons.prems(4) by (auto simp: w k split: prod.splits)
  have mono: "dr_last_refill_ns s \<le> now" using Cons.prems(3) by (simp add: w)
  note c = locked_credit [OF L Cons.prems(1,2) mono k]
  have so: "sorted (dr_last_refill_ns s1 # map (\<lambda>(_, _, t). t) ws)"
    using Cons.prems(3) c by (auto simp: w)
  have IH: "unat (dr_last_refill_ns s1) \<le> unat (dr_last_refill_ns s') \<and>
      dr_last_refill_ns s' \<le> last (dr_last_refill_ns s1 # map (\<lambda>(_, _, t). t) ws) \<and>
      count_list es2 ChargePage * (unat (dl_page_size L) * 10 ^ 9) + unat (dr_tokens s') * 10 ^ 9 \<le>
        unat (dr_tokens s1) * 10 ^ 9 +
        unat (dr_wbps s) * (unat (dr_last_refill_ns s') - unat (dr_last_refill_ns s1) + length ws)"
    using Cons.IH [OF _ _ so k2] c Cons.prems(2) by metis
  let ?a = "unat (dr_last_refill_ns s)" and ?b = "unat (dr_last_refill_ns s1)" and ?c = "unat (dr_last_refill_ns s')"
  have "?b - ?a + 1 + (?c - ?b + length ws) = ?c - ?a + length (w # ws)" using c IH by simp
  then have e: "unat (dr_wbps s) * (?b - ?a + 1) + unat (dr_wbps s) * (?c - ?b + length ws) =
      unat (dr_wbps s) * (?c - ?a + length (w # ws))" by (metis distrib_left)
  have l: "dr_last_refill_ns s' \<le> last (dr_last_refill_ns s # map (\<lambda>(_, _, t). t) (w # ws))"
    using IH c by (cases "ws = []") (auto simp: w)
  have "count_list es ChargePage * (unat (dl_page_size L) * 10 ^ 9) =
      count_list es1 ChargePage * (unat (dl_page_size L) * 10 ^ 9) + count_list es2 ChargePage * (unat (dl_page_size L) * 10 ^ 9)"
    by (simp only: es count_list_append distrib_right)
  then have "count_list es ChargePage * (unat (dl_page_size L) * 10 ^ 9) + unat (dr_tokens s') * 10 ^ 9 \<le>
      unat (dr_tokens s) * 10 ^ 9 + unat (dr_wbps s) * (?c - ?a + length (w # ws))"
    using c IH e by linarith
  then show ?case using c IH l by linarith
qed simp

text \<open>C16: the limiter limits: after the bucket was reset at time \<open>t0\<close>, the pages admitted to any number of writers up to time \<open>t\<close> are worth at most the burst plus the configured rate times the elapsed time, with at most one nanosecond of rounding for each attempt.\<close>

theorem rate_limit:
  assumes "dl_ok L" and "wbps \<noteq> 0" and "sorted (t0 # map (\<lambda>(_, _, t). t) ws)"
    and "dirty_rate_writers L ws (dirtyrate_reset_bucket_locked L wbps t0 s0) = (s, es)"
  shows "count_list es ChargePage * unat (dl_page_size L) * 10 ^ 9 \<le>
    max (unat (dl_page_size L)) (unat wbps div 8) * 10 ^ 9 +
    unat wbps * (unat (last (t0 # map (\<lambda>(_, _, t). t) ws)) - unat t0 + length ws)"
proof -
  let ?s = "dirtyrate_reset_bucket_locked L wbps t0 s0"
  have f: "dr_wbps ?s = wbps" "dr_last_refill_ns ?s = t0" "bucket_ok L ?s"
    "unat (dr_tokens ?s) = max (unat (dl_page_size L)) (unat wbps div 8)"
    using assms(2) by (simp_all add: dirtyrate_reset_bucket_locked_def Let_def bucket_ok_def max_def word_le_nat_alt unat_div)
  note c = writers_credit [OF assms(1) f(3) _ _ assms(4), unfolded f(1,2,4)]
  have "dr_last_refill_ns s \<le> last (t0 # map (\<lambda>(_, _, t). t) ws)" using c [OF assms(2,3)] by blast
  then have "unat wbps * (unat (dr_last_refill_ns s) - unat t0 + length ws) \<le>
      unat wbps * (unat (last (t0 # map (\<lambda>(_, _, t). t) ws)) - unat t0 + length ws)"
    unfolding word_le_nat_alt by (intro mult_le_mono2 add_le_mono1 diff_le_mono)
  then show ?thesis using c [OF assms(2,3)] unfolding mult.assoc by linarith
qed

definition demo_dl :: dirtyrate_lib where
  "demo_dl = \<lparr>dl_mul_div = (\<lambda>a b c. word_of_int (uint a * uint b div uint c)), dl_page_size = 4096\<rparr>"

lemma demo_dl_ok: "dl_ok demo_dl"
proof -
  have "uint a * uint b div uint c = int (unat a * unat b div unat c)" for a b c :: u64
    by (simp only: uint_nat of_nat_mult zdiv_int)
  then have "word_of_int (uint a * uint b div uint c) = (word_of_nat (unat a * unat b div unat c) :: u64)" for a b c :: u64
    by (simp only: of_int_of_nat_eq)
  then show ?thesis by (simp add: dl_ok_def demo_dl_def unsigned_of_nat take_bit_nat_eq_self)
qed

text \<open>A bucket of 64 KiB a second and three writers: two pages fill the burst, the third waits.\<close>

lemma rate_limit_witness:
  "count_list (snd (dirty_rate_writers demo_dl [(10001, 10002, 5), (10001, 10002, 6), (10003, 10002, 7)]
       (dirtyrate_reset_bucket_locked demo_dl 65536 5 (dirtyrate_initial\<lparr>dr_enabled := True, dr_active := True\<rparr>))))
     ChargePage = 2 \<and>
   2 * 4096 * 10 ^ 9 \<le> (8192 * 10 ^ 9 + 65536 * 5 :: nat)"
proof -
  let ?s = "dirtyrate_initial\<lparr>dr_enabled := True, dr_active := True\<rparr>"
  let ?ws = "[(10001, 10002, 5), (10001, 10002, 6), (10003, 10002, 7)] :: (u32 \<times> int \<times> u64) list"
  let ?r = "dirty_rate_writers demo_dl ?ws (dirtyrate_reset_bucket_locked demo_dl 65536 5 ?s)"
  have n: "count_list (snd ?r) ChargePage = 2" by code_simp
  have "count_list (snd ?r) ChargePage * unat (dl_page_size demo_dl) * 10 ^ 9 \<le>
      max (unat (dl_page_size demo_dl)) (unat (65536 :: u64) div 8) * 10 ^ 9 +
      unat (65536 :: u64) * (unat (last (5 # map (\<lambda>(_, _, t). t) ?ws)) - unat (5 :: u64) + length ?ws)"
    by (rule rate_limit [OF demo_dl_ok _ _ prod.collapse [symmetric]]) simp_all
  then show ?thesis using n by (simp add: demo_dl_def)
qed

section \<open>Waiting\<close>

text \<open>The wait a writer is told covers the missing bytes at the rate in force.\<close>

lemma wait_covers_missing:
  assumes L: "dl_ok L" and rate: "dl_page_size L \<le> dr_wbps s" and low: "\<not> dl_page_size L \<le> dr_tokens s"
  shows "unat (dl_page_size L - dr_tokens s) * 10 ^ 9 \<le> unat (dirty_rate_wait_ns L s) * unat (dr_wbps s)"
proof -
  have w0: "dr_wbps s \<noteq> 0" "0 < unat (dr_wbps s)"
  proof -
    show "0 < unat (dr_wbps s)" using rate page_bounds [OF L] unfolding word_le_nat_alt by linarith
    then show "dr_wbps s \<noteq> 0" by auto
  qed
  let ?d = "dl_page_size L - dr_tokens s" and ?w = "unat (dr_wbps s)"
  have d: "unat ?d = unat (dl_page_size L) - unat (dr_tokens s)"
    using low by (intro unat_sub) simp
  have dw: "unat ?d \<le> ?w" using rate unfolding d word_le_nat_alt by simp
  have ns: "unat (dirtyrate_ns_for_bytes L ?d (dr_wbps s) True) =
      unat ?d * 10 ^ 9 div ?w + (if unat ?d mod ?w \<noteq> 0 then 1 else 0)"
    using ns_for_bytes_exact [OF L w0(1), of ?d True] div_le_mono [OF dw, of ?w] w0(2) by simp
  have "unat ?d * 10 ^ 9 div ?w + (if unat ?d mod ?w \<noteq> 0 then 1 else 0) \<le> 10 ^ 9"
  proof (cases "unat ?d = ?w")
    case True
    then show ?thesis using w0(2) by simp
  next
    case False
    then have "unat ?d * 10 ^ 9 < 10 ^ 9 * ?w" using dw by simp
    then have "unat ?d * 10 ^ 9 div ?w < 10 ^ 9" by (rule less_mult_imp_div_less)
    then show ?thesis by simp
  qed
  then have "dirty_rate_wait_ns L s = dirtyrate_ns_for_bytes L ?d (dr_wbps s) True"
    unfolding dirty_rate_wait_ns_def smart_io_dirtyrate_max_sleep_ns_def
    by (simp add: min_def word_le_nat_alt ns unat_nsec del: One_nat_def)
  then show ?thesis using round_up_covers [OF w0(2), of "unat ?d" "10 ^ 9"] ns by simp
qed


end
