(* ===== verification/Dirtyrate_Config.thy ===== *)
theory Dirtyrate_Config
  imports Dirtyrate_Props
begin

text \<open>
  The limiter's configuration calls, its state as a machine, and the writers it paces.
\<close>

section \<open>Calls\<close>

datatype dr_call = SetEnabled bool | SetActive bool | SetWkbps u64 | FgUidChanged

fun dr_apply :: "dirtyrate_lib \<Rightarrow> u64 \<Rightarrow> dr_call \<Rightarrow> dirtyrate \<Rightarrow> dirtyrate \<times> dr_effect list" where
  "dr_apply L now (SetEnabled b) s = smart_io_dirtyrate_set_enabled L now b s"
| "dr_apply L now (SetActive b) s = smart_io_dirtyrate_set_active L now b s"
| "dr_apply L now (SetWkbps v) s =
     (fst (smart_io_dirtyrate_set_wkbps L now v s), snd (snd (smart_io_dirtyrate_set_wkbps L now v s)))"
| "dr_apply L now FgUidChanged s = smart_io_dirtyrate_fg_uid_changed s"

text \<open>No configuration change is missed by a sleeping writer: a call that changes the module's state in any way makes the condition every writer waits for true and wakes the wait queue.\<close>

theorem config_change_wakes:
  assumes "dr_apply L now call s = (s', es)" and "s' \<noteq> s"
  shows "dirtyrate_wait_changed (dr_config_seq s) uid fg s' \<and> WakeWriters \<in> set es"
proof (cases call)
  case (SetEnabled b)
  then show ?thesis using assms
    by (auto simp: smart_io_dirtyrate_set_enabled_def dirtyrate_reset_bucket_locked_def Let_def dirtyrate_wait_changed_def)
next
  case (SetActive b)
  then show ?thesis using assms
    by (auto simp: smart_io_dirtyrate_set_active_def dirtyrate_reset_bucket_locked_def Let_def dirtyrate_wait_changed_def
        split: if_splits)
next
  case (SetWkbps v)
  then show ?thesis using assms
    by (auto simp: smart_io_dirtyrate_set_wkbps_def dirtyrate_reset_bucket_locked_def Let_def dirtyrate_wait_changed_def
        split: if_splits)
next
  case FgUidChanged
  then show ?thesis using assms
    by (auto simp: smart_io_dirtyrate_fg_uid_changed_def dirtyrate_wait_changed_def)
qed

lemma config_change_wakes_witness:
  "dirtyrate_wait_changed (dr_config_seq dirtyrate_initial) 10001 10002
     (fst (dr_apply demo_dl 7 (SetEnabled True) dirtyrate_initial)) \<and>
   WakeWriters \<in> set (snd (dr_apply demo_dl 7 (SetEnabled True) dirtyrate_initial))"
proof -
  have "fst (dr_apply demo_dl 7 (SetEnabled True) dirtyrate_initial) \<noteq> dirtyrate_initial"
    by (simp add: smart_io_dirtyrate_set_enabled_def dirtyrate_initial_def Let_def dirtyrate_reset_bucket_locked_def)
  then show ?thesis by (intro config_change_wakes [OF prod.collapse [symmetric]])
qed

text \<open>The configured rate reads back as it was written, for every rate the call accepts; a rate whose byte value does not fit 64 bits is refused with ERANGE and nothing changes.\<close>

theorem wkbps_roundtrip:
  "(case smart_io_dirtyrate_set_wkbps L now v s of (s', err, es) \<Rightarrow>
     if unat v * 1024 < 2 ^ 64 then err = None \<and> smart_io_dirtyrate_get_wkbps s' = v
     else err = Some ERANGE \<and> s' = s)"
proof -
  have m: "u64_max div smart_io_dirtyrate_kib_bytes = 18014398509481983"
    by (simp add: smart_io_dirtyrate_kib_bytes_def)
  have lim: "u64_max div smart_io_dirtyrate_kib_bytes < v \<longleftrightarrow> \<not> unat v * 1024 < 2 ^ 64"
    unfolding m by (simp add: word_less_nat_alt) linarith
  have d: "v * 1024 div 1024 = v" if "unat v * 1024 < 2 ^ 64"
    using that by (simp add: word_unat_eq_iff unat_div unat_word_ariths)
  show ?thesis
    unfolding smart_io_dirtyrate_set_wkbps_def lim
    by (simp add: Let_def smart_io_dirtyrate_get_wkbps_def smart_io_dirtyrate_kib_bytes_def d
        dirtyrate_reset_bucket_locked_def)
qed

section \<open>The module as a machine\<close>

inductive dirtyrate_step :: "dirtyrate_lib \<Rightarrow> dirtyrate \<Rightarrow> dr_effect list \<Rightarrow> dirtyrate \<Rightarrow> bool" for L :: dirtyrate_lib where
  call: "dr_apply L now c s = (s', es) \<Longrightarrow> dirtyrate_step L s es s'"
| locked: "dirty_rate_locked L uid fg now s = (s', r, es) \<Longrightarrow> dirtyrate_step L s es s'"
| waited: "dirtyrate_step L s [] (dirty_rate_waited a b s)"

definition dirtyrate_good :: "dirtyrate_lib \<Rightarrow> dirtyrate \<Rightarrow> bool" where
  "dirtyrate_good L s \<longleftrightarrow> bucket_ok L s \<and> (dr_active s \<longrightarrow> dr_enabled s) \<and>
     dr_wbps s = (if dr_active s then dr_config_wbps s else 0)"

lemma refill_le_burst: "bucket_ok L s \<Longrightarrow> dl_ok L \<Longrightarrow> bucket_ok L (dirtyrate_refill_locked L now s)"
proof (cases "dr_wbps s = 0 \<or> now \<le> dr_last_refill_ns s")
  case True
  assume "bucket_ok L s"
  with True show ?thesis by (auto simp: dirtyrate_refill_locked_def bucket_ok_def Let_def)
next
  case False
  assume "bucket_ok L s" "dl_ok L"
  moreover from False have "dr_last_refill_ns s \<le> now" by (meson linear)
  ultimately show ?thesis using False refill_time [of L s now] by blast
qed

lemma reset_fields [simp]:
  "dr_wbps (dirtyrate_reset_bucket_locked L w now s) = w"
  "dr_enabled (dirtyrate_reset_bucket_locked L w now s) = dr_enabled s"
  "dr_active (dirtyrate_reset_bucket_locked L w now s) = dr_active s"
  "dr_config_wbps (dirtyrate_reset_bucket_locked L w now s) = dr_config_wbps s"
  "dr_config_seq (dirtyrate_reset_bucket_locked L w now s) = dr_config_seq s"
  "bucket_ok L (dirtyrate_reset_bucket_locked L w now s)"
  by (simp_all add: bucket_ok_def dirtyrate_reset_bucket_locked_def Let_def)

lemma bucket_ok_config [simp]:
  "bucket_ok L (s\<lparr>dr_config_seq := x\<rparr>) = bucket_ok L s"
  "bucket_ok L (s\<lparr>dr_config_wbps := y\<rparr>) = bucket_ok L s"
  "bucket_ok L (s\<lparr>dr_wait_ns := x\<rparr>) = bucket_ok L s"
  by (simp_all add: bucket_ok_def)

lemma call_good:
  assumes "dirtyrate_good L s"
  shows "dirtyrate_good L (fst (dr_apply L now c s))"
proof -
  have ok: "bucket_ok L s" using assms by (simp add: dirtyrate_good_def)
  consider "\<not> dr_active s" "dr_wbps s = 0" | "dr_active s" "dr_enabled s" "dr_wbps s = dr_config_wbps s"
    using assms by (auto simp: dirtyrate_good_def split: if_splits)
  note state = this
  show ?thesis
  proof (cases c)
    case (SetEnabled b)
    then show ?thesis by (simp add: dirtyrate_good_def smart_io_dirtyrate_set_enabled_def Let_def)
  next
    case (SetActive b)
    from state show ?thesis
      by cases (simp_all add: SetActive ok dirtyrate_good_def smart_io_dirtyrate_set_active_def Let_def)
  next
    case (SetWkbps v)
    from state show ?thesis
      by cases (simp_all add: SetWkbps ok dirtyrate_good_def smart_io_dirtyrate_set_wkbps_def Let_def)
  next
    case FgUidChanged
    from state show ?thesis
      by cases (simp_all add: FgUidChanged ok dirtyrate_good_def smart_io_dirtyrate_fg_uid_changed_def)
  qed
qed

lemma dirtyrate_step_good:
  assumes L: "dl_ok L" and good: "dirtyrate_good L s" and step: "dirtyrate_step L s es t"
  shows "dirtyrate_good L t"
  using step
proof cases
  case (call now c)
  then show ?thesis using call_good [OF good, of now c] by simp
next
  case (locked uid fg now r)
  let ?r = "dirtyrate_refill_locked L now s"
  have r: "bucket_ok L ?r" using refill_le_burst L good by (simp add: dirtyrate_good_def)
  obtain s1 taken where k: "dirty_rate_take L now s = (s1, taken)" by fastforce
  have s1: "dirtyrate_good L s1"
  proof (cases "dl_page_size L \<le> dr_tokens ?r")
    case True
    then have "bucket_ok L (?r\<lparr>dr_tokens := dr_tokens ?r - dl_page_size L, dr_charged_bytes := x\<rparr>)" for x
      using order_trans [OF word_sub_le [OF True]] r unfolding bucket_ok_def by auto
    then show ?thesis using k good True by (auto simp: dirty_rate_take_def Let_def dirtyrate_good_def)
  next
    case False
    then show ?thesis using k good r by (auto simp: dirty_rate_take_def Let_def dirtyrate_good_def)
  qed
  have "t = s \<or> t = s\<lparr>dr_bypass_invalid_fg_count := dirtyrate_add_sat (dr_bypass_invalid_fg_count s) 1\<rparr> \<or>
      t = s\<lparr>dr_bypass_fg_count := dirtyrate_add_sat (dr_bypass_fg_count s) 1\<rparr> \<or> t = s1 \<or>
      t = s1\<lparr>dr_wait_count := dirtyrate_add_sat (dr_wait_count s1) 1\<rparr>"
    using locked unfolding dirty_rate_locked_def k Let_def prod.case by (metis prod.inject)
  then show ?thesis using good s1 by (elim disjE) (simp_all add: dirtyrate_good_def)
next
  case (waited a b)
  then show ?thesis using good by (simp add: dirtyrate_good_def dirty_rate_waited_def)
qed

interpretation limiter: invariant_machine "dirtyrate_step L" "\<lambda>s. dl_ok L \<and> s = dirtyrate_initial"
    "\<lambda>s. dl_ok L \<and> dirtyrate_good L s" for L
proof
  show "dl_ok L \<and> dirtyrate_good L s" if "dl_ok L \<and> s = dirtyrate_initial" for s
    using that by (simp add: dirtyrate_good_def bucket_ok_def dirtyrate_initial_def)
  show "dl_ok L \<and> dirtyrate_good L t" if "dl_ok L \<and> dirtyrate_good L s" "dirtyrate_step L s es t" for s es t
    using that dirtyrate_step_good by blast
qed

text \<open>After any sequence of configuration calls and lock regions of writers the limiter is active only while it is enabled, the rate in force is the configured one exactly while it is active and zero otherwise, and the bucket never holds more than its burst, which is an eighth of a second but at least a page.\<close>

theorem limiter_state_ok:
  assumes "dl_ok L" and "reaches (dirtyrate_step L) dirtyrate_initial es s"
  shows "dr_wbps s = (if dr_active s \<and> dr_enabled s then dr_config_wbps s else 0) \<and>
    dr_active s = (dr_active s \<and> dr_enabled s) \<and> dr_tokens s \<le> dr_burst_bytes s \<and>
    dr_burst_bytes s = (if dr_wbps s \<noteq> 0 then max (dl_page_size L) (dr_wbps s div 8) else 0)"
proof -
  have "dirtyrate_good L s" using limiter.reachable_inv [of L, OF _ assms(2)] assms(1) by blast
  then show ?thesis unfolding dirtyrate_good_def bucket_ok_def by auto
qed

definition demo_limiter :: dirtyrate where
  "demo_limiter = fst (dr_apply demo_dl 9 (SetActive True) (fst (dr_apply demo_dl 8 (SetEnabled True)
     (fst (dr_apply demo_dl 7 (SetWkbps 64) dirtyrate_initial)))))"

lemma call_step: "dirtyrate_step L s (snd (dr_apply L now c s)) (fst (dr_apply L now c s))"
  by (rule dirtyrate_step.call [OF prod.collapse [symmetric]])

lemma demo_limiter_reached: "\<exists>es. reaches (dirtyrate_step demo_dl) dirtyrate_initial es demo_limiter"
  unfolding demo_limiter_def
  by (rule exI, rule reaches_step, rule reaches_step, rule reaches_one) (rule call_step)+

lemma demo_limiter_fields: "dr_enabled demo_limiter" "dr_active demo_limiter" "dr_wbps demo_limiter = 65536"
    "dr_config_wbps demo_limiter = 65536" "dr_burst_bytes demo_limiter = 8192" "dr_tokens demo_limiter = 8192" "dr_last_refill_ns demo_limiter = 9"
  by code_simp+

lemma limiter_state_ok_witness:
  "dr_wbps demo_limiter = 65536 \<and> dr_wbps demo_limiter = dr_config_wbps demo_limiter \<and>
    dr_tokens demo_limiter \<le> dr_burst_bytes demo_limiter"
proof -
  obtain es where "reaches (dirtyrate_step demo_dl) dirtyrate_initial es demo_limiter"
    using demo_limiter_reached by blast
  from limiter_state_ok [OF demo_dl_ok this] show ?thesis by (simp add: demo_limiter_fields)
qed


section \<open>Who is paced\<close>

text \<open>C36: the hook treats any non-zero return of \<open>cgroup_path\<close> as a failure, while the kernel returns the length of the path: for every writer whose group path is read successfully, the background group included, the hook returns in its first turn, charges nothing and never waits.\<close>

theorem path_length_disables_limit:
  assumes "ht_cgroup t = Some (int (length path), path)" and "path \<noteq> []" and "ht_before t s = s"
  shows "case smart_io_dirtyrate_dirty_rate L True False uid (t # ts) s of (s', returned) \<Rightarrow>
    returned \<and> dr_tokens s' = dr_tokens s \<and> dr_charged_bytes s' = dr_charged_bytes s \<and>
    dr_wait_count s' = dr_wait_count s \<and> dr_wait_ns s' = dr_wait_ns s"
  using assms
  by (auto simp: smart_io_dirtyrate_dirty_rate_def dirty_rate_unlocked_def dirtyrate_current_is_background_def
      dirty_rate_locked_def)

lemma path_length_disables_limit_witness:
  "case smart_io_dirtyrate_dirty_rate demo_dl True False 10001
      [\<lparr>ht_fg_uid = 10002, ht_cgroup = Some (11, ''/background''), ht_now = 9, ht_before = (\<lambda>s. s), ht_during = (\<lambda>s. s),
        ht_wait_start = 9, ht_wait_end = 9, ht_interrupted = False\<rparr>] (demo_limiter\<lparr>dr_tokens := 0\<rparr>) of (s', returned) \<Rightarrow>
    returned \<and> dr_tokens s' = 0 \<and> dr_charged_bytes s' = dr_charged_bytes demo_limiter \<and>
    dr_wait_count s' = dr_wait_count demo_limiter \<and> dr_wait_ns s' = dr_wait_ns demo_limiter"
  using path_length_disables_limit [of "\<lparr>ht_fg_uid = 10002, ht_cgroup = Some (11, ''/background''), ht_now = 9,
      ht_before = (\<lambda>s. s), ht_during = (\<lambda>s. s), ht_wait_start = 9, ht_wait_end = 9, ht_interrupted = False\<rparr>"
      "''/background''" "demo_limiter\<lparr>dr_tokens := 0\<rparr>" demo_dl 10001 "[]"] by simp

end
