(* ===== verification/Tool.thy ===== *)
theory Tool
  imports Throttle_Types
begin

text \<open>
  \<open>tool.c\<close> and \<open>tool.h\<close>: unit conversions, the classification of operations, devices, threads and
  task states, the latency buckets and the string hash.  The page shift, the hash functions of
  the kernel and its task-state bits are parameters.
\<close>

section \<open>Units\<close>

definition pages_to_mb :: "nat \<Rightarrow> u64 \<Rightarrow> u32" where
  "pages_to_mb page_shift pages = ucast (push_bit page_shift pages div 1048576)"

definition pages_to_kb :: "nat \<Rightarrow> u64 \<Rightarrow> u32" where
  "pages_to_kb page_shift pages = ucast (push_bit page_shift pages div 1024)"

definition kb_window_to_kbps :: "u64 \<Rightarrow> u32 \<Rightarrow> u32" where
  "kb_window_to_kbps kb window_ms =
     (if window_ms = 0 then 0
      else (let kbps = (kb * 1000) div ucast window_ms in ucast (min kbps (ucast u32_max))))"

definition calc_util_pct :: "u32 \<Rightarrow> u32 \<Rightarrow> u32" where
  "calc_util_pct cur_value max_value =
     (if max_value = 0 then 0
      else (let util = (ucast cur_value * 100 :: u64) div ucast max_value in ucast (min util 100)))"

section \<open>Operations, devices, threads\<close>

datatype io_op = SMART_IO_OP_READ | SMART_IO_OP_WRITE | SMART_IO_OP_FSYNC | SMART_IO_OP_DISCARD

fun encode_io_op :: "req_op \<Rightarrow> io_op" where
  "encode_io_op REQ_OP_FLUSH = SMART_IO_OP_FSYNC"
| "encode_io_op REQ_OP_DISCARD = SMART_IO_OP_DISCARD"
| "encode_io_op REQ_OP_SECURE_ERASE = SMART_IO_OP_DISCARD"
| "encode_io_op REQ_OP_WRITE = SMART_IO_OP_WRITE"
| "encode_io_op REQ_OP_WRITE_ZEROES = SMART_IO_OP_WRITE"
| "encode_io_op REQ_OP_ZONE_APPEND = SMART_IO_OP_WRITE"
| "encode_io_op REQ_OP_READ = SMART_IO_OP_READ"
| "encode_io_op (REQ_OP_OTHER n) = SMART_IO_OP_READ"

definition io_op_is_write :: "io_op \<Rightarrow> bool" where
  "io_op_is_write op \<longleftrightarrow> op = SMART_IO_OP_WRITE \<or> op = SMART_IO_OP_FSYNC \<or> op = SMART_IO_OP_DISCARD"

datatype device_type = DEV_UNKNOWN | DEV_UFS | DEV_EMMC | DEV_SD | DEV_ZRAM

definition lookup_device_type :: "string option \<Rightarrow> device_type" where
  "lookup_device_type name =
     (case name of
        None \<Rightarrow> DEV_UNKNOWN
      | Some s \<Rightarrow>
          if strstarts s ''zram'' then DEV_ZRAM
          else if strstarts s ''mmcblk'' then DEV_EMMC
          else if strstarts s ''sd'' \<or> strstarts s ''ufs'' then DEV_UFS
          else DEV_UNKNOWN)"

datatype thread_role = ROLE_UNKNOWN | ROLE_UX | ROLE_FRONT | ROLE_BACK | ROLE_KWORKER | ROLE_FS_BACK | ROLE_FIO

definition match_thread_role :: "u32 \<Rightarrow> int \<Rightarrow> int \<Rightarrow> string \<Rightarrow> u32 \<Rightarrow> thread_role" where
  "match_thread_role uid pid tid comm fg =
     (if uid = 0 then
        (if strstarts comm ''kworker'' then ROLE_KWORKER
         else if strstarts comm ''jbd2/'' \<or> strstarts comm ''f2fs_'' then ROLE_FS_BACK
         else if strstarts comm ''fio'' then ROLE_FIO
         else ROLE_UNKNOWN)
      else if uid \<ge> 10000 then
        (if strstr comm ''RenderThread'' \<or> strstr comm ''GLThread'' \<or> comm = ''main'' then ROLE_UX
         else if uid = fg then ROLE_FRONT
         else ROLE_BACK)
      else ROLE_UNKNOWN)"

section \<open>Latency buckets\<close>

text \<open>The loop of \<open>lat_bucket_idx\<close>, entered with \<open>idx\<close>; it stops at the last bucket.\<close>

function lat_bucket_loop :: "u64 \<Rightarrow> u8 \<Rightarrow> u8 \<Rightarrow> u8" where
  "lat_bucket_loop latency_us max_buckets idx =
     (if latency_us > 1 \<and> idx < max_buckets - 1
      then lat_bucket_loop (drop_bit 1 latency_us) max_buckets (idx + 1) else idx)"
  by pat_completeness auto

lemma unat_half: "unat (drop_bit 1 (x :: u64)) = unat x div 2"
  by (simp add: drop_bit_eq_div unat_div del: One_nat_def)

lemma half_less: "(x :: u64) > 1 \<Longrightarrow> unat (drop_bit 1 x) < unat x"
  unfolding unat_half by (simp add: word_less_nat_alt)

termination lat_bucket_loop
  by (relation "measure (\<lambda>(x, _, _). unat x)") (auto simp del: One_nat_def intro: half_less)

declare lat_bucket_loop.simps [simp del]

definition lat_bucket_idx :: "u64 \<Rightarrow> u8 \<Rightarrow> u8" where
  "lat_bucket_idx latency_us max_buckets = (if max_buckets = 0 then 0 else lat_bucket_loop latency_us max_buckets 0)"

definition lat_bucket_value :: "u8 \<Rightarrow> u32" where
  "lat_bucket_value idx = push_bit (unat idx) 1"

section \<open>Hashes and task states\<close>

text \<open>The string of \<open>fnv1a_32\<close> as its bytes up to the terminating zero.\<close>

fun fnv1a_bytes :: "u32 \<Rightarrow> u8 list \<Rightarrow> u32" where
  "fnv1a_bytes hash [] = hash"
| "fnv1a_bytes hash (p # ps) = fnv1a_bytes ((hash XOR ucast p) * 0x01000193) ps"

definition fnv1a_32 :: "u8 list \<Rightarrow> u32" where
  "fnv1a_32 str = fnv1a_bytes 0x811c9dc5 str"

datatype task_state =
    SMART_IO_TASK_UNKNOWN | SMART_IO_TASK_RUNNING | SMART_IO_TASK_RUNNABLE | SMART_IO_TASK_INTERRUPTIBLE
  | SMART_IO_TASK_UNINTERRUPTIBLE | SMART_IO_TASK_STOPPED | SMART_IO_TASK_TRACED | SMART_IO_TASK_DEAD
  | SMART_IO_TASK_ZOMBIE | SMART_IO_TASK_PARKED | SMART_IO_TASK_IDLE

record task_bits =
  tb_exit_dead :: u64
  tb_exit_zombie :: u64
  tb_parked :: u64
  tb_dead :: u64
  tb_traced :: u64
  tb_stopped :: u64
  tb_uninterruptible :: u64
  tb_interruptible :: u64
  tb_idle :: u64

definition smart_io_task_state_to_enum :: "task_bits \<Rightarrow> u64 \<Rightarrow> task_state" where
  "smart_io_task_state_to_enum B state =
     (if state AND tb_exit_dead B \<noteq> 0 then SMART_IO_TASK_DEAD
      else if state AND tb_exit_zombie B \<noteq> 0 then SMART_IO_TASK_ZOMBIE
      else if state AND tb_parked B \<noteq> 0 then SMART_IO_TASK_PARKED
      else if state AND tb_dead B \<noteq> 0 then SMART_IO_TASK_DEAD
      else if state AND tb_traced B \<noteq> 0 then SMART_IO_TASK_TRACED
      else if state AND tb_stopped B \<noteq> 0 then SMART_IO_TASK_STOPPED
      else if state AND tb_uninterruptible B \<noteq> 0 then SMART_IO_TASK_UNINTERRUPTIBLE
      else if state AND tb_interruptible B \<noteq> 0 then SMART_IO_TASK_INTERRUPTIBLE
      else if state AND tb_idle B \<noteq> 0 then SMART_IO_TASK_IDLE
      else if state = 0 then SMART_IO_TASK_RUNNING
      else SMART_IO_TASK_RUNNABLE)"

fun smart_io_task_state_to_str :: "task_state \<Rightarrow> string" where
  "smart_io_task_state_to_str SMART_IO_TASK_RUNNING = ''running''"
| "smart_io_task_state_to_str SMART_IO_TASK_RUNNABLE = ''runnable''"
| "smart_io_task_state_to_str SMART_IO_TASK_INTERRUPTIBLE = ''interruptible''"
| "smart_io_task_state_to_str SMART_IO_TASK_UNINTERRUPTIBLE = ''uninterruptible''"
| "smart_io_task_state_to_str SMART_IO_TASK_STOPPED = ''stopped''"
| "smart_io_task_state_to_str SMART_IO_TASK_TRACED = ''traced''"
| "smart_io_task_state_to_str SMART_IO_TASK_DEAD = ''dead''"
| "smart_io_task_state_to_str SMART_IO_TASK_ZOMBIE = ''zombie''"
| "smart_io_task_state_to_str SMART_IO_TASK_PARKED = ''parked''"
| "smart_io_task_state_to_str SMART_IO_TASK_IDLE = ''idle''"
| "smart_io_task_state_to_str SMART_IO_TASK_UNKNOWN = ''unknown''"

text \<open>What the kernel knows of a thread: the two state words, the processor, the two times.\<close>

record thread_info =
  th_state :: u64
  th_exit_state :: u64
  th_cpu :: int
  th_utime :: u64
  th_stime :: u64

definition smart_io_snapshot_task_state :: "(int \<Rightarrow> thread_info option) \<Rightarrow> int \<Rightarrow> (u64 \<times> int \<times> u64) option" where
  "smart_io_snapshot_task_state lookup tid =
     (if tid \<le> 0 then None
      else case lookup tid of
        None \<Rightarrow> None
      | Some t \<Rightarrow> Some (th_state t OR th_exit_state t, th_cpu t, th_utime t + th_stime t))"

text \<open>Sums over the online processors, and the swap in use.\<close>

definition get_runqueue_len :: "u32 list \<Rightarrow> u32" where
  "get_runqueue_len nr_running = fold (\<lambda>n sum. sum + n) nr_running 0"

definition get_swap_used_mb :: "nat \<Rightarrow> u64 \<Rightarrow> u64 \<Rightarrow> u32" where
  "get_swap_used_mb page_shift totalswap freeswap =
     (if totalswap \<le> freeswap then 0 else pages_to_mb page_shift (totalswap - freeswap))"

definition calc_reclaim_pages :: "u64 \<Rightarrow> u64 \<Rightarrow> u64" where
  "calc_reclaim_pages steal_kswapd steal_direct = steal_kswapd + steal_direct"

end
