(* ===== verification/System_Context.thy ===== *)
theory System_Context
  imports Dirtyrate Tool
begin

text \<open>
  \<open>system_context.c\<close>: the foreground context and the policy that switches the dirty-rate limiter
  on and off from the polled memory state.  The state pairs the module's variables with the
  limiter's; page counts, clocks and the thread table of the kernel are inputs of each call.
\<close>

section \<open>State\<close>

record dirtyrate_policy =
  dp_have_prev :: bool
  dp_active :: bool
  dp_trigger_windows :: u8
  dp_recover_windows :: u8
  dp_prev_ts_ns :: u64
  dp_mem_avail_kb :: u32
  dp_dirty_pages_kb :: u32

record sys_ctx =
  sc_poll_thread :: bool
  sc_fg_uid :: u32
  sc_scene :: u32
  sc_fg_main_pid :: u32
  sc_policy :: dirtyrate_policy

type_synonym context_state = "sys_ctx \<times> dirtyrate"

definition sys_ctx_initial :: sys_ctx where
  "sys_ctx_initial = \<lparr>sc_poll_thread = False, sc_fg_uid = -1, sc_scene = 0, sc_fg_main_pid = -1,
     sc_policy = \<lparr>dp_have_prev = False, dp_active = False, dp_trigger_windows = 0, dp_recover_windows = 0,
       dp_prev_ts_ns = 0, dp_mem_avail_kb = 0, dp_dirty_pages_kb = 0\<rparr>\<rparr>"

text \<open>
  The effects: those of the limiter, the raw lines with their values, and the fault of a division
  by zero.
\<close>

datatype ctx_effect =
    Limiter dr_effect
  | DirtyratePolicy string u64 "u32 \<times> u32 \<times> u32" int "u8 \<times> u8" u64
  | MainPidState u64 int int task_state string int "u32 list"
  | FgMainPid u64 int
  | DivideFault

record mem_sample =
  ms_page_shift :: nat
  ms_avail :: u64
  ms_dirty :: u64
  ms_writeback :: u64
  ms_boottime :: "nat \<Rightarrow> u64"
  ms_ktime :: u64

definition policy_consecutive_windows :: u8 where "policy_consecutive_windows = 3"
definition dirty_rate_enter_kib_s :: u64 where "dirty_rate_enter_kib_s = 512"
definition msec_per_sec :: int where "msec_per_sec = 1000"

section \<open>Foreground context\<close>

text \<open>The kernel's \<open>atomic_t\<close> holds a signed value; it is read back by \<open>sint\<close>.\<close>

definition smart_io_get_fg_uid :: "sys_ctx \<Rightarrow> int" where
  "smart_io_get_fg_uid c = sint (sc_fg_uid c)"

definition smart_io_set_fg_uid :: "u32 \<Rightarrow> context_state \<Rightarrow> context_state \<times> ctx_effect list" where
  "smart_io_set_fg_uid uid s =
     (case s of (c, d) \<Rightarrow>
        if uid = sc_fg_uid c then ((c, d), [])
        else (case smart_io_dirtyrate_fg_uid_changed d of (d, es) \<Rightarrow> ((c\<lparr>sc_fg_uid := uid\<rparr>, d), map Limiter es)))"

definition smart_io_set_scene_tag :: "u32 \<Rightarrow> sys_ctx \<Rightarrow> sys_ctx" where
  "smart_io_set_scene_tag scene_tag c = c\<lparr>sc_scene := scene_tag\<rparr>"

definition smart_io_get_fg_ctx :: "sys_ctx \<Rightarrow> u32 \<times> u32" where
  "smart_io_get_fg_ctx c = (sc_fg_uid c, sc_scene c)"

definition smart_io_set_fg_main_pid :: "bool \<Rightarrow> u64 \<Rightarrow> u32 \<Rightarrow> sys_ctx \<Rightarrow> sys_ctx \<times> ctx_effect list" where
  "smart_io_set_fg_main_pid raw ts pid c =
     (if pid = sc_fg_main_pid c then (c, [])
      else (c\<lparr>sc_fg_main_pid := pid\<rparr>, if raw then [FgMainPid ts (sint pid)] else []))"

definition smart_io_get_fg_main_pid :: "sys_ctx \<Rightarrow> int" where
  "smart_io_get_fg_main_pid c = sint (sc_fg_main_pid c)"

section \<open>The policy\<close>

definition dirtyrate_policy_trace ::
  "bool \<Rightarrow> u64 \<Rightarrow> string \<Rightarrow> u32 \<times> u32 \<times> u32 \<Rightarrow> int \<Rightarrow> dirtyrate_policy \<Rightarrow> dirtyrate \<Rightarrow> ctx_effect list" where
  "dirtyrate_policy_trace raw ts event mem rate p d =
     (if \<not> raw then []
      else [DirtyratePolicy event ts mem rate (dp_trigger_windows p, dp_recover_windows p) (smart_io_dirtyrate_get_wkbps d)])"

text \<open>\<open>div_s64\<close>: its divisor is a signed 32-bit argument, and C truncates toward zero.\<close>

definition div_s64 :: "int \<Rightarrow> u64 \<Rightarrow> int option" where
  "div_s64 dividend divisor =
     (let b = sint (ucast divisor :: u32) in
      if b = 0 then None else Some (sgn dividend * sgn b * (\<bar>dividend\<bar> div \<bar>b\<bar>)))"

text \<open>The rate of a window: the change of the dirty pages per second, in KiB.\<close>

definition dirty_rate_kib_s :: "u32 \<Rightarrow> u32 \<Rightarrow> u64 \<Rightarrow> int option" where
  "dirty_rate_kib_s dirty_pages_kb prev_dirty_pages_kb elapsed_ms =
     div_s64 ((uint dirty_pages_kb - uint prev_dirty_pages_kb) * msec_per_sec) elapsed_ms"

text \<open>The comparison with the unsigned constant converts the rate to an unsigned 64-bit value.\<close>

definition rate_triggers :: "int \<Rightarrow> bool" where
  "rate_triggers rate \<longleftrightarrow> (word_of_int rate :: u64) \<ge> dirty_rate_enter_kib_s"

text \<open>The state machine of one window: the new policy, the call to the limiter, the event.\<close>

definition policy_window :: "int \<Rightarrow> dirtyrate_policy \<Rightarrow> dirtyrate_policy \<times> (bool \<times> string) option" where
  "policy_window rate p =
     (if dp_active p then
        (if rate > 0 then (p\<lparr>dp_recover_windows := 0\<rparr>, None)
         else
         (let p = p\<lparr>dp_recover_windows := dp_recover_windows p + 1\<rparr> in
          if dp_recover_windows p \<ge> policy_consecutive_windows
          then (p\<lparr>dp_active := False, dp_trigger_windows := 0\<rparr>, Some (False, ''exit'')) else (p, None)))
      else if rate_triggers rate then
        (let p = p\<lparr>dp_trigger_windows := dp_trigger_windows p + 1\<rparr> in
         if dp_trigger_windows p \<ge> policy_consecutive_windows
         then (p\<lparr>dp_active := True, dp_recover_windows := 0\<rparr>, Some (True, ''enter'')) else (p, None))
      else (p\<lparr>dp_trigger_windows := 0\<rparr>, None))"

definition policy_reset :: "dirtyrate_policy \<Rightarrow> dirtyrate_policy" where
  "policy_reset p = p\<lparr>dp_have_prev := False, dp_prev_ts_ns := 0, dp_trigger_windows := 0, dp_recover_windows := 0\<rparr>"

definition update_dirtyrate_policy ::
  "dirtyrate_lib \<Rightarrow> bool \<Rightarrow> mem_sample \<Rightarrow> context_state \<Rightarrow> context_state \<times> ctx_effect list" where
  "update_dirtyrate_policy L raw m s =
     (let (c, d) = s; p = sc_policy c in
      if \<not> smart_io_dirtyrate_get_enabled d \<or> smart_io_dirtyrate_get_wkbps d = 0 \<or> smart_io_get_fg_uid c < 0 then
        (if dp_active p then
           (let (d, es) = smart_io_dirtyrate_set_active L (ms_ktime m) False d; p = p\<lparr>dp_active := False\<rparr>
            in ((c\<lparr>sc_policy := policy_reset p\<rparr>, d),
                map Limiter es @ dirtyrate_policy_trace raw (ms_boottime m 0) ''exit'' (0, 0, 0) 0 p d))
         else ((c\<lparr>sc_policy := policy_reset p\<rparr>, d), []))
      else
      (let mem_avail_kb = pages_to_kb (ms_page_shift m) (ms_avail m);
           dirty_pages_kb = pages_to_kb (ms_page_shift m) (ms_dirty m);
           writeback_pages_kb = pages_to_kb (ms_page_shift m) (ms_writeback m);
           now_ns = ms_boottime m 0;
           baseline = (\<lambda>p. p\<lparr>dp_prev_ts_ns := now_ns, dp_mem_avail_kb := mem_avail_kb, dp_dirty_pages_kb := dirty_pages_kb\<rparr>) in
       if \<not> dp_have_prev p then ((c\<lparr>sc_policy := (baseline p)\<lparr>dp_have_prev := True\<rparr>\<rparr>, d), [])
       else
       (let elapsed_ms = (now_ns - dp_prev_ts_ns p) div nsec_per_msec in
        if elapsed_ms = 0 then ((c\<lparr>sc_policy := baseline p\<rparr>, d), [])
        else case dirty_rate_kib_s dirty_pages_kb (dp_dirty_pages_kb p) elapsed_ms of
          None \<Rightarrow> (s, [DivideFault])
        | Some rate \<Rightarrow>
            (case policy_window rate p of
               (p, None) \<Rightarrow> ((c\<lparr>sc_policy := baseline p\<rparr>, d), [])
             | (p, Some (on, event)) \<Rightarrow>
                 (let (d, es) = smart_io_dirtyrate_set_active L (ms_ktime m) on d
                  in ((c\<lparr>sc_policy := baseline p\<rparr>, d),
                      map Limiter es @ dirtyrate_policy_trace raw (ms_boottime m 1) event
                        (mem_avail_kb, dirty_pages_kb, writeback_pages_kb) rate p d))))))"

section \<open>The sample of the foreground thread\<close>

record swap_sample =
  ss_total :: u64
  ss_file :: u64
  ss_totalswap :: u64
  ss_freeswap :: u64

definition emit_fg_main_pid_state ::
  "bool \<Rightarrow> task_bits \<Rightarrow> (int \<Rightarrow> thread_info option) \<Rightarrow> mem_sample \<Rightarrow> swap_sample \<Rightarrow> sys_ctx \<Rightarrow> ctx_effect list" where
  "emit_fg_main_pid_state raw B lookup m w c =
     (if \<not> raw then []
      else
      (let uid = sint (sc_fg_uid c); pid = sint (sc_fg_main_pid c);
           (raw_state, cpuid) = (case smart_io_snapshot_task_state lookup pid of
                                   None \<Rightarrow> (0, -1) | Some (st, cpu, _) \<Rightarrow> (st, cpu));
           state = smart_io_task_state_to_enum B raw_state;
           kb = pages_to_kb (ms_page_shift m)
       in [MainPidState (ms_boottime m 0) uid pid state (smart_io_task_state_to_str state) cpuid
             [kb (ss_total w), kb (ms_avail m), kb (ss_file w), kb (ms_dirty m), kb (ms_writeback m), kb (ss_totalswap w),
              if ss_totalswap w > ss_freeswap w then kb (ss_totalswap w - ss_freeswap w) else 0]]))"

section \<open>The polling thread\<close>

text \<open>\<open>run\<close>: what \<open>kthread_run\<close> returns.\<close>

definition smart_io_ctx_init :: "errno option \<Rightarrow> sys_ctx \<Rightarrow> sys_ctx \<times> errno option" where
  "smart_io_ctx_init run c =
     (case run of Some e \<Rightarrow> (c\<lparr>sc_poll_thread := False\<rparr>, Some e) | None \<Rightarrow> (c\<lparr>sc_poll_thread := True\<rparr>, None))"

definition smart_io_ctx_exit :: "sys_ctx \<Rightarrow> sys_ctx" where
  "smart_io_ctx_exit c = c\<lparr>sc_poll_thread := False\<rparr>"

end
