(* ===== verification/Tool_Laws.thy ===== *)
theory Tool_Laws
  imports Tool
begin

text \<open>
  The latency bucket of a value is its binary logarithm, capped; the percentages and rates are
  bounded and do not wrap; each task-state bit maps to its own state, except the two the order of
  the tests shadows.
\<close>

section \<open>Buckets\<close>

fun log2_floor :: "nat \<Rightarrow> nat" where
  "log2_floor n = (if n \<le> 1 then 0 else Suc (log2_floor (n div 2)))"

declare log2_floor.simps [simp del]

lemma log2_floor_bounds: "0 < n \<Longrightarrow> 2 ^ log2_floor n \<le> n \<and> n < 2 ^ (log2_floor n + 1)"
proof (induction n rule: log2_floor.induct)
  case (1 n)
  show ?case
  proof (cases "n \<le> 1")
    case True
    then show ?thesis using 1 by (simp add: log2_floor.simps [of n])
  next
    case False
    then have "log2_floor n = Suc (log2_floor (n div 2))" by (simp add: log2_floor.simps [of n])
    then show ?thesis using 1 False by auto
  qed
qed

lemma bucket_loop_eq:
  "0 < unat m \<Longrightarrow> unat idx < unat m \<Longrightarrow>
    unat (lat_bucket_loop x m idx) = min (unat idx + log2_floor (unat x)) (unat m - 1)"
proof (induction x m idx rule: lat_bucket_loop.induct)
  case (1 x m idx)
  have um: "unat (m - 1) = unat m - 1" using 1(2) by (intro unat_dec) auto
  show ?case
  proof (cases "x > 1 \<and> idx < m - 1")
    case True
    then have lt: "unat idx < unat m - 1" by (simp add: word_less_nat_alt um)
    have "unat m < 256" using unsigned_less [of m, where 'a = nat] by simp
    then have i: "unat (idx + 1) = unat idx + 1" using lt by (simp add: unat_word_ariths)
    have h: "unat (drop_bit 1 x) = unat x div 2" by (rule unat_half)
    have "log2_floor (unat x) = Suc (log2_floor (unat x div 2))"
      using True by (simp add: log2_floor.simps [of "unat x"] word_less_nat_alt)
    then show ?thesis using 1 True i h lt by (simp add: lat_bucket_loop.simps [of x])
  next
    case False
    then have "lat_bucket_loop x m idx = idx" by (subst lat_bucket_loop.simps) auto
    moreover have "unat x \<le> 1 \<or> unat idx = unat m - 1"
      using False 1(3) um by (auto simp: word_less_nat_alt)
    ultimately show ?thesis using 1(3) by (auto simp: log2_floor.simps [of "unat x"])
  qed
qed

lemma lat_bucket_eq: "m \<noteq> 0 \<Longrightarrow> unat (lat_bucket_idx x m) = min (log2_floor (unat x)) (unat m - 1)"
  using bucket_loop_eq [of m 0 x] by (simp add: lat_bucket_idx_def unat_gt_0)

text \<open>The bucket of a latency is its binary logarithm rounded down, capped at the last bucket, so a latency below the last bucket's limit lies between the bucket's value and twice that.\<close>

theorem lat_bucket_is_log2:
  assumes "1 \<le> n" and "n \<le> 32" and "x \<noteq> 0" and "unat x < 2 ^ unat n"
  shows "unat (lat_bucket_value (lat_bucket_idx x n)) \<le> unat x \<and> unat x < 2 * unat (lat_bucket_value (lat_bucket_idx x n)) \<and>
    unat (lat_bucket_idx x n) < unat n"
proof -
  let ?i = "unat (lat_bucket_idx x n)"
  have n: "1 \<le> unat n" "unat n \<le> 32" "n \<noteq> 0" using assms(1,2) by (auto simp: word_le_nat_alt)
  note b = log2_floor_bounds [of "unat x"]
  have x: "0 < unat x" using assms(3) by (simp add: unat_gt_0)
  have "(2 :: nat) ^ log2_floor (unat x) < 2 ^ unat n" using b x assms(4) by linarith
  then have "log2_floor (unat x) < unat n" by simp
  then have i: "?i = log2_floor (unat x)" using lat_bucket_eq [OF n(3), of x] by simp
  have "?i < 32" using i n \<open>log2_floor (unat x) < unat n\<close> by simp
  then have "unat (lat_bucket_value (lat_bucket_idx x n)) = 2 ^ ?i"
    unfolding lat_bucket_value_def unsigned_push_bit_eq by (simp add: push_bit_eq_mult take_bit_nat_eq_self)
  then show ?thesis using b x i \<open>log2_floor (unat x) < unat n\<close> by simp
qed

lemma lat_bucket_is_log2_witness:
  "(64 :: nat) \<le> 100 \<and> 100 < 2 * (64 :: nat) \<and> unat (lat_bucket_idx 100 21) < 21"
proof -
  have "lat_bucket_value (lat_bucket_idx 100 21) = 64" by code_simp
  then show ?thesis using lat_bucket_is_log2 [of 21 100] by simp
qed

section \<open>Rates and percentages\<close>

lemma unat_ucast_up: "unat (ucast (x :: u32) :: u64) = unat x"
  using unsigned_less [of x, where 'a = nat] by (simp add: unsigned_ucast_eq take_bit_nat_eq_self)

lemma unat_mult_up: "n < 2 ^ 32 \<Longrightarrow> unat (ucast (x :: u32) * of_nat n :: u64) = unat x * n"
proof -
  assume "n < 2 ^ 32"
  then have "unat x * n < 2 ^ 64"
    using unsigned_less [of x, where 'a = nat] mult_strict_mono [of "unat x" "2 ^ 32" n "2 ^ 32"] by simp
  then show ?thesis using \<open>n < 2 ^ 32\<close>
    by (simp add: unat_word_ariths unat_ucast_up unsigned_of_nat take_bit_nat_eq_self)
qed

lemma util_pct_eq: "unat (calc_util_pct cur mx) = (if mx = 0 then 0 else min 100 (unat cur * 100 div unat mx))"
proof (cases "mx = 0")
  case False
  have u: "unat (ucast cur * 100 :: u64) = unat cur * 100" using unat_mult_up [of 100 cur] by simp
  let ?q = "(ucast cur * 100 :: u64) div ucast mx"
  have q: "unat ?q = unat cur * 100 div unat mx"
    by (simp only: unat_div u unat_ucast_up)
  have "unat (min ?q 100) = min (unat ?q) 100" by (auto simp: min_def word_le_nat_alt)
  then have "unat (ucast (min ?q 100) :: u32) = min (unat ?q) 100"
    by (simp add: unsigned_ucast_eq take_bit_nat_eq_self)
  then show ?thesis using False q by (simp add: calc_util_pct_def Let_def min.commute)
qed (simp add: calc_util_pct_def)

text \<open>A rate is exact until it exceeds 32 bits, for any window's worth of data below 16 exabytes.\<close>

lemma window_rate_eq:
  assumes "unat kb * 1000 < 2 ^ 64"
  shows "unat (kb_window_to_kbps kb window_ms) =
    (if window_ms = 0 then 0 else min (2 ^ 32 - 1) (unat kb * 1000 div unat window_ms))"
proof (cases "window_ms = 0")
  case False
  let ?q = "kb * 1000 div ucast window_ms"
  have q: "unat ?q = unat kb * 1000 div unat window_ms"
    using assms by (simp add: unat_div unat_ucast_up unat_word_ariths)
  have m: "unat (ucast u32_max :: u64) = 2 ^ 32 - 1" by (simp add: unat_ucast_up unat_u32_max)
  have k: "unat (min ?q (ucast u32_max)) = min (unat ?q) (2 ^ 32 - 1)"
    by (auto simp: min_def word_le_nat_alt m)
  have "unat (ucast (min ?q (ucast u32_max)) :: u32) = unat (min ?q (ucast u32_max))"
    unfolding unsigned_ucast_eq k by (intro take_bit_nat_eq_self) simp
  then show ?thesis using False q k by (simp add: kb_window_to_kbps_def Let_def min.commute)
qed (simp add: kb_window_to_kbps_def)

section \<open>Task states\<close>

text \<open>The state bits of Linux: a stopped task carries the kill-wakeup bit, an idle task is an uninterruptible one.\<close>

definition linux_task_bits :: task_bits where
  "linux_task_bits = \<lparr>tb_exit_dead = 0x10, tb_exit_zombie = 0x20, tb_parked = 0x40, tb_dead = 0x80,
     tb_traced = 0x8, tb_stopped = 0x104, tb_uninterruptible = 0x2, tb_interruptible = 0x1, tb_idle = 0x402\<rparr>"

lemma killable_reported_stopped: "smart_io_task_state_to_enum linux_task_bits (0x100 OR 0x2) = SMART_IO_TASK_STOPPED"
  by code_simp

lemma idle_reported_uninterruptible: "smart_io_task_state_to_enum linux_task_bits 0x402 = SMART_IO_TASK_UNINTERRUPTIBLE"
  by code_simp

end
