(* ===== verification/System_Laws.thy ===== *)
theory System_Laws
  imports System_Context Dirtyrate_Config Tool_Laws
begin

text \<open>
  The policy of the limiter: when it enters and leaves, how it and the limiter stay related over
  every interleaving of ticks, configuration calls and writers, and how they come apart.
\<close>

section \<open>Windows\<close>

lemma rate_triggers_iff:
  assumes "- (2 ^ 63) \<le> rate" and "rate < 2 ^ 63"
  shows "rate_triggers rate \<longleftrightarrow> rate < 0 \<or> 512 \<le> rate"
proof (cases "rate < 0")
  case True
  have "rate mod 2 ^ 64 = (rate + 2 ^ 64) mod 2 ^ 64" by simp
  also have "\<dots> = rate + 2 ^ 64" using assms True by (intro mod_pos_pos_trivial) auto
  finally have "uint (word_of_int rate :: u64) = rate + 2 ^ 64" by (simp add: uint_word_of_int)
  then show ?thesis using True assms by (simp add: rate_triggers_def dirty_rate_enter_kib_s_def word_le_def)
next
  case False
  then have "uint (word_of_int rate :: u64) = rate"
    using assms by (simp add: unsigned_of_int take_bit_int_eq_self)
  then show ?thesis using False by (simp add: rate_triggers_def dirty_rate_enter_kib_s_def word_le_def)
qed

definition policy_run :: "int list \<Rightarrow> dirtyrate_policy \<Rightarrow> dirtyrate_policy" where
  "policy_run rs p = fold (\<lambda>r p. fst (policy_window r p)) rs p"

lemma policy_run_snoc [simp]: "policy_run (rs @ [r]) p = fst (policy_window r (policy_run rs p))"
  by (simp add: policy_run_def)

lemma policy_run_Nil [simp]: "policy_run [] p = p"
  by (simp add: policy_run_def)

text \<open>Three windows in a row that trigger.\<close>

definition three_in_row :: "int list \<Rightarrow> bool" where
  "three_in_row rs \<longleftrightarrow> (\<exists>xs a b c ys. rs = xs @ [a, b, c] @ ys \<and> rate_triggers a \<and> rate_triggers b \<and> rate_triggers c)"

abbreviation trail :: "int list \<Rightarrow> nat" where
  "trail rs \<equiv> length (takeWhile rate_triggers (rev rs))"

lemma three_in_row_snoc: "three_in_row rs \<Longrightarrow> three_in_row (rs @ [r])"
  by (fastforce simp: three_in_row_def)

lemma trail_three: "3 \<le> trail rs \<Longrightarrow> three_in_row rs"
proof -
  assume t: "3 \<le> trail rs"
  obtain c b a zs where "rev rs = c # b # a # zs \<and> rate_triggers c \<and> rate_triggers b \<and> rate_triggers a"
    using t by (cases "rev rs"; cases "tl (rev rs)"; cases "tl (tl (rev rs))") (auto split: if_splits)
  then have "rs = rev zs @ [a, b, c] @ []" "rate_triggers a" "rate_triggers b" "rate_triggers c"
    by (simp_all add: rev_swap)
  then show ?thesis unfolding three_in_row_def by blast
qed

lemma three_in_row_last: "three_in_row (rs @ [r]) \<Longrightarrow> \<not> three_in_row rs \<Longrightarrow> rate_triggers r \<and> 2 \<le> trail rs"
proof -
  assume "three_in_row (rs @ [r])" and no: "\<not> three_in_row rs"
  then obtain xs a b c ys where e: "rs @ [r] = xs @ [a, b, c] @ ys" "rate_triggers a" "rate_triggers b" "rate_triggers c"
    unfolding three_in_row_def by blast
  then show ?thesis
  proof (cases ys rule: rev_cases)
    case Nil
    then have "rs = xs @ [a, b]" "r = c" using e(1) by simp_all
    then show ?thesis using e by simp
  next
    case (snoc zs z)
    then have "rs = xs @ [a, b, c] @ zs" using e(1) by simp
    then show ?thesis using no e unfolding three_in_row_def by blast
  qed
qed

lemma no_three_inactive:
  assumes "\<not> dp_active p" and "dp_trigger_windows p = 0"
  shows "\<not> three_in_row rs \<Longrightarrow> \<not> dp_active (policy_run rs p) \<and>
    dp_trigger_windows (policy_run rs p) = word_of_nat (trail rs) \<and> trail rs < 3"
proof (induction rs rule: rev_induct)
  case (snoc r rs)
  then have no: "\<not> three_in_row rs" using three_in_row_snoc by blast
  note IH = snoc.IH [OF no]
  show ?case
  proof (cases "rate_triggers r")
    case True
    then have lt: "trail (rs @ [r]) < 3" using trail_three [of "rs @ [r]"] snoc.prems by force
    moreover have "trail (rs @ [r]) = Suc (trail rs)" using True by simp
    ultimately have "trail rs = 0 \<or> trail rs = 1" by linarith
    then show ?thesis using IH True lt
      by (auto simp: policy_window_def Let_def policy_consecutive_windows_def word_le_nat_alt)
  next
    case False
    then show ?thesis using IH by (simp add: policy_window_def)
  qed
qed (use assms in simp)

text \<open>A triggering run of three windows switches the policy on somewhere.\<close>

lemma three_in_row_enters:
  assumes "\<not> dp_active p" and "dp_trigger_windows p = 0" and "three_in_row rs"
  shows "\<exists>k \<le> length rs. dp_active (policy_run (take k rs) p)"
  using assms(3)
proof (induction rs rule: rev_induct)
  case Nil
  then show ?case by (simp add: three_in_row_def)
next
  case (snoc r rs)
  show ?case
  proof (cases "three_in_row rs")
    case True
    then obtain k where "k \<le> length rs" "dp_active (policy_run (take k rs) p)" using snoc.IH by blast
    then show ?thesis by (intro exI [of _ k]) simp
  next
    case False
    note n = no_three_inactive [OF assms(1,2) False]
    have l: "rate_triggers r" "2 \<le> trail rs" using three_in_row_last [OF snoc.prems False] by blast+
    then have "trail rs = 2" using n by linarith
    with n have "dp_trigger_windows (policy_run rs p) = 2" by simp
    then have "dp_active (policy_run (rs @ [r]) p)"
      using n l(1) by (simp add: policy_window_def policy_consecutive_windows_def Let_def)
    then show ?thesis by (intro exI [of _ "Suc (length rs)"]) simp
  qed
qed

text \<open>C35: the policy switches the limiter on for the first time exactly when three windows in a row trigger, and because the rate is compared as an unsigned number a window in which the dirty pages fall triggers like one in which they grow by 512 KiB a second.\<close>

theorem policy_enters_after_three:
  assumes "\<not> dp_active p" and "dp_trigger_windows p = 0" and "\<forall>r \<in> set rs. - (2 ^ 63) \<le> r \<and> r < 2 ^ 63"
  shows "(\<exists>k \<le> length rs. dp_active (policy_run (take k rs) p)) \<longleftrightarrow>
    (\<exists>xs a b c ys. rs = xs @ [a, b, c] @ ys \<and> (a < 0 \<or> 512 \<le> a) \<and> (b < 0 \<or> 512 \<le> b) \<and> (c < 0 \<or> 512 \<le> c))"
proof -
  have t: "rate_triggers r \<longleftrightarrow> r < 0 \<or> 512 \<le> r" if "r \<in> set rs" for r
    using assms(3) that by (intro rate_triggers_iff) auto
  have "(\<exists>xs a b c ys. rs = xs @ [a, b, c] @ ys \<and> (a < 0 \<or> 512 \<le> a) \<and> (b < 0 \<or> 512 \<le> b) \<and> (c < 0 \<or> 512 \<le> c))
      \<longleftrightarrow> three_in_row rs"
    unfolding three_in_row_def using t by (intro ex_cong1) auto
  moreover have "(\<exists>k \<le> length rs. dp_active (policy_run (take k rs) p)) \<longleftrightarrow> three_in_row rs"
  proof
    assume "\<exists>k \<le> length rs. dp_active (policy_run (take k rs) p)"
    then obtain k where k: "dp_active (policy_run (take k rs) p)" by blast
    then have "three_in_row (take k rs)" using no_three_inactive [OF assms(1,2)] by blast
    then obtain xs a b c ys where "take k rs = xs @ [a, b, c] @ ys" "rate_triggers a" "rate_triggers b" "rate_triggers c"
      unfolding three_in_row_def by blast
    then show "three_in_row rs" unfolding three_in_row_def
      by (metis append.assoc append_take_drop_id)
  next
    show "three_in_row rs \<Longrightarrow> \<exists>k \<le> length rs. dp_active (policy_run (take k rs) p)"
      using assms(1,2) by (rule three_in_row_enters)
  qed
  ultimately show ?thesis by blast
qed

lemma policy_enters_after_three_witness:
  "\<exists>k \<le> 4. dp_active (policy_run (take k [3, -1, -40, -7]) (sc_policy sys_ctx_initial))"
proof -
  have "(\<exists>k \<le> length [3, -1, -40, -7 :: int]. dp_active (policy_run (take k [3, -1, -40, -7]) (sc_policy sys_ctx_initial)))"
    by (subst policy_enters_after_three)
      (simp_all add: sys_ctx_initial_def, intro exI [of _ "[3]"] exI [of _ "-1"] exI [of _ "-40"] exI [of _ "-7"], simp)
  then show ?thesis by (simp add: numeral_eq_Suc)
qed

section \<open>The policy and the limiter\<close>

text \<open>
  Both components together: the ticks of the policy, and the limiter's own steps that do not
  come from it (settings and writers).
\<close>

inductive context_step :: "dirtyrate_lib \<Rightarrow> context_state \<Rightarrow> ctx_effect list \<Rightarrow> context_state \<Rightarrow> bool" for L :: dirtyrate_lib where
  tick: "update_dirtyrate_policy L raw m s = (s', es) \<Longrightarrow> context_step L s es s'"
| set_fg_uid: "smart_io_set_fg_uid uid s = (s', es) \<Longrightarrow> context_step L s es s'"
| set_enabled: "dr_apply L now (SetEnabled b) d = (d', es) \<Longrightarrow> context_step L (c, d) (map Limiter es) (c, d')"
| set_wkbps: "dr_apply L now (SetWkbps v) d = (d', es) \<Longrightarrow> context_step L (c, d) (map Limiter es) (c, d')"
| writer: "dirty_rate_locked L uid fg now d = (d', r, es) \<Longrightarrow> context_step L (c, d) (map Limiter es) (c, d')"
| waited: "context_step L (c, d) [] (c, dirty_rate_waited a b d)"
| main_pid: "smart_io_set_fg_main_pid raw ts pid c = (c', es) \<Longrightarrow> context_step L (c, d) es (c', d)"

inductive_cases context_stepE: "context_step L s es s'"

fun limiter_effects :: "ctx_effect list \<Rightarrow> dr_effect list" where
  "limiter_effects [] = []"
| "limiter_effects (Limiter e # es) = e # limiter_effects es"
| "limiter_effects (_ # es) = limiter_effects es"

lemma limiter_effects_append [simp]: "limiter_effects (xs @ ys) = limiter_effects xs @ limiter_effects ys"
  by (induction xs rule: limiter_effects.induct) auto

lemma limiter_effects_map [simp]: "limiter_effects (map Limiter es) = es"
  by (induction es) auto

lemma limiter_effects_trace [simp]: "limiter_effects (dirtyrate_policy_trace raw ts ev mem r p d) = []"
  by (simp add: dirtyrate_policy_trace_def)

text \<open>A tick leaves the limiter alone or makes one call, after which its activity follows the policy's.\<close>

lemma tick_cases:
  assumes "update_dirtyrate_policy L raw m (c, d) = ((c', d'), es)"
  obtains
    (quiet) "d' = d" "limiter_effects es = []" "dp_active (sc_policy c') = dp_active (sc_policy c)"
  | (call) on fs where "smart_io_dirtyrate_set_active L (ms_ktime m) on d = (d', fs)" "limiter_effects es = fs"
      "dp_active (sc_policy c') = on"
proof -
  have w: "dp_active (fst (policy_window r p)) = dp_active p \<and> snd (policy_window r p) = None \<or>
      (\<exists>ev. snd (policy_window r p) = Some (dp_active (fst (policy_window r p)), ev))" for r p
    by (simp add: policy_window_def Let_def)
  show ?thesis
  proof (cases "\<not> smart_io_dirtyrate_get_enabled d \<or> smart_io_dirtyrate_get_wkbps d = 0 \<or> smart_io_get_fg_uid c < 0")
    case True
    note u = assms [unfolded update_dirtyrate_policy_def Let_def prod.case if_P [OF True]]
    then show ?thesis using quiet call [of False]
      by (auto simp: policy_reset_def case_prod_beta prod_eq_iff split: if_splits)
  next
    case False
    note u = assms [unfolded update_dirtyrate_policy_def Let_def prod.case if_not_P [OF False]]
    define dirty where "dirty = pages_to_kb (ms_page_shift m) (ms_dirty m)"
    define el where "el = (ms_boottime m 0 - dp_prev_ts_ns (sc_policy c)) div nsec_per_msec"
    show ?thesis
    proof (cases "\<not> dp_have_prev (sc_policy c) \<or> el = 0 \<or> dirty_rate_kib_s dirty (dp_dirty_pages_kb (sc_policy c)) el = None")
      case True
      then show ?thesis using u quiet by (auto simp: el_def dirty_def split: if_splits option.splits)
    next
      case False
      then obtain rate where r: "dirty_rate_kib_s dirty (dp_dirty_pages_kb (sc_policy c)) el = Some rate"
        "dp_have_prev (sc_policy c)" "el \<noteq> 0" by blast
      obtain p o' where pw: "policy_window rate (sc_policy c) = (p, o')" by fastforce
      show ?thesis
      proof (cases o')
        case None
        then show ?thesis using u r pw quiet w [of rate "sc_policy c"] by (auto simp: el_def dirty_def)
      next
        case (Some x)
        obtain on ev where x: "x = (on, ev)" by fastforce
        have "on = dp_active p" using w [of rate "sc_policy c"] Some by (simp add: pw x)
        then show ?thesis using u r pw call [of on] Some x
          by (auto simp: el_def dirty_def case_prod_beta prod_eq_iff)
      qed
    qed
  qed
qed

definition context_good :: "dirtyrate_lib \<Rightarrow> context_state \<Rightarrow> bool" where
  "context_good L s \<longleftrightarrow> dl_ok L \<and> dirtyrate_good L (snd s) \<and> (dr_active (snd s) \<longrightarrow> dp_active (sc_policy (fst s)))"

lemma set_active_result:
  "smart_io_dirtyrate_set_active L now on d = (d', fs) \<Longrightarrow> dr_active d' = (dr_enabled d \<and> on)"
  by (auto simp: smart_io_dirtyrate_set_active_def Let_def split: if_splits)

lemma locked_active: "dirty_rate_locked L uid fg now d = (d', r, es) \<Longrightarrow> dr_active d' = dr_active d"
  by (auto simp: dirty_rate_locked_def dirty_rate_take_def Let_def split: if_splits)

lemma context_step_sim:
  assumes good: "context_good L s" and step: "context_step L s es s'"
  shows "reaches (dirtyrate_step L) (snd s) (limiter_effects es) (snd s') \<and>
    (dr_active (snd s') \<longrightarrow> dp_active (sc_policy (fst s')))"
  using step
proof cases
  case (tick raw m)
  obtain c d where s: "s = (c, d)" by fastforce
  obtain c' d' where s': "s' = (c', d')" by fastforce
  from tick [unfolded s s'] show ?thesis
  proof (cases rule: tick_cases)
    case quiet
    then show ?thesis using good by (simp add: s s' reaches_refl context_good_def)
  next
    case (call on fs)
    have "dirtyrate_step L d fs d'" by (rule dirtyrate_step.call [where c = "SetActive on" and now = "ms_ktime m"]) (simp add: call)
    then show ?thesis using call set_active_result [OF call(1)] by (simp add: s s' reaches_one)
  qed
next
  case (set_fg_uid uid)
  obtain c d where s: "s = (c, d)" by fastforce
  have "dirtyrate_step L d [WakeWriters] (d\<lparr>dr_config_seq := dr_config_seq d + 1\<rparr>)"
    by (rule dirtyrate_step.call [where c = FgUidChanged]) (simp add: smart_io_dirtyrate_fg_uid_changed_def)
  then show ?thesis using set_fg_uid good
    by (auto simp: s smart_io_set_fg_uid_def smart_io_dirtyrate_fg_uid_changed_def context_good_def reaches_refl reaches_one
        split: if_splits)
next
  case (set_enabled now b d d' fs c)
  have "dirtyrate_step L d fs d'" by (rule dirtyrate_step.call [OF set_enabled(4)])
  moreover have "\<not> dr_active d'" using set_enabled(4)
    by (auto simp: smart_io_dirtyrate_set_enabled_def dirtyrate_reset_bucket_locked_def Let_def)
  ultimately show ?thesis using set_enabled by (simp add: reaches_one)
next
  case (set_wkbps now v d d' fs c)
  have "dirtyrate_step L d fs d'" by (rule dirtyrate_step.call [OF set_wkbps(4)])
  moreover have "dr_active d' = dr_active d" using set_wkbps(4)
    by (auto simp: smart_io_dirtyrate_set_wkbps_def Let_def split: if_splits)
  ultimately show ?thesis using set_wkbps good by (simp add: reaches_one context_good_def)
next
  case (writer uid fg now d d' r fs c)
  have "dirtyrate_step L d fs d'" by (rule dirtyrate_step.locked [OF writer(4)])
  then show ?thesis using writer good locked_active [OF writer(4)] by (simp add: reaches_one context_good_def)
next
  case (waited c d a b)
  have "dirtyrate_step L d [] (dirty_rate_waited a b d)" by (rule dirtyrate_step.waited)
  then show ?thesis using waited good by (simp add: reaches_one context_good_def dirty_rate_waited_def)
next
  case (main_pid raw ts pid c c' d)
  then show ?thesis using good
    by (auto simp: smart_io_set_fg_main_pid_def reaches_refl context_good_def split: if_splits)
qed

interpretation context_policy: layered_machine "context_step L" "\<lambda>s. dl_ok L \<and> s = (sys_ctx_initial, dirtyrate_initial)"
    "context_good L" "dirtyrate_step L" snd limiter_effects for L
proof
  show "context_good L s" if "dl_ok L \<and> s = (sys_ctx_initial, dirtyrate_initial)" for s
    using that limiter.init_inv [of L dirtyrate_initial] by (simp add: context_good_def dirtyrate_initial_def)
  fix s es t assume good: "context_good L s" and step: "context_step L s es t"
  note sim = context_step_sim [OF good step]
  show "reaches (dirtyrate_step L) (snd s) (limiter_effects es) (snd t)" using sim by blast
  show "context_good L t"
    using sim good limiter.reaches_inv [of L "snd s"] unfolding context_good_def by blast
qed simp_all

text \<open>C18: after any interleaving of ticks, settings and writers the limiter is active only while the policy holds it active, and every such run is, for the limiter, a run of its own calls and lock regions.\<close>

theorem limiter_follows_policy:
  assumes "dl_ok L" and "reaches (context_step L) (sys_ctx_initial, dirtyrate_initial) es (c, d)"
  shows "reaches (dirtyrate_step L) dirtyrate_initial (limiter_effects es) d \<and>
    (dr_active d \<longrightarrow> dp_active (sc_policy c) \<and> dr_enabled d)"
proof -
  have i: "context_good L (sys_ctx_initial, dirtyrate_initial)" using context_policy.init_inv assms(1) by blast
  have "context_good L (c, d)" using context_policy.reaches_inv [OF assms(2) i] .
  then show ?thesis using context_policy.run_simulates [OF assms(2) i]
    by (simp add: context_good_def dirtyrate_good_def)
qed

text \<open>A run that switches the limiter on: a rate is set, the limiter enabled, a foreground user known, and the dirty pages grow by 4 MB in each of three windows of 100 ms.\<close>

definition demo_sample :: "u64 \<Rightarrow> mem_sample" where
  "demo_sample i = \<lparr>ms_page_shift = 12, ms_avail = 100000, ms_dirty = 1000 * i, ms_writeback = 0,
     ms_boottime = (\<lambda>_. 1000000000 + i * 100000000), ms_ktime = i\<rparr>"

definition demo_tick :: "u64 \<Rightarrow> context_state \<Rightarrow> context_state" where
  "demo_tick i s = fst (update_dirtyrate_policy demo_dl False (demo_sample i) s)"

definition demo_ready :: context_state where
  "demo_ready = fst (smart_io_set_fg_uid 10002 (sys_ctx_initial,
     fst (dr_apply demo_dl 8 (SetEnabled True) (fst (dr_apply demo_dl 7 (SetWkbps 64) dirtyrate_initial)))))"

definition demo_on :: context_state where
  "demo_on = demo_tick 3 (demo_tick 2 (demo_tick 1 (demo_tick 0 demo_ready)))"

lemma demo_tick_step: "\<exists>es. context_step demo_dl s es (demo_tick i s)"
  unfolding demo_tick_def by (rule exI) (rule context_step.tick [OF prod.collapse [symmetric]])

lemma demo_ready_reached: "\<exists>es. reaches (context_step demo_dl) (sys_ctx_initial, dirtyrate_initial) es demo_ready"
  unfolding demo_ready_def
  by (rule exI, rule reaches_step, rule reaches_step, rule reaches_one)
    (rule context_step.set_wkbps [OF prod.collapse [symmetric]], rule context_step.set_enabled [OF prod.collapse [symmetric]],
      rule context_step.set_fg_uid [OF prod.collapse [symmetric]])

lemma demo_on_reached: "\<exists>es. reaches (context_step demo_dl) (sys_ctx_initial, dirtyrate_initial) es demo_on"
proof -
  have "\<exists>es. reaches (context_step demo_dl) (sys_ctx_initial, dirtyrate_initial) es (demo_tick i s)"
    if "\<exists>es. reaches (context_step demo_dl) (sys_ctx_initial, dirtyrate_initial) es s" for i s
    using that demo_tick_step reaches_step by metis
  then show ?thesis unfolding demo_on_def using demo_ready_reached by blast
qed

lemma demo_on_active: "dr_active (snd demo_on)" "dp_active (sc_policy (fst demo_on))"
  by code_simp+

lemma limiter_follows_policy_witness:
  "\<exists>es. reaches (dirtyrate_step demo_dl) dirtyrate_initial es (snd demo_on) \<and> dr_active (snd demo_on) \<and>
    dp_active (sc_policy (fst demo_on)) \<and> dr_enabled (snd demo_on)"
proof -
  obtain es where "reaches (context_step demo_dl) (sys_ctx_initial, dirtyrate_initial) es (fst demo_on, snd demo_on)"
    using demo_on_reached by auto
  from limiter_follows_policy [OF demo_dl_ok this] show ?thesis using demo_on_active(1) by blast
qed

text \<open>C37: switching the limiter off and on again between two ticks takes the limiter out of the policy's control: the policy still believes it is active, so on the next tick, however fast the dirty pages grow, the limiter stays inactive.\<close>

theorem reenable_leaves_limiter_off:
  assumes "dp_active (sc_policy c)" and "dp_have_prev (sc_policy c)"
    and "smart_io_dirtyrate_get_wkbps d \<noteq> 0" and "0 \<le> smart_io_get_fg_uid c"
    and "dirty_rate_kib_s (pages_to_kb (ms_page_shift m) (ms_dirty m)) (dp_dirty_pages_kb (sc_policy c))
           ((ms_boottime m 0 - dp_prev_ts_ns (sc_policy c)) div nsec_per_msec) = Some rate" and "0 < rate"
  shows "case update_dirtyrate_policy L raw m (c, fst (smart_io_dirtyrate_set_enabled L t2 True
             (fst (smart_io_dirtyrate_set_enabled L t1 False d)))) of ((c', d'), es) \<Rightarrow>
    dr_enabled d' \<and> \<not> dr_active d' \<and> dp_active (sc_policy c')"
proof -
  let ?d = "fst (smart_io_dirtyrate_set_enabled L t2 True (fst (smart_io_dirtyrate_set_enabled L t1 False d)))"
  have d: "dr_enabled ?d" "\<not> dr_active ?d" "smart_io_dirtyrate_get_wkbps ?d = smart_io_dirtyrate_get_wkbps d"
    by (simp_all add: smart_io_dirtyrate_set_enabled_def Let_def smart_io_dirtyrate_get_wkbps_def)
  have z: "(ms_boottime m 0 - dp_prev_ts_ns (sc_policy c)) div nsec_per_msec \<noteq> 0"
    using assms(5) by (auto simp: dirty_rate_kib_s_def div_s64_def)
  have w: "policy_window rate (sc_policy c) = ((sc_policy c)\<lparr>dp_recover_windows := 0\<rparr>, None)"
    using assms(1,6) by (simp add: policy_window_def)
  have c: "(\<not> smart_io_dirtyrate_get_enabled ?d \<or> smart_io_dirtyrate_get_wkbps ?d = 0 \<or> smart_io_get_fg_uid c < 0) = False"
    using d assms(3,4) by (simp add: smart_io_dirtyrate_get_enabled_def)
  show ?thesis
    unfolding update_dirtyrate_policy_def Let_def prod.case c if_False
    using assms(1,2) z d by (simp add: assms(5) w)
qed

lemma reenable_leaves_limiter_off_witness:
  "case update_dirtyrate_policy demo_dl False (demo_sample 4) (fst demo_on,
      fst (smart_io_dirtyrate_set_enabled demo_dl 6 True (fst (smart_io_dirtyrate_set_enabled demo_dl 5 False (snd demo_on)))))
    of ((c', d'), es) \<Rightarrow> dr_enabled d' \<and> \<not> dr_active d' \<and> dp_active (sc_policy c')"
proof (rule reenable_leaves_limiter_off)
  show "dp_active (sc_policy (fst demo_on))" "dp_have_prev (sc_policy (fst demo_on))"
    "smart_io_dirtyrate_get_wkbps (snd demo_on) \<noteq> 0" "0 \<le> smart_io_get_fg_uid (fst demo_on)" by code_simp+
  show "dirty_rate_kib_s (pages_to_kb (ms_page_shift (demo_sample 4)) (ms_dirty (demo_sample 4)))
      (dp_dirty_pages_kb (sc_policy (fst demo_on)))
      ((ms_boottime (demo_sample 4) 0 - dp_prev_ts_ns (sc_policy (fst demo_on))) div nsec_per_msec) = Some 40000"
    by code_simp
qed simp

end
