(* ===== verification/Q_Tree_Data.thy ===== *)
theory Q_Tree_Data
  imports Prelude
begin

text \<open>
  The table of \<open>smart_io_model_tree.h\<close>: the nodes of the decision tree, in the order of the array, as
  consecutive parts.
\<close>

record q_tree_node =
  qn_feature :: int
  qn_threshold :: int
  qn_left :: int
  qn_right :: int
  qn_action_id :: int

definition q_tree_part_0 :: "q_tree_node list" where
  "q_tree_part_0 = [
     q_tree_node.make 0 595 1 740 (- 1),
     q_tree_node.make 2 2901 2 495 (- 1),
     q_tree_node.make 4 2202 3 424 (- 1),
     q_tree_node.make 1 512 4 277 (- 1),
     q_tree_node.make 0 330 5 170 (- 1),
     q_tree_node.make 4 140 6 75 (- 1),
     q_tree_node.make 3 5110 7 28 (- 1),
     q_tree_node.make 7 198 8 25 (- 1),
     q_tree_node.make 5 3686 9 10 (- 1),
     q_tree_node.make (- 1) 0 (- 1) (- 1) 5,
     q_tree_node.make 8 595 11 24 (- 1),
     q_tree_node.make 6 409 12 19 (- 1),
     q_tree_node.make 3 4791 13 16 (- 1),
     q_tree_node.make 4 45 14 15 (- 1),
     q_tree_node.make (- 1) 0 (- 1) (- 1) 7,
     q_tree_node.make (- 1) 0 (- 1) (- 1) 7,
     q_tree_node.make 4 46 17 18 (- 1),
     q_tree_node.make (- 1) 0 (- 1) (- 1) 8,
     q_tree_node.make (- 1) 0 (- 1) (- 1) 7,
     q_tree_node.make 6 1228 20 21 (- 1),
     q_tree_node.make (- 1) 0 (- 1) (- 1) 7,
     q_tree_node.make 4 31 22 23 (- 1),
     q_tree_node.make (- 1) 0 (- 1) (- 1) 7,
     q_tree_node.make (- 1) 0 (- 1) (- 1) 7,
     q_tree_node.make (- 1) 0 (- 1) (- 1) 0,
     q_tree_node.make 7 1123 26 27 (- 1),
     q_tree_node.make (- 1) 0 (- 1) (- 1) 2,
     q_tree_node.make (- 1) 0 (- 1) (- 1) 1,
     q_tree_node.make 6 1228 29 60 (- 1),
     q_tree_node.make 0 66 30 41 (- 1),
     q_tree_node.make 3 8263 31 40 (- 1),
     q_tree_node.make 7 66 32 39 (- 1),
     q_tree_node.make 4 99 33 36 (- 1),
     q_tree_node.make 4 82 34 35 (- 1),
     q_tree_node.make (- 1) 0 (- 1) (- 1) 8,
     q_tree_node.make (- 1) 0 (- 1) (- 1) 8,
     q_tree_node.make 3 5549 37 38 (- 1),
     q_tree_node.make (- 1) 0 (- 1) (- 1) 7,
     q_tree_node.make (- 1) 0 (- 1) (- 1) 8,
     q_tree_node.make (- 1) 0 (- 1) (- 1) 8,
     q_tree_node.make (- 1) 0 (- 1) (- 1) 6,
     q_tree_node.make 2 1024 42 55 (- 1),
     q_tree_node.make 0 198 43 50 (- 1),
     q_tree_node.make 3 6007 44 47 (- 1),
     q_tree_node.make 4 99 45 46 (- 1),
     q_tree_node.make (- 1) 0 (- 1) (- 1) 8,
     q_tree_node.make (- 1) 0 (- 1) (- 1) 11,
     q_tree_node.make 4 84 48 49 (- 1),
     q_tree_node.make (- 1) 0 (- 1) (- 1) 8,
     q_tree_node.make (- 1) 0 (- 1) (- 1) 6,
     q_tree_node.make 3 6361 51 54 (- 1),
     q_tree_node.make 4 76 52 53 (- 1),
     q_tree_node.make (- 1) 0 (- 1) (- 1) 6,
     q_tree_node.make (- 1) 0 (- 1) (- 1) 6,
     q_tree_node.make (- 1) 0 (- 1) (- 1) 6,
     q_tree_node.make 4 90 56 59 (- 1),
     q_tree_node.make 3 6376 57 58 (- 1),
     q_tree_node.make (- 1) 0 (- 1) (- 1) 8,
     q_tree_node.make (- 1) 0 (- 1) (- 1) 0,
     q_tree_node.make (- 1) 0 (- 1) (- 1) 7,
     q_tree_node.make 0 66 61 70 (- 1),
     q_tree_node.make 3 5625 62 65 (- 1),
     q_tree_node.make 6 3686 63 64 (- 1),
     q_tree_node.make (- 1) 0 (- 1) (- 1) 7,
     q_tree_node.make (- 1) 0 (- 1) (- 1) 7,
     q_tree_node.make 3 6698 66 69 (- 1),
     q_tree_node.make 6 3686 67 68 (- 1),
     q_tree_node.make (- 1) 0 (- 1) (- 1) 8,
     q_tree_node.make (- 1) 0 (- 1) (- 1) 0,
     q_tree_node.make (- 1) 0 (- 1) (- 1) 7,
     q_tree_node.make 0 198 71 74 (- 1),
     q_tree_node.make 4 82 72 73 (- 1),
     q_tree_node.make (- 1) 0 (- 1) (- 1) 7,
     q_tree_node.make (- 1) 0 (- 1) (- 1) 7,
     q_tree_node.make (- 1) 0 (- 1) (- 1) 7,
     q_tree_node.make 5 3686 76 107 (- 1),
     q_tree_node.make 6 1228 77 96 (- 1),
     q_tree_node.make 2 1024 78 93 (- 1),
     q_tree_node.make 3 5626 79 90 (- 1),
     q_tree_node.make 4 1336 80 85 (- 1),
     q_tree_node.make 4 595 81 82 (- 1),
     q_tree_node.make (- 1) 0 (- 1) (- 1) 5,
     q_tree_node.make 0 198 83 84 (- 1),
     q_tree_node.make (- 1) 0 (- 1) (- 1) 7,
     q_tree_node.make (- 1) 0 (- 1) (- 1) 5,
     q_tree_node.make 3 4690 86 89 (- 1),
     q_tree_node.make 4 1792 87 88 (- 1),
     q_tree_node.make (- 1) 0 (- 1) (- 1) 7,
     q_tree_node.make (- 1) 0 (- 1) (- 1) 7,
     q_tree_node.make (- 1) 0 (- 1) (- 1) 7,
     q_tree_node.make 4 1285 91 92 (- 1),
     q_tree_node.make (- 1) 0 (- 1) (- 1) 6,
     q_tree_node.make (- 1) 0 (- 1) (- 1) 0,
     q_tree_node.make 5 2048 94 95 (- 1),
     q_tree_node.make (- 1) 0 (- 1) (- 1) 7,
     q_tree_node.make (- 1) 0 (- 1) (- 1) 11,
     q_tree_node.make 4 1472 97 102 (- 1),
     q_tree_node.make 6 2048 98 99 (- 1),
     q_tree_node.make (- 1) 0 (- 1) (- 1) 5,
     q_tree_node.make 3 4292 100 101 (- 1),
     q_tree_node.make (- 1) 0 (- 1) (- 1) 1,
     q_tree_node.make (- 1) 0 (- 1) (- 1) 1,
     q_tree_node.make 6 2048 103 104 (- 1),
     q_tree_node.make (- 1) 0 (- 1) (- 1) 5,
     q_tree_node.make 6 2867 105 106 (- 1),
     q_tree_node.make (- 1) 0 (- 1) (- 1) 2,
     q_tree_node.make (- 1) 0 (- 1) (- 1) 2,
     q_tree_node.make 4 1348 108 141 (- 1),
     q_tree_node.make 7 198 109 138 (- 1),
     q_tree_node.make 0 198 110 123 (- 1),
     q_tree_node.make 6 2867 111 118 (- 1),
     q_tree_node.make 3 5965 112 115 (- 1),
     q_tree_node.make 4 166 113 114 (- 1),
     q_tree_node.make (- 1) 0 (- 1) (- 1) 7,
     q_tree_node.make (- 1) 0 (- 1) (- 1) 7,
     q_tree_node.make 4 287 116 117 (- 1),
     q_tree_node.make (- 1) 0 (- 1) (- 1) 7,
     q_tree_node.make (- 1) 0 (- 1) (- 1) 7,
     q_tree_node.make 4 643 119 122 (- 1),
     q_tree_node.make 3 5749 120 121 (- 1),
     q_tree_node.make (- 1) 0 (- 1) (- 1) 7,
     q_tree_node.make (- 1) 0 (- 1) (- 1) 7,
     q_tree_node.make (- 1) 0 (- 1) (- 1) 11,
     q_tree_node.make 2 1024 124 131 (- 1),
     q_tree_node.make 3 5240 125 128 (- 1),
     q_tree_node.make 4 199 126 127 (- 1),
     q_tree_node.make (- 1) 0 (- 1) (- 1) 7,
     q_tree_node.make (- 1) 0 (- 1) (- 1) 7,
     q_tree_node.make 4 457 129 130 (- 1),
     q_tree_node.make (- 1) 0 (- 1) (- 1) 6,
     q_tree_node.make (- 1) 0 (- 1) (- 1) 7,
     q_tree_node.make 4 284 132 135 (- 1),
     q_tree_node.make 3 6003 133 134 (- 1),
     q_tree_node.make (- 1) 0 (- 1) (- 1) 7,
     q_tree_node.make (- 1) 0 (- 1) (- 1) 0,
     q_tree_node.make 6 409 136 137 (- 1),
     q_tree_node.make (- 1) 0 (- 1) (- 1) 7,
     q_tree_node.make (- 1) 0 (- 1) (- 1) 7,
     q_tree_node.make 7 462 139 140 (- 1),
     q_tree_node.make (- 1) 0 (- 1) (- 1) 11,
     q_tree_node.make (- 1) 0 (- 1) (- 1) 2,
     q_tree_node.make 6 409 142 159 (- 1),
     q_tree_node.make 3 6150 143 152 (- 1),
     q_tree_node.make 4 1880 144 149 (- 1),
     q_tree_node.make 0 198 145 148 (- 1),
     q_tree_node.make 3 5860 146 147 (- 1)]"

definition q_tree_part_1 :: "q_tree_node list" where
  "q_tree_part_1 = [
     q_tree_node.make (- 1) 0 (- 1) (- 1) 7,
     q_tree_node.make (- 1) 0 (- 1) (- 1) 7,
     q_tree_node.make (- 1) 0 (- 1) (- 1) 5,
     q_tree_node.make 3 5233 150 151 (- 1),
     q_tree_node.make (- 1) 0 (- 1) (- 1) 7,
     q_tree_node.make (- 1) 0 (- 1) (- 1) 4,
     q_tree_node.make 3 10615 153 158 (- 1),
     q_tree_node.make 0 198 154 157 (- 1),
     q_tree_node.make 4 1594 155 156 (- 1),
     q_tree_node.make (- 1) 0 (- 1) (- 1) 7,
     q_tree_node.make (- 1) 0 (- 1) (- 1) 0,
     q_tree_node.make (- 1) 0 (- 1) (- 1) 5,
     q_tree_node.make (- 1) 0 (- 1) (- 1) 5,
     q_tree_node.make 6 2867 160 167 (- 1),
     q_tree_node.make 3 5779 161 164 (- 1),
     q_tree_node.make 4 1650 162 163 (- 1),
     q_tree_node.make (- 1) 0 (- 1) (- 1) 7,
     q_tree_node.make (- 1) 0 (- 1) (- 1) 6,
     q_tree_node.make 4 1669 165 166 (- 1),
     q_tree_node.make (- 1) 0 (- 1) (- 1) 0,
     q_tree_node.make (- 1) 0 (- 1) (- 1) 6,
     q_tree_node.make 6 3686 168 169 (- 1),
     q_tree_node.make (- 1) 0 (- 1) (- 1) 6,
     q_tree_node.make (- 1) 0 (- 1) (- 1) 11,
     q_tree_node.make 2 512 171 204 (- 1),
     q_tree_node.make 4 556 172 195 (- 1),
     q_tree_node.make 6 409 173 192 (- 1),
     q_tree_node.make 3 5055 174 181 (- 1),
     q_tree_node.make 4 136 175 178 (- 1),
     q_tree_node.make 3 4627 176 177 (- 1),
     q_tree_node.make (- 1) 0 (- 1) (- 1) 6,
     q_tree_node.make (- 1) 0 (- 1) (- 1) 6,
     q_tree_node.make 0 462 179 180 (- 1),
     q_tree_node.make (- 1) 0 (- 1) (- 1) 7,
     q_tree_node.make (- 1) 0 (- 1) (- 1) 4,
     q_tree_node.make 7 66 182 191 (- 1),
     q_tree_node.make 0 462 183 188 (- 1),
     q_tree_node.make 4 318 184 187 (- 1),
     q_tree_node.make 3 6536 185 186 (- 1),
     q_tree_node.make (- 1) 0 (- 1) (- 1) 6,
     q_tree_node.make (- 1) 0 (- 1) (- 1) 6,
     q_tree_node.make (- 1) 0 (- 1) (- 1) 6,
     q_tree_node.make 4 239 189 190 (- 1),
     q_tree_node.make (- 1) 0 (- 1) (- 1) 6,
     q_tree_node.make (- 1) 0 (- 1) (- 1) 6,
     q_tree_node.make (- 1) 0 (- 1) (- 1) 6,
     q_tree_node.make 3 5327 193 194 (- 1),
     q_tree_node.make (- 1) 0 (- 1) (- 1) 7,
     q_tree_node.make (- 1) 0 (- 1) (- 1) 7,
     q_tree_node.make 3 5753 196 201 (- 1),
     q_tree_node.make 5 3686 197 200 (- 1),
     q_tree_node.make 3 3449 198 199 (- 1),
     q_tree_node.make (- 1) 0 (- 1) (- 1) 0,
     q_tree_node.make (- 1) 0 (- 1) (- 1) 5,
     q_tree_node.make (- 1) 0 (- 1) (- 1) 5,
     q_tree_node.make 4 1031 202 203 (- 1),
     q_tree_node.make (- 1) 0 (- 1) (- 1) 0,
     q_tree_node.make (- 1) 0 (- 1) (- 1) 0,
     q_tree_node.make 3 5162 205 230 (- 1),
     q_tree_node.make 5 3686 206 211 (- 1),
     q_tree_node.make 3 3279 207 208 (- 1),
     q_tree_node.make (- 1) 0 (- 1) (- 1) 7,
     q_tree_node.make 2 1706 209 210 (- 1),
     q_tree_node.make (- 1) 0 (- 1) (- 1) 5,
     q_tree_node.make (- 1) 0 (- 1) (- 1) 11,
     q_tree_node.make 7 198 212 229 (- 1),
     q_tree_node.make 2 1194 213 216 (- 1),
     q_tree_node.make 4 104 214 215 (- 1),
     q_tree_node.make (- 1) 0 (- 1) (- 1) 11,
     q_tree_node.make (- 1) 0 (- 1) (- 1) 1,
     q_tree_node.make 4 146 217 224 (- 1),
     q_tree_node.make 2 2389 218 221 (- 1),
     q_tree_node.make 3 4945 219 220 (- 1),
     q_tree_node.make (- 1) 0 (- 1) (- 1) 7,
     q_tree_node.make (- 1) 0 (- 1) (- 1) 7,
     q_tree_node.make 3 4684 222 223 (- 1),
     q_tree_node.make (- 1) 0 (- 1) (- 1) 7,
     q_tree_node.make (- 1) 0 (- 1) (- 1) 5,
     q_tree_node.make 0 462 225 228 (- 1),
     q_tree_node.make 2 2048 226 227 (- 1),
     q_tree_node.make (- 1) 0 (- 1) (- 1) 7,
     q_tree_node.make (- 1) 0 (- 1) (- 1) 7,
     q_tree_node.make (- 1) 0 (- 1) (- 1) 1,
     q_tree_node.make (- 1) 0 (- 1) (- 1) 1,
     q_tree_node.make 4 76 231 244 (- 1),
     q_tree_node.make 2 1706 232 237 (- 1),
     q_tree_node.make 3 7060 233 236 (- 1),
     q_tree_node.make 2 1194 234 235 (- 1),
     q_tree_node.make (- 1) 0 (- 1) (- 1) 11,
     q_tree_node.make (- 1) 0 (- 1) (- 1) 11,
     q_tree_node.make (- 1) 0 (- 1) (- 1) 6,
     q_tree_node.make 3 6713 238 243 (- 1),
     q_tree_node.make 2 2389 239 240 (- 1),
     q_tree_node.make (- 1) 0 (- 1) (- 1) 0,
     q_tree_node.make 3 5880 241 242 (- 1),
     q_tree_node.make (- 1) 0 (- 1) (- 1) 5,
     q_tree_node.make (- 1) 0 (- 1) (- 1) 5,
     q_tree_node.make (- 1) 0 (- 1) (- 1) 0,
     q_tree_node.make 4 496 245 262 (- 1),
     q_tree_node.make 2 2389 246 255 (- 1),
     q_tree_node.make 6 409 247 252 (- 1),
     q_tree_node.make 3 7523 248 251 (- 1),
     q_tree_node.make 4 138 249 250 (- 1),
     q_tree_node.make (- 1) 0 (- 1) (- 1) 1,
     q_tree_node.make (- 1) 0 (- 1) (- 1) 1,
     q_tree_node.make (- 1) 0 (- 1) (- 1) 6,
     q_tree_node.make 6 1228 253 254 (- 1),
     q_tree_node.make (- 1) 0 (- 1) (- 1) 0,
     q_tree_node.make (- 1) 0 (- 1) (- 1) 7,
     q_tree_node.make 4 276 256 261 (- 1),
     q_tree_node.make 6 409 257 260 (- 1),
     q_tree_node.make 3 5696 258 259 (- 1),
     q_tree_node.make (- 1) 0 (- 1) (- 1) 5,
     q_tree_node.make (- 1) 0 (- 1) (- 1) 5,
     q_tree_node.make (- 1) 0 (- 1) (- 1) 5,
     q_tree_node.make (- 1) 0 (- 1) (- 1) 1,
     q_tree_node.make 4 1362 263 272 (- 1),
     q_tree_node.make 0 462 264 269 (- 1),
     q_tree_node.make 3 7453 265 268 (- 1),
     q_tree_node.make 4 1080 266 267 (- 1),
     q_tree_node.make (- 1) 0 (- 1) (- 1) 7,
     q_tree_node.make (- 1) 0 (- 1) (- 1) 5,
     q_tree_node.make (- 1) 0 (- 1) (- 1) 5,
     q_tree_node.make 4 744 270 271 (- 1),
     q_tree_node.make (- 1) 0 (- 1) (- 1) 5,
     q_tree_node.make (- 1) 0 (- 1) (- 1) 5,
     q_tree_node.make 2 2389 273 276 (- 1),
     q_tree_node.make 4 1651 274 275 (- 1),
     q_tree_node.make (- 1) 0 (- 1) (- 1) 5,
     q_tree_node.make (- 1) 0 (- 1) (- 1) 5,
     q_tree_node.make (- 1) 0 (- 1) (- 1) 11,
     q_tree_node.make 4 329 278 375 (- 1),
     q_tree_node.make 1 2901 279 334 (- 1),
     q_tree_node.make 7 330 280 333 (- 1),
     q_tree_node.make 6 2867 281 314 (- 1),
     q_tree_node.make 6 409 282 297 (- 1),
     q_tree_node.make 1 1706 283 290 (- 1),
     q_tree_node.make 4 98 284 287 (- 1),
     q_tree_node.make 2 1706 285 286 (- 1),
     q_tree_node.make (- 1) 0 (- 1) (- 1) 6,
     q_tree_node.make (- 1) 0 (- 1) (- 1) 7,
     q_tree_node.make 4 171 288 289 (- 1),
     q_tree_node.make (- 1) 0 (- 1) (- 1) 4,
     q_tree_node.make (- 1) 0 (- 1) (- 1) 4,
     q_tree_node.make 3 6882 291 296 (- 1),
     q_tree_node.make 2 1706 292 293 (- 1)]"

definition q_tree_part_2 :: "q_tree_node list" where
  "q_tree_part_2 = [
     q_tree_node.make (- 1) 0 (- 1) (- 1) 4,
     q_tree_node.make 3 5214 294 295 (- 1),
     q_tree_node.make (- 1) 0 (- 1) (- 1) 4,
     q_tree_node.make (- 1) 0 (- 1) (- 1) 7,
     q_tree_node.make (- 1) 0 (- 1) (- 1) 6,
     q_tree_node.make 0 330 298 303 (- 1),
     q_tree_node.make 6 2048 299 302 (- 1),
     q_tree_node.make 2 1024 300 301 (- 1),
     q_tree_node.make (- 1) 0 (- 1) (- 1) 5,
     q_tree_node.make (- 1) 0 (- 1) (- 1) 7,
     q_tree_node.make (- 1) 0 (- 1) (- 1) 7,
     q_tree_node.make 6 2048 304 311 (- 1),
     q_tree_node.make 6 1228 305 308 (- 1),
     q_tree_node.make 1 1706 306 307 (- 1),
     q_tree_node.make (- 1) 0 (- 1) (- 1) 4,
     q_tree_node.make (- 1) 0 (- 1) (- 1) 4,
     q_tree_node.make 2 1194 309 310 (- 1),
     q_tree_node.make (- 1) 0 (- 1) (- 1) 4,
     q_tree_node.make (- 1) 0 (- 1) (- 1) 5,
     q_tree_node.make 1 1706 312 313 (- 1),
     q_tree_node.make (- 1) 0 (- 1) (- 1) 7,
     q_tree_node.make (- 1) 0 (- 1) (- 1) 4,
     q_tree_node.make 2 2389 315 330 (- 1),
     q_tree_node.make 2 1706 316 325 (- 1),
     q_tree_node.make 1 1706 317 320 (- 1),
     q_tree_node.make 3 4886 318 319 (- 1),
     q_tree_node.make (- 1) 0 (- 1) (- 1) 7,
     q_tree_node.make (- 1) 0 (- 1) (- 1) 7,
     q_tree_node.make 6 3686 321 322 (- 1),
     q_tree_node.make (- 1) 0 (- 1) (- 1) 7,
     q_tree_node.make 1 2389 323 324 (- 1),
     q_tree_node.make (- 1) 0 (- 1) (- 1) 7,
     q_tree_node.make (- 1) 0 (- 1) (- 1) 7,
     q_tree_node.make 0 396 326 329 (- 1),
     q_tree_node.make 4 86 327 328 (- 1),
     q_tree_node.make (- 1) 0 (- 1) (- 1) 7,
     q_tree_node.make (- 1) 0 (- 1) (- 1) 7,
     q_tree_node.make (- 1) 0 (- 1) (- 1) 4,
     q_tree_node.make 3 5775 331 332 (- 1),
     q_tree_node.make (- 1) 0 (- 1) (- 1) 6,
     q_tree_node.make (- 1) 0 (- 1) (- 1) 4,
     q_tree_node.make (- 1) 0 (- 1) (- 1) 1,
     q_tree_node.make 7 198 335 372 (- 1),
     q_tree_node.make 2 1706 336 357 (- 1),
     q_tree_node.make 3 4422 337 340 (- 1),
     q_tree_node.make 3 4217 338 339 (- 1),
     q_tree_node.make (- 1) 0 (- 1) (- 1) 7,
     q_tree_node.make (- 1) 0 (- 1) (- 1) 4,
     q_tree_node.make 3 6432 341 352 (- 1),
     q_tree_node.make 0 330 342 347 (- 1),
     q_tree_node.make 8 66 343 346 (- 1),
     q_tree_node.make 6 2048 344 345 (- 1),
     q_tree_node.make (- 1) 0 (- 1) (- 1) 4,
     q_tree_node.make (- 1) 0 (- 1) (- 1) 4,
     q_tree_node.make (- 1) 0 (- 1) (- 1) 4,
     q_tree_node.make 4 68 348 349 (- 1),
     q_tree_node.make (- 1) 0 (- 1) (- 1) 4,
     q_tree_node.make 6 2867 350 351 (- 1),
     q_tree_node.make (- 1) 0 (- 1) (- 1) 4,
     q_tree_node.make (- 1) 0 (- 1) (- 1) 4,
     q_tree_node.make 6 2867 353 356 (- 1),
     q_tree_node.make 3 6946 354 355 (- 1),
     q_tree_node.make (- 1) 0 (- 1) (- 1) 4,
     q_tree_node.make (- 1) 0 (- 1) (- 1) 6,
     q_tree_node.make (- 1) 0 (- 1) (- 1) 4,
     q_tree_node.make 6 2867 358 361 (- 1),
     q_tree_node.make 6 2048 359 360 (- 1),
     q_tree_node.make (- 1) 0 (- 1) (- 1) 4,
     q_tree_node.make (- 1) 0 (- 1) (- 1) 8,
     q_tree_node.make 0 462 362 369 (- 1),
     q_tree_node.make 3 5834 363 368 (- 1),
     q_tree_node.make 4 101 364 367 (- 1),
     q_tree_node.make 2 2389 365 366 (- 1),
     q_tree_node.make (- 1) 0 (- 1) (- 1) 6,
     q_tree_node.make (- 1) 0 (- 1) (- 1) 6,
     q_tree_node.make (- 1) 0 (- 1) (- 1) 6,
     q_tree_node.make (- 1) 0 (- 1) (- 1) 6,
     q_tree_node.make 4 60 370 371 (- 1),
     q_tree_node.make (- 1) 0 (- 1) (- 1) 4,
     q_tree_node.make (- 1) 0 (- 1) (- 1) 4,
     q_tree_node.make 7 462 373 374 (- 1),
     q_tree_node.make (- 1) 0 (- 1) (- 1) 1,
     q_tree_node.make (- 1) 0 (- 1) (- 1) 1,
     q_tree_node.make 3 4339 376 385 (- 1),
     q_tree_node.make 5 2048 377 384 (- 1),
     q_tree_node.make 3 3149 378 381 (- 1),
     q_tree_node.make 4 1057 379 380 (- 1),
     q_tree_node.make (- 1) 0 (- 1) (- 1) 7,
     q_tree_node.make (- 1) 0 (- 1) (- 1) 7,
     q_tree_node.make 1 3584 382 383 (- 1),
     q_tree_node.make (- 1) 0 (- 1) (- 1) 7,
     q_tree_node.make (- 1) 0 (- 1) (- 1) 7,
     q_tree_node.make (- 1) 0 (- 1) (- 1) 7,
     q_tree_node.make 2 512 386 403 (- 1),
     q_tree_node.make 4 1209 387 396 (- 1),
     q_tree_node.make 6 2048 388 393 (- 1),
     q_tree_node.make 3 6408 389 392 (- 1),
     q_tree_node.make 4 805 390 391 (- 1),
     q_tree_node.make (- 1) 0 (- 1) (- 1) 5,
     q_tree_node.make (- 1) 0 (- 1) (- 1) 0,
     q_tree_node.make (- 1) 0 (- 1) (- 1) 0,
     q_tree_node.make 4 563 394 395 (- 1),
     q_tree_node.make (- 1) 0 (- 1) (- 1) 7,
     q_tree_node.make (- 1) 0 (- 1) (- 1) 0,
     q_tree_node.make 1 3584 397 400 (- 1),
     q_tree_node.make 3 5517 398 399 (- 1),
     q_tree_node.make (- 1) 0 (- 1) (- 1) 5,
     q_tree_node.make (- 1) 0 (- 1) (- 1) 1,
     q_tree_node.make 3 5481 401 402 (- 1),
     q_tree_node.make (- 1) 0 (- 1) (- 1) 0,
     q_tree_node.make (- 1) 0 (- 1) (- 1) 5,
     q_tree_node.make 4 1337 404 417 (- 1),
     q_tree_node.make 1 2389 405 412 (- 1),
     q_tree_node.make 0 462 406 411 (- 1),
     q_tree_node.make 3 5543 407 408 (- 1),
     q_tree_node.make (- 1) 0 (- 1) (- 1) 7,
     q_tree_node.make 4 713 409 410 (- 1),
     q_tree_node.make (- 1) 0 (- 1) (- 1) 7,
     q_tree_node.make (- 1) 0 (- 1) (- 1) 7,
     q_tree_node.make (- 1) 0 (- 1) (- 1) 1,
     q_tree_node.make 3 5427 413 414 (- 1),
     q_tree_node.make (- 1) 0 (- 1) (- 1) 7,
     q_tree_node.make 4 724 415 416 (- 1),
     q_tree_node.make (- 1) 0 (- 1) (- 1) 4,
     q_tree_node.make (- 1) 0 (- 1) (- 1) 5,
     q_tree_node.make 6 2048 418 421 (- 1),
     q_tree_node.make 3 5614 419 420 (- 1),
     q_tree_node.make (- 1) 0 (- 1) (- 1) 1,
     q_tree_node.make (- 1) 0 (- 1) (- 1) 1,
     q_tree_node.make 3 5729 422 423 (- 1),
     q_tree_node.make (- 1) 0 (- 1) (- 1) 1,
     q_tree_node.make (- 1) 0 (- 1) (- 1) 5,
     q_tree_node.make 6 1228 425 474 (- 1),
     q_tree_node.make 2 512 426 465 (- 1),
     q_tree_node.make 3 6884 427 458 (- 1),
     q_tree_node.make 3 4534 428 435 (- 1),
     q_tree_node.make 4 2845 429 432 (- 1),
     q_tree_node.make 0 66 430 431 (- 1),
     q_tree_node.make (- 1) 0 (- 1) (- 1) 7,
     q_tree_node.make (- 1) 0 (- 1) (- 1) 4,
     q_tree_node.make 0 66 433 434 (- 1),
     q_tree_node.make (- 1) 0 (- 1) (- 1) 4,
     q_tree_node.make (- 1) 0 (- 1) (- 1) 4,
     q_tree_node.make 5 3686 436 441 (- 1),
     q_tree_node.make 0 66 437 440 (- 1),
     q_tree_node.make 4 2976 438 439 (- 1)]"

definition q_tree_part_3 :: "q_tree_node list" where
  "q_tree_part_3 = [
     q_tree_node.make (- 1) 0 (- 1) (- 1) 4,
     q_tree_node.make (- 1) 0 (- 1) (- 1) 4,
     q_tree_node.make (- 1) 0 (- 1) (- 1) 4,
     q_tree_node.make 4 2615 442 445 (- 1),
     q_tree_node.make 3 5436 443 444 (- 1),
     q_tree_node.make (- 1) 0 (- 1) (- 1) 4,
     q_tree_node.make (- 1) 0 (- 1) (- 1) 4,
     q_tree_node.make 0 66 446 453 (- 1),
     q_tree_node.make 4 2822 447 448 (- 1),
     q_tree_node.make (- 1) 0 (- 1) (- 1) 4,
     q_tree_node.make 3 5876 449 452 (- 1),
     q_tree_node.make 3 5397 450 451 (- 1),
     q_tree_node.make (- 1) 0 (- 1) (- 1) 4,
     q_tree_node.make (- 1) 0 (- 1) (- 1) 4,
     q_tree_node.make (- 1) 0 (- 1) (- 1) 4,
     q_tree_node.make 3 5924 454 457 (- 1),
     q_tree_node.make 3 5424 455 456 (- 1),
     q_tree_node.make (- 1) 0 (- 1) (- 1) 4,
     q_tree_node.make (- 1) 0 (- 1) (- 1) 4,
     q_tree_node.make (- 1) 0 (- 1) (- 1) 4,
     q_tree_node.make 4 2973 459 462 (- 1),
     q_tree_node.make 3 8907 460 461 (- 1),
     q_tree_node.make (- 1) 0 (- 1) (- 1) 0,
     q_tree_node.make (- 1) 0 (- 1) (- 1) 0,
     q_tree_node.make 3 8616 463 464 (- 1),
     q_tree_node.make (- 1) 0 (- 1) (- 1) 4,
     q_tree_node.make (- 1) 0 (- 1) (- 1) 4,
     q_tree_node.make 5 3686 466 469 (- 1),
     q_tree_node.make 3 4859 467 468 (- 1),
     q_tree_node.make (- 1) 0 (- 1) (- 1) 11,
     q_tree_node.make (- 1) 0 (- 1) (- 1) 10,
     q_tree_node.make 3 6771 470 473 (- 1),
     q_tree_node.make 4 2879 471 472 (- 1),
     q_tree_node.make (- 1) 0 (- 1) (- 1) 11,
     q_tree_node.make (- 1) 0 (- 1) (- 1) 11,
     q_tree_node.make (- 1) 0 (- 1) (- 1) 2,
     q_tree_node.make 1 2389 475 490 (- 1),
     q_tree_node.make 5 3686 476 483 (- 1),
     q_tree_node.make 0 198 477 482 (- 1),
     q_tree_node.make 3 4858 478 481 (- 1),
     q_tree_node.make 3 3952 479 480 (- 1),
     q_tree_node.make (- 1) 0 (- 1) (- 1) 7,
     q_tree_node.make (- 1) 0 (- 1) (- 1) 3,
     q_tree_node.make (- 1) 0 (- 1) (- 1) 2,
     q_tree_node.make (- 1) 0 (- 1) (- 1) 11,
     q_tree_node.make 6 2048 484 485 (- 1),
     q_tree_node.make (- 1) 0 (- 1) (- 1) 4,
     q_tree_node.make 3 6145 486 489 (- 1),
     q_tree_node.make 6 2867 487 488 (- 1),
     q_tree_node.make (- 1) 0 (- 1) (- 1) 1,
     q_tree_node.make (- 1) 0 (- 1) (- 1) 1,
     q_tree_node.make (- 1) 0 (- 1) (- 1) 1,
     q_tree_node.make 5 2867 491 492 (- 1),
     q_tree_node.make (- 1) 0 (- 1) (- 1) 8,
     q_tree_node.make 3 5469 493 494 (- 1),
     q_tree_node.make (- 1) 0 (- 1) (- 1) 5,
     q_tree_node.make (- 1) 0 (- 1) (- 1) 5,
     q_tree_node.make 1 1706 496 659 (- 1),
     q_tree_node.make 4 393 497 572 (- 1),
     q_tree_node.make 6 1228 498 551 (- 1),
     q_tree_node.make 7 462 499 540 (- 1),
     q_tree_node.make 3 9213 500 535 (- 1),
     q_tree_node.make 1 512 501 532 (- 1),
     q_tree_node.make 4 268 502 523 (- 1),
     q_tree_node.make 2 3584 503 510 (- 1),
     q_tree_node.make 3 4918 504 505 (- 1),
     q_tree_node.make (- 1) 0 (- 1) (- 1) 5,
     q_tree_node.make 3 6822 506 509 (- 1),
     q_tree_node.make 3 5990 507 508 (- 1),
     q_tree_node.make (- 1) 0 (- 1) (- 1) 5,
     q_tree_node.make (- 1) 0 (- 1) (- 1) 5,
     q_tree_node.make (- 1) 0 (- 1) (- 1) 5,
     q_tree_node.make 3 4679 511 516 (- 1),
     q_tree_node.make 4 109 512 515 (- 1),
     q_tree_node.make 7 66 513 514 (- 1),
     q_tree_node.make (- 1) 0 (- 1) (- 1) 5,
     q_tree_node.make (- 1) 0 (- 1) (- 1) 5,
     q_tree_node.make (- 1) 0 (- 1) (- 1) 5,
     q_tree_node.make 7 66 517 520 (- 1),
     q_tree_node.make 6 409 518 519 (- 1),
     q_tree_node.make (- 1) 0 (- 1) (- 1) 5,
     q_tree_node.make (- 1) 0 (- 1) (- 1) 5,
     q_tree_node.make 0 330 521 522 (- 1),
     q_tree_node.make (- 1) 0 (- 1) (- 1) 5,
     q_tree_node.make (- 1) 0 (- 1) (- 1) 5,
     q_tree_node.make 0 198 524 527 (- 1),
     q_tree_node.make 4 314 525 526 (- 1),
     q_tree_node.make (- 1) 0 (- 1) (- 1) 5,
     q_tree_node.make (- 1) 0 (- 1) (- 1) 7,
     q_tree_node.make 3 5520 528 529 (- 1),
     q_tree_node.make (- 1) 0 (- 1) (- 1) 5,
     q_tree_node.make 3 6530 530 531 (- 1),
     q_tree_node.make (- 1) 0 (- 1) (- 1) 5,
     q_tree_node.make (- 1) 0 (- 1) (- 1) 5,
     q_tree_node.make 2 3584 533 534 (- 1),
     q_tree_node.make (- 1) 0 (- 1) (- 1) 5,
     q_tree_node.make (- 1) 0 (- 1) (- 1) 5,
     q_tree_node.make 3 17939 536 539 (- 1),
     q_tree_node.make 0 330 537 538 (- 1),
     q_tree_node.make (- 1) 0 (- 1) (- 1) 5,
     q_tree_node.make (- 1) 0 (- 1) (- 1) 5,
     q_tree_node.make (- 1) 0 (- 1) (- 1) 2,
     q_tree_node.make 3 6963 541 550 (- 1),
     q_tree_node.make 7 859 542 543 (- 1),
     q_tree_node.make (- 1) 0 (- 1) (- 1) 0,
     q_tree_node.make 7 3105 544 549 (- 1),
     q_tree_node.make 4 73 545 548 (- 1),
     q_tree_node.make 4 35 546 547 (- 1),
     q_tree_node.make (- 1) 0 (- 1) (- 1) 0,
     q_tree_node.make (- 1) 0 (- 1) (- 1) 0,
     q_tree_node.make (- 1) 0 (- 1) (- 1) 0,
     q_tree_node.make (- 1) 0 (- 1) (- 1) 0,
     q_tree_node.make (- 1) 0 (- 1) (- 1) 1,
     q_tree_node.make 7 66 552 571 (- 1),
     q_tree_node.make 1 512 553 568 (- 1),
     q_tree_node.make 3 7053 554 567 (- 1),
     q_tree_node.make 6 2048 555 558 (- 1),
     q_tree_node.make 3 5523 556 557 (- 1),
     q_tree_node.make (- 1) 0 (- 1) (- 1) 6,
     q_tree_node.make (- 1) 0 (- 1) (- 1) 6,
     q_tree_node.make 3 5241 559 562 (- 1),
     q_tree_node.make 4 129 560 561 (- 1),
     q_tree_node.make (- 1) 0 (- 1) (- 1) 6,
     q_tree_node.make (- 1) 0 (- 1) (- 1) 6,
     q_tree_node.make 3 5929 563 566 (- 1),
     q_tree_node.make 4 155 564 565 (- 1),
     q_tree_node.make (- 1) 0 (- 1) (- 1) 6,
     q_tree_node.make (- 1) 0 (- 1) (- 1) 6,
     q_tree_node.make (- 1) 0 (- 1) (- 1) 6,
     q_tree_node.make (- 1) 0 (- 1) (- 1) 6,
     q_tree_node.make 1 1194 569 570 (- 1),
     q_tree_node.make (- 1) 0 (- 1) (- 1) 6,
     q_tree_node.make (- 1) 0 (- 1) (- 1) 6,
     q_tree_node.make (- 1) 0 (- 1) (- 1) 6,
     q_tree_node.make 4 1960 573 638 (- 1),
     q_tree_node.make 3 7286 574 623 (- 1),
     q_tree_node.make 5 3686 575 588 (- 1),
     q_tree_node.make 5 2867 576 585 (- 1),
     q_tree_node.make 4 983 577 578 (- 1),
     q_tree_node.make (- 1) 0 (- 1) (- 1) 10,
     q_tree_node.make 4 1392 579 582 (- 1),
     q_tree_node.make 3 3876 580 581 (- 1),
     q_tree_node.make (- 1) 0 (- 1) (- 1) 10,
     q_tree_node.make (- 1) 0 (- 1) (- 1) 10,
     q_tree_node.make 3 4002 583 584 (- 1),
     q_tree_node.make (- 1) 0 (- 1) (- 1) 10]"

definition q_tree_part_4 :: "q_tree_node list" where
  "q_tree_part_4 = [
     q_tree_node.make (- 1) 0 (- 1) (- 1) 10,
     q_tree_node.make 3 5303 586 587 (- 1),
     q_tree_node.make (- 1) 0 (- 1) (- 1) 0,
     q_tree_node.make (- 1) 0 (- 1) (- 1) 0,
     q_tree_node.make 4 1392 589 612 (- 1),
     q_tree_node.make 6 409 590 607 (- 1),
     q_tree_node.make 0 198 591 598 (- 1),
     q_tree_node.make 3 6298 592 597 (- 1),
     q_tree_node.make 3 5779 593 596 (- 1),
     q_tree_node.make 3 5178 594 595 (- 1),
     q_tree_node.make (- 1) 0 (- 1) (- 1) 7,
     q_tree_node.make (- 1) 0 (- 1) (- 1) 7,
     q_tree_node.make (- 1) 0 (- 1) (- 1) 7,
     q_tree_node.make (- 1) 0 (- 1) (- 1) 7,
     q_tree_node.make 4 815 599 602 (- 1),
     q_tree_node.make 0 462 600 601 (- 1),
     q_tree_node.make (- 1) 0 (- 1) (- 1) 7,
     q_tree_node.make (- 1) 0 (- 1) (- 1) 7,
     q_tree_node.make 4 1219 603 606 (- 1),
     q_tree_node.make 3 5594 604 605 (- 1),
     q_tree_node.make (- 1) 0 (- 1) (- 1) 7,
     q_tree_node.make (- 1) 0 (- 1) (- 1) 10,
     q_tree_node.make (- 1) 0 (- 1) (- 1) 10,
     q_tree_node.make 4 718 608 609 (- 1),
     q_tree_node.make (- 1) 0 (- 1) (- 1) 6,
     q_tree_node.make 3 5605 610 611 (- 1),
     q_tree_node.make (- 1) 0 (- 1) (- 1) 10,
     q_tree_node.make (- 1) 0 (- 1) (- 1) 10,
     q_tree_node.make 0 462 613 622 (- 1),
     q_tree_node.make 4 1532 614 617 (- 1),
     q_tree_node.make 0 198 615 616 (- 1),
     q_tree_node.make (- 1) 0 (- 1) (- 1) 10,
     q_tree_node.make (- 1) 0 (- 1) (- 1) 10,
     q_tree_node.make 3 6428 618 621 (- 1),
     q_tree_node.make 4 1674 619 620 (- 1),
     q_tree_node.make (- 1) 0 (- 1) (- 1) 10,
     q_tree_node.make (- 1) 0 (- 1) (- 1) 10,
     q_tree_node.make (- 1) 0 (- 1) (- 1) 10,
     q_tree_node.make (- 1) 0 (- 1) (- 1) 10,
     q_tree_node.make 3 9580 624 631 (- 1),
     q_tree_node.make 4 1260 625 630 (- 1),
     q_tree_node.make 4 625 626 627 (- 1),
     q_tree_node.make (- 1) 0 (- 1) (- 1) 7,
     q_tree_node.make 3 8114 628 629 (- 1),
     q_tree_node.make (- 1) 0 (- 1) (- 1) 0,
     q_tree_node.make (- 1) 0 (- 1) (- 1) 0,
     q_tree_node.make (- 1) 0 (- 1) (- 1) 5,
     q_tree_node.make 3 21866 632 637 (- 1),
     q_tree_node.make 4 853 633 634 (- 1),
     q_tree_node.make (- 1) 0 (- 1) (- 1) 5,
     q_tree_node.make 3 11370 635 636 (- 1),
     q_tree_node.make (- 1) 0 (- 1) (- 1) 5,
     q_tree_node.make (- 1) 0 (- 1) (- 1) 5,
     q_tree_node.make (- 1) 0 (- 1) (- 1) 2,
     q_tree_node.make 5 3686 639 644 (- 1),
     q_tree_node.make 4 2826 640 643 (- 1),
     q_tree_node.make 5 2867 641 642 (- 1),
     q_tree_node.make (- 1) 0 (- 1) (- 1) 10,
     q_tree_node.make (- 1) 0 (- 1) (- 1) 0,
     q_tree_node.make (- 1) 0 (- 1) (- 1) 9,
     q_tree_node.make 3 6617 645 652 (- 1),
     q_tree_node.make 4 2311 646 647 (- 1),
     q_tree_node.make (- 1) 0 (- 1) (- 1) 6,
     q_tree_node.make 3 5843 648 651 (- 1),
     q_tree_node.make 3 5415 649 650 (- 1),
     q_tree_node.make (- 1) 0 (- 1) (- 1) 6,
     q_tree_node.make (- 1) 0 (- 1) (- 1) 6,
     q_tree_node.make (- 1) 0 (- 1) (- 1) 11,
     q_tree_node.make 4 3240 653 658 (- 1),
     q_tree_node.make 4 2348 654 655 (- 1),
     q_tree_node.make (- 1) 0 (- 1) (- 1) 11,
     q_tree_node.make 3 8179 656 657 (- 1),
     q_tree_node.make (- 1) 0 (- 1) (- 1) 11,
     q_tree_node.make (- 1) 0 (- 1) (- 1) 11,
     q_tree_node.make (- 1) 0 (- 1) (- 1) 11,
     q_tree_node.make 4 714 660 721 (- 1),
     q_tree_node.make 2 3584 661 668 (- 1),
     q_tree_node.make 3 6197 662 667 (- 1),
     q_tree_node.make 6 3686 663 664 (- 1),
     q_tree_node.make (- 1) 0 (- 1) (- 1) 4,
     q_tree_node.make 3 4798 665 666 (- 1),
     q_tree_node.make (- 1) 0 (- 1) (- 1) 4,
     q_tree_node.make (- 1) 0 (- 1) (- 1) 4,
     q_tree_node.make (- 1) 0 (- 1) (- 1) 4,
     q_tree_node.make 8 198 669 716 (- 1),
     q_tree_node.make 6 3686 670 691 (- 1),
     q_tree_node.make 6 2048 671 678 (- 1),
     q_tree_node.make 3 5845 672 675 (- 1),
     q_tree_node.make 1 2389 673 674 (- 1),
     q_tree_node.make (- 1) 0 (- 1) (- 1) 8,
     q_tree_node.make (- 1) 0 (- 1) (- 1) 4,
     q_tree_node.make 1 2901 676 677 (- 1),
     q_tree_node.make (- 1) 0 (- 1) (- 1) 7,
     q_tree_node.make (- 1) 0 (- 1) (- 1) 4,
     q_tree_node.make 1 3584 679 682 (- 1),
     q_tree_node.make 4 126 680 681 (- 1),
     q_tree_node.make (- 1) 0 (- 1) (- 1) 11,
     q_tree_node.make (- 1) 0 (- 1) (- 1) 6,
     q_tree_node.make 4 211 683 690 (- 1),
     q_tree_node.make 0 330 684 689 (- 1),
     q_tree_node.make 3 5464 685 688 (- 1),
     q_tree_node.make 4 100 686 687 (- 1),
     q_tree_node.make (- 1) 0 (- 1) (- 1) 8,
     q_tree_node.make (- 1) 0 (- 1) (- 1) 8,
     q_tree_node.make (- 1) 0 (- 1) (- 1) 8,
     q_tree_node.make (- 1) 0 (- 1) (- 1) 1,
     q_tree_node.make (- 1) 0 (- 1) (- 1) 4,
     q_tree_node.make 3 4905 692 701 (- 1),
     q_tree_node.make 0 198 693 696 (- 1),
     q_tree_node.make 3 4542 694 695 (- 1),
     q_tree_node.make (- 1) 0 (- 1) (- 1) 8,
     q_tree_node.make (- 1) 0 (- 1) (- 1) 8,
     q_tree_node.make 0 330 697 698 (- 1),
     q_tree_node.make (- 1) 0 (- 1) (- 1) 6,
     q_tree_node.make 3 4553 699 700 (- 1),
     q_tree_node.make (- 1) 0 (- 1) (- 1) 6,
     q_tree_node.make (- 1) 0 (- 1) (- 1) 6,
     q_tree_node.make 1 2901 702 703 (- 1),
     q_tree_node.make (- 1) 0 (- 1) (- 1) 6,
     q_tree_node.make 0 330 704 711 (- 1),
     q_tree_node.make 4 162 705 710 (- 1),
     q_tree_node.make 4 31 706 707 (- 1),
     q_tree_node.make (- 1) 0 (- 1) (- 1) 11,
     q_tree_node.make 3 6682 708 709 (- 1),
     q_tree_node.make (- 1) 0 (- 1) (- 1) 11,
     q_tree_node.make (- 1) 0 (- 1) (- 1) 11,
     q_tree_node.make (- 1) 0 (- 1) (- 1) 11,
     q_tree_node.make 3 6335 712 715 (- 1),
     q_tree_node.make 4 59 713 714 (- 1),
     q_tree_node.make (- 1) 0 (- 1) (- 1) 6,
     q_tree_node.make (- 1) 0 (- 1) (- 1) 11,
     q_tree_node.make (- 1) 0 (- 1) (- 1) 11,
     q_tree_node.make 3 5465 717 720 (- 1),
     q_tree_node.make 8 1387 718 719 (- 1),
     q_tree_node.make (- 1) 0 (- 1) (- 1) 4,
     q_tree_node.make (- 1) 0 (- 1) (- 1) 4,
     q_tree_node.make (- 1) 0 (- 1) (- 1) 4,
     q_tree_node.make 4 1560 722 731 (- 1),
     q_tree_node.make 1 3584 723 726 (- 1),
     q_tree_node.make 3 5598 724 725 (- 1),
     q_tree_node.make (- 1) 0 (- 1) (- 1) 10,
     q_tree_node.make (- 1) 0 (- 1) (- 1) 1,
     q_tree_node.make 3 5222 727 728 (- 1),
     q_tree_node.make (- 1) 0 (- 1) (- 1) 7,
     q_tree_node.make 4 1144 729 730 (- 1),
     q_tree_node.make (- 1) 0 (- 1) (- 1) 11]"

definition q_tree_part_5 :: "q_tree_node list" where
  "q_tree_part_5 = [
     q_tree_node.make (- 1) 0 (- 1) (- 1) 11,
     q_tree_node.make 6 2048 732 735 (- 1),
     q_tree_node.make 3 5647 733 734 (- 1),
     q_tree_node.make (- 1) 0 (- 1) (- 1) 11,
     q_tree_node.make (- 1) 0 (- 1) (- 1) 1,
     q_tree_node.make 4 2214 736 737 (- 1),
     q_tree_node.make (- 1) 0 (- 1) (- 1) 11,
     q_tree_node.make 6 3686 738 739 (- 1),
     q_tree_node.make (- 1) 0 (- 1) (- 1) 1,
     q_tree_node.make (- 1) 0 (- 1) (- 1) 1,
     q_tree_node.make 1 784 741 1374 (- 1),
     q_tree_node.make 0 1519 742 1045 (- 1),
     q_tree_node.make 7 198 743 974 (- 1),
     q_tree_node.make 2 1955 744 859 (- 1),
     q_tree_node.make 0 991 745 804 (- 1),
     q_tree_node.make 4 410 746 785 (- 1),
     q_tree_node.make 6 1228 747 782 (- 1),
     q_tree_node.make 2 994 748 765 (- 1),
     q_tree_node.make 4 87 749 756 (- 1),
     q_tree_node.make 3 5256 750 753 (- 1),
     q_tree_node.make 2 292 751 752 (- 1),
     q_tree_node.make (- 1) 0 (- 1) (- 1) 6,
     q_tree_node.make (- 1) 0 (- 1) (- 1) 1,
     q_tree_node.make 3 6217 754 755 (- 1),
     q_tree_node.make (- 1) 0 (- 1) (- 1) 6,
     q_tree_node.make (- 1) 0 (- 1) (- 1) 6,
     q_tree_node.make 5 3686 757 758 (- 1),
     q_tree_node.make (- 1) 0 (- 1) (- 1) 2,
     q_tree_node.make 3 6361 759 762 (- 1),
     q_tree_node.make 7 66 760 761 (- 1),
     q_tree_node.make (- 1) 0 (- 1) (- 1) 1,
     q_tree_node.make (- 1) 0 (- 1) (- 1) 1,
     q_tree_node.make 2 634 763 764 (- 1),
     q_tree_node.make (- 1) 0 (- 1) (- 1) 2,
     q_tree_node.make (- 1) 0 (- 1) (- 1) 1,
     q_tree_node.make 4 182 766 773 (- 1),
     q_tree_node.make 3 6527 767 772 (- 1),
     q_tree_node.make 3 4716 768 769 (- 1),
     q_tree_node.make (- 1) 0 (- 1) (- 1) 1,
     q_tree_node.make 4 30 770 771 (- 1),
     q_tree_node.make (- 1) 0 (- 1) (- 1) 1,
     q_tree_node.make (- 1) 0 (- 1) (- 1) 1,
     q_tree_node.make (- 1) 0 (- 1) (- 1) 1,
     q_tree_node.make 0 859 774 779 (- 1),
     q_tree_node.make 3 6385 775 778 (- 1),
     q_tree_node.make 3 5181 776 777 (- 1),
     q_tree_node.make (- 1) 0 (- 1) (- 1) 1,
     q_tree_node.make (- 1) 0 (- 1) (- 1) 1,
     q_tree_node.make (- 1) 0 (- 1) (- 1) 5,
     q_tree_node.make 2 1462 780 781 (- 1),
     q_tree_node.make (- 1) 0 (- 1) (- 1) 5,
     q_tree_node.make (- 1) 0 (- 1) (- 1) 5,
     q_tree_node.make 6 2867 783 784 (- 1),
     q_tree_node.make (- 1) 0 (- 1) (- 1) 5,
     q_tree_node.make (- 1) 0 (- 1) (- 1) 7,
     q_tree_node.make 10 1024 786 803 (- 1),
     q_tree_node.make 4 1498 787 800 (- 1),
     q_tree_node.make 4 832 788 793 (- 1),
     q_tree_node.make 2 634 789 790 (- 1),
     q_tree_node.make (- 1) 0 (- 1) (- 1) 2,
     q_tree_node.make 0 727 791 792 (- 1),
     q_tree_node.make (- 1) 0 (- 1) (- 1) 5,
     q_tree_node.make (- 1) 0 (- 1) (- 1) 2,
     q_tree_node.make 2 292 794 795 (- 1),
     q_tree_node.make (- 1) 0 (- 1) (- 1) 5,
     q_tree_node.make 3 5725 796 799 (- 1),
     q_tree_node.make 2 994 797 798 (- 1),
     q_tree_node.make (- 1) 0 (- 1) (- 1) 5,
     q_tree_node.make (- 1) 0 (- 1) (- 1) 5,
     q_tree_node.make (- 1) 0 (- 1) (- 1) 5,
     q_tree_node.make 5 3686 801 802 (- 1),
     q_tree_node.make (- 1) 0 (- 1) (- 1) 5,
     q_tree_node.make (- 1) 0 (- 1) (- 1) 5,
     q_tree_node.make (- 1) 0 (- 1) (- 1) 3,
     q_tree_node.make 2 432 805 820 (- 1),
     q_tree_node.make 4 126 806 809 (- 1),
     q_tree_node.make 3 4796 807 808 (- 1),
     q_tree_node.make (- 1) 0 (- 1) (- 1) 2,
     q_tree_node.make (- 1) 0 (- 1) (- 1) 2,
     q_tree_node.make 5 3686 810 811 (- 1),
     q_tree_node.make (- 1) 0 (- 1) (- 1) 2,
     q_tree_node.make 4 338 812 819 (- 1),
     q_tree_node.make 3 5157 813 818 (- 1),
     q_tree_node.make 4 184 814 815 (- 1),
     q_tree_node.make (- 1) 0 (- 1) (- 1) 11,
     q_tree_node.make 0 1255 816 817 (- 1),
     q_tree_node.make (- 1) 0 (- 1) (- 1) 11,
     q_tree_node.make (- 1) 0 (- 1) (- 1) 11,
     q_tree_node.make (- 1) 0 (- 1) (- 1) 11,
     q_tree_node.make (- 1) 0 (- 1) (- 1) 2,
     q_tree_node.make 3 5727 821 846 (- 1),
     q_tree_node.make 4 175 822 833 (- 1),
     q_tree_node.make 2 1297 823 828 (- 1),
     q_tree_node.make 3 5084 824 827 (- 1),
     q_tree_node.make 2 864 825 826 (- 1),
     q_tree_node.make (- 1) 0 (- 1) (- 1) 1,
     q_tree_node.make (- 1) 0 (- 1) (- 1) 1,
     q_tree_node.make (- 1) 0 (- 1) (- 1) 2,
     q_tree_node.make 4 84 829 832 (- 1),
     q_tree_node.make 3 4803 830 831 (- 1),
     q_tree_node.make (- 1) 0 (- 1) (- 1) 1,
     q_tree_node.make (- 1) 0 (- 1) (- 1) 1,
     q_tree_node.make (- 1) 0 (- 1) (- 1) 1,
     q_tree_node.make 4 324 834 841 (- 1),
     q_tree_node.make 2 1297 835 840 (- 1),
     q_tree_node.make 0 1387 836 839 (- 1),
     q_tree_node.make 3 4934 837 838 (- 1),
     q_tree_node.make (- 1) 0 (- 1) (- 1) 1,
     q_tree_node.make (- 1) 0 (- 1) (- 1) 1,
     q_tree_node.make (- 1) 0 (- 1) (- 1) 11,
     q_tree_node.make (- 1) 0 (- 1) (- 1) 2,
     q_tree_node.make 4 971 842 845 (- 1),
     q_tree_node.make 3 4819 843 844 (- 1),
     q_tree_node.make (- 1) 0 (- 1) (- 1) 2,
     q_tree_node.make (- 1) 0 (- 1) (- 1) 2,
     q_tree_node.make (- 1) 0 (- 1) (- 1) 5,
     q_tree_node.make 6 409 847 858 (- 1),
     q_tree_node.make 4 654 848 857 (- 1),
     q_tree_node.make 7 66 849 856 (- 1),
     q_tree_node.make 2 1427 850 853 (- 1),
     q_tree_node.make 0 1255 851 852 (- 1),
     q_tree_node.make (- 1) 0 (- 1) (- 1) 2,
     q_tree_node.make (- 1) 0 (- 1) (- 1) 2,
     q_tree_node.make 4 171 854 855 (- 1),
     q_tree_node.make (- 1) 0 (- 1) (- 1) 1,
     q_tree_node.make (- 1) 0 (- 1) (- 1) 2,
     q_tree_node.make (- 1) 0 (- 1) (- 1) 2,
     q_tree_node.make (- 1) 0 (- 1) (- 1) 2,
     q_tree_node.make (- 1) 0 (- 1) (- 1) 5,
     q_tree_node.make 4 423 860 935 (- 1),
     q_tree_node.make 2 3705 861 910 (- 1),
     q_tree_node.make 4 144 862 889 (- 1),
     q_tree_node.make 2 3231 863 876 (- 1),
     q_tree_node.make 0 727 864 867 (- 1),
     q_tree_node.make 3 5973 865 866 (- 1),
     q_tree_node.make (- 1) 0 (- 1) (- 1) 5,
     q_tree_node.make (- 1) 0 (- 1) (- 1) 1,
     q_tree_node.make 3 7265 868 873 (- 1),
     q_tree_node.make 6 409 869 872 (- 1),
     q_tree_node.make 1 186 870 871 (- 1),
     q_tree_node.make (- 1) 0 (- 1) (- 1) 1,
     q_tree_node.make (- 1) 0 (- 1) (- 1) 1,
     q_tree_node.make (- 1) 0 (- 1) (- 1) 5,
     q_tree_node.make 3 8438 874 875 (- 1),
     q_tree_node.make (- 1) 0 (- 1) (- 1) 1,
     q_tree_node.make (- 1) 0 (- 1) (- 1) 1]"

definition q_tree_part_6 :: "q_tree_node list" where
  "q_tree_part_6 = [
     q_tree_node.make 1 186 877 886 (- 1),
     q_tree_node.make 3 7423 878 885 (- 1),
     q_tree_node.make 0 1255 879 882 (- 1),
     q_tree_node.make 3 4662 880 881 (- 1),
     q_tree_node.make (- 1) 0 (- 1) (- 1) 5,
     q_tree_node.make (- 1) 0 (- 1) (- 1) 5,
     q_tree_node.make 3 5155 883 884 (- 1),
     q_tree_node.make (- 1) 0 (- 1) (- 1) 1,
     q_tree_node.make (- 1) 0 (- 1) (- 1) 5,
     q_tree_node.make (- 1) 0 (- 1) (- 1) 1,
     q_tree_node.make 3 5431 887 888 (- 1),
     q_tree_node.make (- 1) 0 (- 1) (- 1) 1,
     q_tree_node.make (- 1) 0 (- 1) (- 1) 1,
     q_tree_node.make 0 1123 890 901 (- 1),
     q_tree_node.make 3 8002 891 898 (- 1),
     q_tree_node.make 6 1228 892 897 (- 1),
     q_tree_node.make 1 256 893 896 (- 1),
     q_tree_node.make 7 66 894 895 (- 1),
     q_tree_node.make (- 1) 0 (- 1) (- 1) 5,
     q_tree_node.make (- 1) 0 (- 1) (- 1) 5,
     q_tree_node.make (- 1) 0 (- 1) (- 1) 1,
     q_tree_node.make (- 1) 0 (- 1) (- 1) 5,
     q_tree_node.make 3 13436 899 900 (- 1),
     q_tree_node.make (- 1) 0 (- 1) (- 1) 5,
     q_tree_node.make (- 1) 0 (- 1) (- 1) 5,
     q_tree_node.make 3 6318 902 905 (- 1),
     q_tree_node.make 2 2799 903 904 (- 1),
     q_tree_node.make (- 1) 0 (- 1) (- 1) 5,
     q_tree_node.make (- 1) 0 (- 1) (- 1) 5,
     q_tree_node.make 4 291 906 909 (- 1),
     q_tree_node.make 3 7224 907 908 (- 1),
     q_tree_node.make (- 1) 0 (- 1) (- 1) 5,
     q_tree_node.make (- 1) 0 (- 1) (- 1) 9,
     q_tree_node.make (- 1) 0 (- 1) (- 1) 11,
     q_tree_node.make 6 1228 911 934 (- 1),
     q_tree_node.make 0 1123 912 923 (- 1),
     q_tree_node.make 3 9630 913 922 (- 1),
     q_tree_node.make 4 156 914 919 (- 1),
     q_tree_node.make 3 4515 915 916 (- 1),
     q_tree_node.make (- 1) 0 (- 1) (- 1) 5,
     q_tree_node.make 7 66 917 918 (- 1),
     q_tree_node.make (- 1) 0 (- 1) (- 1) 5,
     q_tree_node.make (- 1) 0 (- 1) (- 1) 5,
     q_tree_node.make 3 5898 920 921 (- 1),
     q_tree_node.make (- 1) 0 (- 1) (- 1) 5,
     q_tree_node.make (- 1) 0 (- 1) (- 1) 5,
     q_tree_node.make (- 1) 0 (- 1) (- 1) 5,
     q_tree_node.make 3 4998 924 925 (- 1),
     q_tree_node.make (- 1) 0 (- 1) (- 1) 0,
     q_tree_node.make 3 6935 926 931 (- 1),
     q_tree_node.make 3 6142 927 930 (- 1),
     q_tree_node.make 3 5569 928 929 (- 1),
     q_tree_node.make (- 1) 0 (- 1) (- 1) 5,
     q_tree_node.make (- 1) 0 (- 1) (- 1) 5,
     q_tree_node.make (- 1) 0 (- 1) (- 1) 5,
     q_tree_node.make 3 8587 932 933 (- 1),
     q_tree_node.make (- 1) 0 (- 1) (- 1) 7,
     q_tree_node.make (- 1) 0 (- 1) (- 1) 5,
     q_tree_node.make (- 1) 0 (- 1) (- 1) 6,
     q_tree_node.make 4 1034 936 955 (- 1),
     q_tree_node.make 5 3686 937 938 (- 1),
     q_tree_node.make (- 1) 0 (- 1) (- 1) 2,
     q_tree_node.make 3 11295 939 952 (- 1),
     q_tree_node.make 2 3910 940 951 (- 1),
     q_tree_node.make 2 2896 941 946 (- 1),
     q_tree_node.make 0 1123 942 945 (- 1),
     q_tree_node.make 3 7315 943 944 (- 1),
     q_tree_node.make (- 1) 0 (- 1) (- 1) 5,
     q_tree_node.make (- 1) 0 (- 1) (- 1) 5,
     q_tree_node.make (- 1) 0 (- 1) (- 1) 2,
     q_tree_node.make 4 684 947 950 (- 1),
     q_tree_node.make 4 512 948 949 (- 1),
     q_tree_node.make (- 1) 0 (- 1) (- 1) 5,
     q_tree_node.make (- 1) 0 (- 1) (- 1) 5,
     q_tree_node.make (- 1) 0 (- 1) (- 1) 5,
     q_tree_node.make (- 1) 0 (- 1) (- 1) 7,
     q_tree_node.make 3 20892 953 954 (- 1),
     q_tree_node.make (- 1) 0 (- 1) (- 1) 5,
     q_tree_node.make (- 1) 0 (- 1) (- 1) 2,
     q_tree_node.make 3 6922 956 967 (- 1),
     q_tree_node.make 2 2799 957 960 (- 1),
     q_tree_node.make 5 3686 958 959 (- 1),
     q_tree_node.make (- 1) 0 (- 1) (- 1) 11,
     q_tree_node.make (- 1) 0 (- 1) (- 1) 11,
     q_tree_node.make 5 3686 961 962 (- 1),
     q_tree_node.make (- 1) 0 (- 1) (- 1) 10,
     q_tree_node.make 4 1599 963 966 (- 1),
     q_tree_node.make 2 3910 964 965 (- 1),
     q_tree_node.make (- 1) 0 (- 1) (- 1) 6,
     q_tree_node.make (- 1) 0 (- 1) (- 1) 10,
     q_tree_node.make (- 1) 0 (- 1) (- 1) 6,
     q_tree_node.make 3 11572 968 971 (- 1),
     q_tree_node.make 4 1456 969 970 (- 1),
     q_tree_node.make (- 1) 0 (- 1) (- 1) 1,
     q_tree_node.make (- 1) 0 (- 1) (- 1) 11,
     q_tree_node.make 4 1567 972 973 (- 1),
     q_tree_node.make (- 1) 0 (- 1) (- 1) 5,
     q_tree_node.make (- 1) 0 (- 1) (- 1) 5,
     q_tree_node.make 10 260 975 1030 (- 1),
     q_tree_node.make 7 991 976 1001 (- 1),
     q_tree_node.make 2 3025 977 988 (- 1),
     q_tree_node.make 3 5355 978 983 (- 1),
     q_tree_node.make 2 1427 979 980 (- 1),
     q_tree_node.make (- 1) 0 (- 1) (- 1) 1,
     q_tree_node.make 7 462 981 982 (- 1),
     q_tree_node.make (- 1) 0 (- 1) (- 1) 1,
     q_tree_node.make (- 1) 0 (- 1) (- 1) 0,
     q_tree_node.make 2 2255 984 987 (- 1),
     q_tree_node.make 2 1199 985 986 (- 1),
     q_tree_node.make (- 1) 0 (- 1) (- 1) 2,
     q_tree_node.make (- 1) 0 (- 1) (- 1) 2,
     q_tree_node.make (- 1) 0 (- 1) (- 1) 2,
     q_tree_node.make 4 247 989 1000 (- 1),
     q_tree_node.make 7 330 990 993 (- 1),
     q_tree_node.make 3 5214 991 992 (- 1),
     q_tree_node.make (- 1) 0 (- 1) (- 1) 0,
     q_tree_node.make (- 1) 0 (- 1) (- 1) 5,
     q_tree_node.make 0 1255 994 999 (- 1),
     q_tree_node.make 4 60 995 998 (- 1),
     q_tree_node.make 3 4844 996 997 (- 1),
     q_tree_node.make (- 1) 0 (- 1) (- 1) 0,
     q_tree_node.make (- 1) 0 (- 1) (- 1) 0,
     q_tree_node.make (- 1) 0 (- 1) (- 1) 0,
     q_tree_node.make (- 1) 0 (- 1) (- 1) 2,
     q_tree_node.make (- 1) 0 (- 1) (- 1) 2,
     q_tree_node.make 4 241 1002 1023 (- 1),
     q_tree_node.make 2 2141 1003 1006 (- 1),
     q_tree_node.make 4 67 1004 1005 (- 1),
     q_tree_node.make (- 1) 0 (- 1) (- 1) 1,
     q_tree_node.make (- 1) 0 (- 1) (- 1) 1,
     q_tree_node.make 7 2576 1007 1016 (- 1),
     q_tree_node.make 3 6160 1008 1015 (- 1),
     q_tree_node.make 2 3129 1009 1010 (- 1),
     q_tree_node.make (- 1) 0 (- 1) (- 1) 0,
     q_tree_node.make 7 1387 1011 1012 (- 1),
     q_tree_node.make (- 1) 0 (- 1) (- 1) 0,
     q_tree_node.make 3 4590 1013 1014 (- 1),
     q_tree_node.make (- 1) 0 (- 1) (- 1) 0,
     q_tree_node.make (- 1) 0 (- 1) (- 1) 0,
     q_tree_node.make (- 1) 0 (- 1) (- 1) 0,
     q_tree_node.make 3 5680 1017 1022 (- 1),
     q_tree_node.make 2 3612 1018 1019 (- 1),
     q_tree_node.make (- 1) 0 (- 1) (- 1) 1,
     q_tree_node.make 3 4707 1020 1021 (- 1),
     q_tree_node.make (- 1) 0 (- 1) (- 1) 0,
     q_tree_node.make (- 1) 0 (- 1) (- 1) 0]"

definition q_tree_part_7 :: "q_tree_node list" where
  "q_tree_part_7 = [
     q_tree_node.make (- 1) 0 (- 1) (- 1) 1,
     q_tree_node.make 7 3237 1024 1027 (- 1),
     q_tree_node.make 3 6208 1025 1026 (- 1),
     q_tree_node.make (- 1) 0 (- 1) (- 1) 1,
     q_tree_node.make (- 1) 0 (- 1) (- 1) 2,
     q_tree_node.make 3 6748 1028 1029 (- 1),
     q_tree_node.make (- 1) 0 (- 1) (- 1) 0,
     q_tree_node.make (- 1) 0 (- 1) (- 1) 4,
     q_tree_node.make 7 727 1031 1038 (- 1),
     q_tree_node.make 5 3686 1032 1033 (- 1),
     q_tree_node.make (- 1) 0 (- 1) (- 1) 2,
     q_tree_node.make 4 772 1034 1037 (- 1),
     q_tree_node.make 4 344 1035 1036 (- 1),
     q_tree_node.make (- 1) 0 (- 1) (- 1) 3,
     q_tree_node.make (- 1) 0 (- 1) (- 1) 3,
     q_tree_node.make (- 1) 0 (- 1) (- 1) 2,
     q_tree_node.make 3 8837 1039 1042 (- 1),
     q_tree_node.make 7 1916 1040 1041 (- 1),
     q_tree_node.make (- 1) 0 (- 1) (- 1) 1,
     q_tree_node.make (- 1) 0 (- 1) (- 1) 1,
     q_tree_node.make 4 772 1043 1044 (- 1),
     q_tree_node.make (- 1) 0 (- 1) (- 1) 2,
     q_tree_node.make (- 1) 0 (- 1) (- 1) 2,
     q_tree_node.make 4 153 1046 1241 (- 1),
     q_tree_node.make 3 6593 1047 1192 (- 1),
     q_tree_node.make 7 66 1048 1097 (- 1),
     q_tree_node.make 4 85 1049 1080 (- 1),
     q_tree_node.make 0 1784 1050 1059 (- 1),
     q_tree_node.make 2 2127 1051 1054 (- 1),
     q_tree_node.make 4 38 1052 1053 (- 1),
     q_tree_node.make (- 1) 0 (- 1) (- 1) 0,
     q_tree_node.make (- 1) 0 (- 1) (- 1) 5,
     q_tree_node.make 3 5406 1055 1058 (- 1),
     q_tree_node.make 4 47 1056 1057 (- 1),
     q_tree_node.make (- 1) 0 (- 1) (- 1) 0,
     q_tree_node.make (- 1) 0 (- 1) (- 1) 0,
     q_tree_node.make (- 1) 0 (- 1) (- 1) 5,
     q_tree_node.make 6 409 1060 1077 (- 1),
     q_tree_node.make 2 2472 1061 1070 (- 1),
     q_tree_node.make 3 5957 1062 1069 (- 1),
     q_tree_node.make 4 48 1063 1066 (- 1),
     q_tree_node.make 0 2312 1064 1065 (- 1),
     q_tree_node.make (- 1) 0 (- 1) (- 1) 0,
     q_tree_node.make (- 1) 0 (- 1) (- 1) 0,
     q_tree_node.make 0 2444 1067 1068 (- 1),
     q_tree_node.make (- 1) 0 (- 1) (- 1) 5,
     q_tree_node.make (- 1) 0 (- 1) (- 1) 0,
     q_tree_node.make (- 1) 0 (- 1) (- 1) 0,
     q_tree_node.make 0 3237 1071 1076 (- 1),
     q_tree_node.make 1 283 1072 1075 (- 1),
     q_tree_node.make 3 6092 1073 1074 (- 1),
     q_tree_node.make (- 1) 0 (- 1) (- 1) 0,
     q_tree_node.make (- 1) 0 (- 1) (- 1) 0,
     q_tree_node.make (- 1) 0 (- 1) (- 1) 0,
     q_tree_node.make (- 1) 0 (- 1) (- 1) 0,
     q_tree_node.make 2 3196 1078 1079 (- 1),
     q_tree_node.make (- 1) 0 (- 1) (- 1) 3,
     q_tree_node.make (- 1) 0 (- 1) (- 1) 0,
     q_tree_node.make 2 1945 1081 1088 (- 1),
     q_tree_node.make 4 122 1082 1085 (- 1),
     q_tree_node.make 0 1916 1083 1084 (- 1),
     q_tree_node.make (- 1) 0 (- 1) (- 1) 2,
     q_tree_node.make (- 1) 0 (- 1) (- 1) 11,
     q_tree_node.make 2 803 1086 1087 (- 1),
     q_tree_node.make (- 1) 0 (- 1) (- 1) 11,
     q_tree_node.make (- 1) 0 (- 1) (- 1) 11,
     q_tree_node.make 0 2312 1089 1094 (- 1),
     q_tree_node.make 2 3488 1090 1093 (- 1),
     q_tree_node.make 2 2863 1091 1092 (- 1),
     q_tree_node.make (- 1) 0 (- 1) (- 1) 5,
     q_tree_node.make (- 1) 0 (- 1) (- 1) 5,
     q_tree_node.make (- 1) 0 (- 1) (- 1) 0,
     q_tree_node.make 0 2841 1095 1096 (- 1),
     q_tree_node.make (- 1) 0 (- 1) (- 1) 0,
     q_tree_node.make (- 1) 0 (- 1) (- 1) 0,
     q_tree_node.make 7 2180 1098 1153 (- 1),
     q_tree_node.make 2 2399 1099 1116 (- 1),
     q_tree_node.make 2 348 1100 1103 (- 1),
     q_tree_node.make 7 462 1101 1102 (- 1),
     q_tree_node.make (- 1) 0 (- 1) (- 1) 0,
     q_tree_node.make (- 1) 0 (- 1) (- 1) 11,
     q_tree_node.make 10 328 1104 1115 (- 1),
     q_tree_node.make 0 2709 1105 1110 (- 1),
     q_tree_node.make 4 80 1106 1109 (- 1),
     q_tree_node.make 2 1900 1107 1108 (- 1),
     q_tree_node.make (- 1) 0 (- 1) (- 1) 0,
     q_tree_node.make (- 1) 0 (- 1) (- 1) 0,
     q_tree_node.make (- 1) 0 (- 1) (- 1) 2,
     q_tree_node.make 2 2010 1111 1114 (- 1),
     q_tree_node.make 4 63 1112 1113 (- 1),
     q_tree_node.make (- 1) 0 (- 1) (- 1) 0,
     q_tree_node.make (- 1) 0 (- 1) (- 1) 0,
     q_tree_node.make (- 1) 0 (- 1) (- 1) 0,
     q_tree_node.make (- 1) 0 (- 1) (- 1) 0,
     q_tree_node.make 7 198 1117 1130 (- 1),
     q_tree_node.make 0 2576 1118 1125 (- 1),
     q_tree_node.make 0 1784 1119 1120 (- 1),
     q_tree_node.make (- 1) 0 (- 1) (- 1) 0,
     q_tree_node.make 3 5823 1121 1124 (- 1),
     q_tree_node.make 2 3988 1122 1123 (- 1),
     q_tree_node.make (- 1) 0 (- 1) (- 1) 0,
     q_tree_node.make (- 1) 0 (- 1) (- 1) 0,
     q_tree_node.make (- 1) 0 (- 1) (- 1) 0,
     q_tree_node.make 2 3485 1126 1127 (- 1),
     q_tree_node.make (- 1) 0 (- 1) (- 1) 0,
     q_tree_node.make 0 2973 1128 1129 (- 1),
     q_tree_node.make (- 1) 0 (- 1) (- 1) 2,
     q_tree_node.make (- 1) 0 (- 1) (- 1) 2,
     q_tree_node.make 3 5391 1131 1142 (- 1),
     q_tree_node.make 7 1519 1132 1137 (- 1),
     q_tree_node.make 8 330 1133 1136 (- 1),
     q_tree_node.make 4 83 1134 1135 (- 1),
     q_tree_node.make (- 1) 0 (- 1) (- 1) 2,
     q_tree_node.make (- 1) 0 (- 1) (- 1) 2,
     q_tree_node.make (- 1) 0 (- 1) (- 1) 2,
     q_tree_node.make 0 2312 1138 1139 (- 1),
     q_tree_node.make (- 1) 0 (- 1) (- 1) 0,
     q_tree_node.make 2 3474 1140 1141 (- 1),
     q_tree_node.make (- 1) 0 (- 1) (- 1) 2,
     q_tree_node.make (- 1) 0 (- 1) (- 1) 2,
     q_tree_node.make 0 2444 1143 1148 (- 1),
     q_tree_node.make 7 595 1144 1147 (- 1),
     q_tree_node.make 4 51 1145 1146 (- 1),
     q_tree_node.make (- 1) 0 (- 1) (- 1) 2,
     q_tree_node.make (- 1) 0 (- 1) (- 1) 5,
     q_tree_node.make (- 1) 0 (- 1) (- 1) 4,
     q_tree_node.make 2 3344 1149 1150 (- 1),
     q_tree_node.make (- 1) 0 (- 1) (- 1) 2,
     q_tree_node.make 7 462 1151 1152 (- 1),
     q_tree_node.make (- 1) 0 (- 1) (- 1) 2,
     q_tree_node.make (- 1) 0 (- 1) (- 1) 2,
     q_tree_node.make 2 1142 1154 1159 (- 1),
     q_tree_node.make 2 447 1155 1156 (- 1),
     q_tree_node.make (- 1) 0 (- 1) (- 1) 11,
     q_tree_node.make 0 3369 1157 1158 (- 1),
     q_tree_node.make (- 1) 0 (- 1) (- 1) 0,
     q_tree_node.make (- 1) 0 (- 1) (- 1) 0,
     q_tree_node.make 7 3237 1160 1173 (- 1),
     q_tree_node.make 0 2973 1161 1168 (- 1),
     q_tree_node.make 2 2480 1162 1163 (- 1),
     q_tree_node.make (- 1) 0 (- 1) (- 1) 0,
     q_tree_node.make 0 2312 1164 1167 (- 1),
     q_tree_node.make 2 3831 1165 1166 (- 1),
     q_tree_node.make (- 1) 0 (- 1) (- 1) 0,
     q_tree_node.make (- 1) 0 (- 1) (- 1) 0,
     q_tree_node.make (- 1) 0 (- 1) (- 1) 0]"

definition q_tree_part_8 :: "q_tree_node list" where
  "q_tree_part_8 = [
     q_tree_node.make 2 2851 1169 1170 (- 1),
     q_tree_node.make (- 1) 0 (- 1) (- 1) 0,
     q_tree_node.make 7 2841 1171 1172 (- 1),
     q_tree_node.make (- 1) 0 (- 1) (- 1) 2,
     q_tree_node.make (- 1) 0 (- 1) (- 1) 0,
     q_tree_node.make 0 2312 1174 1177 (- 1),
     q_tree_node.make 3 4721 1175 1176 (- 1),
     q_tree_node.make (- 1) 0 (- 1) (- 1) 0,
     q_tree_node.make (- 1) 0 (- 1) (- 1) 0,
     q_tree_node.make 4 85 1178 1185 (- 1),
     q_tree_node.make 2 3226 1179 1182 (- 1),
     q_tree_node.make 2 2212 1180 1181 (- 1),
     q_tree_node.make (- 1) 0 (- 1) (- 1) 0,
     q_tree_node.make (- 1) 0 (- 1) (- 1) 0,
     q_tree_node.make 3 4456 1183 1184 (- 1),
     q_tree_node.make (- 1) 0 (- 1) (- 1) 0,
     q_tree_node.make (- 1) 0 (- 1) (- 1) 0,
     q_tree_node.make 7 3766 1186 1189 (- 1),
     q_tree_node.make 2 3798 1187 1188 (- 1),
     q_tree_node.make (- 1) 0 (- 1) (- 1) 0,
     q_tree_node.make (- 1) 0 (- 1) (- 1) 0,
     q_tree_node.make 3 5918 1190 1191 (- 1),
     q_tree_node.make (- 1) 0 (- 1) (- 1) 0,
     q_tree_node.make (- 1) 0 (- 1) (- 1) 0,
     q_tree_node.make 2 3158 1193 1214 (- 1),
     q_tree_node.make 7 66 1194 1205 (- 1),
     q_tree_node.make 4 73 1195 1202 (- 1),
     q_tree_node.make 0 1916 1196 1197 (- 1),
     q_tree_node.make (- 1) 0 (- 1) (- 1) 11,
     q_tree_node.make 3 8876 1198 1201 (- 1),
     q_tree_node.make 4 33 1199 1200 (- 1),
     q_tree_node.make (- 1) 0 (- 1) (- 1) 6,
     q_tree_node.make (- 1) 0 (- 1) (- 1) 6,
     q_tree_node.make (- 1) 0 (- 1) (- 1) 6,
     q_tree_node.make 0 2444 1203 1204 (- 1),
     q_tree_node.make (- 1) 0 (- 1) (- 1) 11,
     q_tree_node.make (- 1) 0 (- 1) (- 1) 11,
     q_tree_node.make 10 548 1206 1213 (- 1),
     q_tree_node.make 3 8966 1207 1212 (- 1),
     q_tree_node.make 0 2576 1208 1209 (- 1),
     q_tree_node.make (- 1) 0 (- 1) (- 1) 1,
     q_tree_node.make 2 1526 1210 1211 (- 1),
     q_tree_node.make (- 1) 0 (- 1) (- 1) 11,
     q_tree_node.make (- 1) 0 (- 1) (- 1) 0,
     q_tree_node.make (- 1) 0 (- 1) (- 1) 11,
     q_tree_node.make (- 1) 0 (- 1) (- 1) 3,
     q_tree_node.make 3 8763 1215 1232 (- 1),
     q_tree_node.make 7 198 1216 1223 (- 1),
     q_tree_node.make 0 2048 1217 1218 (- 1),
     q_tree_node.make (- 1) 0 (- 1) (- 1) 7,
     q_tree_node.make 3 7363 1219 1222 (- 1),
     q_tree_node.make 4 61 1220 1221 (- 1),
     q_tree_node.make (- 1) 0 (- 1) (- 1) 0,
     q_tree_node.make (- 1) 0 (- 1) (- 1) 0,
     q_tree_node.make (- 1) 0 (- 1) (- 1) 7,
     q_tree_node.make 7 1784 1224 1229 (- 1),
     q_tree_node.make 0 2576 1225 1228 (- 1),
     q_tree_node.make 7 462 1226 1227 (- 1),
     q_tree_node.make (- 1) 0 (- 1) (- 1) 5,
     q_tree_node.make (- 1) 0 (- 1) (- 1) 5,
     q_tree_node.make (- 1) 0 (- 1) (- 1) 4,
     q_tree_node.make 7 3501 1230 1231 (- 1),
     q_tree_node.make (- 1) 0 (- 1) (- 1) 0,
     q_tree_node.make (- 1) 0 (- 1) (- 1) 0,
     q_tree_node.make 3 19367 1233 1240 (- 1),
     q_tree_node.make 7 1519 1234 1239 (- 1),
     q_tree_node.make 3 11318 1235 1236 (- 1),
     q_tree_node.make (- 1) 0 (- 1) (- 1) 7,
     q_tree_node.make 0 2709 1237 1238 (- 1),
     q_tree_node.make (- 1) 0 (- 1) (- 1) 5,
     q_tree_node.make (- 1) 0 (- 1) (- 1) 7,
     q_tree_node.make (- 1) 0 (- 1) (- 1) 11,
     q_tree_node.make (- 1) 0 (- 1) (- 1) 2,
     q_tree_node.make 7 66 1242 1309 (- 1),
     q_tree_node.make 4 451 1243 1286 (- 1),
     q_tree_node.make 2 1883 1244 1265 (- 1),
     q_tree_node.make 5 3686 1245 1246 (- 1),
     q_tree_node.make (- 1) 0 (- 1) (- 1) 1,
     q_tree_node.make 4 354 1247 1260 (- 1),
     q_tree_node.make 6 409 1248 1259 (- 1),
     q_tree_node.make 2 1275 1249 1254 (- 1),
     q_tree_node.make 4 167 1250 1251 (- 1),
     q_tree_node.make (- 1) 0 (- 1) (- 1) 11,
     q_tree_node.make 0 1916 1252 1253 (- 1),
     q_tree_node.make (- 1) 0 (- 1) (- 1) 11,
     q_tree_node.make (- 1) 0 (- 1) (- 1) 11,
     q_tree_node.make 3 5435 1255 1256 (- 1),
     q_tree_node.make (- 1) 0 (- 1) (- 1) 11,
     q_tree_node.make 3 5884 1257 1258 (- 1),
     q_tree_node.make (- 1) 0 (- 1) (- 1) 11,
     q_tree_node.make (- 1) 0 (- 1) (- 1) 11,
     q_tree_node.make (- 1) 0 (- 1) (- 1) 11,
     q_tree_node.make 0 1916 1261 1262 (- 1),
     q_tree_node.make (- 1) 0 (- 1) (- 1) 11,
     q_tree_node.make 4 395 1263 1264 (- 1),
     q_tree_node.make (- 1) 0 (- 1) (- 1) 11,
     q_tree_node.make (- 1) 0 (- 1) (- 1) 11,
     q_tree_node.make 3 6366 1266 1273 (- 1),
     q_tree_node.make 2 2758 1267 1270 (- 1),
     q_tree_node.make 3 5733 1268 1269 (- 1),
     q_tree_node.make (- 1) 0 (- 1) (- 1) 2,
     q_tree_node.make (- 1) 0 (- 1) (- 1) 11,
     q_tree_node.make 0 2048 1271 1272 (- 1),
     q_tree_node.make (- 1) 0 (- 1) (- 1) 5,
     q_tree_node.make (- 1) 0 (- 1) (- 1) 0,
     q_tree_node.make 2 3556 1274 1285 (- 1),
     q_tree_node.make 0 2048 1275 1278 (- 1),
     q_tree_node.make 3 9336 1276 1277 (- 1),
     q_tree_node.make (- 1) 0 (- 1) (- 1) 9,
     q_tree_node.make (- 1) 0 (- 1) (- 1) 11,
     q_tree_node.make 3 7652 1279 1280 (- 1),
     q_tree_node.make (- 1) 0 (- 1) (- 1) 11,
     q_tree_node.make 3 10377 1281 1284 (- 1),
     q_tree_node.make 2 2414 1282 1283 (- 1),
     q_tree_node.make (- 1) 0 (- 1) (- 1) 11,
     q_tree_node.make (- 1) 0 (- 1) (- 1) 11,
     q_tree_node.make (- 1) 0 (- 1) (- 1) 11,
     q_tree_node.make (- 1) 0 (- 1) (- 1) 11,
     q_tree_node.make 4 1031 1287 1302 (- 1),
     q_tree_node.make 2 3049 1288 1297 (- 1),
     q_tree_node.make 0 2841 1289 1296 (- 1),
     q_tree_node.make 3 8095 1290 1295 (- 1),
     q_tree_node.make 0 1916 1291 1292 (- 1),
     q_tree_node.make (- 1) 0 (- 1) (- 1) 2,
     q_tree_node.make 4 629 1293 1294 (- 1),
     q_tree_node.make (- 1) 0 (- 1) (- 1) 2,
     q_tree_node.make (- 1) 0 (- 1) (- 1) 2,
     q_tree_node.make (- 1) 0 (- 1) (- 1) 11,
     q_tree_node.make (- 1) 0 (- 1) (- 1) 11,
     q_tree_node.make 3 10368 1298 1301 (- 1),
     q_tree_node.make 0 2180 1299 1300 (- 1),
     q_tree_node.make (- 1) 0 (- 1) (- 1) 5,
     q_tree_node.make (- 1) 0 (- 1) (- 1) 2,
     q_tree_node.make (- 1) 0 (- 1) (- 1) 2,
     q_tree_node.make 3 6822 1303 1306 (- 1),
     q_tree_node.make 2 2896 1304 1305 (- 1),
     q_tree_node.make (- 1) 0 (- 1) (- 1) 5,
     q_tree_node.make (- 1) 0 (- 1) (- 1) 7,
     q_tree_node.make 3 10907 1307 1308 (- 1),
     q_tree_node.make (- 1) 0 (- 1) (- 1) 2,
     q_tree_node.make (- 1) 0 (- 1) (- 1) 2,
     q_tree_node.make 10 1979 1310 1359 (- 1),
     q_tree_node.make 7 2576 1311 1346 (- 1),
     q_tree_node.make 4 619 1312 1333 (- 1),
     q_tree_node.make 3 8248 1313 1328 (- 1),
     q_tree_node.make 2 2162 1314 1319 (- 1)]"

definition q_tree_part_9 :: "q_tree_node list" where
  "q_tree_part_9 = [
     q_tree_node.make 7 198 1315 1316 (- 1),
     q_tree_node.make (- 1) 0 (- 1) (- 1) 11,
     q_tree_node.make 4 235 1317 1318 (- 1),
     q_tree_node.make (- 1) 0 (- 1) (- 1) 0,
     q_tree_node.make (- 1) 0 (- 1) (- 1) 1,
     q_tree_node.make 0 2709 1320 1323 (- 1),
     q_tree_node.make 3 5920 1321 1322 (- 1),
     q_tree_node.make (- 1) 0 (- 1) (- 1) 2,
     q_tree_node.make (- 1) 0 (- 1) (- 1) 2,
     q_tree_node.make 2 3543 1324 1325 (- 1),
     q_tree_node.make (- 1) 0 (- 1) (- 1) 2,
     q_tree_node.make 4 208 1326 1327 (- 1),
     q_tree_node.make (- 1) 0 (- 1) (- 1) 2,
     q_tree_node.make (- 1) 0 (- 1) (- 1) 2,
     q_tree_node.make 10 108 1329 1332 (- 1),
     q_tree_node.make 7 462 1330 1331 (- 1),
     q_tree_node.make (- 1) 0 (- 1) (- 1) 11,
     q_tree_node.make (- 1) 0 (- 1) (- 1) 11,
     q_tree_node.make (- 1) 0 (- 1) (- 1) 1,
     q_tree_node.make 10 201 1334 1343 (- 1),
     q_tree_node.make 5 3686 1335 1336 (- 1),
     q_tree_node.make (- 1) 0 (- 1) (- 1) 1,
     q_tree_node.make 4 1626 1337 1342 (- 1),
     q_tree_node.make 3 10221 1338 1341 (- 1),
     q_tree_node.make 7 727 1339 1340 (- 1),
     q_tree_node.make (- 1) 0 (- 1) (- 1) 2,
     q_tree_node.make (- 1) 0 (- 1) (- 1) 2,
     q_tree_node.make (- 1) 0 (- 1) (- 1) 2,
     q_tree_node.make (- 1) 0 (- 1) (- 1) 7,
     q_tree_node.make 4 929 1344 1345 (- 1),
     q_tree_node.make (- 1) 0 (- 1) (- 1) 1,
     q_tree_node.make (- 1) 0 (- 1) (- 1) 2,
     q_tree_node.make 4 309 1347 1354 (- 1),
     q_tree_node.make 3 7016 1348 1353 (- 1),
     q_tree_node.make 2 2851 1349 1350 (- 1),
     q_tree_node.make (- 1) 0 (- 1) (- 1) 0,
     q_tree_node.make 7 3766 1351 1352 (- 1),
     q_tree_node.make (- 1) 0 (- 1) (- 1) 0,
     q_tree_node.make (- 1) 0 (- 1) (- 1) 0,
     q_tree_node.make (- 1) 0 (- 1) (- 1) 0,
     q_tree_node.make 3 9038 1355 1358 (- 1),
     q_tree_node.make 0 3501 1356 1357 (- 1),
     q_tree_node.make (- 1) 0 (- 1) (- 1) 0,
     q_tree_node.make (- 1) 0 (- 1) (- 1) 1,
     q_tree_node.make (- 1) 0 (- 1) (- 1) 1,
     q_tree_node.make 0 2312 1360 1367 (- 1),
     q_tree_node.make 4 576 1361 1366 (- 1),
     q_tree_node.make 2 984 1362 1363 (- 1),
     q_tree_node.make (- 1) 0 (- 1) (- 1) 3,
     q_tree_node.make 3 7628 1364 1365 (- 1),
     q_tree_node.make (- 1) 0 (- 1) (- 1) 9,
     q_tree_node.make (- 1) 0 (- 1) (- 1) 3,
     q_tree_node.make (- 1) 0 (- 1) (- 1) 3,
     q_tree_node.make 3 13279 1368 1373 (- 1),
     q_tree_node.make 4 512 1369 1372 (- 1),
     q_tree_node.make 2 2133 1370 1371 (- 1),
     q_tree_node.make (- 1) 0 (- 1) (- 1) 9,
     q_tree_node.make (- 1) 0 (- 1) (- 1) 9,
     q_tree_node.make (- 1) 0 (- 1) (- 1) 11,
     q_tree_node.make (- 1) 0 (- 1) (- 1) 1,
     q_tree_node.make 4 236 1375 1734 (- 1),
     q_tree_node.make 0 2312 1376 1571 (- 1),
     q_tree_node.make 1 2690 1377 1452 (- 1),
     q_tree_node.make 0 991 1378 1409 (- 1),
     q_tree_node.make 7 198 1379 1406 (- 1),
     q_tree_node.make 2 3803 1380 1405 (- 1),
     q_tree_node.make 6 3686 1381 1398 (- 1),
     q_tree_node.make 3 8383 1382 1397 (- 1),
     q_tree_node.make 6 409 1383 1390 (- 1),
     q_tree_node.make 2 2194 1384 1387 (- 1),
     q_tree_node.make 3 5311 1385 1386 (- 1),
     q_tree_node.make (- 1) 0 (- 1) (- 1) 4,
     q_tree_node.make (- 1) 0 (- 1) (- 1) 4,
     q_tree_node.make 1 1267 1388 1389 (- 1),
     q_tree_node.make (- 1) 0 (- 1) (- 1) 1,
     q_tree_node.make (- 1) 0 (- 1) (- 1) 4,
     q_tree_node.make 3 5471 1391 1394 (- 1),
     q_tree_node.make 0 727 1392 1393 (- 1),
     q_tree_node.make (- 1) 0 (- 1) (- 1) 4,
     q_tree_node.make (- 1) 0 (- 1) (- 1) 5,
     q_tree_node.make 1 1267 1395 1396 (- 1),
     q_tree_node.make (- 1) 0 (- 1) (- 1) 4,
     q_tree_node.make (- 1) 0 (- 1) (- 1) 4,
     q_tree_node.make (- 1) 0 (- 1) (- 1) 7,
     q_tree_node.make 2 2399 1399 1402 (- 1),
     q_tree_node.make 1 1696 1400 1401 (- 1),
     q_tree_node.make (- 1) 0 (- 1) (- 1) 7,
     q_tree_node.make (- 1) 0 (- 1) (- 1) 1,
     q_tree_node.make 2 2828 1403 1404 (- 1),
     q_tree_node.make (- 1) 0 (- 1) (- 1) 4,
     q_tree_node.make (- 1) 0 (- 1) (- 1) 4,
     q_tree_node.make (- 1) 0 (- 1) (- 1) 6,
     q_tree_node.make 1 1501 1407 1408 (- 1),
     q_tree_node.make (- 1) 0 (- 1) (- 1) 1,
     q_tree_node.make (- 1) 0 (- 1) (- 1) 1,
     q_tree_node.make 6 409 1410 1425 (- 1),
     q_tree_node.make 2 1244 1411 1414 (- 1),
     q_tree_node.make 0 1387 1412 1413 (- 1),
     q_tree_node.make (- 1) 0 (- 1) (- 1) 1,
     q_tree_node.make (- 1) 0 (- 1) (- 1) 1,
     q_tree_node.make 7 462 1415 1424 (- 1),
     q_tree_node.make 3 6799 1416 1423 (- 1),
     q_tree_node.make 1 1322 1417 1420 (- 1),
     q_tree_node.make 0 1652 1418 1419 (- 1),
     q_tree_node.make (- 1) 0 (- 1) (- 1) 1,
     q_tree_node.make (- 1) 0 (- 1) (- 1) 1,
     q_tree_node.make 1 1697 1421 1422 (- 1),
     q_tree_node.make (- 1) 0 (- 1) (- 1) 1,
     q_tree_node.make (- 1) 0 (- 1) (- 1) 1,
     q_tree_node.make (- 1) 0 (- 1) (- 1) 1,
     q_tree_node.make (- 1) 0 (- 1) (- 1) 1,
     q_tree_node.make 3 5987 1426 1443 (- 1),
     q_tree_node.make 2 3247 1427 1442 (- 1),
     q_tree_node.make 1 1988 1428 1437 (- 1),
     q_tree_node.make 4 95 1429 1434 (- 1),
     q_tree_node.make 3 4693 1430 1431 (- 1),
     q_tree_node.make (- 1) 0 (- 1) (- 1) 3,
     q_tree_node.make 2 1979 1432 1433 (- 1),
     q_tree_node.make (- 1) 0 (- 1) (- 1) 3,
     q_tree_node.make (- 1) 0 (- 1) (- 1) 3,
     q_tree_node.make 6 2867 1435 1436 (- 1),
     q_tree_node.make (- 1) 0 (- 1) (- 1) 3,
     q_tree_node.make (- 1) 0 (- 1) (- 1) 5,
     q_tree_node.make 0 1519 1438 1441 (- 1),
     q_tree_node.make 3 5218 1439 1440 (- 1),
     q_tree_node.make (- 1) 0 (- 1) (- 1) 1,
     q_tree_node.make (- 1) 0 (- 1) (- 1) 4,
     q_tree_node.make (- 1) 0 (- 1) (- 1) 3,
     q_tree_node.make (- 1) 0 (- 1) (- 1) 1,
     q_tree_node.make 3 8092 1444 1451 (- 1),
     q_tree_node.make 1 1900 1445 1448 (- 1),
     q_tree_node.make 2 3038 1446 1447 (- 1),
     q_tree_node.make (- 1) 0 (- 1) (- 1) 3,
     q_tree_node.make (- 1) 0 (- 1) (- 1) 4,
     q_tree_node.make 2 2322 1449 1450 (- 1),
     q_tree_node.make (- 1) 0 (- 1) (- 1) 4,
     q_tree_node.make (- 1) 0 (- 1) (- 1) 4,
     q_tree_node.make (- 1) 0 (- 1) (- 1) 7,
     q_tree_node.make 8 198 1453 1534 (- 1),
     q_tree_node.make 3 4944 1454 1495 (- 1),
     q_tree_node.make 0 991 1455 1476 (- 1),
     q_tree_node.make 2 2399 1456 1465 (- 1),
     q_tree_node.make 6 3686 1457 1458 (- 1),
     q_tree_node.make (- 1) 0 (- 1) (- 1) 4,
     q_tree_node.make 2 634 1459 1460 (- 1),
     q_tree_node.make (- 1) 0 (- 1) (- 1) 1]"

definition q_tree_part_10 :: "q_tree_node list" where
  "q_tree_part_10 = [
     q_tree_node.make 3 4651 1461 1464 (- 1),
     q_tree_node.make 1 3803 1462 1463 (- 1),
     q_tree_node.make (- 1) 0 (- 1) (- 1) 1,
     q_tree_node.make (- 1) 0 (- 1) (- 1) 1,
     q_tree_node.make (- 1) 0 (- 1) (- 1) 1,
     q_tree_node.make 2 3803 1466 1473 (- 1),
     q_tree_node.make 4 49 1467 1470 (- 1),
     q_tree_node.make 3 4518 1468 1469 (- 1),
     q_tree_node.make (- 1) 0 (- 1) (- 1) 1,
     q_tree_node.make (- 1) 0 (- 1) (- 1) 4,
     q_tree_node.make 3 4570 1471 1472 (- 1),
     q_tree_node.make (- 1) 0 (- 1) (- 1) 4,
     q_tree_node.make (- 1) 0 (- 1) (- 1) 4,
     q_tree_node.make 4 46 1474 1475 (- 1),
     q_tree_node.make (- 1) 0 (- 1) (- 1) 4,
     q_tree_node.make (- 1) 0 (- 1) (- 1) 1,
     q_tree_node.make 5 3686 1477 1478 (- 1),
     q_tree_node.make (- 1) 0 (- 1) (- 1) 7,
     q_tree_node.make 7 330 1479 1494 (- 1),
     q_tree_node.make 2 3038 1480 1487 (- 1),
     q_tree_node.make 1 3393 1481 1484 (- 1),
     q_tree_node.make 0 1784 1482 1483 (- 1),
     q_tree_node.make (- 1) 0 (- 1) (- 1) 1,
     q_tree_node.make (- 1) 0 (- 1) (- 1) 1,
     q_tree_node.make 3 4613 1485 1486 (- 1),
     q_tree_node.make (- 1) 0 (- 1) (- 1) 1,
     q_tree_node.make (- 1) 0 (- 1) (- 1) 1,
     q_tree_node.make 4 74 1488 1491 (- 1),
     q_tree_node.make 3 4702 1489 1490 (- 1),
     q_tree_node.make (- 1) 0 (- 1) (- 1) 1,
     q_tree_node.make (- 1) 0 (- 1) (- 1) 1,
     q_tree_node.make 1 3975 1492 1493 (- 1),
     q_tree_node.make (- 1) 0 (- 1) (- 1) 1,
     q_tree_node.make (- 1) 0 (- 1) (- 1) 4,
     q_tree_node.make (- 1) 0 (- 1) (- 1) 2,
     q_tree_node.make 3 8028 1496 1527 (- 1),
     q_tree_node.make 7 462 1497 1526 (- 1),
     q_tree_node.make 2 3975 1498 1513 (- 1),
     q_tree_node.make 2 2620 1499 1506 (- 1),
     q_tree_node.make 6 2048 1500 1503 (- 1),
     q_tree_node.make 0 1387 1501 1502 (- 1),
     q_tree_node.make (- 1) 0 (- 1) (- 1) 4,
     q_tree_node.make (- 1) 0 (- 1) (- 1) 1,
     q_tree_node.make 4 121 1504 1505 (- 1),
     q_tree_node.make (- 1) 0 (- 1) (- 1) 4,
     q_tree_node.make (- 1) 0 (- 1) (- 1) 1,
     q_tree_node.make 3 5181 1507 1510 (- 1),
     q_tree_node.make 0 1123 1508 1509 (- 1),
     q_tree_node.make (- 1) 0 (- 1) (- 1) 4,
     q_tree_node.make (- 1) 0 (- 1) (- 1) 1,
     q_tree_node.make 4 104 1511 1512 (- 1),
     q_tree_node.make (- 1) 0 (- 1) (- 1) 4,
     q_tree_node.make (- 1) 0 (- 1) (- 1) 4,
     q_tree_node.make 0 991 1514 1519 (- 1),
     q_tree_node.make 1 3462 1515 1516 (- 1),
     q_tree_node.make (- 1) 0 (- 1) (- 1) 11,
     q_tree_node.make 4 79 1517 1518 (- 1),
     q_tree_node.make (- 1) 0 (- 1) (- 1) 4,
     q_tree_node.make (- 1) 0 (- 1) (- 1) 1,
     q_tree_node.make 0 1652 1520 1523 (- 1),
     q_tree_node.make 4 54 1521 1522 (- 1),
     q_tree_node.make (- 1) 0 (- 1) (- 1) 1,
     q_tree_node.make (- 1) 0 (- 1) (- 1) 1,
     q_tree_node.make 4 51 1524 1525 (- 1),
     q_tree_node.make (- 1) 0 (- 1) (- 1) 4,
     q_tree_node.make (- 1) 0 (- 1) (- 1) 4,
     q_tree_node.make (- 1) 0 (- 1) (- 1) 1,
     q_tree_node.make 2 2826 1528 1529 (- 1),
     q_tree_node.make (- 1) 0 (- 1) (- 1) 7,
     q_tree_node.make 3 13261 1530 1533 (- 1),
     q_tree_node.make 3 9112 1531 1532 (- 1),
     q_tree_node.make (- 1) 0 (- 1) (- 1) 1,
     q_tree_node.make (- 1) 0 (- 1) (- 1) 1,
     q_tree_node.make (- 1) 0 (- 1) (- 1) 1,
     q_tree_node.make 2 2433 1535 1548 (- 1),
     q_tree_node.make 8 2576 1536 1547 (- 1),
     q_tree_node.make 7 198 1537 1546 (- 1),
     q_tree_node.make 8 462 1538 1539 (- 1),
     q_tree_node.make (- 1) 0 (- 1) (- 1) 1,
     q_tree_node.make 2 848 1540 1541 (- 1),
     q_tree_node.make (- 1) 0 (- 1) (- 1) 4,
     q_tree_node.make 4 47 1542 1545 (- 1),
     q_tree_node.make 0 1652 1543 1544 (- 1),
     q_tree_node.make (- 1) 0 (- 1) (- 1) 4,
     q_tree_node.make (- 1) 0 (- 1) (- 1) 4,
     q_tree_node.make (- 1) 0 (- 1) (- 1) 4,
     q_tree_node.make (- 1) 0 (- 1) (- 1) 1,
     q_tree_node.make (- 1) 0 (- 1) (- 1) 0,
     q_tree_node.make 7 330 1549 1568 (- 1),
     q_tree_node.make 3 6197 1550 1565 (- 1),
     q_tree_node.make 2 3102 1551 1556 (- 1),
     q_tree_node.make 8 595 1552 1553 (- 1),
     q_tree_node.make (- 1) 0 (- 1) (- 1) 4,
     q_tree_node.make 8 2312 1554 1555 (- 1),
     q_tree_node.make (- 1) 0 (- 1) (- 1) 4,
     q_tree_node.make (- 1) 0 (- 1) (- 1) 4,
     q_tree_node.make 4 75 1557 1562 (- 1),
     q_tree_node.make 8 330 1558 1559 (- 1),
     q_tree_node.make (- 1) 0 (- 1) (- 1) 4,
     q_tree_node.make 2 3488 1560 1561 (- 1),
     q_tree_node.make (- 1) 0 (- 1) (- 1) 4,
     q_tree_node.make (- 1) 0 (- 1) (- 1) 4,
     q_tree_node.make 0 1387 1563 1564 (- 1),
     q_tree_node.make (- 1) 0 (- 1) (- 1) 4,
     q_tree_node.make (- 1) 0 (- 1) (- 1) 4,
     q_tree_node.make 8 1652 1566 1567 (- 1),
     q_tree_node.make (- 1) 0 (- 1) (- 1) 4,
     q_tree_node.make (- 1) 0 (- 1) (- 1) 1,
     q_tree_node.make 7 727 1569 1570 (- 1),
     q_tree_node.make (- 1) 0 (- 1) (- 1) 4,
     q_tree_node.make (- 1) 0 (- 1) (- 1) 2,
     q_tree_node.make 2 3312 1572 1661 (- 1),
     q_tree_node.make 8 1652 1573 1634 (- 1),
     q_tree_node.make 7 198 1574 1617 (- 1),
     q_tree_node.make 3 5178 1575 1602 (- 1),
     q_tree_node.make 2 2614 1576 1595 (- 1),
     q_tree_node.make 8 330 1577 1588 (- 1),
     q_tree_node.make 2 1499 1578 1583 (- 1),
     q_tree_node.make 4 69 1579 1582 (- 1),
     q_tree_node.make 3 4580 1580 1581 (- 1),
     q_tree_node.make (- 1) 0 (- 1) (- 1) 2,
     q_tree_node.make (- 1) 0 (- 1) (- 1) 2,
     q_tree_node.make (- 1) 0 (- 1) (- 1) 2,
     q_tree_node.make 0 3105 1584 1587 (- 1),
     q_tree_node.make 1 3549 1585 1586 (- 1),
     q_tree_node.make (- 1) 0 (- 1) (- 1) 3,
     q_tree_node.make (- 1) 0 (- 1) (- 1) 3,
     q_tree_node.make (- 1) 0 (- 1) (- 1) 2,
     q_tree_node.make 0 3501 1589 1594 (- 1),
     q_tree_node.make 8 727 1590 1591 (- 1),
     q_tree_node.make (- 1) 0 (- 1) (- 1) 2,
     q_tree_node.make 4 31 1592 1593 (- 1),
     q_tree_node.make (- 1) 0 (- 1) (- 1) 4,
     q_tree_node.make (- 1) 0 (- 1) (- 1) 4,
     q_tree_node.make (- 1) 0 (- 1) (- 1) 2,
     q_tree_node.make 0 2973 1596 1599 (- 1),
     q_tree_node.make 1 3796 1597 1598 (- 1),
     q_tree_node.make (- 1) 0 (- 1) (- 1) 1,
     q_tree_node.make (- 1) 0 (- 1) (- 1) 1,
     q_tree_node.make 8 330 1600 1601 (- 1),
     q_tree_node.make (- 1) 0 (- 1) (- 1) 0,
     q_tree_node.make (- 1) 0 (- 1) (- 1) 4,
     q_tree_node.make 6 2867 1603 1608 (- 1),
     q_tree_node.make 3 6966 1604 1607 (- 1),
     q_tree_node.make 1 1876 1605 1606 (- 1),
     q_tree_node.make (- 1) 0 (- 1) (- 1) 0]"

definition q_tree_part_11 :: "q_tree_node list" where
  "q_tree_part_11 = [
     q_tree_node.make (- 1) 0 (- 1) (- 1) 3,
     q_tree_node.make (- 1) 0 (- 1) (- 1) 7,
     q_tree_node.make 3 7742 1609 1616 (- 1),
     q_tree_node.make 4 127 1610 1615 (- 1),
     q_tree_node.make 1 3158 1611 1612 (- 1),
     q_tree_node.make (- 1) 0 (- 1) (- 1) 3,
     q_tree_node.make 2 1110 1613 1614 (- 1),
     q_tree_node.make (- 1) 0 (- 1) (- 1) 4,
     q_tree_node.make (- 1) 0 (- 1) (- 1) 4,
     q_tree_node.make (- 1) 0 (- 1) (- 1) 4,
     q_tree_node.make (- 1) 0 (- 1) (- 1) 4,
     q_tree_node.make 3 6015 1618 1629 (- 1),
     q_tree_node.make 6 2048 1619 1620 (- 1),
     q_tree_node.make (- 1) 0 (- 1) (- 1) 2,
     q_tree_node.make 8 859 1621 1628 (- 1),
     q_tree_node.make 7 859 1622 1627 (- 1),
     q_tree_node.make 2 1545 1623 1624 (- 1),
     q_tree_node.make (- 1) 0 (- 1) (- 1) 2,
     q_tree_node.make 3 5025 1625 1626 (- 1),
     q_tree_node.make (- 1) 0 (- 1) (- 1) 2,
     q_tree_node.make (- 1) 0 (- 1) (- 1) 2,
     q_tree_node.make (- 1) 0 (- 1) (- 1) 2,
     q_tree_node.make (- 1) 0 (- 1) (- 1) 2,
     q_tree_node.make 3 7848 1630 1633 (- 1),
     q_tree_node.make 7 462 1631 1632 (- 1),
     q_tree_node.make (- 1) 0 (- 1) (- 1) 4,
     q_tree_node.make (- 1) 0 (- 1) (- 1) 2,
     q_tree_node.make (- 1) 0 (- 1) (- 1) 1,
     q_tree_node.make 3 5296 1635 1650 (- 1),
     q_tree_node.make 7 198 1636 1647 (- 1),
     q_tree_node.make 4 80 1637 1646 (- 1),
     q_tree_node.make 8 2973 1638 1643 (- 1),
     q_tree_node.make 0 2973 1639 1640 (- 1),
     q_tree_node.make (- 1) 0 (- 1) (- 1) 4,
     q_tree_node.make 2 2012 1641 1642 (- 1),
     q_tree_node.make (- 1) 0 (- 1) (- 1) 0,
     q_tree_node.make (- 1) 0 (- 1) (- 1) 4,
     q_tree_node.make 2 2614 1644 1645 (- 1),
     q_tree_node.make (- 1) 0 (- 1) (- 1) 0,
     q_tree_node.make (- 1) 0 (- 1) (- 1) 0,
     q_tree_node.make (- 1) 0 (- 1) (- 1) 0,
     q_tree_node.make 2 2475 1648 1649 (- 1),
     q_tree_node.make (- 1) 0 (- 1) (- 1) 0,
     q_tree_node.make (- 1) 0 (- 1) (- 1) 2,
     q_tree_node.make 2 1969 1651 1654 (- 1),
     q_tree_node.make 8 2444 1652 1653 (- 1),
     q_tree_node.make (- 1) 0 (- 1) (- 1) 4,
     q_tree_node.make (- 1) 0 (- 1) (- 1) 0,
     q_tree_node.make 7 198 1655 1660 (- 1),
     q_tree_node.make 8 2709 1656 1657 (- 1),
     q_tree_node.make (- 1) 0 (- 1) (- 1) 4,
     q_tree_node.make 3 6333 1658 1659 (- 1),
     q_tree_node.make (- 1) 0 (- 1) (- 1) 1,
     q_tree_node.make (- 1) 0 (- 1) (- 1) 1,
     q_tree_node.make (- 1) 0 (- 1) (- 1) 1,
     q_tree_node.make 7 330 1662 1715 (- 1),
     q_tree_node.make 6 3686 1663 1670 (- 1),
     q_tree_node.make 1 2550 1664 1665 (- 1),
     q_tree_node.make (- 1) 0 (- 1) (- 1) 2,
     q_tree_node.make 3 5581 1666 1667 (- 1),
     q_tree_node.make (- 1) 0 (- 1) (- 1) 4,
     q_tree_node.make 8 66 1668 1669 (- 1),
     q_tree_node.make (- 1) 0 (- 1) (- 1) 4,
     q_tree_node.make (- 1) 0 (- 1) (- 1) 4,
     q_tree_node.make 2 3835 1671 1692 (- 1),
     q_tree_node.make 4 104 1672 1687 (- 1),
     q_tree_node.make 7 198 1673 1686 (- 1),
     q_tree_node.make 8 595 1674 1681 (- 1),
     q_tree_node.make 3 5356 1675 1678 (- 1),
     q_tree_node.make 0 3105 1676 1677 (- 1),
     q_tree_node.make (- 1) 0 (- 1) (- 1) 1,
     q_tree_node.make (- 1) 0 (- 1) (- 1) 1,
     q_tree_node.make 3 6495 1679 1680 (- 1),
     q_tree_node.make (- 1) 0 (- 1) (- 1) 4,
     q_tree_node.make (- 1) 0 (- 1) (- 1) 4,
     q_tree_node.make 3 5230 1682 1685 (- 1),
     q_tree_node.make 4 48 1683 1684 (- 1),
     q_tree_node.make (- 1) 0 (- 1) (- 1) 4,
     q_tree_node.make (- 1) 0 (- 1) (- 1) 4,
     q_tree_node.make (- 1) 0 (- 1) (- 1) 1,
     q_tree_node.make (- 1) 0 (- 1) (- 1) 4,
     q_tree_node.make 8 3105 1688 1691 (- 1),
     q_tree_node.make 7 66 1689 1690 (- 1),
     q_tree_node.make (- 1) 0 (- 1) (- 1) 1,
     q_tree_node.make (- 1) 0 (- 1) (- 1) 4,
     q_tree_node.make (- 1) 0 (- 1) (- 1) 1,
     q_tree_node.make 3 9259 1693 1714 (- 1),
     q_tree_node.make 4 116 1694 1709 (- 1),
     q_tree_node.make 8 462 1695 1702 (- 1),
     q_tree_node.make 3 5329 1696 1699 (- 1),
     q_tree_node.make 4 58 1697 1698 (- 1),
     q_tree_node.make (- 1) 0 (- 1) (- 1) 1,
     q_tree_node.make (- 1) 0 (- 1) (- 1) 4,
     q_tree_node.make 3 5662 1700 1701 (- 1),
     q_tree_node.make (- 1) 0 (- 1) (- 1) 4,
     q_tree_node.make (- 1) 0 (- 1) (- 1) 4,
     q_tree_node.make 3 5798 1703 1706 (- 1),
     q_tree_node.make 8 991 1704 1705 (- 1),
     q_tree_node.make (- 1) 0 (- 1) (- 1) 4,
     q_tree_node.make (- 1) 0 (- 1) (- 1) 4,
     q_tree_node.make 8 2312 1707 1708 (- 1),
     q_tree_node.make (- 1) 0 (- 1) (- 1) 4,
     q_tree_node.make (- 1) 0 (- 1) (- 1) 1,
     q_tree_node.make 8 2576 1710 1713 (- 1),
     q_tree_node.make 4 158 1711 1712 (- 1),
     q_tree_node.make (- 1) 0 (- 1) (- 1) 4,
     q_tree_node.make (- 1) 0 (- 1) (- 1) 4,
     q_tree_node.make (- 1) 0 (- 1) (- 1) 1,
     q_tree_node.make (- 1) 0 (- 1) (- 1) 1,
     q_tree_node.make 7 1387 1716 1733 (- 1),
     q_tree_node.make 3 5782 1717 1726 (- 1),
     q_tree_node.make 1 3747 1718 1719 (- 1),
     q_tree_node.make (- 1) 0 (- 1) (- 1) 2,
     q_tree_node.make 7 595 1720 1723 (- 1),
     q_tree_node.make 8 1255 1721 1722 (- 1),
     q_tree_node.make (- 1) 0 (- 1) (- 1) 2,
     q_tree_node.make (- 1) 0 (- 1) (- 1) 4,
     q_tree_node.make 3 4998 1724 1725 (- 1),
     q_tree_node.make (- 1) 0 (- 1) (- 1) 2,
     q_tree_node.make (- 1) 0 (- 1) (- 1) 2,
     q_tree_node.make 8 2444 1727 1732 (- 1),
     q_tree_node.make 3 7390 1728 1731 (- 1),
     q_tree_node.make 4 75 1729 1730 (- 1),
     q_tree_node.make (- 1) 0 (- 1) (- 1) 4,
     q_tree_node.make (- 1) 0 (- 1) (- 1) 4,
     q_tree_node.make (- 1) 0 (- 1) (- 1) 4,
     q_tree_node.make (- 1) 0 (- 1) (- 1) 1,
     q_tree_node.make (- 1) 0 (- 1) (- 1) 2,
     q_tree_node.make 2 3089 1735 1792 (- 1),
     q_tree_node.make 4 520 1736 1759 (- 1),
     q_tree_node.make 0 1123 1737 1748 (- 1),
     q_tree_node.make 1 2645 1738 1745 (- 1),
     q_tree_node.make 6 1228 1739 1742 (- 1),
     q_tree_node.make 1 1450 1740 1741 (- 1),
     q_tree_node.make (- 1) 0 (- 1) (- 1) 1,
     q_tree_node.make (- 1) 0 (- 1) (- 1) 1,
     q_tree_node.make 3 5610 1743 1744 (- 1),
     q_tree_node.make (- 1) 0 (- 1) (- 1) 5,
     q_tree_node.make (- 1) 0 (- 1) (- 1) 5,
     q_tree_node.make 2 1587 1746 1747 (- 1),
     q_tree_node.make (- 1) 0 (- 1) (- 1) 1,
     q_tree_node.make (- 1) 0 (- 1) (- 1) 4,
     q_tree_node.make 1 2786 1749 1754 (- 1),
     q_tree_node.make 3 6822 1750 1753 (- 1),
     q_tree_node.make 0 1652 1751 1752 (- 1),
     q_tree_node.make (- 1) 0 (- 1) (- 1) 1]"

definition q_tree_part_12 :: "q_tree_node list" where
  "q_tree_part_12 = [
     q_tree_node.make (- 1) 0 (- 1) (- 1) 1,
     q_tree_node.make (- 1) 0 (- 1) (- 1) 1,
     q_tree_node.make 0 2973 1755 1758 (- 1),
     q_tree_node.make 0 1784 1756 1757 (- 1),
     q_tree_node.make (- 1) 0 (- 1) (- 1) 1,
     q_tree_node.make (- 1) 0 (- 1) (- 1) 1,
     q_tree_node.make (- 1) 0 (- 1) (- 1) 1,
     q_tree_node.make 3 4205 1760 1765 (- 1),
     q_tree_node.make 0 1387 1761 1764 (- 1),
     q_tree_node.make 2 864 1762 1763 (- 1),
     q_tree_node.make (- 1) 0 (- 1) (- 1) 7,
     q_tree_node.make (- 1) 0 (- 1) (- 1) 1,
     q_tree_node.make (- 1) 0 (- 1) (- 1) 1,
     q_tree_node.make 0 1916 1766 1789 (- 1),
     q_tree_node.make 2 2127 1767 1784 (- 1),
     q_tree_node.make 4 1014 1768 1773 (- 1),
     q_tree_node.make 1 2896 1769 1772 (- 1),
     q_tree_node.make 4 746 1770 1771 (- 1),
     q_tree_node.make (- 1) 0 (- 1) (- 1) 1,
     q_tree_node.make (- 1) 0 (- 1) (- 1) 1,
     q_tree_node.make (- 1) 0 (- 1) (- 1) 1,
     q_tree_node.make 6 1228 1774 1777 (- 1),
     q_tree_node.make 3 5422 1775 1776 (- 1),
     q_tree_node.make (- 1) 0 (- 1) (- 1) 1,
     q_tree_node.make (- 1) 0 (- 1) (- 1) 1,
     q_tree_node.make 3 5630 1778 1781 (- 1),
     q_tree_node.make 1 3202 1779 1780 (- 1),
     q_tree_node.make (- 1) 0 (- 1) (- 1) 5,
     q_tree_node.make (- 1) 0 (- 1) (- 1) 1,
     q_tree_node.make 1 2896 1782 1783 (- 1),
     q_tree_node.make (- 1) 0 (- 1) (- 1) 5,
     q_tree_node.make (- 1) 0 (- 1) (- 1) 5,
     q_tree_node.make 3 5766 1785 1786 (- 1),
     q_tree_node.make (- 1) 0 (- 1) (- 1) 1,
     q_tree_node.make 6 2048 1787 1788 (- 1),
     q_tree_node.make (- 1) 0 (- 1) (- 1) 1,
     q_tree_node.make (- 1) 0 (- 1) (- 1) 5,
     q_tree_node.make 2 1786 1790 1791 (- 1),
     q_tree_node.make (- 1) 0 (- 1) (- 1) 1,
     q_tree_node.make (- 1) 0 (- 1) (- 1) 1,
     q_tree_node.make 4 807 1793 1808 (- 1),
     q_tree_node.make 0 1255 1794 1797 (- 1),
     q_tree_node.make 1 2308 1795 1796 (- 1),
     q_tree_node.make (- 1) 0 (- 1) (- 1) 1,
     q_tree_node.make (- 1) 0 (- 1) (- 1) 4,
     q_tree_node.make 3 9651 1798 1807 (- 1),
     q_tree_node.make 7 330 1799 1806 (- 1),
     q_tree_node.make 4 318 1800 1803 (- 1),
     q_tree_node.make 3 5964 1801 1802 (- 1),
     q_tree_node.make (- 1) 0 (- 1) (- 1) 1,
     q_tree_node.make (- 1) 0 (- 1) (- 1) 1,
     q_tree_node.make 0 3105 1804 1805 (- 1),
     q_tree_node.make (- 1) 0 (- 1) (- 1) 1,
     q_tree_node.make (- 1) 0 (- 1) (- 1) 1,
     q_tree_node.make (- 1) 0 (- 1) (- 1) 1,
     q_tree_node.make (- 1) 0 (- 1) (- 1) 1,
     q_tree_node.make 0 2048 1809 1816 (- 1),
     q_tree_node.make 1 2116 1810 1811 (- 1),
     q_tree_node.make (- 1) 0 (- 1) (- 1) 1,
     q_tree_node.make 4 2020 1812 1815 (- 1),
     q_tree_node.make 1 3439 1813 1814 (- 1),
     q_tree_node.make (- 1) 0 (- 1) (- 1) 1,
     q_tree_node.make (- 1) 0 (- 1) (- 1) 1,
     q_tree_node.make (- 1) 0 (- 1) (- 1) 1,
     q_tree_node.make 3 6859 1817 1822 (- 1),
     q_tree_node.make 8 2180 1818 1821 (- 1),
     q_tree_node.make 3 5282 1819 1820 (- 1),
     q_tree_node.make (- 1) 0 (- 1) (- 1) 1,
     q_tree_node.make (- 1) 0 (- 1) (- 1) 7,
     q_tree_node.make (- 1) 0 (- 1) (- 1) 6,
     q_tree_node.make (- 1) 0 (- 1) (- 1) 1]"

definition smart_io_q_tree_nodes :: "q_tree_node list" where
  "smart_io_q_tree_nodes = q_tree_part_0 @ q_tree_part_1 @ q_tree_part_2 @ q_tree_part_3 @ q_tree_part_4 @ q_tree_part_5 @ q_tree_part_6 @ q_tree_part_7 @ q_tree_part_8 @ q_tree_part_9 @ q_tree_part_10 @ q_tree_part_11 @ q_tree_part_12"

end
