(* ===== verification/Q_Tree.thy ===== *)
theory Q_Tree
  imports Q_Tree_Data
begin

text \<open>
  The decision tree of \<open>smart_io_model_tree.h\<close>: the walk down the node table, and the check that the
  table is a tree.  The nodes are laid out in preorder, so one pass from the last node to the
  first, with a stack of the subtrees seen so far, checks every child index once.
\<close>

section \<open>The walk\<close>

definition SMART_IO_Q_TREE_NO_BASELINE :: int where "SMART_IO_Q_TREE_NO_BASELINE = 0"
definition SMART_IO_Q_TREE_STATE_DIM :: nat where "SMART_IO_Q_TREE_STATE_DIM = 11"
definition SMART_IO_Q_TREE_ACTION_COUNT :: int where "SMART_IO_Q_TREE_ACTION_COUNT = 12"
definition SMART_IO_Q_TREE_MAX_DEPTH :: nat where "SMART_IO_Q_TREE_MAX_DEPTH = 13"

text \<open>An array access; out of the bounds of the array it has no value.\<close>

definition array_at :: "'a list \<Rightarrow> int \<Rightarrow> 'a option" where
  "array_at xs i = (if 0 \<le> i \<and> nat i < length xs then Some (xs ! nat i) else None)"

text \<open>The loop: \<open>n\<close> iterations are left, and \<open>None\<close> stands for an access out of bounds.\<close>

fun q_tree_loop :: "q_tree_node list \<Rightarrow> nat \<Rightarrow> int list \<Rightarrow> int \<Rightarrow> int option" where
  "q_tree_loop nodes 0 state_q node_index = Some SMART_IO_Q_TREE_NO_BASELINE"
| "q_tree_loop nodes (Suc n) state_q node_index =
     (case array_at nodes node_index of
        None \<Rightarrow> None
      | Some node \<Rightarrow>
          if qn_feature node < 0 then Some (qn_action_id node)
          else (case array_at state_q (qn_feature node) of
                  None \<Rightarrow> None
                | Some q \<Rightarrow> q_tree_loop nodes n state_q (if q \<le> qn_threshold node then qn_left node else qn_right node)))"

definition smart_io_q_tree_predict :: "int list option \<Rightarrow> int option" where
  "smart_io_q_tree_predict state_q =
     (case state_q of
        None \<Rightarrow> Some SMART_IO_Q_TREE_NO_BASELINE
      | Some s \<Rightarrow> q_tree_loop smart_io_q_tree_nodes (SMART_IO_Q_TREE_MAX_DEPTH + 1) s 0)"

section \<open>Decision trees\<close>

datatype dtree = Leaf int | Split int int dtree dtree

fun decide :: "dtree \<Rightarrow> int list \<Rightarrow> int" where
  "decide (Leaf a) s = a"
| "decide (Split f t l r) s = (if s ! nat f \<le> t then decide l s else decide r s)"

fun depth_of :: "dtree \<Rightarrow> nat" where
  "depth_of (Leaf a) = 0"
| "depth_of (Split f t l r) = Suc (max (depth_of l) (depth_of r))"

fun tree_ok :: "dtree \<Rightarrow> bool" where
  "tree_ok (Leaf a) \<longleftrightarrow> 0 \<le> a \<and> a < SMART_IO_Q_TREE_ACTION_COUNT"
| "tree_ok (Split f t l r) \<longleftrightarrow> 0 \<le> f \<and> f < int SMART_IO_Q_TREE_STATE_DIM \<and> tree_ok l \<and> tree_ok r"

text \<open>The tree at an index of the table, read off the table itself.\<close>

fun tree_at :: "q_tree_node list \<Rightarrow> int \<Rightarrow> dtree \<Rightarrow> bool" where
  "tree_at nodes i (Leaf a) \<longleftrightarrow>
     (\<exists>n. array_at nodes i = Some n \<and> qn_feature n < 0 \<and> qn_action_id n = a)"
| "tree_at nodes i (Split f t l r) \<longleftrightarrow>
     (\<exists>n. array_at nodes i = Some n \<and> qn_feature n = f \<and> qn_threshold n = t \<and>
        tree_at nodes (qn_left n) l \<and> tree_at nodes (qn_right n) r)"

lemma decide_range: "tree_ok t \<Longrightarrow> 0 \<le> decide t s \<and> decide t s < SMART_IO_Q_TREE_ACTION_COUNT"
  by (induction t) auto

lemma loop_decides:
  "tree_at nodes i t \<Longrightarrow> tree_ok t \<Longrightarrow> length s = SMART_IO_Q_TREE_STATE_DIM \<Longrightarrow> depth_of t < n \<Longrightarrow>
    q_tree_loop nodes n s i = Some (decide t s)"
proof (induction t arbitrary: i n)
  case (Leaf a)
  then show ?case by (cases n) auto
next
  case (Split f t l r)
  then obtain m where m: "n = Suc m" "depth_of l < m" "depth_of r < m" by (cases n) auto
  obtain nd where nd: "array_at nodes i = Some nd" "qn_feature nd = f" "qn_threshold nd = t"
    "tree_at nodes (qn_left nd) l" "tree_at nodes (qn_right nd) r" using Split.prems(1) by auto
  have f: "0 \<le> f" "array_at s f = Some (s ! nat f)"
    using Split.prems(2,3) by (auto simp: array_at_def)
  show ?case using Split.IH(1) [OF nd(4) _ Split.prems(3) m(2)] Split.IH(2) [OF nd(5) _ Split.prems(3) m(3)]
      Split.prems(2) nd(1-3) f m(1) by simp
qed

section \<open>The check of the table\<close>

fun scan_node :: "int \<Rightarrow> q_tree_node \<Rightarrow> (int \<times> nat) list \<Rightarrow> (int \<times> nat) list option" where
  "scan_node i n st =
     (if qn_feature n < 0 then
        (if 0 \<le> qn_action_id n \<and> qn_action_id n < 12 then Some ((i, 0) # st) else None)
      else
        (case st of
           (l, hl) # (r, hr) # st' \<Rightarrow>
             if qn_feature n < 11 \<and> qn_left n = l \<and> qn_right n = r then Some ((i, Suc (max hl hr)) # st') else None
         | _ \<Rightarrow> None))"

fun scan_nodes :: "int \<Rightarrow> q_tree_node list \<Rightarrow> (int \<times> nat) list \<Rightarrow> (int \<times> nat) list option" where
  "scan_nodes i [] st = Some st"
| "scan_nodes i (n # ns) st =
     (case scan_nodes (i + 1) ns st of None \<Rightarrow> None | Some st' \<Rightarrow> scan_node i n st')"

lemma scan_append:
  "scan_nodes i (xs @ ys) st =
    (case scan_nodes (i + int (length xs)) ys st of None \<Rightarrow> None | Some st' \<Rightarrow> scan_nodes i xs st')"
proof (induction xs arbitrary: i)
  case (Cons x xs)
  have "i + 1 + int (length xs) = i + int (length (x # xs))" by simp
  then show ?case using Cons.IH [of "i + 1"]
    by (simp add: add.assoc del: scan_node.simps split: option.split)
qed (simp split: option.split)

definition holds_tree :: "q_tree_node list \<Rightarrow> int \<times> nat \<Rightarrow> bool" where
  "holds_tree nodes p \<longleftrightarrow> (\<exists>t. tree_at nodes (fst p) t \<and> tree_ok t \<and> depth_of t = snd p)"

lemma scan_node_sound:
  assumes "array_at nodes i = Some n" and "scan_node i n st = Some st'" and "\<forall>p \<in> set st. holds_tree nodes p"
  shows "\<forall>p \<in> set st'. holds_tree nodes p"
proof (cases "qn_feature n < 0")
  case True
  then have a: "0 \<le> qn_action_id n" "qn_action_id n < 12" "st' = (i, 0) # st"
    using assms(2) by (auto split: if_splits)
  have "holds_tree nodes (i, 0)"
    unfolding holds_tree_def
    by (rule exI [of _ "Leaf (qn_action_id n)"]) (use assms(1) a(1,2) True in \<open>simp add: SMART_IO_Q_TREE_ACTION_COUNT_def\<close>)
  then show ?thesis using a(3) assms(3) by simp
next
  case False
  then obtain hl hr st'' where s: "st = (qn_left n, hl) # (qn_right n, hr) # st''"
    "st' = (i, Suc (max hl hr)) # st''" "qn_feature n < 11"
    using assms(2) by (auto split: list.splits if_splits)
  then obtain l r where lr: "tree_at nodes (qn_left n) l" "tree_ok l" "depth_of l = hl"
    "tree_at nodes (qn_right n) r" "tree_ok r" "depth_of r = hr"
    using assms(3) by (auto simp: holds_tree_def)
  have "holds_tree nodes (i, Suc (max hl hr))"
    unfolding holds_tree_def
    by (rule exI [of _ "Split (qn_feature n) (qn_threshold n) l r"])
      (use assms(1) lr s(3) False in \<open>simp add: SMART_IO_Q_TREE_STATE_DIM_def\<close>)
  then show ?thesis using s(1,2) assms(3) by simp
qed

lemma scan_sound:
  "nodes = pre @ ns \<Longrightarrow> i = int (length pre) \<Longrightarrow> scan_nodes i ns [] = Some st \<Longrightarrow> \<forall>p \<in> set st. holds_tree nodes p"
proof (induction ns arbitrary: pre i st)
  case (Cons n ns)
  then obtain st' where s: "scan_nodes (i + 1) ns [] = Some st'" "scan_node i n st' = Some st"
    by (auto split: option.splits)
  have "\<forall>p \<in> set st'. holds_tree nodes p"
    using Cons.IH [of "pre @ [n]" "i + 1"] Cons.prems(1,2) s(1) by simp
  moreover have "array_at nodes i = Some n" using Cons.prems(1,2) by (simp add: array_at_def)
  ultimately show ?case using scan_node_sound s(2) by blast
qed simp

section \<open>The table is a tree\<close>

lemma scan_part_12: "scan_nodes 1752 q_tree_part_12 [] = Some [(1752, 0), (1753, 0), (1754, 2), (1759, 7), (1792, 6)]"
  by (simp add: q_tree_part_12_def q_tree_node.defs)

lemma scan_part_11: "scan_nodes 1606 q_tree_part_11 [(1752, 0), (1753, 0), (1754, 2), (1759, 7), (1792, 6)] = Some [(1606, 0), (1607, 0), (1608, 4), (1617, 6), (1634, 6), (1661, 8), (1734, 9)]"
  by (simp add: q_tree_part_11_def q_tree_node.defs)

lemma scan_part_10: "scan_nodes 1460 q_tree_part_10 [(1606, 0), (1607, 0), (1608, 4), (1617, 6), (1634, 6), (1661, 8), (1734, 9)] = Some [(1460, 2), (1465, 3), (1476, 5), (1495, 6), (1534, 7), (1571, 9), (1734, 9)]"
  by (simp add: q_tree_part_10_def q_tree_node.defs)

lemma scan_part_9: "scan_nodes 1314 q_tree_part_9 [(1460, 2), (1465, 3), (1476, 5), (1495, 6), (1534, 7), (1571, 9), (1734, 9)] = Some [(1314, 2), (1319, 3), (1328, 2), (1333, 5), (1346, 4), (1359, 4), (1374, 11)]"
  by (simp add: q_tree_part_9_def q_tree_node.defs)

lemma scan_part_8: "scan_nodes 1168 q_tree_part_8 [(1314, 2), (1319, 3), (1328, 2), (1333, 5), (1346, 4), (1359, 4), (1374, 11)] = Some [(1168, 2), (1173, 4), (1192, 6), (1241, 9), (1374, 11)]"
  by (simp add: q_tree_part_8_def q_tree_node.defs)

lemma scan_part_7: "scan_nodes 1022 q_tree_part_7 [(1168, 2), (1173, 4), (1192, 6), (1241, 9), (1374, 11)] = Some [(1022, 0), (1023, 2), (1030, 4), (1045, 10), (1374, 11)]"
  by (simp add: q_tree_part_7_def q_tree_node.defs)

lemma scan_part_6: "scan_nodes 876 q_tree_part_6 [(1022, 0), (1023, 2), (1030, 4), (1045, 10), (1374, 11)] = Some [(876, 4), (889, 5), (910, 6), (935, 7), (974, 9), (1045, 10), (1374, 11)]"
  by (simp add: q_tree_part_6_def q_tree_node.defs)

lemma scan_part_5: "scan_nodes 730 q_tree_part_5 [(876, 4), (889, 5), (910, 6), (935, 7), (974, 9), (1045, 10), (1374, 11)] = Some [(730, 0), (731, 3), (740, 12)]"
  by (simp add: q_tree_part_5_def q_tree_node.defs)

lemma scan_part_4: "scan_nodes 584 q_tree_part_4 [(730, 0), (731, 3), (740, 12)] = Some [(584, 0), (585, Suc 0), (588, 6), (623, 4), (638, 5), (659, 10), (740, 12)]"
  by (simp add: q_tree_part_4_def q_tree_node.defs)

lemma scan_part_3: "scan_nodes 438 q_tree_part_3 [(584, 0), (585, Suc 0), (588, 6), (623, 4), (638, 5), (659, 10), (740, 12)] = Some [(438, 0), (439, 0), (440, 0), (441, 5), (458, 2), (465, 3), (474, 5), (495, 11), (740, 12)]"
  by (simp add: q_tree_part_3_def q_tree_node.defs)

lemma scan_part_2: "scan_nodes 292 q_tree_part_2 [(438, 0), (439, 0), (440, 0), (441, 5), (458, 2), (465, 3), (474, 5), (495, 11), (740, 12)] = Some [(292, 0), (293, Suc 0), (296, 0), (297, 4), (314, 5), (333, 0), (334, 7), (375, 7), (424, 10), (495, 11), (740, 12)]"
  by (simp add: q_tree_part_2_def q_tree_node.defs)

lemma scan_part_1: "scan_nodes 146 q_tree_part_1 [(292, 0), (293, Suc 0), (296, 0), (297, 4), (314, 5), (333, 0), (334, 7), (375, 7), (424, 10), (495, 11), (740, 12)] = Some [(146, 0), (147, 0), (148, 0), (149, Suc 0), (152, 3), (159, 3), (170, 8), (277, 9), (424, 10), (495, 11), (740, 12)]"
  by (simp add: q_tree_part_1_def q_tree_node.defs)

lemma scan_part_0: "scan_nodes 0 q_tree_part_0 [(146, 0), (147, 0), (148, 0), (149, Suc 0), (152, 3), (159, 3), (170, 8), (277, 9), (424, 10), (495, 11), (740, 12)] = Some [(0, 13)]"
  by (simp add: q_tree_part_0_def q_tree_node.defs)

lemma length_part_0 [simp]: "length q_tree_part_0 = 146"
  by (simp add: q_tree_part_0_def)

lemma length_part_1 [simp]: "length q_tree_part_1 = 146"
  by (simp add: q_tree_part_1_def)

lemma length_part_2 [simp]: "length q_tree_part_2 = 146"
  by (simp add: q_tree_part_2_def)

lemma length_part_3 [simp]: "length q_tree_part_3 = 146"
  by (simp add: q_tree_part_3_def)

lemma length_part_4 [simp]: "length q_tree_part_4 = 146"
  by (simp add: q_tree_part_4_def)

lemma length_part_5 [simp]: "length q_tree_part_5 = 146"
  by (simp add: q_tree_part_5_def)

lemma length_part_6 [simp]: "length q_tree_part_6 = 146"
  by (simp add: q_tree_part_6_def)

lemma length_part_7 [simp]: "length q_tree_part_7 = 146"
  by (simp add: q_tree_part_7_def)

lemma length_part_8 [simp]: "length q_tree_part_8 = 146"
  by (simp add: q_tree_part_8_def)

lemma length_part_9 [simp]: "length q_tree_part_9 = 146"
  by (simp add: q_tree_part_9_def)

lemma length_part_10 [simp]: "length q_tree_part_10 = 146"
  by (simp add: q_tree_part_10_def)

lemma length_part_11 [simp]: "length q_tree_part_11 = 146"
  by (simp add: q_tree_part_11_def)

lemma scan_table: "scan_nodes 0 smart_io_q_tree_nodes [] = Some [(0, 13)]"
  by (simp add: smart_io_q_tree_nodes_def scan_append scan_part_0 scan_part_1 scan_part_2 scan_part_3 scan_part_4 scan_part_5 scan_part_6 scan_part_7 scan_part_8 scan_part_9 scan_part_10 scan_part_11 scan_part_12)

lemma table_is_tree:
  obtains t where "tree_at smart_io_q_tree_nodes 0 t" "tree_ok t" "depth_of t = SMART_IO_Q_TREE_MAX_DEPTH"
proof -
  have "holds_tree smart_io_q_tree_nodes (0, 13)"
    using scan_sound [of smart_io_q_tree_nodes "[]" smart_io_q_tree_nodes 0, OF _ _ scan_table] by simp
  then show ?thesis using that by (auto simp: holds_tree_def SMART_IO_Q_TREE_MAX_DEPTH_def)
qed

text \<open>C20: the node table is a decision tree of depth exactly 13, and on every state the bounded walk ends at a leaf of it: it makes no access out of bounds, never exhausts its iterations, and returns the decision of the tree, a valid action.\<close>

theorem tree_walk_decides:
  "\<exists>t. tree_at smart_io_q_tree_nodes 0 t \<and> depth_of t = SMART_IO_Q_TREE_MAX_DEPTH \<and>
    (\<forall>s. length s = SMART_IO_Q_TREE_STATE_DIM \<longrightarrow>
       smart_io_q_tree_predict (Some s) = Some (decide t s) \<and>
       0 \<le> decide t s \<and> decide t s < SMART_IO_Q_TREE_ACTION_COUNT)"
proof -
  obtain t where t: "tree_at smart_io_q_tree_nodes 0 t" "tree_ok t" "depth_of t = SMART_IO_Q_TREE_MAX_DEPTH"
    by (rule table_is_tree)
  show ?thesis
    by (rule exI [of _ t]) (use t loop_decides [OF t(1,2)] decide_range [OF t(2)] in \<open>simp add: smart_io_q_tree_predict_def del: q_tree_loop.simps\<close>)
qed

text \<open>An idle device (all ratios zero) and the decision the walk reaches for it.\<close>

lemma tree_walk_decides_witness:
  "smart_io_q_tree_predict (Some (replicate 11 0)) \<noteq> None \<and> length (replicate 11 (0 :: int)) = SMART_IO_Q_TREE_STATE_DIM"
  using tree_walk_decides by (auto simp: SMART_IO_Q_TREE_STATE_DIM_def)

end
