(* ===== verification/Fp32_Params.thy ===== *)
theory Fp32_Params
  imports Prelude
begin

text \<open>
  The constants of \<open>smart_io_model_fp32_params.h\<close>, as single-precision bit patterns: the scaler of the
  inputs and the weights of the three layers.
\<close>

record smart_io_model_fp32_scaler_bits =
  fs_mean :: "u32 list"
  fs_std :: "u32 list"
  fs_clip :: u32

record smart_io_model_fp32_bits =
  fm_weight1 :: "u32 list list"
  fm_bias1 :: "u32 list"
  fm_weight2 :: "u32 list list"
  fm_bias2 :: "u32 list"
  fm_joint_weight :: "u32 list list"
  fm_joint_bias :: "u32 list"

definition smart_io_fp32_scaler :: smart_io_model_fp32_scaler_bits where
  "smart_io_fp32_scaler = \<lparr>
     fs_mean = [0x3e96dfe8, 0x3e8e3a5d, 0x3f07b928, 0x3fca89ad, 0x3de6a2f7, 0x3f756a90, 0x3ea07b43, 0x3d85675b,
       0x3d228740, 0x3b4029e8, 0x3c96a5fe],
     fs_std = [0x3e8b8e38, 0x3ecd097a, 0x3ec1a9b7, 0x401d0929, 0x3e36361d, 0x3e142a57, 0x3ed4062a, 0x3e3f98c9,
       0x3e1d188f, 0x3d43d83f, 0x3df51e75],
     fs_clip = 0x40a00000\<rparr>"

definition fp32_weight1_0 :: "u32 list list" where
  "fp32_weight1_0 =
     [[0xbe66ff75, 0x3e7b3884, 0x3befb3bc, 0x3f1b0832, 0x3de23348, 0x3c758cac, 0xbe2ed48d, 0x3e9ec02d,
       0x3da65417, 0xbf434e0f, 0x3e4658d6],
      [0x3da76775, 0x3d8b45d6, 0x3eaf2ade, 0x3f446984, 0xbe84830a, 0xbe40c808, 0x3dbd7390, 0x3dd30a81,
       0x3e0fc5aa, 0xbdca3837, 0x3de75644],
      [0x3e1cdf3d, 0xbe8cf91d, 0xbbb60d84, 0x3cb9d274, 0x3da1555b, 0x3d96981a, 0x3ebe8071, 0x3e65758c,
       0xbdba188d, 0x3d73380b, 0x3d670748],
      [0x3d23d758, 0x3ecc40da, 0xbce3bee8, 0x3d3cb4fc, 0xbf81ccb0, 0xbd550fbe, 0xbe90eb3f, 0x3e839059,
       0x3d0b7ab3, 0xbd91dae4, 0xbf356cb2],
      [0xbf24e8e1, 0xbe89ce7a, 0x3d4e28e1, 0xbe4b4a76, 0x3dadaf5e, 0x3df53796, 0x3df0a668, 0x3ea174f9,
       0xbf7c3ba6, 0x3ebb8aed, 0x3c8d504d],
      [0xbe11cb46, 0xbd3e86e2, 0xbd370cbd, 0xbe410c98, 0x3e7f5361, 0xbd6da03f, 0x3db05e4a, 0x3da1bbc3,
       0xbe985f03, 0x3d389826, 0xbfec59f3],
      [0xbe7a3216, 0xbea359c1, 0x3e56d9e8, 0x3f3d5880, 0xbbb75891, 0x3e422aca, 0xbeb1d9a3, 0x3e979bae,
       0xbe95927e, 0x3e564422, 0x3dc9f3e5],
      [0xbe99f5cf, 0x3e19e730, 0x3dbeb9f2, 0x3d945eac, 0xbe560b4b, 0x3f2badd9, 0x3d807562, 0xbf6463b2,
       0x3d693fb4, 0x3e913387, 0x3defb068],
      [0x3e6debd4, 0x3dc04139, 0xbd51234e, 0xbcb8a444, 0xbfb2864b, 0x3c88846a, 0xbc683b80, 0xbae11834,
       0x3c667972, 0x3d966b87, 0xbd322242],
      [0x3ebcf971, 0x3e470ad5, 0xbd144c64, 0x3e233706, 0xbf26c7a6, 0x3d0b3d2c, 0xbf0a9413, 0x3bac5f60,
       0xbe181129, 0xbcb1c4b9, 0x3c97914f],
      [0xbec3d22d, 0x3e01df22, 0xbe88952a, 0xbe556eb3, 0xbe617de8, 0xbcb8ecf0, 0x3d48197b, 0x3d597265,
       0x3d966c48, 0xbe628528, 0x3d6b89c7],
      [0x3acd8257, 0x3dd93af5, 0x3e214886, 0x3e288012, 0x3e3a415e, 0xbd8b0a0b, 0xbf10aec7, 0x3e098be2,
       0x3da6c2dc, 0xbf3ae4ef, 0xbde1485e],
      [0x3ed837ea, 0xbf0bd62c, 0xbe908cc0, 0x3e342d79, 0x3e7a631c, 0xbada0f69, 0xbdb6578e, 0x3c4d3907,
       0x3e93036d, 0xbf469b55, 0xbc16826c],
      [0x3e94d586, 0x3daec67d, 0xbde74605, 0x3f21494e, 0xbe5a2266, 0xbe9f6a92, 0xbdac390a, 0xbf1fee98,
       0xbd4d47c1, 0xbb858b9b, 0x3d87de8b],
      [0x3eae6631, 0x3d6a7010, 0xbcca7097, 0x3d03280f, 0xbec74539, 0x3f4b7e9d, 0xbe7b8685, 0xbd722f95,
       0xbd9132bd, 0xbf3db100, 0xbeea5fe1],
      [0xbef69cc8, 0x3cb626a9, 0x3d73436b, 0xbd701388, 0x3ec63f62, 0xbc5d5159, 0xbdea3149, 0xbf18d2c9,
       0xbe1e0ab6, 0xbe9b9a4d, 0x3d2798b3]]"

definition fp32_weight1_1 :: "u32 list list" where
  "fp32_weight1_1 =
     [[0x3e1a9adb, 0x3e008e14, 0xbc8acd03, 0xbe2bb3f1, 0xbe172852, 0x3e5e56ef, 0xbdc5ee97, 0xbe3086e0,
       0x3e5adba1, 0xbba32598, 0x3d959a4c],
      [0x3ea04998, 0x3e82ca42, 0xbecb87ef, 0xbe1763bb, 0xbe89219e, 0x3cae8d7a, 0x3e2741ee, 0x3f155f67,
       0x3e830651, 0xbe98a48b, 0xbea3fd81],
      [0x3e05624f, 0x3d52e386, 0x3a13ffc4, 0x3f3bfca2, 0x3bc770ec, 0xbd6264ac, 0x3dbce749, 0x3d201a68,
       0x3da10988, 0x3df344a1, 0xbe6047f5],
      [0xbeb2494c, 0xbe3aaccb, 0x3eb2d8c5, 0x3db04c5a, 0xbe5315a3, 0x3f21ad48, 0x3d20d583, 0xbe6a1102,
       0xbf14af60, 0xbea62d76, 0xbf760eaf],
      [0xbe04be18, 0xbdb04c6c, 0x3e986d17, 0xbe0c006b, 0xbeaaeb9b, 0xbc7726fd, 0x3e7d0ea1, 0xbedd6a64,
       0x3db917ac, 0xbe169534, 0x3be63308],
      [0x3d29c29b, 0xbea72d09, 0xbe856a6e, 0x3f023c47, 0xbf0291c8, 0x3da5659a, 0xbe622681, 0x3e9b56b2,
       0x3deacad0, 0x3d86b58a, 0xbf11144d],
      [0xbec2929a, 0xbd21e409, 0x3d17cec6, 0x3e3cda65, 0xbf418f3d, 0xbd64e687, 0x3e2b97a7, 0x3d0d75d4,
       0x3ddfa9e6, 0xbddd12e5, 0xbf7c90da],
      [0x3e330711, 0x3ed8963d, 0xbeaa02a8, 0x3ede5e6d, 0x3ee3a308, 0xbcb0f245, 0x3de0a8e2, 0x3ddb4f6e,
       0x3e720358, 0xbb089ff6, 0xbd076cca],
      [0xbda40d20, 0x3ea8b05c, 0xbccffb88, 0x3ce3bf58, 0xbfb183c8, 0x3e56302b, 0xbe715be5, 0xbbbdd4e8,
       0xbd0889e2, 0x3df36ace, 0x3cbd9067],
      [0x3e2638a6, 0xbd83f216, 0xbd65e89a, 0xc027d188, 0x3dbc4cd2, 0xbb382970, 0x3d6188c4, 0xbdb1e347,
       0xbdceb988, 0x3d928713, 0xbdd5fe36],
      [0x3ed865ff, 0xbe0cad84, 0x3cbe2c5c, 0xbf3662b4, 0x3f02af92, 0x3f19671e, 0x3e1061e4, 0x3d85479c,
       0x3d6eadc2, 0xbc18a58c, 0x3d8b7eec],
      [0x3d229646, 0x3e28f0de, 0x3e8c4091, 0xbf8c3306, 0xbf8ba2ca, 0x3d6d7216, 0xbde565f8, 0x3dc0cc55,
       0x3e7d76e2, 0x3e8df871, 0x3b49aba9],
      [0xbf4d956a, 0x3e475237, 0xbe852896, 0xbe857dec, 0xbd36bc60, 0xbdc9e72a, 0xbe4b8140, 0xbf3f26ff,
       0x3e67af59, 0xbd86534f, 0x3ccfbf4d],
      [0x3d17016a, 0x3d90c25a, 0x3eafe323, 0xbd86e7e7, 0xbf049ed8, 0xbe981dbe, 0x3e2e5038, 0x3eaf2962,
       0xbced540c, 0xbe9cb1ea, 0x3cd22460],
      [0x3e14f785, 0x3d867d37, 0x3f0c4c65, 0xbe8e9f32, 0x3e8b9258, 0xbe193ec1, 0xbc4f3420, 0xbf239f9e,
       0xbdf5dfa2, 0xbe724ca0, 0xbecf36ad],
      [0x3d3dcd31, 0x3e05289d, 0x3edbcefa, 0xbfcd704d, 0xbe471e04, 0x3e6be776, 0xbe500300, 0x3ee35fc6,
       0x3bf3ead8, 0xbefe4445, 0xbdcb7cd4]]"

definition fp32_bias1 :: "u32 list" where
  "fp32_bias1 = [0xbe945376, 0xbed3b97a, 0x3eb21c2c, 0xbed80739, 0xbeacc61a, 0xbe169329, 0xbe3417a2, 0x3db79bfd,
       0xbf43e79f, 0xbe56692a, 0x3e58d3b0, 0x3e07caad, 0xbd554f12, 0xbc9e45f5, 0xbd2c5ab6, 0xbc37399c,
       0x3eda0765, 0xbe6d1042, 0x3dd81827, 0xbe5c9427, 0x3e8ec6ba, 0xbed30ef6, 0xbcca6e53, 0x3e0899e3,
       0xbf0512b7, 0xbe462261, 0xbf021233, 0xbe6edf88, 0xbee5de50, 0xbe3518e8, 0xbeffa671, 0xbdc29f3e]"

definition fp32_weight2_0 :: "u32 list list" where
  "fp32_weight2_0 =
     [[0x3ea2cf00, 0x3d8988e2, 0x3e936eee, 0x3d513ed8, 0xbdf235f8, 0xbd805074, 0x3dcc1bef, 0xbe1b7c73,
       0x3f01e053, 0x3dcc5c52, 0xbdc21802, 0xbd64c822, 0x3e3da1e2, 0xbdfe8b54, 0xbd968a2c, 0xbfa98207,
       0xbe2c4748, 0x3dfc414b, 0x3dc56d7e, 0xbd523707, 0x3c8cd794, 0xbf05f77d, 0x3ebd1462, 0xbee93beb,
       0x3f1a8b23, 0x3e806063, 0x3e81c4a6, 0x3d019586, 0x3e83ac59, 0xbe845989, 0x3bdc5f2f, 0x3e42702c],
      [0xbe25e305, 0x3e687f19, 0x3db4f27f, 0xbd573bb6, 0x3e5c96d8, 0x3e0cdbe9, 0xbe54af5d, 0x3e7c4036,
       0x3c39fd04, 0x3c3a6a6b, 0x3e45b622, 0xbd8102b6, 0xbe1a719e, 0xbd277182, 0x3f07ebb3, 0xbd8d1af8,
       0xbd3dc4dc, 0xbe0a4e58, 0xbe6bcc33, 0xbdd2a262, 0x3e57fb5c, 0x3e8c2de4, 0xbe89b231, 0x3d5329aa,
       0x3db38769, 0xbe9c933f, 0x3e958856, 0x3c271688, 0xbdb6b4a2, 0x3cb66fb8, 0xbdae4c4e, 0x3cce1e6b],
      [0xbe6f1d96, 0xbe6ad58a, 0xbcaf9a21, 0xbeb22342, 0xbe836aad, 0xbd401dc3, 0xbdfe4323, 0xbde67db8,
       0x3e5f5bb2, 0xbd229204, 0xbdde5c00, 0xbd1a2fd7, 0x3ece3af6, 0x3e67e1ca, 0xbe78ee44, 0xbe47691b,
       0x3cfa942e, 0xbe5731fd, 0xbe85c48e, 0xbd4eea60, 0xbe98bee4, 0x3e1801e0, 0x3da37fd9, 0x3e834d87,
       0x3eafc9ff, 0xbe48a1c5, 0xbea2bcdb, 0x3e0abea3, 0x3e6bc039, 0x3a9b886f, 0x3cb20e63, 0x3f18b34e],
      [0x3e3e5b1a, 0xbd8b7ed3, 0x3ea74dee, 0xbecdba69, 0xbd3beb05, 0xbf0ebcf3, 0x3ea4e510, 0x3d41c889,
       0x3f07dd5d, 0xbd1206a7, 0xbcd5ff75, 0x3e810464, 0x3d735682, 0xbe31bf77, 0xbf0057ca, 0xbeac89cf,
       0x3dbd745a, 0x3dcdde08, 0xbe10d587, 0xbe980364, 0xbe6bbd14, 0xbe6e1eb3, 0xbe53d738, 0xbe44440d,
       0xbf8a61fd, 0xbe5a2a6f, 0xbf96f4f4, 0x3c1bd86a, 0xbfb10bee, 0xbe006261, 0xbec8d574, 0xbea8af5e],
      [0xbf0dda97, 0x3ca1e9e9, 0x3e76dda2, 0x3e53ed50, 0xbf5d389b, 0xbe1570ef, 0xbe801ff6, 0xbd8e56e5,
       0x3cdff5fe, 0xbd6ee316, 0xbe03aa12, 0x3ecd59a4, 0xbd62a0f3, 0xbf05336a, 0x3d32dfa0, 0xbe220f7b,
       0x3c612a9c, 0xbeba9ade, 0x3d45fc7c, 0xbea26ab7, 0xbde9c8da, 0xbec2c055, 0x3df4bbec, 0x3cff0189,
       0x3dd09b8d, 0xbe5e465b, 0x3ecf5064, 0x3e2f31ea, 0x3e962d05, 0x3e888c2f, 0xbb56dfff, 0x3d77b4ff],
      [0xbe39cca5, 0x3e2cd267, 0xbe0015cf, 0x3e361b41, 0x3deaabd2, 0xbe0ddb17, 0xbce98066, 0xbdda1358,
       0xbe20f882, 0x3ca84139, 0xbdca9da3, 0xbe1c80f5, 0xbcc18e46, 0xbe1bf673, 0xbe1c4f56, 0x3dbb8e8d,
       0xbdd674cd, 0xbe03c5f3, 0xbe195530, 0xbe1b8099, 0xbdad4e48, 0x3bde2155, 0x3dbadd52, 0xbd02c139,
       0xbda23ec4, 0xbd897de0, 0xbe0eceb6, 0xbdcee8b9, 0x3c1433a0, 0xbdd2bbc8, 0x3c9e54c7, 0x3d7f7a30],
      [0xbec18ad1, 0xbe55eaf4, 0xbeae9973, 0x3db91b3d, 0xbcd9e3ae, 0x3e8464d7, 0xbd6d48d5, 0xbd117c3c,
       0x3de77818, 0x3e957a54, 0x3d771820, 0x3e6be790, 0xbe09b34a, 0xbe5b8f70, 0xbd1c00ad, 0x3e36bc5e,
       0xbe95fbfd, 0x3ec5e0bd, 0xbec674aa, 0x3da6f277, 0x3e1c8b1e, 0xbdadbcef, 0xbcc2debd, 0xbe780ee8,
       0x3e58e9c7, 0x3eeb475f, 0x3eeb86e6, 0xbe1703d6, 0x3f003de9, 0x3e14e247, 0x3e13b66b, 0xbd79dc42],
      [0xbe32a13d, 0xbecaf382, 0x3dbe88ad, 0xbe4a4509, 0xbee2bd34, 0xbfa9ce28, 0x3ed28b09, 0x3d00d9f1,
       0xbff74a14, 0x3d8ad704, 0xbeacdb2f, 0x3e0400dc, 0x3dfdbe81, 0xbe070e34, 0xbe4c44ef, 0xbef99757,
       0x3b6f90ae, 0xbea1ecad, 0xbe01f8cb, 0xbee0ffec, 0x3eaf5512, 0x3e1e5f28, 0xbee4ac9f, 0xbc54e820,
       0x3dce2a87, 0xbf5c77a2, 0xbedbd450, 0xbf8fa6c9, 0xbc4133b4, 0x3eca6d19, 0xbf7b19ec, 0x3ac1833c]]"

definition fp32_weight2_1 :: "u32 list list" where
  "fp32_weight2_1 =
     [[0x3e990468, 0x3eb797ab, 0xbec1a5cc, 0xbd2ac257, 0x3eb36d31, 0x3e42fe0b, 0x3e25bfd6, 0xbecaf464,
       0x3d94447a, 0x3dfc258e, 0x3e062da7, 0xbacfa955, 0xbe81f7d3, 0x3e229469, 0xbf094b52, 0x3ea02a77,
       0x3e430986, 0x3c972d7d, 0xb9f15c8a, 0xbf6c986d, 0xbfb399aa, 0xbdb9ced4, 0xbe285e84, 0xbe82d88e,
       0x3e6e2971, 0x3f135ccc, 0x3de9e511, 0x3e4d35db, 0xbf5334a2, 0xbdde35d7, 0xbf0632dc, 0xbda9c78d],
      [0x3e05f99d, 0xbd442560, 0xbd1ed704, 0xbd0df59d, 0xbdaf052f, 0x3d94f4ad, 0x3d5f2713, 0xbdcde627,
       0xbc303642, 0xbe49a9da, 0xbe135261, 0xbdfb415f, 0xbd9fc276, 0xbd427534, 0x3de7eff1, 0xbda50579,
       0xbd67bc68, 0xbda0b4f0, 0xbe1d7c07, 0xbdb5b2ae, 0xbe47c1c7, 0x3d061aa8, 0x3d8ee21f, 0xbd03a3f3,
       0xbd921ab6, 0x3ce487e3, 0xbdb7d0d4, 0x3cf1b7c7, 0xbdd1fb80, 0x3d97bc8b, 0xbe2caa4e, 0xbd0ad1ac],
      [0xbe40435c, 0xbf47d2a5, 0xbf348d65, 0x3c98247c, 0xbeed91bb, 0xbe9002bc, 0x3e26abec, 0x3df4854b,
       0x3d133362, 0x3e8880d0, 0xbdb732cb, 0x3ea62b9b, 0xbf3d16c5, 0xbe786b7b, 0x3db27c02, 0x3d9af81f,
       0x3e06d265, 0xbe6300bf, 0x3e3b8a68, 0xbcd314bd, 0xbe841110, 0x3e4c7a30, 0x3b286c09, 0x3e822ae0,
       0xbe1fd99c, 0x3e3380b7, 0xbfffcff8, 0xbd0d2324, 0xbf9a6fdd, 0xbf452a8a, 0xbf030b68, 0x3e18caa9],
      [0xbdebea05, 0x3e0ea2cd, 0xbdc9027f, 0x3e22681b, 0x3db4c94d, 0xbe45857a, 0xbcccddbe, 0xbe021d0d,
       0xbdfaa15e, 0xbdd9e2ba, 0xbe1a963a, 0xbd4548f3, 0xbe4187ff, 0xbe1749d5, 0xbe0c7d70, 0x3d716c10,
       0xbe31935e, 0xbe0d5bd9, 0xbdd4cf53, 0x3df92fe4, 0x3dbe966f, 0xbd09b633, 0x3d8d2930, 0xbdc8f24a,
       0xbe2a35bc, 0xbe351ca0, 0x3de14d15, 0x3d536c69, 0x3afd12e1, 0xbe4f55d4, 0xbd1382a5, 0xbce7994e],
      [0xbeb5bbcb, 0x3dad52be, 0x3e2080f9, 0x3e8911c7, 0xbe803baa, 0x3e213f86, 0x3dbf6af2, 0x3e3ba653,
       0x3f058e2f, 0x3dba1473, 0x3de80555, 0xbd2ac1f7, 0xbe69d13b, 0x3e357133, 0x3e00a17b, 0xbd8646af,
       0x3e89f4e3, 0xbe1ad84a, 0x3e001631, 0x3d8afb76, 0x3e0699fe, 0x3e002101, 0xbe0cf6f5, 0xbd8adb0d,
       0xbe4bcf97, 0xbe50b49c, 0xbc99ae52, 0xbe091dc3, 0x3d269811, 0xbe88d5fb, 0xbdde6f25, 0x3e237242],
      [0x3eda9d56, 0x3e51c93f, 0xbd8d543c, 0xbf812dfe, 0x3c26053e, 0xbd9a4eac, 0xbeb503f3, 0x3e49a9b2,
       0x3f1846e5, 0x3e3ac21f, 0xbe5f83d4, 0xbdd6e70c, 0xbf602366, 0xbf1c5ccd, 0x3e2eafe4, 0xbc201ad7,
       0xbe5dfbc7, 0xbde13bb6, 0x3c14d74f, 0x3eb1e44c, 0x3e0632f0, 0xbeea9afd, 0xbe078232, 0x3eb40a9e,
       0x3edd1501, 0xbf60a009, 0x3dbf7510, 0xbe023332, 0xbe24e960, 0xbd711d55, 0xbee08d27, 0x3e8c77d6],
      [0x3e18b3fb, 0x3cda226a, 0xbde23dc7, 0x3edecae0, 0x3dbb3a19, 0x3e52b1b0, 0x3bffd9b5, 0xbeea8566,
       0xbf4e818f, 0xbf267b29, 0xbe9af02d, 0x3e63c0cb, 0x3edb30cf, 0xbd439ff6, 0x3e099a5c, 0xbdb83ead,
       0xbeeffcc1, 0xbe3c9a06, 0xbe95dd12, 0xbefe00b5, 0x3f1226fe, 0x3ed44f6d, 0xbeabfc6c, 0xbe2cc34d,
       0xbe46768e, 0xbeb0e9ea, 0xbe9f6517, 0xbff13d3f, 0xbe6d7346, 0xbe17df20, 0x3ddde44b, 0x3e34d6c0],
      [0xbeb841de, 0x3cdba1ab, 0xbe254a15, 0x3ec5f467, 0xbd3c8c0f, 0xbe0cc6c2, 0x3ed9b7b6, 0x3ed65561,
       0xbe57fe18, 0xbf8a5d8e, 0x3e128b44, 0xbe986879, 0x3e6a0f14, 0x3e27e291, 0xbf5b516f, 0x3e6553a8,
       0xbe5e7948, 0x3e23640d, 0xbe14736c, 0x3e70f139, 0x3e142aac, 0x3e628238, 0xbf31bc09, 0xbd234d72,
       0xbf30d4d3, 0x3e878fe3, 0xbd329c70, 0xbde52b80, 0x3ea7347c, 0x3e0fbfdd, 0xbe68f968, 0x3d8f6183]]"

definition fp32_weight2_2 :: "u32 list list" where
  "fp32_weight2_2 =
     [[0xbe1bd36d, 0x3f0291b8, 0x3c315d5e, 0xbec5457c, 0x3e41eac2, 0x3e2886aa, 0xbe0be507, 0x3ad8f690,
       0x3e9e73e6, 0xbcd6c4d5, 0x3e0a463e, 0xbed1e9d6, 0xbf01b133, 0xbe4eca60, 0x3e90b145, 0xbb13d7ae,
       0xbe40840e, 0xbf33f2cb, 0xbb31d46c, 0x3ea52c22, 0x3e249cfb, 0x3ec3a842, 0xbd936d0b, 0x3eae803f,
       0x3eb9343e, 0xbf0979a5, 0x3d48f466, 0x3e3ca636, 0x3e8c0abf, 0xbeedf857, 0x3dc915f7, 0x3e908179],
      [0x3eb64d2a, 0xbc23859e, 0x3cc9529d, 0xbd9b8912, 0xbecd170e, 0x3e2bb503, 0x3ab317b2, 0x3d6ae402,
       0xbe910dfc, 0xbe57e2d1, 0xbeac57c2, 0xbe19da86, 0xbc2f645c, 0xbe1e777c, 0x3e5b3079, 0x3dd585e2,
       0x3e971342, 0x3d9d0692, 0xbf0fad43, 0xbd516135, 0xbdcd32aa, 0xbd545c0c, 0x3dc03b47, 0x3d4f604d,
       0x3d0a4de0, 0x3d833d31, 0x3ce12944, 0xbe204c96, 0xbddacc7c, 0x3e5cee64, 0xbef2f8ef, 0xbdb2a11a],
      [0xbf643b79, 0xbe131685, 0xbcde4018, 0xbf5ce58a, 0xbe83a062, 0xbdd0acdc, 0xbdd415bf, 0xbe2f6cbd,
       0xbf5eccb8, 0xbf91712e, 0xbf44f8fb, 0x3e08a036, 0x3da7f5d6, 0xbec8013f, 0x3c95caa1, 0x3e0d8e85,
       0x3f079294, 0xbcfa3a5b, 0x3d845e09, 0xba872c4b, 0xbf249798, 0x39eae398, 0xbef5527a, 0xbd00d6e1,
       0xbf9540f1, 0x3edee83c, 0x3d29cc98, 0x3e779d2f, 0xbf8b425f, 0xbee746a9, 0x3e1deb62, 0x3e36d8e3],
      [0x3dcbc2e6, 0xbdbfb153, 0xbccc1541, 0x3e8d55a1, 0xbe0a3f5d, 0xbce51de7, 0x3e2a05dc, 0x3e0190de,
       0x3ea5476c, 0xbcc34bdd, 0x3c05cc2c, 0xbe240c34, 0xbe0bc3cb, 0x3dcee2c0, 0x3c6db87f, 0x3e26bec1,
       0x3dd5c96e, 0xbd54173f, 0xbd839926, 0x3d6d75a1, 0x3caca797, 0xbd324e40, 0x3ce1d26e, 0xbdb656b4,
       0xbda7d087, 0xbe209445, 0x3ebe890a, 0xbd344691, 0x3d8d73af, 0x3d535a58, 0xbe62d212, 0xbdbde833],
      [0x3e301eec, 0x3ea7b03c, 0x3ec56d74, 0xbe84abc9, 0x3d3b7634, 0x3e56fc8f, 0xbd7e27b3, 0xbf4a1a94,
       0x3e364185, 0xbf3ea14f, 0xbd9fea4c, 0xbe47bfc9, 0xbe676aaf, 0xbc1d19bf, 0xbf1fa7dc, 0xbe9b90b1,
       0x3d4d9196, 0x3d7f917a, 0xbdb25c0c, 0x3e14fa15, 0x3ed8b9e1, 0xbf399d2d, 0xbef81852, 0xbececa63,
       0xc02a6ba6, 0x3e27a7f2, 0x3f1bcf57, 0xbe1cec44, 0x3ec81953, 0x3cfa7d8c, 0xbe9b09e7, 0xbe1c9edf],
      [0xbe089da2, 0x3d71bd3c, 0xbdc9707d, 0x3df18daa, 0x3df8074d, 0x3b1dc840, 0xbe47ebe8, 0x3d874a31,
       0xbe519e0a, 0xbdf01a69, 0xbdd45a6a, 0xbdf895c5, 0xbe16c9b0, 0xbcf195a1, 0x3dc557bc, 0xbdb53fcf,
       0x3d113aaf, 0xbc9255cd, 0xbd56a7ab, 0x3dc305b6, 0xbdcc5b4a, 0xbe23cd3f, 0xbe3e60eb, 0xbde8b3b9,
       0xbd282789, 0xbe4123f6, 0xbc8d14f9, 0xbd481d53, 0x3ca2adba, 0x3d95d461, 0x3b8fc825, 0x3d371c1b],
      [0x3cc46dc4, 0xbe75aa10, 0x3dfa776b, 0xbe1b2cd9, 0x3e69c2e2, 0x3c2ef57d, 0xbd89b6da, 0xbe1905b0,
       0x3d8a078e, 0x3ca1d785, 0x3dbaf260, 0xbe9f2799, 0xbda89a9b, 0x3e07429e, 0x3e02e6e1, 0x3e5d761f,
       0x3dfbb1e3, 0xbe2d13f7, 0x3e2831cd, 0xbe571072, 0xbc95cccd, 0xbd6ae15a, 0x3e83c857, 0x3b4a8434,
       0x3ca4d4ff, 0xbd863457, 0xbe059de5, 0x3d8e63d9, 0xbe6a8808, 0xbe387b6f, 0xbe593081, 0x3e95dbc6],
      [0xbea67213, 0xbed61e82, 0x3ea53f81, 0xc017dc47, 0xbdd254b2, 0xbe0a6481, 0xbdb2c8f7, 0x3d41976a,
       0xbeda08f7, 0xbef41e52, 0xbf886c9c, 0xbf68fb3c, 0xbdba99e7, 0xbfba3554, 0xbf4db837, 0xbe8d0199,
       0xbe030211, 0x3f3ced2f, 0x3ed643b1, 0xbe78ff03, 0xbf8064f9, 0xbdd2c432, 0x3e6f0a66, 0xbdd25aea,
       0xbccc411c, 0xbf0ab83a, 0xbf11a10b, 0x3e88d64b, 0xbf799eda, 0xbfb69976, 0xbe28197e, 0xbfa2cdac]]"

definition fp32_weight2_3 :: "u32 list list" where
  "fp32_weight2_3 =
     [[0x3db19f9e, 0xbea87e89, 0x3deca873, 0xbfe9e5b4, 0xbfb678be, 0xbeb77cb3, 0x3e746d2e, 0xbc3e9cb1,
       0xbeffde26, 0x3dcffa6e, 0x3cca1e3a, 0xbd5a5b78, 0xbd674cdb, 0x3ec2751d, 0x3e43ebde, 0xbf3e00b2,
       0x3e4a34f0, 0xbfb412dd, 0x3d410ab2, 0xbf83a336, 0xbe0af2ec, 0x3e8ab975, 0xbeec9ab3, 0xbf0c8520,
       0xbfbc5e0d, 0x3eeb1f40, 0x3e0dcdbc, 0xbf662328, 0xbeacd0e2, 0x3e1f9826, 0xbf1e79b9, 0xc01ca270],
      [0xbec5ef74, 0x3d9c2d66, 0xba43da90, 0x3d0322ec, 0xbd474699, 0xbe8c4f6a, 0xba51d5fb, 0xbd77d59e,
       0x3db8bae0, 0xbe986fa5, 0x3dd56b1e, 0x3dafa572, 0xbe719216, 0xbd9d4acd, 0x3e99b1fe, 0x3d2bb881,
       0x3e2c3179, 0x3cd44299, 0x3e9160a6, 0xbda26a85, 0x3d102199, 0xbd8c5b91, 0x3e0ecfa5, 0x3de5c5b0,
       0xbe29e2fd, 0xbdb914d1, 0x3e009890, 0xbe1788e3, 0xbe55bb3f, 0xbda9943b, 0x3e091730, 0xbc53b08d],
      [0xbf766f68, 0xbf33742e, 0x3d97116d, 0xbee2de43, 0xbe13e338, 0x3d9ad9cc, 0x3e0d8710, 0xbe1b6158,
       0x3e827200, 0xbf2bc4bf, 0xbf027d38, 0xbeee6f42, 0xbd765000, 0xbdfee5e0, 0xbf26caf9, 0x3d5f07cb,
       0x3eb01374, 0xbf9d9a27, 0xbe9bf38b, 0x3e7ec512, 0x3d94ddad, 0xbe9930c1, 0xbe041ca8, 0xbf3f3aea,
       0xbf339826, 0x3e6b085f, 0x3eb0beb0, 0x3e8278e3, 0xbe0d5d2c, 0x3dbc13ce, 0x3ec707b4, 0xbe61ee9c],
      [0xbbaee2f9, 0xbd07f182, 0xbe105f58, 0xbd83ff7c, 0x3c732f0a, 0x3e982d64, 0xbe84101b, 0x3e877b28,
       0xbd787940, 0xbeb17e47, 0xbd8f0e09, 0x3da04fb8, 0xbe4e8868, 0x3e7b6bce, 0x3e75db07, 0x3e06cdff,
       0xbc705865, 0xbbc35d58, 0x3e5c11bb, 0x3cefc540, 0x3db8003e, 0x3eeb7bb7, 0xbd485b1a, 0x3c85a52e,
       0x3e770016, 0xbe62fef1, 0x3e2a8bbd, 0xbc607a7d, 0xbd9cd26b, 0xbd260fe1, 0xbe81c051, 0xbd25781f],
      [0xbe5aa800, 0xbd93a541, 0x3e0c4307, 0xbdbfbf34, 0x3ebf8fa6, 0xbe709815, 0x3ed00be4, 0xbd94bcfc,
       0xbf3c9760, 0xbfc397d4, 0xbe040c45, 0xbd65b4f7, 0xbcdd3ce3, 0x3e9654c2, 0x3e1cd2de, 0x3df2f2d7,
       0xbf4c53ca, 0x3ed63dde, 0x3d3a1d31, 0xbe3a2aaf, 0xbd514323, 0xbf8ea205, 0xbe901f77, 0xbdcdf9a5,
       0xbbc02cfa, 0xbfa93702, 0xbd8eb1ff, 0xbe8f07e3, 0xbdf4ff87, 0xbdf6c0ca, 0xbe7a1a4b, 0xbf8184c4],
      [0x3d650576, 0xbf0bda08, 0x3ca1ada6, 0x3d350002, 0xbe101190, 0xbf5396df, 0x3ea872a4, 0xbf0783cc,
       0xbfc64f45, 0xbdd26496, 0x3f03c4ec, 0x3edea23c, 0x3e5f504f, 0x3ddf983d, 0xbdd35037, 0xbeb3d540,
       0xbd4deb71, 0xbdd37327, 0xbdf16562, 0xbe7df056, 0xbe57d798, 0xbe35bff6, 0xbe4d9259, 0xbefe1c3d,
       0x3d144074, 0x3d773010, 0x3d2f5c4e, 0xbf37d003, 0xbf2af359, 0x3e81c79b, 0xbf14a6f0, 0xbe695a56],
      [0xbe380790, 0x3e43619d, 0x3de023f0, 0x3ee59d43, 0x3dd6f419, 0x3e381956, 0x3edf5046, 0xbea8ef63,
       0xbf91d655, 0xbf000b41, 0x3dd2e610, 0xbe21865e, 0x3dc78408, 0x3eaafa42, 0x3e4fcfc8, 0x3ddb11ae,
       0xbe129b81, 0xbf9f917b, 0xbe8c044a, 0xbe8caabc, 0x3e94302f, 0x3e5cff62, 0xbe95b4f7, 0xbe5e95b4,
       0x3f09b2c4, 0xbdd8c857, 0xbd78a7e5, 0xbbbf3b3b, 0xbe90113c, 0xbec54b17, 0xbe37f941, 0xbee2265c],
      [0xbeb291f7, 0xbd04fb75, 0x3e456250, 0x3e713155, 0xbf8f613a, 0xbb5e4856, 0xbe315d40, 0xbe5dddda,
       0xbf65db7b, 0xbdb5b563, 0xbdc9cf7e, 0x3e9b8ac8, 0xbcf5dda8, 0xbad1e141, 0xbe35b1e5, 0x3e003060,
       0xbe9e4f9b, 0x3cb50b60, 0x3e2d2bea, 0x3e08f100, 0x3dc02a74, 0x3ea38ed4, 0xbdd0ed7a, 0x3d695784,
       0x3ec7c27d, 0xbdb3e83f, 0x3e12678f, 0xbec6083f, 0xbeb47839, 0x3debe3fe, 0xbe2d3507, 0xbec68ad3]]"

definition fp32_bias2 :: "u32 list" where
  "fp32_bias2 = [0xbe1b44f7, 0xbcd16190, 0x3dfe7e1f, 0x3ebb05ac, 0xbc62cf59, 0xbe15f38c, 0xbeb52317, 0x3ea5c5c4,
       0xbf057a0f, 0xbe5ef429, 0xbde5de51, 0xbe08f533, 0x3ebdf348, 0xbe01cdb5, 0xbc748d19, 0xbebf244c,
       0xbead4fa8, 0x3e4724a3, 0xbdb506af, 0x3e48bf16, 0x3c1ea296, 0xbe0ced48, 0x3e384f96, 0x3d1cd409,
       0x3db4502c, 0x3ea1f939, 0x3c72e92b, 0x3e21a073, 0xbd7a1c29, 0x3ed5a957, 0x3dd24199, 0x3e651061]"

definition fp32_joint_weight_0 :: "u32 list list" where
  "fp32_joint_weight_0 =
     [[0x3e530dbd, 0x3dfe5bce, 0x3e65e9a9, 0xbe0b1641, 0xbe3ba0e7, 0xbbbf4640, 0xbe80fffb, 0xbc093126,
       0x3e859806, 0xbd338b21, 0xbde9dfc0, 0xbdf7c961, 0x3dedef5e, 0xbe5b7839, 0x3e032fd4, 0xbe07def0,
       0xbe060ac7, 0x3c826fdd, 0x3e1c1146, 0x3e24a2a1, 0xbeba8367, 0x3d070a6c, 0x3d018cf3, 0x3e706537,
       0xbf0fc10a, 0x3e577473, 0x3e29d42a, 0x3d3df514, 0xbf0cd74d, 0xbeae8aa6, 0x3df35d05, 0xbc88fd1f],
      [0x3e7c2dca, 0x3e14fc7a, 0x3dfa82da, 0x3e85a371, 0xbd065c62, 0xbe061b8b, 0xbe87c9d2, 0xbeafb197,
       0xbd7267ec, 0xbd82fcbf, 0x3eecbfeb, 0x3d99aac2, 0x3d81bf7f, 0x3df725f5, 0xbe9d0fca, 0xbe8f1a3b,
       0xbe6e5fdf, 0x3cb72336, 0xbe5c3f87, 0x3cb26c0e, 0x3db325ce, 0x3d25017f, 0x3b794614, 0x3dde192f,
       0xbf0abc35, 0x3e531d9c, 0x3e11fdbf, 0x3e3664d1, 0xbf65b4ef, 0xbe4e4578, 0x3d5a1205, 0x3e74bd4e],
      [0x3e6f4164, 0x3da99c97, 0x3e363d6c, 0xbd0405fd, 0xbc8029d4, 0x3def2f0a, 0xbe665483, 0xbea418fb,
       0xbe8972ae, 0xbd5e0069, 0xbddfdfec, 0xbd9428d4, 0x3e36538d, 0x3c1edda8, 0xbba65b54, 0xbe20ad77,
       0xbde3e68c, 0x3e16139d, 0x3d9ee045, 0x3dc80613, 0xbedea116, 0x3d718de5, 0x3dad6b51, 0x3e6345d1,
       0xbf340006, 0x3e65148b, 0x3dd59d56, 0x3d4997f8, 0x3e1265d4, 0xbd6b7401, 0x3eb82a32, 0x3dc1304c],
      [0x3e311573, 0x3d47ea62, 0x3d8edca9, 0x3ea291a9, 0xbc4fb9d0, 0x3d69e6f6, 0xbdbf93ab, 0xbf0bef47,
       0xbe45757c, 0xbd67a0e5, 0xbeead40b, 0xbd2c6054, 0x3e886f26, 0x3e8cac18, 0xbee43a82, 0xbe703f20,
       0xbe66f16f, 0x3e307f04, 0x3e679af6, 0x3d892de5, 0xbf0842ae, 0xbb3b3a85, 0x3e4419ad, 0xbee585f3,
       0xbf1b60cd, 0x3ded2e0d, 0x3e339e33, 0x3de1bc10, 0xbc796a82, 0xbe01a817, 0x3de5f549, 0x3dd4d05e],
      [0x3d50ea5f, 0x3dff6bbe, 0x3e14424b, 0x3ea3cf5b, 0x3dedf857, 0x3e0d071b, 0xbe1b0437, 0xbf016901,
       0x3e3243cd, 0xbd8fff0a, 0xbe8b7a27, 0x3e1877cf, 0x3e0c4dc3, 0x3e953f93, 0xbc1cea6e, 0xbe84a5cc,
       0xbe9c8723, 0xbcf4fe6d, 0x3da84116, 0x3de8757e, 0xbeafc1a8, 0xbe1d8902, 0x3dde02aa, 0xbce7b50d,
       0xbf0bfadb, 0x3e2018df, 0xbe1e3e77, 0x3e376b4b, 0xbe93afaa, 0xbe88d9e1, 0xbd8c0908, 0x3da46972],
      [0x3c1b162c, 0x3c18b08f, 0x3e00a15f, 0xbde92311, 0x3be9c424, 0xbdc421b0, 0xbe1668d9, 0xbeded150,
       0x3daaacdf, 0xbdbac8b7, 0xbe6d65ff, 0xbd399895, 0x3e65e45f, 0x3e8c85e1, 0xbdf93eb2, 0xbe71d578,
       0xbe04608a, 0x3e16f446, 0x3db417d2, 0x3e181fa3, 0xbed98c29, 0x3ddd67e7, 0x3da2f8cd, 0x3ef72407,
       0xbf04a7d1, 0x3e0df1f2, 0xbda49506, 0xbcb4b0e5, 0x3eb10e5f, 0xbe97b7b9, 0x3e1c8612, 0x3e94f4c9]]"

definition fp32_joint_weight_1 :: "u32 list list" where
  "fp32_joint_weight_1 =
     [[0xbb9bf630, 0x3e35f8d0, 0x3e30e8ef, 0x3e2203a5, 0xbdc417c3, 0xbd90a613, 0xbe492b7c, 0xbf0771ea,
       0x3e144ca8, 0x3e3e77a6, 0xbf2952f2, 0xbe0c0f86, 0x3e197dde, 0x3e86bae1, 0xbe86c6b0, 0xbe9c3ae0,
       0xbea84fbc, 0xbe2eda44, 0x3f09ee0a, 0x3e3b4082, 0xbea62c48, 0xbd1e603d, 0x3dbf02ee, 0xbf0a29f0,
       0xbee1aceb, 0x3d4dac64, 0x3e923e32, 0x3e4b9a32, 0x3e75815c, 0xbeab6e3b, 0x3d62aadb, 0xbdf2d6fb],
      [0x3e37d7ad, 0xbc80a7ea, 0xbdc845bf, 0x3e31618d, 0x3cc6f5b3, 0xbd19c104, 0xbe193573, 0xbf44f72a,
       0xbdefee54, 0xbe172878, 0xbd0d0fc8, 0xbdee22f4, 0x3e8b880e, 0xbd64e3ba, 0xbe68d76a, 0xbd6ba394,
       0xbe6545ba, 0xbe33586c, 0x3eb0c0c6, 0xbcd03102, 0xbed30e4b, 0x3dba9f8f, 0x3dc8845e, 0x3e7af17f,
       0xbec9e6e3, 0x3d87835a, 0xbe6964bf, 0x3e49f092, 0xbe5cf5bd, 0xbe8cb5cb, 0xbe9c4ace, 0x3e6c91b4],
      [0x3d516f82, 0x3e2b2556, 0x3e3514b5, 0xbe6ad103, 0xbd90f956, 0x3de5dca9, 0xbe602094, 0xbea527ff,
       0xbeb8951d, 0xbe05f4d6, 0x3d4f664d, 0x3dd1b333, 0x3e2036f7, 0xbebe4255, 0x3d20f82d, 0xbe565d23,
       0x3cf3749c, 0x3ceb7339, 0x3de53d90, 0x3e375e91, 0xbe73c97a, 0xbe16a214, 0xbcb105df, 0xbf920b8b,
       0xbef8bb77, 0x3e0f5933, 0xbe3415d5, 0xbcaa0aa6, 0x3cb9a6e3, 0xbe92f388, 0x3e3283d3, 0x3e89286c],
      [0x3e2dccf7, 0x3e0a98b1, 0x3dbff0ec, 0xbefbe1ee, 0xbe570986, 0x3d71b41c, 0xbe3723ee, 0x3f2d63e5,
       0x3e35c5ff, 0xbd7645ff, 0x3e84ac28, 0xbe0d5510, 0x3e4b2aa7, 0xbde93af4, 0x3e40c59a, 0xbe80237e,
       0xbe5eae78, 0x3cc8eb5d, 0x3ef30aa7, 0x3e2c3589, 0xbe9fa236, 0x3be7dcef, 0x3c07730d, 0x3e93e0d2,
       0xbe61d792, 0x3d540eb6, 0x3d4adc7e, 0x3de015f5, 0x3df825c7, 0xbf13cefd, 0xbe675a1d, 0x3dfcb170],
      [0x3e48d8b3, 0x3db79c4a, 0x3dba5e1d, 0xbeb63865, 0xbe3519e6, 0x3cc5cada, 0xbe257402, 0x3e8eefe9,
       0xbf01b8b1, 0x394df484, 0xbec8b311, 0xbb25c633, 0x3e5a3194, 0x3db6bde7, 0x3e0f1483, 0xbe41b79a,
       0xbe5680b1, 0x3e1152cd, 0x3e9656f0, 0x3cb2f063, 0xbe49e6f9, 0x3cb31e6d, 0xbcfcad96, 0xbf362c62,
       0xbe58da57, 0x3dd65008, 0x3ed00d0b, 0x3e60c9a7, 0x3de19cab, 0xbf1cb9d1, 0xbd6a9a80, 0x3e515a32],
      [0x3e39297d, 0x3e370ebf, 0x3ca561e1, 0xbf08fd31, 0xbe4d2df4, 0xbe016ff3, 0xbe3a6a23, 0x3ecfb9b1,
       0x3ebd2baa, 0xbcfa2d1b, 0xbe607dbb, 0xbdb222af, 0x3e0f7f89, 0x3e826cd4, 0xbe57f4d1, 0xbed30248,
       0xbe419181, 0xbc935435, 0x3ea3e7ca, 0xbb369a3d, 0xbd2f3e7d, 0xbdcbdef9, 0xbcc2f30a, 0xbf547721,
       0xbe00662d, 0x3db6b4bf, 0xbf0755d0, 0x3e0a9612, 0x3e8ee171, 0xbf1590cc, 0x3dfa5838, 0x3e6acd36]]"

definition fp32_joint_bias :: "u32 list" where
  "fp32_joint_bias = [0x3e7e3f9b, 0x3e9820bc, 0x3e392e60, 0x3e083d6d, 0x3e5c89f1, 0x3e757d77, 0x3e4a730b, 0x3e7b1c88,
       0x3e5d2741, 0x3e3a6322, 0x3e3301cf, 0x3e99516c]"

definition smart_io_fp32_model :: smart_io_model_fp32_bits where
  "smart_io_fp32_model = \<lparr>
     fm_weight1 = fp32_weight1_0 @ fp32_weight1_1, fm_bias1 = fp32_bias1,
     fm_weight2 = fp32_weight2_0 @ fp32_weight2_1 @ fp32_weight2_2 @ fp32_weight2_3, fm_bias2 = fp32_bias2,
     fm_joint_weight = fp32_joint_weight_0 @ fp32_joint_weight_1, fm_joint_bias = fp32_joint_bias\<rparr>"

end
