(* ===== verification/Fp32_Infer.thy ===== *)
theory Fp32_Infer
  imports Fp32 Fp32_Params
begin

text \<open>
  The inference routine of \<open>smart_io_model_fp32_asm.S\<close>.  The routine addresses the model and the
  scaler as words at fixed byte offsets; here they are word lists, and the offsets are divided by
  four.  The floating-point instructions of the processor are a parameter.
\<close>

section \<open>The routine\<close>

record float_ops =
  fl_sub :: "u32 \<Rightarrow> u32 \<Rightarrow> u32"
  fl_div :: "u32 \<Rightarrow> u32 \<Rightarrow> u32"
  fl_madd :: "u32 \<Rightarrow> u32 \<Rightarrow> u32 \<Rightarrow> u32"
  fl_maxnm :: "u32 \<Rightarrow> u32 \<Rightarrow> u32"
  fl_minnm :: "u32 \<Rightarrow> u32 \<Rightarrow> u32"
  fl_neg :: "u32 \<Rightarrow> u32"
  fl_gt :: "u32 \<Rightarrow> u32 \<Rightarrow> bool"

definition fp32_normalize :: "float_ops \<Rightarrow> u32 list \<Rightarrow> u32 list \<Rightarrow> u32 list" where
  "fp32_normalize F S x =
     map (\<lambda>i. fl_minnm F (fl_maxnm F (fl_div F (fl_sub F (x ! i) (S ! i)) (S ! (44 div 4 + i))) (fl_neg F (S ! (88 div 4))))
                (S ! (88 div 4))) [0..<11]"

definition fp32_dot :: "float_ops \<Rightarrow> u32 list \<Rightarrow> nat \<Rightarrow> u32 list \<Rightarrow> u32 \<Rightarrow> u32" where
  "fp32_dot F M w xs bias = fold (\<lambda>i acc. fl_madd F (xs ! i) (M ! (w + i)) acc) [0..<length xs] bias"

definition fp32_dense :: "float_ops \<Rightarrow> u32 list \<Rightarrow> nat \<Rightarrow> nat \<Rightarrow> nat \<Rightarrow> u32 list \<Rightarrow> u32 list" where
  "fp32_dense F M weights biases outputs xs =
     map (\<lambda>j. fp32_dot F M (weights + j * length xs) xs (M ! (biases + j))) [0..<outputs]"

definition fp32_relu :: "float_ops \<Rightarrow> u32 list \<Rightarrow> u32 list" where
  "fp32_relu F xs = map (\<lambda>x. fl_maxnm F x 0) xs"

text \<open>The comparison loop of the joint head: a later value replaces the best one when it is greater.\<close>

fun fp32_best :: "float_ops \<Rightarrow> u32 list \<Rightarrow> nat \<Rightarrow> u32 \<Rightarrow> nat \<Rightarrow> nat" where
  "fp32_best F [] j best k = k"
| "fp32_best F (q # qs) j best k =
     (if fl_gt F q best then fp32_best F qs (j + 1) q j else fp32_best F qs (j + 1) best k)"

definition smart_io_fp32_infer :: "float_ops \<Rightarrow> u32 list \<Rightarrow> u32 list \<Rightarrow> u32 list \<Rightarrow> u32 \<times> u32 list" where
  "smart_io_fp32_infer F M S x =
     (let h0 = fp32_normalize F S x;
          h1 = fp32_relu F (fp32_dense F M 0 (1408 div 4) 32 h0);
          h2 = fp32_relu F (fp32_dense F M (1536 div 4) (5632 div 4) 32 h1);
          q = fp32_dense F M (5760 div 4) (7296 div 4) 12 h2
      in (of_nat (fp32_best F (tl q) 1 (hd q) 0), q))"

section \<open>The layout of the structures\<close>

definition scaler_words :: "smart_io_model_fp32_scaler_bits \<Rightarrow> u32 list" where
  "scaler_words s = fs_mean s @ fs_std s @ [fs_clip s]"

definition model_words :: "smart_io_model_fp32_bits \<Rightarrow> u32 list" where
  "model_words m = concat (fm_weight1 m) @ fm_bias1 m @ concat (fm_weight2 m) @ fm_bias2 m @
     concat (fm_joint_weight m) @ fm_joint_bias m"

definition scaler_shape :: "smart_io_model_fp32_scaler_bits \<Rightarrow> bool" where
  "scaler_shape s \<longleftrightarrow> length (fs_mean s) = 11 \<and> length (fs_std s) = 11"

definition model_shape :: "smart_io_model_fp32_bits \<Rightarrow> bool" where
  "model_shape m \<longleftrightarrow>
     length (fm_weight1 m) = 32 \<and> list_all (\<lambda>r. length r = 11) (fm_weight1 m) \<and> length (fm_bias1 m) = 32 \<and>
     length (fm_weight2 m) = 32 \<and> list_all (\<lambda>r. length r = 32) (fm_weight2 m) \<and> length (fm_bias2 m) = 32 \<and>
     length (fm_joint_weight m) = 12 \<and> list_all (\<lambda>r. length r = 32) (fm_joint_weight m) \<and> length (fm_joint_bias m) = 12"

section \<open>The network it computes\<close>

definition layer :: "float_ops \<Rightarrow> u32 list list \<Rightarrow> u32 list \<Rightarrow> u32 list \<Rightarrow> u32 list" where
  "layer F W B xs = map2 (\<lambda>row b. fold (\<lambda>(x, w) acc. fl_madd F x w acc) (zip xs row) b) W B"

definition clipped :: "float_ops \<Rightarrow> smart_io_model_fp32_scaler_bits \<Rightarrow> u32 list \<Rightarrow> u32 list" where
  "clipped F s x =
     map2 (\<lambda>x (m, d). fl_minnm F (fl_maxnm F (fl_div F (fl_sub F x m) d) (fl_neg F (fs_clip s))) (fs_clip s))
       x (zip (fs_mean s) (fs_std s))"

definition q_values :: "float_ops \<Rightarrow> smart_io_model_fp32_bits \<Rightarrow> smart_io_model_fp32_scaler_bits \<Rightarrow> u32 list \<Rightarrow> u32 list" where
  "q_values F m s x =
     layer F (fm_joint_weight m) (fm_joint_bias m)
       (fp32_relu F (layer F (fm_weight2 m) (fm_bias2 m)
          (fp32_relu F (layer F (fm_weight1 m) (fm_bias1 m) (clipped F s x)))))"

lemma nth_concat_uniform:
  "list_all (\<lambda>r. length r = n) W \<Longrightarrow> j < length W \<Longrightarrow> i < n \<Longrightarrow> concat W ! (j * n + i) = W ! j ! i"
proof (induction W arbitrary: j)
  case (Cons r W)
  then have r: "length r = n" "list_all (\<lambda>r. length r = n) W" by simp_all
  show ?case
  proof (cases j)
    case 0
    then show ?thesis using r(1) Cons.prems(3) by (simp add: nth_append)
  next
    case (Suc k)
    have "j * n + i = length r + (k * n + i)" unfolding Suc r(1) mult_Suc by (rule add.assoc)
    then have "concat (r # W) ! (j * n + i) = (r @ concat W) ! (length r + (k * n + i))"
      unfolding concat.simps by (rule arg_cong)
    also have "\<dots> = concat W ! (k * n + i)" by (rule nth_append_length_plus)
    finally have "concat (r # W) ! (j * n + i) = concat W ! (k * n + i)" .
    then show ?thesis using Cons.IH [OF r(2)] Cons.prems(2,3) Suc by simp
  qed
qed simp

lemma length_concat_uniform: "list_all (\<lambda>r. length r = n) W \<Longrightarrow> length (concat W) = length W * n"
  by (induction W) simp_all

lemma dot_zip:
  assumes "length row = length xs" and "\<forall>i < length xs. M ! (w + i) = row ! i"
  shows "fp32_dot F M w xs b = fold (\<lambda>(x, w) acc. fl_madd F x w acc) (zip xs row) b"
proof -
  have "zip xs row = map (\<lambda>i. (xs ! i, row ! i)) [0..<length xs]"
    by (rule nth_equalityI) (use assms(1) in simp_all)
  also have "\<dots> = map (\<lambda>i. (xs ! i, M ! (w + i))) [0..<length xs]" using assms(2) by simp
  finally show ?thesis by (simp add: fp32_dot_def fold_map comp_def)
qed

text \<open>A dense layer on the words at its offsets is the layer on its rows.\<close>

lemma dense_layer:
  assumes "M = pre @ concat W @ mid" and "length pre = w" and "M = pre' @ B @ post" and "length pre' = b"
    and "list_all (\<lambda>r. length r = length xs) W" and "length W = n" and "length B = n"
  shows "fp32_dense F M w b n xs = layer F W B xs"
proof (rule nth_equalityI)
  fix j assume "j < length (fp32_dense F M w b n xs)"
  then have j: "j < n" by (simp add: fp32_dense_def)
  have row: "length (W ! j) = length xs" using assms(5,6) j by (simp add: list_all_length)
  have "\<forall>i < length xs. M ! (w + j * length xs + i) = W ! j ! i"
  proof (intro allI impI)
    fix i assume i: "i < length xs"
    have "j * length xs + i < length (concat W)"
      unfolding length_concat_uniform [OF assms(5)] using mult_le_mono1 [of "Suc j" "length W" "length xs"] assms(6) j i by simp
    then have "M ! (w + j * length xs + i) = concat W ! (j * length xs + i)"
      unfolding assms(1) using assms(2) by (simp add: nth_append add.assoc)
    then show "M ! (w + j * length xs + i) = W ! j ! i"
      using nth_concat_uniform [OF assms(5) _ i] assms(6) j by simp
  qed
  note d = dot_zip [OF row this]
  have "M ! (b + j) = B ! j" unfolding assms(3) using assms(4,7) j by (simp add: nth_append)
  then show "fp32_dense F M w b n xs ! j = layer F W B xs ! j"
    using d assms(6,7) j by (simp add: fp32_dense_def layer_def)
qed (use assms(6,7) in \<open>simp add: fp32_dense_def layer_def\<close>)

lemma normalize_clipped:
  assumes "scaler_shape s" and "length x = 11"
  shows "fp32_normalize F (scaler_words s) x = clipped F s x"
proof (rule nth_equalityI)
  fix i assume "i < length (fp32_normalize F (scaler_words s) x)"
  then have i: "i < 11" by (simp add: fp32_normalize_def)
  have "scaler_words s ! i = fs_mean s ! i" "scaler_words s ! (11 + i) = fs_std s ! i" "scaler_words s ! 22 = fs_clip s"
    using assms(1) i by (auto simp: scaler_words_def scaler_shape_def nth_append)
  then show "fp32_normalize F (scaler_words s) x ! i = clipped F s x ! i"
    using assms i by (simp add: fp32_normalize_def clipped_def scaler_shape_def)
qed (use assms in \<open>simp add: fp32_normalize_def clipped_def scaler_shape_def\<close>)

lemma layer_length: "length (layer F W B xs) = min (length W) (length B)"
  by (simp add: layer_def)

lemma relu_length [simp]: "length (fp32_relu F xs) = length xs"
  by (simp add: fp32_relu_def)

lemma infer_eq:
  assumes m: "model_shape m" and s: "scaler_shape s" and x: "length x = 11"
  shows "smart_io_fp32_infer F (model_words m) (scaler_words s) x =
    (of_nat (fp32_best F (tl (q_values F m s x)) 1 (hd (q_values F m s x)) 0), q_values F m s x)"
proof -
  note sh = m [unfolded model_shape_def]
  have c: "length (concat (fm_weight1 m)) = 352" "length (concat (fm_weight2 m)) = 1024"
    "length (concat (fm_joint_weight m)) = 384"
    using sh by (simp_all add: length_concat_uniform [of 11] length_concat_uniform [of 32] del: length_concat)
  let ?M = "model_words m"
  let ?w1 = "concat (fm_weight1 m)" let ?w2 = "concat (fm_weight2 m)" let ?w3 = "concat (fm_joint_weight m)"
  let ?h0 = "clipped F s x"
  let ?h1 = "fp32_relu F (layer F (fm_weight1 m) (fm_bias1 m) ?h0)"
  let ?h2 = "fp32_relu F (layer F (fm_weight2 m) (fm_bias2 m) ?h1)"
  have l0: "length ?h0 = 11" using s x by (simp add: clipped_def scaler_shape_def)
  have l1: "length ?h1 = 32" "length ?h2 = 32" using sh by (simp_all add: layer_length)
  have d1: "fp32_dense F ?M 0 352 32 ?h0 = layer F (fm_weight1 m) (fm_bias1 m) ?h0"
    by (rule dense_layer [of _ "[]" _ "fm_bias1 m @ ?w2 @ fm_bias2 m @ ?w3 @ fm_joint_bias m" _ ?w1 _ "?w2 @ fm_bias2 m @ ?w3 @ fm_joint_bias m"])
      (use sh c l0 in \<open>simp_all add: model_words_def del: length_concat\<close>)
  have d2: "fp32_dense F ?M 384 1408 32 ?h1 = layer F (fm_weight2 m) (fm_bias2 m) ?h1"
    by (rule dense_layer [of _ "?w1 @ fm_bias1 m" _ "fm_bias2 m @ ?w3 @ fm_joint_bias m" _ "?w1 @ fm_bias1 m @ ?w2" _ "?w3 @ fm_joint_bias m"])
      (use sh c l1 in \<open>simp_all add: model_words_def del: length_concat\<close>)
  have d3: "fp32_dense F ?M 1440 1824 12 ?h2 = layer F (fm_joint_weight m) (fm_joint_bias m) ?h2"
    by (rule dense_layer [of _ "?w1 @ fm_bias1 m @ ?w2 @ fm_bias2 m" _ "fm_joint_bias m" _ "?w1 @ fm_bias1 m @ ?w2 @ fm_bias2 m @ ?w3" _ "[]"])
      (use sh c l1 in \<open>simp_all add: model_words_def del: length_concat\<close>)
  show ?thesis
    by (simp add: smart_io_fp32_infer_def normalize_clipped [OF s x] d1 d2 d3 q_values_def Let_def)
qed

section \<open>The chosen action\<close>

text \<open>The action is the first one with the greatest value, when the comparison orders the values.\<close>

lemma best_spec:
  assumes "\<forall>a \<in> set (pre @ qs). \<forall>b \<in> set (pre @ qs). fl_gt F a b \<longleftrightarrow> (v b :: 'v :: linorder) < v a"
    and "k < length pre" and "best = pre ! k" and "\<forall>i < length pre. v (pre ! i) \<le> v best" and "\<forall>i < k. v (pre ! i) < v best"
  shows "let r = fp32_best F qs (length pre) best k in
    r < length (pre @ qs) \<and> (\<forall>i < length (pre @ qs). v ((pre @ qs) ! i) \<le> v ((pre @ qs) ! r)) \<and>
    (\<forall>i < r. v ((pre @ qs) ! i) < v ((pre @ qs) ! r))"
  using assms
proof (induction qs arbitrary: pre best k)
  case Nil
  then show ?case by simp
next
  case (Cons q qs)
  have best: "best \<in> set (pre @ q # qs)" using Cons.prems(2,3) by simp
  have gt: "fl_gt F q best \<longleftrightarrow> v best < v q"
    by (rule Cons.prems(1) [rule_format]) (use best in simp_all)
  have ord: "\<forall>a \<in> set ((pre @ [q]) @ qs). \<forall>b \<in> set ((pre @ [q]) @ qs). fl_gt F a b \<longleftrightarrow> v b < v a"
    using Cons.prems(1) by simp
  show ?case
  proof (cases "v best < v q")
    case True
    have "\<forall>i < length pre. v (pre ! i) < v q" using Cons.prems(4) True by (meson order.strict_trans1)
    then have "let r = fp32_best F qs (length (pre @ [q])) q (length pre) in
      r < length ((pre @ [q]) @ qs) \<and> (\<forall>i < length ((pre @ [q]) @ qs). v (((pre @ [q]) @ qs) ! i) \<le> v (((pre @ [q]) @ qs) ! r)) \<and>
      (\<forall>i < r. v (((pre @ [q]) @ qs) ! i) < v (((pre @ [q]) @ qs) ! r))"
      by (intro Cons.IH ord) (auto simp: nth_append less_Suc_eq order.strict_implies_order)
    then show ?thesis using gt True by simp
  next
    case False
    then have "v q \<le> v best" by simp
    then have "let r = fp32_best F qs (length (pre @ [q])) best k in
      r < length ((pre @ [q]) @ qs) \<and> (\<forall>i < length ((pre @ [q]) @ qs). v (((pre @ [q]) @ qs) ! i) \<le> v (((pre @ [q]) @ qs) ! r)) \<and>
      (\<forall>i < r. v (((pre @ [q]) @ qs) ! i) < v (((pre @ [q]) @ qs) ! r))"
      using Cons.prems(2-5) by (intro Cons.IH ord) (auto simp: nth_append less_Suc_eq)
    then show ?thesis using gt False by simp
  qed
qed

section \<open>The shipped constants\<close>

lemma fp32_weight1_0_ok: "length fp32_weight1_0 = 16 \<and> list_all (\<lambda>r. length r = 11) fp32_weight1_0 \<and> list_all (list_all smart_io_model_q_bits_finite) fp32_weight1_0"
  by (simp add: fp32_weight1_0_def smart_io_model_q_bits_finite_def)

lemma fp32_weight1_1_ok: "length fp32_weight1_1 = 16 \<and> list_all (\<lambda>r. length r = 11) fp32_weight1_1 \<and> list_all (list_all smart_io_model_q_bits_finite) fp32_weight1_1"
  by (simp add: fp32_weight1_1_def smart_io_model_q_bits_finite_def)

lemma fp32_weight2_0_ok: "length fp32_weight2_0 = 8 \<and> list_all (\<lambda>r. length r = 32) fp32_weight2_0 \<and> list_all (list_all smart_io_model_q_bits_finite) fp32_weight2_0"
  by (simp add: fp32_weight2_0_def smart_io_model_q_bits_finite_def)

lemma fp32_weight2_1_ok: "length fp32_weight2_1 = 8 \<and> list_all (\<lambda>r. length r = 32) fp32_weight2_1 \<and> list_all (list_all smart_io_model_q_bits_finite) fp32_weight2_1"
  by (simp add: fp32_weight2_1_def smart_io_model_q_bits_finite_def)

lemma fp32_weight2_2_ok: "length fp32_weight2_2 = 8 \<and> list_all (\<lambda>r. length r = 32) fp32_weight2_2 \<and> list_all (list_all smart_io_model_q_bits_finite) fp32_weight2_2"
  by (simp add: fp32_weight2_2_def smart_io_model_q_bits_finite_def)

lemma fp32_weight2_3_ok: "length fp32_weight2_3 = 8 \<and> list_all (\<lambda>r. length r = 32) fp32_weight2_3 \<and> list_all (list_all smart_io_model_q_bits_finite) fp32_weight2_3"
  by (simp add: fp32_weight2_3_def smart_io_model_q_bits_finite_def)

lemma fp32_joint_weight_0_ok: "length fp32_joint_weight_0 = 6 \<and> list_all (\<lambda>r. length r = 32) fp32_joint_weight_0 \<and> list_all (list_all smart_io_model_q_bits_finite) fp32_joint_weight_0"
  by (simp add: fp32_joint_weight_0_def smart_io_model_q_bits_finite_def)

lemma fp32_joint_weight_1_ok: "length fp32_joint_weight_1 = 6 \<and> list_all (\<lambda>r. length r = 32) fp32_joint_weight_1 \<and> list_all (list_all smart_io_model_q_bits_finite) fp32_joint_weight_1"
  by (simp add: fp32_joint_weight_1_def smart_io_model_q_bits_finite_def)

lemma fp32_bias1_ok: "length fp32_bias1 = 32 \<and> list_all smart_io_model_q_bits_finite fp32_bias1"
  by (simp add: fp32_bias1_def smart_io_model_q_bits_finite_def)

lemma fp32_bias2_ok: "length fp32_bias2 = 32 \<and> list_all smart_io_model_q_bits_finite fp32_bias2"
  by (simp add: fp32_bias2_def smart_io_model_q_bits_finite_def)

lemma fp32_joint_bias_ok: "length fp32_joint_bias = 12 \<and> list_all smart_io_model_q_bits_finite fp32_joint_bias"
  by (simp add: fp32_joint_bias_def smart_io_model_q_bits_finite_def)

lemmas params_ok = fp32_weight1_0_ok fp32_weight1_1_ok fp32_weight2_0_ok fp32_weight2_1_ok fp32_weight2_2_ok fp32_weight2_3_ok fp32_joint_weight_0_ok fp32_joint_weight_1_ok fp32_bias1_ok fp32_bias2_ok fp32_joint_bias_ok

lemma list_all_concat: "list_all P (concat xss) = list_all (list_all P) xss"
  by (induction xss) simp_all

lemma shipped_model_shape: "model_shape smart_io_fp32_model"
  by (simp add: model_shape_def smart_io_fp32_model_def params_ok)

lemma shipped_scaler_shape: "scaler_shape smart_io_fp32_scaler"
  by (simp add: scaler_shape_def smart_io_fp32_scaler_def)


section \<open>The prediction with the shipped model\<close>

definition shipped_infer :: "float_ops \<Rightarrow> u32 list \<Rightarrow> u32 \<times> u32 list" where
  "shipped_infer F = smart_io_fp32_infer F (model_words smart_io_fp32_model) (scaler_words smart_io_fp32_scaler)"

definition shipped_q_values :: "float_ops \<Rightarrow> u32 list \<Rightarrow> u32 list" where
  "shipped_q_values F = q_values F smart_io_fp32_model smart_io_fp32_scaler"

lemma length_q_values: "length (shipped_q_values F x) = 12"
  using shipped_model_shape [unfolded model_shape_def]
  by (simp add: shipped_q_values_def q_values_def layer_length)

lemma shipped_infer_eq:
  "length x = 11 \<Longrightarrow> shipped_infer F x =
    (of_nat (fp32_best F (tl (shipped_q_values F x)) 1 (hd (shipped_q_values F x)) 0), shipped_q_values F x)"
  unfolding shipped_infer_def shipped_q_values_def by (rule infer_eq [OF shipped_model_shape shipped_scaler_shape])

lemma length_those: "those xs = Some ys \<Longrightarrow> length ys = length xs"
  by (induction xs arbitrary: ys) (auto split: option.splits)

lemma length_input_bits: "input_bits st = Some bits \<Longrightarrow> length bits = 11"
  unfolding input_bits_def by (drule length_those) (simp add: input_ratios_def)

text \<open>What a successful prediction has done: the routine ran and all its values are finite.\<close>

lemma predict_success:
  assumes "smart_io_model_fp32_predict simd infer st = (None, Some a)"
  obtains bits where "input_bits st = Some bits" "infer bits = (a, snd (infer bits))"
    "\<forall>q \<in> set (take 12 (snd (infer bits))). smart_io_model_q_bits_finite q"
proof -
  have "smart_io_model_fp32_predict simd infer st = (None, Some a) \<Longrightarrow>
    \<exists>bits. input_bits st = Some bits \<and> infer bits = (a, snd (infer bits)) \<and>
      (\<forall>q \<in> set (take 12 (snd (infer bits))). smart_io_model_q_bits_finite q)"
    by (auto simp: smart_io_model_fp32_predict_def smart_io_model_fp32_predict_timed_def Let_def
        split: if_splits option.splits prod.splits)
  with assms that show ?thesis by blast
qed

lemma predict_intro:
  assumes "\<not> state_invalid st" and "input_bits st = Some bits" and "infer bits = (a, q)" and "unat a < 12"
    and "\<forall>x \<in> set (take 12 q). smart_io_model_q_bits_finite x"
  shows "smart_io_model_fp32_predict True infer st = (None, Some a)"
  using assms by (auto simp: smart_io_model_fp32_predict_def smart_io_model_fp32_predict_timed_def)

text \<open>C19: a successful prediction returns the first of the twelve actions whose value is greatest, the values being those of the network on the encoded state, whenever the processor's comparison orders finite patterns by their value.\<close>

theorem predict_returns_best:
  assumes ieee: "\<forall>a b. smart_io_model_q_bits_finite a \<longrightarrow> smart_io_model_q_bits_finite b \<longrightarrow>
      (fl_gt F a b \<longleftrightarrow> (v b :: 'v :: linorder) < v a)"
    and ok: "smart_io_model_fp32_predict True (shipped_infer F) st = (None, Some act)"
  shows "\<exists>bits q. input_bits st = Some bits \<and> q = shipped_q_values F bits \<and> unat act < length q \<and>
    (\<forall>i < length q. v (q ! i) \<le> v (q ! unat act)) \<and> (\<forall>i < unat act. v (q ! i) < v (q ! unat act))"
proof -
  obtain bits where b: "input_bits st = Some bits" "shipped_infer F bits = (act, snd (shipped_infer F bits))"
    "\<forall>q \<in> set (take 12 (snd (shipped_infer F bits))). smart_io_model_q_bits_finite q"
    by (rule predict_success [OF ok])
  let ?q = "shipped_q_values F bits"
  have l: "length ?q = 12" by (rule length_q_values)
  note eq = shipped_infer_eq [OF length_input_bits [OF b(1)], of F]
  have a: "act = of_nat (fp32_best F (tl ?q) 1 (hd ?q) 0)" using b(2) eq by simp
  have fin: "\<forall>x \<in> set ?q. smart_io_model_q_bits_finite x" using b(3) eq l by simp
  have q: "[hd ?q] @ tl ?q = ?q" using l by (cases ?q) simp_all
  have "let r = fp32_best F (tl ?q) (length [hd ?q]) (hd ?q) 0 in
    r < length ([hd ?q] @ tl ?q) \<and> (\<forall>i < length ([hd ?q] @ tl ?q). v (([hd ?q] @ tl ?q) ! i) \<le> v (([hd ?q] @ tl ?q) ! r)) \<and>
    (\<forall>i < r. v (([hd ?q] @ tl ?q) ! i) < v (([hd ?q] @ tl ?q) ! r))"
    by (rule best_spec) (use ieee fin in \<open>unfold q, simp_all\<close>)
  then have r: "let r = fp32_best F (tl ?q) 1 (hd ?q) 0 in r < length ?q \<and> (\<forall>i < length ?q. v (?q ! i) \<le> v (?q ! r)) \<and>
    (\<forall>i < r. v (?q ! i) < v (?q ! r))"
    unfolding q by simp
  then have "unat act = fp32_best F (tl ?q) 1 (hd ?q) 0" using a l by (simp add: Let_def unat_of_nat take_bit_nat_eq_self)
  then show ?thesis using r b(1) by (auto simp: Let_def)
qed


text \<open>
  A concrete comparison: finite patterns ordered by sign and magnitude.  The other operations of the
  example leave the accumulator alone, so its values are the biases of the joint head.
\<close>

definition f32_key :: "u32 \<Rightarrow> int" where
  "f32_key b = (if b < 0x80000000 then uint b else - uint (b - 0x80000000))"

definition demo_ops :: float_ops where
  "demo_ops = \<lparr>fl_sub = (\<lambda>a b. a), fl_div = (\<lambda>a b. a), fl_madd = (\<lambda>a b c. c), fl_maxnm = (\<lambda>a b. a),
     fl_minnm = (\<lambda>a b. a), fl_neg = (\<lambda>a. a), fl_gt = (\<lambda>a b. f32_key b < f32_key a)\<rparr>"

definition demo_snapshot :: state_snapshot where
  "demo_snapshot = zero_snapshot\<lparr>st_queue_max := 1, st_dev_lat_threshold_us := 1, st_window_complete_count := 5\<rparr>"

lemma demo_values: "length x = 11 \<Longrightarrow> shipped_q_values demo_ops x = fp32_joint_bias"
proof -
  assume "length x = 11"
  have f: "fold (\<lambda>(x, w) acc. fl_madd demo_ops x w acc) ps b = b" for ps b
    by (induction ps) (auto simp: demo_ops_def)
  have z: "map2 (\<lambda>(r :: u32 list) (b :: u32). b) W B = B" if "length W = length B" for W B
    using that by (induction W B rule: list_induct2) simp_all
  show ?thesis
    using shipped_model_shape [unfolded model_shape_def]
    by (simp add: shipped_q_values_def q_values_def layer_def f z) (simp add: smart_io_fp32_model_def)
qed

lemma demo_predict: "\<exists>act. smart_io_model_fp32_predict True (shipped_infer demo_ops) demo_snapshot = (None, Some act)"
proof -
  have b: "input_bits demo_snapshot = Some (replicate 5 0 @ replicate 6 0)" by code_simp
  have i: "\<not> state_invalid demo_snapshot" by code_simp
  have q: "shipped_infer demo_ops (replicate 5 0 @ replicate 6 0) =
      (fst (shipped_infer demo_ops (replicate 5 0 @ replicate 6 0)), fp32_joint_bias)"
    by (simp add: shipped_infer_eq demo_values)
  have fst12: "unat (fst (shipped_infer demo_ops (replicate 5 0 @ replicate 6 0))) < 12"
    by (simp add: shipped_infer_eq demo_values) (simp add: fp32_joint_bias_def demo_ops_def f32_key_def)
  have fin: "\<forall>q \<in> set (take 12 fp32_joint_bias). smart_io_model_q_bits_finite q"
    using fp32_joint_bias_ok by (simp add: list_all_iff)
  show ?thesis by (rule exI, rule predict_intro [where infer = "shipped_infer demo_ops", OF i b q fst12 fin])
qed

lemma predict_returns_best_witness:
  "\<exists>bits q act. input_bits demo_snapshot = Some bits \<and> q = shipped_q_values demo_ops bits \<and> unat act < length q \<and>
    smart_io_model_fp32_predict True (shipped_infer demo_ops) demo_snapshot = (None, Some act)"
proof -
  obtain act where a: "smart_io_model_fp32_predict True (shipped_infer demo_ops) demo_snapshot = (None, Some act)"
    using demo_predict by blast
  have "\<forall>a b. smart_io_model_q_bits_finite a \<longrightarrow> smart_io_model_q_bits_finite b \<longrightarrow>
      (fl_gt demo_ops a b \<longleftrightarrow> f32_key b < f32_key a)"
    by (simp add: demo_ops_def)
  from predict_returns_best [OF this a] a show ?thesis by blast
qed

end
