(* ===== verification/Block_Helper.thy ===== *)
theory Block_Helper
  imports Prelude
begin

text \<open>
  \<open>block_helper.c\<close>: what a block request says about the file it belongs to.  A bio is reduced to
  what the code reads of it: its first page's folio, the folio's mapping, the mapping's inode, the
  inode's names and the path of one alias.  The buffers keep the code's sizes.
\<close>

section \<open>File extensions\<close>

datatype file_ext =
    SMART_IO_FILE_EXT_UNKNOWN | SMART_IO_FILE_EXT_DB | SMART_IO_FILE_EXT_SO | SMART_IO_FILE_EXT_DEX
  | SMART_IO_FILE_EXT_APK | SMART_IO_FILE_EXT_LOG | SMART_IO_FILE_EXT_VDEX | SMART_IO_FILE_EXT_ODEX

definition get_file_ext_id :: "string option \<Rightarrow> file_ext" where
  "get_file_ext_id ext =
     (case ext of
        None \<Rightarrow> SMART_IO_FILE_EXT_UNKNOWN
      | Some e \<Rightarrow>
          if e = ''.db'' then SMART_IO_FILE_EXT_DB
          else if e = ''.so'' then SMART_IO_FILE_EXT_SO
          else if e = ''.dex'' then SMART_IO_FILE_EXT_DEX
          else if e = ''.apk'' then SMART_IO_FILE_EXT_APK
          else if e = ''.log'' then SMART_IO_FILE_EXT_LOG
          else if e = ''.vdex'' then SMART_IO_FILE_EXT_VDEX
          else if e = ''.odex'' then SMART_IO_FILE_EXT_ODEX
          else SMART_IO_FILE_EXT_UNKNOWN)"

text \<open>\<open>strrchr\<close>: the rest of the string from the last occurrence of a character.\<close>

definition strrchr :: "string \<Rightarrow> char \<Rightarrow> string option" where
  "strrchr s c = (if c \<in> set s then Some (c # rev (takeWhile (\<lambda>x. x \<noteq> c) (rev s))) else None)"

definition find_file_ext :: "string \<Rightarrow> string option" where
  "find_file_ext name =
     (case strrchr name (CHR ''.'') of
        None \<Rightarrow> None
      | Some ext \<Rightarrow> if tl ext = [] then None else Some ext)"

section \<open>Inodes and folios\<close>

record super_block =
  sb_dev :: u32
  sb_type_name :: "string option"

record inode =
  in_sb :: "super_block option"
  in_rdev :: u32
  in_private :: bool
  in_blkdev :: bool
  in_chrdev :: bool
  in_ino :: u64
  in_dentries :: "string list"
  in_alias_path :: "(errno + string) option"

text \<open>A mapping is its host; a folio without a mapping may be anonymous or in the swap cache.\<close>

record folio =
  fo_index :: u64
  fo_mapping :: "inode option option"
  fo_swapcache :: bool
  fo_anon :: bool

record bio_info =
  bi_ptr :: nat
  bi_has_data :: bool
  bi_page :: "folio option"
  bi_sync :: bool

text \<open>What \<open>extract_vfs_info\<close> writes: the hash, the extension, the page, and the two buffers.\<close>

record vfs_out =
  vo_inode_hash :: u64
  vo_ext :: file_ext
  vo_folio_index :: u64
  vo_ext_str :: string
  vo_fs_type :: string

definition file_ext_str_len :: nat where "file_ext_str_len = 64"
definition fs_type_len :: nat where "fs_type_len = 16"
definition dev_name_len :: nat where "dev_name_len = 32"

definition extract_fs_type_from_inode :: "inode \<Rightarrow> vfs_out \<Rightarrow> vfs_out" where
  "extract_fs_type_from_inode i out =
     (case in_sb i of
        Some sb \<Rightarrow> (case sb_type_name sb of None \<Rightarrow> out | Some n \<Rightarrow> out\<lparr>vo_fs_type := strscpy n fs_type_len\<rparr>)
      | None \<Rightarrow> out)"

definition blk_get_pathname :: "inode option \<Rightarrow> errno + string" where
  "blk_get_pathname io =
     (case io of
        None \<Rightarrow> Inl EINVAL
      | Some i \<Rightarrow> (case in_alias_path i of None \<Rightarrow> Inl ENOENT | Some r \<Rightarrow> r))"

definition set_vfs_placeholder :: "string \<Rightarrow> vfs_out \<Rightarrow> vfs_out" where
  "set_vfs_placeholder v out = out\<lparr>vo_ext_str := strscpy v file_ext_str_len\<rparr>"

definition inode_fs_name :: "inode option \<Rightarrow> string" where
  "inode_fs_name io =
     (case io of
        None \<Rightarrow> ''unknown''
      | Some i \<Rightarrow>
          (case in_sb i of
             None \<Rightarrow> ''unknown''
           | Some sb \<Rightarrow> (case sb_type_name sb of None \<Rightarrow> ''unknown'' | Some n \<Rightarrow> n)))"

definition format_private_inode_class :: "string \<Rightarrow> nat \<Rightarrow> string" where
  "format_private_inode_class fs_name buf_len =
     (if buf_len = 0 then ''private''
      else if buf_len \<le> length ''private_'' then strscpy ''private_'' buf_len
      else ''private_'' @ strscpy fs_name (buf_len - length ''private_''))"

text \<open>The classifiers return a reason, when there is one, and whether it is stable.\<close>

definition classify_mapping_reason :: "folio \<Rightarrow> string option \<times> bool" where
  "classify_mapping_reason f =
     (if fo_mapping f \<noteq> None then (None, False)
      else if fo_swapcache f then (Some ''swap_nomap'', True)
      else if fo_anon f then (Some ''anon_nomap'', True)
      else (Some ''nomapping'', False))"

definition classify_hostless_mapping :: "folio \<Rightarrow> string \<times> bool" where
  "classify_hostless_mapping f =
     (if fo_swapcache f then (''swap_nohost'', True)
      else if fo_anon f then (''anon_nohost'', True)
      else (''hostless'', False))"

definition classify_inode_identity :: "inode option \<Rightarrow> nat \<Rightarrow> string option \<times> bool" where
  "classify_inode_identity io buf_len =
     (case io of
        None \<Rightarrow> (Some ''null_inode'', False)
      | Some i \<Rightarrow>
          let fs_name = inode_fs_name io in
          if in_private i then (Some (format_private_inode_class fs_name buf_len), True)
          else if in_blkdev i then (Some ''blkdev_file'', True)
          else if in_chrdev i then (Some ''chrdev_file'', True)
          else if fs_name \<in> set [''tmpfs'', ''overlay'', ''fuse'', ''nfs'', ''pipefs'', ''anon_inodefs'']
          then (Some fs_name, True)
          else if in_ino i = 0 then (Some ''ino_zero'', False)
          else if fs_name = ''ext4'' \<and> in_ino i \<le> 11 then (Some ''ext4_reserved'', True)
          else (None, False))"

text \<open>The first dentry with a name gives the extension; the string it writes is overwritten by the file name.\<close>

definition scan_dentries :: "string list \<Rightarrow> vfs_out \<Rightarrow> vfs_out" where
  "scan_dentries names out =
     (case filter (\<lambda>n. n \<noteq> []) names of
        [] \<Rightarrow> out
      | n # _ \<Rightarrow>
          (case find_file_ext n of
             Some e \<Rightarrow> out\<lparr>vo_ext_str := strscpy e file_ext_str_len, vo_ext := get_file_ext_id (Some e)\<rparr>
           | None \<Rightarrow> out\<lparr>vo_ext_str := strscpy ''none'' file_ext_str_len\<rparr>))"

definition path_file_name :: "string \<Rightarrow> string" where
  "path_file_name full_path =
     (case strrchr full_path (CHR ''/'') of
        None \<Rightarrow> full_path
      | Some s \<Rightarrow> if tl s = [] then full_path else tl s)"

definition inode_hash_of :: "inode \<Rightarrow> u64" where
  "inode_hash_of i =
     (let s_dev = (case in_sb i of Some sb \<Rightarrow> sb_dev sb | None \<Rightarrow> in_rdev i)
      in in_ino i XOR push_bit 32 (ucast s_dev))"

definition extract_inode_info :: "inode \<Rightarrow> vfs_out \<Rightarrow> vfs_out \<times> bool" where
  "extract_inode_info i out =
     (let out = extract_fs_type_from_inode i out;
          out = out\<lparr>vo_inode_hash := inode_hash_of i\<rparr> in
      case classify_inode_identity (Some i) 64 of
        (Some reason, st) \<Rightarrow> (set_vfs_placeholder reason out, st)
      | (None, _) \<Rightarrow>
          (let out = scan_dentries (in_dentries i) out in
           case blk_get_pathname (Some i) of
             Inl _ \<Rightarrow> (set_vfs_placeholder ''nopath'' out, False)
           | Inr full_path \<Rightarrow> (out\<lparr>vo_ext_str := strscpy (path_file_name full_path) file_ext_str_len\<rparr>, True)))"

definition extract_vfs_info :: "bio_info \<Rightarrow> vfs_out \<Rightarrow> vfs_out \<times> bool" where
  "extract_vfs_info b out =
     (if \<not> bi_has_data b then (set_vfs_placeholder ''nodata'' out, False)
      else case bi_page b of
        None \<Rightarrow> (set_vfs_placeholder ''nopage'' out, False)
      | Some f \<Rightarrow>
          (let out = out\<lparr>vo_folio_index := fo_index f\<rparr> in
           case classify_mapping_reason f of
             (Some reason, st) \<Rightarrow> (set_vfs_placeholder reason out, st)
           | (None, _) \<Rightarrow>
               (case fo_mapping f of
                  Some (Some i) \<Rightarrow> extract_inode_info i out
                | _ \<Rightarrow> (case classify_hostless_mapping f of (reason, st) \<Rightarrow> (set_vfs_placeholder reason out, st)))))"

end
