(* ===== verification/Io_Types.thy ===== *)
theory Io_Types
  imports Tool Block_Helper
begin

text \<open>
  \<open>io_semantics.c\<close>: the records of the I/O recorder.  The kernel's hash tables that map a request or
  bio to its entry are association lists searched from the front, as a hash chain is; the tables
  per processor are functions of the processor number.
\<close>

section \<open>Events\<close>

text \<open>The fields of an event that \<open>copy_last_bucket_fields\<close> fills, grouped.\<close>

record last_fields =
  ev_p50_read_lat_us :: u32
  ev_p50_write_lat_us :: u32
  ev_p99_read_lat_us :: u32
  ev_p99_write_lat_us :: u32
  ev_avg_read_lat_us :: u32
  ev_avg_write_lat_us :: u32
  ev_p50_p99_ratio_r :: u32
  ev_p50_p99_ratio_w :: u32
  ev_reclaim_pages :: u64
  ev_blk_bw_util :: u32
  ev_cache_hit :: u32
  ev_file_access_pages :: u64
  ev_file_miss_pages :: u64
  ev_file_cache_add_pages :: u64
  ev_file_cache_delete_pages :: u64
  ev_file_refault_pages :: u64
  ev_file_fault_count :: u64
  ev_file_fault_wait_us :: u64
  ev_sys_psi_io :: u32
  ev_render_avg_lat :: u32
  ev_jank_cnt :: u32

record smart_io_event =
  ev_ts_insert :: u64
  ev_ts_issue :: u64
  ev_ts_requeue :: u64
  ev_ts_complete :: u64
  ev_uid :: u32
  ev_scene_tag :: u32
  ev_is_front :: bool
  ev_thread_role :: thread_role
  ev_io_op :: io_op
  ev_io_size_kb :: u32
  ev_sector :: u64
  ev_ioprio_class :: u16
  ev_file_ext :: file_ext
  ev_file_ext_str :: string
  ev_fs_type :: string
  ev_dev_name :: string
  ev_remap_from :: string
  ev_device_type :: device_type
  ev_remap_mixed :: bool
  ev_is_sync :: bool
  ev_inode_hash :: u64
  ev_folio_index :: u64
  ev_io_in_flight :: u32
  ev_queue_saturate :: u32
  ev_cgroup_io_weight :: u32
  ev_f2fs_gc_active :: bool
  ev_f2fs_cp_active :: bool
  ev_is_hot_file :: bool
  ev_mem_avail_mb :: u32
  ev_dirty_pages_mb :: u32
  ev_wb_pages_mb :: u32
  ev_swap_mb :: u32
  ev_cpu_loadavg_1m :: u32
  ev_online_cpus :: u8
  ev_runqueue_len :: u32
  ev_device_util_pct :: u8
  ev_insert_cpuid :: u8
  ev_issue_cpuid :: u8
  ev_io_bw_kbps :: u32
  ev_latency_us :: u64
  ev_sched_us :: u64
  ev_dev_us :: u64
  ev_sched_pct :: u32
  ev_last :: last_fields
  ev_time_to_first_frame :: u32
  ev_time_to_input_response :: u32
  ev_direct_path :: bool

definition zero_last :: last_fields where
  "zero_last = \<lparr>ev_p50_read_lat_us = 0, ev_p50_write_lat_us = 0, ev_p99_read_lat_us = 0, ev_p99_write_lat_us = 0,
     ev_avg_read_lat_us = 0, ev_avg_write_lat_us = 0, ev_p50_p99_ratio_r = 0, ev_p50_p99_ratio_w = 0,
     ev_reclaim_pages = 0, ev_blk_bw_util = 0, ev_cache_hit = 0, ev_file_access_pages = 0, ev_file_miss_pages = 0,
     ev_file_cache_add_pages = 0, ev_file_cache_delete_pages = 0, ev_file_refault_pages = 0,
     ev_file_fault_count = 0, ev_file_fault_wait_us = 0, ev_sys_psi_io = 0, ev_render_avg_lat = 0, ev_jank_cnt = 0\<rparr>"

definition zero_event :: smart_io_event where
  "zero_event = \<lparr>ev_ts_insert = 0, ev_ts_issue = 0, ev_ts_requeue = 0, ev_ts_complete = 0, ev_uid = 0,
     ev_scene_tag = 0, ev_is_front = False, ev_thread_role = ROLE_UNKNOWN, ev_io_op = SMART_IO_OP_READ,
     ev_io_size_kb = 0, ev_sector = 0, ev_ioprio_class = 0, ev_file_ext = SMART_IO_FILE_EXT_UNKNOWN,
     ev_file_ext_str = [], ev_fs_type = [], ev_dev_name = [], ev_remap_from = [], ev_device_type = DEV_UNKNOWN,
     ev_remap_mixed = False, ev_is_sync = False, ev_inode_hash = 0, ev_folio_index = 0, ev_io_in_flight = 0,
     ev_queue_saturate = 0, ev_cgroup_io_weight = 0, ev_f2fs_gc_active = False, ev_f2fs_cp_active = False,
     ev_is_hot_file = False, ev_mem_avail_mb = 0, ev_dirty_pages_mb = 0, ev_wb_pages_mb = 0, ev_swap_mb = 0,
     ev_cpu_loadavg_1m = 0, ev_online_cpus = 0, ev_runqueue_len = 0, ev_device_util_pct = 0, ev_insert_cpuid = 0,
     ev_issue_cpuid = 0, ev_io_bw_kbps = 0, ev_latency_us = 0, ev_sched_us = 0, ev_dev_us = 0, ev_sched_pct = 0,
     ev_last = zero_last, ev_time_to_first_frame = 0, ev_time_to_input_response = 0, ev_direct_path = False\<rparr>"

text \<open>The numbers of the enumerations.\<close>

fun io_op_code :: "io_op \<Rightarrow> nat" where
  "io_op_code SMART_IO_OP_READ = 0"
| "io_op_code SMART_IO_OP_WRITE = 1"
| "io_op_code SMART_IO_OP_FSYNC = 2"
| "io_op_code SMART_IO_OP_DISCARD = 3"

fun thread_role_code :: "thread_role \<Rightarrow> nat" where
  "thread_role_code ROLE_UNKNOWN = 0"
| "thread_role_code ROLE_UX = 1"
| "thread_role_code ROLE_FRONT = 2"
| "thread_role_code ROLE_BACK = 3"
| "thread_role_code ROLE_KWORKER = 4"
| "thread_role_code ROLE_FS_BACK = 5"
| "thread_role_code ROLE_FIO = 6"

fun device_type_code :: "device_type \<Rightarrow> nat" where
  "device_type_code DEV_UNKNOWN = 0"
| "device_type_code DEV_UFS = 1"
| "device_type_code DEV_EMMC = 2"
| "device_type_code DEV_SD = 3"
| "device_type_code DEV_ZRAM = 4"

fun file_ext_code :: "file_ext \<Rightarrow> nat" where
  "file_ext_code SMART_IO_FILE_EXT_UNKNOWN = 0"
| "file_ext_code SMART_IO_FILE_EXT_DB = 1"
| "file_ext_code SMART_IO_FILE_EXT_SO = 2"
| "file_ext_code SMART_IO_FILE_EXT_DEX = 3"
| "file_ext_code SMART_IO_FILE_EXT_APK = 4"
| "file_ext_code SMART_IO_FILE_EXT_LOG = 5"
| "file_ext_code SMART_IO_FILE_EXT_VDEX = 6"
| "file_ext_code SMART_IO_FILE_EXT_ODEX = 7"

section \<open>Statistics\<close>

definition HIST_BUCKETS :: nat where "HIST_BUCKETS = 21"

record lat_hist =
  h_count :: "u64 list"
  h_sum_us :: u64
  h_total :: u64

definition empty_hist :: lat_hist where
  "empty_hist = \<lparr>h_count = replicate HIST_BUCKETS 0, h_sum_us = 0, h_total = 0\<rparr>"

record percpu_bucket =
  pb_read_hist :: lat_hist
  pb_write_hist :: lat_hist
  pb_io_count :: u64
  pb_byte_kb :: u64
  pb_read_kb :: u64
  pb_write_kb :: u64
  pb_filemap_read_pages :: u64
  pb_filemap_miss_pages :: u64
  pb_filemap_cache_add_pages :: u64
  pb_filemap_cache_delete_pages :: u64
  pb_filemap_refault_pages :: u64
  pb_filemap_fault_count :: u64
  pb_filemap_fault_wait_us :: u64

definition empty_bucket :: percpu_bucket where
  "empty_bucket = \<lparr>pb_read_hist = empty_hist, pb_write_hist = empty_hist, pb_io_count = 0, pb_byte_kb = 0,
     pb_read_kb = 0, pb_write_kb = 0, pb_filemap_read_pages = 0, pb_filemap_miss_pages = 0,
     pb_filemap_cache_add_pages = 0, pb_filemap_cache_delete_pages = 0, pb_filemap_refault_pages = 0,
     pb_filemap_fault_count = 0, pb_filemap_fault_wait_us = 0\<rparr>"

record completed_bucket =
  cb_p50_rlat :: u32
  cb_p99_rlat :: u32
  cb_avg_rlat :: u32
  cb_p50_wlat :: u32
  cb_p99_wlat :: u32
  cb_avg_wlat :: u32
  cb_ratio_r :: u32
  cb_ratio_w :: u32
  cb_reclaim_diff :: u64
  cb_burst_total_kbps :: u32
  cb_blk_bw_util :: u32
  cb_page_cache_hit_pct :: u32
  cb_file_access_pages :: u64
  cb_file_miss_pages :: u64
  cb_file_cache_add_pages :: u64
  cb_file_cache_delete_pages :: u64
  cb_file_refault_pages :: u64
  cb_file_fault_count :: u64
  cb_file_fault_wait_us :: u64

definition zero_completed :: completed_bucket where
  "zero_completed = \<lparr>cb_p50_rlat = 0, cb_p99_rlat = 0, cb_avg_rlat = 0, cb_p50_wlat = 0, cb_p99_wlat = 0,
     cb_avg_wlat = 0, cb_ratio_r = 0, cb_ratio_w = 0, cb_reclaim_diff = 0, cb_burst_total_kbps = 0,
     cb_blk_bw_util = 0, cb_page_cache_hit_pct = 0, cb_file_access_pages = 0, cb_file_miss_pages = 0,
     cb_file_cache_add_pages = 0, cb_file_cache_delete_pages = 0, cb_file_refault_pages = 0,
     cb_file_fault_count = 0, cb_file_fault_wait_us = 0\<rparr>"

section \<open>Hot inodes\<close>

definition HOT_INODE_MAX :: nat where "HOT_INODE_MAX = 64"
definition HOT_INODE_TTL_NS :: u64 where "HOT_INODE_TTL_NS = 500 * 1000 * 1000"

record hot_inode_entry =
  hi_inode_hash :: u64
  hi_last_seen_ns :: u64
  hi_file_ext :: file_ext

definition zero_hot :: hot_inode_entry where
  "zero_hot = \<lparr>hi_inode_hash = 0, hi_last_seen_ns = 0, hi_file_ext = SMART_IO_FILE_EXT_UNKNOWN\<rparr>"

end
