(* ===== verification/Io_Stats.thy ===== *)
theory Io_Stats
  imports Io_Types
begin

text \<open>
  Statistics of the I/O recorder: the latency histograms, the buckets per processor and their
  roll-over into the completed window, the utilisation of the device, and the traffic per user.
\<close>

section \<open>Histograms\<close>

definition hist_add :: "u64 \<Rightarrow> lat_hist \<Rightarrow> lat_hist" where
  "hist_add latency_us h =
     (let idx = unat (lat_bucket_idx (if latency_us \<noteq> 0 then latency_us else 1) (of_nat HIST_BUCKETS))
      in h\<lparr>h_count := (h_count h)[idx := h_count h ! idx + 1],
           h_sum_us := h_sum_us h + latency_us, h_total := h_total h + 1\<rparr>)"

fun percentile_from :: "u64 \<Rightarrow> u64 \<Rightarrow> nat \<Rightarrow> u64 list \<Rightarrow> nat option" where
  "percentile_from target seen i [] = None"
| "percentile_from target seen i (c # cs) =
     (if seen + c \<ge> target then Some i else percentile_from target (seen + c) (i + 1) cs)"

definition hist_percentile :: "lat_hist \<Rightarrow> u32 \<Rightarrow> u32" where
  "hist_percentile h pct =
     (if h_total h = 0 then 0
      else
      (let target = (h_total h * ucast pct + 99) div 100 in
       case percentile_from target 0 0 (h_count h) of
         Some i \<Rightarrow> lat_bucket_value (of_nat i)
       | None \<Rightarrow> lat_bucket_value (of_nat (HIST_BUCKETS - 1))))"

section \<open>Buckets\<close>

definition cur_bucket_add :: "io_op \<Rightarrow> u32 \<Rightarrow> u64 \<Rightarrow> percpu_bucket \<Rightarrow> percpu_bucket" where
  "cur_bucket_add op kb latency_us b =
     (let b = (if io_op_is_write op
               then b\<lparr>pb_write_hist := hist_add latency_us (pb_write_hist b), pb_write_kb := pb_write_kb b + ucast kb\<rparr>
               else b\<lparr>pb_read_hist := hist_add latency_us (pb_read_hist b), pb_read_kb := pb_read_kb b + ucast kb\<rparr>)
      in b\<lparr>pb_io_count := pb_io_count b + 1, pb_byte_kb := pb_byte_kb b + ucast kb\<rparr>)"

definition cur_bucket_filemap_add ::
  "u32 \<Rightarrow> u32 \<Rightarrow> u32 \<Rightarrow> u32 \<Rightarrow> u32 \<Rightarrow> u32 \<Rightarrow> u64 \<Rightarrow> percpu_bucket \<Rightarrow> percpu_bucket" where
  "cur_bucket_filemap_add access_pages miss_pages cache_add cache_delete refault fault_count fault_wait_us b =
     b\<lparr>pb_filemap_read_pages := pb_filemap_read_pages b + ucast access_pages,
       pb_filemap_miss_pages := pb_filemap_miss_pages b + ucast miss_pages,
       pb_filemap_cache_add_pages := pb_filemap_cache_add_pages b + ucast cache_add,
       pb_filemap_cache_delete_pages := pb_filemap_cache_delete_pages b + ucast cache_delete,
       pb_filemap_refault_pages := pb_filemap_refault_pages b + ucast refault,
       pb_filemap_fault_count := pb_filemap_fault_count b + ucast fault_count,
       pb_filemap_fault_wait_us := pb_filemap_fault_wait_us b + fault_wait_us\<rparr>"

text \<open>The six recording calls: nothing while the recorder is off, in raw mode, or for no pages.\<close>

definition filemap_record :: "bool \<Rightarrow> bool \<Rightarrow> bool \<Rightarrow> (percpu_bucket \<Rightarrow> percpu_bucket) \<Rightarrow> percpu_bucket \<Rightarrow> percpu_bucket" where
  "filemap_record enabled raw some f b = (if \<not> enabled \<or> \<not> some \<or> raw then b else f b)"

definition smart_io_record_filemap_pages :: "bool \<Rightarrow> bool \<Rightarrow> u32 \<Rightarrow> percpu_bucket \<Rightarrow> percpu_bucket" where
  "smart_io_record_filemap_pages en raw n = filemap_record en raw (n \<noteq> 0) (cur_bucket_filemap_add n 0 0 0 0 0 0)"

definition smart_io_record_filemap_miss :: "bool \<Rightarrow> bool \<Rightarrow> u32 \<Rightarrow> percpu_bucket \<Rightarrow> percpu_bucket" where
  "smart_io_record_filemap_miss en raw n = filemap_record en raw (n \<noteq> 0) (cur_bucket_filemap_add 0 n 0 0 0 0 0)"

definition smart_io_record_filemap_cache_add :: "bool \<Rightarrow> bool \<Rightarrow> u32 \<Rightarrow> percpu_bucket \<Rightarrow> percpu_bucket" where
  "smart_io_record_filemap_cache_add en raw n = filemap_record en raw (n \<noteq> 0) (cur_bucket_filemap_add 0 0 n 0 0 0 0)"

definition smart_io_record_filemap_cache_delete :: "bool \<Rightarrow> bool \<Rightarrow> u32 \<Rightarrow> percpu_bucket \<Rightarrow> percpu_bucket" where
  "smart_io_record_filemap_cache_delete en raw n = filemap_record en raw (n \<noteq> 0) (cur_bucket_filemap_add 0 0 0 n 0 0 0)"

definition smart_io_record_filemap_refault :: "bool \<Rightarrow> bool \<Rightarrow> u32 \<Rightarrow> percpu_bucket \<Rightarrow> percpu_bucket" where
  "smart_io_record_filemap_refault en raw n = filemap_record en raw (n \<noteq> 0) (cur_bucket_filemap_add 0 0 0 0 n 0 0)"

definition smart_io_record_filemap_fault :: "bool \<Rightarrow> bool \<Rightarrow> u64 \<Rightarrow> percpu_bucket \<Rightarrow> percpu_bucket" where
  "smart_io_record_filemap_fault en raw wait_us = filemap_record en raw True (cur_bucket_filemap_add 0 0 0 0 0 1 wait_us)"

section \<open>The completed window\<close>

definition hist_merge :: "lat_hist \<Rightarrow> lat_hist \<Rightarrow> lat_hist" where
  "hist_merge a b = \<lparr>h_count = map2 (+) (h_count a) (h_count b), h_sum_us = h_sum_us a + h_sum_us b,
     h_total = h_total a + h_total b\<rparr>"

text \<open>The sums over the processors; the loop also clears each bucket.\<close>

definition bucket_merge :: "percpu_bucket \<Rightarrow> percpu_bucket \<Rightarrow> percpu_bucket" where
  "bucket_merge a b = \<lparr>pb_read_hist = hist_merge (pb_read_hist a) (pb_read_hist b),
     pb_write_hist = hist_merge (pb_write_hist a) (pb_write_hist b), pb_io_count = pb_io_count a,
     pb_byte_kb = pb_byte_kb a + pb_byte_kb b, pb_read_kb = pb_read_kb a + pb_read_kb b,
     pb_write_kb = pb_write_kb a + pb_write_kb b,
     pb_filemap_read_pages = pb_filemap_read_pages a + pb_filemap_read_pages b,
     pb_filemap_miss_pages = pb_filemap_miss_pages a + pb_filemap_miss_pages b,
     pb_filemap_cache_add_pages = pb_filemap_cache_add_pages a + pb_filemap_cache_add_pages b,
     pb_filemap_cache_delete_pages = pb_filemap_cache_delete_pages a + pb_filemap_cache_delete_pages b,
     pb_filemap_refault_pages = pb_filemap_refault_pages a + pb_filemap_refault_pages b,
     pb_filemap_fault_count = pb_filemap_fault_count a + pb_filemap_fault_count b,
     pb_filemap_fault_wait_us = pb_filemap_fault_wait_us a + pb_filemap_fault_wait_us b\<rparr>"

definition latency_summary :: "lat_hist \<Rightarrow> u32 \<times> u32 \<times> u32 \<times> u32" where
  "latency_summary h =
     (if h_total h = 0 then (0, 0, 0, 0)
      else
      (let p50 = hist_percentile h 50; p99 = hist_percentile h 99
       in (p50, p99, ucast (h_sum_us h div h_total h), if p99 \<noteq> 0 then p50 * 100 div p99 else 0)))"

text \<open>The bandwidth utilisation; a window above the known maximum raises it.\<close>

definition calc_blk_bw_util :: "u32 \<Rightarrow> u32 \<Rightarrow> u32 \<times> u32" where
  "calc_blk_bw_util bandwidth_kbps max_bw_kbps =
     (if max_bw_kbps \<le> bandwidth_kbps then (bandwidth_kbps, 9999)
      else (max_bw_kbps, calc_util_pct bandwidth_kbps max_bw_kbps))"

definition cache_hit_pct :: "u64 \<Rightarrow> u64 \<Rightarrow> u32" where
  "cache_hit_pct pages miss =
     (if pages = 0 then 0
      else (let miss = (if miss > pages then pages else miss); hit = pages - miss
            in ucast (min 100 (hit * 100 div pages))))"

record roll_state =
  rl_buckets :: "percpu_bucket list"
  rl_last :: completed_bucket
  rl_max_bw_kbps :: u32
  rl_prev_reclaim :: u64

definition bucket_clear :: "percpu_bucket \<Rightarrow> percpu_bucket" where
  "bucket_clear b = empty_bucket"

text \<open>\<open>reclaim_now\<close> is the reading of \<open>calc_reclaim_pages\<close>.\<close>

definition next_window :: "percpu_bucket \<Rightarrow> u32 \<Rightarrow> u32 \<Rightarrow> u64 \<Rightarrow> u64 \<Rightarrow> completed_bucket \<times> u32" where
  "next_window t window_ms max_bw reclaim_now prev_reclaim =
     (let (p50r, p99r, avgr, ratior) = latency_summary (pb_read_hist t);
          (p50w, p99w, avgw, ratiow) = latency_summary (pb_write_hist t);
          kbps = kb_window_to_kbps (pb_byte_kb t) window_ms;
          (max_bw, util) = calc_blk_bw_util kbps max_bw
      in (\<lparr>cb_p50_rlat = p50r, cb_p99_rlat = p99r, cb_avg_rlat = avgr, cb_p50_wlat = p50w, cb_p99_wlat = p99w,
           cb_avg_wlat = avgw, cb_ratio_r = ratior, cb_ratio_w = ratiow,
           cb_reclaim_diff = (if reclaim_now \<ge> prev_reclaim then reclaim_now - prev_reclaim else 0),
           cb_burst_total_kbps = kbps, cb_blk_bw_util = util,
           cb_page_cache_hit_pct = cache_hit_pct (pb_filemap_read_pages t) (pb_filemap_miss_pages t),
           cb_file_access_pages = pb_filemap_read_pages t, cb_file_miss_pages = pb_filemap_miss_pages t,
           cb_file_cache_add_pages = pb_filemap_cache_add_pages t,
           cb_file_cache_delete_pages = pb_filemap_cache_delete_pages t,
           cb_file_refault_pages = pb_filemap_refault_pages t, cb_file_fault_count = pb_filemap_fault_count t,
           cb_file_fault_wait_us = pb_filemap_fault_wait_us t\<rparr>, max_bw))"

text \<open>A window without I/O keeps the latencies and the bandwidth of the last one.\<close>

definition store_window :: "bool \<Rightarrow> completed_bucket \<Rightarrow> completed_bucket \<Rightarrow> completed_bucket" where
  "store_window any_io new old =
     (if any_io then new
      else old\<lparr>cb_reclaim_diff := cb_reclaim_diff new, cb_blk_bw_util := cb_blk_bw_util new,
             cb_page_cache_hit_pct := cb_page_cache_hit_pct new, cb_file_access_pages := cb_file_access_pages new,
             cb_file_miss_pages := cb_file_miss_pages new, cb_file_cache_add_pages := cb_file_cache_add_pages new,
             cb_file_cache_delete_pages := cb_file_cache_delete_pages new,
             cb_file_refault_pages := cb_file_refault_pages new, cb_file_fault_count := cb_file_fault_count new,
             cb_file_fault_wait_us := cb_file_fault_wait_us new\<rparr>)"

definition roll_buckets :: "u32 \<Rightarrow> u64 \<Rightarrow> roll_state \<Rightarrow> roll_state" where
  "roll_buckets window_ms reclaim_now r =
     (let t = fold (\<lambda>b t. bucket_merge t b) (rl_buckets r) empty_bucket;
          (new, max_bw) = next_window t window_ms (rl_max_bw_kbps r) reclaim_now (rl_prev_reclaim r);
          any_io = (h_total (pb_read_hist t) \<noteq> 0 \<or> h_total (pb_write_hist t) \<noteq> 0)
      in r\<lparr>rl_buckets := map bucket_clear (rl_buckets r), rl_last := store_window any_io new (rl_last r),
           rl_max_bw_kbps := max_bw, rl_prev_reclaim := reclaim_now\<rparr>)"

section \<open>Device utilisation\<close>

record device_util =
  du_in_flight :: int
  du_busy_ns :: u64
  du_ts_busy_start :: u64
  du_util_window_start :: u64

definition device_issue_account :: "u64 \<Rightarrow> device_util \<Rightarrow> device_util" where
  "device_issue_account now d =
     (let d = d\<lparr>du_in_flight := du_in_flight d + 1\<rparr>
      in if du_in_flight d = 1 then d\<lparr>du_ts_busy_start := now\<rparr> else d)"

definition device_complete_account :: "u64 \<Rightarrow> device_util \<Rightarrow> device_util" where
  "device_complete_account now d =
     (if du_in_flight d > 0 then
        (let d = d\<lparr>du_in_flight := du_in_flight d - 1\<rparr> in
         if du_in_flight d = 0 then
           (if du_ts_busy_start d \<noteq> 0 \<and> now > du_ts_busy_start d
            then d\<lparr>du_busy_ns := du_busy_ns d + (now - du_ts_busy_start d), du_ts_busy_start := 0\<rparr>
            else d\<lparr>du_ts_busy_start := 0\<rparr>)
         else d)
      else d)"

definition snapshot_device_util :: "bool \<Rightarrow> u64 \<Rightarrow> device_util \<Rightarrow> u8" where
  "snapshot_device_util raw now d =
     (if raw then 0
      else
      (let elapsed = now - du_util_window_start d;
           busy = du_busy_ns d;
           busy = (if du_in_flight d > 0 \<and> du_ts_busy_start d \<noteq> 0 then busy + (now - du_ts_busy_start d) else busy)
       in if elapsed \<noteq> 0 then ucast (min 100 (busy * 100 div elapsed)) else 0))"

definition device_window_start :: "u64 \<Rightarrow> device_util \<Rightarrow> device_util" where
  "device_window_start now d =
     (let d = d\<lparr>du_busy_ns := 0, du_util_window_start := now\<rparr>
      in if du_in_flight d > 0 then d\<lparr>du_ts_busy_start := now\<rparr> else d)"

definition calc_queue_sat :: "u32 \<Rightarrow> u32 \<Rightarrow> u32" where
  "calc_queue_sat flight queue_depth = (if queue_depth = 0 then 0 else flight * 100 div queue_depth)"

section \<open>Traffic per user\<close>

record uid_io_entry =
  ue_read_kb :: u32
  ue_write_kb :: u32

type_synonym uid_table = "u32 \<Rightarrow> uid_io_entry option"

definition uid_add :: "u32 \<Rightarrow> io_op \<Rightarrow> uid_io_entry \<Rightarrow> uid_io_entry" where
  "uid_add kb op e =
     (if io_op_is_write op then e\<lparr>ue_write_kb := ue_write_kb e + kb\<rparr> else e\<lparr>ue_read_kb := ue_read_kb e + kb\<rparr>)"

text \<open>\<open>alloc_ok\<close>: whether a new entry can be allocated.\<close>

definition uid_io_curr_add :: "bool \<Rightarrow> u32 \<Rightarrow> u32 \<Rightarrow> io_op \<Rightarrow> uid_table \<Rightarrow> uid_table" where
  "uid_io_curr_add alloc_ok uid kb op t =
     (case t uid of
        Some e \<Rightarrow> t(uid \<mapsto> uid_add kb op e)
      | None \<Rightarrow> if alloc_ok then t(uid \<mapsto> uid_add kb op \<lparr>ue_read_kb = 0, ue_write_kb = 0\<rparr>) else t)"

definition uid_merge :: "uid_table \<Rightarrow> uid_table \<Rightarrow> uid_table" where
  "uid_merge bucket prev = (\<lambda>uid.
     case bucket uid of
       None \<Rightarrow> prev uid
     | Some e \<Rightarrow>
         (case prev uid of
            None \<Rightarrow> Some e
          | Some p \<Rightarrow> Some \<lparr>ue_read_kb = ue_read_kb p + ue_read_kb e, ue_write_kb = ue_write_kb p + ue_write_kb e\<rparr>))"

text \<open>The tables of all processors move into the table of the previous window.\<close>

definition uid_io_swap_buckets :: "uid_table list \<Rightarrow> uid_table list \<times> uid_table" where
  "uid_io_swap_buckets tables = (map (\<lambda>_ _. None) tables, fold uid_merge tables (\<lambda>_. None))"

definition uid_io_prev_bandwidth_kbps :: "bool \<Rightarrow> u32 \<Rightarrow> uid_table \<Rightarrow> u32 \<Rightarrow> u32" where
  "uid_io_prev_bandwidth_kbps raw window_ms prev uid =
     (if raw then 0
      else kb_window_to_kbps
        (case prev uid of None \<Rightarrow> 0 | Some e \<Rightarrow> ucast (ue_read_kb e) + ucast (ue_write_kb e)) window_ms)"

end
