(* ===== verification/Io_Stat_Laws.thy ===== *)
theory Io_Stat_Laws
  imports Io_Stats Tool_Laws
begin

text \<open>
  Laws of the recorder's statistics: the histograms and their percentiles, the bounds of the
  percentages, and the conservation of the traffic per user when the tables are merged.
\<close>

section \<open>Percentiles\<close>

text \<open>The histogram counts what it says, and the products of the percentile computation do not wrap.\<close>

definition hist_ok :: "lat_hist \<Rightarrow> bool" where
  "hist_ok h \<longleftrightarrow> length (h_count h) = HIST_BUCKETS \<and> unat (h_total h) = sum_list (map unat (h_count h)) \<and>
     unat (h_total h) < 2 ^ 56"

lemma empty_hist_ok: "hist_ok empty_hist"
  by (simp add: hist_ok_def empty_hist_def sum_list_replicate)

lemma bucket_idx_less: "unat (lat_bucket_idx x 21) < 21"
  by (simp add: lat_bucket_eq)

lemma sum_list_update_nat: "i < length xs \<Longrightarrow> sum_list (xs[i := v]) + xs ! i = sum_list xs + (v :: nat)"
  by (induction xs arbitrary: i) (auto split: nat.split)

lemma hist_add_ok:
  assumes "hist_ok h" and "unat (h_total h) + 1 < 2 ^ 56"
  shows "hist_ok (hist_add us h)"
proof -
  define i where "i = unat (lat_bucket_idx (if us \<noteq> 0 then us else 1) 21)"
  have i: "i < length (h_count h)" using bucket_idx_less assms(1) by (simp add: i_def hist_ok_def HIST_BUCKETS_def)
  have "unat (h_count h ! i) \<le> sum_list (map unat (h_count h))"
    using i by (intro member_le_sum_list) auto
  then have "unat (h_count h ! i) + 1 < 2 ^ 56" using assms by (simp add: hist_ok_def)
  then have c: "unat (h_count h ! i + 1) = unat (h_count h ! i) + 1" by (simp add: unat_word_ariths)
  have t: "unat (h_total h + 1) = unat (h_total h) + 1" using assms(2) by (simp add: unat_word_ariths)
  have "sum_list (map unat ((h_count h)[i := h_count h ! i + 1])) + unat (h_count h ! i) =
      sum_list (map unat (h_count h)) + (unat (h_count h ! i) + 1)"
    using sum_list_update_nat [of i "map unat (h_count h)" "unat (h_count h ! i) + 1"] i c by (simp add: map_update)
  then have "sum_list (map unat ((h_count h)[i := h_count h ! i + 1])) = unat (h_total h) + 1"
    using assms(1) by (simp add: hist_ok_def)
  then show ?thesis
    using assms t i by (simp add: hist_add_def Let_def hist_ok_def HIST_BUCKETS_def flip: i_def)
qed

lemma percentile_scan:
  "unat seen + sum_list (map unat cs) < 2 ^ 64 \<Longrightarrow> unat target \<le> unat seen + sum_list (map unat cs) \<Longrightarrow> cs \<noteq> [] \<Longrightarrow>
    \<exists>k. percentile_from target seen i cs = Some (i + k) \<and> k < length cs \<and>
      unat target \<le> unat seen + sum_list (map unat (take (Suc k) cs)) \<and>
      (k = 0 \<or> unat seen + sum_list (map unat (take k cs)) < unat target)"
proof (induction cs arbitrary: seen i)
  case (Cons c cs)
  have s: "unat (seen + c) = unat seen + unat c" using Cons.prems(1) by (simp add: unat_word_ariths)
  show ?case
  proof (cases "target \<le> seen + c")
    case True
    then show ?thesis using s by (intro exI [of _ 0]) (simp add: word_le_nat_alt)
  next
    case False
    then have less: "unat seen + unat c < unat target" using s by (simp add: word_le_nat_alt)
    then have ne: "cs \<noteq> []" using Cons.prems(2) by auto
    obtain k where "percentile_from target (seen + c) (i + 1) cs = Some (i + 1 + k)" "k < length cs"
      "unat target \<le> unat seen + unat c + sum_list (map unat (take (Suc k) cs))"
      "k = 0 \<or> unat seen + unat c + sum_list (map unat (take k cs)) < unat target"
      using Cons.IH [of "seen + c" "i + 1"] Cons.prems(1,2) ne s by auto
    then show ?thesis using False less by (intro exI [of _ "Suc k"]) auto
  qed
qed simp

lemma bucket_value: "i < 32 \<Longrightarrow> unat (lat_bucket_value (of_nat i)) = 2 ^ i"
proof -
  assume i: "i < 32"
  have "(2 :: nat) ^ i < 2 ^ 32" using i by (intro power_strict_increasing) simp_all
  then have "unat (of_nat (2 ^ i) :: u32) = 2 ^ i" by (simp add: unat_of_nat take_bit_nat_eq_self del: of_nat_power)
  moreover have "unat (of_nat i :: u8) = i" using i by (simp add: unat_of_nat take_bit_nat_eq_self)
  ultimately show ?thesis by (simp add: lat_bucket_value_def push_bit_eq_mult)
qed



section \<open>Percentages\<close>

lemma cache_hit_bounded: "cache_hit_pct pages miss \<le> 100"
proof -
  have "unat (ucast x :: u32) \<le> 100" if "x \<le> 100" for x :: u64
    using that by (simp add: word_le_nat_alt unsigned_ucast_eq take_bit_nat_eq_self)
  then show ?thesis by (simp add: cache_hit_pct_def Let_def word_le_nat_alt [of _ "100 :: u32"])
qed

section \<open>Traffic per user\<close>

lemma swap_clears: "fst (uid_io_swap_buckets tables) = map (\<lambda>_ _. None) tables"
  by (simp add: uid_io_swap_buckets_def)

definition uid_read :: "u32 \<Rightarrow> uid_table \<Rightarrow> u32" where
  "uid_read uid t = (case t uid of None \<Rightarrow> 0 | Some e \<Rightarrow> ue_read_kb e)"

definition uid_write :: "u32 \<Rightarrow> uid_table \<Rightarrow> u32" where
  "uid_write uid t = (case t uid of None \<Rightarrow> 0 | Some e \<Rightarrow> ue_write_kb e)"

lemma merge_adds:
  "uid_read uid (uid_merge t p) = uid_read uid p + uid_read uid t"
  "uid_write uid (uid_merge t p) = uid_write uid p + uid_write uid t"
  by (simp_all add: uid_read_def uid_write_def uid_merge_def split: option.split)

lemma fold_merge_adds:
  "uid_read uid (fold uid_merge ts p) = uid_read uid p + sum_list (map (uid_read uid) ts)"
  "uid_write uid (fold uid_merge ts p) = uid_write uid p + sum_list (map (uid_write uid) ts)"
  by (induction ts arbitrary: p) (simp_all add: merge_adds add.assoc)

text \<open>The table of the previous window holds the sums of the processors' tables.\<close>

lemma swap_sums:
  "uid_read uid (snd (uid_io_swap_buckets tables)) = sum_list (map (uid_read uid) tables)"
  "uid_write uid (snd (uid_io_swap_buckets tables)) = sum_list (map (uid_write uid) tables)"
  by (simp_all add: uid_io_swap_buckets_def fold_merge_adds) (simp_all add: uid_read_def uid_write_def)

end
