(* ===== verification/Io_Hot.thy ===== *)
theory Io_Hot
  imports Io_Types
begin

text \<open>
  The table of hot inodes: 64 entries, each valid for half a second after it was last seen; a new
  inode takes an expired entry, or the oldest one.
\<close>

section \<open>Operations\<close>

definition hot_inode_entry_expired :: "hot_inode_entry \<Rightarrow> u64 \<Rightarrow> bool" where
  "hot_inode_entry_expired e now_ns \<longleftrightarrow>
     hi_inode_hash e = 0 \<or>
     (now_ns \<ge> hi_last_seen_ns e \<and> now_ns - hi_last_seen_ns e \<ge> HOT_INODE_TTL_NS)"

definition hot_ext :: "file_ext \<Rightarrow> bool" where
  "hot_ext x \<longleftrightarrow> x = SMART_IO_FILE_EXT_APK \<or> x = SMART_IO_FILE_EXT_ODEX \<or> x = SMART_IO_FILE_EXT_VDEX"

text \<open>
  The scan: it stops at the entry of the inode; otherwise it remembers the first expired entry
  and the oldest of the others.
\<close>

datatype hot_scan = HotFound nat | HotMissing "nat option" nat

fun hot_scan_from :: "u64 \<Rightarrow> u64 \<Rightarrow> nat \<Rightarrow> u64 \<Rightarrow> nat \<Rightarrow> nat option \<Rightarrow> hot_inode_entry list \<Rightarrow> hot_scan" where
  "hot_scan_from inode_hash now_ns i oldest_ns oldest_idx expired_idx [] = HotMissing expired_idx oldest_idx"
| "hot_scan_from inode_hash now_ns i oldest_ns oldest_idx expired_idx (e # es) =
     (if hi_inode_hash e = inode_hash then HotFound i
      else if hot_inode_entry_expired e now_ns then
        hot_scan_from inode_hash now_ns (i + 1) oldest_ns oldest_idx
          (if expired_idx = None then Some i else expired_idx) es
      else if hi_last_seen_ns e < oldest_ns then
        hot_scan_from inode_hash now_ns (i + 1) (hi_last_seen_ns e) i expired_idx es
      else hot_scan_from inode_hash now_ns (i + 1) oldest_ns oldest_idx expired_idx es)"

definition smart_io_mark_hot_inode ::
  "u64 \<Rightarrow> file_ext \<Rightarrow> u64 \<Rightarrow> hot_inode_entry list \<Rightarrow> hot_inode_entry list" where
  "smart_io_mark_hot_inode inode_hash ext now_ns hot =
     (if inode_hash = 0 \<or> \<not> hot_ext ext then hot
      else case hot_scan_from inode_hash now_ns 0 u64_max 0 None hot of
        HotFound i \<Rightarrow> hot[i := (hot ! i)\<lparr>hi_last_seen_ns := now_ns, hi_file_ext := ext\<rparr>]
      | HotMissing expired oldest \<Rightarrow>
          hot[(case expired of Some i \<Rightarrow> i | None \<Rightarrow> oldest) :=
            \<lparr>hi_inode_hash = inode_hash, hi_last_seen_ns = now_ns, hi_file_ext = ext\<rparr>])"

text \<open>The lookup clears an entry it finds expired.\<close>

fun hot_lookup :: "u64 \<Rightarrow> u64 \<Rightarrow> hot_inode_entry list \<Rightarrow> hot_inode_entry list \<times> file_ext" where
  "hot_lookup inode_hash now_ns [] = ([], SMART_IO_FILE_EXT_UNKNOWN)"
| "hot_lookup inode_hash now_ns (e # es) =
     (if hi_inode_hash e \<noteq> inode_hash then
        (case hot_lookup inode_hash now_ns es of (es, x) \<Rightarrow> (e # es, x))
      else if \<not> hot_inode_entry_expired e now_ns then (e # es, hi_file_ext e)
      else (zero_hot # es, SMART_IO_FILE_EXT_UNKNOWN))"

definition smart_io_hot_inode_ext ::
  "u64 \<Rightarrow> u64 \<Rightarrow> hot_inode_entry list \<Rightarrow> hot_inode_entry list \<times> file_ext" where
  "smart_io_hot_inode_ext inode_hash now_ns hot =
     (if inode_hash = 0 then (hot, SMART_IO_FILE_EXT_UNKNOWN) else hot_lookup inode_hash now_ns hot)"

definition smart_io_is_hot_inode :: "u64 \<Rightarrow> u64 \<Rightarrow> hot_inode_entry list \<Rightarrow> hot_inode_entry list \<times> bool" where
  "smart_io_is_hot_inode inode_hash now_ns hot =
     (case smart_io_hot_inode_ext inode_hash now_ns hot of (hot, x) \<Rightarrow> (hot, x \<noteq> SMART_IO_FILE_EXT_UNKNOWN))"

definition smart_io_is_hot_read_candidate :: "smart_io_event \<Rightarrow> bool" where
  "smart_io_is_hot_read_candidate e \<longleftrightarrow>
     ev_io_op e = SMART_IO_OP_READ \<and> ev_inode_hash e \<noteq> 0 \<and> hot_ext (ev_file_ext e) \<and> ev_is_front e"

section \<open>Properties of the table\<close>

text \<open>The table has its 64 entries, an inode has at most one, and an entry in use has a hot extension.\<close>

definition hot_ok :: "hot_inode_entry list \<Rightarrow> bool" where
  "hot_ok hot \<longleftrightarrow> length hot = HOT_INODE_MAX \<and>
     (\<forall>i < length hot. \<forall>j < length hot.
        hi_inode_hash (hot ! i) = hi_inode_hash (hot ! j) \<longrightarrow> hi_inode_hash (hot ! i) \<noteq> 0 \<longrightarrow> i = j) \<and>
     (\<forall>e \<in> set hot. hi_inode_hash e \<noteq> 0 \<longrightarrow> hot_ext (hi_file_ext e))"

lemma hot_scan_found:
  "hot_scan_from h now i oldest oi ex es = HotFound j \<Longrightarrow> i \<le> j \<and> j - i < length es \<and> hi_inode_hash (es ! (j - i)) = h"
proof (induction es arbitrary: i oldest oi ex)
  case (Cons e es)
  show ?case
  proof (cases "hi_inode_hash e = h")
    case True
    then show ?thesis using Cons.prems by simp
  next
    case False
    then obtain o' oi' ex' where "hot_scan_from h now (i + 1) o' oi' ex' es = HotFound j"
      using Cons.prems by (simp split: if_splits)
    from Cons.IH [OF this] show ?thesis by (auto simp: nth_Cons' Suc_diff_le)
  qed
qed simp

lemma hot_scan_missing:
  "hot_scan_from h now i oldest oi ex es = HotMissing ex' oi' \<Longrightarrow>
    (\<forall>e \<in> set es. hi_inode_hash e \<noteq> h) \<and>
    (oi' = oi \<or> i \<le> oi' \<and> oi' < i + length es) \<and>
    (\<forall>k. ex' = Some k \<longrightarrow> ex = Some k \<or> i \<le> k \<and> k < i + length es)"
proof (induction es arbitrary: i oldest oi ex)
  case (Cons e es)
  then have ne: "hi_inode_hash e \<noteq> h" by (auto split: if_splits)
  then obtain o' oi2 ex2 where s: "hot_scan_from h now (i + 1) o' oi2 ex2 es = HotMissing ex' oi'"
    "oi2 = oi \<or> oi2 = i" "ex2 = ex \<or> ex = None \<and> ex2 = Some i"
    using Cons.prems by (simp split: if_splits)
  from Cons.IH [OF s(1)] show ?case using ne s(2,3) by auto
qed simp

text \<open>Writing an entry whose inode is nowhere else keeps the table well formed.\<close>

lemma hot_ok_update:
  assumes "hot_ok hot" and "k < length hot"
    and "\<forall>j < length hot. j \<noteq> k \<longrightarrow> hi_inode_hash (hot ! j) \<noteq> hi_inode_hash e \<or> hi_inode_hash e = 0"
    and "hi_inode_hash e \<noteq> 0 \<longrightarrow> hot_ext (hi_file_ext e)"
  shows "hot_ok (hot[k := e])"
  unfolding hot_ok_def
proof (intro conjI allI impI ballI)
  show "length (hot[k := e]) = HOT_INODE_MAX" using assms(1) by (simp add: hot_ok_def)
  fix i j assume "i < length (hot[k := e])" "j < length (hot[k := e])"
    "hi_inode_hash (hot[k := e] ! i) = hi_inode_hash (hot[k := e] ! j)" "hi_inode_hash (hot[k := e] ! i) \<noteq> 0"
  then show "i = j" using assms unfolding hot_ok_def
    by (cases "i = k"; cases "j = k") (simp_all, metis+)
next
  fix x assume "x \<in> set (hot[k := e])" "hi_inode_hash x \<noteq> 0"
  then show "hot_ext (hi_file_ext x)"
    using assms(1,4) set_update_subset_insert [of hot k e] unfolding hot_ok_def by blast
qed

lemma hot_unique:
  assumes "hot_ok hot" and "k < length hot" and "hi_inode_hash (hot ! k) = h" and "h \<noteq> 0"
  shows "\<forall>j < length hot. j \<noteq> k \<longrightarrow> hi_inode_hash (hot ! j) \<noteq> h"
  using assms(1)[unfolded hot_ok_def, THEN conjunct2, THEN conjunct1] assms(2-4) by metis

text \<open>What a mark writes, and where.\<close>

lemma mark_writes:
  assumes ok: "hot_ok hot" and h: "h \<noteq> 0" "hot_ext x"
  obtains k where "k < length hot"
    "smart_io_mark_hot_inode h x now hot = hot[k := \<lparr>hi_inode_hash = h, hi_last_seen_ns = now, hi_file_ext = x\<rparr>]"
    "\<forall>j < length hot. j \<noteq> k \<longrightarrow> hi_inode_hash (hot ! j) \<noteq> h"
proof (cases "hot_scan_from h now 0 u64_max 0 None hot")
  case (HotFound k)
  have k: "k < length hot" "hi_inode_hash (hot ! k) = h" using hot_scan_found [OF HotFound] by simp_all
  have "(hot ! k)\<lparr>hi_last_seen_ns := now, hi_file_ext := x\<rparr> = \<lparr>hi_inode_hash = h, hi_last_seen_ns = now, hi_file_ext = x\<rparr>"
    using k(2) by (cases "hot ! k") simp
  then have "smart_io_mark_hot_inode h x now hot = hot[k := \<lparr>hi_inode_hash = h, hi_last_seen_ns = now, hi_file_ext = x\<rparr>]"
    using HotFound h by (simp add: smart_io_mark_hot_inode_def)
  then show ?thesis by (rule that [OF k(1) _ hot_unique [OF ok k h(1)]])
next
  case (HotMissing ex oi)
  note m = hot_scan_missing [OF HotMissing]
  have "length hot = 64" using ok by (simp add: hot_ok_def HOT_INODE_MAX_def)
  then have k: "(case ex of Some i \<Rightarrow> i | None \<Rightarrow> oi) < length hot" using m by (auto split: option.split)
  show ?thesis using that [OF k] HotMissing h m by (auto simp: smart_io_mark_hot_inode_def)
qed

lemma mark_ok: "hot_ok hot \<Longrightarrow> hot_ok (smart_io_mark_hot_inode h x now hot)"
proof -
  assume ok: "hot_ok hot"
  show ?thesis
  proof (cases "h = 0 \<or> \<not> hot_ext x")
    case True
    then show ?thesis using ok by (simp add: smart_io_mark_hot_inode_def)
  next
    case False
    then have h: "h \<noteq> 0" "hot_ext x" by simp_all
    from mark_writes [OF ok h, of now] obtain k where k: "k < length hot"
      "smart_io_mark_hot_inode h x now hot = hot[k := \<lparr>hi_inode_hash = h, hi_last_seen_ns = now, hi_file_ext = x\<rparr>]"
      "\<forall>j < length hot. j \<noteq> k \<longrightarrow> hi_inode_hash (hot ! j) \<noteq> h" by blast
    show ?thesis unfolding k(2) by (rule hot_ok_update [OF ok k(1)]) (use k(3) h in simp_all)
  qed
qed

lemma lookup_unique:
  "(\<forall>j < length es. j \<noteq> k \<longrightarrow> hi_inode_hash (es ! j) \<noteq> h) \<Longrightarrow> k < length es \<Longrightarrow> hi_inode_hash (es ! k) = h \<Longrightarrow>
    hot_lookup h now es =
      (if hot_inode_entry_expired (es ! k) now then (es[k := zero_hot], SMART_IO_FILE_EXT_UNKNOWN)
       else (es, hi_file_ext (es ! k)))"
proof (induction es arbitrary: k)
  case (Cons e es)
  show ?case
  proof (cases k)
    case 0
    then show ?thesis using Cons.prems by simp
  next
    case (Suc k')
    have "hi_inode_hash e \<noteq> h" using Cons.prems(1) Suc by force
    moreover have "\<forall>j < length es. j \<noteq> k' \<longrightarrow> hi_inode_hash (es ! j) \<noteq> h"
      using Cons.prems(1) Suc by force
    ultimately show ?thesis using Cons.IH [of k'] Cons.prems(2,3) Suc by simp
  qed
qed simp

lemma lookup_absent: "\<forall>e \<in> set es. hi_inode_hash e \<noteq> h \<Longrightarrow> hot_lookup h now es = (es, SMART_IO_FILE_EXT_UNKNOWN)"
  by (induction es) auto

lemma lookup_ok: "hot_ok hot \<Longrightarrow> hot_ok (fst (smart_io_hot_inode_ext h now hot))"
proof -
  assume ok: "hot_ok hot"
  show ?thesis
  proof (cases "h = 0 \<or> (\<forall>e \<in> set hot. hi_inode_hash e \<noteq> h)")
    case True
    then show ?thesis using ok by (auto simp: smart_io_hot_inode_ext_def lookup_absent)
  next
    case False
    then obtain k where k: "k < length hot" "hi_inode_hash (hot ! k) = h" "h \<noteq> 0" by (auto simp: in_set_conv_nth)
    note u = hot_unique [OF ok k]
    have "hot_ok (hot[k := zero_hot])" by (rule hot_ok_update [OF ok k(1)]) (simp_all add: zero_hot_def)
    then show ?thesis using ok k(3) by (simp add: smart_io_hot_inode_ext_def lookup_unique [OF u k(1,2)])
  qed
qed



end
