(* ===== verification/Trace_Instance.thy ===== *)
theory Trace_Instance
  imports Io_Types
begin

text \<open>
  \<open>trace_instance.c\<close>: the tracing instance and the lines written to it.  A line is its event name, the
  labels of its format and the values passed with it; a reader pairs them in order.  The kernel's
  tracing calls are inputs: the instance found by name and the result of preparing it.
\<close>

section \<open>Lines\<close>

datatype raw_line = RawLine string "string list" "tval list"

fun line_fields :: "raw_line \<Rightarrow> (string \<times> tval) list" where
  "line_fields (RawLine name labels args) = zip labels args"

fun line_name :: "raw_line \<Rightarrow> string" where
  "line_name (RawLine name labels args) = name"

definition line_field :: "string \<Rightarrow> raw_line \<Rightarrow> tval option" where
  "line_field label l = map_of (line_fields l) label"

definition complete_labels :: "string list" where
  "complete_labels =
     [''ts_insert'', ''ts_issue'', ''ts_complete'', ''uid'', ''scene_tag'', ''is_front'', ''thread_role'',
      ''io_op'', ''io_sz_kb'', ''sector'', ''ioprio'', ''file_ext'', ''file_ext_s'', ''fs'', ''dev_name'',
      ''remap_from'', ''remap_mixed'', ''dev_type'', ''sync'', ''inode'', ''io_inflight'', ''queue_sat'',
      ''cg_io_weight'', ''gc'', ''cp'', ''hot_file'', ''mem_avail_mb'', ''dirty_mb'', ''wb_mb'', ''swap_mb'',
      ''cpu_loadavg_1m'', ''online_cpus'', ''runqueue'', ''dev_util_pct'', ''io_bw_kbps'', ''lat_us'',
      ''sched_us'', ''dev_us'', ''sched_pct'', ''p50_r_us'', ''p50_w_us'', ''p99_r_us'', ''p99_w_us'',
      ''avg_r_us'', ''avg_w_us'', ''p50_p99_r'', ''p50_p99_w'', ''reclaim_pages'', ''sys_psi_io'',
      ''blk_bw_util'', ''render_avg_lat'', ''jank_cnt'', ''ttff'', ''ttir'', ''cache_hit'',
      ''file_access_pages'', ''file_miss_pages'', ''file_cache_add_pages'', ''file_cache_delete_pages'',
      ''file_refault_pages'', ''file_fault_count'', ''file_fault_wait_us'', ''direct'']"

definition complete_values :: "smart_io_event \<Rightarrow> tval list" where
  "complete_values e =
     [TN (unat (ev_ts_insert e)), TN (unat (ev_ts_issue e)), TN (unat (ev_ts_complete e)),
      TN (unat (ev_uid e)), TN (unat (ev_scene_tag e)), TN (of_bool (ev_is_front e)),
      TN (thread_role_code (ev_thread_role e)), TN (io_op_code (ev_io_op e)), TN (unat (ev_io_size_kb e)),
      TN (unat (ev_sector e)), TN (unat (ev_ioprio_class e)), TN (file_ext_code (ev_file_ext e)),
      TS (ev_file_ext_str e), TS (ev_fs_type e), TS (ev_dev_name e), TS (ev_remap_from e),
      TN (of_bool (ev_remap_mixed e)), TN (device_type_code (ev_device_type e)), TN (of_bool (ev_is_sync e)),
      TN (unat (ev_inode_hash e)), TN (unat (ev_io_in_flight e)), TN (unat (ev_queue_saturate e)),
      TN (unat (ev_cgroup_io_weight e)), TN (of_bool (ev_f2fs_gc_active e)),
      TN (of_bool (ev_f2fs_cp_active e)), TN (of_bool (ev_is_hot_file e)), TN (unat (ev_mem_avail_mb e)),
      TN (unat (ev_dirty_pages_mb e)), TN (unat (ev_wb_pages_mb e)), TN (unat (ev_swap_mb e)),
      TN (unat (ev_cpu_loadavg_1m e)), TN (unat (ev_online_cpus e)), TN (unat (ev_runqueue_len e)),
      TN (unat (ev_device_util_pct e)), TN (unat (ev_io_bw_kbps e)), TN (unat (ev_latency_us e)),
      TN (unat (ev_sched_us e)), TN (unat (ev_dev_us e)), TN (unat (ev_sched_pct e)),
      TN (unat (ev_p50_read_lat_us (ev_last e))), TN (unat (ev_p50_write_lat_us (ev_last e))),
      TN (unat (ev_p99_read_lat_us (ev_last e))), TN (unat (ev_p99_write_lat_us (ev_last e))),
      TN (unat (ev_avg_read_lat_us (ev_last e))), TN (unat (ev_avg_write_lat_us (ev_last e))),
      TN (unat (ev_p50_p99_ratio_r (ev_last e))), TN (unat (ev_p50_p99_ratio_w (ev_last e))),
      TN (unat (ev_reclaim_pages (ev_last e))), TN (unat (ev_sys_psi_io (ev_last e))),
      TN (unat (ev_blk_bw_util (ev_last e))), TN (unat (ev_render_avg_lat (ev_last e))),
      TN (unat (ev_jank_cnt (ev_last e))), TN (unat (ev_time_to_first_frame e)),
      TN (unat (ev_time_to_input_response e)), TN (unat (ev_cache_hit (ev_last e))),
      TN (unat (ev_file_access_pages (ev_last e))), TN (unat (ev_file_miss_pages (ev_last e))),
      TN (unat (ev_file_cache_add_pages (ev_last e))), TN (unat (ev_file_cache_delete_pages (ev_last e))),
      TN (unat (ev_file_refault_pages (ev_last e))), TN (unat (ev_file_fault_count (ev_last e))),
      TN (unat (ev_file_fault_wait_us (ev_last e))), TN (of_bool (ev_direct_path e))]"

text \<open>The format and the arguments of the completion line agree in number.\<close>

lemma complete_line_aligned: "length (complete_values e) = length complete_labels"
  by (simp add: complete_values_def complete_labels_def)

section \<open>The instance\<close>

record trace_state =
  ts_array :: "nat option"
  ts_raw :: bool
  ts_debug :: bool

datatype trace_effect = TracePrintk raw_line | TracePut nat | LogWarn raw_line

text \<open>Looking the instance up again: its preparation may fail, and then it is released.\<close>

definition instance_retry :: "nat option \<Rightarrow> bool \<Rightarrow> trace_state \<Rightarrow> trace_state \<times> nat option \<times> trace_effect list" where
  "instance_retry found ready t =
     (case found of
        None \<Rightarrow> (t, None, [])
      | Some tr \<Rightarrow> if \<not> ready then (t, None, [TracePut tr]) else (t\<lparr>ts_array := Some tr\<rparr>, Some tr, []))"

definition smart_io_trace_instance_init ::
  "nat option \<Rightarrow> errno option \<Rightarrow> trace_state \<Rightarrow> trace_state \<times> errno option \<times> trace_effect list" where
  "smart_io_trace_instance_init found prepared t =
     (case found of
        None \<Rightarrow> (t, Some EAGAIN, [])
      | Some tr \<Rightarrow>
          (case prepared of
             Some e \<Rightarrow> (t, Some e, [TracePut tr])
           | None \<Rightarrow> (t\<lparr>ts_array := Some tr\<rparr>, None, [])))"

definition smart_io_trace_instance_exit :: "trace_state \<Rightarrow> trace_state \<times> trace_effect list" where
  "smart_io_trace_instance_exit t =
     (t\<lparr>ts_array := None\<rparr>, case ts_array t of None \<Rightarrow> [] | Some tr \<Rightarrow> [TracePut tr])"

definition smart_io_trace_emit_complete :: "smart_io_event \<Rightarrow> trace_state \<Rightarrow> trace_effect list" where
  "smart_io_trace_emit_complete e t =
     (if ts_array t = None then []
      else [TracePrintk (RawLine ''smart_io_complete'' complete_labels (complete_values e))])"

definition smart_io_raw_emit :: "raw_line \<Rightarrow> trace_state \<Rightarrow> trace_effect list" where
  "smart_io_raw_emit l t = (if \<not> ts_raw t \<or> ts_array t = None then [] else [TracePrintk l])"

definition smart_io_trace_debug :: "raw_line \<Rightarrow> trace_state \<Rightarrow> trace_effect list" where
  "smart_io_trace_debug l t =
     (if \<not> ts_debug t then []
      else LogWarn l # (if ts_array t = None then [] else [TracePrintk l]))"

definition smart_io_trace_log ::
  "nat option \<Rightarrow> bool \<Rightarrow> raw_line \<Rightarrow> trace_state \<Rightarrow> trace_state \<times> trace_effect list" where
  "smart_io_trace_log found ready l t =
     (case ts_array t of
        Some tr \<Rightarrow> (t, [TracePrintk l])
      | None \<Rightarrow>
          (case instance_retry found ready t of
             (t, None, es) \<Rightarrow> (t, es)
           | (t, Some tr, es) \<Rightarrow> (t, es @ [TracePrintk l])))"

text \<open>The instance is kept exactly when its preparation succeeds, and put otherwise.\<close>

lemma instance_balance:
  "smart_io_trace_instance_init (Some tr) prepared t = (t', r, es) \<Longrightarrow>
    ts_array t' = (if prepared = None then Some tr else ts_array t) \<and>
    es = (if prepared = None then [] else [TracePut tr]) \<and> r = prepared"
  by (auto simp: smart_io_trace_instance_init_def split: option.splits)

lemma exit_releases: "ts_array t = Some tr \<Longrightarrow> snd (smart_io_trace_instance_exit t) = [TracePut tr]"
  by (simp add: smart_io_trace_instance_exit_def)

end
