(* ===== verification/Policy.thy ===== *)
theory Policy
  imports Prelude
begin

text \<open>
  \<open>filter.c\<close> and \<open>smart_io_policy.h\<close>: which requests the recorder captures.  The random number of the
  sampling test is an argument.
\<close>

record smart_io_policy =
  po_enabled :: bool
  po_sample_rate_pct :: u32
  po_match_uid :: int
  po_only_sync :: bool
  po_capture_scene_mask :: u32

definition current_policy_initial :: smart_io_policy where
  "current_policy_initial = \<lparr>po_enabled = False, po_sample_rate_pct = 100, po_match_uid = -1,
     po_only_sync = False, po_capture_scene_mask = 0\<rparr>"

definition smart_io_policy_set :: "u32 \<Rightarrow> int \<Rightarrow> bool \<Rightarrow> u8 \<Rightarrow> smart_io_policy \<Rightarrow> smart_io_policy \<times> errno option" where
  "smart_io_policy_set rate uid sync_only scene_mask p =
     (if rate > 100 then (p, Some EINVAL)
      else (p\<lparr>po_sample_rate_pct := rate, po_match_uid := uid, po_only_sync := sync_only,
              po_capture_scene_mask := ucast scene_mask\<rparr>, None))"

definition policy_should_capture :: "smart_io_policy \<Rightarrow> u32 \<Rightarrow> u32 \<Rightarrow> bool \<Rightarrow> u32 \<Rightarrow> bool" where
  "policy_should_capture p random uid is_sync scene =
     (if \<not> po_enabled p then False
      else if po_match_uid p \<ge> 0 \<and> word_of_int (po_match_uid p) \<noteq> uid then False
      else if po_only_sync p \<and> \<not> is_sync then False
      else if po_capture_scene_mask p \<noteq> 0 \<and> scene < 32 \<and> \<not> bit (po_capture_scene_mask p) (unat scene) then False
      else if po_sample_rate_pct p < 100 \<and> random mod 100 \<ge> po_sample_rate_pct p then False
      else True)"

text \<open>A sampling rate of 100 takes every request the other tests pass, a rate of 0 takes none.\<close>

lemma full_rate_captures:
  "po_enabled p \<Longrightarrow> po_match_uid p < 0 \<Longrightarrow> \<not> po_only_sync p \<Longrightarrow> po_capture_scene_mask p = 0 \<Longrightarrow>
    po_sample_rate_pct p = 100 \<Longrightarrow> policy_should_capture p random uid is_sync scene"
  by (simp add: policy_should_capture_def)

lemma zero_rate_captures_nothing: "po_sample_rate_pct p = 0 \<Longrightarrow> \<not> policy_should_capture p random uid is_sync scene"
  by (simp add: policy_should_capture_def)

text \<open>The scene mask has eight bits, so a non-zero mask excludes the scenes 8 to 31.\<close>

lemma mask_excludes_high_scenes:
  assumes "smart_io_policy_set rate uid sync_only scene_mask p = (p', None)" and "scene_mask \<noteq> 0" and "8 \<le> scene" and "scene < 32"
  shows "\<not> policy_should_capture p' random u is_sync scene"
proof -
  have m: "po_capture_scene_mask p' = ucast scene_mask" using assms(1) by (auto simp: smart_io_policy_set_def split: if_splits)
  have "\<not> bit (ucast scene_mask :: u32) (unat scene)"
    using assms(3) bit_imp_le_length [of scene_mask "unat scene"] by (auto simp: bit_simps word_le_nat_alt)
  moreover have "(ucast scene_mask :: u32) \<noteq> 0"
  proof
    assume "(ucast scene_mask :: u32) = 0"
    then have "unat (ucast scene_mask :: u32) = 0" by simp
    then have "unat scene_mask = 0"
      using unsigned_less [of scene_mask, where 'a = nat] by (simp add: unsigned_ucast_eq take_bit_nat_eq_self)
    then show False using assms(2) by (simp add: unat_eq_zero)
  qed
  ultimately show ?thesis using m assms(4) by (simp add: policy_should_capture_def)
qed

end
