(* ===== verification/Chain.thy ===== *)
theory Chain
  imports Prelude
begin

text \<open>
  Hash tables of the kernel as lists of entries.  An entry is added at the head of the chain of its
  key's bucket, and a lookup walks that chain from the head.  Entries that a lookup may return have
  its key and therefore lie in the same bucket, so the list of all entries, newest first, gives
  every lookup the same answer.
\<close>

fun chain_find :: "('e \<Rightarrow> 'k) \<Rightarrow> 'k \<Rightarrow> 'e list \<Rightarrow> 'e option" where
  "chain_find key k [] = None"
| "chain_find key k (e # es) = (if key e = k then Some e else chain_find key k es)"

fun chain_del :: "('e \<Rightarrow> 'k) \<Rightarrow> 'k \<Rightarrow> 'e list \<Rightarrow> 'e list" where
  "chain_del key k [] = []"
| "chain_del key k (e # es) = (if key e = k then es else e # chain_del key k es)"

fun chain_upd :: "('e \<Rightarrow> 'k) \<Rightarrow> 'k \<Rightarrow> ('e \<Rightarrow> 'e) \<Rightarrow> 'e list \<Rightarrow> 'e list" where
  "chain_upd key k f [] = []"
| "chain_upd key k f (e # es) = (if key e = k then f e # es else e # chain_upd key k f es)"

lemma chain_find_Some: "chain_find key k es = Some e \<Longrightarrow> e \<in> set es \<and> key e = k"
  by (induction es) (auto split: if_splits)

lemma chain_find_None: "chain_find key k es = None \<longleftrightarrow> k \<notin> key ` set es"
  by (induction es) auto

lemma chain_del_absent [simp]: "k \<notin> key ` set es \<Longrightarrow> chain_del key k es = es"
  by (induction es) auto

lemma chain_upd_absent [simp]: "k \<notin> key ` set es \<Longrightarrow> chain_upd key k f es = es"
  by (induction es) auto

lemma chain_del_distinct: "distinct (map key es) \<Longrightarrow> chain_del key k es = filter (\<lambda>e. key e \<noteq> k) es"
proof (induction es)
  case (Cons e es)
  then show ?case by (cases "key e = k") (auto simp: filter_empty_conv intro!: filter_True [symmetric])
qed simp

lemma chain_upd_keys: "(\<And>e. key (f e) = key e) \<Longrightarrow> map key (chain_upd key k f es) = map key es"
  by (induction es) auto

lemma chain_find_upd:
  "(\<And>e. key (f e) = key e) \<Longrightarrow>
    chain_find key k' (chain_upd key k f es) = (if k' = k then map_option f (chain_find key k es) else chain_find key k' es)"
  by (induction es) auto

lemma chain_del_keys: "set (map key (chain_del key k es)) \<subseteq> set (map key es)"
  by (induction es) auto

lemma chain_del_distinct_keys: "distinct (map key es) \<Longrightarrow> distinct (map key (chain_del key k es))"
  by (simp add: chain_del_distinct distinct_map_filter)

lemma chain_del_other: "k' \<noteq> k \<Longrightarrow> chain_find key k' (chain_del key k es) = chain_find key k' es"
  by (induction es) auto

lemma chain_del_same: "distinct (map key es) \<Longrightarrow> chain_find key k (chain_del key k es) = None"
  by (auto simp: chain_del_distinct chain_find_None)

text \<open>Counting the entries that satisfy a condition.\<close>

definition chain_count :: "('e \<Rightarrow> bool) \<Rightarrow> 'e list \<Rightarrow> nat" where
  "chain_count P es = length (filter P es)"

lemma chain_count_Cons [simp]: "chain_count P (e # es) = (if P e then 1 else 0) + chain_count P es"
  by (simp add: chain_count_def)

lemma chain_count_Nil [simp]: "chain_count P [] = 0"
  by (simp add: chain_count_def)

lemma chain_count_del:
  "chain_find key k es = Some e \<Longrightarrow> chain_count P es = (if P e then 1 else 0) + chain_count P (chain_del key k es)"
  by (induction es) (auto split: if_splits)

lemma chain_count_upd:
  "chain_find key k es = Some e \<Longrightarrow>
    chain_count P (chain_upd key k f es) + (if P e then 1 else 0) = (if P (f e) then 1 else 0) + chain_count P es"
  by (induction es) (auto split: if_splits)

end
