(* ===== verification/Io_Record.thy ===== *)
theory Io_Record
  imports Io_Hot Io_Stats Trace_Instance Policy Chain
begin

text \<open>
  \<open>io_semantics.c\<close>: the state of the recorder, what a call reads of its surroundings, and the helpers of
  the event handlers: remap tables, raw lines, and the filling of an event from a request.
\<close>

section \<open>State\<close>

record rq_record =
  rr_rq :: nat
  rr_event :: smart_io_event
  rr_issued :: bool
  rr_data_bytes :: u32

record smart_io_counters =
  ct_insert_cnt :: u64
  ct_issue_cnt :: u64
  ct_complete_cnt :: u64
  ct_direct_issue_cnt :: u64
  ct_lost_complete_cnt :: u64

text \<open>The remap entries: a bio or request and the device it was remapped from.\<close>

type_synonym remap_table = "(nat \<times> u32) list"

record recorder =
  rc_enabled :: bool
  rc_raw :: bool
  rc_policy :: smart_io_policy
  rc_records :: "rq_record list"
  rc_bio_remap :: remap_table
  rc_rq_remap :: remap_table
  rc_counters :: "nat \<Rightarrow> smart_io_counters"
  rc_roll :: roll_state
  rc_uid_curr :: "uid_table list"
  rc_uid_prev :: uid_table
  rc_hot :: "hot_inode_entry list"
  rc_dev :: device_util
  rc_latest :: smart_io_event
  rc_window_sz_ms :: u32
  rc_queue_depth :: u32
  rc_f2fs_gc_active :: int
  rc_f2fs_cp_active :: int
  rc_loadavg_1m_x100 :: u32
  rc_psi_io :: u32
  rc_render_avg_lat :: u32
  rc_jank_cnt :: u32

text \<open>A request as the recorder reads it: the bios it carries, its flags and its hardware context.\<close>

record io_request = request +
  io_bios :: "bio_info list"
  io_cmd_flags :: u32
  io_active :: "int option"

text \<open>
  The surroundings of a call: the calling task and processor, the foreground context, the clock (the
  reading at each place where the code takes one), the random number, which allocations succeed,
  the memory and load figures of the kernel, its default cgroup weight and \<open>format_dev_t\<close>.
\<close>

record io_env =
  ie_uid :: u32
  ie_pid :: int
  ie_tgid :: int
  ie_comm :: string
  ie_cpu :: nat
  ie_fg_uid :: u32
  ie_scene :: u32
  ie_clk :: "nat \<Rightarrow> u64"
  ie_random :: u32
  ie_alloc_record :: bool
  ie_alloc_uid :: bool
  ie_alloc_remap :: bool
  ie_page_shift :: nat
  ie_mem_available :: u64
  ie_file_dirty :: u64
  ie_writeback :: u64
  ie_totalswap :: u64
  ie_freeswap :: u64
  ie_online_cpus :: u32
  ie_nr_running :: "u32 list"
  ie_cgroup_weight_dfl :: u32
  ie_format_dev :: "u32 \<Rightarrow> string"

datatype io_effect = RawEmit raw_line | TraceComplete smart_io_event | TraceDebug raw_line

section \<open>Settings\<close>

definition get_window_sz_ms :: "recorder \<Rightarrow> u32" where "get_window_sz_ms r = rc_window_sz_ms r"

definition set_window_sz_ms :: "u32 \<Rightarrow> recorder \<Rightarrow> recorder" where
  "set_window_sz_ms sz_ms r = r\<lparr>rc_window_sz_ms := sz_ms\<rparr>"

definition set_loadavg_1m_x100 :: "u32 \<Rightarrow> recorder \<Rightarrow> recorder" where
  "set_loadavg_1m_x100 v r = r\<lparr>rc_loadavg_1m_x100 := v\<rparr>"

definition set_psi_io_x100 :: "u64 \<Rightarrow> u32 \<Rightarrow> recorder \<Rightarrow> recorder \<times> io_effect list" where
  "set_psi_io_x100 now v r =
     (r\<lparr>rc_psi_io := v\<rparr>,
      if rc_raw r then [RawEmit (RawLine ''android_vh_psi_group'' [''ts'', ''io_some_avg10_x100''] [TN (unat now), TN (unat v)])]
      else [])"

definition set_render_avg_lat :: "u32 \<Rightarrow> recorder \<Rightarrow> recorder" where
  "set_render_avg_lat v r = r\<lparr>rc_render_avg_lat := v\<rparr>"

definition get_render_avg_lat :: "recorder \<Rightarrow> u32" where "get_render_avg_lat r = rc_render_avg_lat r"

definition set_jank_cnt :: "u32 \<Rightarrow> recorder \<Rightarrow> recorder" where
  "set_jank_cnt v r = r\<lparr>rc_jank_cnt := v\<rparr>"

definition get_jank_cnt :: "recorder \<Rightarrow> u32" where "get_jank_cnt r = rc_jank_cnt r"

definition stamp_line :: "string \<Rightarrow> u64 \<Rightarrow> recorder \<Rightarrow> io_effect list" where
  "stamp_line name now r = (if rc_raw r then [RawEmit (RawLine name [''ts''] [TN (unat now)])] else [])"

definition f2fs_gc_begin :: "u64 \<Rightarrow> recorder \<Rightarrow> recorder \<times> io_effect list" where
  "f2fs_gc_begin now r = (r\<lparr>rc_f2fs_gc_active := rc_f2fs_gc_active r + 1\<rparr>, stamp_line ''f2fs_gc_begin'' now r)"

definition f2fs_gc_end :: "u64 \<Rightarrow> recorder \<Rightarrow> recorder \<times> io_effect list" where
  "f2fs_gc_end now r =
     (if rc_f2fs_gc_active r > 0 then r\<lparr>rc_f2fs_gc_active := rc_f2fs_gc_active r - 1\<rparr> else r,
      stamp_line ''f2fs_gc_end'' now r)"

definition f2fs_cp_begin :: "u64 \<Rightarrow> recorder \<Rightarrow> recorder \<times> io_effect list" where
  "f2fs_cp_begin now r = (r\<lparr>rc_f2fs_cp_active := rc_f2fs_cp_active r + 1\<rparr>, stamp_line ''f2fs_cp_begin'' now r)"

definition f2fs_cp_end :: "u64 \<Rightarrow> recorder \<Rightarrow> recorder \<times> io_effect list" where
  "f2fs_cp_end now r =
     (if rc_f2fs_cp_active r > 0 then r\<lparr>rc_f2fs_cp_active := rc_f2fs_cp_active r - 1\<rparr> else r,
      stamp_line ''f2fs_cp_end'' now r)"

section \<open>Remapped devices\<close>

record remap_info =
  ri_first_dev :: u32
  ri_found :: bool
  ri_mixed :: bool

definition zero_remap :: remap_info where
  "zero_remap = \<lparr>ri_first_dev = 0, ri_found = False, ri_mixed = False\<rparr>"

definition resolve_remap_name :: "(u32 \<Rightarrow> string) \<Rightarrow> u32 \<Rightarrow> string" where
  "resolve_remap_name format_dev dev = (if dev = 0 then ''none'' else strscpy (format_dev dev) dev_name_len)"

definition remap_info_consider :: "u32 \<Rightarrow> remap_info \<Rightarrow> remap_info" where
  "remap_info_consider old_dev info =
     (if old_dev = 0 then info
      else if \<not> ri_found info then info\<lparr>ri_first_dev := old_dev, ri_found := True\<rparr>
      else if ri_first_dev info \<noteq> old_dev then info\<lparr>ri_mixed := True\<rparr>
      else info)"

text \<open>One lookup of a remap table: the entry found is considered and removed.\<close>

definition take_remap :: "nat \<Rightarrow> remap_table \<times> remap_info \<Rightarrow> remap_table \<times> remap_info" where
  "take_remap k p =
     (case p of (t, info) \<Rightarrow>
        (case chain_find fst k t of
           None \<Rightarrow> (t, info)
         | Some e \<Rightarrow> (chain_del fst k t, remap_info_consider (snd e) info)))"

definition consume_rq_remap :: "nat \<Rightarrow> recorder \<Rightarrow> remap_info \<Rightarrow> recorder \<times> remap_info" where
  "consume_rq_remap rq r info =
     (case take_remap rq (rc_rq_remap r, info) of (t, info) \<Rightarrow> (r\<lparr>rc_rq_remap := t\<rparr>, info))"

definition consume_bio_remaps :: "bio_info list \<Rightarrow> recorder \<Rightarrow> remap_info \<Rightarrow> recorder \<times> remap_info" where
  "consume_bio_remaps bios r info =
     (case fold (\<lambda>b. take_remap (bi_ptr b)) bios (rc_bio_remap r, info) of (t, info) \<Rightarrow>
        (r\<lparr>rc_bio_remap := t\<rparr>, info))"

definition consume_request_remap :: "io_request \<Rightarrow> recorder \<Rightarrow> recorder \<times> remap_info" where
  "consume_request_remap rq r =
     (case consume_rq_remap (rq_ptr rq) r zero_remap of (r, info) \<Rightarrow> consume_bio_remaps (io_bios rq) r info)"

definition apply_remap_info :: "(u32 \<Rightarrow> string) \<Rightarrow> remap_info \<Rightarrow> smart_io_event \<Rightarrow> smart_io_event" where
  "apply_remap_info format_dev info e =
     (if \<not> ri_found info then e
      else e\<lparr>ev_remap_from := resolve_remap_name format_dev (ri_first_dev info), ev_remap_mixed := ri_mixed info\<rparr>)"

text \<open>Recording a remap: the first one of a bio or request is kept.\<close>

definition add_remap :: "bool \<Rightarrow> nat \<Rightarrow> u32 \<Rightarrow> remap_table \<Rightarrow> remap_table" where
  "add_remap alloc_ok k old_dev t =
     (case chain_find fst k t of Some _ \<Rightarrow> t | None \<Rightarrow> if alloc_ok then (k, old_dev) # t else t)"

definition smart_io_record_bio_remap :: "io_env \<Rightarrow> nat option \<Rightarrow> u32 \<Rightarrow> recorder \<Rightarrow> recorder" where
  "smart_io_record_bio_remap env bio old_dev r =
     (if \<not> rc_enabled r then r
      else case bio of
        None \<Rightarrow> r
      | Some b \<Rightarrow> r\<lparr>rc_bio_remap := add_remap (ie_alloc_remap env) b old_dev (rc_bio_remap r)\<rparr>)"

definition smart_io_record_rq_remap :: "io_env \<Rightarrow> nat option \<Rightarrow> u32 \<Rightarrow> recorder \<Rightarrow> recorder" where
  "smart_io_record_rq_remap env rq old_dev r =
     (if \<not> rc_enabled r then r
      else case rq of
        None \<Rightarrow> r
      | Some q \<Rightarrow> r\<lparr>rc_rq_remap := add_remap (ie_alloc_remap env) q old_dev (rc_rq_remap r)\<rparr>)"

definition cleanup_bio_remap_entries :: "recorder \<Rightarrow> recorder" where [simp]:
  "cleanup_bio_remap_entries r = r\<lparr>rc_bio_remap := []\<rparr>"

definition cleanup_rq_remap_entries :: "recorder \<Rightarrow> recorder" where [simp]:
  "cleanup_rq_remap_entries r = r\<lparr>rc_rq_remap := []\<rparr>"

definition smart_io_clear_remap_state :: "recorder \<Rightarrow> recorder" where
  "smart_io_clear_remap_state r = cleanup_rq_remap_entries (cleanup_bio_remap_entries r)"

end
