(* ===== verification/Psi.thy ===== *)
theory Psi
  imports Io_Record
begin

text \<open>
  \<open>tp_psi.c\<close>: the ten-second average of the I/O pressure, computed as the kernel does from a pressure
  group.  The kernel's load arithmetic (\<open>calc_load\<close>, its fixed-point format, the period) is a parameter.
\<close>

record psi_lib =
  pl_fshift :: nat
  pl_fixed_1 :: u64
  pl_calc_load :: "u64 \<Rightarrow> u64 \<Rightarrow> u64 \<Rightarrow> u64"
  pl_load_int :: "u64 \<Rightarrow> u64"
  pl_load_frac :: "u64 \<Rightarrow> u64"
  pl_period_ns :: u64

record psi_group =
  pg_parent :: bool
  pg_avgs_locked :: bool
  pg_avg_io_some :: u64
  pg_avg_next_update :: u64
  pg_avg_last_update :: u64
  pg_total_io_some :: u64
  pg_avg_total_io_some :: u64

definition smart_io_exp_10s :: u64 where "smart_io_exp_10s = 1677"

text \<open>One rounded fixed-point product.\<close>

definition fixed_mult :: "nat \<Rightarrow> u64 \<Rightarrow> u64 \<Rightarrow> u64" where
  "fixed_mult frac_bits a b = drop_bit frac_bits (a * b + push_bit (frac_bits - 1) 1)"

text \<open>The loop of \<open>fixed_power_int\<close>; it is entered with a non-zero \<open>n\<close>.\<close>

function fixed_power_loop :: "nat \<Rightarrow> u64 \<Rightarrow> u64 \<Rightarrow> u32 \<Rightarrow> u64" where
  "fixed_power_loop frac_bits result x n =
     (let result = (if n AND 1 \<noteq> 0 then fixed_mult frac_bits result x else result);
          n = drop_bit 1 n
      in if n = 0 then result else fixed_power_loop frac_bits result (fixed_mult frac_bits x x) n)"
  by pat_completeness auto

lemma half_decreases: "drop_bit 1 (n :: u32) \<noteq> 0 \<Longrightarrow> unat (drop_bit 1 n) < unat n"
proof -
  assume nz: "drop_bit 1 n \<noteq> 0"
  have h: "unat (drop_bit 1 n) = unat n div 2" by (simp add: drop_bit_eq_div unat_div del: One_nat_def)
  have "unat n \<noteq> 0"
  proof
    assume "unat n = 0"
    then have "unat (drop_bit 1 n) = 0" using h by simp
    then show False using nz by (simp add: unat_eq_zero)
  qed
  then show ?thesis using h by simp
qed

termination fixed_power_loop
  by (relation "measure (\<lambda>(_, _, _, n). unat n)") (auto simp del: One_nat_def intro: half_decreases)

declare fixed_power_loop.simps [simp del]

definition fixed_power_int :: "u64 \<Rightarrow> nat \<Rightarrow> u32 \<Rightarrow> u64" where
  "fixed_power_int x frac_bits n =
     (let result = push_bit frac_bits 1 in if n = 0 then result else fixed_power_loop frac_bits result x n)"

definition smart_io_calc_load_n :: "psi_lib \<Rightarrow> u64 \<Rightarrow> u64 \<Rightarrow> u64 \<Rightarrow> u32 \<Rightarrow> u64" where
  "smart_io_calc_load_n L load e active n = pl_calc_load L load (fixed_power_int e (pl_fshift L) n) active"

definition avg_fixed_to_x100 :: "psi_lib \<Rightarrow> u64 \<Rightarrow> u32" where
  "avg_fixed_to_x100 L avg = ucast (pl_load_int L avg * 100 + pl_load_frac L avg)"

definition calc_io_some_avg10 :: "psi_lib \<Rightarrow> psi_group \<Rightarrow> u64 \<Rightarrow> u64" where
  "calc_io_some_avg10 L g now =
     (let avg = pg_avg_io_some g; expires = pg_avg_next_update g in
      if now < expires then avg
      else
      (let missed = (if now - expires \<ge> pl_period_ns L then (now - expires) div pl_period_ns L else 0);
           period = now - (pg_avg_last_update g + missed * pl_period_ns L)
       in if period = 0 then avg
          else
          (let sample = pg_total_io_some g - pg_avg_total_io_some g;
               sample = (if sample > period then period else sample);
               avg = (if missed \<noteq> 0 then smart_io_calc_load_n L avg smart_io_exp_10s 0 (ucast missed) else avg);
               pct = (sample * 100) div period * pl_fixed_1 L
           in pl_calc_load L avg smart_io_exp_10s pct)))"

text \<open>The callback takes only the root group, while its averages are locked.\<close>

definition tp_psi_group_cb ::
  "psi_lib \<Rightarrow> psi_group option \<Rightarrow> u64 \<Rightarrow> u64 \<Rightarrow> recorder \<Rightarrow> recorder \<times> io_effect list" where
  "tp_psi_group_cb L grp sched_now boot_now r =
     (case grp of
        None \<Rightarrow> (r, [])
      | Some g \<Rightarrow>
          if pg_parent g \<or> \<not> pg_avgs_locked g then (r, [])
          else set_psi_io_x100 boot_now (avg_fixed_to_x100 L (calc_io_some_avg10 L g sched_now)) r)"

text \<open>The share of the sample handed to the load function is at most the whole period.\<close>

lemma psi_sample_bounded:
  fixes sample period :: u64
  assumes "period \<noteq> 0" and "unat period * 100 < 2 ^ 64" and "sample \<le> period"
  shows "(sample * 100) div period \<le> 100"
proof -
  have le: "unat sample \<le> unat period" using assms(3) by (simp add: word_le_nat_alt)
  have "unat sample * 100 < 2 ^ 64" using le assms(2) by simp
  then have "unat (sample * 100) = unat sample * 100" by (simp add: unat_word_ariths)
  then have "unat ((sample * 100) div period) = unat sample * 100 div unat period" by (simp add: unat_div)
  also have "\<dots> \<le> unat period * 100 div unat period" using le by (intro div_le_mono) simp
  also have "\<dots> \<le> 100" using assms(1) by (simp add: unat_eq_zero)
  finally show ?thesis by (simp add: word_le_nat_alt)
qed

end
