(* ===== verification/Setup.thy ===== *)
theory Setup
  imports Prelude
begin

text \<open>
  \<open>setup.c\<close>: the order in which the module starts its parts, and the unwinding when one of them fails.
  The result of starting a part is an argument; the effects are the calls.
\<close>

datatype part = Semantics | Proc | TraceInstance | Tracepoints | Context | SmartDeadline | UfsPriority | Dirtyrate

datatype setup_effect = StartPart part | StopPart part

definition smart_io_init :: "(part \<Rightarrow> errno option) \<Rightarrow> errno option \<times> setup_effect list" where
  "smart_io_init start =
     (let err_semantics = [StopPart Semantics];
          err_trace_instance = [StopPart TraceInstance, StopPart Proc] @ err_semantics;
          err_tp = StopPart Tracepoints # err_trace_instance;
          err_ctx = StopPart Context # err_tp;
          err_deadline = StopPart SmartDeadline # err_ctx;
          err_ufs = StopPart UfsPriority # err_deadline in
      if start Semantics \<noteq> None then (start Semantics, [])
      else if start Proc \<noteq> None then (start Proc, StartPart Semantics # err_semantics)
      else
      (let up = [StartPart Semantics, StartPart Proc] @ (if start TraceInstance \<noteq> None then [] else [StartPart TraceInstance]) in
       if start Tracepoints \<noteq> None then (start Tracepoints, up @ err_trace_instance)
       else if start Context \<noteq> None then (start Context, up @ [StartPart Tracepoints] @ err_tp)
       else if start SmartDeadline \<noteq> None then (start SmartDeadline, up @ [StartPart Tracepoints, StartPart Context] @ err_ctx)
       else if start UfsPriority \<noteq> None then
         (start UfsPriority, up @ [StartPart Tracepoints, StartPart Context, StartPart SmartDeadline] @ err_deadline)
       else if start Dirtyrate \<noteq> None then
         (start Dirtyrate, up @ [StartPart Tracepoints, StartPart Context, StartPart SmartDeadline, StartPart UfsPriority] @ err_ufs)
       else (None, up @ [StartPart Tracepoints, StartPart Context, StartPart SmartDeadline, StartPart UfsPriority, StartPart Dirtyrate])))"

definition smart_io_exit :: "setup_effect list" where
  "smart_io_exit = map StopPart [UfsPriority, SmartDeadline, Context, Tracepoints, TraceInstance, Proc, Semantics]"

text \<open>The running parts, the latest first; a part is stopped before those it was started on.\<close>

fun run_setup :: "part list \<Rightarrow> setup_effect list \<Rightarrow> part list" where
  "run_setup up [] = up"
| "run_setup up (StartPart p # es) = run_setup (p # up) es"
| "run_setup up (StopPart p # es) = run_setup (remove1 p up) es"

text \<open>Every stop takes the latest running part, except that the tracing instance may not be running.\<close>

fun unwinds_in_order :: "part list \<Rightarrow> setup_effect list \<Rightarrow> bool" where
  "unwinds_in_order up [] = True"
| "unwinds_in_order up (StartPart p # es) = unwinds_in_order (p # up) es"
| "unwinds_in_order up (StopPart p # es) =
     (case up of
        [] \<Rightarrow> p = TraceInstance \<and> unwinds_in_order up es
      | q # qs \<Rightarrow> if p = q then unwinds_in_order qs es else p = TraceInstance \<and> p \<notin> set up \<and> unwinds_in_order up es)"

text \<open>C31: a failed start of the module leaves no part running and stops the parts in the reverse order of their start; the failure of the tracing instance alone does not fail the module, and a successful start has every other part running.\<close>

theorem init_unwinds:
  "case smart_io_init start of (ret, es) \<Rightarrow>
     (if ret \<noteq> None then run_setup [] es = [] \<and> unwinds_in_order [] es
      else set (run_setup [] es) = UNIV - (if start TraceInstance \<noteq> None then {TraceInstance} else {})) \<and>
     (ret = None) = (\<forall>p. p \<noteq> TraceInstance \<longrightarrow> start p = None)"
proof -
  have all: "(\<forall>p. P p) = (P Semantics \<and> P Proc \<and> P TraceInstance \<and> P Tracepoints \<and> P Context \<and> P SmartDeadline \<and> P UfsPriority \<and> P Dirtyrate)" for P
    by (metis part.exhaust)
  have univ: "(UNIV :: part set) = {Semantics, Proc, TraceInstance, Tracepoints, Context, SmartDeadline, UfsPriority, Dirtyrate}"
    by (auto intro: part.exhaust)
  show ?thesis by (auto simp: smart_io_init_def Let_def all univ)
qed

text \<open>The exit stops all parts but the dirty-rate limiter, which has no stop.\<close>

lemma exit_leaves_dirtyrate:
  "run_setup [Dirtyrate, UfsPriority, SmartDeadline, Context, Tracepoints, TraceInstance, Proc, Semantics] smart_io_exit = [Dirtyrate]"
  by (simp add: smart_io_exit_def)

lemma init_unwinds_witness:
  "case smart_io_init (\<lambda>p. if p = UfsPriority then Some EBUSY else None) of (ret, es) \<Rightarrow> ret = Some EBUSY \<and> run_setup [] es = []"
  using init_unwinds [of "\<lambda>p. if p = UfsPriority then Some EBUSY else None"] by (simp add: smart_io_init_def)

end
