(* ===== verification/Text_Io.thy ===== *)
theory Text_Io
  imports Prelude
begin

text \<open>
  The text functions of the C and kernel libraries that the procfs interface uses, as their
  documentation states them: \<open>strstrip\<close>, the decimal conversions of \<open>seq_printf\<close>, \<open>kstrtoint\<close>,
  \<open>kstrtou32\<close> and \<open>kstrtou64\<close> in base 10, and the conversions of \<open>sscanf\<close>.  A string ends at its last
  character; the theory proves that the conversions read back what is printed.
\<close>

section \<open>Characters\<close>

definition is_space :: "char \<Rightarrow> bool" where
  "is_space c \<longleftrightarrow> (let n = of_char c :: nat in n = 32 \<or> 9 \<le> n \<and> n \<le> 13)"

definition is_digit :: "char \<Rightarrow> bool" where
  "is_digit c \<longleftrightarrow> (let n = of_char c :: nat in 48 \<le> n \<and> n \<le> 57)"

definition digit_char :: "nat \<Rightarrow> char" where
  "digit_char d = char_of (48 + d)"

definition digit_value :: "char \<Rightarrow> nat" where
  "digit_value c = of_char c - 48"

definition skip_spaces :: "string \<Rightarrow> string" where
  "skip_spaces s = dropWhile is_space s"

definition strstrip :: "string \<Rightarrow> string" where
  "strstrip s = skip_spaces (rev (dropWhile is_space (rev s)))"

section \<open>Printing\<close>

fun dec :: "nat \<Rightarrow> string" where
  "dec n = (if n < 10 then [digit_char n] else dec (n div 10) @ [digit_char (n mod 10)])"

definition dec_int :: "int \<Rightarrow> string" where
  "dec_int i = (if i < 0 then CHR ''-'' # dec (nat (- i)) else dec (nat i))"

definition line_of :: "string \<Rightarrow> string" where
  "line_of s = s @ [CHR 0x0A]"

section \<open>Parsing\<close>

definition digits_value :: "string \<Rightarrow> nat" where
  "digits_value s = foldl (\<lambda>v c. 10 * v + digit_value c) 0 s"

text \<open>The digits of a number, which only one newline may follow.\<close>

definition kstrtoull_digits :: "string \<Rightarrow> errno + nat" where
  "kstrtoull_digits s =
     (let ds = takeWhile is_digit s; rest = dropWhile is_digit s in
      if digits_value ds \<ge> 2 ^ 64 then Inl ERANGE
      else if ds = [] \<or> rest \<notin> {[], [CHR 0x0A]} then Inl EINVAL
      else Inr (digits_value ds))"

definition kstrtoull :: "string \<Rightarrow> errno + nat" where
  "kstrtoull s = (case s of c # t \<Rightarrow> if c = CHR ''+'' then kstrtoull_digits t else kstrtoull_digits s | [] \<Rightarrow> kstrtoull_digits s)"

definition kstrtoll :: "string \<Rightarrow> errno + int" where
  "kstrtoll s =
     (if s \<noteq> [] \<and> hd s = CHR ''-'' then
        (case kstrtoull_digits (tl s) of
           Inl e \<Rightarrow> Inl e
         | Inr v \<Rightarrow> if v > 2 ^ 63 then Inl ERANGE else Inr (- int v))
      else
        (case kstrtoull s of
           Inl e \<Rightarrow> Inl e
         | Inr v \<Rightarrow> if v \<ge> 2 ^ 63 then Inl ERANGE else Inr (int v)))"

definition kstrtoint :: "string \<Rightarrow> errno + int" where
  "kstrtoint s =
     (case kstrtoll s of
        Inl e \<Rightarrow> Inl e
      | Inr v \<Rightarrow> if v < - (2 ^ 31) \<or> v \<ge> 2 ^ 31 then Inl ERANGE else Inr v)"

definition kstrtou64 :: "string \<Rightarrow> errno + u64" where
  "kstrtou64 s = (case kstrtoull s of Inl e \<Rightarrow> Inl e | Inr v \<Rightarrow> Inr (of_nat v))"

definition kstrtou32 :: "string \<Rightarrow> errno + u32" where
  "kstrtou32 s =
     (case kstrtoull s of
        Inl e \<Rightarrow> Inl e
      | Inr v \<Rightarrow> if v \<ge> 2 ^ 32 then Inl ERANGE else Inr (of_nat v))"

text \<open>
  The conversions of \<open>sscanf\<close> return the value and the rest of the input, or stop the scan.  A number
  is truncated to its type without a check.
\<close>

definition scan_u32 :: "string \<Rightarrow> (u32 \<times> string) option" where
  "scan_u32 s =
     (let s = skip_spaces s; ds = takeWhile is_digit s
      in if ds = [] then None else Some (of_nat (digits_value ds), dropWhile is_digit s))"

definition scan_int :: "string \<Rightarrow> (int \<times> string) option" where
  "scan_int s =
     (let s = skip_spaces s; neg = (s \<noteq> [] \<and> hd s = CHR ''-''); s = (if neg then tl s else s); ds = takeWhile is_digit s;
          v = int (digits_value ds)
      in if ds = [] then None
         else Some (sint (word_of_int (if neg then - v else v) :: u32), dropWhile is_digit s))"

definition scan_word :: "nat \<Rightarrow> string \<Rightarrow> (string \<times> string) option" where
  "scan_word width s =
     (let s = skip_spaces s; w = take width (takeWhile (\<lambda>c. \<not> is_space c) s)
      in if s = [] then None else Some (w, drop (length w) s))"

section \<open>Reading back what was printed\<close>

declare dec.simps [simp del]

lemma digit_char_value: "d < 10 \<Longrightarrow> digit_value (digit_char d) = d \<and> is_digit (digit_char d) \<and> \<not> is_space (digit_char d) \<and>
    digit_char d \<noteq> CHR ''-'' \<and> digit_char d \<noteq> CHR ''+''"
proof -
  have "\<forall>d \<in> {..<10}. digit_value (digit_char d) = d \<and> is_digit (digit_char d) \<and> \<not> is_space (digit_char d) \<and>
      digit_char d \<noteq> CHR ''-'' \<and> digit_char d \<noteq> CHR ''+''" by code_simp
  then show "d < 10 \<Longrightarrow> ?thesis" by simp
qed

lemma dec_digits: "list_all is_digit (dec n)" "dec n \<noteq> []" "digits_value (dec n) = n"
proof (induction n rule: dec.induct)
  case (1 n)
  {
    case 1
    show ?case using "1.IH"(1) digit_char_value [of n] digit_char_value [of "n mod 10"] by (subst dec.simps) simp
  next
    case 2
    show ?case by (subst dec.simps) simp
  next
    case 3
    show ?case using "1.IH"(3) digit_char_value [of n] digit_char_value [of "n mod 10"]
      by (subst dec.simps) (simp add: digits_value_def)
  }
qed


text \<open>A word: a string without spaces that is not empty.\<close>

definition no_space :: "string \<Rightarrow> bool" where
  "no_space s \<longleftrightarrow> s \<noteq> [] \<and> list_all (\<lambda>c. \<not> is_space c) s"

lemma digit_no_space: "is_digit c \<Longrightarrow> \<not> is_space c \<and> c \<noteq> CHR ''-'' \<and> c \<noteq> CHR ''+''"
  by (auto simp: is_digit_def is_space_def Let_def)

lemma dec_no_space [simp]: "no_space (dec n)"
  using dec_digits(1,2) [of n] by (auto simp: no_space_def list_all_iff digit_no_space)

lemma dec_int_no_space [simp]: "no_space (dec_int i)"
proof -
  have "\<not> is_space (CHR ''-'')" by code_simp
  then show ?thesis using dec_no_space [of "nat (- i)"] dec_no_space [of "nat i"]
    by (simp add: dec_int_def no_space_def)
qed

lemma no_space_skip: "no_space s \<Longrightarrow> skip_spaces (s @ t) = s @ t"
  by (cases s) (auto simp: no_space_def skip_spaces_def)

lemma no_space_skip1 [simp]: "no_space s \<Longrightarrow> skip_spaces s = s"
  using no_space_skip [of s "[]"] by simp

lemma newline_space [simp]: "is_space (CHR 0x0A)" "is_space (CHR '' '')"
  by code_simp+

text \<open>A string that begins and ends with a word is what is left of its line.\<close>

lemma strstrip_between:
  assumes "no_space a" and "no_space b"
  shows "strstrip (line_of (a @ m @ b)) = a @ m @ b"
proof -
  have "dropWhile is_space (rev (line_of (a @ m @ b))) = rev (a @ m @ b)"
    using assms(2) by (cases b rule: rev_cases) (auto simp: line_of_def no_space_def)
  then show ?thesis using no_space_skip [OF assms(1), of "m @ b"] by (simp add: strstrip_def)
qed

lemma strstrip_line: "no_space s \<Longrightarrow> strstrip (line_of s) = s"
proof -
  assume ns: "no_space s"
  then have "dropWhile is_space (rev (line_of s)) = rev s"
    by (cases s rule: rev_cases) (auto simp: line_of_def no_space_def)
  then show ?thesis using ns by (simp add: strstrip_def)
qed

lemma dec_take: "takeWhile is_digit (dec n @ r) = dec n @ takeWhile is_digit r" "dropWhile is_digit (dec n @ r) = dropWhile is_digit r"
  using dec_digits(1) [of n] by (simp_all add: list_all_iff takeWhile_append dropWhile_append)

lemma dec_take1 [simp]: "takeWhile is_digit (dec n) = dec n" "dropWhile is_digit (dec n) = []"
  using dec_take [of n "[]"] by simp_all

lemma kstrtoull_dec: "n < 2 ^ 64 \<Longrightarrow> kstrtoull_digits (dec n) = Inr n"
  using dec_digits(2,3) [of n] by (simp add: kstrtoull_digits_def Let_def)

lemma dec_head: "\<exists>c t. dec n = c # t \<and> c \<noteq> CHR ''+'' \<and> c \<noteq> CHR ''-''"
  using dec_digits(1,2) [of n] by (cases "dec n") (auto dest: digit_no_space)

lemma kstrtoull_read: "n < 2 ^ 64 \<Longrightarrow> kstrtoull (dec n) = Inr n"
  using dec_head [of n] kstrtoull_dec [of n] by (auto simp: kstrtoull_def)

lemma kstrtou32_read [simp]: "kstrtou32 (dec (unat v)) = Inr v"
  using kstrtoull_read [of "unat v"] unsigned_less [of v, where 'a = nat] by (simp add: kstrtou32_def not_le)

lemma kstrtou64_read [simp]: "kstrtou64 (dec (unat v)) = Inr v"
  using kstrtoull_read [of "unat v"] unsigned_less [of v, where 'a = nat] by (simp add: kstrtou64_def)

lemma kstrtoint_read: "- (2 ^ 31) \<le> i \<Longrightarrow> i < 2 ^ 31 \<Longrightarrow> kstrtoint (dec_int i) = Inr i"
proof -
  assume r: "- (2 ^ 31) \<le> i" "i < 2 ^ 31"
  show ?thesis
  proof (cases "i < 0")
    case True
    have "kstrtoull_digits (dec (nat (- i))) = Inr (nat (- i))" using r True by (intro kstrtoull_dec) auto
    then show ?thesis using True r by (simp add: kstrtoint_def kstrtoll_def dec_int_def)
  next
    case False
    have "kstrtoull (dec (nat i)) = Inr (nat i)" using r False by (intro kstrtoull_read) auto
    then show ?thesis using False r dec_head [of "nat i"] by (auto simp: kstrtoint_def kstrtoll_def dec_int_def)
  qed
qed

lemma scan_u32_read [simp]:
  "scan_u32 (dec (unat v)) = Some (v, [])" "scan_u32 (dec (unat v) @ CHR '' '' # r) = Some (v, CHR '' '' # r)"
  "scan_u32 (CHR '' '' # s) = scan_u32 s"
proof -
  have sp: "\<not> is_digit (CHR '' '')" by code_simp
  have "skip_spaces (dec (unat v) @ CHR '' '' # r) = dec (unat v) @ CHR '' '' # r" by (rule no_space_skip) simp
  then show "scan_u32 (dec (unat v) @ CHR '' '' # r) = Some (v, CHR '' '' # r)"
    using dec_take [of "unat v" "CHR '' '' # r"] dec_digits(2,3) [of "unat v"] sp by (simp add: scan_u32_def Let_def)
  show "scan_u32 (dec (unat v)) = Some (v, [])"
    using dec_digits(2,3) [of "unat v"] by (simp add: scan_u32_def Let_def)
  show "scan_u32 (CHR '' '' # s) = scan_u32 s" by (simp add: scan_u32_def skip_spaces_def)
qed

lemma scan_word_read:
  "no_space w \<Longrightarrow> length w \<le> n \<Longrightarrow> scan_word n w = Some (w, [])"
  "no_space w \<Longrightarrow> length w \<le> n \<Longrightarrow> scan_word n (w @ CHR '' '' # r) = Some (w, CHR '' '' # r)"
  "scan_word n (CHR '' '' # s) = scan_word n s"
proof -
  show "scan_word n (CHR '' '' # s) = scan_word n s" by (simp add: scan_word_def skip_spaces_def)
  show "no_space w \<Longrightarrow> length w \<le> n \<Longrightarrow> scan_word n w = Some (w, [])"
    by (auto simp: scan_word_def Let_def no_space_def list_all_iff takeWhile_eq_all_conv [THEN iffD2])
  assume w: "no_space w" "length w \<le> n"
  have "takeWhile (\<lambda>c. \<not> is_space c) (w @ CHR '' '' # r) = w"
    using w(1) by (simp add: no_space_def list_all_iff takeWhile_append)
  then show "scan_word n (w @ CHR '' '' # r) = Some (w, CHR '' '' # r)"
    using w no_space_skip [OF w(1), of "CHR '' '' # r"] by (auto simp: scan_word_def Let_def no_space_def)
qed

end
