(* ===== verification/Io_Lines.thy ===== *)
theory Io_Lines
  imports Io_Record
begin

text \<open>The raw lines of the request events, with the labels of their formats and the arguments passed.\<close>

definition get_nr_bio :: "io_request option \<Rightarrow> u32" where
  "get_nr_bio rqo = (case rqo of None \<Rightarrow> 0 | Some rq \<Rightarrow> of_nat (length (io_bios rq)))"

definition get_rq_tag_depth_max :: "io_request option \<Rightarrow> u32" where
  "get_rq_tag_depth_max rqo =
     (case rqo of None \<Rightarrow> 0 | Some rq \<Rightarrow> if rq_q rq = None then 0 else rq_queue_depth rq)"

definition get_rq_tag_depth_cur :: "io_request option \<Rightarrow> int" where
  "get_rq_tag_depth_cur rqo =
     (case rqo of None \<Rightarrow> -1 | Some rq \<Rightarrow> (case io_active rq of None \<Rightarrow> -1 | Some n \<Rightarrow> n))"

abbreviation tw :: "'a :: len word \<Rightarrow> tval" where "tw w \<equiv> TN (unat w)"
abbreviation tb :: "bool \<Rightarrow> tval" where "tb b \<equiv> TN (of_bool b)"

definition emit_raw_insert :: "io_env \<Rightarrow> smart_io_event \<Rightarrow> io_request \<Rightarrow> raw_line" where
  "emit_raw_insert env e rq =
     (let tag_max = tw (get_rq_tag_depth_max (Some rq)); tag_cur = TZ (get_rq_tag_depth_cur (Some rq));
          rq_p = TP (Some (rq_ptr rq)); role = TN (thread_role_code (ev_thread_role e)) in
      if ev_thread_role e = ROLE_FIO then
        RawLine ''block_rq_insert'' [''ts_insert'', ''rq_p'', ''thread_role'', ''tag_max'', ''tag_cur'']
          [tw (ev_ts_insert e), rq_p, role, tag_max, tag_cur]
      else
        RawLine ''block_rq_insert''
          [''ts_insert'', ''uid'', ''pid'', ''tgid'', ''rq_p'', ''io_size'', ''cmd'', ''sector'', ''ioprio'', ''file_ext'',
           ''file_ext_s'', ''fg'', ''thread_role'', ''fs_type'', ''dev_name'', ''remap_from'', ''remap_mixed'',
           ''inode_hash'', ''folio_index'', ''tag_max'', ''tag_cur'']
          [tw (ev_ts_insert e), tw (ev_uid e), TZ (ie_pid env), TZ (ie_tgid env), rq_p, tw (rq_bytes rq),
           tw (io_cmd_flags rq), tw (ev_sector e), tw (ev_ioprio_class e), TN (file_ext_code (ev_file_ext e)),
           TS (ev_file_ext_str e), tb (ev_is_front e), role, TS (ev_fs_type e), TS (ev_dev_name e),
           TS (ev_remap_from e), tb (ev_remap_mixed e), tw (ev_inode_hash e), tw (ev_folio_index e),
           tag_max, tag_cur])"

text \<open>The line of a request without a record passes one argument more than its format has labels.\<close>

definition emit_raw_issue :: "io_env \<Rightarrow> smart_io_event \<Rightarrow> io_request \<Rightarrow> bool \<Rightarrow> raw_line" where
  "emit_raw_issue env e rq new_record =
     (let nr_bio = tw (get_nr_bio (Some rq)); tag_max = tw (get_rq_tag_depth_max (Some rq));
          tag_cur = TZ (get_rq_tag_depth_cur (Some rq)); rq_p = TP (Some (rq_ptr rq));
          role = TN (thread_role_code (ev_thread_role e)) in
      if ev_thread_role e = ROLE_FIO then
        RawLine ''block_rq_issue'' [''ts_issue'', ''rq_p'', ''thread_role'', ''tag_max'', ''tag_cur'']
          [tw (ev_ts_issue e), rq_p, role, tag_max, tag_cur]
      else if new_record then
        RawLine ''block_rq_issue''
          [''ts_issue'', ''uid'', ''pid'', ''tgid'', ''rq_p'', ''io_size'', ''cmd'', ''sector'', ''ioprio'', ''file_ext'',
           ''file_ext_s'', ''fg'', ''thread_role'', ''fs_type'', ''dev_name'', ''remap_from'', ''remap_mixed'',
           ''inode_hash'', ''folio_index'', ''nr_bio'', ''tag_max'', ''tag_cur'']
          [tw (ev_ts_issue e), tw (ev_uid e), TZ (ie_pid env), TZ (ie_tgid env), rq_p, tw (rq_bytes rq),
           tw (io_cmd_flags rq), tw (ev_sector e), tw (ev_ioprio_class e), TN (file_ext_code (ev_file_ext e)),
           TS (ev_file_ext_str e), tb (ev_is_front e), role, TS (ev_fs_type e), TS (ev_dev_name e),
           TS (ev_remap_from e), tb (ev_remap_mixed e), tw (ev_inode_hash e), tw (ev_folio_index e),
           tw (ev_io_in_flight e), nr_bio, tag_max, tag_cur]
      else
        RawLine ''block_rq_issue''
          [''ts_issue'', ''uid'', ''inode_hash'', ''rq_p'', ''io_op'', ''nr_bio'', ''tag_max'', ''tag_cur'', ''sched_lat_ns'']
          [tw (ev_ts_issue e), tw (ev_uid e), tw (ev_inode_hash e), rq_p, TN (io_op_code (ev_io_op e)), nr_bio,
           tag_max, tag_cur, tw (ev_ts_issue e - ev_ts_insert e)])"

definition emit_raw_requeue :: "u64 \<Rightarrow> smart_io_event \<Rightarrow> io_request \<Rightarrow> raw_line" where
  "emit_raw_requeue now e rq =
     (let nr_bio = tw (get_nr_bio (Some rq)); tag_max = tw (get_rq_tag_depth_max (Some rq));
          tag_cur = TZ (get_rq_tag_depth_cur (Some rq)); rq_p = TP (Some (rq_ptr rq)) in
      if ev_thread_role e = ROLE_FIO then
        RawLine ''block_rq_requeue'' [''ts_requeue'', ''rq_p'', ''tag_max'', ''tag_cur''] [tw now, rq_p, tag_max, tag_cur]
      else
        RawLine ''block_rq_requeue''
          [''ts_requeue'', ''uid'', ''inode_hash'', ''rq_p'', ''io_size'', ''cmd'', ''nr_bio'', ''tag_max'', ''tag_cur'',
           ''sched_lat_ns'']
          [tw now, tw (ev_uid e), tw (ev_inode_hash e), rq_p, tw (rq_bytes rq), tw (io_cmd_flags rq), nr_bio,
           tag_max, tag_cur, tw (ev_ts_requeue e - ev_ts_insert e)])"

definition emit_raw_complete :: "smart_io_event \<Rightarrow> io_request \<Rightarrow> u32 \<Rightarrow> raw_line" where
  "emit_raw_complete e rq nr_bytes =
     (let rq_p = TP (Some (rq_ptr rq)) in
      if ev_thread_role e = ROLE_FIO then
        RawLine ''block_rq_complete'' [''ts_complete'', ''rq_p''] [tw (ev_ts_complete e), rq_p]
      else
        RawLine ''block_rq_complete''
          [''ts_complete'', ''uid'', ''inode_hash'', ''rq_p'', ''io_op'', ''nr_bytes'', ''sched_lat_ns'', ''dev_lat_ns'']
          [tw (ev_ts_complete e), tw (ev_uid e), tw (ev_inode_hash e), rq_p, TN (io_op_code (ev_io_op e)), tw nr_bytes,
           tw (ev_ts_issue e - ev_ts_insert e), tw (ev_ts_complete e - ev_ts_issue e)])"

section \<open>Labels and arguments\<close>

fun aligned :: "raw_line \<Rightarrow> bool" where
  "aligned (RawLine name labels args) \<longleftrightarrow> length labels = length args"

lemma aligned_lines:
  "aligned (emit_raw_insert env e rq)" "aligned (emit_raw_requeue now e rq)" "aligned (emit_raw_complete e rq n)"
  "aligned (emit_raw_issue env e rq False)"
  by (simp_all add: emit_raw_insert_def emit_raw_requeue_def emit_raw_complete_def emit_raw_issue_def Let_def)

text \<open>The raw issue line of a request without a record is misaligned: its field \<open>nr_bio\<close> shows the number of requests in flight, \<open>tag_max\<close> the number of bios and \<open>tag_cur\<close> the tag depth, while the number of active tags is lost.\<close>

theorem issue_line_shifted:
  assumes "ev_thread_role e \<noteq> ROLE_FIO"
  shows "line_field ''nr_bio'' (emit_raw_issue env e rq True) = Some (TN (unat (ev_io_in_flight e))) \<and>
    line_field ''tag_max'' (emit_raw_issue env e rq True) = Some (TN (unat (get_nr_bio (Some rq)))) \<and>
    line_field ''tag_cur'' (emit_raw_issue env e rq True) = Some (TN (unat (get_rq_tag_depth_max (Some rq)))) \<and>
    \<not> aligned (emit_raw_issue env e rq True)"
  using assms by (simp add: emit_raw_issue_def line_field_def Let_def)

definition demo_rq :: io_request where
  "demo_rq = \<lparr>rq_ptr = 7, rq_q = Some 1, rq_has_bio = False, rq_bio_disk_name = None, rq_q_disk_name = Some ''sda'',
     rq_pos = 0, rq_sectors = 16, rq_bytes = 8192, rq_op = REQ_OP_READ, rq_ioprio = 0, rq_use_sched = True,
     rq_queue_depth = 32, io_bios = [], io_cmd_flags = 0, io_active = Some 5\<rparr>"

lemma issue_line_shifted_witness:
  "\<exists>env. line_field ''tag_cur'' (emit_raw_issue env zero_event demo_rq True) = Some (TN 32) \<and>
     get_rq_tag_depth_cur (Some demo_rq) = 5"
proof -
  have "ev_thread_role zero_event \<noteq> ROLE_FIO" by (simp add: zero_event_def)
  from issue_line_shifted [OF this] show ?thesis
    by (simp add: demo_rq_def get_rq_tag_depth_max_def get_rq_tag_depth_cur_def)
qed

end
