(* ===== verification/Io_Events.thy ===== *)
theory Io_Events
  imports Io_Lines Throttle_Meta
begin

text \<open>
  The event handlers of the recorder.  A handler that takes the shard lock twice is given in its
  parts, so that other events may come in between; the clock readings of \<open>ie_clk\<close> are numbered by
  the place in the code that takes them.
\<close>

section \<open>Filling an event\<close>

text \<open>The identity of a file from the first bio, or from the first other bio that has a stable one.\<close>

fun extract_others :: "nat \<Rightarrow> bio_info list \<Rightarrow> vfs_out \<Rightarrow> vfs_out" where
  "extract_others first [] out = out"
| "extract_others first (b # bs) out =
     (if bi_ptr b = first then extract_others first bs out
      else (case extract_vfs_info b out of (out, got) \<Rightarrow> if got then out else extract_others first bs out))"

definition extract_bios :: "bio_info list \<Rightarrow> vfs_out \<Rightarrow> vfs_out" where
  "extract_bios bios out =
     (case bios of
        [] \<Rightarrow> out
      | bio # _ \<Rightarrow>
          (case extract_vfs_info bio out of (out, got) \<Rightarrow>
             if \<not> got \<and> length bios > 1 then extract_others (bi_ptr bio) bios out else out))"

text \<open>The part of the event that every request gets.\<close>

definition base_event :: "io_env \<Rightarrow> io_request \<Rightarrow> bool \<Rightarrow> smart_io_event" where
  "base_event env rq direct_path = zero_event\<lparr>
     ev_fs_type := ''unknown'', ev_file_ext_str := ''unknown'', ev_dev_name := ''unknown'', ev_remap_from := ''none'',
     ev_ts_insert := ie_clk env 0, ev_uid := ie_uid env, ev_scene_tag := ie_scene env,
     ev_is_front := (ie_uid env = ie_fg_uid env),
     ev_thread_role := match_thread_role (ie_uid env) (ie_pid env) (ie_tgid env) (ie_comm env) (ie_fg_uid env),
     ev_direct_path := direct_path, ev_io_op := encode_io_op (rq_op rq),
     ev_io_size_kb := drop_bit 10 (rq_bytes rq), ev_sector := rq_pos rq, ev_ioprio_class := rq_ioprio rq\<rparr>"

definition file_part :: "io_request \<Rightarrow> smart_io_event \<Rightarrow> smart_io_event" where
  "file_part rq e =
     (let out = extract_bios (io_bios rq)
        \<lparr>vo_inode_hash = ev_inode_hash e, vo_ext = ev_file_ext e, vo_folio_index = ev_folio_index e,
         vo_ext_str = ev_file_ext_str e, vo_fs_type = ev_fs_type e\<rparr>
      in e\<lparr>ev_is_sync := (case io_bios rq of [] \<Rightarrow> False | b # _ \<Rightarrow> bi_sync b),
           ev_inode_hash := vo_inode_hash out, ev_file_ext := vo_ext out, ev_folio_index := vo_folio_index out,
           ev_file_ext_str := vo_ext_str out, ev_fs_type := vo_fs_type out\<rparr>)"

definition device_part :: "io_env \<Rightarrow> io_request \<Rightarrow> remap_info \<Rightarrow> u32 \<Rightarrow> u32 \<Rightarrow> smart_io_event \<Rightarrow> smart_io_event" where
  "device_part env rq remap flight depth e =
     (let e = e\<lparr>ev_dev_name := extract_device_name (request.truncate rq) (ev_dev_name e) dev_name_len\<rparr>;
          e = apply_remap_info (ie_format_dev env) remap e;
          e = e\<lparr>ev_device_type := lookup_device_type (Some (ev_dev_name e))\<rparr>;
          e = file_part rq e
      in e\<lparr>ev_queue_saturate := calc_queue_sat flight depth, ev_io_in_flight := flight\<rparr>)"

text \<open>The system part; the test for a hot inode may clear an expired entry of the table.\<close>

definition system_part :: "io_env \<Rightarrow> recorder \<Rightarrow> smart_io_event \<Rightarrow> recorder \<times> smart_io_event" where
  "system_part env r e =
     (let (hot, is_hot) = smart_io_is_hot_inode (ev_inode_hash e) (ie_clk env 1) (rc_hot r)
      in (r\<lparr>rc_hot := hot\<rparr>,
          e\<lparr>ev_cgroup_io_weight := ie_cgroup_weight_dfl env,
            ev_f2fs_gc_active := (rc_f2fs_gc_active r \<noteq> 0), ev_f2fs_cp_active := (rc_f2fs_cp_active r \<noteq> 0),
            ev_is_hot_file := is_hot,
            ev_mem_avail_mb := pages_to_mb (ie_page_shift env) (ie_mem_available env),
            ev_dirty_pages_mb := pages_to_mb (ie_page_shift env) (ie_file_dirty env),
            ev_wb_pages_mb := pages_to_mb (ie_page_shift env) (ie_writeback env),
            ev_swap_mb := get_swap_used_mb (ie_page_shift env) (ie_totalswap env) (ie_freeswap env),
            ev_cpu_loadavg_1m := rc_loadavg_1m_x100 r,
            ev_online_cpus := ucast (min (ie_online_cpus env) 255),
            ev_runqueue_len := get_runqueue_len (ie_nr_running env),
            ev_device_util_pct := snapshot_device_util (rc_raw r) (ie_clk env 2) (rc_dev r),
            ev_insert_cpuid := of_nat (ie_cpu env),
            ev_io_bw_kbps := uid_io_prev_bandwidth_kbps (rc_raw r) (rc_window_sz_ms r) (rc_uid_prev r) (ev_uid e)\<rparr>))"

definition fill_record_from_current ::
  "io_env \<Rightarrow> io_request \<Rightarrow> bool \<Rightarrow> remap_info \<Rightarrow> recorder \<Rightarrow> recorder \<times> rq_record" where
  "fill_record_from_current env rq direct_path remap r =
     (let rec = (\<lambda>e. \<lparr>rr_rq = rq_ptr rq, rr_event = e, rr_issued = False, rr_data_bytes = rq_bytes rq\<rparr>);
          e = base_event env rq direct_path in
      if ev_thread_role e = ROLE_FIO then (r, rec e)
      else
      (let flight = word_of_int (du_in_flight (rc_dev r));
           e = device_part env rq remap flight (rc_queue_depth r) e in
       if rc_raw r then (r, rec e)
       else (case system_part env r e of (r, e) \<Rightarrow> (r, rec e))))"

definition should_capture_rq :: "io_env \<Rightarrow> io_request \<Rightarrow> recorder \<Rightarrow> bool" where
  "should_capture_rq env rq r =
     policy_should_capture (rc_policy r) (ie_random env) (ie_uid env)
       (case io_bios rq of [] \<Rightarrow> False | b # _ \<Rightarrow> bi_sync b) (ie_scene env)"

section \<open>Accounting shared by the handlers\<close>

definition count_on :: "nat \<Rightarrow> (smart_io_counters \<Rightarrow> smart_io_counters) \<Rightarrow> recorder \<Rightarrow> recorder" where
  "count_on cpu f r = r\<lparr>rc_counters := (rc_counters r)(cpu := f (rc_counters r cpu))\<rparr>"

definition on_dev :: "(device_util \<Rightarrow> device_util) \<Rightarrow> recorder \<Rightarrow> recorder" where
  "on_dev f r = r\<lparr>rc_dev := f (rc_dev r)\<rparr>"

text \<open>
  A new record: a hot candidate is marked, and the traffic of the user is counted; the call of
  \<open>smart_io_pagecache_demo_note_read\<close> for a read does nothing.
\<close>

definition note_new_record :: "io_env \<Rightarrow> rq_record \<Rightarrow> recorder \<Rightarrow> recorder" where
  "note_new_record env rec r =
     (let e = rr_event rec;
          r = (if smart_io_is_hot_read_candidate e
               then r\<lparr>rc_hot := smart_io_mark_hot_inode (ev_inode_hash e) (ev_file_ext e) (ie_clk env 3) (rc_hot r)\<rparr>
               else r)
      in if rc_raw r then r
         else r\<lparr>rc_uid_curr := (rc_uid_curr r)[ie_cpu env :=
                  uid_io_curr_add (ie_alloc_uid env) (ev_uid e) (ev_io_size_kb e) (ev_io_op e)
                    (rc_uid_curr r ! ie_cpu env)]\<rparr>)"

definition make_record :: "io_env \<Rightarrow> io_request \<Rightarrow> bool \<Rightarrow> recorder \<Rightarrow> recorder \<times> rq_record option" where
  "make_record env rq direct_path r =
     (case consume_request_remap rq r of (r, remap) \<Rightarrow>
        if \<not> should_capture_rq env rq r then (r, None)
        else if \<not> ie_alloc_record env then (r, None)
        else (case fill_record_from_current env rq direct_path remap r of (r, rec) \<Rightarrow> (r, Some rec)))"

section \<open>Insertion\<close>

definition duplicate_line :: "rq_record \<Rightarrow> rq_record \<Rightarrow> raw_line" where
  "duplicate_line new old =
     (let e = rr_event new; d = rr_event old in
      RawLine ''insert: duplicate request''
        [''rq'', ''ts_insert'', ''old'', ''issued'', ''old'', ''uid'', ''old'', ''io_op'', ''old'', ''io_size_kb'', ''old'',
         ''sector'', ''old'', ''ioprio'', ''old'', ''file_ext'', ''old'', ''inode_hash'', ''old'']
        [TP (Some (rr_rq new)), tw (ev_ts_insert e), tw (ev_ts_insert d), tb (rr_issued new), tb (rr_issued old),
         tw (ev_uid e), tw (ev_uid d), TN (io_op_code (ev_io_op e)), TN (io_op_code (ev_io_op d)),
         tw (ev_io_size_kb e), tw (ev_io_size_kb d), tw (ev_sector e), tw (ev_sector d),
         tw (ev_ioprio_class e), tw (ev_ioprio_class d), TN (file_ext_code (ev_file_ext e)),
         TN (file_ext_code (ev_file_ext d)), tw (ev_inode_hash e), tw (ev_inode_hash d)])"

definition smart_io_record_insert :: "io_env \<Rightarrow> io_request option \<Rightarrow> recorder \<Rightarrow> recorder \<times> io_effect list" where
  "smart_io_record_insert env rqo r =
     (case rqo of
        None \<Rightarrow> (r, [])
      | Some rq \<Rightarrow>
          if \<not> rc_enabled r then (r, [])
          else
          (case make_record env rq False r of
             (r, None) \<Rightarrow> (r, [])
           | (r, Some rec) \<Rightarrow>
               (let r = note_new_record env rec r;
                    old = chain_find rr_rq (rq_ptr rq) (rc_records r);
                    r = r\<lparr>rc_records := rec # chain_del rr_rq (rq_ptr rq) (rc_records r)\<rparr>;
                    r = count_on (ie_cpu env) (\<lambda>c. c\<lparr>ct_insert_cnt := ct_insert_cnt c + 1\<rparr>) r
                in (r, (case old of None \<Rightarrow> [] | Some d \<Rightarrow> [TraceDebug (duplicate_line rec d)]) @
                       (if rc_raw r then [RawEmit (emit_raw_insert env (rr_event rec) rq)] else [])))))"

section \<open>Issue\<close>

text \<open>The part before the second lock region: a request without a record gets a new one.\<close>

definition issue_prepare :: "io_env \<Rightarrow> io_request \<Rightarrow> recorder \<Rightarrow> recorder \<times> rq_record option" where
  "issue_prepare env rq r =
     (case make_record env rq True r of
        (r, None) \<Rightarrow> (r, None)
      | (r, Some rec) \<Rightarrow>
          (let rec = rec\<lparr>rr_event := (rr_event rec)\<lparr>ev_ts_issue := ev_ts_insert (rr_event rec)\<rparr>\<rparr>
           in (note_new_record env rec r, Some rec)))"

text \<open>The second region, with a new record, or with the record found before.\<close>

definition issue_line :: "io_env \<Rightarrow> io_request \<Rightarrow> bool \<Rightarrow> rq_record \<Rightarrow> recorder \<Rightarrow> io_effect list" where
  "issue_line env rq new_record rec r =
     (if rc_raw r then [RawEmit (emit_raw_issue env (rr_event rec) rq new_record)] else [])"

definition mark_issued :: "io_env \<Rightarrow> rq_record \<Rightarrow> rq_record" where
  "mark_issued env rec =
     rec\<lparr>rr_issued := True, rr_event := (rr_event rec)\<lparr>ev_issue_cpuid := of_nat (ie_cpu env)\<rparr>\<rparr>"

definition count_issue :: "io_env \<Rightarrow> recorder \<Rightarrow> recorder" where
  "count_issue env = count_on (ie_cpu env) (\<lambda>c. c\<lparr>ct_issue_cnt := ct_issue_cnt c + 1\<rparr>)"

definition issue_commit_new ::
  "io_env \<Rightarrow> io_request \<Rightarrow> rq_record \<Rightarrow> recorder \<Rightarrow> recorder \<times> io_effect list" where
  "issue_commit_new env rq rec r =
     (let rec' = mark_issued env rec;
          r = r\<lparr>rc_records := rec' # rc_records r\<rparr>;
          r = count_on (ie_cpu env) (\<lambda>c. c\<lparr>ct_direct_issue_cnt := ct_direct_issue_cnt c + 1\<rparr>) r;
          r = (if rr_issued rec then r else on_dev (device_issue_account (ie_clk env 5)) r);
          r = count_issue env r
      in (r, issue_line env rq True rec' r))"

definition issue_commit_found :: "io_env \<Rightarrow> io_request \<Rightarrow> recorder \<Rightarrow> recorder \<times> io_effect list" where
  "issue_commit_found env rq r =
     (case chain_find rr_rq (rq_ptr rq) (rc_records r) of
        None \<Rightarrow>
          (on_dev (device_complete_account (ie_clk env 5)) r,
           [TraceDebug (RawLine ''issue: lost request'' [''rq''] [TP (Some (rq_ptr rq))])])
      | Some rec \<Rightarrow>
          (let stamped = rec\<lparr>rr_event := (rr_event rec)\<lparr>ev_ts_issue := ie_clk env 4\<rparr>\<rparr>;
               rec' = mark_issued env stamped;
               r = r\<lparr>rc_records := chain_upd rr_rq (rq_ptr rq) (\<lambda>_. rec') (rc_records r)\<rparr>;
               r = (if rr_issued rec then r else on_dev (device_issue_account (ie_clk env 5)) r);
               r = count_issue env r
           in (r, issue_line env rq False rec' r)))"

text \<open>The whole call, without an event between its regions.\<close>

definition smart_io_record_issue :: "io_env \<Rightarrow> io_request option \<Rightarrow> recorder \<Rightarrow> recorder \<times> io_effect list" where
  "smart_io_record_issue env rqo r =
     (case rqo of
        None \<Rightarrow> (r, [])
      | Some rq \<Rightarrow>
          if \<not> rc_enabled r then (r, [])
          else if chain_find rr_rq (rq_ptr rq) (rc_records r) \<noteq> None then issue_commit_found env rq r
          else
          (case issue_prepare env rq r of
             (r, None) \<Rightarrow> (r, [])
           | (r, Some rec) \<Rightarrow> issue_commit_new env rq rec r))"

section \<open>Requeue\<close>

definition smart_io_record_requeue :: "io_env \<Rightarrow> io_request option \<Rightarrow> recorder \<Rightarrow> recorder \<times> io_effect list" where
  "smart_io_record_requeue env rqo r =
     (case rqo of
        None \<Rightarrow> (r, [])
      | Some rq \<Rightarrow>
          if \<not> rc_enabled r \<or> \<not> rc_raw r then (r, [])
          else
          (case chain_find rr_rq (rq_ptr rq) (rc_records r) of
             None \<Rightarrow> (r, [])
           | Some rec \<Rightarrow>
               (let e = (rr_event rec)\<lparr>ev_ts_requeue := ie_clk env 0\<rparr>
                in (r\<lparr>rc_records := chain_upd rr_rq (rq_ptr rq) (\<lambda>rec. rec\<lparr>rr_event := e\<rparr>) (rc_records r)\<rparr>,
                    [RawEmit (emit_raw_requeue (ie_clk env 1) e rq)]))))"

section \<open>Completion\<close>

definition copy_last_bucket_fields :: "recorder \<Rightarrow> smart_io_event \<Rightarrow> smart_io_event" where
  "copy_last_bucket_fields r e =
     (let b = rl_last (rc_roll r) in
      e\<lparr>ev_last := \<lparr>ev_p50_read_lat_us = cb_p50_rlat b, ev_p50_write_lat_us = cb_p50_wlat b,
          ev_p99_read_lat_us = cb_p99_rlat b, ev_p99_write_lat_us = cb_p99_wlat b,
          ev_avg_read_lat_us = cb_avg_rlat b, ev_avg_write_lat_us = cb_avg_wlat b,
          ev_p50_p99_ratio_r = cb_ratio_r b, ev_p50_p99_ratio_w = cb_ratio_w b, ev_reclaim_pages = cb_reclaim_diff b,
          ev_blk_bw_util = cb_blk_bw_util b, ev_cache_hit = cb_page_cache_hit_pct b,
          ev_file_access_pages = cb_file_access_pages b, ev_file_miss_pages = cb_file_miss_pages b,
          ev_file_cache_add_pages = cb_file_cache_add_pages b, ev_file_cache_delete_pages = cb_file_cache_delete_pages b,
          ev_file_refault_pages = cb_file_refault_pages b, ev_file_fault_count = cb_file_fault_count b,
          ev_file_fault_wait_us = cb_file_fault_wait_us b, ev_sys_psi_io = rc_psi_io r,
          ev_render_avg_lat = rc_render_avg_lat r, ev_jank_cnt = rc_jank_cnt r\<rparr>\<rparr>)"

text \<open>The times of a completed event, in microseconds.\<close>

definition elapsed_us :: "u64 \<Rightarrow> u64 \<Rightarrow> u64" where
  "elapsed_us start stop = (if stop > start then (stop - start) div 1000 else 0)"

definition complete_times :: "smart_io_event \<Rightarrow> smart_io_event" where
  "complete_times e =
     (let e = (if ev_ts_issue e = 0 then e\<lparr>ev_ts_issue := ev_ts_insert e\<rparr> else e);
          e = (if ev_ts_complete e > ev_ts_insert e
               then e\<lparr>ev_latency_us := (ev_ts_complete e - ev_ts_insert e) div 1000\<rparr> else e);
          sched_us = elapsed_us (ev_ts_insert e) (ev_ts_issue e);
          dev_us = elapsed_us (ev_ts_issue e) (ev_ts_complete e);
          e = e\<lparr>ev_sched_us := sched_us, ev_dev_us := dev_us\<rparr>
      in if ev_latency_us e \<noteq> 0 then e\<lparr>ev_sched_pct := ucast (sched_us * 100 div ev_latency_us e)\<rparr> else e)"

definition on_bucket :: "nat \<Rightarrow> (percpu_bucket \<Rightarrow> percpu_bucket) \<Rightarrow> recorder \<Rightarrow> recorder" where
  "on_bucket cpu f r =
     r\<lparr>rc_roll := (rc_roll r)\<lparr>rl_buckets := (rl_buckets (rc_roll r))[cpu := f (rl_buckets (rc_roll r) ! cpu)]\<rparr>\<rparr>"

text \<open>The completed bytes leave the record; the record is removed when none are left.\<close>

definition complete_bytes :: "io_env \<Rightarrow> rq_record \<Rightarrow> u32 \<Rightarrow> recorder \<Rightarrow> recorder" where
  "complete_bytes env rec nr_bytes r =
     (let r = r\<lparr>rc_records := chain_upd rr_rq (rr_rq rec) (\<lambda>x. x\<lparr>rr_data_bytes := rr_data_bytes x - nr_bytes\<rparr>) (rc_records r)\<rparr>
      in if rr_issued rec then on_dev (device_complete_account (ie_clk env 1)) r else r)"

definition drop_completed :: "rq_record \<Rightarrow> u32 \<Rightarrow> recorder \<Rightarrow> recorder" where
  "drop_completed rec nr_bytes r =
     (if rr_data_bytes rec - nr_bytes \<le> 0 then r\<lparr>rc_records := chain_del rr_rq (rr_rq rec) (rc_records r)\<rparr> else r)"

definition smart_io_record_complete :: "io_env \<Rightarrow> io_request option \<Rightarrow> u32 \<Rightarrow> recorder \<Rightarrow> recorder \<times> io_effect list" where
  "smart_io_record_complete env rqo nr_bytes r =
     (case rqo of
        None \<Rightarrow> (r, [])
      | Some rq \<Rightarrow>
          if \<not> rc_enabled r then (r, [])
          else
          (case chain_find rr_rq (rq_ptr rq) (rc_records r) of
             None \<Rightarrow>
               (count_on (ie_cpu env) (\<lambda>c. c\<lparr>ct_lost_complete_cnt := ct_lost_complete_cnt c + 1\<rparr>) r,
                if nr_bytes > 0
                then [TraceDebug (RawLine ''complete: lost request'' [''rq'', ''nr_bytes''] [TP (Some (rq_ptr rq)), tw nr_bytes])]
                else [])
           | Some rec \<Rightarrow>
               (let e = (rr_event rec)\<lparr>ev_ts_complete := ie_clk env 0\<rparr>;
                    r = complete_bytes env rec nr_bytes r;
                    counted = count_on (ie_cpu env) (\<lambda>c. c\<lparr>ct_complete_cnt := ct_complete_cnt c + 1\<rparr>) in
                if rc_raw r then
                  (drop_completed rec nr_bytes (counted r), [RawEmit (emit_raw_complete e rq nr_bytes)])
                else
                (let e = complete_times e;
                     r = on_bucket (ie_cpu env) (cur_bucket_add (ev_io_op e) (ev_io_size_kb e) (ev_latency_us e)) r;
                     e = copy_last_bucket_fields r e;
                     r = r\<lparr>rc_latest := e\<rparr>
                 in (drop_completed rec nr_bytes (counted r), [TraceComplete e])))))"

section \<open>Statistics, the periodic tick, start and end\<close>

definition smart_io_get_io_stats :: "nat list \<Rightarrow> recorder \<Rightarrow> u32 \<times> u32 \<times> u32 \<times> u32 \<times> u32 \<times> u32" where
  "smart_io_get_io_stats online r =
     (let total_of = (\<lambda>f. fold (\<lambda>cpu n. n + f (rc_counters r cpu)) online (0 :: u64));
          i_cnt = total_of ct_insert_cnt; is_cnt = total_of ct_issue_cnt
      in (ucast i_cnt, ucast is_cnt, ucast (total_of ct_complete_cnt),
          if i_cnt > is_cnt then ucast (i_cnt - is_cnt) else 0,
          word_of_int (du_in_flight (rc_dev r)), ucast (total_of ct_lost_complete_cnt)))"

definition smart_io_read_latest_event :: "recorder \<Rightarrow> smart_io_event" where
  "smart_io_read_latest_event r = rc_latest r"

definition roll_completed_bucket :: "u64 \<Rightarrow> u64 \<Rightarrow> recorder \<Rightarrow> recorder" where
  "roll_completed_bucket reclaim_now now r =
     on_dev (device_window_start now) (r\<lparr>rc_roll := roll_buckets (rc_window_sz_ms r) reclaim_now (rc_roll r)\<rparr>)"

definition smart_io_periodic_tick :: "u64 \<Rightarrow> u64 \<Rightarrow> recorder \<Rightarrow> recorder" where
  "smart_io_periodic_tick reclaim_now now r =
     (if rc_raw r then r
      else
      (case uid_io_swap_buckets (rc_uid_curr r) of (tables, prev) \<Rightarrow>
         roll_completed_bucket reclaim_now now (r\<lparr>rc_uid_curr := tables, rc_uid_prev := prev\<rparr>)))"

definition cleanup_rq_records :: "recorder \<Rightarrow> recorder" where
  "cleanup_rq_records r = r\<lparr>rc_records := []\<rparr>"

definition free_uid_prev_locked :: "recorder \<Rightarrow> recorder" where
  "free_uid_prev_locked r = r\<lparr>rc_uid_prev := (\<lambda>_. None)\<rparr>"

definition cleanup_uid_entries :: "recorder \<Rightarrow> recorder" where
  "cleanup_uid_entries r = (free_uid_prev_locked r)\<lparr>rc_uid_curr := map (\<lambda>_ _. None) (rc_uid_curr r)\<rparr>"

text \<open>\<open>caches\<close>: how many of the four object caches can be created.\<close>

definition smart_io_semantics_init :: "nat \<Rightarrow> u64 \<Rightarrow> u64 \<Rightarrow> recorder \<Rightarrow> recorder \<times> errno option" where
  "smart_io_semantics_init caches reclaim_now now r =
     (if caches < 4 then (r, Some ENOMEM)
      else
      (r\<lparr>rc_bio_remap := [], rc_rq_remap := [], rc_records := [], rc_uid_prev := (\<lambda>_. None),
         rc_uid_curr := map (\<lambda>_ _. None) (rc_uid_curr r),
         rc_roll := (rc_roll r)\<lparr>rl_buckets := map bucket_clear (rl_buckets (rc_roll r)), rl_prev_reclaim := reclaim_now\<rparr>,
         rc_f2fs_gc_active := 0, rc_f2fs_cp_active := 0,
         rc_dev := (rc_dev r)\<lparr>du_util_window_start := now\<rparr>\<rparr>, None))"

definition smart_io_semantics_exit :: "recorder \<Rightarrow> recorder" where
  "smart_io_semantics_exit r = cleanup_uid_entries (cleanup_rq_records (smart_io_clear_remap_state r))"

end
