(* ===== verification/Io_Laws.thy ===== *)
theory Io_Laws
  imports Io_Events Machine
begin

text \<open>
  Laws of the recorder: what each handler leaves alone, the count of requests in flight over every
  run in which requests complete as a whole, and what a partial completion does to it.
\<close>

section \<open>Frames\<close>

named_theorems io_frame

lemma remap_frame [io_frame]:
  "rc_records (fst (consume_request_remap rq r)) = rc_records r"
  "rc_dev (fst (consume_request_remap rq r)) = rc_dev r"
  "rc_raw (fst (consume_request_remap rq r)) = rc_raw r"
  "rc_enabled (fst (consume_request_remap rq r)) = rc_enabled r"
  by (simp_all add: consume_request_remap_def consume_rq_remap_def consume_bio_remaps_def split: prod.split)

lemma fill_frame [io_frame]:
  "rc_records (fst (fill_record_from_current env rq direct_path remap r)) = rc_records r"
  "rc_dev (fst (fill_record_from_current env rq direct_path remap r)) = rc_dev r"
  "rc_raw (fst (fill_record_from_current env rq direct_path remap r)) = rc_raw r"
  "rc_enabled (fst (fill_record_from_current env rq direct_path remap r)) = rc_enabled r"
  by (simp_all add: fill_record_from_current_def system_part_def Let_def split: prod.split)

lemma fill_record [io_frame]:
  "rr_rq (snd (fill_record_from_current env rq direct_path remap r)) = rq_ptr rq"
  "\<not> rr_issued (snd (fill_record_from_current env rq direct_path remap r))"
  "rr_data_bytes (snd (fill_record_from_current env rq direct_path remap r)) = rq_bytes rq"
  by (simp_all add: fill_record_from_current_def system_part_def Let_def split: prod.split)

lemma make_record_frame [io_frame]:
  "rc_records (fst (make_record env rq direct_path r)) = rc_records r"
  "rc_dev (fst (make_record env rq direct_path r)) = rc_dev r"
  "rc_raw (fst (make_record env rq direct_path r)) = rc_raw r"
  "rc_enabled (fst (make_record env rq direct_path r)) = rc_enabled r"
  using remap_frame [of rq r]
  by (auto simp: make_record_def split: prod.split) (metis fill_frame fst_conv)+

lemma make_record_new:
  "make_record env rq direct_path r = (r', Some rec) \<Longrightarrow>
    rr_rq rec = rq_ptr rq \<and> \<not> rr_issued rec \<and> rr_data_bytes rec = rq_bytes rq"
  unfolding make_record_def by (auto split: prod.splits if_splits) (metis fill_record snd_conv)+

lemma note_frame [simp]:
  "rc_records (note_new_record env rec r) = rc_records r" "rc_dev (note_new_record env rec r) = rc_dev r"
  "rc_raw (note_new_record env rec r) = rc_raw r" "rc_enabled (note_new_record env rec r) = rc_enabled r"
  by (simp_all add: note_new_record_def Let_def)

lemma count_frame [simp]:
  "rc_records (count_on cpu f r) = rc_records r" "rc_dev (count_on cpu f r) = rc_dev r"
  "rc_raw (count_on cpu f r) = rc_raw r" "rc_enabled (count_on cpu f r) = rc_enabled r"
  "rc_records (count_issue env r) = rc_records r" "rc_dev (count_issue env r) = rc_dev r"
  "rc_raw (count_issue env r) = rc_raw r" "rc_enabled (count_issue env r) = rc_enabled r"
  by (simp_all add: count_on_def count_issue_def)

lemma dev_frame [simp]:
  "rc_records (on_dev f r) = rc_records r" "rc_dev (on_dev f r) = f (rc_dev r)" "rc_enabled (on_dev f r) = rc_enabled r"
  "rc_raw (on_dev f r) = rc_raw r"
  by (simp_all add: on_dev_def)

lemma bucket_frame [simp]:
  "rc_records (on_bucket cpu f r) = rc_records r" "rc_dev (on_bucket cpu f r) = rc_dev r"
  by (simp_all add: on_bucket_def)

lemma issue_account_flight [simp]: "du_in_flight (device_issue_account now d) = du_in_flight d + 1"
  by (simp add: device_issue_account_def Let_def)

lemma complete_account_flight [simp]: "0 \<le> du_in_flight d \<Longrightarrow> du_in_flight (device_complete_account now d) = max 0 (du_in_flight d - 1)"
  by (simp add: device_complete_account_def Let_def)

lemma window_start_flight [simp]: "du_in_flight (device_window_start now d) = du_in_flight d"
  by (simp add: device_window_start_def Let_def)

lemma mark_issued_simps [simp]: "rr_rq (mark_issued env rec) = rr_rq rec" "rr_issued (mark_issued env rec)"
  by (simp_all add: mark_issued_def)

section \<open>The count of requests in flight\<close>

definition issued_count :: "recorder \<Rightarrow> int" where
  "issued_count r = int (chain_count rr_issued (rc_records r))"

text \<open>A request has at most one record, and the device counts the issued ones.\<close>

definition recorder_ok :: "recorder \<Rightarrow> bool" where
  "recorder_ok r \<longleftrightarrow> distinct (map rr_rq (rc_records r)) \<and> du_in_flight (rc_dev r) = issued_count r"

lemma recorder_ok_frame:
  "rc_records r' = rc_records r \<Longrightarrow> du_in_flight (rc_dev r') = du_in_flight (rc_dev r) \<Longrightarrow> recorder_ok r' = recorder_ok r"
  by (simp add: recorder_ok_def issued_count_def)

definition not_issued :: "io_request \<Rightarrow> recorder \<Rightarrow> bool" where
  "not_issued rq r \<longleftrightarrow> (case chain_find rr_rq (rq_ptr rq) (rc_records r) of None \<Rightarrow> True | Some rec \<Rightarrow> \<not> rr_issued rec)"

lemma insert_ok:
  assumes "recorder_ok r" and "not_issued rq r"
  shows "recorder_ok (fst (smart_io_record_insert env (Some rq) r))"
proof (cases "rc_enabled r")
  case True
  obtain r' x where m: "make_record env rq False r = (r', x)" by fastforce
  have f: "rc_records r' = rc_records r" "rc_dev r' = rc_dev r"
    using make_record_frame(1,2) [of env rq False r] m by simp_all
  show ?thesis
  proof (cases x)
    case None
    then show ?thesis using True m f assms(1) by (simp add: smart_io_record_insert_def recorder_ok_def issued_count_def)
  next
    case (Some rec)
    note new = make_record_new [OF m [unfolded Some]]
    have "chain_count rr_issued (chain_del rr_rq (rq_ptr rq) (rc_records r)) = chain_count rr_issued (rc_records r)"
      using assms(2) chain_count_del [of rr_rq "rq_ptr rq" "rc_records r" _ rr_issued]
      by (cases "chain_find rr_rq (rq_ptr rq) (rc_records r)") (auto simp: not_issued_def chain_find_None)
    then show ?thesis
      using True m f Some new assms(1) chain_del_distinct_keys [of rr_rq "rc_records r" "rq_ptr rq"]
        chain_del_same [of rr_rq "rc_records r" "rq_ptr rq"]
      by (auto simp: smart_io_record_insert_def recorder_ok_def issued_count_def Let_def chain_find_None)
  qed
qed (simp add: smart_io_record_insert_def assms(1))

lemma upd_same_key: "rr_rq rec' = k \<Longrightarrow> map rr_rq (chain_upd rr_rq k (\<lambda>_. rec') es) = map rr_rq es"
  by (induction es) auto

lemma issue_found_ok:
  assumes "recorder_ok r" and f: "chain_find rr_rq (rq_ptr rq) (rc_records r) = Some rec"
  shows "recorder_ok (fst (issue_commit_found env rq r))"
proof -
  let ?rec = "mark_issued env (rec\<lparr>rr_event := (rr_event rec)\<lparr>ev_ts_issue := ie_clk env 4\<rparr>\<rparr>)"
  have "rr_rq ?rec = rq_ptr rq" using chain_find_Some [OF f] by simp
  then have "map rr_rq (chain_upd rr_rq (rq_ptr rq) (\<lambda>_. ?rec) (rc_records r)) = map rr_rq (rc_records r)"
    by (rule upd_same_key)
  then show ?thesis
    using chain_count_upd [OF f, of rr_issued "\<lambda>_. ?rec"] f assms(1)
    by (auto simp: issue_commit_found_def recorder_ok_def issued_count_def Let_def simp flip: of_nat_Suc split: if_splits)
qed

lemma issue_new_ok:
  assumes "recorder_ok r" and n: "chain_find rr_rq (rr_rq rec) (rc_records r) = None" and "\<not> rr_issued rec"
  shows "recorder_ok (fst (issue_commit_new env rq rec r))"
  using assms(1,3) n [unfolded chain_find_None] by (auto simp: issue_commit_new_def recorder_ok_def issued_count_def Let_def)

lemma issue_prepare_ok:
  assumes "recorder_ok r"
  shows "recorder_ok (fst (issue_prepare env rq r))"
proof -
  obtain r' x where m: "make_record env rq True r = (r', x)" by fastforce
  have f: "rc_records r' = rc_records r" "rc_dev r' = rc_dev r"
    using make_record_frame(1,2) [of env rq True r] m by simp_all
  show ?thesis using m f assms by (cases x) (simp_all add: issue_prepare_def Let_def recorder_ok_def issued_count_def)
qed

lemma issue_ok:
  assumes "recorder_ok r"
  shows "recorder_ok (fst (smart_io_record_issue env (Some rq) r))"
proof (cases "rc_enabled r \<and> chain_find rr_rq (rq_ptr rq) (rc_records r) = None")
  case True
  obtain r' x where m: "make_record env rq True r = (r', x)" by fastforce
  have f: "rc_records r' = rc_records r" "rc_dev r' = rc_dev r"
    using make_record_frame(1,2) [of env rq True r] m by simp_all
  show ?thesis
  proof (cases x)
    case None
    then show ?thesis using True m f assms
      by (simp add: smart_io_record_issue_def issue_prepare_def recorder_ok_def issued_count_def)
  next
    case (Some rec)
    note new = make_record_new [OF m [unfolded Some]]
    let ?rec = "rec\<lparr>rr_event := (rr_event rec)\<lparr>ev_ts_issue := ev_ts_insert (rr_event rec)\<rparr>\<rparr>"
    have "recorder_ok (note_new_record env rec r')"
      using assms f recorder_ok_frame [of "note_new_record env rec r'" r] by simp
    moreover have "chain_find rr_rq (rr_rq ?rec) (rc_records (note_new_record env rec r')) = None"
      using True f new by simp
    moreover have "\<not> rr_issued ?rec" using new by simp
    moreover have "recorder_ok (note_new_record env ?rec r')"
      using assms f recorder_ok_frame [of "note_new_record env ?rec r'" r] by simp
    ultimately show ?thesis
      using issue_new_ok [of "note_new_record env ?rec r'" ?rec env rq] True m Some new f
      by (simp add: smart_io_record_issue_def issue_prepare_def Let_def)
  qed
next
  case False
  then show ?thesis
    using assms issue_found_ok [OF assms] by (auto simp: smart_io_record_issue_def)
qed

text \<open>A completion is whole when it carries the bytes that are left of an issued request.\<close>

definition whole :: "io_request \<Rightarrow> u32 \<Rightarrow> recorder \<Rightarrow> bool" where
  "whole rq nr_bytes r \<longleftrightarrow>
     (case chain_find rr_rq (rq_ptr rq) (rc_records r) of
        None \<Rightarrow> True | Some rec \<Rightarrow> rr_issued rec \<and> rr_data_bytes rec = nr_bytes)"

text \<open>What a completion leaves of the records and of the count, whatever the mode.\<close>

lemma complete_records:
  assumes "rc_enabled r" and f: "chain_find rr_rq (rq_ptr rq) (rc_records r) = Some rec"
  shows "rc_records (fst (smart_io_record_complete env (Some rq) nr_bytes r)) =
      (if rr_data_bytes rec - nr_bytes = 0
       then chain_del rr_rq (rq_ptr rq) (rc_records (complete_bytes env rec nr_bytes r))
       else rc_records (complete_bytes env rec nr_bytes r)) \<and>
    rc_dev (fst (smart_io_record_complete env (Some rq) nr_bytes r)) = rc_dev (complete_bytes env rec nr_bytes r)"
proof -
  have "rr_rq rec = rq_ptr rq" using chain_find_Some [OF f] by simp
  then show ?thesis
    using assms(1) f by (auto simp: smart_io_record_complete_def drop_completed_def Let_def)
qed

lemma chain_del_upd: "(\<And>e. key (g e) = key e) \<Longrightarrow> chain_del key k (chain_upd key k g es) = chain_del key k es"
  by (induction es) auto

lemma complete_ok:
  assumes "recorder_ok r" and "whole rq nr_bytes r"
  shows "recorder_ok (fst (smart_io_record_complete env (Some rq) nr_bytes r))"
proof (cases "rc_enabled r \<and> chain_find rr_rq (rq_ptr rq) (rc_records r) \<noteq> None")
  case True
  then obtain rec where f: "rc_enabled r" "chain_find rr_rq (rq_ptr rq) (rc_records r) = Some rec" by auto
  have rec: "rr_issued rec" "rr_data_bytes rec = nr_bytes" "rr_rq rec = rq_ptr rq"
    using assms(2) f(2) chain_find_Some [OF f(2)] by (simp_all add: whole_def)
  have "rc_records (complete_bytes env rec nr_bytes r) =
      chain_upd rr_rq (rq_ptr rq) (\<lambda>x. x\<lparr>rr_data_bytes := rr_data_bytes x - nr_bytes\<rparr>) (rc_records r)"
    using rec(3) by (simp add: complete_bytes_def Let_def)
  then have recs: "rc_records (fst (smart_io_record_complete env (Some rq) nr_bytes r)) = chain_del rr_rq (rq_ptr rq) (rc_records r)"
    using complete_records [OF f, of env nr_bytes] rec(2) by (simp add: chain_del_upd)
  have cnt: "issued_count r = 1 + int (chain_count rr_issued (chain_del rr_rq (rq_ptr rq) (rc_records r)))"
    using chain_count_del [OF f(2), of rr_issued] rec(1) by (simp add: issued_count_def)
  have "rc_dev (fst (smart_io_record_complete env (Some rq) nr_bytes r)) = device_complete_account (ie_clk env 1) (rc_dev r)"
    using complete_records [OF f, of env nr_bytes] rec(1) by (simp add: complete_bytes_def Let_def)
  then show ?thesis
    using assms(1) recs cnt chain_del_distinct_keys [of rr_rq "rc_records r" "rq_ptr rq"]
    by (simp add: recorder_ok_def issued_count_def)
next
  case False
  then show ?thesis using assms(1) by (auto simp: smart_io_record_complete_def recorder_ok_def issued_count_def)
qed

lemma requeue_ok: "recorder_ok r \<Longrightarrow> recorder_ok (fst (smart_io_record_requeue env (Some rq) r))"
proof -
  assume ok: "recorder_ok r"
  show ?thesis
  proof (cases "rc_enabled r \<and> rc_raw r \<and> chain_find rr_rq (rq_ptr rq) (rc_records r) \<noteq> None")
    case True
    then obtain rec where f: "chain_find rr_rq (rq_ptr rq) (rc_records r) = Some rec" by auto
    let ?g = "\<lambda>x. x\<lparr>rr_event := (rr_event rec)\<lparr>ev_ts_requeue := ie_clk env 0\<rparr>\<rparr>"
    have "map rr_rq (chain_upd rr_rq (rq_ptr rq) ?g (rc_records r)) = map rr_rq (rc_records r)"
      by (rule chain_upd_keys) simp
    moreover have "chain_count rr_issued (chain_upd rr_rq (rq_ptr rq) ?g (rc_records r)) = chain_count rr_issued (rc_records r)"
      using chain_count_upd [OF f, of rr_issued ?g] by simp
    ultimately show ?thesis using ok True f by (simp add: smart_io_record_requeue_def recorder_ok_def issued_count_def Let_def)
  next
    case False
    then show ?thesis using ok by (auto simp: smart_io_record_requeue_def)
  qed
qed

lemma tick_ok: "recorder_ok r \<Longrightarrow> recorder_ok (smart_io_periodic_tick reclaim_now now r)"
  by (simp add: smart_io_periodic_tick_def roll_completed_bucket_def uid_io_swap_buckets_def recorder_ok_def issued_count_def)

section \<open>Runs of the recorder\<close>

text \<open>
  The events of the block layer, the periodic tick and the switches.  A request is inserted while it
  is not issued and completes as a whole.  An issue takes the shard lock twice; its two parts are also
  steps of their own, so that other events come in between, as long as the lookup of the first part
  still holds in the second.
\<close>

inductive io_step :: "recorder \<Rightarrow> io_effect list \<Rightarrow> recorder \<Rightarrow> bool" where
  io_insert: "not_issued rq r \<Longrightarrow> smart_io_record_insert env (Some rq) r = (r', es) \<Longrightarrow> io_step r es r'"
| io_issue: "smart_io_record_issue env (Some rq) r = (r', es) \<Longrightarrow> io_step r es r'"
| io_issue_found: "chain_find rr_rq (rq_ptr rq) (rc_records r) \<noteq> None \<Longrightarrow> issue_commit_found env rq r = (r', es) \<Longrightarrow> io_step r es r'"
| io_issue_prepare: "issue_prepare env rq r = (r', rec) \<Longrightarrow> io_step r [] r'"
| io_issue_new: "chain_find rr_rq (rr_rq rec) (rc_records r) = None \<Longrightarrow> \<not> rr_issued rec \<Longrightarrow>
    issue_commit_new env rq rec r = (r', es) \<Longrightarrow> io_step r es r'"
| io_requeue: "smart_io_record_requeue env (Some rq) r = (r', es) \<Longrightarrow> io_step r es r'"
| io_complete: "whole rq nr_bytes r \<Longrightarrow> smart_io_record_complete env (Some rq) nr_bytes r = (r', es) \<Longrightarrow> io_step r es r'"
| io_tick: "io_step r [] (smart_io_periodic_tick reclaim_now now r)"
| io_bio_remap: "io_step r [] (smart_io_record_bio_remap env bio old_dev r)"
| io_rq_remap: "io_step r [] (smart_io_record_rq_remap env q old_dev r)"
| io_raw: "io_step r [] (r\<lparr>rc_raw := raw\<rparr>)"
| io_policy: "smart_io_policy_set rate uid sync_only scenes (rc_policy r) = (p, e) \<Longrightarrow> io_step r [] (r\<lparr>rc_policy := p\<rparr>)"

definition io_init :: "recorder \<Rightarrow> bool" where
  "io_init r \<longleftrightarrow> rc_records r = [] \<and> du_in_flight (rc_dev r) = 0"

interpretation io_machine: invariant_machine io_step io_init recorder_ok
proof
  fix s assume "io_init s"
  then show "recorder_ok s" by (simp add: io_init_def recorder_ok_def issued_count_def)
next
  fix s es t assume ok: "recorder_ok s" and step: "io_step s es t"
  from step show "recorder_ok t"
  proof cases
    case (io_insert rq env)
    then show ?thesis using insert_ok [OF ok, of rq env] by simp
  next
    case (io_issue env rq)
    then show ?thesis using issue_ok [OF ok, of env rq] by simp
  next
    case (io_issue_found rq env)
    then show ?thesis using issue_found_ok [OF ok, of rq _ env] by fastforce
  next
    case (io_issue_prepare env rq rec)
    then show ?thesis using issue_prepare_ok [OF ok, of env rq] by simp
  next
    case (io_issue_new rec env rq)
    then show ?thesis using issue_new_ok [OF ok, of rec env rq] by simp
  next
    case (io_requeue env rq)
    then show ?thesis using requeue_ok [OF ok, of env rq] by simp
  next
    case (io_complete rq nr_bytes env)
    then show ?thesis using complete_ok [OF ok, of rq nr_bytes env] by simp
  next
    case io_tick
    then show ?thesis using tick_ok [OF ok] by simp
  qed (use ok in \<open>auto simp: recorder_ok_def issued_count_def smart_io_record_bio_remap_def smart_io_record_rq_remap_def split: option.split\<close>)
qed


text \<open>A concrete recorder and call: one processor, everything captured, one request issued directly.\<close>

definition demo_recorder :: recorder where
  "demo_recorder = \<lparr>rc_enabled = True, rc_raw = False, rc_policy = current_policy_initial\<lparr>po_enabled := True\<rparr>,
     rc_records = [], rc_bio_remap = [], rc_rq_remap = [], rc_counters = (\<lambda>_. \<lparr>ct_insert_cnt = 0, ct_issue_cnt = 0,
       ct_complete_cnt = 0, ct_direct_issue_cnt = 0, ct_lost_complete_cnt = 0\<rparr>),
     rc_roll = \<lparr>rl_buckets = [empty_bucket], rl_last = zero_completed, rl_max_bw_kbps = 819200, rl_prev_reclaim = 0\<rparr>,
     rc_uid_curr = [\<lambda>_. None], rc_uid_prev = (\<lambda>_. None), rc_hot = [], rc_dev = \<lparr>du_in_flight = 0, du_busy_ns = 0,
       du_ts_busy_start = 0, du_util_window_start = 0\<rparr>, rc_latest = zero_event, rc_window_sz_ms = 100,
     rc_queue_depth = 128, rc_f2fs_gc_active = 0, rc_f2fs_cp_active = 0, rc_loadavg_1m_x100 = 0, rc_psi_io = 0,
     rc_render_avg_lat = 0, rc_jank_cnt = 0\<rparr>"

definition demo_io_env :: io_env where
  "demo_io_env = \<lparr>ie_uid = 10001, ie_pid = 7, ie_tgid = 7, ie_comm = ''main'', ie_cpu = 0, ie_fg_uid = 10001,
     ie_scene = 0, ie_clk = (\<lambda>_. 5000), ie_random = 0, ie_alloc_record = True, ie_alloc_uid = True,
     ie_alloc_remap = True, ie_page_shift = 12, ie_mem_available = 0, ie_file_dirty = 0, ie_writeback = 0,
     ie_totalswap = 0, ie_freeswap = 0, ie_online_cpus = 1, ie_nr_running = [1], ie_cgroup_weight_dfl = 100,
     ie_format_dev = (\<lambda>_. ''8:0'')\<rparr>"

definition demo_issued :: recorder where
  "demo_issued = fst (smart_io_record_issue demo_io_env (Some demo_rq) demo_recorder)"

lemma demo_recorder_init: "io_init demo_recorder"
  by (simp add: io_init_def demo_recorder_def)

lemma demo_run: "\<exists>es. reaches io_step demo_recorder es demo_issued"
  unfolding demo_issued_def by (rule exI, rule reaches_one, rule io_issue, rule prod.collapse [symmetric])

lemma demo_issued_record:
  "map (\<lambda>x. (rr_rq x, rr_issued x, rr_data_bytes x)) (rc_records demo_issued) = [(7, True, 8192)]" "rc_enabled demo_issued"
  by code_simp+


section \<open>Partial completions\<close>

text \<open>C39: a completion of a part of an issued request leaves the request issued and in the table but takes it off the device counter, which is then one below the number of issued requests.\<close>

theorem partial_completion_undercounts:
  assumes "recorder_ok r" and "rc_enabled r" and f: "chain_find rr_rq (rq_ptr rq) (rc_records r) = Some rec"
    and "rr_issued rec" and "rr_data_bytes rec \<noteq> nr_bytes"
  shows "let r' = fst (smart_io_record_complete env (Some rq) nr_bytes r) in
    map_option rr_issued (chain_find rr_rq (rq_ptr rq) (rc_records r')) = Some True \<and>
    issued_count r' = issued_count r \<and> du_in_flight (rc_dev r') = issued_count r' - 1"
proof -
  let ?g = "\<lambda>x. x\<lparr>rr_data_bytes := rr_data_bytes x - nr_bytes\<rparr>"
  let ?r = "fst (smart_io_record_complete env (Some rq) nr_bytes r)"
  have rec: "rr_rq rec = rq_ptr rq" using chain_find_Some [OF f] by simp
  have recs: "rc_records ?r = chain_upd rr_rq (rq_ptr rq) ?g (rc_records r)"
    using complete_records [OF assms(2) f, of env nr_bytes] rec assms(5) by (simp add: complete_bytes_def Let_def)
  have dev: "rc_dev ?r = device_complete_account (ie_clk env 1) (rc_dev r)"
    using complete_records [OF assms(2) f, of env nr_bytes] assms(4) by (simp add: complete_bytes_def Let_def)
  have pos: "0 < issued_count r" using chain_count_del [OF f, of rr_issued] assms(4) by (simp add: issued_count_def)
  have "issued_count ?r = issued_count r"
    using chain_count_upd [OF f, of rr_issued ?g] assms(4) recs by (simp add: issued_count_def)
  moreover have "du_in_flight (rc_dev ?r) = issued_count r - 1"
    using dev pos assms(1) by (simp add: recorder_ok_def)
  moreover have "map_option rr_issued (chain_find rr_rq (rq_ptr rq) (rc_records ?r)) = Some True"
    using recs f assms(4) by (simp add: chain_find_upd)
  ultimately show ?thesis by (simp add: Let_def)
qed

lemma partial_completion_undercounts_witness:
  "du_in_flight (rc_dev (fst (smart_io_record_complete demo_io_env (Some demo_rq) 4096 demo_issued))) =
     issued_count (fst (smart_io_record_complete demo_io_env (Some demo_rq) 4096 demo_issued)) - 1"
proof -
  have ok: "recorder_ok demo_issued"
    using demo_run io_machine.reachable_inv [OF demo_recorder_init] by blast
  obtain rec where rec: "chain_find rr_rq (rq_ptr demo_rq) (rc_records demo_issued) = Some rec" "rr_issued rec" "rr_data_bytes rec = 8192"
    using demo_issued_record(1) by (auto simp: demo_rq_def)
  have "rr_data_bytes rec \<noteq> 4096" using rec(3) by simp
  from partial_completion_undercounts [OF ok demo_issued_record(2) rec(1,2) this, of demo_io_env]
  show ?thesis by (simp add: Let_def)
qed

section \<open>Times of a completed request\<close>

lemma unat_sub_div: "unat (b :: u64) \<le> unat a \<Longrightarrow> unat ((a - b) div 1000) = (unat a - unat b) div 1000"
  by (simp add: unat_div unat_sub word_le_nat_alt)

lemma elapsed_us_nat: "unat (elapsed_us a b) = (unat b - unat a) div 1000"
  by (simp add: elapsed_us_def unat_sub_div word_less_nat_alt)



end
