(* ===== verification/Pagecache.thy ===== *)
theory Pagecache
  imports Io_Laws System_Context
begin

text \<open>
  \<open>tp_pagecache_demo.c\<close>: keeping pages of hot files in the page cache.  A page about to be reclaimed is
  activated when its inode is in the table of hot inodes and the budget of the foreground user and
  the inode allows it.  A folio carries its index, its mapping, its size and its number of pages.
\<close>

section \<open>State\<close>

record inode_budget =
  ib_uid :: u32
  ib_inode_hash :: u64
  ib_window_start_ns :: u64
  ib_used_bytes :: u32

definition zero_budget :: inode_budget where
  "zero_budget = \<lparr>ib_uid = 0, ib_inode_hash = 0, ib_window_start_ns = 0, ib_used_bytes = 0\<rparr>"

record pagecache_demo =
  pc_on :: bool
  pc_observe_on :: bool
  pc_log_window_start :: u64
  pc_log_count :: u32
  pc_budgets :: "inode_budget list"

definition pagecache_budget_bytes :: u32 where "pagecache_budget_bytes = 256 * 1024"
definition pagecache_budget_window_ns :: u64 where "pagecache_budget_window_ns = 50 * 1000 * 1000 * 10"
definition pagecache_budget_inodes :: nat where "pagecache_budget_inodes = 64"
definition pagecache_log_budget :: u32 where "pagecache_log_budget = 64"

definition pagecache_demo_initial :: pagecache_demo where
  "pagecache_demo_initial = \<lparr>pc_on = False, pc_observe_on = False, pc_log_window_start = 0, pc_log_count = 0,
     pc_budgets = replicate pagecache_budget_inodes zero_budget\<rparr>"

record cached_folio =
  cf_folio :: folio
  cf_nr_pages :: u64
  cf_size :: u64
  cf_uptodate :: bool

section \<open>Identity of a folio\<close>

text \<open>The node and meta inodes of an f2fs file system: inode number, device and kind.\<close>

definition pagecache_demo_identity :: "inode option option \<Rightarrow> (u64 \<times> u32 \<times> u32) option" where
  "pagecache_demo_identity mapping =
     (case mapping of
        Some (Some i) \<Rightarrow>
          (case in_sb i of
             None \<Rightarrow> None
           | Some sb \<Rightarrow>
               if sb_type_name sb \<noteq> Some ''f2fs'' then None
               else if in_ino i \<noteq> 1 \<and> in_ino i \<noteq> 2 then None
               else Some (in_ino i, sb_dev sb, if in_ino i = 1 then 1 else 2))
      | _ \<Rightarrow> None)"

definition pagecache_demo_folio_identity :: "cached_folio option \<Rightarrow> (u64 \<times> u32 \<times> u32) option" where
  "pagecache_demo_folio_identity f =
     (case f of None \<Rightarrow> None | Some f \<Rightarrow> pagecache_demo_identity (fo_mapping (cf_folio f)))"

definition pagecache_demo_inode_hash :: "cached_folio option \<Rightarrow> u64" where
  "pagecache_demo_inode_hash f =
     (case f of
        None \<Rightarrow> 0
      | Some f \<Rightarrow>
          (case fo_mapping (cf_folio f) of
             Some (Some i) \<Rightarrow>
               (case in_sb i of None \<Rightarrow> 0 | Some sb \<Rightarrow> in_ino i XOR push_bit 32 (ucast (sb_dev sb)))
           | _ \<Rightarrow> 0))"

section \<open>Observation lines\<close>

definition folio_pages :: "cached_folio \<Rightarrow> u64" where
  "folio_pages f = min (cf_nr_pages f) (ucast u32_max)"

text \<open>\<open>dev_numbers\<close>: the kernel's major and minor number of a device.\<close>

definition tp_pagecache_demo_lookup_cb ::
  "(u32 \<Rightarrow> u32 \<times> u32) \<Rightarrow> io_env \<Rightarrow> sys_ctx \<Rightarrow> inode option option \<Rightarrow> u64 \<Rightarrow> int \<Rightarrow> cached_folio option
   \<Rightarrow> pagecache_demo \<Rightarrow> raw_line list" where
  "tp_pagecache_demo_lookup_cb dev_numbers env c mapping index fgp_flags f p =
     (if \<not> pc_observe_on p then []
      else case pagecache_demo_identity mapping of
        None \<Rightarrow> []
      | Some (ino, dev, kind) \<Rightarrow>
          (let fg = word_of_int (smart_io_get_fg_uid c) :: u32 in
           [RawLine ''pc_lookup''
              [''ts'', ''dev major'', ''dev minor'', ''ino'', ''type'', ''index'', ''present'', ''uptodate'', ''pages'',
               ''fgp_flags'', ''uid'', ''fg_uid'', ''is_front'', ''pid'', ''tgid'']
              [tw (ie_clk env 0), tw (fst (dev_numbers dev)), tw (snd (dev_numbers dev)), tw ino, tw kind, tw index,
               tb (f \<noteq> None), tb (case f of None \<Rightarrow> False | Some f \<Rightarrow> cf_uptodate f),
               tw (case f of None \<Rightarrow> 0 | Some f \<Rightarrow> folio_pages f), TZ fgp_flags, tw (ie_uid env), tw fg,
               tb (ie_uid env = fg), TZ (ie_pid env), TZ (ie_tgid env)]]))"

definition folio_line ::
  "string \<Rightarrow> (u32 \<Rightarrow> u32 \<times> u32) \<Rightarrow> io_env \<Rightarrow> cached_folio option \<Rightarrow> pagecache_demo \<Rightarrow> raw_line list" where
  "folio_line name dev_numbers env fo p =
     (if \<not> pc_observe_on p then []
      else case (fo, pagecache_demo_folio_identity fo) of
        (Some f, Some (ino, dev, kind)) \<Rightarrow>
          [RawLine name
             [''ts'', ''dev major'', ''dev minor'', ''ino'', ''type'', ''index'', ''pages'', ''pid'', ''tgid'']
             [tw (ie_clk env 0), tw (fst (dev_numbers dev)), tw (snd (dev_numbers dev)), tw ino, tw kind,
              tw (fo_index (cf_folio f)), tw (folio_pages f), TZ (ie_pid env), TZ (ie_tgid env)]]
      | _ \<Rightarrow> [])"

definition tp_pagecache_demo_delete_cb ::
  "(u32 \<Rightarrow> u32 \<times> u32) \<Rightarrow> io_env \<Rightarrow> cached_folio option \<Rightarrow> pagecache_demo \<Rightarrow> raw_line list" where
  "tp_pagecache_demo_delete_cb dev_numbers env f p = folio_line ''pc_delete'' dev_numbers env f p"

definition tp_pagecache_demo_refault_cb ::
  "(u32 \<Rightarrow> u32 \<times> u32) \<Rightarrow> io_env \<Rightarrow> cached_folio option \<Rightarrow> pagecache_demo \<Rightarrow> raw_line list" where
  "tp_pagecache_demo_refault_cb dev_numbers env f p = folio_line ''pc_refault'' dev_numbers env f p"

section \<open>The budget\<close>

text \<open>
  The scan: the entry of the user and inode, or the first free one, or the one with the oldest
  window.
\<close>

fun budget_scan :: "u32 \<Rightarrow> u64 \<Rightarrow> nat \<Rightarrow> nat option \<Rightarrow> u64 \<Rightarrow> nat option \<Rightarrow> inode_budget list \<Rightarrow> nat option" where
  "budget_scan uid inode_hash i budget oldest_ns oldest [] = (if budget \<noteq> None then budget else oldest)"
| "budget_scan uid inode_hash i budget oldest_ns oldest (e # es) =
     (if ib_uid e = uid \<and> ib_inode_hash e = inode_hash then Some i
      else if ib_uid e = 0 then
        budget_scan uid inode_hash (i + 1) (if budget = None then Some i else budget) oldest_ns oldest es
      else if ib_window_start_ns e < oldest_ns then
        budget_scan uid inode_hash (i + 1) budget (ib_window_start_ns e) (Some i) es
      else budget_scan uid inode_hash (i + 1) budget oldest_ns oldest es)"

definition window_over :: "u64 \<Rightarrow> u64 \<Rightarrow> bool" where
  "window_over now start \<longleftrightarrow> start = 0 \<or> now < start \<or> now - start \<ge> pagecache_budget_window_ns"

definition refresh_log_window :: "u64 \<Rightarrow> pagecache_demo \<Rightarrow> pagecache_demo" where
  "refresh_log_window now p =
     (if window_over now (pc_log_window_start p) then p\<lparr>pc_log_window_start := now, pc_log_count := 0\<rparr> else p)"

definition open_budget :: "u32 \<Rightarrow> u64 \<Rightarrow> u64 \<Rightarrow> inode_budget \<Rightarrow> inode_budget" where
  "open_budget uid inode_hash now b =
     (if ib_uid b \<noteq> uid \<or> ib_inode_hash b \<noteq> inode_hash \<or> window_over now (ib_window_start_ns b)
      then \<lparr>ib_uid = uid, ib_inode_hash = inode_hash, ib_window_start_ns = now, ib_used_bytes = 0\<rparr> else b)"

text \<open>Returns whether the bytes are allowed, and whether the action is to be logged.\<close>

definition pagecache_demo_take_budget ::
  "u32 \<Rightarrow> u64 \<Rightarrow> u64 \<Rightarrow> u32 \<Rightarrow> pagecache_demo \<Rightarrow> pagecache_demo \<times> bool \<times> bool" where
  "pagecache_demo_take_budget uid inode_hash now bytes p =
     (if uid = 0 \<or> inode_hash = 0 \<or> bytes = 0 \<or> bytes > pagecache_budget_bytes then (p, False, False)
      else
      (let p = refresh_log_window now p in
       case budget_scan uid inode_hash 0 None u64_max None (pc_budgets p) of
         None \<Rightarrow> (p, False, False)
       | Some i \<Rightarrow>
           (let b = open_budget uid inode_hash now (pc_budgets p ! i);
                allowed = (ib_used_bytes b \<le> pagecache_budget_bytes - bytes);
                b = (if allowed then b\<lparr>ib_used_bytes := ib_used_bytes b + bytes\<rparr> else b);
                p = p\<lparr>pc_budgets := (pc_budgets p)[i := b]\<rparr>;
                log_action = (allowed \<and> pc_log_count p < pagecache_log_budget);
                p = (if log_action then p\<lparr>pc_log_count := pc_log_count p + 1\<rparr> else p)
            in (p, allowed, log_action))))"

section \<open>Reclaim\<close>

text \<open>
  The hook of the reclaim: the demo's state, the table of hot inodes, the value written to
  \<open>activate\<close> (which may be missing), and the lines.
\<close>

definition tp_pagecache_demo_shrink_cb ::
  "(u32 \<Rightarrow> u32 \<times> u32) \<Rightarrow> io_env \<Rightarrow> sys_ctx \<Rightarrow> bool \<Rightarrow> cached_folio option \<Rightarrow> bool \<Rightarrow> bool \<Rightarrow> bool option
   \<Rightarrow> pagecache_demo \<times> hot_inode_entry list \<Rightarrow> (pagecache_demo \<times> hot_inode_entry list) \<times> bool option \<times> raw_line list" where
  "tp_pagecache_demo_shrink_cb dev_numbers env c raw fo dirty writeback activate s =
     (case s of (p, hot) \<Rightarrow>
      case fo of
        None \<Rightarrow> (s, activate, [])
      | Some f \<Rightarrow>
        if \<not> pc_on p \<or> dirty \<or> writeback \<or> activate = None then (s, activate, [])
        else
        (let now = ie_clk env 0;
             pages = tw (folio_pages f);
             seen = (case pagecache_demo_folio_identity fo of
                 Some (ino, dev, kind) \<Rightarrow>
                   if pc_observe_on p
                   then [RawLine ''pc_shrink''
                           [''ts'', ''dev major'', ''dev minor'', ''ino'', ''type'', ''index'', ''pages'', ''dirty'', ''writeback'',
                            ''pid'', ''tgid'']
                           [tw now, tw (fst (dev_numbers dev)), tw (snd (dev_numbers dev)), tw ino, tw kind,
                            tw (fo_index (cf_folio f)), pages, tb dirty, tb writeback, TZ (ie_pid env), TZ (ie_tgid env)]]
                   else []
               | None \<Rightarrow> []);
             inode_hash = pagecache_demo_inode_hash fo;
             fg = word_of_int (smart_io_get_fg_uid c) in
         case smart_io_hot_inode_ext inode_hash (ie_clk env 1) hot of (hot, ext) \<Rightarrow>
           if ext = SMART_IO_FILE_EXT_UNKNOWN then ((p, hot), activate, seen)
           else
           (case pagecache_demo_take_budget fg inode_hash now (ucast (min (cf_size f) (ucast u32_max))) p of
              (p, allowed, log_action) \<Rightarrow>
                if \<not> allowed then ((p, hot), activate, seen)
                else ((p, hot), Some True, seen @
                  (if log_action \<and> raw
                   then [RawLine ''pc_activate'' [''ts'', ''inode_hash'', ''file_ext'', ''index'', ''pages'', ''budget_pages'', ''ttl_ms'']
                           [tw now, tw inode_hash, TN (file_ext_code ext), tw (fo_index (cf_folio f)), pages,
                            tw (drop_bit (ie_page_shift env) pagecache_budget_bytes), TN 500]]
                   else [])))))"

section \<open>Switches\<close>

definition smart_io_pagecache_demo_set_enabled :: "bool \<Rightarrow> pagecache_demo \<Rightarrow> pagecache_demo" where
  "smart_io_pagecache_demo_set_enabled enabled p =
     (let p = p\<lparr>pc_on := enabled\<rparr>
      in if \<not> enabled
         then p\<lparr>pc_log_window_start := 0, pc_budgets := replicate pagecache_budget_inodes zero_budget, pc_log_count := 0\<rparr>
         else p)"

definition smart_io_pagecache_demo_enabled :: "pagecache_demo \<Rightarrow> bool" where
  "smart_io_pagecache_demo_enabled p = pc_on p"

definition smart_io_pagecache_demo_set_observe :: "bool \<Rightarrow> pagecache_demo \<Rightarrow> pagecache_demo" where
  "smart_io_pagecache_demo_set_observe enabled p = p\<lparr>pc_observe_on := enabled\<rparr>"

definition smart_io_pagecache_demo_observe_enabled :: "pagecache_demo \<Rightarrow> bool" where
  "smart_io_pagecache_demo_observe_enabled p = pc_observe_on p"

section \<open>The budget is kept\<close>

definition pagecache_ok :: "pagecache_demo \<Rightarrow> bool" where
  "pagecache_ok p \<longleftrightarrow> length (pc_budgets p) = pagecache_budget_inodes \<and>
     (\<forall>b \<in> set (pc_budgets p). ib_used_bytes b \<le> pagecache_budget_bytes) \<and> pc_log_count p \<le> pagecache_log_budget"

lemma scan_in_range:
  "budget_scan uid h i budget ons oldest es = Some k \<Longrightarrow>
    (\<forall>j. budget = Some j \<longrightarrow> j < n) \<Longrightarrow> (\<forall>j. oldest = Some j \<longrightarrow> j < n) \<Longrightarrow> i + length es \<le> n \<Longrightarrow> k < n"
proof (induction es arbitrary: i budget ons oldest)
  case Nil
  then show ?case by (auto split: if_splits)
next
  case (Cons e es)
  then show ?case using Cons.prems(4) by (auto split: if_splits intro!: Cons.IH)
qed

lemma budget_room: "(b :: u32) \<le> B \<Longrightarrow> u \<le> B - b \<Longrightarrow> u + b \<le> B"
  by (simp add: word_le_nat_alt unat_sub unat_word_ariths)

lemma refresh_ok: "pagecache_ok p \<Longrightarrow> pagecache_ok (refresh_log_window now p)"
  by (simp add: refresh_log_window_def pagecache_ok_def)

lemma take_budget_ok: "pagecache_ok p \<Longrightarrow> pagecache_ok (fst (pagecache_demo_take_budget uid h now bytes p))"
proof -
  assume ok: "pagecache_ok p"
  define p1 where "p1 = refresh_log_window now p"
  have ok1: "pagecache_ok p1" using refresh_ok [OF ok] by (simp add: p1_def)
  show ?thesis
  proof (cases "(uid = 0 \<or> h = 0 \<or> bytes = 0 \<or> bytes > pagecache_budget_bytes) \<or>
      budget_scan uid h 0 None u64_max None (pc_budgets p1) = None")
    case True
    then show ?thesis using ok ok1 by (auto simp: pagecache_demo_take_budget_def simp flip: p1_def)
  next
    case False
    then obtain i where i: "budget_scan uid h 0 None u64_max None (pc_budgets p1) = Some i" by auto
    have len: "i < length (pc_budgets p1)" by (rule scan_in_range [OF i]) simp_all
    define b where "b = open_budget uid h now (pc_budgets p1 ! i)"
    define c where "c = (if ib_used_bytes b \<le> pagecache_budget_bytes - bytes then b\<lparr>ib_used_bytes := ib_used_bytes b + bytes\<rparr> else b)"
    have "ib_used_bytes b \<le> pagecache_budget_bytes"
      using ok1 len nth_mem [OF len] by (auto simp: b_def open_budget_def pagecache_ok_def)
    then have "ib_used_bytes c \<le> pagecache_budget_bytes"
      using False by (auto simp: c_def intro!: budget_room)
    then have "\<forall>x \<in> set ((pc_budgets p1)[i := c]). ib_used_bytes x \<le> pagecache_budget_bytes"
      using ok1 set_update_subset_insert [of "pc_budgets p1" i c] by (auto simp: pagecache_ok_def)
    moreover have "pc_log_count p1 < pagecache_log_budget \<Longrightarrow> pc_log_count p1 + 1 \<le> pagecache_log_budget"
      by (rule inc_le)
    ultimately show ?thesis
      using False i ok1
      by (cases "ib_used_bytes b \<le> pagecache_budget_bytes - bytes")
        (simp_all add: pagecache_demo_take_budget_def Let_def pagecache_ok_def c_def flip: p1_def b_def)
  qed
qed

text \<open>What an allowed call guarantees.\<close>

lemma take_budget_allowed:
  "pagecache_demo_take_budget uid h now bytes p = (p', True, l) \<Longrightarrow>
    uid \<noteq> 0 \<and> h \<noteq> 0 \<and> bytes \<noteq> 0 \<and> bytes \<le> pagecache_budget_bytes"
  by (auto simp: pagecache_demo_take_budget_def Let_def split: if_splits option.splits)



text \<open>A page of a package file that was marked hot at the time of the reclaim.\<close>

definition demo_cached :: cached_folio where
  "demo_cached = \<lparr>cf_folio = \<lparr>fo_index = 3, fo_mapping = Some (Some \<lparr>in_sb = Some \<lparr>sb_dev = 1, sb_type_name = Some ''ext4''\<rparr>,
       in_rdev = 0, in_private = False, in_blkdev = False, in_chrdev = False, in_ino = 99, in_dentries = [],
       in_alias_path = None\<rparr>), fo_swapcache = False, fo_anon = False\<rparr>, cf_nr_pages = 1, cf_size = 4096, cf_uptodate = True\<rparr>"

definition demo_hot :: "hot_inode_entry list" where
  "demo_hot = smart_io_mark_hot_inode (pagecache_demo_inode_hash (Some demo_cached)) SMART_IO_FILE_EXT_APK 5000 (replicate 64 zero_hot)"

definition demo_reclaim :: "(pagecache_demo \<times> hot_inode_entry list) \<times> bool option \<times> raw_line list" where
  "demo_reclaim = tp_pagecache_demo_shrink_cb (\<lambda>_. (0, 1)) demo_io_env (sys_ctx_initial\<lparr>sc_fg_uid := 10001\<rparr>) False (Some demo_cached)
     False False (Some False) (pagecache_demo_initial\<lparr>pc_on := True\<rparr>, demo_hot)"

lemma demo_reclaim_activates: "fst (snd demo_reclaim) = Some True"
  by code_simp


end
