(* ===== verification/Procfs.thy ===== *)
theory Procfs
  imports Text_Io Throttle_Config Pagecache
begin

text \<open>
  \<open>procfs_export.c\<close>: the files under /proc/smart_io_sched.  A write takes the text of the user, a read
  gives the text printed; the state is that of all the parts the files reach.  A flag that several
  parts read (\<open>rawdata_trace_enabled\<close>) is a field of each of them, and a write sets them together.
\<close>

section \<open>State\<close>

record smart_io_module =
  sm_globals :: throttle_globals
  sm_model_thread :: model_thread
  sm_queues :: "throttle_ctx list"
  sm_context :: sys_ctx
  sm_dirtyrate :: dirtyrate
  sm_recorder :: recorder
  sm_pagecache :: pagecache_demo
  sm_trace :: trace_state

datatype proc_effect =
    ThrottleEffect effect | ContextEffect ctx_effect | LimiterEffect dr_effect | TraceEffect trace_effect

text \<open>
  What a write finds around it: whether the text can be copied, the clock, the library of the
  limiter, the result of creating the model thread, and the tracing instance found.
\<close>

record proc_env =
  pe_copied :: bool
  pe_now :: u64
  pe_lib :: dirtyrate_lib
  pe_kthread :: "errno option"
  pe_instance :: "nat option \<times> bool"

type_synonym proc_write = "proc_env \<Rightarrow> string \<Rightarrow> smart_io_module \<Rightarrow> smart_io_module \<times> (errno + nat) \<times> proc_effect list"
type_synonym proc_show = "smart_io_module \<Rightarrow> string"

definition set_raw :: "bool \<Rightarrow> smart_io_module \<Rightarrow> smart_io_module" where
  "set_raw on s =
     s\<lparr>sm_recorder := (sm_recorder s)\<lparr>rc_raw := on\<rparr>, sm_trace := (sm_trace s)\<lparr>ts_raw := on\<rparr>,
       sm_globals := (sm_globals s)\<lparr>g_rawdata_trace_enabled := of_bool on\<rparr>\<rparr>"

definition log_line :: "proc_env \<Rightarrow> string \<Rightarrow> smart_io_module \<Rightarrow> smart_io_module \<times> proc_effect list" where
  "log_line E text s =
     (case smart_io_trace_log (fst (pe_instance E)) (snd (pe_instance E)) (RawLine text [] []) (sm_trace s) of
        (t, es) \<Rightarrow> (s\<lparr>sm_trace := t\<rparr>, map TraceEffect es))"

section \<open>The text of the user\<close>

text \<open>The buffer takes one character less than its size; a string ends at its first zero character.\<close>

definition user_text :: "nat \<Rightarrow> errno \<Rightarrow> proc_env \<Rightarrow> string \<Rightarrow> errno + string" where
  "user_text buf_size too_long E ub =
     (if length ub > buf_size - 1 then Inl too_long
      else if \<not> pe_copied E then Inl EFAULT
      else Inr (strstrip (takeWhile (\<lambda>c. c \<noteq> CHR 0x00) ub)))"

definition proc_parse_int :: "proc_env \<Rightarrow> string \<Rightarrow> errno + int" where
  "proc_parse_int E ub = (case user_text 32 E2BIG E ub of Inl e \<Rightarrow> Inl e | Inr buf \<Rightarrow> kstrtoint buf)"

definition proc_parse_u32 :: "proc_env \<Rightarrow> string \<Rightarrow> errno + u32" where
  "proc_parse_u32 E ub = (case user_text 32 E2BIG E ub of Inl e \<Rightarrow> Inl e | Inr buf \<Rightarrow> kstrtou32 buf)"

definition proc_parse_u64 :: "proc_env \<Rightarrow> string \<Rightarrow> errno + u64" where
  "proc_parse_u64 E ub = (case user_text 32 E2BIG E ub of Inl e \<Rightarrow> Inl e | Inr buf \<Rightarrow> kstrtou64 buf)"

text \<open>A switch takes the numbers 0 and 1 only.\<close>

definition proc_parse_switch :: "proc_env \<Rightarrow> string \<Rightarrow> errno + bool" where
  "proc_parse_switch E ub =
     (case proc_parse_int E ub of
        Inl e \<Rightarrow> Inl e
      | Inr v \<Rightarrow> if v \<noteq> 0 \<and> v \<noteq> 1 then Inl EINVAL else Inr (v \<noteq> 0))"

text \<open>A write that parses a value and stores it in the state.\<close>

definition store_value ::
  "(proc_env \<Rightarrow> string \<Rightarrow> errno + 'v) \<Rightarrow> (proc_env \<Rightarrow> 'v \<Rightarrow> smart_io_module \<Rightarrow> smart_io_module \<times> errno option \<times> proc_effect list)
   \<Rightarrow> proc_write" where
  "store_value parse store E ub s =
     (case parse E ub of
        Inl e \<Rightarrow> (s, Inl e, [])
      | Inr v \<Rightarrow>
          (case store E v s of
             (s, Some e, es) \<Rightarrow> (s, Inl e, es)
           | (s, None, es) \<Rightarrow> (s, Inr (length ub), es)))"

definition on_globals :: "(throttle_globals \<Rightarrow> throttle_globals \<times> errno option) \<Rightarrow> smart_io_module \<Rightarrow> smart_io_module \<times> errno option \<times> proc_effect list" where
  "on_globals f s = (case f (sm_globals s) of (g, e) \<Rightarrow> (s\<lparr>sm_globals := g\<rparr>, e, []))"

definition show_switch :: "bool \<Rightarrow> string" where "show_switch b = line_of (dec (of_bool b))"
definition show_word :: "'a :: len word \<Rightarrow> string" where "show_word w = line_of (dec (unat w))"
definition show_int :: "int \<Rightarrow> string" where "show_int i = line_of (dec_int i)"

section \<open>Capture\<close>

definition enable_write :: proc_write where
  "enable_write E ub s =
     (case user_text 8 EINVAL E ub of
        Inl e \<Rightarrow> (s, Inl e, [])
      | Inr buf \<Rightarrow>
          (case kstrtoint buf of
             Inl _ \<Rightarrow> (s, Inr (length ub), [])
           | Inr val \<Rightarrow>
               (let r = sm_recorder s;
                    r = r\<lparr>rc_enabled := (val \<noteq> 0), rc_policy := (rc_policy r)\<lparr>po_enabled := (val \<noteq> 0)\<rparr>\<rparr>;
                    r = (if val = 0 then smart_io_clear_remap_state r else r)
                in case log_line E (if val \<noteq> 0 then ''========== smart_io is enabled! ==========''
                                    else ''========== smart_io is disabled! =========='') (s\<lparr>sm_recorder := r\<rparr>) of
                     (s, es) \<Rightarrow> (s, Inr (length ub), es))))"

definition enable_show :: proc_show where "enable_show s = show_switch (rc_enabled (sm_recorder s))"

text \<open>A rejected policy is only logged.\<close>

definition policy_write :: proc_write where
  "policy_write E ub s =
     (case user_text 64 EINVAL E ub of
        Inl e \<Rightarrow> (s, Inl e, [])
      | Inr buf \<Rightarrow>
          (case scan_u32 buf of
             None \<Rightarrow> (s, Inr (length ub), [])
           | Some (rate, buf) \<Rightarrow>
          (case scan_int buf of
             None \<Rightarrow> (s, Inr (length ub), [])
           | Some (uid, buf) \<Rightarrow>
          (case scan_int buf of
             None \<Rightarrow> (s, Inr (length ub), [])
           | Some (sync_only, buf) \<Rightarrow>
          (case scan_int buf of
             None \<Rightarrow> (s, Inr (length ub), [])
           | Some (scene_mask, _) \<Rightarrow>
               (s\<lparr>sm_recorder := (sm_recorder s)\<lparr>rc_policy :=
                    fst (smart_io_policy_set rate uid (sync_only \<noteq> 0) (word_of_int scene_mask) (rc_policy (sm_recorder s)))\<rparr>\<rparr>,
                Inr (length ub), []))))))"

section \<open>The limiter\<close>

definition dirtyrate_enable_write :: proc_write where
  "dirtyrate_enable_write = store_value proc_parse_switch (\<lambda>E on s.
     case smart_io_dirtyrate_set_enabled (pe_lib E) (pe_now E) on (sm_dirtyrate s) of
       (d, es) \<Rightarrow> (s\<lparr>sm_dirtyrate := d\<rparr>, None, map LimiterEffect es))"

definition dirtyrate_enable_show :: proc_show where
  "dirtyrate_enable_show s = show_switch (smart_io_dirtyrate_get_enabled (sm_dirtyrate s))"

definition dirtyrate_wkbps_write :: proc_write where
  "dirtyrate_wkbps_write = store_value proc_parse_u64 (\<lambda>E v s.
     case smart_io_dirtyrate_set_wkbps (pe_lib E) (pe_now E) v (sm_dirtyrate s) of
       (d, e, es) \<Rightarrow> (s\<lparr>sm_dirtyrate := d\<rparr>, e, map LimiterEffect es))"

definition dirtyrate_wkbps_show :: proc_show where
  "dirtyrate_wkbps_show s = show_word (smart_io_dirtyrate_get_wkbps (sm_dirtyrate s))"

section \<open>The foreground context\<close>

definition fg_uid_write :: proc_write where
  "fg_uid_write = store_value proc_parse_int (\<lambda>E v s.
     case smart_io_set_fg_uid (word_of_int v) (sm_context s, sm_dirtyrate s) of
       ((c, d), es) \<Rightarrow> (s\<lparr>sm_context := c, sm_dirtyrate := d\<rparr>, None, map ContextEffect es))"

definition fg_uid_show :: proc_show where "fg_uid_show s = show_int (smart_io_get_fg_uid (sm_context s))"

definition fg_main_pid_write :: proc_write where
  "fg_main_pid_write = store_value proc_parse_int (\<lambda>E v s.
     case smart_io_set_fg_main_pid (rc_raw (sm_recorder s)) (pe_now E) (word_of_int v) (sm_context s) of
       (c, es) \<Rightarrow> (s\<lparr>sm_context := c\<rparr>, None, map ContextEffect es))"

definition fg_main_pid_show :: proc_show where "fg_main_pid_show s = show_int (smart_io_get_fg_main_pid (sm_context s))"

definition scene_tag_write :: proc_write where
  "scene_tag_write = store_value proc_parse_u32 (\<lambda>E v s. (s\<lparr>sm_context := smart_io_set_scene_tag v (sm_context s)\<rparr>, None, []))"

section \<open>The throttle\<close>

definition ux_hp_enable_write :: proc_write where
  "ux_hp_enable_write = store_value proc_parse_switch (\<lambda>E on. on_globals (smart_io_throttle_set_ux_hp_enable on))"

definition ux_hp_enable_show :: proc_show where
  "ux_hp_enable_show s = show_switch (smart_io_throttle_get_ux_hp_enable (sm_globals s))"

definition rt_read_hp_enable_write :: proc_write where
  "rt_read_hp_enable_write = store_value proc_parse_switch (\<lambda>E on. on_globals (smart_io_throttle_set_rt_read_hp_enable on))"

definition rt_read_hp_enable_show :: proc_show where
  "rt_read_hp_enable_show s = show_switch (smart_io_throttle_get_rt_read_hp_enable (sm_globals s))"

definition throttle_enable_write :: proc_write where
  "throttle_enable_write = store_value proc_parse_switch (\<lambda>E on s.
     case smart_io_throttle_set_enabled on (pe_now E) (sm_globals s) (sm_queues s) of
       (g, cs, es) \<Rightarrow> (s\<lparr>sm_globals := g, sm_queues := cs\<rparr>, None, map ThrottleEffect es))"

definition throttle_enable_show :: proc_show where
  "throttle_enable_show s = show_switch (smart_io_throttle_get_enabled (sm_globals s))"

definition queue_rq_throttle_demo_write :: proc_write where
  "queue_rq_throttle_demo_write = store_value proc_parse_switch (\<lambda>E on. on_globals (smart_io_throttle_set_queue_rq_demo on))"

definition queue_rq_throttle_demo_show :: proc_show where
  "queue_rq_throttle_demo_show s = show_switch (smart_io_throttle_get_queue_rq_demo (sm_globals s))"

definition parse_ratios :: "proc_env \<Rightarrow> string \<Rightarrow> errno + (u32 \<times> u32 \<times> u32)" where
  "parse_ratios E ub =
     (case user_text 32 E2BIG E ub of
        Inl e \<Rightarrow> Inl e
      | Inr buf \<Rightarrow>
          (case scan_u32 buf of None \<Rightarrow> Inl EINVAL | Some (light_pct, buf) \<Rightarrow>
          (case scan_u32 buf of None \<Rightarrow> Inl EINVAL | Some (medium_pct, buf) \<Rightarrow>
          (case scan_u32 buf of None \<Rightarrow> Inl EINVAL | Some (heavy_pct, _) \<Rightarrow> Inr (light_pct, medium_pct, heavy_pct)))))"

definition throttle_ratios_write :: proc_write where
  "throttle_ratios_write = store_value parse_ratios (\<lambda>E (l, m, h). on_globals (smart_io_throttle_set_ratios l m h))"

definition throttle_ratios_show :: proc_show where
  "throttle_ratios_show s =
     (case smart_io_throttle_get_ratios (sm_globals s) of
        (l, m, h) \<Rightarrow> line_of (dec (unat l) @ [CHR '' ''] @ dec (unat m) @ [CHR '' ''] @ dec (unat h)))"

definition parse_action_source :: "proc_env \<Rightarrow> string \<Rightarrow> errno + c_enum" where
  "parse_action_source E ub =
     (case user_text 16 E2BIG E ub of
        Inl e \<Rightarrow> Inl e
      | Inr buf \<Rightarrow>
          if buf = ''fixed'' then Inr SMART_IO_ACTION_SOURCE_FIXED
          else if buf = ''model'' then Inr SMART_IO_ACTION_SOURCE_MODEL
          else Inl EINVAL)"

definition action_source_write :: proc_write where
  "action_source_write = store_value parse_action_source (\<lambda>E src s.
     case smart_io_throttle_set_action_source (pe_kthread E) src (sm_globals s, sm_model_thread s) of
       ((g, mt), e) \<Rightarrow> (s\<lparr>sm_globals := g, sm_model_thread := mt\<rparr>, e, []))"

definition action_source_show :: proc_show where
  "action_source_show s = line_of (smart_io_action_source_name (smart_io_throttle_get_action_source (sm_globals s)))"

definition fixed_action_parse_level :: "string \<Rightarrow> errno + c_enum" where
  "fixed_action_parse_level name =
     (if name = ''NO'' then Inr SMART_IO_THROTTLE_NO
      else if name = ''LIGHT'' then Inr SMART_IO_THROTTLE_LIGHT
      else if name = ''MEDIUM'' then Inr SMART_IO_THROTTLE_MEDIUM
      else if name = ''HEAVY'' then Inr SMART_IO_THROTTLE_HEAVY
      else Inl EINVAL)"

definition fixed_action_parse_policy :: "string \<Rightarrow> errno + c_enum" where
  "fixed_action_parse_policy name =
     (if name = ''BASELINE'' then Inr SMART_IO_DISPATCH_BASELINE
      else if name = ''SEQ'' then Inr SMART_IO_DISPATCH_SEQ
      else if name = ''SMALL'' then Inr SMART_IO_DISPATCH_SMALL
      else Inl EINVAL)"

definition parse_fixed_action :: "proc_env \<Rightarrow> string \<Rightarrow> errno + (c_enum \<times> c_enum)" where
  "parse_fixed_action E ub =
     (case user_text 32 E2BIG E ub of
        Inl e \<Rightarrow> Inl e
      | Inr buf \<Rightarrow>
          (case scan_word 7 buf of None \<Rightarrow> Inl EINVAL | Some (level_name, buf) \<Rightarrow>
          (case scan_word 11 buf of None \<Rightarrow> Inl EINVAL | Some (policy_name, _) \<Rightarrow>
          (case fixed_action_parse_level level_name of Inl e \<Rightarrow> Inl e | Inr level \<Rightarrow>
          (case fixed_action_parse_policy policy_name of Inl e \<Rightarrow> Inl e | Inr policy \<Rightarrow> Inr (level, policy))))))"

definition fixed_action_write :: proc_write where
  "fixed_action_write = store_value parse_fixed_action (\<lambda>E (l, p). on_globals (smart_io_throttle_set_fixed_action l p))"

definition fixed_action_show :: proc_show where
  "fixed_action_show s =
     (case smart_io_throttle_get_fixed_action (sm_globals s) of
        (l, p) \<Rightarrow> line_of (smart_io_throttle_level_name l @ [CHR '' ''] @ smart_io_dispatch_policy_name p))"

definition dev_lat_write :: proc_write where
  "dev_lat_write = store_value proc_parse_u32 (\<lambda>E v. on_globals (smart_io_throttle_set_dev_lat_threshold v))"

definition dev_lat_show :: proc_show where
  "dev_lat_show s = show_word (smart_io_throttle_get_dev_lat_threshold (sm_globals s))"

definition background_deadline_write :: proc_write where
  "background_deadline_write = store_value proc_parse_u32 (\<lambda>E v. on_globals (smart_io_throttle_set_background_deadline_ms v))"

definition background_deadline_show :: proc_show where
  "background_deadline_show s = show_word (smart_io_throttle_get_background_deadline_ms (sm_globals s))"

section \<open>The recorder\<close>

text \<open>Two unsigned values are printed with a signed conversion.\<close>

definition loadavg_1m_x100_write :: proc_write where
  "loadavg_1m_x100_write = store_value proc_parse_u32 (\<lambda>E v s. (s\<lparr>sm_recorder := set_loadavg_1m_x100 v (sm_recorder s)\<rparr>, None, []))"

definition render_avg_lat_write :: proc_write where
  "render_avg_lat_write = store_value proc_parse_u32 (\<lambda>E v s. (s\<lparr>sm_recorder := set_render_avg_lat v (sm_recorder s)\<rparr>, None, []))"

definition render_avg_lat_show :: proc_show where "render_avg_lat_show s = show_int (sint (get_render_avg_lat (sm_recorder s)))"

definition jank_write :: proc_write where
  "jank_write = store_value proc_parse_u32 (\<lambda>E v s. (s\<lparr>sm_recorder := set_jank_cnt v (sm_recorder s)\<rparr>, None, []))"

definition jank_show :: proc_show where "jank_show s = show_int (sint (get_jank_cnt (sm_recorder s)))"

definition window_sz_ms_write :: proc_write where
  "window_sz_ms_write = store_value proc_parse_u32 (\<lambda>E v s. (s\<lparr>sm_recorder := set_window_sz_ms v (sm_recorder s)\<rparr>, None, []))"

definition window_sz_ms_show :: proc_show where "window_sz_ms_show s = show_word (get_window_sz_ms (sm_recorder s))"

section \<open>Tracing\<close>

definition rawdata_trace_write :: proc_write where
  "rawdata_trace_write E ub s =
     (case user_text 8 EINVAL E ub of
        Inl e \<Rightarrow> (s, Inl e, [])
      | Inr buf \<Rightarrow>
          (case kstrtoint buf of
             Inl _ \<Rightarrow> (s, Inr (length ub), [])
           | Inr val \<Rightarrow>
               (case log_line E (if val \<noteq> 0 then ''========== raw trace enabled! =========='' else ''========== raw trace disabled! =========='')
                       (set_raw (val \<noteq> 0) s) of
                  (s, es) \<Rightarrow> (s, Inr (length ub), es))))"

definition rawdata_trace_show :: proc_show where "rawdata_trace_show s = show_switch (rc_raw (sm_recorder s))"

definition debug_write :: proc_write where
  "debug_write E ub s =
     (case user_text 8 EINVAL E ub of
        Inl e \<Rightarrow> (s, Inl e, [])
      | Inr buf \<Rightarrow>
          (case kstrtoint buf of
             Inl _ \<Rightarrow> (s, Inr (length ub), [])
           | Inr val \<Rightarrow> (set_raw (val \<noteq> 0) (s\<lparr>sm_trace := (sm_trace s)\<lparr>ts_debug := (val \<noteq> 0)\<rparr>\<rparr>), Inr (length ub), [])))"

definition debug_show :: proc_show where "debug_show s = show_switch (ts_debug (sm_trace s))"

section \<open>The page-cache demo\<close>

definition parse_demo :: "proc_env \<Rightarrow> string \<Rightarrow> errno + bool" where
  "parse_demo E ub =
     (case user_text 8 EINVAL E ub of
        Inl e \<Rightarrow> Inl e
      | Inr buf \<Rightarrow> (case kstrtoint buf of Inl _ \<Rightarrow> Inl EINVAL | Inr val \<Rightarrow> Inr (val \<noteq> 0)))"

definition pagecache_demo_write :: proc_write where
  "pagecache_demo_write = store_value parse_demo (\<lambda>E on s.
     (s\<lparr>sm_pagecache := smart_io_pagecache_demo_set_enabled on (sm_pagecache s)\<rparr>, None, []))"

definition pagecache_demo_show :: proc_show where
  "pagecache_demo_show s = show_switch (smart_io_pagecache_demo_enabled (sm_pagecache s))"

definition pagecache_demo_observe_write :: proc_write where
  "pagecache_demo_observe_write = store_value parse_demo (\<lambda>E on s.
     (s\<lparr>sm_pagecache := smart_io_pagecache_demo_set_observe on (sm_pagecache s)\<rparr>, None, []))"

definition pagecache_demo_observe_show :: proc_show where
  "pagecache_demo_observe_show s = show_switch (smart_io_pagecache_demo_observe_enabled (sm_pagecache s))"

end
