(* ===== verification/Procfs_Nodes.thy ===== *)
theory Procfs_Nodes
  imports Procfs
begin

text \<open>
  The table of the files of \<open>procfs_export.c\<close>, the two files that only print, and the creation and
  removal of the directory.  A line printed in one call is a list of labelled values.
\<close>

section \<open>Statistics\<close>

definition io_stats_fields :: "nat list \<Rightarrow> recorder \<Rightarrow> (string \<times> tval) list" where
  "io_stats_fields online r =
     (if \<not> rc_enabled r then [(''disabled'', TS [])]
      else case smart_io_get_io_stats online r of
        (ins, iss, cmp, wait, flight, lost_cmp) \<Rightarrow>
          [(''insert'', tw ins), (''issue'', tw iss), (''complete'', tw cmp), (''waiting'', tw wait),
           (''in_flight'', tw flight), (''lost_complete'', tw lost_cmp)])"

definition throttle_fields :: "throttle_stats \<Rightarrow> (string \<times> tval) list" where
  "throttle_fields t =
     [(''enabled'', tb (s_enabled t)), (''active'', tb (s_active t)), (''inference_pending'', tb (s_inference_pending t)),
      (''action_valid'', tb (s_action_valid t)), (''source'', TS (smart_io_action_source_name (s_action_source t))),
      (''session_id'', tw (s_session_id t)), (''control_id'', tw (s_control_id t)), (''decision_id'', tw (s_decision_id t)),
      (''level'', TS (smart_io_throttle_level_name (s_level t))), (''policy'', TS (smart_io_dispatch_policy_name (s_policy t))),
      (''ratios light'', tw (s_light_pct t)), (''ratios medium'', tw (s_medium_pct t)), (''ratios heavy'', tw (s_heavy_pct t)),
      (''resolved_ratio'', tw (s_resolved_ratio_pct t)), (''queue_max'', tw (s_queue_max t)),
      (''target_depth'', tw (s_target_depth t)), (''current_depth'', tw (s_current_depth t)),
      (''bg_current_depth'', tw (s_bg_current_depth t)), (''reserved_depth'', tw (s_current_depth t)),
      (''issued_depth'', tw (s_issued_depth t)), (''metadata capacity'', tw (s_meta_capacity t)),
      (''metadata inuse'', tw (s_meta_inuse t)), (''pending fg'', tw (s_fg_pending t)), (''pending bg'', tw (s_bg_pending t)),
      (''gate'', TS (smart_io_gate_reason_name (s_gate_reason t))),
      (''feedback'', TS (smart_io_feedback_state_name (s_feedback_state t))), (''feedback_rq_id'', tw (s_feedback_rq_id t)),
      (''feedback_samples count'', tw (s_feedback_vote_count t)),
      (''feedback_samples mean_dev_lat_us'', tw (s_feedback_mean_dev_lat_us t)),
      (''feedback_samples max_dev_lat_us'', tw (s_feedback_max_dev_lat_us t)), (''threshold_us'', tw (s_dev_lat_threshold_us t)),
      (''background_deadline_ms'', tw (s_background_deadline_ms t)), (''deadline_forced_active'', tb (s_deadline_forced_active t))]"

definition throttle_count_fields :: "throttle_stats \<Rightarrow> (string \<times> tval) list" where
  "throttle_count_fields t =
     [(''queues'', tw (s_active_queues t)), (''inference'', tw (s_inference_count t)), (''timeout'', tw (s_timeout_count t)),
      (''invalid'', tw (s_invalid_result_count t)), (''dispatched fg'', tw (s_fg_dispatched t)),
      (''dispatched bg'', tw (s_bg_dispatched t)), (''bg_blocked'', tw (s_bg_blocked t)),
      (''bg_deadline_forced'', tw (s_bg_deadline_forced t)), (''selection baseline'', tw (s_baseline_hits t)),
      (''selection seq'', tw (s_seq_hits t)), (''selection seq_fallback'', tw (s_seq_fallbacks t)),
      (''selection small'', tw (s_small_hits t)), (''depth_anomalies'', tw (s_depth_anomalies t)),
      (''feedback_rebind'', tw (s_feedback_rebind_count t)), (''allocation_failures'', tw (s_allocation_failures t))]"

text \<open>\<open>online\<close>: the processors that are online.\<close>

definition stats_show :: "nat list \<Rightarrow> smart_io_module \<Rightarrow> (string \<times> tval) list list" where
  "stats_show online s =
     (let t = smart_io_throttle_get_stats (sm_globals s) (sm_queues s)
      in [io_stats_fields online (sm_recorder s), throttle_fields t, throttle_count_fields t])"

definition event_show :: "smart_io_module \<Rightarrow> (string \<times> tval) list" where
  "event_show s =
     (let e = smart_io_read_latest_event (sm_recorder s); b = ev_last e in
      [(''ts_insert'', tw (ev_ts_insert e)), (''ts_issue'', tw (ev_ts_issue e)), (''ts_complete'', tw (ev_ts_complete e)),
       (''uid'', tw (ev_uid e)), (''scene_tag'', tw (ev_scene_tag e)), (''is_front'', tb (ev_is_front e)),
       (''thread_role'', TN (thread_role_code (ev_thread_role e))), (''io_op'', TN (io_op_code (ev_io_op e))),
       (''io_sz_kb'', tw (ev_io_size_kb e)), (''sector'', tw (ev_sector e)), (''ioprio'', tw (ev_ioprio_class e)),
       (''file_ext'', TN (file_ext_code (ev_file_ext e))), (''file_ext_s'', TS (ev_file_ext_str e)), (''fs'', TS (ev_fs_type e)),
       (''dev_name'', TS (ev_dev_name e)), (''remap_from'', TS (ev_remap_from e)), (''remap_mixed'', tb (ev_remap_mixed e)),
       (''dev_type'', TN (device_type_code (ev_device_type e))), (''io_inflight'', tw (ev_io_in_flight e)),
       (''queue_sat'', tw (ev_queue_saturate e)), (''cg_io_weight'', tw (ev_cgroup_io_weight e)),
       (''gc'', tb (ev_f2fs_gc_active e)), (''cp'', tb (ev_f2fs_cp_active e)), (''hot_file'', tb (ev_is_hot_file e)),
       (''mem_avail_mb'', tw (ev_mem_avail_mb e)), (''dirty_mb'', tw (ev_dirty_pages_mb e)), (''wb_mb'', tw (ev_wb_pages_mb e)),
       (''swap_mb'', tw (ev_swap_mb e)), (''cpu_loadavg_1m'', tw (ev_cpu_loadavg_1m e)), (''online_cpus'', tw (ev_online_cpus e)),
       (''runqueue'', tw (ev_runqueue_len e)), (''dev_util_pct'', tw (ev_device_util_pct e)), (''io_bw_kbps'', tw (ev_io_bw_kbps e)),
       (''lat_us'', tw (ev_latency_us e)), (''sched_us'', tw (ev_sched_us e)), (''dev_us'', tw (ev_dev_us e)),
       (''sched_pct'', tw (ev_sched_pct e)), (''p50_r_us'', tw (ev_p50_read_lat_us b)), (''p50_w_us'', tw (ev_p50_write_lat_us b)),
       (''p99_r_us'', tw (ev_p99_read_lat_us b)), (''p99_w_us'', tw (ev_p99_write_lat_us b)),
       (''avg_r_us'', tw (ev_avg_read_lat_us b)), (''avg_w_us'', tw (ev_avg_write_lat_us b)),
       (''p50/p99_r'', tw (ev_p50_p99_ratio_r b)), (''p50/p99_w'', tw (ev_p50_p99_ratio_w b)),
       (''reclaim_pages'', tw (ev_reclaim_pages b)), (''sys_psi_io'', tw (ev_sys_psi_io b)), (''blk_bw_util'', tw (ev_blk_bw_util b)),
       (''render_avg_lat'', tw (ev_render_avg_lat b)), (''jank_cnt'', tw (ev_jank_cnt b)),
       (''time_to_first_frame'', tw (ev_time_to_first_frame e)), (''time_to_input_response'', tw (ev_time_to_input_response e)),
       (''cache_hit'', tw (ev_cache_hit b)), (''file_access_pages'', tw (ev_file_access_pages b)),
       (''file_miss_pages'', tw (ev_file_miss_pages b)), (''file_cache_add_pages'', tw (ev_file_cache_add_pages b)),
       (''file_cache_delete_pages'', tw (ev_file_cache_delete_pages b)), (''file_refault_pages'', tw (ev_file_refault_pages b)),
       (''file_fault_count'', tw (ev_file_fault_count b)), (''file_fault_wait_us'', tw (ev_file_fault_wait_us b))])"

section \<open>The files\<close>

record proc_node =
  pn_name :: string
  pn_write :: "proc_write option"
  pn_show :: "proc_show option"
  pn_mode :: nat

text \<open>The modes are 0644, 0200, 0666 and 0400; the files \<open>stats\<close> and \<open>last_event\<close> print the lines above.\<close>

definition proc_nodes :: "proc_node list" where
  "proc_nodes =
     [\<lparr>pn_name = ''dirtyrate_enable'', pn_write = Some dirtyrate_enable_write, pn_show = Some dirtyrate_enable_show, pn_mode = 420\<rparr>,
      \<lparr>pn_name = ''dirtyrate_wkbps'', pn_write = Some dirtyrate_wkbps_write, pn_show = Some dirtyrate_wkbps_show, pn_mode = 420\<rparr>,
      \<lparr>pn_name = ''enable'', pn_write = Some enable_write, pn_show = Some enable_show, pn_mode = 128\<rparr>,
      \<lparr>pn_name = ''policy'', pn_write = Some policy_write, pn_show = None, pn_mode = 128\<rparr>,
      \<lparr>pn_name = ''fg_uid'', pn_write = Some fg_uid_write, pn_show = Some fg_uid_show, pn_mode = 438\<rparr>,
      \<lparr>pn_name = ''fg_main_pid'', pn_write = Some fg_main_pid_write, pn_show = Some fg_main_pid_show, pn_mode = 438\<rparr>,
      \<lparr>pn_name = ''throttle_enable'', pn_write = Some throttle_enable_write, pn_show = Some throttle_enable_show, pn_mode = 420\<rparr>,
      \<lparr>pn_name = ''ux_hp_enable'', pn_write = Some ux_hp_enable_write, pn_show = Some ux_hp_enable_show, pn_mode = 420\<rparr>,
      \<lparr>pn_name = ''rt_read_hp_enable'', pn_write = Some rt_read_hp_enable_write, pn_show = Some rt_read_hp_enable_show, pn_mode = 420\<rparr>,
      \<lparr>pn_name = ''queue_rq_throttle_demo'', pn_write = Some queue_rq_throttle_demo_write, pn_show = Some queue_rq_throttle_demo_show, pn_mode = 420\<rparr>,
      \<lparr>pn_name = ''throttle_ratios'', pn_write = Some throttle_ratios_write, pn_show = Some throttle_ratios_show, pn_mode = 420\<rparr>,
      \<lparr>pn_name = ''action_source'', pn_write = Some action_source_write, pn_show = Some action_source_show, pn_mode = 420\<rparr>,
      \<lparr>pn_name = ''fixed_action'', pn_write = Some fixed_action_write, pn_show = Some fixed_action_show, pn_mode = 420\<rparr>,
      \<lparr>pn_name = ''dev_lat'', pn_write = Some dev_lat_write, pn_show = Some dev_lat_show, pn_mode = 420\<rparr>,
      \<lparr>pn_name = ''background_deadline_ms'', pn_write = Some background_deadline_write, pn_show = Some background_deadline_show, pn_mode = 420\<rparr>,
      \<lparr>pn_name = ''scene_tag'', pn_write = Some scene_tag_write, pn_show = None, pn_mode = 438\<rparr>,
      \<lparr>pn_name = ''loadavg_1m_x100'', pn_write = Some loadavg_1m_x100_write, pn_show = None, pn_mode = 438\<rparr>,
      \<lparr>pn_name = ''render_avg_lat'', pn_write = Some render_avg_lat_write, pn_show = Some render_avg_lat_show, pn_mode = 438\<rparr>,
      \<lparr>pn_name = ''jank'', pn_write = Some jank_write, pn_show = Some jank_show, pn_mode = 438\<rparr>,
      \<lparr>pn_name = ''stats'', pn_write = None, pn_show = None, pn_mode = 256\<rparr>,
      \<lparr>pn_name = ''last_event'', pn_write = None, pn_show = None, pn_mode = 256\<rparr>,
      \<lparr>pn_name = ''window_sz_ms'', pn_write = Some window_sz_ms_write, pn_show = Some window_sz_ms_show, pn_mode = 438\<rparr>,
      \<lparr>pn_name = ''rawdata_trace'', pn_write = Some rawdata_trace_write, pn_show = Some rawdata_trace_show, pn_mode = 128\<rparr>,
      \<lparr>pn_name = ''debug_on'', pn_write = Some debug_write, pn_show = Some debug_show, pn_mode = 128\<rparr>,
      \<lparr>pn_name = ''pagecache_demo'', pn_write = Some pagecache_demo_write, pn_show = Some pagecache_demo_show, pn_mode = 438\<rparr>,
      \<lparr>pn_name = ''pagecache_demo_observe'', pn_write = Some pagecache_demo_observe_write, pn_show = Some pagecache_demo_observe_show, pn_mode = 438\<rparr>]"

section \<open>Creation and removal\<close>

datatype proc_fs_effect = MakeDir | MakeFile string | RemoveFile string | RemoveDir

text \<open>Whether the directory exists, and the \<open>exist\<close> flag of every file, which nothing clears.\<close>

record proc_dir =
  pd_dir :: bool
  pd_exist :: "string list"

definition smart_io_remove_proc_entries :: "proc_dir \<Rightarrow> proc_dir \<times> proc_fs_effect list" where
  "smart_io_remove_proc_entries d =
     (if \<not> pd_dir d then (d, [])
      else (d\<lparr>pd_dir := False\<rparr>,
            map (\<lambda>n. RemoveFile (pn_name n)) (filter (\<lambda>n. pn_name n \<in> set (pd_exist d)) proc_nodes) @ [RemoveDir]))"

definition smart_io_create_proc_entry :: "(string \<Rightarrow> bool) \<Rightarrow> string \<Rightarrow> errno option" where
  "smart_io_create_proc_entry created name = (if created name then None else Some ENOMEM)"

fun create_from :: "(string \<Rightarrow> bool) \<Rightarrow> proc_node list \<Rightarrow> proc_dir \<Rightarrow> proc_dir \<times> errno option \<times> proc_fs_effect list" where
  "create_from created [] d = (d, None, [])"
| "create_from created (n # ns) d =
     (case smart_io_create_proc_entry created (pn_name n) of
        Some e \<Rightarrow> (case smart_io_remove_proc_entries d of (d, es) \<Rightarrow> (d, Some e, es))
      | None \<Rightarrow>
          (case create_from created ns (d\<lparr>pd_exist := pn_name n # pd_exist d\<rparr>) of
             (d, r, es) \<Rightarrow> (d, r, MakeFile (pn_name n) # es)))"

definition smart_io_proc_init :: "bool \<Rightarrow> (string \<Rightarrow> bool) \<Rightarrow> proc_dir \<Rightarrow> proc_dir \<times> errno option \<times> proc_fs_effect list" where
  "smart_io_proc_init made created d =
     (if \<not> made then (d\<lparr>pd_dir := False\<rparr>, Some ENOMEM, [])
      else (case create_from created proc_nodes (d\<lparr>pd_dir := True\<rparr>) of (d, r, es) \<Rightarrow> (d, r, MakeDir # es)))"

definition smart_io_proc_exit :: "proc_dir \<Rightarrow> proc_dir \<times> proc_fs_effect list" where
  "smart_io_proc_exit d = smart_io_remove_proc_entries d"

end
