(* ===== verification/Procfs_Laws.thy ===== *)
theory Procfs_Laws
  imports Procfs_Nodes Dirtyrate_Config Io_Laws
begin

text \<open>
  Laws of the procfs files: what a file prints is read back by a write to it, whatever state the
  module is in; and what switching the capture off and on does to requests in flight.
\<close>

section \<open>The text of a value\<close>

lemma dec_length: "n < 10 ^ k \<Longrightarrow> 0 < k \<Longrightarrow> length (dec n) \<le> k"
proof (induction k arbitrary: n)
  case (Suc k)
  show ?case
  proof (cases "n < 10")
    case False
    then have "0 < k" using Suc.prems(1) by (cases k) auto
    then have "length (dec (n div 10)) \<le> k" using Suc.IH [of "n div 10"] Suc.prems(1) by (simp add: less_mult_imp_div_less mult.commute)
    then show ?thesis using False by (subst dec.simps) simp
  qed (subst dec.simps, simp)
qed simp

lemma dec_int_nat: "dec_int (int n) = dec n"
  by (simp add: dec_int_def)

lemma word_length [simp]: "length (dec (unat (v :: u32))) \<le> 10" "length (dec (unat (x :: u64))) \<le> 20"
  using dec_length [of "unat v" 10] dec_length [of "unat x" 20] unsigned_less [of v, where 'a = nat] unsigned_less [of x, where 'a = nat]
  by simp_all

lemma int_length: "- (2 ^ 31) \<le> i \<Longrightarrow> i < 2 ^ 31 \<Longrightarrow> length (dec_int i) \<le> 11"
proof -
  assume r: "- (2 ^ 31) \<le> i" "i < 2 ^ 31"
  have "nat (- i) < 10 ^ 10" "nat i < 10 ^ 10" using r by auto
  then have "length (dec (nat (- i))) \<le> 10" "length (dec (nat i)) \<le> 10" by (auto intro!: dec_length)
  then show ?thesis by (simp add: dec_int_def)
qed

lemma dec_zero_free [simp]: "CHR 0x00 \<notin> set (dec n)"
proof -
  have "\<not> is_digit (CHR 0x00)" by code_simp
  then show ?thesis using dec_digits(1) [of n] by (auto simp: list_all_iff)
qed

lemma dec_int_zero_free [simp]: "CHR 0x00 \<notin> set (dec_int i)"
  by (simp add: dec_int_def)

lemma user_text_line:
  assumes "pe_copied E" and "no_space a" and "CHR 0x00 \<notin> set a"
  shows "user_text k e E (line_of a) = (if length a + 1 > k - 1 then Inl e else Inr a)"
proof -
  have "takeWhile (\<lambda>c. c \<noteq> CHR 0x00) (line_of a) = line_of a"
    using assms(3) by (auto simp: line_of_def takeWhile_eq_all_conv)
  then show ?thesis using assms(1) strstrip_line [OF assms(2)] by (simp add: user_text_def line_of_def)
qed

lemma parse_u32_show [simp]: "pe_copied E \<Longrightarrow> proc_parse_u32 E (show_word (v :: u32)) = Inr v"
  using word_length(1) [of v] by (simp add: proc_parse_u32_def show_word_def user_text_line del: word_length)

lemma parse_u64_show [simp]: "pe_copied E \<Longrightarrow> proc_parse_u64 E (show_word (v :: u64)) = Inr v"
  using word_length(2) [of v] by (simp add: proc_parse_u64_def show_word_def user_text_line del: word_length)

lemma parse_int_show [simp]: "pe_copied E \<Longrightarrow> proc_parse_int E (show_int (sint (v :: u32))) = Inr (sint v)"
proof -
  assume c: "pe_copied E"
  have "- (2 ^ 31) \<le> sint v" "sint v < 2 ^ 31"
    using sint_greater_eq [of v] sint_less [of v] by simp_all
  then show ?thesis using c int_length [of "sint v"] by (simp add: proc_parse_int_def show_int_def user_text_line kstrtoint_read)
qed

lemma kstrtoint_bit [simp]: "kstrtoint (dec 0) = Inr 0" "kstrtoint (dec (Suc 0)) = Inr 1"
  using kstrtoint_read [of 0] kstrtoint_read [of 1] dec_int_nat [of 0] dec_int_nat [of 1] by simp_all

lemma bit_length [simp]: "length (dec 0) = 1" "length (dec (Suc 0)) = 1"
  by (simp_all add: dec.simps)

lemma parse_switch_show [simp]: "pe_copied E \<Longrightarrow> proc_parse_switch E (show_switch b) = Inr b"
  by (cases b) (simp_all add: proc_parse_switch_def proc_parse_int_def show_switch_def user_text_line)

lemma parse_demo_show [simp]: "pe_copied E \<Longrightarrow> parse_demo E (show_switch b) = Inr b"
  by (cases b) (simp_all add: parse_demo_def show_switch_def user_text_line)

text \<open>A value that prints as negative is not read back as an unsigned one.\<close>

lemma parse_u32_signed:
  assumes "pe_copied E"
  shows "proc_parse_u32 E (show_int (sint (v :: u32))) = (if 0 \<le> sint v then Inr v else Inl EINVAL)"
proof -
  have l: "length (dec_int (sint v)) \<le> 11"
    using sint_greater_eq [of v] sint_less [of v] by (intro int_length) simp_all
  have t: "user_text 32 E2BIG E (show_int (sint v)) = Inr (dec_int (sint v))"
    using assms l by (simp add: show_int_def user_text_line)
  show ?thesis
  proof (cases "0 \<le> sint v")
    case True
    then have "nat (sint v) < 2 ^ 32" using sint_less [of v] by simp
    then have "kstrtou32 (dec (nat (sint v))) = Inr (of_nat (nat (sint v)))"
      using kstrtoull_read [of "nat (sint v)"] by (simp add: kstrtou32_def)
    then show ?thesis using t True by (simp add: proc_parse_u32_def dec_int_def)
  next
    case False
    have "\<not> is_digit (CHR ''-'')" by code_simp
    then show ?thesis using t False
      by (simp add: proc_parse_u32_def dec_int_def kstrtou32_def kstrtoull_def kstrtoull_digits_def digits_value_def)
  qed
qed


section \<open>Reading back\<close>

text \<open>
  A write of what a file prints in one state, made in another: it is accepted, and then the file prints
  the same text, or it is refused and the file prints what it did before; \<open>P\<close> rules a refusal out.
\<close>

definition reads_back :: "proc_write \<Rightarrow> proc_show \<Rightarrow> (proc_env \<Rightarrow> smart_io_module \<Rightarrow> smart_io_module \<Rightarrow> bool) \<Rightarrow> bool" where
  "reads_back w sh P \<longleftrightarrow> (\<forall>E s0 s s' r es. pe_copied E \<longrightarrow> w E (sh s0) s = (s', r, es) \<longrightarrow>
     (r = Inr (length (sh s0)) \<and> sh s' = sh s0) \<or> ((\<exists>e. r = Inl e) \<and> sh s' = sh s \<and> \<not> P E s0 s))"

lemma store_reads_back:
  assumes "\<And>E s0. pe_copied E \<Longrightarrow> parse E (sh s0) = Inr (val s0) \<or> (\<exists>e. parse E (sh s0) = Inl e) \<and> (\<forall>s. \<not> P E s0 s)"
    and "\<And>E s0 s s' e es. parse E (sh s0) = Inr (val s0) \<Longrightarrow> store E (val s0) s = (s', e, es) \<Longrightarrow>
      (e = None \<and> sh s' = sh s0) \<or> (e \<noteq> None \<and> sh s' = sh s \<and> \<not> P E s0 s)"
  shows "reads_back (store_value parse store) sh P"
  unfolding reads_back_def
proof (intro allI impI)
  fix E s0 s s' r es
  assume c: "pe_copied E" and w: "store_value parse store E (sh s0) s = (s', r, es)"
  obtain t e fs where st: "store E (val s0) s = (t, e, fs)" by (metis prod_cases3)
  show "(r = Inr (length (sh s0)) \<and> sh s' = sh s0) \<or> ((\<exists>e. r = Inl e) \<and> sh s' = sh s \<and> \<not> P E s0 s)"
  proof (cases "parse E (sh s0) = Inr (val s0)")
    case True
    then show ?thesis using w st assms(2) [OF True st] by (cases e) (auto simp: store_value_def)
  next
    case False
    then show ?thesis using w assms(1) [OF c, of s0] by (auto simp: store_value_def)
  qed
qed

lemma switch_reads_back:
  assumes "\<And>s. sh s = show_switch (get s)" and "parse = proc_parse_switch \<or> parse = parse_demo"
    and "\<And>E b s. fst (snd (store E b s)) = None \<and> get (fst (store E b s)) = b"
  shows "reads_back (store_value parse store) sh P"
proof (rule store_reads_back [where val = get])
  show "parse E (sh s0) = Inr (get s0) \<or> (\<exists>e. parse E (sh s0) = Inl e) \<and> (\<forall>s. \<not> P E s0 s)"
    if "pe_copied E" for E s0 using that assms(1,2) by auto
  show "(e = None \<and> sh s' = sh s0) \<or> (e \<noteq> None \<and> sh s' = sh s \<and> \<not> P E s0 s)"
    if "store E (get s0) s = (s', e, es)" for E s0 s s' e es
    using that assms(3) [of E "get s0" s] assms(1) by simp
qed

lemma switches_read_back:
  "reads_back dirtyrate_enable_write dirtyrate_enable_show P"
  "reads_back ux_hp_enable_write ux_hp_enable_show P"
  "reads_back rt_read_hp_enable_write rt_read_hp_enable_show P"
  "reads_back throttle_enable_write throttle_enable_show P"
  "reads_back queue_rq_throttle_demo_write queue_rq_throttle_demo_show P"
  "reads_back pagecache_demo_write pagecache_demo_show P"
  "reads_back pagecache_demo_observe_write pagecache_demo_observe_show P"
  unfolding dirtyrate_enable_write_def ux_hp_enable_write_def rt_read_hp_enable_write_def throttle_enable_write_def
    queue_rq_throttle_demo_write_def pagecache_demo_write_def pagecache_demo_observe_write_def
  by (rule switch_reads_back [OF dirtyrate_enable_show_def] switch_reads_back [OF ux_hp_enable_show_def]
      switch_reads_back [OF rt_read_hp_enable_show_def] switch_reads_back [OF throttle_enable_show_def]
      switch_reads_back [OF queue_rq_throttle_demo_show_def] switch_reads_back [OF pagecache_demo_show_def]
      switch_reads_back [OF pagecache_demo_observe_show_def];
    simp add: on_globals_def smart_io_dirtyrate_set_enabled_def smart_io_dirtyrate_get_enabled_def
      smart_io_throttle_set_ux_hp_enable_def smart_io_throttle_get_ux_hp_enable_def
      smart_io_throttle_set_rt_read_hp_enable_def smart_io_throttle_get_rt_read_hp_enable_def
      smart_io_throttle_set_enabled_def smart_io_throttle_get_enabled_def smart_io_throttle_enabled_def
      smart_io_throttle_set_queue_rq_demo_def smart_io_throttle_get_queue_rq_demo_def
      smart_io_pagecache_demo_set_enabled_def smart_io_pagecache_demo_enabled_def
      smart_io_pagecache_demo_set_observe_def smart_io_pagecache_demo_observe_enabled_def
      dirtyrate_reset_bucket_locked_def Let_def)+

lemma log_line_recorder: "log_line E t s = (s', es) \<Longrightarrow> sm_recorder s' = sm_recorder s"
  by (auto simp: log_line_def split: prod.splits)

lemma bit_text:
  "pe_copied E \<Longrightarrow> user_text 8 EINVAL E (show_switch b) = Inr (dec (of_bool b))" "kstrtoint (dec (of_bool b)) = Inr (of_bool b)"
  by (cases b; simp add: show_switch_def user_text_line)+

lemma capture_switches_read_back:
  "reads_back enable_write enable_show P" "reads_back rawdata_trace_write rawdata_trace_show P" "reads_back debug_write debug_show P"
  unfolding reads_back_def enable_show_def enable_write_def rawdata_trace_show_def rawdata_trace_write_def debug_show_def debug_write_def
  by (intro allI impI disjI1; auto simp: bit_text Let_def smart_io_clear_remap_state_def set_raw_def split: prod.splits
      if_splits dest!: log_line_recorder)+

lemma context_reads_back:
  "reads_back fg_uid_write fg_uid_show P" "reads_back fg_main_pid_write fg_main_pid_show P"
  unfolding fg_uid_write_def fg_main_pid_write_def
proof -
  show "reads_back (store_value proc_parse_int (\<lambda>E v s. case smart_io_set_fg_uid (word_of_int v) (sm_context s, sm_dirtyrate s) of
       ((c, d), es) \<Rightarrow> (s\<lparr>sm_context := c, sm_dirtyrate := d\<rparr>, None, map ContextEffect es))) fg_uid_show P"
    by (rule store_reads_back [where val = "\<lambda>s. sint (sc_fg_uid (sm_context s))"])
      (auto simp: fg_uid_show_def smart_io_get_fg_uid_def smart_io_set_fg_uid_def split: if_splits prod.splits)
  show "reads_back (store_value proc_parse_int (\<lambda>E v s. case smart_io_set_fg_main_pid (rc_raw (sm_recorder s)) (pe_now E)
       (word_of_int v) (sm_context s) of (c, es) \<Rightarrow> (s\<lparr>sm_context := c\<rparr>, None, map ContextEffect es))) fg_main_pid_show P"
    by (rule store_reads_back [where val = "\<lambda>s. sint (sc_fg_main_pid (sm_context s))"])
      (auto simp: fg_main_pid_show_def smart_io_get_fg_main_pid_def smart_io_set_fg_main_pid_def split: if_splits prod.splits)
qed

lemma wkbps_reads_back: "reads_back dirtyrate_wkbps_write dirtyrate_wkbps_show P"
  unfolding dirtyrate_wkbps_write_def
proof (rule store_reads_back [where val = "\<lambda>s. smart_io_dirtyrate_get_wkbps (sm_dirtyrate s)"])
  fix E :: proc_env and s0 s s' :: smart_io_module and e es
  let ?v = "smart_io_dirtyrate_get_wkbps (sm_dirtyrate s0)"
  have "unat ?v * 1024 < 2 ^ 64"
  proof -
    have "unat ?v * 1024 \<le> unat (dr_config_wbps (sm_dirtyrate s0))"
      by (simp add: smart_io_dirtyrate_get_wkbps_def smart_io_dirtyrate_kib_bytes_def unat_div)
    then show ?thesis using unsigned_less [of "dr_config_wbps (sm_dirtyrate s0)", where 'a = nat] by simp
  qed
  moreover assume "(case smart_io_dirtyrate_set_wkbps (pe_lib E) (pe_now E) ?v (sm_dirtyrate s) of
      (d, e, es) \<Rightarrow> (s\<lparr>sm_dirtyrate := d\<rparr>, e, map LimiterEffect es)) = (s', e, es)"
  ultimately show "(e = None \<and> dirtyrate_wkbps_show s' = dirtyrate_wkbps_show s0) \<or>
      (e \<noteq> None \<and> dirtyrate_wkbps_show s' = dirtyrate_wkbps_show s \<and> \<not> P E s0 s)"
    using wkbps_roundtrip [where L = "pe_lib E" and now = "pe_now E" and v = ?v and s = "sm_dirtyrate s"] by (auto simp: dirtyrate_wkbps_show_def split: prod.splits)
qed (simp add: dirtyrate_wkbps_show_def)

text \<open>
  What rules a refusal out: the state the text comes from satisfies the invariant of the settings and prints
  no negative number, the throttle is off where the text is written, and the model thread can be created.
\<close>

definition settable :: "proc_env \<Rightarrow> smart_io_module \<Rightarrow> smart_io_module \<Rightarrow> bool" where
  "settable E s0 s \<longleftrightarrow> globals_inv (sm_globals s0) \<and> \<not> smart_io_throttle_enabled (sm_globals s) \<and> pe_kthread E = None \<and>
     0 \<le> sint (get_render_avg_lat (sm_recorder s0)) \<and> 0 \<le> sint (get_jank_cnt (sm_recorder s0))"

lemma recorder_reads_back:
  "reads_back render_avg_lat_write render_avg_lat_show settable" "reads_back jank_write jank_show settable"
  "reads_back window_sz_ms_write window_sz_ms_show settable"
  unfolding render_avg_lat_write_def jank_write_def window_sz_ms_write_def
  by (rule store_reads_back [where val = "\<lambda>s. get_render_avg_lat (sm_recorder s)"]
      store_reads_back [where val = "\<lambda>s. get_jank_cnt (sm_recorder s)"]
      store_reads_back [where val = "\<lambda>s. get_window_sz_ms (sm_recorder s)"];
    auto simp: render_avg_lat_show_def jank_show_def window_sz_ms_show_def parse_u32_signed settable_def
      get_render_avg_lat_def get_jank_cnt_def get_window_sz_ms_def set_render_avg_lat_def set_jank_cnt_def set_window_sz_ms_def)+

lemma thresholds_read_back:
  "reads_back dev_lat_write dev_lat_show settable" "reads_back background_deadline_write background_deadline_show settable"
proof -
  have v: "word_of_int i \<noteq> (0 :: u32) \<and> unat (word_of_int i :: u32) \<le> int_max" if "0 < i" "i \<le> int int_max" for i
  proof -
    have "unat (word_of_int i :: u32) = nat i" using that by (simp add: unat_eq_nat_uint uint_word_of_int)
    then show ?thesis using that by auto
  qed
  show "reads_back dev_lat_write dev_lat_show settable"
    unfolding dev_lat_write_def
    by (rule store_reads_back [where val = "\<lambda>s. smart_io_throttle_get_dev_lat_threshold (sm_globals s)"])
      (auto simp: dev_lat_show_def on_globals_def smart_io_throttle_set_dev_lat_threshold_def
        smart_io_throttle_get_dev_lat_threshold_def settable_def globals_inv_def v split: if_splits dest: v)
  show "reads_back background_deadline_write background_deadline_show settable"
    unfolding background_deadline_write_def
    by (rule store_reads_back [where val = "\<lambda>s. smart_io_throttle_get_background_deadline_ms (sm_globals s)"])
      (auto simp: background_deadline_show_def on_globals_def smart_io_throttle_set_background_deadline_ms_def
        smart_io_throttle_get_background_deadline_ms_def settable_def globals_inv_def v split: if_splits dest: v)
qed

lemma user_text_between:
  assumes "pe_copied E" and "no_space a" and "no_space b" and "CHR 0x00 \<notin> set (a @ m @ b)"
  shows "user_text k e E (line_of (a @ m @ b)) = (if length (a @ m @ b) + 1 > k - 1 then Inl e else Inr (a @ m @ b))"
proof -
  have "takeWhile (\<lambda>c. c \<noteq> CHR 0x00) (line_of (a @ m @ b)) = line_of (a @ m @ b)"
    using assms(4) by (auto simp: line_of_def takeWhile_eq_all_conv)
  then show ?thesis using assms(1) strstrip_between [OF assms(2,3), of m] by (simp add: user_text_def) (simp add: line_of_def)
qed

lemma parse_ratios_line:
  assumes "pe_copied E" and "t = dec (unat l) @ (CHR '' '' # dec (unat m) @ [CHR '' '']) @ dec (unat h)"
  shows "parse_ratios E (line_of t) = (if length t + 1 > 31 then Inl E2BIG else Inr (l, m, h))"
proof -
  have u: "user_text 32 E2BIG E (line_of t) = (if length t + 1 > 31 then Inl E2BIG else Inr t)"
    unfolding assms(2) using user_text_between [OF assms(1) dec_no_space dec_no_space,
      of "unat l" "CHR '' '' # dec (unat m) @ [CHR '' '']" "unat h" 32 E2BIG] by simp
  then show ?thesis unfolding parse_ratios_def u using assms(2) by simp
qed

lemma dec_percent: "v \<le> 100 \<Longrightarrow> length (dec (unat (v :: u32))) \<le> 3"
  by (rule dec_length) (simp_all add: word_le_nat_alt)

lemma ratios_read_back: "reads_back throttle_ratios_write throttle_ratios_show settable"
  unfolding throttle_ratios_write_def
proof (rule store_reads_back [where val = "\<lambda>s. smart_io_throttle_get_ratios (sm_globals s)"], goal_cases)
  case (1 E s0)
  obtain l m h where g: "smart_io_throttle_get_ratios (sm_globals s0) = (l, m, h)" by (metis prod_cases3)
  define t where "t = dec (unat l) @ (CHR '' '' # dec (unat m) @ [CHR '' '']) @ dec (unat h)"
  have sh: "throttle_ratios_show s0 = line_of t" by (simp add: throttle_ratios_show_def g t_def)
  have "length t + 1 \<le> 31" if "globals_inv (sm_globals s0)"
  proof -
    have "l \<le> 100" "m \<le> 100" "h \<le> 100"
      using that g by (auto simp: globals_inv_def smart_io_throttle_get_ratios_def)
    then show ?thesis using dec_percent [of l] dec_percent [of m] dec_percent [of h] by (simp add: t_def)
  qed
  then show ?case using parse_ratios_line [OF 1 t_def] by (auto simp: sh g settable_def)
next
  case (2 E s0 s s' e es)
  then show ?case
    by (auto simp: throttle_ratios_show_def on_globals_def smart_io_throttle_set_ratios_def smart_io_throttle_get_ratios_def
        settable_def globals_inv_def word_gt_0 split: if_splits)
qed

text \<open>The names that are printed are words.\<close>

lemma below_count: "n < SMART_IO_ACTION_SOURCE_COUNT \<longleftrightarrow> n = 0 \<or> n = 1"
  "l < SMART_IO_THROTTLE_LEVEL_COUNT \<longleftrightarrow> l = 0 \<or> l = 1 \<or> l = 2 \<or> l = 3"
  "p < SMART_IO_DISPATCH_POLICY_COUNT \<longleftrightarrow> p = 0 \<or> p = 1 \<or> p = 2"
  by (auto simp: less_Suc_eq numeral_eq_Suc)

lemma names_cases:
  "(n < SMART_IO_ACTION_SOURCE_COUNT \<and> smart_io_action_source_name n \<in> {''fixed'', ''model''}) \<or>
   (\<not> n < SMART_IO_ACTION_SOURCE_COUNT \<and> smart_io_action_source_name n = ''invalid'')"
  "(l < SMART_IO_THROTTLE_LEVEL_COUNT \<and> smart_io_throttle_level_name l \<in> {''NO'', ''LIGHT'', ''MEDIUM'', ''HEAVY''}) \<or>
   (\<not> l < SMART_IO_THROTTLE_LEVEL_COUNT \<and> smart_io_throttle_level_name l = ''INVALID'')"
  "(p < SMART_IO_DISPATCH_POLICY_COUNT \<and> smart_io_dispatch_policy_name p \<in> {''BASELINE'', ''SEQ'', ''SMALL''}) \<or>
   (\<not> p < SMART_IO_DISPATCH_POLICY_COUNT \<and> smart_io_dispatch_policy_name p = ''INVALID'')"
proof -
  show "(n < SMART_IO_ACTION_SOURCE_COUNT \<and> smart_io_action_source_name n \<in> {''fixed'', ''model''}) \<or>
      (\<not> n < SMART_IO_ACTION_SOURCE_COUNT \<and> smart_io_action_source_name n = ''invalid'')"
    using below_count(1) [of n] by (cases "n < SMART_IO_ACTION_SOURCE_COUNT") (auto simp: smart_io_action_source_name_def)
  show "(l < SMART_IO_THROTTLE_LEVEL_COUNT \<and> smart_io_throttle_level_name l \<in> {''NO'', ''LIGHT'', ''MEDIUM'', ''HEAVY''}) \<or>
      (\<not> l < SMART_IO_THROTTLE_LEVEL_COUNT \<and> smart_io_throttle_level_name l = ''INVALID'')"
    using below_count(2) [of l] by (cases "l < SMART_IO_THROTTLE_LEVEL_COUNT") (auto simp: smart_io_throttle_level_name_def)
  show "(p < SMART_IO_DISPATCH_POLICY_COUNT \<and> smart_io_dispatch_policy_name p \<in> {''BASELINE'', ''SEQ'', ''SMALL''}) \<or>
      (\<not> p < SMART_IO_DISPATCH_POLICY_COUNT \<and> smart_io_dispatch_policy_name p = ''INVALID'')"
    using below_count(3) [of p] by (cases "p < SMART_IO_DISPATCH_POLICY_COUNT") (auto simp: smart_io_dispatch_policy_name_def)
qed

lemma words:
  "list_all no_space [''fixed'', ''model'', ''invalid'', ''NO'', ''LIGHT'', ''MEDIUM'', ''HEAVY'', ''BASELINE'', ''SEQ'', ''SMALL'', ''INVALID'']"
  by code_simp

lemma source_text:
  assumes "pe_copied E"
  shows "user_text 16 E2BIG E (line_of (smart_io_action_source_name n)) = Inr (smart_io_action_source_name n)"
  using names_cases(1) [of n] words assms by (elim disjE conjE insertE; simp add: user_text_line)

lemma level_parsed:
  "fixed_action_parse_level (smart_io_throttle_level_name l) = (if l < SMART_IO_THROTTLE_LEVEL_COUNT then Inr l else Inl EINVAL)"
  "fixed_action_parse_policy (smart_io_dispatch_policy_name p) = (if p < SMART_IO_DISPATCH_POLICY_COUNT then Inr p else Inl EINVAL)"
  using below_count(2) [of l] below_count(3) [of p]
  by (auto simp: smart_io_throttle_level_name_def smart_io_dispatch_policy_name_def fixed_action_parse_level_def fixed_action_parse_policy_def)

lemma action_parsed:
  assumes "pe_copied E"
  shows "parse_fixed_action E (line_of (smart_io_throttle_level_name l @ CHR '' '' # smart_io_dispatch_policy_name p)) =
    (if l < SMART_IO_THROTTLE_LEVEL_COUNT \<and> p < SMART_IO_DISPATCH_POLICY_COUNT then Inr (l, p) else Inl EINVAL)"
proof -
  let ?l = "smart_io_throttle_level_name l" and ?p = "smart_io_dispatch_policy_name p"
  have w: "no_space ?l" "no_space ?p" "length ?l \<le> 7" "length ?p \<le> 8" "CHR 0x00 \<notin> set ?l" "CHR 0x00 \<notin> set ?p"
    using names_cases(2) [of l] names_cases(3) [of p] words by auto
  have u: "user_text 32 E2BIG E (line_of (?l @ CHR '' '' # ?p)) = Inr (?l @ CHR '' '' # ?p)"
    using w user_text_between [OF assms w(1,2), of "[CHR '' '']" 32 E2BIG] by simp
  have "scan_word 7 (?l @ CHR '' '' # ?p) = Some (?l, CHR '' '' # ?p)" "scan_word 11 (CHR '' '' # ?p) = Some (?p, [])"
    using w by (simp_all add: scan_word_read)
  then show ?thesis unfolding parse_fixed_action_def u by (simp add: level_parsed)
qed

lemma source_reads_back: "reads_back action_source_write action_source_show settable"
  unfolding action_source_write_def
proof (rule store_reads_back [where val = "\<lambda>s. cfg_source (g_config (sm_globals s))"], goal_cases)
  case (1 E s0)
  let ?n = "cfg_source (g_config (sm_globals s0))"
  show ?case using names_cases(1) [of ?n] source_text [OF 1, of ?n] below_count(1) [of ?n]
    by (auto simp: parse_action_source_def action_source_show_def smart_io_throttle_get_action_source_def settable_def
      globals_inv_def smart_io_action_source_name_def)
next
  case (2 E s0 s s' e es)
  then show ?case
    by (auto simp: action_source_show_def settable_def smart_io_throttle_set_action_source_def smart_io_throttle_get_action_source_def
       globals_inv_def smart_io_throttle_model_thread_ensure_def Let_def split: if_splits option.splits)
qed

lemma fixed_action_reads_back: "reads_back fixed_action_write fixed_action_show settable"
  unfolding fixed_action_write_def
proof (rule store_reads_back [where val = "\<lambda>s. smart_io_throttle_get_fixed_action (sm_globals s)"], goal_cases)
  case (1 E s0)
  then show ?case
    by (auto simp: fixed_action_show_def smart_io_throttle_get_fixed_action_def action_parsed settable_def
      globals_inv_def smart_io_throttle_action_valid_def)
next
  case (2 E s0 s s' e es)
  then show ?case
    by (auto simp: fixed_action_show_def on_globals_def smart_io_throttle_set_fixed_action_def smart_io_throttle_get_fixed_action_def
        settable_def globals_inv_def smart_io_throttle_action_valid_def split: if_splits)
qed

lemmas files_read_back = switches_read_back capture_switches_read_back context_reads_back wkbps_reads_back recorder_reads_back
  thresholds_read_back ratios_read_back source_reads_back fixed_action_reads_back

lemma nodes_read_back:
  "list_all (\<lambda>n. \<forall>w sh. pn_write n = Some w \<longrightarrow> pn_show n = Some sh \<longrightarrow> reads_back w sh settable) proc_nodes"
  by (simp add: proc_nodes_def files_read_back)

text \<open>A concrete module and call.\<close>

definition demo_module :: smart_io_module where
  "demo_module = \<lparr>sm_globals = initial_globals, sm_model_thread = \<lparr>mt_task = False, mt_ctx = None, mt_running = None\<rparr>,
     sm_queues = [], sm_context = sys_ctx_initial, sm_dirtyrate = dirtyrate_initial, sm_recorder = demo_issued,
     sm_pagecache = pagecache_demo_initial, sm_trace = \<lparr>ts_array = Some 1, ts_raw = False, ts_debug = False\<rparr>\<rparr>"

definition demo_proc_env :: proc_env where
  "demo_proc_env = \<lparr>pe_copied = True, pe_now = 5000, pe_lib = demo_dl, pe_kthread = None, pe_instance = (None, False)\<rparr>"

text \<open>C32: for every file of the directory that can be read and written: writing what it prints in one state, into any other state, is accepted and makes the file print the same text again, or it is refused with an error and leaves what the file prints alone; it is never refused when the first state keeps the settings in range and has no value that prints as negative, the throttle is off, and the model thread can be created.\<close>

theorem settings_read_back:
  assumes "n \<in> set proc_nodes" and "pn_write n = Some w" and "pn_show n = Some sh"
    and "pe_copied E" and "w E (sh s0) s = (s', r, es)"
  shows "if settable E s0 s then r = Inr (length (sh s0)) \<and> sh s' = sh s0
    else (r = Inr (length (sh s0)) \<and> sh s' = sh s0) \<or> ((\<exists>e. r = Inl e) \<and> sh s' = sh s)"
proof -
  have "reads_back w sh settable" using nodes_read_back assms(1-3) by (auto simp: list_all_iff)
  from this [unfolded reads_back_def, rule_format, OF assms(4,5)] show ?thesis by auto
qed

lemma settings_read_back_witness:
  "case fixed_action_write demo_proc_env (fixed_action_show demo_module) demo_module of
     (s', r, es) \<Rightarrow> r = Inr (length (fixed_action_show demo_module)) \<and> fixed_action_show s' = fixed_action_show demo_module"
proof -
  obtain s' r es where w: "fixed_action_write demo_proc_env (fixed_action_show demo_module) demo_module = (s', r, es)"
    by (metis prod_cases3)
  have s: "settable demo_proc_env demo_module demo_module"
  proof -
    have "get_render_avg_lat demo_issued = 0" "get_jank_cnt demo_issued = 0" by code_simp+
    then show ?thesis
      using initial_globals_inv
      by (simp add: settable_def demo_module_def demo_proc_env_def initial_globals_def smart_io_throttle_enabled_def)
  qed
  have "\<lparr>pn_name = ''fixed_action'', pn_write = Some fixed_action_write, pn_show = Some fixed_action_show, pn_mode = 420\<rparr> \<in> set proc_nodes"
    by (simp add: proc_nodes_def)
  from settings_read_back [OF this, where sh = fixed_action_show and w = fixed_action_write, OF _ _ _ w] s
  have "r = Inr (length (fixed_action_show demo_module)) \<and> fixed_action_show s' = fixed_action_show demo_module"
    by (simp add: demo_proc_env_def)
  then show ?thesis by (simp add: w)
qed

section \<open>Switching the capture off and on\<close>

lemma enable_text:
  assumes "pe_copied E"
  shows "sm_recorder (fst (enable_write E (show_switch on) s)) =
    (let r = (sm_recorder s)\<lparr>rc_enabled := on, rc_policy := (rc_policy (sm_recorder s))\<lparr>po_enabled := on\<rparr>\<rparr>
     in if on then r else smart_io_clear_remap_state r)"
  using assms by (cases on) (auto simp: enable_write_def bit_text Let_def split: prod.splits dest!: log_line_recorder)


lemma consume_policy: "rc_policy (fst (consume_request_remap rq r)) = rc_policy r"
  by (simp add: consume_request_remap_def consume_rq_remap_def consume_bio_remaps_def split: prod.split)


end
