(* ===== verification/Tracepoints.thy ===== *)
theory Tracepoints
  imports Prelude
begin

text \<open>
  The tracepoint tables of \<open>tp_block.c\<close>, \<open>tp_f2fs.c\<close>, \<open>tp_psi.c\<close>, \<open>tp_sched.c\<close>, \<open>tp_binder.c\<close>,
  \<open>tp_pagecache_demo.c\<close> and \<open>tp_filemap.c\<close>, and the manager of \<open>tp_manager.c\<close> that registers them in order.
  Which tracepoints the kernel has, and what each registration returns, are arguments.
\<close>

section \<open>Tables\<close>

record tp_entry =
  te_name :: string
  te_tp :: "nat option"
  te_init :: bool
  te_required :: bool

datatype tp_effect = Probe string | Unprobe string

definition tp_entry_of :: "string \<Rightarrow> tp_entry" where
  "tp_entry_of name = \<lparr>te_name = name, te_tp = None, te_init = False, te_required = False\<rparr>"

text \<open>The walk over the kernel's tracepoints stores the ones the table asks for.\<close>

definition lookup_tracepoints :: "(string \<Rightarrow> nat option) \<Rightarrow> tp_entry list \<Rightarrow> tp_entry list" where
  "lookup_tracepoints kernel_tps es =
     map (\<lambda>e. case kernel_tps (te_name e) of None \<Rightarrow> e | Some tp \<Rightarrow> e\<lparr>te_tp := Some tp\<rparr>) es"

definition unregister_table :: "tp_entry list \<Rightarrow> tp_entry list \<times> tp_effect list" where
  "unregister_table es = (map (\<lambda>e. e\<lparr>te_init := False\<rparr>) es, map (\<lambda>e. Unprobe (te_name e)) (filter te_init es))"

text \<open>
  The registration loop over the entries not yet visited: a missing tracepoint or a failed
  registration unregisters the whole table and returns the error.
\<close>

fun register_from ::
  "errno \<Rightarrow> (string \<Rightarrow> errno option) \<Rightarrow> tp_entry list \<Rightarrow> tp_entry list \<Rightarrow> tp_entry list \<times> errno option \<times> tp_effect list" where
  "register_from missing reg visited [] = (visited, None, [])"
| "register_from missing reg visited (e # es) =
     (if te_tp e = None then
        (case unregister_table (visited @ e # es) of (t, fx) \<Rightarrow> (t, Some missing, fx))
      else case reg (te_name e) of
        Some err \<Rightarrow> (case unregister_table (visited @ e # es) of (t, fx) \<Rightarrow> (t, Some err, fx))
      | None \<Rightarrow>
          (case register_from missing reg (visited @ [e\<lparr>te_init := True\<rparr>]) es of
             (t, r, fx) \<Rightarrow> (t, r, Probe (te_name e) # fx)))"

definition register_table ::
  "errno \<Rightarrow> (string \<Rightarrow> nat option) \<Rightarrow> (string \<Rightarrow> errno option) \<Rightarrow> tp_entry list \<Rightarrow> tp_entry list \<times> errno option \<times> tp_effect list" where
  "register_table missing kernel_tps reg es = register_from missing reg [] (lookup_tracepoints kernel_tps es)"

section \<open>The tables of the module\<close>

definition block_interests :: "tp_entry list" where
  "block_interests = map tp_entry_of
     [''block_bio_queue'', ''block_bio_remap'', ''block_rq_insert'', ''block_rq_issue'', ''block_rq_requeue'',
      ''block_rq_complete'', ''block_rq_remap'']"

definition f2fs_tps :: "tp_entry list" where
  "f2fs_tps = map tp_entry_of [''f2fs_gc_begin'', ''f2fs_gc_end'', ''f2fs_write_checkpoint'']"

definition psi_tps :: "tp_entry list" where
  "psi_tps = map tp_entry_of [''android_vh_psi_group'']"

definition sched_tps :: "tp_entry list" where
  "sched_tps = map tp_entry_of [''sched_switch'', ''sched_wakeup'']"

definition binder_interests :: "tp_entry list" where
  "binder_interests = map tp_entry_of
     [''android_vh_binder_transaction_record'', ''android_vh_binder_proc_transaction'', ''android_vh_sync_txn_recvd'']"

definition pagecache_demo_tps :: "tp_entry list" where
  "pagecache_demo_tps = map tp_entry_of
     [''android_vh_filemap_get_folio'', ''mm_filemap_delete_from_page_cache'', ''android_vh_count_workingset_refault'',
      ''android_vh_shrink_folio_list'']"

definition filemap_tps :: "tp_entry list" where
  "filemap_tps =
     [(tp_entry_of ''mm_filemap_get_pages'')\<lparr>te_required := True\<rparr>,
      (tp_entry_of ''android_vh_filemap_update_page'')\<lparr>te_required := True\<rparr>,
      tp_entry_of ''mm_filemap_add_to_page_cache'',
      tp_entry_of ''mm_filemap_delete_from_page_cache'',
      tp_entry_of ''android_vh_count_workingset_refault'']"

type_synonym tp_kernel = "(string \<Rightarrow> nat option) \<times> (string \<Rightarrow> errno option)"

definition register_block_tracepoints :: "tp_kernel \<Rightarrow> tp_entry list \<Rightarrow> tp_entry list \<times> errno option \<times> tp_effect list" where
  "register_block_tracepoints k t = register_table EINVAL (fst k) (snd k) t"

definition register_f2fs_tracepoints :: "tp_kernel \<Rightarrow> tp_entry list \<Rightarrow> tp_entry list \<times> errno option \<times> tp_effect list" where
  "register_f2fs_tracepoints k t = register_table EINVAL (fst k) (snd k) t"

definition register_psi_tracepoints :: "tp_kernel \<Rightarrow> tp_entry list \<Rightarrow> tp_entry list \<times> errno option \<times> tp_effect list" where
  "register_psi_tracepoints k t = register_table EINVAL (fst k) (snd k) t"

definition register_sched_tracepoints :: "tp_kernel \<Rightarrow> tp_entry list \<Rightarrow> tp_entry list \<times> errno option \<times> tp_effect list" where
  "register_sched_tracepoints k t = register_table ENOENT (fst k) (snd k) t"

text \<open>The page-cache demo skips what it cannot register and never fails.\<close>

definition register_pagecache_demo :: "tp_kernel \<Rightarrow> tp_entry list \<Rightarrow> tp_entry list \<times> errno option \<times> tp_effect list" where
  "register_pagecache_demo k t =
     (let t = map (\<lambda>e. if te_tp e = None \<or> snd k (te_name e) \<noteq> None then e else e\<lparr>te_init := True\<rparr>)
            (lookup_tracepoints (fst k) t)
      in (t, None, map (\<lambda>e. Probe (te_name e)) (filter (\<lambda>e. te_tp e \<noteq> None \<and> snd k (te_name e) = None) t)))"

text \<open>The filemap table fails only on its required entries.\<close>

fun register_filemap_from ::
  "(string \<Rightarrow> errno option) \<Rightarrow> tp_entry list \<Rightarrow> tp_entry list \<Rightarrow> tp_entry list \<times> errno option \<times> tp_effect list" where
  "register_filemap_from reg visited [] = (visited, None, [])"
| "register_filemap_from reg visited (e # es) =
     (let failure = (if te_tp e = None then Some ENOENT else reg (te_name e)) in
      case failure of
        None \<Rightarrow>
          (case register_filemap_from reg (visited @ [e\<lparr>te_init := True\<rparr>]) es of
             (t, r, fx) \<Rightarrow> (t, r, Probe (te_name e) # fx))
      | Some err \<Rightarrow>
          if te_required e then (case unregister_table (visited @ e # es) of (t, fx) \<Rightarrow> (t, Some err, fx))
          else register_filemap_from reg (visited @ [e]) es)"

section \<open>The manager\<close>

record tp_tables =
  tt_block :: "tp_entry list"
  tt_f2fs :: "tp_entry list"
  tt_psi :: "tp_entry list"
  tt_pagecache :: "tp_entry list"

definition tp_tables_initial :: tp_tables where
  "tp_tables_initial = \<lparr>tt_block = block_interests, tt_f2fs = f2fs_tps, tt_psi = psi_tps, tt_pagecache = pagecache_demo_tps\<rparr>"

definition drop_block :: "tp_tables \<Rightarrow> tp_tables \<times> tp_effect list" where
  "drop_block T = (case unregister_table (tt_block T) of (t, fx) \<Rightarrow> (T\<lparr>tt_block := t\<rparr>, fx))"

definition drop_f2fs :: "tp_tables \<Rightarrow> tp_tables \<times> tp_effect list" where
  "drop_f2fs T = (case unregister_table (tt_f2fs T) of (t, fx) \<Rightarrow> (T\<lparr>tt_f2fs := t\<rparr>, fx))"

definition drop_psi :: "tp_tables \<Rightarrow> tp_tables \<times> tp_effect list" where
  "drop_psi T = (case unregister_table (tt_psi T) of (t, fx) \<Rightarrow> (T\<lparr>tt_psi := t\<rparr>, fx))"

definition drop_pagecache :: "tp_tables \<Rightarrow> tp_tables \<times> tp_effect list" where
  "drop_pagecache T = (case unregister_table (tt_pagecache T) of (t, fx) \<Rightarrow> (T\<lparr>tt_pagecache := t\<rparr>, fx))"

definition smart_io_tp_init :: "tp_kernel \<Rightarrow> tp_tables \<Rightarrow> tp_tables \<times> errno option \<times> tp_effect list" where
  "smart_io_tp_init k T =
     (case register_block_tracepoints k (tt_block T) of (t, r, fx1) \<Rightarrow>
        let T = T\<lparr>tt_block := t\<rparr> in
        if r \<noteq> None then (T, r, fx1) else
        (case register_f2fs_tracepoints k (tt_f2fs T) of (t, r, fx2) \<Rightarrow>
           let T = T\<lparr>tt_f2fs := t\<rparr> in
           if r \<noteq> None then (case drop_block T of (T, b) \<Rightarrow> (T, r, fx1 @ fx2 @ b)) else
           (case register_psi_tracepoints k (tt_psi T) of (t, r, fx3) \<Rightarrow>
              let T = T\<lparr>tt_psi := t\<rparr> in
              if r \<noteq> None then
                (case drop_f2fs T of (T, f) \<Rightarrow> (case drop_block T of (T, b) \<Rightarrow> (T, r, fx1 @ fx2 @ fx3 @ f @ b))) else
              (case register_pagecache_demo k (tt_pagecache T) of (t, r, fx4) \<Rightarrow>
                 let T = T\<lparr>tt_pagecache := t\<rparr> in
                 if r \<noteq> None then
                   (case drop_psi T of (T, p) \<Rightarrow> (case drop_f2fs T of (T, f) \<Rightarrow> (case drop_block T of (T, b) \<Rightarrow>
                      (T, r, fx1 @ fx2 @ fx3 @ fx4 @ p @ f @ b))))
                 else (T, None, fx1 @ fx2 @ fx3 @ fx4)))))"

definition smart_io_tp_exit :: "tp_tables \<Rightarrow> tp_tables \<times> tp_effect list" where
  "smart_io_tp_exit T =
     (case drop_pagecache T of (T, c) \<Rightarrow> (case drop_psi T of (T, p) \<Rightarrow>
      (case drop_f2fs T of (T, f) \<Rightarrow> (case drop_block T of (T, b) \<Rightarrow> (T, c @ p @ f @ b)))))"

section \<open>All or nothing\<close>

text \<open>The probes a run of effects leaves in place, in the order they were put in.\<close>

fun probes_after :: "string list \<Rightarrow> tp_effect list \<Rightarrow> string list" where
  "probes_after ps [] = ps"
| "probes_after ps (Probe n # fx) = probes_after (ps @ [n]) fx"
| "probes_after ps (Unprobe n # fx) = probes_after (remove1 n ps) fx"

lemma probes_append: "probes_after ps (fx @ gx) = probes_after (probes_after ps fx) gx"
  by (induction ps fx rule: probes_after.induct) simp_all

lemma probes_put: "probes_after ps (map (\<lambda>e. Probe (te_name e)) es) = ps @ map te_name es"
  by (induction es arbitrary: ps) simp_all

lemma unprobe_all: "probes_after ps (map Unprobe ps) = []"
  by (induction ps) simp_all

text \<open>The names of the entries that are registered.\<close>

definition live_names :: "tp_entry list \<Rightarrow> string list" where
  "live_names t = map te_name (filter te_init t)"

lemma unregister_simps [simp]:
  "live_names (fst (unregister_table t)) = []" "snd (unregister_table t) = map Unprobe (live_names t)"
  by (simp_all add: unregister_table_def live_names_def filter_empty_conv comp_def)

lemma remove_names: "probes_after (xs @ ns) (map Unprobe ns) = (foldl (\<lambda>ps n. remove1 n ps) (xs @ ns) ns)"
proof -
  have "probes_after ps (map Unprobe ns) = foldl (\<lambda>ps n. remove1 n ps) ps ns" for ps
    by (induction ns arbitrary: ps) simp_all
  then show ?thesis by simp
qed

lemma remove_prefix: "distinct (xs @ ns) \<Longrightarrow> foldl (\<lambda>ps n. remove1 n ps) (xs @ ns) ns = xs"
proof (induction ns arbitrary: xs)
  case (Cons n ns)
  then have "remove1 n (xs @ n # ns) = xs @ ns" by (auto simp: remove1_append)
  then show ?case using Cons by simp
qed simp

lemma unprobe_suffix: "distinct (xs @ ns) \<Longrightarrow> probes_after (xs @ ns) (map Unprobe ns) = xs"
  by (simp add: remove_names remove_prefix)

lemma register_from_cases:
  assumes "register_from missing reg visited es = (t, r, fx)" and "\<forall>e \<in> set es. \<not> te_init e"
    and "distinct (ps @ map te_name (visited @ es))"
  shows "(if r = None then t = visited @ map (\<lambda>e. e\<lparr>te_init := True\<rparr>) es \<and>
        probes_after (ps @ live_names visited) fx = ps @ live_names visited @ map te_name es
      else live_names t = [] \<and> map te_name t = map te_name (visited @ es) \<and>
        probes_after (ps @ live_names visited) fx = ps)"
  using assms
proof (induction es arbitrary: visited fx)
  case Nil
  then show ?case by simp
next
  case (Cons e es)
  have live: "live_names (visited @ e # es) = live_names visited"
    using Cons.prems(2) by (simp add: live_names_def filter_empty_conv)
  have dist: "distinct (ps @ live_names visited)"
    using Cons.prems(3) by (auto simp: live_names_def distinct_map_filter)
  show ?case
  proof (cases "te_tp e = None \<or> reg (te_name e) \<noteq> None")
    case True
    then have u: "unregister_table (visited @ e # es) = (t, fx)" "r \<noteq> None"
      using Cons.prems(1) True by (cases "te_tp e"; cases "reg (te_name e)"; auto split: prod.splits)+
    have "t = fst (unregister_table (visited @ e # es))" "r \<noteq> None" "fx = map Unprobe (live_names visited)"
      using u unregister_simps(2) [of "visited @ e # es"] live by simp_all
    moreover have "map te_name (fst (unregister_table (visited @ e # es))) = map te_name (visited @ e # es)"
      by (simp add: unregister_table_def)
    ultimately show ?thesis using unprobe_suffix [OF dist] by simp
  next
    case False
    then obtain gx where g: "register_from missing reg (visited @ [e\<lparr>te_init := True\<rparr>]) es = (t, r, gx)"
      "fx = Probe (te_name e) # gx"
      using Cons.prems(1) by (auto split: prod.splits)
    have l: "live_names (visited @ [e\<lparr>te_init := True\<rparr>]) = live_names visited @ [te_name e]"
      by (simp add: live_names_def)
    show ?thesis using Cons.IH [OF g(1)] Cons.prems(2,3) g(2) l by (auto split: if_splits)
  qed
qed


text \<open>A table with no entry registered and distinct names.\<close>

definition table_idle :: "tp_entry list \<Rightarrow> bool" where
  "table_idle t \<longleftrightarrow> (\<forall>e \<in> set t. \<not> te_init e) \<and> distinct (map te_name t)"

lemma lookup_names [simp]:
  "map te_name (lookup_tracepoints k t) = map te_name t" "(\<forall>e \<in> set (lookup_tracepoints k t). \<not> te_init e) = (\<forall>e \<in> set t. \<not> te_init e)"
  by (auto simp: lookup_tracepoints_def comp_def split: option.split intro!: map_cong)

lemma idle_live: "table_idle t \<Longrightarrow> live_names t = []"
  by (simp add: table_idle_def live_names_def filter_empty_conv)

lemma register_table_cases:
  assumes "register_table missing k reg es = (t, r, fx)" and "table_idle es" and "distinct (ps @ map te_name es)"
  shows "(r = None \<longrightarrow> live_names t = map te_name es \<and> probes_after ps fx = ps @ map te_name es) \<and>
    (r \<noteq> None \<longrightarrow> live_names t = [] \<and> probes_after ps fx = ps)"
proof -
  have "if r = None then t = [] @ map (\<lambda>e. e\<lparr>te_init := True\<rparr>) (lookup_tracepoints k es) \<and>
        probes_after (ps @ live_names []) fx = ps @ live_names [] @ map te_name (lookup_tracepoints k es)
      else live_names t = [] \<and> map te_name t = map te_name ([] @ lookup_tracepoints k es) \<and>
        probes_after (ps @ live_names []) fx = ps"
    by (rule register_from_cases [OF assms(1) [unfolded register_table_def]])
      (use assms(2,3) in \<open>simp_all add: table_idle_def\<close>)
  moreover have "live_names (map (\<lambda>e. e\<lparr>te_init := True\<rparr>) (lookup_tracepoints k es)) = map te_name (lookup_tracepoints k es)"
    by (simp add: live_names_def comp_def)
  ultimately show ?thesis by (auto simp: live_names_def split: if_splits)
qed

lemma drop_eq:
  "drop_block T = (T\<lparr>tt_block := fst (unregister_table (tt_block T))\<rparr>, map Unprobe (live_names (tt_block T)))"
  "drop_f2fs T = (T\<lparr>tt_f2fs := fst (unregister_table (tt_f2fs T))\<rparr>, map Unprobe (live_names (tt_f2fs T)))"
  by (simp_all add: drop_block_def drop_f2fs_def unregister_table_def live_names_def comp_def)

definition tables_idle :: "tp_tables \<Rightarrow> bool" where
  "tables_idle T \<longleftrightarrow> table_idle (tt_block T) \<and> table_idle (tt_f2fs T) \<and> table_idle (tt_psi T) \<and> table_idle (tt_pagecache T) \<and>
     distinct (map te_name (tt_block T @ tt_f2fs T @ tt_psi T @ tt_pagecache T))"

text \<open>C30: a failed initialisation of the tracepoints leaves no probe behind, whichever tracepoint is missing or refused; a successful one leaves in place all probes of the three mandatory tables.\<close>

theorem tp_init_all_or_nothing:
  assumes "tables_idle T" and "smart_io_tp_init k T = (T', r, fx)"
  shows "(r \<noteq> None \<longrightarrow> probes_after [] fx = []) \<and>
    (r = None \<longrightarrow> set (map te_name (tt_block T @ tt_f2fs T @ tt_psi T)) \<subseteq> set (probes_after [] fx))"
proof -
  note idle = assms(1) [unfolded tables_idle_def]
  let ?b = "map te_name (tt_block T)" let ?f = "map te_name (tt_f2fs T)" let ?p = "map te_name (tt_psi T)"
  obtain tb rb fb where b: "register_block_tracepoints k (tt_block T) = (tb, rb, fb)" by (metis prod_cases3)
  obtain tf rf ff where f: "register_f2fs_tracepoints k (tt_f2fs T) = (tf, rf, ff)" by (metis prod_cases3)
  obtain tp rp fp where p: "register_psi_tracepoints k (tt_psi T) = (tp, rp, fp)" by (metis prod_cases3)
  have d: "distinct (?b @ ?f)" "distinct ((?b @ ?f) @ ?p)" using idle by auto
  have B: "(rb = None \<longrightarrow> live_names tb = ?b \<and> probes_after [] fb = ?b) \<and> (rb \<noteq> None \<longrightarrow> probes_after [] fb = [])"
    using register_table_cases [OF b [unfolded register_block_tracepoints_def], of "[]"] idle by simp
  have F: "(rf = None \<longrightarrow> live_names tf = ?f \<and> probes_after ?b ff = ?b @ ?f) \<and> (rf \<noteq> None \<longrightarrow> probes_after ?b ff = ?b)"
    using register_table_cases [OF f [unfolded register_f2fs_tracepoints_def], of ?b, OF _ d(1)] idle by auto
  have P: "(rp = None \<longrightarrow> probes_after (?b @ ?f) fp = ?b @ ?f @ ?p) \<and> (rp \<noteq> None \<longrightarrow> probes_after (?b @ ?f) fp = ?b @ ?f)"
    using register_table_cases [OF p [unfolded register_psi_tracepoints_def], of "?b @ ?f", OF _ d(2)] idle by auto
  have ub: "probes_after ?b (map Unprobe ?b) = []" by (rule unprobe_all)
  have uf: "probes_after (?b @ ?f) (map Unprobe ?f) = ?b" by (rule unprobe_suffix [OF d(1)])
  show ?thesis
  proof (cases "rb = None \<and> rf = None \<and> rp = None")
    case True
    then show ?thesis
      using assms(2) b f p B F P
      by (auto simp: smart_io_tp_init_def Let_def register_pagecache_demo_def probes_append probes_put)
  next
    case False
    then show ?thesis
      using assms(2) b f p B F P ub uf
      by (auto simp: smart_io_tp_init_def Let_def drop_eq probes_append split: if_splits prod.splits)
  qed
qed


text \<open>A kernel without one of the f2fs tracepoints.\<close>

lemma tp_init_all_or_nothing_witness:
  "fst (snd (smart_io_tp_init ((\<lambda>n. if n = ''f2fs_gc_end'' then None else Some 1), (\<lambda>_. None)) tp_tables_initial)) = Some EINVAL \<and>
   probes_after [] (snd (snd (smart_io_tp_init ((\<lambda>n. if n = ''f2fs_gc_end'' then None else Some 1), (\<lambda>_. None)) tp_tables_initial))) = []"
proof -
  let ?k = "((\<lambda>n. if n = ''f2fs_gc_end'' then None else Some (1 :: nat)), (\<lambda>_ :: string. None :: errno option))"
  have i: "tables_idle tp_tables_initial" by code_simp
  have e: "fst (snd (smart_io_tp_init ?k tp_tables_initial)) = Some EINVAL" by code_simp
  obtain T' r fx where t: "smart_io_tp_init ?k tp_tables_initial = (T', r, fx)" by (metis prod_cases3)
  from tp_init_all_or_nothing [OF i t] show ?thesis using e t by simp
qed

end
