(* ===== verification/Ledger.thy ===== *)
theory Ledger
  imports Machine "HOL-Library.Multiset"
begin

text \<open>
  Transition systems that take references and put them back: what a step takes is what it puts back
  and what the state holds more afterwards.  A run inherits the balance; after a step that leaves
  nothing held, everything taken has been put back.
\<close>

locale ledger_machine =
  fixes step :: "'s \<Rightarrow> 'e list \<Rightarrow> 's \<Rightarrow> bool" and gets puts :: "'e list \<Rightarrow> 'r multiset" and held :: "'s \<Rightarrow> 'r multiset"
  assumes balance: "step s es t \<Longrightarrow> held t + puts es = held s + gets es"
    and gets_append: "gets (xs @ ys) = gets xs + gets ys" and gets_Nil: "gets [] = {#}"
    and puts_append: "puts (xs @ ys) = puts xs + puts ys" and puts_Nil: "puts [] = {#}"
begin

lemma run_balance: "reaches step s es t \<Longrightarrow> held t + puts es = held s + gets es"
proof (induction rule: reaches.induct)
  case (reaches_step s es t fs u)
  have "held u + puts fs = held t + gets fs" by (rule balance [OF reaches_step.hyps(2)])
  then have "(held u + puts fs) + puts es = (held t + puts es) + gets fs" by (simp add: ac_simps)
  then show ?case using reaches_step.IH by (simp add: gets_append puts_append ac_simps)
qed (simp add: gets_Nil puts_Nil)

lemma all_put_back:
  assumes "reaches step s es t" and "held s = {#}" and "held t = {#}"
  shows "gets es = puts es"
  using run_balance [OF assms(1)] assms(2,3) by simp

end

end
