(* ===== verification/Binder.thy ===== *)
theory Binder
  imports Io_Lines System_Context Ledger
begin

text \<open>
  \<open>tp_binder.c\<close>: the waits of the foreground application on synchronous binder calls.  A transaction is
  pending from its record to its delivery and active until the reply arrives; both tables hold
  references on the tasks they name.  Tasks are numbers; what the kernel knows of a task is a
  parameter.
\<close>

section \<open>State\<close>

record task_info =
  ti_leader :: "nat option"
  ti_uid :: u32
  ti_pid :: int
  ti_tgid :: int

record binder_pending_txn =
  bp_txn :: nat
  bp_caller_task :: nat
  bp_caller_uid :: u32

record binder_active_txn =
  ba_caller_proc_task :: nat
  ba_target_proc_task :: nat
  ba_caller_thread_task :: nat
  ba_target_thread_task :: "nat option"
  ba_caller_uid :: u32
  ba_target_uid :: u32
  ba_caller_pid :: int
  ba_caller_tid :: int
  ba_target_pid :: int
  ba_target_tid :: int
  ba_node_debug_id :: int
  ba_start_ts_ns :: u64

type_synonym binder_state = "binder_pending_txn list \<times> binder_active_txn list"

datatype binder_effect = GetTask nat | PutTask nat | BinderLine raw_line

section \<open>References\<close>

definition binder_pending_release :: "binder_pending_txn option \<Rightarrow> binder_effect list" where
  "binder_pending_release p = (case p of None \<Rightarrow> [] | Some p \<Rightarrow> [PutTask (bp_caller_task p)])"

definition active_tasks :: "binder_active_txn \<Rightarrow> nat list" where
  "active_tasks a =
     (case ba_target_thread_task a of None \<Rightarrow> [] | Some t \<Rightarrow> [t]) @
     [ba_caller_thread_task a, ba_target_proc_task a, ba_caller_proc_task a]"

definition binder_active_release :: "binder_active_txn option \<Rightarrow> binder_effect list" where
  "binder_active_release a = (case a of None \<Rightarrow> [] | Some a \<Rightarrow> map PutTask (active_tasks a))"

section \<open>The tables\<close>

definition binder_pending_take :: "nat \<Rightarrow> binder_pending_txn list \<Rightarrow> binder_pending_txn option \<times> binder_pending_txn list" where
  "binder_pending_take txn ps = (chain_find bp_txn txn ps, chain_del bp_txn txn ps)"

definition binder_pending_add ::
  "bool \<Rightarrow> nat \<Rightarrow> nat \<Rightarrow> u32 \<Rightarrow> binder_pending_txn list \<Rightarrow> binder_pending_txn list \<times> binder_effect list" where
  "binder_pending_add alloc_ok txn caller_task caller_uid ps =
     (if \<not> alloc_ok then (ps, [])
      else
      (let stale = chain_find bp_txn txn ps;
           pending = \<lparr>bp_txn = txn, bp_caller_task = caller_task, bp_caller_uid = caller_uid\<rparr>
       in (pending # chain_del bp_txn txn ps, GetTask caller_task # binder_pending_release stale)))"

definition active_key :: "binder_active_txn \<Rightarrow> nat \<times> nat \<times> nat" where
  "active_key a = (ba_caller_proc_task a, ba_target_proc_task a, ba_caller_thread_task a)"

definition binder_active_add :: "binder_active_txn \<Rightarrow> binder_active_txn list \<Rightarrow> binder_active_txn list \<times> binder_effect list" where
  "binder_active_add a as =
     (a # chain_del active_key (active_key a) as, binder_active_release (chain_find active_key (active_key a) as))"

text \<open>The entry of the three tasks, unless it names another target thread than the reply comes from.\<close>

definition active_matches :: "nat \<Rightarrow> nat \<Rightarrow> nat \<Rightarrow> nat \<Rightarrow> binder_active_txn \<Rightarrow> bool" where
  "active_matches caller_proc target_proc caller_thread target_thread a \<longleftrightarrow>
     active_key a = (caller_proc, target_proc, caller_thread) \<and>
     \<not> (ba_target_thread_task a \<noteq> None \<and> ba_target_thread_task a \<noteq> Some target_thread)"

definition binder_active_take ::
  "nat \<Rightarrow> nat \<Rightarrow> nat \<Rightarrow> nat \<Rightarrow> binder_active_txn list \<Rightarrow> binder_active_txn option \<times> binder_active_txn list" where
  "binder_active_take caller_proc target_proc caller_thread target_thread as =
     (let m = active_matches caller_proc target_proc caller_thread target_thread
      in (chain_find m True as, chain_del m True as))"

definition cleanup_binder_state :: "binder_state \<Rightarrow> binder_state \<times> binder_effect list" where
  "cleanup_binder_state s =
     (case s of (ps, as) \<Rightarrow>
        (([], []), concat (map (\<lambda>p. binder_pending_release (Some p)) ps) @ concat (map (\<lambda>a. binder_active_release (Some a)) as)))"

section \<open>Callbacks\<close>

definition task_uid_nr_safe :: "(nat \<Rightarrow> task_info) \<Rightarrow> nat option \<Rightarrow> u32" where
  "task_uid_nr_safe I task = (case task of None \<Rightarrow> -1 | Some t \<Rightarrow> ti_uid (I t))"

text \<open>The transaction data: whether it is there, and its one-way flag.\<close>

definition tp_binder_transaction_record_cb ::
  "(nat \<Rightarrow> task_info) \<Rightarrow> bool \<Rightarrow> sys_ctx \<Rightarrow> bool \<Rightarrow> nat \<Rightarrow> bool option \<Rightarrow> nat option \<Rightarrow> bool
   \<Rightarrow> binder_state \<Rightarrow> binder_state \<times> binder_effect list" where
  "tp_binder_transaction_record_cb I tracing c alloc_ok current tr t in_reply_to s =
     (case (tr, t, s) of
        (Some one_way, Some txn, (ps, as)) \<Rightarrow>
          if in_reply_to \<or> one_way \<or> \<not> tracing then (s, [])
          else if smart_io_get_fg_uid c < 0 then (s, [])
          else if task_uid_nr_safe I (Some current) \<noteq> word_of_int (smart_io_get_fg_uid c) then (s, [])
          else (case binder_pending_add alloc_ok txn current (task_uid_nr_safe I (Some current)) ps of
                  (ps, es) \<Rightarrow> ((ps, as), es))
      | _ \<Rightarrow> (s, []))"

definition wait_begin_line :: "u64 \<Rightarrow> binder_active_txn \<Rightarrow> raw_line" where
  "wait_begin_line now a = RawLine ''binder_sync_wait_begin''
     [''ts'', ''caller_uid'', ''caller_pid'', ''caller_tid'', ''target_uid'', ''target_pid'', ''target_tid'', ''node_debug_id'', ''sync'']
     [tw now, tw (ba_caller_uid a), TZ (ba_caller_pid a), TZ (ba_caller_tid a), tw (ba_target_uid a), TZ (ba_target_pid a),
      TZ (ba_target_tid a), TZ (ba_node_debug_id a), TZ 1]"

text \<open>
  A delivery has two lock regions.  The first takes the pending entry; the second, with the entry in
  the hand of the callback, enters the active one.
\<close>

definition proc_transaction_take ::
  "nat option \<Rightarrow> nat option \<Rightarrow> nat option \<Rightarrow> bool \<Rightarrow> binder_state \<Rightarrow> binder_state \<times> binder_pending_txn option" where
  "proc_transaction_take caller_task binder_proc_task t pending_async s =
     (case (caller_task, binder_proc_task, t, s) of
        (Some caller, Some target, Some txn, (ps, as)) \<Rightarrow>
          if pending_async then (s, None)
          else (case binder_pending_take txn ps of (p, ps) \<Rightarrow> ((ps, as), p))
      | _ \<Rightarrow> (s, None))"

definition delivered_txn ::
  "(nat \<Rightarrow> task_info) \<Rightarrow> u64 \<Rightarrow> nat \<Rightarrow> nat \<Rightarrow> nat \<Rightarrow> nat option \<Rightarrow> int \<Rightarrow> binder_pending_txn \<Rightarrow> binder_active_txn" where
  "delivered_txn I now caller_proc caller target binder_th_task node_debug_id p =
     \<lparr>ba_caller_proc_task = caller_proc, ba_target_proc_task = target, ba_caller_thread_task = caller,
      ba_target_thread_task = binder_th_task, ba_caller_uid = bp_caller_uid p,
      ba_target_uid = task_uid_nr_safe I (Some target), ba_caller_pid = ti_tgid (I caller),
      ba_caller_tid = ti_pid (I caller), ba_target_pid = ti_tgid (I target),
      ba_target_tid = (case binder_th_task of None \<Rightarrow> 0 | Some th \<Rightarrow> ti_pid (I th)),
      ba_node_debug_id = node_debug_id, ba_start_ts_ns = now\<rparr>"

definition proc_transaction_deliver ::
  "(nat \<Rightarrow> task_info) \<Rightarrow> bool \<Rightarrow> bool \<Rightarrow> u64 \<Rightarrow> nat \<Rightarrow> nat \<Rightarrow> nat option \<Rightarrow> int \<Rightarrow> binder_pending_txn
   \<Rightarrow> binder_state \<Rightarrow> binder_state \<times> binder_effect list" where
  "proc_transaction_deliver I tracing alloc_ok now caller target binder_th_task node_debug_id p s =
     (case s of (ps, as) \<Rightarrow>
        if \<not> tracing \<or> bp_caller_task p \<noteq> caller then (s, binder_pending_release (Some p))
        else
        (case ti_leader (I caller) of
           None \<Rightarrow> (s, binder_pending_release (Some p))
         | Some caller_proc \<Rightarrow>
             if \<not> alloc_ok then (s, binder_pending_release (Some p))
             else
             (let a = delivered_txn I now caller_proc caller target binder_th_task node_debug_id p in
              case binder_active_add a as of (as, es) \<Rightarrow>
                ((ps, as),
                 map GetTask ([caller_proc, target, caller] @ (case binder_th_task of None \<Rightarrow> [] | Some th \<Rightarrow> [th])) @
                 es @ binder_pending_release (Some p) @ [BinderLine (wait_begin_line now a)]))))"

definition tp_binder_proc_transaction_cb ::
  "(nat \<Rightarrow> task_info) \<Rightarrow> bool \<Rightarrow> bool \<Rightarrow> u64 \<Rightarrow> nat option \<Rightarrow> nat option \<Rightarrow> nat option \<Rightarrow> int \<Rightarrow> nat option \<Rightarrow> bool
   \<Rightarrow> binder_state \<Rightarrow> binder_state \<times> binder_effect list" where
  "tp_binder_proc_transaction_cb I tracing alloc_ok now caller_task binder_proc_task binder_th_task node_debug_id t pending_async s =
     (case proc_transaction_take caller_task binder_proc_task t pending_async s of
        (s, Some p) \<Rightarrow>
          (case (caller_task, binder_proc_task) of
             (Some caller, Some target) \<Rightarrow>
               proc_transaction_deliver I tracing alloc_ok now caller target binder_th_task node_debug_id p s
           | _ \<Rightarrow> (s, []))
      | (s, None) \<Rightarrow> (s, []))"

definition tp_sync_txn_recvd_cb ::
  "(nat \<Rightarrow> task_info) \<Rightarrow> bool \<Rightarrow> u64 \<Rightarrow> nat option \<Rightarrow> nat option \<Rightarrow> binder_state \<Rightarrow> binder_state \<times> binder_effect list" where
  "tp_sync_txn_recvd_cb I tracing now tsk from s =
     (case (tsk, from, s) of
        (Some caller, Some target, (ps, as)) \<Rightarrow>
          (case (ti_leader (I caller), ti_leader (I target)) of
             (Some caller_proc, Some target_proc) \<Rightarrow>
               (case binder_active_take caller_proc target_proc caller target as of
                  (None, _) \<Rightarrow> (s, [])
                | (Some a, as) \<Rightarrow>
                    if \<not> tracing then ((ps, as), binder_active_release (Some a))
                    else
                    ((ps, as),
                     BinderLine (RawLine ''binder_sync_wait_end''
                       [''ts'', ''dur_us'', ''caller_uid'', ''caller_pid'', ''caller_tid'', ''target_uid'', ''target_pid'', ''target_tid'',
                        ''node_debug_id'', ''sync'']
                       [tw now, tw ((now - ba_start_ts_ns a) div nsec_per_usec), tw (ba_caller_uid a), TZ (ba_caller_pid a),
                        TZ (ba_caller_tid a), tw (task_uid_nr_safe I (Some target_proc)), TZ (ti_tgid (I target_proc)),
                        TZ (ti_pid (I target)), TZ (ba_node_debug_id a), TZ 1]) #
                     binder_active_release (Some a)))
           | _ \<Rightarrow> (s, []))
      | _ \<Rightarrow> (s, []))"

section \<open>References are balanced\<close>

fun effect_gets :: "binder_effect list \<Rightarrow> nat multiset" where
  "effect_gets [] = {#}"
| "effect_gets (GetTask t # es) = add_mset t (effect_gets es)"
| "effect_gets (e # es) = effect_gets es"

fun effect_puts :: "binder_effect list \<Rightarrow> nat multiset" where
  "effect_puts [] = {#}"
| "effect_puts (PutTask t # es) = add_mset t (effect_puts es)"
| "effect_puts (e # es) = effect_puts es"

definition held_tasks :: "binder_state \<Rightarrow> nat multiset" where
  "held_tasks s = mset (map bp_caller_task (fst s)) + mset (concat (map active_tasks (snd s)))"

lemma effects_append [simp]:
  "effect_gets (es @ fs) = effect_gets es + effect_gets fs" "effect_puts (es @ fs) = effect_puts es + effect_puts fs"
proof -
  show "effect_gets (es @ fs) = effect_gets es + effect_gets fs"
    by (induction es rule: effect_gets.induct) simp_all
  show "effect_puts (es @ fs) = effect_puts es + effect_puts fs"
    by (induction es rule: effect_puts.induct) simp_all
qed

lemma effects_map [simp]:
  "effect_gets (map GetTask ts) = mset ts" "effect_puts (map GetTask ts) = {#}"
  "effect_gets (map PutTask ts) = {#}" "effect_puts (map PutTask ts) = mset ts"
  by (induction ts) simp_all

lemma release_effects [simp]:
  "effect_gets (binder_pending_release p) = {#}" "effect_gets (binder_active_release a) = {#}"
  "effect_puts (binder_pending_release p) = (case p of None \<Rightarrow> {#} | Some p \<Rightarrow> {#bp_caller_task p#})"
  "effect_puts (binder_active_release a) = (case a of None \<Rightarrow> {#} | Some a \<Rightarrow> mset (active_tasks a))"
  by (simp_all add: binder_pending_release_def binder_active_release_def split: option.split)

lemma pending_del:
  "mset (map bp_caller_task ps) =
    mset (map bp_caller_task (chain_del key k ps)) + (case chain_find key k ps of None \<Rightarrow> {#} | Some p \<Rightarrow> {#bp_caller_task p#})"
  by (induction ps) simp_all

lemma active_del:
  "mset (concat (map active_tasks as)) =
    mset (concat (map active_tasks (chain_del key k as))) + (case chain_find key k as of None \<Rightarrow> {#} | Some a \<Rightarrow> mset (active_tasks a))"
  by (induction as) (simp_all split: option.split)

text \<open>A step is balanced when the references taken are those released or newly held.\<close>

definition balanced :: "binder_state \<Rightarrow> binder_effect list \<Rightarrow> binder_state \<Rightarrow> bool" where
  "balanced s es t \<longleftrightarrow> held_tasks s + effect_gets es = held_tasks t + effect_puts es"

lemma record_balanced: "tp_binder_transaction_record_cb I tracing c ok cur tr t rep s = (s', es) \<Longrightarrow> balanced s es s'"
  using pending_del [of "fst s" bp_txn]
  by (auto simp: tp_binder_transaction_record_cb_def binder_pending_add_def balanced_def held_tasks_def Let_def
      split: option.splits if_splits prod.splits)

lemma cleanup_balanced: "cleanup_binder_state s = (s', es) \<Longrightarrow> balanced s es s'"
proof -
  have p: "effect_puts (concat (map (\<lambda>p. binder_pending_release (Some p)) ps)) = mset (map bp_caller_task ps)"
    "effect_gets (concat (map (\<lambda>p. binder_pending_release (Some p)) ps)) = {#}" for ps
    by (induction ps) simp_all
  have a: "effect_puts (concat (map (\<lambda>a. binder_active_release (Some a)) as)) = mset (concat (map active_tasks as))"
    "effect_gets (concat (map (\<lambda>a. binder_active_release (Some a)) as)) = {#}" for as
    by (induction as) simp_all
  assume "cleanup_binder_state s = (s', es)"
  then show ?thesis by (cases s) (auto simp: cleanup_binder_state_def balanced_def held_tasks_def p a simp del: mset_map mset_concat)
qed

lemma recvd_balanced: "tp_sync_txn_recvd_cb I tracing now tsk from s = (s', es) \<Longrightarrow> balanced s es s'"
proof -
  assume r: "tp_sync_txn_recvd_cb I tracing now tsk from s = (s', es)"
  show ?thesis
  proof (cases "es = []")
    case True
    have "binder_active_release (Some a) \<noteq> []" for a by (simp add: binder_active_release_def active_tasks_def)
    then show ?thesis using r True
      by (auto simp: tp_sync_txn_recvd_cb_def balanced_def Let_def split: option.splits if_splits prod.splits)
  next
    case False
    obtain ps as m a where s: "s = (ps, as)" "chain_find m True as = Some a" "s' = (ps, chain_del m True as)"
      and es: "effect_gets es = {#}" "effect_puts es = mset (active_tasks a)"
      using r False
      by (auto simp: tp_sync_txn_recvd_cb_def binder_active_take_def Let_def simp del: mset.simps
          split: option.splits if_splits prod.splits)
    show ?thesis using active_del [of as m True] es s by (simp add: balanced_def held_tasks_def del: mset_concat mset_map)
  qed
qed

text \<open>Taking an entry moves its reference into the hand of the callback; the delivery settles it.\<close>

lemma take_held:
  assumes "proc_transaction_take ct bpt t pa s = (s', p)"
  shows "held_tasks s = held_tasks s' + (case p of None \<Rightarrow> {#} | Some p \<Rightarrow> {#bp_caller_task p#})"
proof (cases "ct \<noteq> None \<and> bpt \<noteq> None \<and> t \<noteq> None \<and> \<not> pa")
  case True
  then obtain txn where t: "t = Some txn" by blast
  obtain ps as where s: "s = (ps, as)" by fastforce
  have "s' = (chain_del bp_txn txn ps, as)" "p = chain_find bp_txn txn ps"
    using assms True t s by (auto simp: proc_transaction_take_def binder_pending_take_def)
  then show ?thesis using pending_del [of ps bp_txn txn] s by (simp add: held_tasks_def ac_simps del: mset_map mset_concat)
next
  case False
  then have "s' = s" "p = None" using assms by (auto simp: proc_transaction_take_def split: option.splits prod.splits)
  then show ?thesis by simp
qed

lemma deliver_held:
  assumes "proc_transaction_deliver I tracing ok now caller target bth nd p s = (s', es)"
  shows "held_tasks s + {#bp_caller_task p#} + effect_gets es = held_tasks s' + effect_puts es"
proof (cases "tracing \<and> bp_caller_task p = caller \<and> ti_leader (I caller) \<noteq> None \<and> ok")
  case False
  then have "s' = s" "es = binder_pending_release (Some p)"
    using assms by (auto simp: proc_transaction_deliver_def split: option.splits prod.splits if_splits)
  then show ?thesis by simp
next
  case True
  then obtain cp where cp: "ti_leader (I caller) = Some cp" by blast
  obtain ps as where s: "s = (ps, as)" by fastforce
  define a where "a = delivered_txn I now cp caller target bth nd p"
  have tasks: "active_tasks a = (case bth of None \<Rightarrow> [] | Some t \<Rightarrow> [t]) @ [caller, target, cp]"
    by (simp add: a_def delivered_txn_def active_tasks_def)
  have a: "s' = (ps, a # chain_del active_key (active_key a) as)"
    "es = map GetTask ([cp, target, caller] @ (case bth of None \<Rightarrow> [] | Some th \<Rightarrow> [th])) @
          binder_active_release (chain_find active_key (active_key a) as) @ binder_pending_release (Some p) @
          [BinderLine (wait_begin_line now a)]"
    using assms True cp by (simp_all add: s proc_transaction_deliver_def binder_active_add_def Let_def a_def [symmetric])
  have "effect_gets es = mset (active_tasks a)"
    unfolding a(2) tasks by (simp split: option.split)
  moreover have "effect_puts es =
      (case chain_find active_key (active_key a) as of None \<Rightarrow> {#} | Some b \<Rightarrow> mset (active_tasks b)) + {#bp_caller_task p#}"
    unfolding a(2) by simp
  moreover have "held_tasks s' = mset (map bp_caller_task ps) + mset (active_tasks a) +
      mset (concat (map active_tasks (chain_del active_key (active_key a) as)))"
    unfolding a(1) held_tasks_def by simp
  moreover have "held_tasks s = mset (map bp_caller_task ps) + mset (concat (map active_tasks as))"
    by (simp add: s held_tasks_def)
  ultimately show ?thesis
    unfolding active_del [of as active_key "active_key a"] by (simp add: ac_simps)
qed

section \<open>Runs of the hooks\<close>

text \<open>
  The callbacks run on all processors at once.  A state is that of the two tables and the pending
  entries in the hand of deliveries under way; the lock regions of a delivery are steps of their own,
  so another callback, a second delivery included, may come between them.
\<close>

type_synonym binder_machine = "binder_state \<times> binder_pending_txn list"

inductive binder_step :: "binder_machine \<Rightarrow> binder_effect list \<Rightarrow> binder_machine \<Rightarrow> bool" where
  bind_record: "tp_binder_transaction_record_cb I tracing c ok cur tr t rep s = (s', es) \<Longrightarrow> binder_step (s, h) es (s', h)"
| bind_take: "proc_transaction_take ct bpt t pa s = (s', Some p) \<Longrightarrow> binder_step (s, h) [] (s', p # h)"
| bind_deliver: "p \<in> set h \<Longrightarrow> proc_transaction_deliver I tracing ok now caller target bth nd p s = (s', es) \<Longrightarrow>
    binder_step (s, h) es (s', remove1 p h)"
| bind_reply: "tp_sync_txn_recvd_cb I tracing now tsk from s = (s', es) \<Longrightarrow> binder_step (s, h) es (s', h)"
| bind_cleanup: "cleanup_binder_state s = (s', es) \<Longrightarrow> binder_step (s, h) es (s', h)"

inductive_cases binder_stepE: "binder_step m es m'"

definition held_in_hand :: "binder_machine \<Rightarrow> nat multiset" where
  "held_in_hand m = held_tasks (fst m) + mset (map bp_caller_task (snd m))"

text \<open>A delivery whose regions are not interrupted is the callback as a whole.\<close>

lemma proc_transaction_run:
  assumes "tp_binder_proc_transaction_cb I tracing ok now ct bpt bth nd t pa s = (s', es)"
  shows "reaches binder_step (s, h) es (s', h)"
proof -
  obtain s1 r where tk: "proc_transaction_take ct bpt t pa s = (s1, r)" by fastforce
  show ?thesis
  proof (cases r)
    case None
    have "s1 = s"
      using tk None by (auto simp: proc_transaction_take_def binder_pending_take_def chain_find_None split: option.splits if_splits prod.splits)
    then have "s' = s" "es = []" using assms tk None by (simp_all add: tp_binder_proc_transaction_cb_def)
    then show ?thesis by (simp add: reaches_refl)
  next
    case (Some p)
    obtain caller target where ct: "ct = Some caller" "bpt = Some target"
      using tk Some by (auto simp: proc_transaction_take_def split: option.splits)
    have d: "proc_transaction_deliver I tracing ok now caller target bth nd p s1 = (s', es)"
      using assms tk Some ct by (simp add: tp_binder_proc_transaction_cb_def)
    have "reaches binder_step (s, h) [] (s1, p # h)"
      using bind_take [OF tk [unfolded Some]] by (rule reaches_one)
    from reaches_step [OF this bind_deliver [OF _ d]] show ?thesis by simp
  qed
qed

interpretation waits: ledger_machine binder_step effect_gets effect_puts held_in_hand
proof
  show "binder_step m es n \<Longrightarrow> held_in_hand n + effect_puts es = held_in_hand m + effect_gets es" for m es n
  proof (erule binder_stepE, goal_cases)
    case (3 p h I tracing ok now caller target bth nd s s')
    have "mset (map bp_caller_task h) = mset (map bp_caller_task (remove1 p h)) + {#bp_caller_task p#}"
      using 3(3) by (induction h) auto
    then show ?case using deliver_held [OF 3(4)] 3(1,2) by (simp add: held_in_hand_def ac_simps del: mset_map mset_remove1)
  qed (auto dest!: record_balanced recvd_balanced cleanup_balanced take_held simp: held_in_hand_def balanced_def ac_simps)
qed simp_all

text \<open>C24: over every interleaving of the lock regions of the binder hooks the task references taken are those put and those still held by the two tables or by a delivery under way; so once no delivery is under way, as when the probes are gone, a clean-up leaves every reference put.\<close>

theorem task_references_balanced:
  assumes "reaches binder_step (([], []), []) es (s, h)"
  shows "effect_gets es = held_tasks s + mset (map bp_caller_task h) + effect_puts es \<and>
    (h = [] \<longrightarrow> effect_gets (es @ snd (cleanup_binder_state s)) = effect_puts (es @ snd (cleanup_binder_state s)))"
proof -
  have run: "held_in_hand (s, h) + effect_puts es = effect_gets es"
    using waits.run_balance [OF assms] by (simp add: held_in_hand_def held_tasks_def)
  have "binder_step (s, h) (snd (cleanup_binder_state s)) (([], []), h)"
    by (rule bind_cleanup) (simp add: cleanup_binder_state_def split: prod.split)
  from waits.all_put_back [OF reaches_step [OF assms this]] show ?thesis
    using run by (simp add: held_in_hand_def held_tasks_def)
qed

text \<open>A call of the application that is recorded, delivered and answered.\<close>

definition demo_tasks :: "nat \<Rightarrow> task_info" where
  "demo_tasks t = (let leader = if t \<in> {1, 2} then 1 else 3 in
     \<lparr>ti_leader = Some leader, ti_uid = 7, ti_pid = int t, ti_tgid = int leader\<rparr>)"

definition demo_call :: "binder_state \<times> binder_effect list" where
  "demo_call = tp_binder_transaction_record_cb demo_tasks True (sys_ctx_initial\<lparr>sc_fg_uid := 7\<rparr>) True 2 (Some False) (Some 7) False ([], [])"

definition demo_delivery :: "binder_state \<times> binder_effect list" where
  "demo_delivery = tp_binder_proc_transaction_cb demo_tasks True True 1 (Some 2) (Some 3) (Some 4) 9 (Some 7) False (fst demo_call)"

definition demo_reply :: "binder_state \<times> binder_effect list" where
  "demo_reply = tp_sync_txn_recvd_cb demo_tasks True 6 (Some 2) (Some 4) (fst demo_delivery)"

lemma task_references_balanced_witness:
  "held_tasks (fst demo_delivery) = {#4, 2, 3, 1#} \<and> held_tasks (fst demo_reply) = {#} \<and>
   effect_gets (snd demo_call @ snd demo_delivery @ snd demo_reply) = effect_puts (snd demo_call @ snd demo_delivery @ snd demo_reply)"
proof -
  have "binder_step (([], []), []) (snd demo_call) (fst demo_call, [])"
    by (rule bind_record, unfold demo_call_def, rule prod.collapse [symmetric])
  then have c: "reaches binder_step (([], []), []) (snd demo_call) (fst demo_call, [])" by (rule reaches_one)
  have d: "reaches binder_step (fst demo_call, []) (snd demo_delivery) (fst demo_delivery, [])"
    by (rule proc_transaction_run, unfold demo_delivery_def, rule prod.collapse [symmetric])
  have r: "binder_step (fst demo_delivery, []) (snd demo_reply) (fst demo_reply, [])"
    by (rule bind_reply, unfold demo_reply_def, rule prod.collapse [symmetric])
  have "reaches binder_step (([], []), []) ((snd demo_call @ snd demo_delivery) @ snd demo_reply) (fst demo_reply, [])"
    using reaches_step [OF reaches_trans [OF d c] r] .
  from task_references_balanced [OF this]
  have "effect_gets (snd demo_call @ snd demo_delivery @ snd demo_reply) =
      held_tasks (fst demo_reply) + effect_puts (snd demo_call @ snd demo_delivery @ snd demo_reply)"
    by simp
  moreover have "fst demo_reply = ([], [])" by code_simp
  moreover have "mset (map bp_caller_task (fst (fst demo_delivery))) + mset (concat (map active_tasks (snd (fst demo_delivery)))) =
      mset [4, 2, 3, 1]"
    by code_simp
  ultimately show ?thesis by (simp add: held_tasks_def add_mset_commute)
qed

end
