(* ===== verification/Filemap.thy ===== *)
theory Filemap
  imports Io_Laws "HOL-Library.Multiset"
begin

text \<open>
  \<open>tp_filemap.c\<close>: page-cache events aggregated per event, user and inode into ranges of pages, and
  flushed as raw lines.  The bucket of an entry in the kernel's hash table, which orders the flush, is
  a parameter.
\<close>

section \<open>State\<close>

record filemap_agg_entry =
  fa_event :: string
  fa_uid :: u32
  fa_inode_hash :: u64
  fa_fs :: string
  fa_index :: u64
  fa_last_index :: u64
  fa_pages :: u64
  fa_samples :: u64
  fa_ts_first :: u64
  fa_ts_last :: u64
  fa_overflow :: bool

record filemap_agg =
  ag_cache :: bool
  ag_table :: "filemap_agg_entry list"
  ag_entries :: u32

definition FILEMAP_AGG_MAX_ENTRIES :: u32 where "FILEMAP_AGG_MAX_ENTRIES = 1024"

section \<open>The file of an event\<close>

definition filemap_inode :: "inode option option \<Rightarrow> inode option option \<Rightarrow> folio option \<Rightarrow> inode option" where
  "filemap_inode mapping f fo =
     (case f of
        Some (Some i) \<Rightarrow> Some i
      | _ \<Rightarrow>
          (case mapping of
             Some (Some i) \<Rightarrow> Some i
           | _ \<Rightarrow> (case fo of None \<Rightarrow> None | Some fo \<Rightarrow> (case fo_mapping fo of Some (Some i) \<Rightarrow> Some i | _ \<Rightarrow> None))))"

text \<open>The name of the file system, the device and the inode number.\<close>

definition filemap_fill_identity :: "inode option \<Rightarrow> string \<times> u64 \<times> u64" where
  "filemap_fill_identity i =
     (case i of
        None \<Rightarrow> (''unknown'', 0, 0)
      | Some i \<Rightarrow>
          (case in_sb i of
             None \<Rightarrow> (''unknown'', 0, in_ino i)
           | Some sb \<Rightarrow>
               (case sb_type_name sb of None \<Rightarrow> ''unknown'' | Some n \<Rightarrow> strscpy n fs_type_len, ucast (sb_dev sb), in_ino i)))"

section \<open>Aggregation\<close>

definition filemap_ranges_overlap_or_touch :: "u64 \<Rightarrow> u64 \<Rightarrow> u64 \<Rightarrow> u64 \<Rightarrow> bool" where
  "filemap_ranges_overlap_or_touch left_first left_last right_first right_last =
     (if right_first > left_last then right_first - left_last \<le> 1
      else if left_first > right_last then left_first - right_last \<le> 1
      else True)"

definition filemap_agg_same_key :: "string \<Rightarrow> u64 \<Rightarrow> u32 \<Rightarrow> filemap_agg_entry \<Rightarrow> bool" where
  "filemap_agg_same_key event inode_hash uid e \<longleftrightarrow>
     fa_event e = event \<and> fa_inode_hash e = inode_hash \<and> fa_uid e = uid"

definition filemap_agg_merge :: "u64 \<Rightarrow> u64 \<Rightarrow> u32 \<Rightarrow> u64 \<Rightarrow> bool \<Rightarrow> filemap_agg_entry \<Rightarrow> filemap_agg_entry" where
  "filemap_agg_merge index last_index pages ts overflow e =
     e\<lparr>fa_index := (if index < fa_index e then index else fa_index e),
       fa_last_index := (if last_index > fa_last_index e then last_index else fa_last_index e),
       fa_pages := fa_pages e + ucast pages, fa_samples := fa_samples e + 1, fa_ts_last := ts,
       fa_overflow := (fa_overflow e \<or> overflow)\<rparr>"

definition agg_touches :: "string \<Rightarrow> u64 \<Rightarrow> u32 \<Rightarrow> u64 \<Rightarrow> u64 \<Rightarrow> filemap_agg_entry \<Rightarrow> bool" where
  "agg_touches event inode_hash uid index last_index e \<longleftrightarrow>
     filemap_agg_same_key event inode_hash uid e \<and>
     filemap_ranges_overlap_or_touch (fa_index e) (fa_last_index e) index last_index"

text \<open>The entry of a first event.\<close>

definition agg_new_entry :: "string \<Rightarrow> u32 \<Rightarrow> u64 \<Rightarrow> string \<Rightarrow> u64 \<Rightarrow> u64 \<Rightarrow> u32 \<Rightarrow> u64 \<Rightarrow> filemap_agg_entry" where
  "agg_new_entry event uid inode_hash fs index last_index pages ts =
     \<lparr>fa_event = event, fa_uid = uid, fa_inode_hash = inode_hash, fa_fs = strscpy fs fs_type_len, fa_index = index,
      fa_last_index = last_index, fa_pages = ucast pages, fa_samples = 1, fa_ts_first = ts, fa_ts_last = ts,
      fa_overflow = False\<rparr>"

text \<open>
  One pass under the lock, without or with a new entry at hand: the event joins the first entry of its
  key whose range it touches; a full table joins it to the first entry of its key; otherwise the new
  entry is put in, or dropped when the table is full.  Without one at hand the pass gives up, to
  allocate it outside the lock.
\<close>

definition agg_pass ::
  "filemap_agg_entry option \<Rightarrow> string \<Rightarrow> u32 \<Rightarrow> u64 \<Rightarrow> u64 \<Rightarrow> u64 \<Rightarrow> u32 \<Rightarrow> u64 \<Rightarrow> filemap_agg \<Rightarrow> filemap_agg option" where
  "agg_pass new_entry event uid inode_hash index last_index pages ts A =
     (let touches = agg_touches event inode_hash uid index last_index;
          same = filemap_agg_same_key event inode_hash uid in
      if chain_find touches True (ag_table A) \<noteq> None then
        Some (A\<lparr>ag_table := chain_upd touches True (filemap_agg_merge index last_index pages ts False) (ag_table A)\<rparr>)
      else if ag_entries A \<ge> FILEMAP_AGG_MAX_ENTRIES \<and> chain_find same True (ag_table A) \<noteq> None then
        Some (A\<lparr>ag_table := chain_upd same True (filemap_agg_merge index last_index pages ts True) (ag_table A)\<rparr>)
      else
      (case new_entry of
         None \<Rightarrow> None
       | Some e \<Rightarrow>
           if ag_entries A \<ge> FILEMAP_AGG_MAX_ENTRIES then Some A
           else Some (A\<lparr>ag_table := e # ag_table A, ag_entries := ag_entries A + 1\<rparr>)))"

text \<open>
  Recording an event.  What the other processors do to the table between the two passes is the
  argument \<open>others\<close>.
\<close>

definition filemap_agg_record ::
  "io_env \<Rightarrow> bool \<Rightarrow> (filemap_agg \<Rightarrow> filemap_agg) \<Rightarrow> string \<Rightarrow> inode option option \<Rightarrow> folio option \<Rightarrow> inode option option
   \<Rightarrow> u64 \<Rightarrow> u64 \<Rightarrow> u32 \<Rightarrow> filemap_agg \<Rightarrow> filemap_agg" where
  "filemap_agg_record env raw others event mapping fo f index last_index pages A =
     (if \<not> raw then A
      else
      (let (fs, s_dev, ino) = filemap_fill_identity (filemap_inode mapping f fo);
           h = ino XOR push_bit 32 s_dev;
           uid = ie_uid env;
           ts = ie_clk env 0;
           e = agg_new_entry event uid h fs index last_index pages ts in
       case agg_pass None event uid h index last_index pages ts A of
         Some A \<Rightarrow> A
       | None \<Rightarrow>
           let A = others A in
           if \<not> ag_cache A \<or> \<not> ie_alloc_record env then A
           else (case agg_pass (Some e) event uid h index last_index pages ts A of Some A \<Rightarrow> A | None \<Rightarrow> A)))"

section \<open>Callbacks\<close>

definition page_count :: "u64 \<Rightarrow> u32" where
  "page_count nr = ucast (min nr (ucast u32_max))"

definition with_bucket :: "nat \<Rightarrow> (percpu_bucket \<Rightarrow> percpu_bucket) \<Rightarrow> recorder \<Rightarrow> recorder" where
  "with_bucket cpu f r =
     r\<lparr>rc_roll := (rc_roll r)\<lparr>rl_buckets := (rl_buckets (rc_roll r))[cpu := f (rl_buckets (rc_roll r) ! cpu)]\<rparr>\<rparr>"

definition tp_filemap_get_pages_cb :: "io_env \<Rightarrow> u64 \<Rightarrow> u64 \<Rightarrow> recorder \<Rightarrow> recorder" where
  "tp_filemap_get_pages_cb env index last_index r =
     (if last_index < index then r
      else (let nr_pages = last_index - index + 1;
                nr_pages = (if nr_pages > ucast u32_max then ucast u32_max else nr_pages)
            in with_bucket (ie_cpu env) (smart_io_record_filemap_pages (rc_enabled r) (rc_raw r) (ucast nr_pages)) r))"

definition tp_filemap_update_page_cb ::
  "io_env \<Rightarrow> (filemap_agg \<Rightarrow> filemap_agg) \<Rightarrow> inode option option \<Rightarrow> (folio \<times> u64) option \<Rightarrow> inode option option \<Rightarrow> filemap_agg \<times> recorder \<Rightarrow> filemap_agg \<times> recorder" where
  "tp_filemap_update_page_cb env others mapping fo f s =
     (case (fo, s) of
        (None, _) \<Rightarrow> s
      | (Some (fo, nr), (A, r)) \<Rightarrow>
          (let pages = page_count nr; index = fo_index fo in
           (filemap_agg_record env (rc_raw r) others ''filemap_update_page'' mapping (Some fo) f index (index + ucast pages - 1) pages A,
            with_bucket (ie_cpu env) (smart_io_record_filemap_miss (rc_enabled r) (rc_raw r) pages) r)))"

definition tp_filemap_add_to_page_cache_cb :: "io_env \<Rightarrow> (folio \<times> u64) option \<Rightarrow> recorder \<Rightarrow> recorder" where
  "tp_filemap_add_to_page_cache_cb env fo r =
     (case fo of
        None \<Rightarrow> r
      | Some (fo, nr) \<Rightarrow> with_bucket (ie_cpu env) (smart_io_record_filemap_cache_add (rc_enabled r) (rc_raw r) (page_count nr)) r)"

definition tp_filemap_delete_from_page_cache_cb ::
  "io_env \<Rightarrow> (filemap_agg \<Rightarrow> filemap_agg) \<Rightarrow> (folio \<times> u64) option \<Rightarrow> filemap_agg \<times> recorder \<Rightarrow> filemap_agg \<times> recorder" where
  "tp_filemap_delete_from_page_cache_cb env others fo s =
     (case (fo, s) of
        (None, _) \<Rightarrow> s
      | (Some (fo, nr), (A, r)) \<Rightarrow>
          (let pages = page_count nr; index = fo_index fo in
           (filemap_agg_record env (rc_raw r) others ''filemap_delete_page_cache'' (fo_mapping fo) (Some fo) None index
              (index + ucast pages - 1) pages A,
            with_bucket (ie_cpu env) (smart_io_record_filemap_cache_delete (rc_enabled r) (rc_raw r) pages) r)))"

definition tp_filemap_refault_cb ::
  "io_env \<Rightarrow> (filemap_agg \<Rightarrow> filemap_agg) \<Rightarrow> (folio \<times> u64) option \<Rightarrow> filemap_agg \<times> recorder \<Rightarrow> filemap_agg \<times> recorder" where
  "tp_filemap_refault_cb env others fo s =
     (case (fo, s) of
        (None, _) \<Rightarrow> s
      | (Some (fo, nr), (A, r)) \<Rightarrow>
          (let pages = page_count nr; index = fo_index fo in
           (filemap_agg_record env (rc_raw r) others ''filemap_refault'' (fo_mapping fo) (Some fo) None index
              (index + ucast pages - 1) pages A,
            with_bucket (ie_cpu env) (smart_io_record_filemap_refault (rc_enabled r) (rc_raw r) pages) r)))"

section \<open>Flush\<close>

definition agg_line :: "filemap_agg_entry \<Rightarrow> raw_line" where
  "agg_line e = RawLine (fa_event e)
     [''ts_first'', ''ts_last'', ''uid'', ''inode_hash'', ''index'', ''last_index'', ''pages'', ''samples'', ''fs'', ''overflow'']
     [tw (fa_ts_first e), tw (fa_ts_last e), tw (fa_uid e), tw (fa_inode_hash e), tw (fa_index e), tw (fa_last_index e),
      tw (fa_pages e), tw (fa_samples e), TS (fa_fs e), tb (fa_overflow e)]"

text \<open>The walk over the 256 buckets moves every entry to the head of the flush list.\<close>

definition flush_order :: "(string \<Rightarrow> u64 \<Rightarrow> u32 \<Rightarrow> nat) \<Rightarrow> filemap_agg_entry list \<Rightarrow> filemap_agg_entry list" where
  "flush_order bucket es =
     rev (concat (map (\<lambda>b. filter (\<lambda>e. bucket (fa_event e) (fa_inode_hash e) (fa_uid e) = b) es) [0..<256]))"

definition smart_io_filemap_agg_flush ::
  "(string \<Rightarrow> u64 \<Rightarrow> u32 \<Rightarrow> nat) \<Rightarrow> bool \<Rightarrow> filemap_agg \<Rightarrow> filemap_agg \<times> raw_line list" where
  "smart_io_filemap_agg_flush bucket raw A =
     (if ag_entries A = 0 then (A, [])
      else (A\<lparr>ag_table := [], ag_entries := 0\<rparr>, if raw then map agg_line (flush_order bucket (ag_table A)) else []))"

section \<open>Laws\<close>

text \<open>The counter counts the entries, of which there are at most 1024.\<close>

definition agg_ok :: "filemap_agg \<Rightarrow> bool" where
  "agg_ok A \<longleftrightarrow> length (ag_table A) = unat (ag_entries A) \<and> ag_entries A \<le> FILEMAP_AGG_MAX_ENTRIES"

definition key_pages :: "string \<Rightarrow> u64 \<Rightarrow> u32 \<Rightarrow> filemap_agg_entry list \<Rightarrow> u64" where
  "key_pages event h uid es = sum_list (map fa_pages (filter (filemap_agg_same_key event h uid) es))"

lemma chain_upd_length [simp]: "length (chain_upd key k f es) = length es"
  by (induction es) auto

lemma merge_key [simp]: "filemap_agg_same_key ev h u (filemap_agg_merge i l p ts ov e) = filemap_agg_same_key ev h u e"
  by (simp add: filemap_agg_same_key_def filemap_agg_merge_def)

lemma merge_fields [simp]:
  "fa_event (filemap_agg_merge i l p ts ov e) = fa_event e" "fa_inode_hash (filemap_agg_merge i l p ts ov e) = fa_inode_hash e"
  "fa_uid (filemap_agg_merge i l p ts ov e) = fa_uid e" "fa_pages (filemap_agg_merge i l p ts ov e) = fa_pages e + ucast p"
  by (simp_all add: filemap_agg_merge_def)

lemma key_pages_upd:
  assumes "\<forall>e. P e \<longrightarrow> filemap_agg_same_key ev h u e" and "chain_find P True es \<noteq> None"
  shows "key_pages ev' h' u' (chain_upd P True (filemap_agg_merge i l p ts ov) es) =
    key_pages ev' h' u' es + (if (ev', h', u') = (ev, h, u) then ucast p else 0)"
  using assms(2)
proof (induction es)
  case (Cons e es)
  show ?case
  proof (cases "P e")
    case True
    then have "filemap_agg_same_key ev h u e" using assms(1) by simp
    then show ?thesis using True by (auto simp: key_pages_def filemap_agg_same_key_def)
  next
    case False
    then show ?thesis using Cons by (auto simp: key_pages_def)
  qed
qed simp

text \<open>The hash of the inode an event belongs to.\<close>

definition event_hash :: "inode option option \<Rightarrow> inode option option \<Rightarrow> folio option \<Rightarrow> u64" where
  "event_hash mapping f fo = (case filemap_fill_identity (filemap_inode mapping f fo) of (fs, s_dev, ino) \<Rightarrow> ino XOR push_bit 32 s_dev)"

text \<open>A pass adds the pages of the event to its key, or finds the table full.\<close>

definition pages_added :: "filemap_agg \<Rightarrow> string \<Rightarrow> u64 \<Rightarrow> u32 \<Rightarrow> u64 \<Rightarrow> filemap_agg \<Rightarrow> bool" where
  "pages_added A event h uid pages A' \<longleftrightarrow>
     (\<forall>ev h' u. key_pages ev h' u (ag_table A') = key_pages ev h' u (ag_table A) + (if (ev, h', u) = (event, h, uid) then pages else 0))"

lemma agg_merge_adds:
  assumes "agg_ok A" and "\<forall>e. P e \<longrightarrow> filemap_agg_same_key event h uid e" and "chain_find P True (ag_table A) \<noteq> None"
  shows "agg_ok (A\<lparr>ag_table := chain_upd P True (filemap_agg_merge i l pages ts ov) (ag_table A)\<rparr>) \<and>
    pages_added A event h uid (ucast pages) (A\<lparr>ag_table := chain_upd P True (filemap_agg_merge i l pages ts ov) (ag_table A)\<rparr>)"
  using assms(1) key_pages_upd [OF assms(2,3)] by (simp add: agg_ok_def pages_added_def)

lemma agg_new_adds:
  assumes "agg_ok A" and "ag_entries A < FILEMAP_AGG_MAX_ENTRIES"
    and e: "fa_event e = event" "fa_inode_hash e = h" "fa_uid e = uid" "fa_pages e = pages"
  shows "agg_ok (A\<lparr>ag_table := e # ag_table A, ag_entries := ag_entries A + 1\<rparr>) \<and>
    pages_added A event h uid pages (A\<lparr>ag_table := e # ag_table A, ag_entries := ag_entries A + 1\<rparr>)"
proof
  have "unat (ag_entries A) < 1024" using assms(2) by (simp add: word_less_nat_alt FILEMAP_AGG_MAX_ENTRIES_def)
  then have "unat (ag_entries A + 1) = unat (ag_entries A) + 1" by (simp add: unat_word_ariths)
  moreover have "ag_entries A + 1 \<le> FILEMAP_AGG_MAX_ENTRIES" using assms(2) by (rule inc_le)
  ultimately show "agg_ok (A\<lparr>ag_table := e # ag_table A, ag_entries := ag_entries A + 1\<rparr>)"
    using assms(1) by (simp add: agg_ok_def)
  show "pages_added A event h uid pages (A\<lparr>ag_table := e # ag_table A, ag_entries := ag_entries A + 1\<rparr>)"
    using e by (auto simp: pages_added_def key_pages_def filemap_agg_same_key_def)
qed

lemma agg_pass_adds:
  assumes "agg_ok A" and p: "agg_pass new_entry event uid h index last_index pages ts A = Some A'"
    and new: "\<And>e. new_entry = Some e \<Longrightarrow> e = agg_new_entry event uid h fs index last_index pages ts"
  shows "agg_ok A' \<and> (A' = A \<and> ag_entries A \<ge> FILEMAP_AGG_MAX_ENTRIES \<or> pages_added A event h uid (ucast pages) A')"
proof -
  let ?t = "agg_touches event h uid index last_index"
  let ?s = "filemap_agg_same_key event h uid"
  have t: "\<forall>e. ?t e \<longrightarrow> ?s e" by (simp add: agg_touches_def)
  consider (touch) "chain_find ?t True (ag_table A) \<noteq> None"
    | (same) "chain_find ?t True (ag_table A) = None" "ag_entries A \<ge> FILEMAP_AGG_MAX_ENTRIES" "chain_find ?s True (ag_table A) \<noteq> None"
    | (neither) "chain_find ?t True (ag_table A) = None" "\<not> (ag_entries A \<ge> FILEMAP_AGG_MAX_ENTRIES \<and> chain_find ?s True (ag_table A) \<noteq> None)"
    by blast
  then show ?thesis
  proof cases
    case touch
    then show ?thesis using p agg_merge_adds [OF assms(1) t touch] by (auto simp: agg_pass_def Let_def)
  next
    case same
    then show ?thesis using p agg_merge_adds [OF assms(1), of ?s event h uid, OF _ same(3)] by (auto simp: agg_pass_def Let_def)
  next
    case neither
    then obtain e where e: "new_entry = Some e" using p by (auto simp: agg_pass_def Let_def split: option.splits if_splits)
    show ?thesis
    proof (cases "ag_entries A \<ge> FILEMAP_AGG_MAX_ENTRIES")
      case True
      then show ?thesis using p neither e assms(1) by (simp add: agg_pass_def Let_def)
    next
      case False
      then have "A' = A\<lparr>ag_table := e # ag_table A, ag_entries := ag_entries A + 1\<rparr>"
        using p neither e by (simp add: agg_pass_def Let_def)
      then show ?thesis using agg_new_adds [OF assms(1), of e] False new [OF e] by (simp add: agg_new_entry_def not_le)
    qed
  qed
qed

lemma agg_pass_ends: "agg_pass (Some e) event uid h index last_index pages ts A \<noteq> None"
  by (simp add: agg_pass_def Let_def)

text \<open>C25: recording an event adds its pages, in the table as its last lock region finds it, to the event's own name, inode and user and to no other; it adds nothing only outside raw mode, without a cache or memory for a new entry, or with a full table. The table keeps its count and never exceeds its limit, whatever the other processors record between the two passes.\<close>

theorem aggregation_conserves_pages:
  assumes "agg_ok A" and "agg_ok (others A)"
    and rec: "A' = filemap_agg_record env raw others event mapping fo f index last_index pages A"
  shows "agg_ok A' \<and>
    (\<exists>B \<in> {A, others A}.
       A' = B \<and> (\<not> raw \<or> \<not> ag_cache B \<or> \<not> ie_alloc_record env \<or> ag_entries B \<ge> FILEMAP_AGG_MAX_ENTRIES) \<or>
       raw \<and> (\<forall>ev h u. key_pages ev h u (ag_table A') =
          key_pages ev h u (ag_table B) + (if (ev, h, u) = (event, event_hash mapping f fo, ie_uid env) then ucast pages else 0)))"
proof (cases raw)
  case False
  then show ?thesis using rec assms(1) by (simp add: filemap_agg_record_def)
next
  case True
  obtain fs s_dev ino where id: "filemap_fill_identity (filemap_inode mapping f fo) = (fs, s_dev, ino)" by (metis prod_cases3)
  let ?h = "ino XOR push_bit 32 s_dev"
  let ?e = "agg_new_entry event (ie_uid env) ?h fs index last_index pages (ie_clk env 0)"
  let ?pass = "\<lambda>ne. agg_pass ne event (ie_uid env) ?h index last_index pages (ie_clk env 0)"
  have h: "event_hash mapping f fo = ?h" by (simp add: event_hash_def id)
  note step = rec [unfolded filemap_agg_record_def id Let_def prod.case]
  show ?thesis
  proof (cases "?pass None A")
    case (Some B)
    then show ?thesis
      using agg_pass_adds [OF assms(1) Some, of fs] step True unfolding h pages_added_def by auto
  next
    case None
    show ?thesis
    proof (cases "ag_cache (others A) \<and> ie_alloc_record env")
      case False
      then show ?thesis using step True None assms(2) by auto
    next
      case ok: True
      obtain B where B: "?pass (Some ?e) (others A) = Some B" using agg_pass_ends by blast
      then have "A' = B" using step True None ok by simp
      then show ?thesis
        using agg_pass_adds [OF assms(2) B, of fs] True unfolding h pages_added_def by auto
    qed
  qed
qed

text \<open>A flush empties the table and prints every entry whose bucket is in the table once.\<close>

lemma flush_prints_all:
  assumes "\<forall>ev h u. bucket ev h u < 256"
  shows "mset (flush_order bucket es) = mset es"
proof -
  have "mset (concat (map (\<lambda>b. filter (\<lambda>e. g e = b) es) [0..<n])) = mset (filter (\<lambda>e. g e < n) es)" for g and n :: nat
  proof (induction n)
    case (Suc n)
    have "mset (filter (\<lambda>e. g e < Suc n) es) = mset (filter (\<lambda>e. g e < n) es) + mset (filter (\<lambda>e. g e = n) es)"
      by (induction es) auto
    then show ?case using Suc by simp
  qed simp
  then show ?thesis using assms by (simp add: flush_order_def)
qed


text \<open>An event without a file, recorded into an empty table, and what the flush then prints.\<close>

lemma aggregation_conserves_pages_witness:
  "key_pages ''filemap_refault'' 0 10001 (ag_table (filemap_agg_record demo_io_env True id ''filemap_refault'' None None None 5 8 4
     \<lparr>ag_cache = True, ag_table = [], ag_entries = 0\<rparr>)) = 4"
proof -
  let ?A = "\<lparr>ag_cache = True, ag_table = [], ag_entries = 0\<rparr>"
  have ok: "agg_ok ?A" "agg_ok (id ?A)" by (simp_all add: agg_ok_def)
  have h: "event_hash None None None = 0" by (simp add: event_hash_def filemap_inode_def filemap_fill_identity_def)
  have m: "ie_alloc_record demo_io_env" "\<not> FILEMAP_AGG_MAX_ENTRIES \<le> 0" "ie_uid demo_io_env = 10001"
    by (simp_all add: demo_io_env_def FILEMAP_AGG_MAX_ENTRIES_def)
  show ?thesis
    using aggregation_conserves_pages [of ?A id, OF ok refl, of demo_io_env True "''filemap_refault''" None None None 5 8 4] h m
    by (simp add: key_pages_def)
qed

end
