(* ===== verification/Probe_Life.thy ===== *)
theory Probe_Life
  imports Tracepoints Binder Filemap Pagecache
begin

text \<open>
  Registering and unregistering the probes whose callbacks keep state of their own: the binder waits,
  the file-map aggregation and the page-cache demo.  The callbacks of the probes put in first may run
  before the last one is; what they do meanwhile is the argument \<open>meanwhile\<close>.
\<close>

section \<open>Binder\<close>

definition unregister_binder_tracepoints ::
  "tp_entry list \<times> binder_state \<Rightarrow> (tp_entry list \<times> binder_state) \<times> tp_effect list \<times> binder_effect list" where
  "unregister_binder_tracepoints ts =
     (case ts of (t, s) \<Rightarrow>
        (case unregister_table t of (t, fx) \<Rightarrow> (case cleanup_binder_state s of (s, es) \<Rightarrow> ((t, s), fx, es))))"

definition register_binder_tracepoints ::
  "tp_kernel \<Rightarrow> (binder_state \<Rightarrow> binder_state \<times> binder_effect list) \<Rightarrow> tp_entry list \<times> binder_state
   \<Rightarrow> (tp_entry list \<times> binder_state) \<times> errno option \<times> tp_effect list \<times> binder_effect list" where
  "register_binder_tracepoints k meanwhile ts =
     (case ts of (t, s) \<Rightarrow>
        (case cleanup_binder_state s of (s, es1) \<Rightarrow>
        (case register_table EINVAL (fst k) (snd k) t of (t, r, fx) \<Rightarrow>
        (case meanwhile s of (s, es2) \<Rightarrow>
           if r = None then ((t, s), None, fx, es1 @ es2)
           else (case cleanup_binder_state s of (s, es3) \<Rightarrow> ((t, s), r, fx, es1 @ es2 @ es3))))))"

section \<open>File map\<close>

definition unregister_filemap_tracepoints ::
  "(string \<Rightarrow> u64 \<Rightarrow> u32 \<Rightarrow> nat) \<Rightarrow> bool \<Rightarrow> tp_entry list \<times> filemap_agg
   \<Rightarrow> (tp_entry list \<times> filemap_agg) \<times> tp_effect list \<times> raw_line list" where
  "unregister_filemap_tracepoints bucket raw ts =
     (case ts of (t, A) \<Rightarrow>
        (case unregister_table t of (t, fx) \<Rightarrow>
        (case smart_io_filemap_agg_flush bucket raw A of (A, ls) \<Rightarrow> ((t, A\<lparr>ag_cache := False\<rparr>), fx, ls))))"

definition register_filemap_tracepoints ::
  "(string \<Rightarrow> u64 \<Rightarrow> u32 \<Rightarrow> nat) \<Rightarrow> bool \<Rightarrow> tp_kernel \<Rightarrow> bool \<Rightarrow> (filemap_agg \<Rightarrow> filemap_agg) \<Rightarrow> tp_entry list \<times> filemap_agg
   \<Rightarrow> (tp_entry list \<times> filemap_agg) \<times> errno option \<times> tp_effect list \<times> raw_line list" where
  "register_filemap_tracepoints bucket raw k cache_ok meanwhile ts =
     (case ts of (t, A) \<Rightarrow>
        if \<not> ag_cache A \<and> \<not> cache_ok then ((t, A), Some ENOMEM, [], [])
        else
        (let A = A\<lparr>ag_cache := True\<rparr> in
         case register_filemap_from (snd k) [] (lookup_tracepoints (fst k) t) of (t, r, fx) \<Rightarrow>
           let A = meanwhile A in
           if r = None then ((t, A), None, fx, [])
           else (case smart_io_filemap_agg_flush bucket raw A of (A, ls) \<Rightarrow> ((t, A\<lparr>ag_cache := False\<rparr>), r, fx, ls))))"

section \<open>Page-cache demo\<close>

definition unregister_pagecache_demo :: "tp_entry list \<times> pagecache_demo \<Rightarrow> (tp_entry list \<times> pagecache_demo) \<times> tp_effect list" where
  "unregister_pagecache_demo ts =
     (case ts of (t, p) \<Rightarrow>
        (case unregister_table t of (t, fx) \<Rightarrow>
           ((t, smart_io_pagecache_demo_set_observe False (smart_io_pagecache_demo_set_enabled False p)), fx)))"

section \<open>Nothing is left behind\<close>

text \<open>
  A registration of the binder probes that fails leaves no probe in place and no entry in the tables,
  and every task reference taken, before or meanwhile, has been put back.
\<close>

lemma binder_registration_fails_clean:
  assumes "table_idle t" and "reaches binder_step (([], []), []) es0 (s, [])"
    and "\<And>s. reaches binder_step (s, []) (snd (meanwhile s)) (fst (meanwhile s), [])"
    and "register_binder_tracepoints k meanwhile (t, s) = ((t', s'), Some e, fx, es)"
  shows "live_names t' = [] \<and> probes_after [] fx = [] \<and> s' = ([], []) \<and> effect_gets (es0 @ es) = effect_puts (es0 @ es)"
proof -
  obtain t1 r1 f1 where T: "register_table EINVAL (fst k) (snd k) t = (t1, r1, f1)" by (metis prod_cases3)
  obtain s1 es1 where c1: "cleanup_binder_state s = (s1, es1)" by fastforce
  obtain s2 es2 where R: "meanwhile s1 = (s2, es2)" by fastforce
  obtain s3 es3 where c3: "cleanup_binder_state s2 = (s3, es3)" by fastforce
  have res: "t' = t1" "r1 = Some e" "fx = f1" "s' = s3" "es = es1 @ es2 @ es3"
    using assms(4) T c1 R c3 by (auto simp: register_binder_tracepoints_def split: if_splits)
  have "distinct ([] @ map te_name t)" using assms(1) by (simp add: table_idle_def)
  then have probes: "live_names t' = []" "probes_after [] fx = []"
    using register_table_cases [OF T assms(1), of "[]"] res by simp_all
  have empty: "s3 = ([], [])" using c3 by (simp add: cleanup_binder_state_def split: prod.splits)
  have "reaches binder_step (([], []), []) (((es0 @ es1) @ es2) @ es3) (s3, [])"
    using reaches_step [OF reaches_trans [OF assms(3) [of s1, unfolded R fst_conv snd_conv] reaches_step [OF assms(2) bind_cleanup [OF c1]]]
        bind_cleanup [OF c3]] .
  then have "effect_gets (((es0 @ es1) @ es2) @ es3) = effect_puts (((es0 @ es1) @ es2) @ es3)"
    by (rule waits.all_put_back) (simp_all add: held_in_hand_def held_tasks_def empty)
  then show ?thesis using probes res empty by simp
qed

text \<open>The file-map probes: after they are unregistered no page is held back and the cache is gone.\<close>

lemma filemap_unregistered:
  assumes "agg_ok A" and "unregister_filemap_tracepoints bucket raw (t, A) = ((t', A'), fx, ls)"
  shows "ag_table A' = [] \<and> ag_entries A' = 0 \<and> \<not> ag_cache A' \<and> live_names t' = []"
  using assms by (auto simp: unregister_filemap_tracepoints_def smart_io_filemap_agg_flush_def unregister_table_def live_names_def
      agg_ok_def split: if_splits)

text \<open>The demo is off and without budgets after its probes are gone.\<close>

lemma pagecache_unregistered:
  assumes "unregister_pagecache_demo (t, p) = ((t', p'), fx)"
  shows "\<not> pc_on p' \<and> \<not> pc_observe_on p' \<and> pc_budgets p' = replicate pagecache_budget_inodes zero_budget \<and> live_names t' = []"
  using assms by (auto simp: unregister_pagecache_demo_def unregister_table_def live_names_def Let_def
      smart_io_pagecache_demo_set_enabled_def smart_io_pagecache_demo_set_observe_def)

end
