(* ===== verification/Hooks.thy ===== *)
theory Hooks
  imports Io_Events System_Context Throttle_Events Deadline
begin

text \<open>
  The callbacks of the tracepoints: \<open>tp_block.c\<close>, which gives every block event to the throttle and then
  to the recorder, \<open>tp_f2fs.c\<close>, \<open>tp_sched.c\<close>, and the command hooks of \<open>ufs_priority.c\<close>.
\<close>

section \<open>Block events\<close>

type_synonym module_state = "throttle_ctx list \<times> recorder"
type_synonym module_effects = "effect list \<times> io_effect list"

definition tp_rq_insert_cb :: "io_env \<Rightarrow> io_request option \<Rightarrow> module_state \<Rightarrow> module_state \<times> module_effects" where
  "tp_rq_insert_cb env rq s =
     (case s of (cs, r) \<Rightarrow> (case smart_io_record_insert env rq r of (r, fx) \<Rightarrow> ((cs, r), ([], fx))))"

definition tp_bio_queue_cb :: "kernel \<Rightarrow> throttle_globals \<Rightarrow> task_ctx \<Rightarrow> (u16 \<times> req_op) option \<Rightarrow> (u16 \<times> req_op) option" where
  "tp_bio_queue_cb K g t bio = smart_io_throttle_mark_bio_hp K g t bio"

definition tp_rq_issue_cb ::
  "kernel \<Rightarrow> throttle_globals \<Rightarrow> task_ctx \<Rightarrow> u64 \<Rightarrow> io_env \<Rightarrow> io_request option \<Rightarrow> module_state \<Rightarrow> module_state \<times> module_effects" where
  "tp_rq_issue_cb K g t now env rq s =
     (case s of (cs, r) \<Rightarrow>
        (case smart_io_throttle_record_issue K g t now (map_option request.truncate rq) cs of (cs, es) \<Rightarrow>
        (case smart_io_record_issue env rq r of (r, fx) \<Rightarrow> ((cs, r), (es, fx)))))"

definition tp_rq_requeue_cb ::
  "kernel \<Rightarrow> throttle_globals \<Rightarrow> u64 \<Rightarrow> io_env \<Rightarrow> io_request option \<Rightarrow> module_state \<Rightarrow> module_state \<times> module_effects" where
  "tp_rq_requeue_cb K g now env rq s =
     (case s of (cs, r) \<Rightarrow>
        (case smart_io_throttle_record_requeue K g now (map_option request.truncate rq) cs of (cs, es) \<Rightarrow>
        (case smart_io_record_requeue env rq r of (r, fx) \<Rightarrow> ((cs, r), (es, fx)))))"

definition tp_rq_complete_cb ::
  "kernel \<Rightarrow> throttle_globals \<Rightarrow> (nat \<Rightarrow> u64) \<Rightarrow> u32 \<Rightarrow> bool \<Rightarrow> io_env \<Rightarrow> io_request option \<Rightarrow> u32 \<Rightarrow> u32
   \<Rightarrow> module_state \<Rightarrow> module_state \<times> module_effects" where
  "tp_rq_complete_cb K g clk qdepth work_queued env rq status nr_bytes s =
     (case s of (cs, r) \<Rightarrow>
        (case smart_io_throttle_record_complete K g clk qdepth work_queued (map_option request.truncate rq) status nr_bytes cs of
           (cs, es) \<Rightarrow>
        (case smart_io_record_complete env rq nr_bytes r of (r, fx) \<Rightarrow> ((cs, r), (es, fx)))))"

definition tp_bio_remap_cb :: "io_env \<Rightarrow> nat option \<Rightarrow> u32 \<Rightarrow> module_state \<Rightarrow> module_state" where
  "tp_bio_remap_cb env bio dev s = (case s of (cs, r) \<Rightarrow> (cs, smart_io_record_bio_remap env bio dev r))"

definition tp_rq_remap_cb :: "io_env \<Rightarrow> nat option \<Rightarrow> u32 \<Rightarrow> module_state \<Rightarrow> module_state" where
  "tp_rq_remap_cb env rq dev s = (case s of (cs, r) \<Rightarrow> (cs, smart_io_record_rq_remap env rq dev r))"

text \<open>The two parts of a block event do not see each other.\<close>

lemma issue_cb_parts:
  "tp_rq_issue_cb K g t now env rq (cs, r) =
    ((fst (smart_io_throttle_record_issue K g t now (map_option request.truncate rq) cs), fst (smart_io_record_issue env rq r)),
     (snd (smart_io_throttle_record_issue K g t now (map_option request.truncate rq) cs), snd (smart_io_record_issue env rq r)))"
  by (simp add: tp_rq_issue_cb_def split: prod.split)

lemma complete_cb_parts:
  "tp_rq_complete_cb K g clk qd wq env rq status n (cs, r) =
    ((fst (smart_io_throttle_record_complete K g clk qd wq (map_option request.truncate rq) status n cs),
      fst (smart_io_record_complete env rq n r)),
     (snd (smart_io_throttle_record_complete K g clk qd wq (map_option request.truncate rq) status n cs),
      snd (smart_io_record_complete env rq n r)))"
  by (simp add: tp_rq_complete_cb_def split: prod.split)

section \<open>The f2fs events\<close>

definition tp_f2fs_gc_begin_cb :: "u64 \<Rightarrow> recorder \<Rightarrow> recorder \<times> io_effect list" where
  "tp_f2fs_gc_begin_cb now r = f2fs_gc_begin now r"

definition tp_f2fs_gc_end_cb :: "u64 \<Rightarrow> recorder \<Rightarrow> recorder \<times> io_effect list" where
  "tp_f2fs_gc_end_cb now r = f2fs_gc_end now r"

definition tp_f2fs_write_checkpoint_cb :: "string option \<Rightarrow> u64 \<Rightarrow> recorder \<Rightarrow> recorder \<times> io_effect list" where
  "tp_f2fs_write_checkpoint_cb msg now r =
     (case msg of
        None \<Rightarrow> (r, [])
      | Some m \<Rightarrow>
          if strstarts m ''start'' then f2fs_cp_begin now r
          else if m = ''finish checkpoint'' then f2fs_cp_end now r
          else (r, []))"

text \<open>A checkpoint that starts and finishes leaves the count where it was.\<close>

lemma checkpoint_pair:
  assumes "0 \<le> rc_f2fs_cp_active r"
  shows "rc_f2fs_cp_active (fst (tp_f2fs_write_checkpoint_cb (Some ''finish checkpoint'') b
    (fst (tp_f2fs_write_checkpoint_cb (Some ''start block_ops'') a r)))) = rc_f2fs_cp_active r"
  using assms by (simp add: tp_f2fs_write_checkpoint_cb_def strstarts_def f2fs_cp_begin_def f2fs_cp_end_def)

section \<open>The scheduler events\<close>

record sched_task =
  sk_pid :: int
  sk_comm :: string
  sk_state :: u64
  sk_cpu :: int

fun task_state_code :: "task_state \<Rightarrow> nat" where
  "task_state_code SMART_IO_TASK_UNKNOWN = 0"
| "task_state_code SMART_IO_TASK_RUNNING = 1"
| "task_state_code SMART_IO_TASK_RUNNABLE = 2"
| "task_state_code SMART_IO_TASK_INTERRUPTIBLE = 3"
| "task_state_code SMART_IO_TASK_UNINTERRUPTIBLE = 4"
| "task_state_code SMART_IO_TASK_STOPPED = 5"
| "task_state_code SMART_IO_TASK_TRACED = 6"
| "task_state_code SMART_IO_TASK_DEAD = 7"
| "task_state_code SMART_IO_TASK_ZOMBIE = 8"
| "task_state_code SMART_IO_TASK_PARKED = 9"
| "task_state_code SMART_IO_TASK_IDLE = 10"

definition fg_main_pid_matches :: "bool \<Rightarrow> sys_ctx \<Rightarrow> int \<Rightarrow> bool" where
  "fg_main_pid_matches raw c pid \<longleftrightarrow>
     raw \<and> \<not> pid \<le> 0 \<and> smart_io_get_fg_main_pid c > 0 \<and> smart_io_get_fg_main_pid c = pid"

definition tp_sched_switch_cb ::
  "task_bits \<Rightarrow> bool \<Rightarrow> sys_ctx \<Rightarrow> u64 \<Rightarrow> int \<Rightarrow> sched_task option \<Rightarrow> sched_task option \<Rightarrow> u32 \<Rightarrow> raw_line list" where
  "tp_sched_switch_cb B raw c now cpu prev nxt prev_state =
     (case (prev, nxt) of
        (Some p, Some n) \<Rightarrow>
          if \<not> fg_main_pid_matches raw c (sk_pid p) \<and> \<not> fg_main_pid_matches raw c (sk_pid n) then []
          else
          (let st = smart_io_task_state_to_enum B (ucast prev_state) in
           [RawLine ''sched_switch''
              [''ts'', ''prev_pid'', ''prev_comm'', ''prev_state'', ''prev_state_s'', ''next_pid'', ''next_comm'',
               ''next_state'', ''next_state_s'', ''cpu'']
              [tw now, TZ (sk_pid p), TS (sk_comm p), TN (task_state_code st), TS (smart_io_task_state_to_str st),
               TZ (sk_pid n), TS (sk_comm n), TN (task_state_code SMART_IO_TASK_RUNNING),
               TS (smart_io_task_state_to_str SMART_IO_TASK_RUNNING), TZ cpu]])
      | _ \<Rightarrow> [])"

definition tp_sched_wakeup_cb :: "task_bits \<Rightarrow> bool \<Rightarrow> sys_ctx \<Rightarrow> u64 \<Rightarrow> sched_task option \<Rightarrow> raw_line list" where
  "tp_sched_wakeup_cb B raw c now task =
     (case task of
        None \<Rightarrow> []
      | Some p \<Rightarrow>
          if \<not> fg_main_pid_matches raw c (sk_pid p) then []
          else
          (let st = smart_io_task_state_to_enum B (sk_state p) in
           [RawLine ''sched_wakeup'' [''ts'', ''pid'', ''comm'', ''target_cpu'', ''state'', ''state_s'', ''raw_state'']
              [tw now, TZ (sk_pid p), TS (sk_comm p), TZ (sk_cpu p), TN (task_state_code st),
               TS (smart_io_task_state_to_str st), tw (sk_state p)]]))"

text \<open>Only the main thread of the foreground application is traced.\<close>

lemma sched_lines_of_foreground:
  "tp_sched_wakeup_cb B raw c now (Some p) \<noteq> [] \<Longrightarrow> raw \<and> sk_pid p = smart_io_get_fg_main_pid c"
  "tp_sched_switch_cb B raw c now cpu (Some p) (Some n) st \<noteq> [] \<Longrightarrow>
    raw \<and> (sk_pid p = smart_io_get_fg_main_pid c \<or> sk_pid n = smart_io_get_fg_main_pid c)"
  by (auto simp: tp_sched_wakeup_cb_def tp_sched_switch_cb_def fg_main_pid_matches_def split: if_splits)

section \<open>The UFS commands\<close>

text \<open>A command descriptor: the request of its SCSI command, and the flags of its UPIU header.\<close>

record ufshcd_lrb =
  lr_cmd_rq :: "request option"
  lr_ucd_flags :: "u8 option"

definition smart_io_ufs_send_command ::
  "u8 \<Rightarrow> throttle_globals \<Rightarrow> bool \<Rightarrow> throttle_ctx \<Rightarrow> ufshcd_lrb option \<Rightarrow> ufshcd_lrb option" where
  "smart_io_ufs_send_command cp_flag g elevator_is_smart c lrb =
     (case lrb of
        None \<Rightarrow> None
      | Some l \<Rightarrow>
          (case (lr_cmd_rq l, lr_ucd_flags l) of
             (Some rq, Some flags) \<Rightarrow>
               if \<not> smart_io_throttle_enabled g then lrb
               else if \<not> smart_deadline_rq_is_foreground elevator_is_smart c (Some rq) then lrb
               else Some (l\<lparr>lr_ucd_flags := Some (flags OR cp_flag)\<rparr>)
           | _ \<Rightarrow> lrb))"

text \<open>The error the driver gets: an earlier one is kept.\<close>

definition smart_io_ufs_prepare_command ::
  "kernel \<Rightarrow> throttle_globals \<Rightarrow> throttle_ctx list \<Rightarrow> int \<Rightarrow> bool \<Rightarrow> request option \<Rightarrow> bool \<Rightarrow> int option \<Rightarrow> int option" where
  "smart_io_ufs_prepare_command K g cs host_busy has_hba rqo has_lrb err =
     (case err of
        None \<Rightarrow> None
      | Some e \<Rightarrow>
          if \<not> has_hba \<or> rqo = None \<or> \<not> has_lrb \<or> e \<noteq> 0 then err
          else if smart_io_throttle_ufs_should_requeue K g rqo cs then Some host_busy else err)"

text \<open>\<open>prepare\<close> and \<open>send\<close> are the results of the two registrations; the effects are the hooks in place.\<close>

definition smart_io_ufs_priority_init :: "errno option \<Rightarrow> errno option \<Rightarrow> errno option \<times> (bool \<times> bool)" where
  "smart_io_ufs_priority_init prepare send =
     (if prepare \<noteq> None then (prepare, (False, False))
      else if send \<noteq> None then (send, (False, False))
      else (None, (True, True)))"

definition smart_io_ufs_priority_exit :: "bool \<times> bool \<Rightarrow> bool \<times> bool" where
  "smart_io_ufs_priority_exit hooks = (False, False)"

text \<open>Only a foreground request under throttling gets the command priority.\<close>

lemma priority_only_foreground:
  "smart_io_ufs_send_command cp g el c (Some l) \<noteq> Some l \<Longrightarrow>
    smart_io_throttle_enabled g \<and> smart_deadline_rq_is_foreground el c (lr_cmd_rq l)"
  by (auto simp: smart_io_ufs_send_command_def split: option.splits if_splits)

end
