(* ===== verification/Module_Machine.thy ===== *)
theory Module_Machine
  imports Hooks Io_Laws Deadline_Props
begin

text \<open>
  The module as one machine: the elevator of a queue with the throttle inside it, and the recorder.
  The elevator announces an insertion, which the probe hands to the recorder; issue, requeue and
  completion come from the block layer and go to both through the callbacks of \<open>tp_block.c\<close>.  Every run
  of the module is a run of each part, so what is proved of the parts holds of them together.
\<close>

section \<open>The probes\<close>

text \<open>The insertions that the elevator announces.\<close>

fun traced_inserts :: "dd_effect list \<Rightarrow> nat list" where
  "traced_inserts [] = []"
| "traced_inserts (TraceBlockRqInsert n # es) = n # traced_inserts es"
| "traced_inserts (_ # es) = traced_inserts es"

text \<open>The insertion probe on each of them, and the condition that none of them is issued.\<close>

fun insert_probes :: "io_env \<Rightarrow> io_request list \<Rightarrow> module_state \<Rightarrow> module_state \<times> module_effects" where
  "insert_probes env [] s = (s, ([], []))"
| "insert_probes env (q # qs) s =
     (case tp_rq_insert_cb env (Some q) s of (s, (es, fx)) \<Rightarrow>
        (case insert_probes env qs s of (s, (es', fx')) \<Rightarrow> (s, (es @ es', fx @ fx'))))"

fun fresh_inserts :: "io_env \<Rightarrow> io_request list \<Rightarrow> recorder \<Rightarrow> bool" where
  "fresh_inserts env [] r = True"
| "fresh_inserts env (q # qs) r \<longleftrightarrow>
     not_issued q r \<and> fresh_inserts env qs (fst (smart_io_record_insert env (Some q) r))"

lemma insert_probes_run:
  "insert_probes env qs (cs, r) = ((cs', r'), (es, fx)) \<Longrightarrow> fresh_inserts env qs r \<Longrightarrow>
    cs' = cs \<and> es = [] \<and> reaches io_step r fx r'"
proof (induction qs arbitrary: r es fx)
  case (Cons q qs)
  obtain r1 f1 where i: "smart_io_record_insert env (Some q) r = (r1, f1)" by fastforce
  obtain es2 fx2 where p: "insert_probes env qs (cs, r1) = ((cs', r'), (es2, fx2))" "es = es2" "fx = f1 @ fx2"
    using Cons.prems(1) by (auto simp: tp_rq_insert_cb_def i split: prod.splits)
  have f: "not_issued q r" "fresh_inserts env qs r1" using Cons.prems(2) by (simp_all add: i)
  have "reaches io_step r f1 r1" by (rule reaches_one, rule io_insert [OF f(1) i])
  then show ?case using Cons.IH [OF p(1) f(2)] p(2,3) reaches_trans by fastforce
qed (simp add: reaches_refl)

text \<open>A callback on the contexts of the module, which has one queue, is one on its context or does nothing.\<close>

lemma on_single:
  assumes "on_request rqo h [c] = (cs, es)"
  shows "(cs = [c] \<and> es = []) \<or> (\<exists>rq d. rqo = Some rq \<and> h rq c = (d, es) \<and> cs = [d])"
  using assms by (auto simp: on_request_def split: option.splits if_splits prod.splits)

section \<open>The machine\<close>

datatype module_effect = OfElevator dd_effect | OfRecorder io_effect

type_synonym module_run_state = "elevator_state \<times> recorder"

inductive module_step ::
  "kernel \<Rightarrow> elv_lib \<Rightarrow> (nat \<Rightarrow> io_request) \<Rightarrow> module_run_state \<Rightarrow> module_effect list \<Rightarrow> module_run_state \<Rightarrow> bool"
  for K :: kernel and E :: elv_lib and io :: "nat \<Rightarrow> io_request" where
  mod_elevator: "elevator_step K E s es t \<Longrightarrow> fresh_inserts env (map io (traced_inserts es)) r \<Longrightarrow>
    insert_probes env (map io (traced_inserts es)) ([dd_throttle (snd (snd t))], r) = ((cs, r'), (es', fx)) \<Longrightarrow>
    module_step K E io (s, r) (map OfElevator es @ map OfRecorder fx) (t, r')"
| mod_issue: "tp_rq_issue_cb K g tk now env (Some rq) ([dd_throttle dd], r) = ((cs, r'), (es, fx)) \<Longrightarrow>
    module_step K E io ((g, mt, dd), r) (map (OfElevator \<circ> Throttle) es @ map OfRecorder fx)
      ((g, mt, dd\<lparr>dd_throttle := hd cs\<rparr>), r')"
| mod_requeue: "tp_rq_requeue_cb K g now env (Some rq) ([dd_throttle dd], r) = ((cs, r'), (es, fx)) \<Longrightarrow>
    module_step K E io ((g, mt, dd), r) (map (OfElevator \<circ> Throttle) es @ map OfRecorder fx)
      ((g, mt, dd\<lparr>dd_throttle := hd cs\<rparr>), r')"
| mod_complete: "sched_ok (dd_throttle dd) (request.truncate rq) \<Longrightarrow> whole rq nr_bytes r \<Longrightarrow>
    tp_rq_complete_cb K g clk qd wq env (Some rq) status nr_bytes ([dd_throttle dd], r) = ((cs, r'), (es, fx)) \<Longrightarrow>
    module_step K E io ((g, mt, dd), r) (map (OfElevator \<circ> Throttle) es @ map OfRecorder fx)
      ((g, mt, dd\<lparr>dd_throttle := hd cs\<rparr>), r')"
| mod_recorder: "io_step r fx r' \<Longrightarrow> module_step K E io (s, r) (map OfRecorder fx) (s, r')"

inductive_cases module_stepE: "module_step K E io s es t"

fun elevator_part :: "module_effect list \<Rightarrow> dd_effect list" where
  "elevator_part [] = []"
| "elevator_part (OfElevator e # es) = e # elevator_part es"
| "elevator_part (OfRecorder f # es) = elevator_part es"

fun recorder_part :: "module_effect list \<Rightarrow> io_effect list" where
  "recorder_part [] = []"
| "recorder_part (OfElevator e # es) = recorder_part es"
| "recorder_part (OfRecorder f # es) = f # recorder_part es"

lemma part_append [simp]:
  "elevator_part (xs @ ys) = elevator_part xs @ elevator_part ys"
  "recorder_part (xs @ ys) = recorder_part xs @ recorder_part ys"
  by (induction xs rule: elevator_part.induct) simp_all

lemma part_map [simp]:
  "elevator_part (map OfElevator es) = es" "recorder_part (map OfElevator es) = []"
  "elevator_part (map OfRecorder fx) = []" "recorder_part (map OfRecorder fx) = fx"
  "elevator_part (map (OfElevator \<circ> Throttle) ts) = map Throttle ts" "recorder_part (map (OfElevator \<circ> Throttle) ts) = []"
proof -
  show "elevator_part (map OfElevator es) = es" "recorder_part (map OfElevator es) = []" by (induction es) simp_all
  show "elevator_part (map OfRecorder fx) = []" "recorder_part (map OfRecorder fx) = fx" by (induction fx) simp_all
  show "elevator_part (map (OfElevator \<circ> Throttle) ts) = map Throttle ts" "recorder_part (map (OfElevator \<circ> Throttle) ts) = []"
    by (induction ts) simp_all
qed

section \<open>Refinement\<close>

text \<open>A handler that the callbacks run on the context is a throttle step.\<close>

lemma callback_elevator:
  assumes "on_request rqo h [dd_throttle dd] = (cs, es)"
    and "\<And>rq d. rqo = Some rq \<Longrightarrow> h rq (dd_throttle dd) = (d, es) \<Longrightarrow> throttle_step K (g, mt, dd_throttle dd) es (g, mt, d)"
  shows "reaches (elevator_step K E) (g, mt, dd) (map Throttle es) (g, mt, dd\<lparr>dd_throttle := hd cs\<rparr>)"
  using on_single [OF assms(1)]
proof (elim disjE exE conjE)
  fix rq d assume "rqo = Some rq" "h rq (dd_throttle dd) = (d, es)" "cs = [d]"
  then show ?thesis using elevator_step.throttle [OF assms(2)] by (simp add: reaches_one)
qed (simp add: reaches_refl)

lemma module_simulates:
  assumes "module_step K E io s es t"
  shows "reaches (elevator_step K E) (fst s) (elevator_part es) (fst t) \<and> reaches io_step (snd s) (recorder_part es) (snd t)"
  using assms
proof (cases rule: module_step.cases)
  case (mod_elevator s es t env r cs r' es' fx)
  then show ?thesis using insert_probes_run [OF mod_elevator(6,5)] by (simp add: reaches_one)
next
  case (mod_issue g tk now env rq dd r cs r' es fx mt)
  have t: "smart_io_throttle_record_issue K g tk now (Some (request.truncate rq)) [dd_throttle dd] = (cs, es)"
    and i: "smart_io_record_issue env (Some rq) r = (r', fx)"
    using mod_issue(4) by (auto simp: tp_rq_issue_cb_def split: prod.splits)
  show ?thesis
    using mod_issue callback_elevator [OF t [unfolded smart_io_throttle_record_issue_def] throttle_step.issue]
      reaches_one [of io_step, OF io_issue [OF i]] by simp
next
  case (mod_requeue g now env rq dd r cs r' es fx mt)
  have t: "smart_io_throttle_record_requeue K g now (Some (request.truncate rq)) [dd_throttle dd] = (cs, es)"
    and i: "smart_io_record_requeue env (Some rq) r = (r', fx)"
    using mod_requeue(4) by (auto simp: tp_rq_requeue_cb_def split: prod.splits)
  show ?thesis
    using mod_requeue callback_elevator [OF t [unfolded smart_io_throttle_record_requeue_def] throttle_step.requeue]
      reaches_one [of io_step, OF io_requeue [OF i]] by simp
next
  case (mod_complete dd rq nr_bytes r g clk qd wq env status cs r' es fx mt)
  have t: "smart_io_throttle_record_complete K g clk qd wq (Some (request.truncate rq)) status nr_bytes [dd_throttle dd] = (cs, es)"
    and i: "smart_io_record_complete env (Some rq) nr_bytes r = (r', fx)"
    using mod_complete(6) by (auto simp: tp_rq_complete_cb_def split: prod.splits)
  have "reaches (elevator_step K E) (g, mt, dd) (map Throttle es) (g, mt, dd\<lparr>dd_throttle := hd cs\<rparr>)"
    by (rule callback_elevator [OF t [unfolded smart_io_throttle_record_complete_def]])
      (use mod_complete(4) in \<open>auto intro: throttle_step.complete\<close>)
  then show ?thesis
    using mod_complete reaches_one [of io_step, OF io_complete [OF mod_complete(5) i]] by simp
next
  case (mod_recorder r fx r' s)
  then show ?thesis by (simp add: reaches_refl reaches_one)
qed

definition module_init :: "kernel \<Rightarrow> elv_lib \<Rightarrow> module_run_state \<Rightarrow> bool" where
  "module_init K E s \<longleftrightarrow> elevator_init K E (fst s) \<and> io_init (snd s)"

definition module_good :: "kernel \<Rightarrow> elv_lib \<Rightarrow> module_run_state \<Rightarrow> bool" where
  "module_good K E s \<longleftrightarrow> elevator_good K E (fst s) \<and> recorder_ok (snd s)"

interpretation module_elevator: layered_machine "module_step K E io" "module_init K E" "module_good K E"
    "elevator_step K E" fst elevator_part for K E io
proof
  show "module_init K E s \<Longrightarrow> module_good K E s" for s
    unfolding module_init_def module_good_def using elevator.init_inv io_machine.init_inv by blast
  show "module_good K E s \<Longrightarrow> module_step K E io s es t \<Longrightarrow> module_good K E t" for s es t
    using module_simulates [of K E io s es t] elevator.reaches_inv io_machine.reaches_inv unfolding module_good_def by blast
qed (use module_simulates in auto)

interpretation module_recorder: layered_machine "module_step K E io" "module_init K E" "module_good K E"
    io_step snd recorder_part for K E io
  by unfold_locales (use module_simulates in auto)


text \<open>A request is inserted, which the elevator announces, and recorded.\<close>

definition demo_io :: "nat \<Rightarrow> io_request" where
  "demo_io n = demo_rq\<lparr>rq_ptr := n\<rparr>"

abbreviation demo_insert_effects :: "dd_effect list" where
  "demo_insert_effects \<equiv> snd (dd_insert_request linux_kernel demo_globals demo_elv demo_ie False 9 demo_dd)"

abbreviation demo_recorded :: "recorder \<times> io_effect list" where
  "demo_recorded \<equiv> smart_io_record_insert demo_io_env (Some (demo_io 9)) demo_recorder"

lemma demo_traced: "traced_inserts demo_insert_effects = [9]"
  by code_simp


end
