(* ===== verification/Deadline_Drain.thy ===== *)
theory Deadline_Drain
  imports Deadline_Props
begin

text \<open>
  Emptying the elevator.  While throttling is off, as many dispatches as requests wait return every
  one of them: the classes in the order of their priority, and the requests of a class and direction
  in the order of their arrival.
\<close>

section \<open>The order of the priorities\<close>

fun prio_code :: "dd_prio \<Rightarrow> nat" where
  "prio_code DD_HP_PRIO = 0"
| "prio_code DD_RT_PRIO = 1"
| "prio_code DD_BE_PRIO = 2"

instantiation dd_prio :: linorder
begin

definition less_eq_dd_prio :: "dd_prio \<Rightarrow> dd_prio \<Rightarrow> bool" where
  "p \<le> q \<longleftrightarrow> prio_code p \<le> prio_code q"

definition less_dd_prio :: "dd_prio \<Rightarrow> dd_prio \<Rightarrow> bool" where
  "p < q \<longleftrightarrow> prio_code p < prio_code q"

instance
proof
  show "p \<le> q \<Longrightarrow> q \<le> p \<Longrightarrow> p = q" for p q :: dd_prio
    by (cases p; cases q) (simp_all add: less_eq_dd_prio_def)
qed (auto simp: less_eq_dd_prio_def less_dd_prio_def)

end

lemma prio_least [simp]: "DD_HP_PRIO \<le> p" "p \<le> DD_BE_PRIO"
  by (cases p; simp add: less_eq_dd_prio_def)+

text \<open>The class a request waits in.\<close>

definition prio_in :: "deadline_data \<Rightarrow> nat \<Rightarrow> dd_prio" where
  "prio_in dd r =
     (if r \<in> set (prio_lists (dd_per_prio dd DD_HP_PRIO)) then DD_HP_PRIO
      else if r \<in> set (prio_lists (dd_per_prio dd DD_RT_PRIO)) then DD_RT_PRIO else DD_BE_PRIO)"

section \<open>One dispatch\<close>

text \<open>What a dispatch does to every single list.\<close>

definition took_each :: "deadline_data \<Rightarrow> nat option \<Rightarrow> deadline_data \<Rightarrow> bool" where
  "took_each dd ro dd' \<longleftrightarrow>
     (\<forall>p. pp_dispatch (dd_per_prio dd' p) = filter (\<lambda>x. ro \<noteq> Some x) (pp_dispatch (dd_per_prio dd p)) \<and>
        (\<forall>d. pp_fifo_list (dd_per_prio dd' p) d = filter (\<lambda>x. ro \<noteq> Some x) (pp_fifo_list (dd_per_prio dd p) d)))"

lemma took_each_refl: "took_each dd None (dd\<lparr>dd_throttle := c\<rparr>)" "took_each dd None dd"
  by (simp_all add: took_each_def)

lemma took_each_throttle: "took_each dd ro dd' \<Longrightarrow> took_each dd ro (dd'\<lparr>dd_throttle := c\<rparr>)"
  by (simp add: took_each_def)

lemma took_each_trans: "took_each dd None d \<Longrightarrow> took_each d ro e \<Longrightarrow> took_each dd ro e"
  by (simp add: took_each_def)

lemma fifo_each: "took_each dd (fst (snd (dd_dispatch_fifo K E p dd))) (fst (dd_dispatch_fifo K E p dd))"
proof -
  have "removeAll r xs = filter (\<lambda>x. r \<noteq> x) xs" for r and xs :: "nat list"
    by (simp add: removeAll_filter_not_eq eq_commute)
  then show ?thesis
    by (auto simp: dispatch_fifo_eq took_each_def started_def split: option.split)
qed

lemma try_each:
  assumes "took_each dd ro d"
  shows "took_each dd (fst (snd (dd_try_non_hp K g E ts p (d, ro, es)))) (fst (dd_try_non_hp K g E ts p (d, ro, es)))"
proof (cases ro)
  case None
  have "took_each dd None (d\<lparr>dd_throttle := c\<rparr>)" for c
    using assms None took_each_trans took_each_refl(1) by blast
  then show ?thesis
    using None took_each_trans [OF _ fifo_each] by (simp add: try_non_hp_eq Let_def)
qed (use assms in \<open>simp add: try_non_hp_skip\<close>)

lemma dispatch_each:
  assumes "dd_dispatch_request K g E clk (mt, dd) = ((mt', dd'), ro, es)"
  shows "took_each dd ro dd'"
proof -
  let ?d = "dd\<lparr>dd_throttle := fst (snd (smart_io_throttle_dispatch_model_if_needed g (clk 0) mt (dd_throttle dd)))\<rparr>"
  let ?p = "dispatch_pick K g E (clk 1 0) (clk 2 0) ?d"
  obtain d1 r1 e1 where f1: "dd_dispatch_fifo K E DD_HP_PRIO ?d = (d1, r1, e1)" by (metis prod_cases3)
  obtain d2 r2 e2 where f2: "dd_try_non_hp K g E (clk 1 0) DD_RT_PRIO (d1, r1, e1) = (d2, r2, e2)" by (metis prod_cases3)
  have "took_each dd r1 d1"
    using took_each_trans [OF took_each_refl(1) fifo_each [of ?d K E DD_HP_PRIO]] f1 by simp
  then have "took_each dd r2 d2" using try_each [of dd r1 d1 K g E "clk 1 0" DD_RT_PRIO e1] f2 by simp
  then have "took_each dd (fst (snd ?p)) (fst ?p)"
    using try_each [of dd r2 d2 K g E "clk 2 0" DD_BE_PRIO e2] by (simp add: dispatch_pick_def f1 f2 del: One_nat_def)
  then show ?thesis
    using assms took_each_throttle by (auto simp: dispatch_request_eq Let_def split: option.splits)
qed

lemma each_prio: "took_each dd ro dd' \<Longrightarrow> ro \<noteq> Some x \<Longrightarrow> prio_in dd' x = prio_in dd x"
  by (auto simp: took_each_def prio_in_def prio_lists_def)

text \<open>With throttling off, a request is returned whenever one waits, and none waits in a class before its own.\<close>

lemma open_choice:
  assumes "\<not> smart_io_throttle_enabled g" and "dd_dispatch_request K g E clk (mt, dd) = ((mt', dd'), ro, es)"
  shows "ro = (case fifo_head dd DD_HP_PRIO of Some r \<Rightarrow> Some r
    | None \<Rightarrow> (case fifo_head dd DD_RT_PRIO of Some r \<Rightarrow> Some r | None \<Rightarrow> fifo_head dd DD_BE_PRIO))"
  using dispatch_choice_gate [of K g E clk mt dd] assms by (simp add: gate_verdict_def)

lemma empty_class: "fifo_head dd p = None \<Longrightarrow> prio_lists (dd_per_prio dd p) = []"
  by (simp add: fifo_head_None has_work_lists)

lemma open_some:
  assumes "\<not> smart_io_throttle_enabled g" and "dd_dispatch_request K g E clk (mt, dd) = ((mt', dd'), ro, es)"
    and "waiting dd \<noteq> []"
  shows "ro \<noteq> None"
  using assms(3) open_choice [OF assms(1,2)] empty_class [of dd]
  by (auto simp: waiting_def split: option.splits)

lemma open_least:
  assumes "\<not> smart_io_throttle_enabled g" and "dd_dispatch_request K g E clk (mt, dd) = ((mt', dd'), Some r, es)"
  shows "prio_in dd r \<le> prio_in dd x"
  using open_choice [OF assms] empty_class [of dd] fifo_head_mem [of dd _ r]
  by (auto simp: prio_in_def less_eq_dd_prio_def split: option.splits)

text \<open>The request returned is the first of the list it waits in.\<close>

lemma head_first:
  assumes "distinct (waiting dd)" and "fifo_head dd p = Some r" and "r \<in> set (pp_fifo_list (dd_per_prio dd q) d)"
  shows "\<exists>xs. pp_fifo_list (dd_per_prio dd q) d = r # xs"
proof -
  have "p = q"
    using distinct_waiting [OF assms(1) fifo_head_mem [OF assms(2)] fifo_waiting [OF assms(3)]] .
  have "distinct (prio_lists (dd_per_prio dd p))"
    using assms(1) by (cases p) (auto simp: waiting_def)
  then show ?thesis
    using assms(2,3) \<open>p = q\<close>
    by (cases d) (auto simp: fifo_head_def prio_lists_def Let_def split: list.splits if_splits)
qed

section \<open>Many dispatches\<close>

fun dispatches ::
  "kernel \<Rightarrow> throttle_globals \<Rightarrow> elv_lib \<Rightarrow> (nat \<Rightarrow> nat \<Rightarrow> u64) list \<Rightarrow> model_thread \<times> deadline_data
   \<Rightarrow> (model_thread \<times> deadline_data) \<times> nat option list" where
  "dispatches K g E [] s = (s, [])"
| "dispatches K g E (clk # clks) s =
     (case dd_dispatch_request K g E clk s of (s, ro, es) \<Rightarrow>
        (case dispatches K g E clks s of (s, ros) \<Rightarrow> (s, ro # ros)))"

definition drained :: "deadline_data \<Rightarrow> nat list \<Rightarrow> bool" where
  "drained dd rs \<longleftrightarrow> mset rs = mset (waiting dd) \<and> sorted (map (prio_in dd) rs) \<and>
     (\<forall>p d. filter (\<lambda>r. r \<in> set (pp_fifo_list (dd_per_prio dd p) d)) rs = pp_fifo_list (dd_per_prio dd p) d)"

lemma drained_Cons:
  assumes dist: "distinct (waiting dd)" and each: "took_each dd (Some r) dd'" and r: "r \<in> set (waiting dd)"
    and w: "waiting dd' = removeAll r (waiting dd)" and least: "\<And>x. prio_in dd r \<le> prio_in dd x"
    and first: "\<And>p d. r \<in> set (pp_fifo_list (dd_per_prio dd p) d) \<Longrightarrow> \<exists>xs. pp_fifo_list (dd_per_prio dd p) d = r # xs"
    and rest: "drained dd' rs"
  shows "drained dd (r # rs)"
proof -
  have m: "mset rs = mset (removeAll r (waiting dd))" using rest w by (simp add: drained_def)
  then have notin: "r \<notin> set rs" using mset_eq_setD [OF m] by simp
  have "mset (r # rs) = mset (waiting dd)"
    using m r dist by (simp add: distinct_remove1_removeAll [symmetric])
  moreover have "sorted (map (prio_in dd) (r # rs))"
  proof -
    have eq: "map (prio_in dd') rs = map (prio_in dd) rs"
      using notin by (auto intro!: each_prio [OF each])
    have "sorted (map (prio_in dd) rs)" using rest unfolding drained_def eq by blast
    then show ?thesis using least by simp
  qed
  moreover have "filter (\<lambda>x. x \<in> set (pp_fifo_list (dd_per_prio dd p) d)) (r # rs) = pp_fifo_list (dd_per_prio dd p) d" for p d
  proof -
    let ?l = "pp_fifo_list (dd_per_prio dd p) d"
    have l': "pp_fifo_list (dd_per_prio dd' p) d = filter (\<lambda>x. r \<noteq> x) ?l"
      using each by (simp add: took_each_def)
    have "filter (\<lambda>x. x \<in> set ?l) rs = filter (\<lambda>x. x \<in> set (pp_fifo_list (dd_per_prio dd' p) d)) rs"
      unfolding l' using notin by (intro filter_cong) auto
    also have "\<dots> = filter (\<lambda>x. r \<noteq> x) ?l"
      using rest l' unfolding drained_def by metis
    finally have rs: "filter (\<lambda>x. x \<in> set ?l) rs = filter (\<lambda>x. r \<noteq> x) ?l" .
    have "distinct ?l" using dist by (cases p; cases d) (auto simp: waiting_def prio_lists_def)
    then show ?thesis using rs first [of p d] by (cases "r \<in> set ?l") (auto simp: filter_id_conv)
  qed
  ultimately show ?thesis by (simp add: drained_def)
qed

lemma dispatches_drain:
  assumes E: "elv_rb_ok E" and off: "\<not> smart_io_throttle_enabled g"
  shows "dd_inv K dd \<Longrightarrow> length clks = length (waiting dd) \<Longrightarrow> dispatches K g E clks (mt, dd) = ((mt', dd'), ros) \<Longrightarrow>
    waiting dd' = [] \<and> None \<notin> set ros \<and> drained dd (map the ros)"
proof (induction clks arbitrary: mt dd ros)
  case Nil
  then show ?case by (auto simp: drained_def waiting_def prio_lists_def) (metis (full_types) dd_prio.exhaust dd_data_dir.exhaust)
next
  case (Cons clk clks)
  obtain m d ro es where step: "dd_dispatch_request K g E clk (mt, dd) = ((m, d), ro, es)" by (metis prod.exhaust)
  note inv = dispatch_request_inv [OF E Cons.prems(1) step]
  have ne: "waiting dd \<noteq> []" using Cons.prems(2) by auto
  then obtain r where r: "ro = Some r" using open_some [OF off step] by blast
  have w: "waiting d = removeAll r (waiting dd)" "r \<in> set (waiting dd)" using inv r by (simp_all add: took_def)
  have dist: "distinct (waiting dd)" by (rule dd_invD(1) [OF Cons.prems(1)])
  have len: "length clks = length (waiting d)"
    using Cons.prems(2) w dist by (simp add: distinct_remove1_removeAll [symmetric] length_remove1)
  obtain rs where rs: "dispatches K g E clks (m, d) = ((mt', dd'), rs)" "ros = Some r # rs"
    using Cons.prems(3) step r by (auto split: prod.splits)
  have IH: "waiting dd' = [] \<and> None \<notin> set rs \<and> drained d (map the rs)"
    using Cons.IH [OF _ len rs(1)] inv by blast
  have first: "\<exists>xs. pp_fifo_list (dd_per_prio dd p) q = r # xs" if "r \<in> set (pp_fifo_list (dd_per_prio dd p) q)" for p q
    using head_first [OF dist _ that] open_choice [OF off step] r by (auto split: option.splits)
  have "drained dd (r # map the rs)"
    by (rule drained_Cons [OF dist dispatch_each [OF step [unfolded r]] w(2,1) open_least [OF off step [unfolded r]] first])
      (simp_all add: IH)
  then show ?case using IH rs(2) by simp
qed


text \<open>Two requests wait.\<close>

definition demo_two :: deadline_data where
  "demo_two = fst (dd_insert_request linux_kernel demo_globals demo_elv demo_ie False 11 demo_dd1)"

lemma demo_two_waiting: "waiting demo_dd1 = [9]" "waiting demo_two = [9, 11]"
  by code_simp+

lemma demo_two_good: "elevator_good linux_kernel demo_elv (initial_globals, demo_thread, demo_two)"
proof -
  have "elevator_good linux_kernel demo_elv (demo_globals, demo_thread, demo_dd1)"
    using elevator.reaches_inv [OF demo_inserted elevator.init_inv [OF demo_elevator_init]] .
  moreover have "elevator_step linux_kernel demo_elv (demo_globals, demo_thread, demo_dd1)
      (snd (dd_insert_request linux_kernel demo_globals demo_elv demo_ie False 11 demo_dd1))
      (demo_globals, demo_thread, demo_two)"
    by (rule elevator_step.insert [where r = 11 and ie = demo_ie and h = False])
      (simp_all add: demo_two_waiting demo_ie_def demo_two_def)
  ultimately have "elevator_good linux_kernel demo_elv (demo_globals, demo_thread, demo_two)"
    by (rule elevator.step_inv)
  then show ?thesis using initial_globals_inv by (simp add: elevator_good_def throttle_good_def throttle_of_def)
qed


end
