(* ===== verification/Deadline_Bio.thy ===== *)
theory Deadline_Bio
  imports Deadline_Machine
begin

text \<open>
  Merging a bio into a waiting request (\<open>dd_request_merge\<close> finds the request, \<open>dd_bio_merge\<close> calls the
  block layer under the elevator's lock).  What the block layer did is an argument: the request that
  grew with its fields afterwards, and the request that was joined to it, if the gap was closed.
\<close>

datatype bio_outcome =
    NotMerged
  | Discarded nat request
  | Grown nat request elv_merge
  | Joined nat request nat

text \<open>The result, the effects, and the request that is freed once the lock is released.\<close>

definition dd_bio_merge ::
  "kernel \<Rightarrow> throttle_globals \<Rightarrow> task_ctx \<Rightarrow> elv_lib \<Rightarrow> bio_outcome \<Rightarrow> deadline_data
   \<Rightarrow> deadline_data \<times> bool \<times> dd_effect list \<times> nat option" where
  "dd_bio_merge K g t E outcome dd =
     (case outcome of
        NotMerged \<Rightarrow> (dd, False, [], None)
      | Discarded r v \<Rightarrow> (set_rq r v dd, True, [], None)
      | Grown r v type \<Rightarrow> (dd_request_merged K g t E r type (set_rq r v dd), True, [], None)
      | Joined r v n \<Rightarrow> (case merge_one K g t E r v n dd of (dd, es) \<Rightarrow> (dd, True, es, Some n)))"

section \<open>What the block layer guarantees\<close>

text \<open>
  A request keeps its identity and operation, and its position unless it grew at the front, in which
  case it waits where the elevator looks for it.
\<close>

definition bio_outcome_ok :: "kernel \<Rightarrow> throttle_globals \<Rightarrow> task_ctx \<Rightarrow> deadline_data \<Rightarrow> bio_outcome \<Rightarrow> bool" where
  "bio_outcome_ok K g t dd outcome =
     (case outcome of
        NotMerged \<Rightarrow> True
      | Discarded r v \<Rightarrow>
          rq_ptr v = r \<and> rq_op v = rq_op (er_rq (dd_rqs dd r)) \<and> rq_pos v = rq_pos (er_rq (dd_rqs dd r))
      | Grown r v type \<Rightarrow>
          rq_ptr v = r \<and> rq_op v = rq_op (er_rq (dd_rqs dd r)) \<and>
          (if type = ELEVATOR_FRONT_MERGE
           then r \<in> set (pp_fifo_list (dd_per_prio dd (select_prio K g t (set_rq r v dd) r)) (rq_dir K dd r))
           else rq_pos v = rq_pos (er_rq (dd_rqs dd r)))
      | Joined r v n \<Rightarrow> merge_ok K g t dd r v n)"

text \<open>The search of the tree returns a request of the tree at that position.\<close>

definition elv_find_ok :: "elv_lib \<Rightarrow> bool" where
  "elv_find_ok E \<longleftrightarrow> (\<forall>f pos t r. el_rb_find E f pos t = Some r \<longrightarrow> r \<in> set (inorder t) \<and> f r = pos)"

section \<open>Laws\<close>

text \<open>
  The request offered for a front merge waits in the arrival list of the bio's priority and
  direction, and starts where the bio ends.
\<close>

lemma merge_candidate:
  assumes "elv_find_ok E" and "dd_inv K dd" and "dd_request_merge K g t E b dd = (Some r, kind)"
  shows "r \<in> set (pp_fifo_list
      (dd_per_prio dd (prio_of_queue (smart_io_throttle_select_bio_queue K g t (Some (bio_ioprio b, bio_op b)))))
      (rq_data_dir K (bio_op b))) \<and>
    blk_pos dd r = bio_end_sector b \<and> kind \<in> {ELEVATOR_FRONT_MERGE, ELEVATOR_DISCARD_MERGE}"
proof -
  let ?p = "prio_of_queue (smart_io_throttle_select_bio_queue K g t (Some (bio_ioprio b, bio_op b)))"
  let ?d = "rq_data_dir K (bio_op b)"
  have f: "el_rb_find E (blk_pos dd) (bio_end_sector b) (pp_sort_list (dd_per_prio dd ?p) ?d) = Some r"
    and kind: "kind \<in> {ELEVATOR_FRONT_MERGE, ELEVATOR_DISCARD_MERGE}"
    using assms(3) by (auto simp: dd_request_merge_def Let_def split: if_splits option.splits)
  then have "r \<in> set (inorder (pp_sort_list (dd_per_prio dd ?p) ?d))" "blk_pos dd r = bio_end_sector b"
    using assms(1) unfolding elv_find_ok_def by blast+
  then show ?thesis using dd_invD(2) [OF assms(2), of ?p ?d] kind by (auto simp: tree_ok_def Let_def)
qed

lemma request_merged_lists:
  "waiting (dd_request_merged K g t E r type dd) = waiting dd" "waiting (set_rq r v dd) = waiting dd"
  by (simp_all add: dd_request_merged_def Let_def waiting_def prio_lists_def)

text \<open>A merge keeps the lists in order and removes the joined request, which is the one freed, and no other.\<close>

lemma bio_merge_keeps:
  assumes E: "elv_rb_ok E" and inv: "dd_inv K dd" and ok: "bio_outcome_ok K g t dd outcome"
    and m: "dd_bio_merge K g t E outcome dd = (dd', merged, es, freed)"
  shows "dd_inv K dd'"
    and "mset (waiting dd') = mset (case freed of None \<Rightarrow> waiting dd | Some n \<Rightarrow> removeAll n (waiting dd))"
proof -
  have "dd_inv K dd' \<and> mset (waiting dd') = mset (case freed of None \<Rightarrow> waiting dd | Some n \<Rightarrow> removeAll n (waiting dd))"
  proof (cases outcome)
    case NotMerged
    then show ?thesis using m inv by (simp add: dd_bio_merge_def)
  next
    case (Discarded r v)
    then show ?thesis using m ok set_rq_inv [OF inv, of v r] by (auto simp: dd_bio_merge_def bio_outcome_ok_def request_merged_lists)
  next
    case (Grown r v type)
    have dd': "dd' = dd_request_merged K g t E r type (set_rq r v dd)" "freed = None"
      using m Grown by (simp_all add: dd_bio_merge_def)
    have "dd_inv K dd'"
    proof (cases "type = ELEVATOR_FRONT_MERGE")
      case True
      then show ?thesis using front_merge_inv [OF E inv, of r _ v] ok Grown dd' by (simp add: bio_outcome_ok_def dd_request_merged_def Let_def)
    next
      case False
      then show ?thesis using set_rq_inv [OF inv, of v r] ok Grown dd' by (simp add: bio_outcome_ok_def dd_request_merged_def Let_def)
    qed
    then show ?thesis using dd' by (simp add: request_merged_lists)
  next
    case (Joined r v n)
    have j: "merge_ok K g t dd r v n" "dd' = fst (merge_one K g t E r v n dd)" "freed = Some n"
      using m ok Joined by (auto simp: dd_bio_merge_def bio_outcome_ok_def split: prod.splits)
    show ?thesis using merge_one_inv(1,2) [OF E inv j(1)] j by simp
  qed
  then show "dd_inv K dd'" "mset (waiting dd') = mset (case freed of None \<Rightarrow> waiting dd | Some n \<Rightarrow> removeAll n (waiting dd))"
    by blast+
qed

text \<open>A merge that calls the elevator back is a step of it.\<close>

lemma bio_merge_steps:
  assumes "bio_outcome_ok K g t dd outcome" and "\<And>r v. outcome \<noteq> Discarded r v"
    and "dd_bio_merge K g t E outcome dd = (dd', merged, es, freed)"
  shows "reaches (elevator_step K E) (g, mt, dd) es (g, mt, dd')"
proof (cases outcome)
  case NotMerged
  then show ?thesis using assms(3) by (simp add: dd_bio_merge_def reaches_refl)
next
  case (Discarded r v)
  then show ?thesis using assms(2) by blast
next
  case (Grown r v type)
  have dd': "dd' = dd_request_merged K g t E r type (set_rq r v dd)" "es = []"
    using assms(3) Grown by (simp_all add: dd_bio_merge_def)
  have "elevator_step K E (g, mt, dd) [] (g, mt, dd')"
  proof (cases "type = ELEVATOR_FRONT_MERGE")
    case True
    then show ?thesis using assms(1) Grown unfolding dd' True
      by (intro elevator_step.front_merge) (simp_all add: bio_outcome_ok_def)
  next
    case False
    then show ?thesis using assms(1) Grown unfolding dd'
      by (intro elevator_step.back_merge) (simp_all add: bio_outcome_ok_def)
  qed
  then show ?thesis unfolding dd'(2) by (rule reaches_one)
next
  case (Joined r v n)
  have "elevator_step K E (g, mt, dd) es (g, mt, dd')"
    by (rule elevator_step.merged)
      (use assms Joined in \<open>auto simp: dd_bio_merge_def bio_outcome_ok_def merge_one_def split: prod.splits\<close>)
  then show ?thesis by (rule reaches_one)
qed

end
