(* ===== verification/Poll_Thread.thy ===== *)
theory Poll_Thread
  imports Filemap System_Laws
begin

text \<open>
  The polling thread of \<open>system_context.c\<close>: after each sleep it rolls the statistics of the recorder,
  runs the limiter's policy, samples the foreground thread and flushes the file-map aggregation.
\<close>

type_synonym poll_state = "recorder \<times> context_state \<times> filemap_agg"

datatype poll_effect = Sleep u32 | ContextEvent ctx_effect | AggLine raw_line

text \<open>The clocks, the samples of the memory and of the tasks, and the buckets of a turn.\<close>

record poll_env =
  pv_lib :: dirtyrate_lib
  pv_reclaim_now :: u64
  pv_now :: u64
  pv_policy_sample :: mem_sample
  pv_task_bits :: task_bits
  pv_lookup :: "int \<Rightarrow> thread_info option"
  pv_state_sample :: mem_sample
  pv_swap :: swap_sample
  pv_bucket :: "string \<Rightarrow> u64 \<Rightarrow> u32 \<Rightarrow> nat"

definition poll_turn :: "poll_env \<Rightarrow> poll_state \<Rightarrow> poll_state \<times> poll_effect list" where
  "poll_turn V s =
     (case s of (r, cd, A) \<Rightarrow>
        (let r = smart_io_periodic_tick (pv_reclaim_now V) (pv_now V) r in
         case update_dirtyrate_policy (pv_lib V) (rc_raw r) (pv_policy_sample V) cd of (cd, es) \<Rightarrow>
           (let es' = emit_fg_main_pid_state (rc_raw r) (pv_task_bits V) (pv_lookup V) (pv_state_sample V) (pv_swap V) (fst cd) in
            case smart_io_filemap_agg_flush (pv_bucket V) (rc_raw r) A of (A, ls) \<Rightarrow>
              ((r, cd, A), map ContextEvent (es @ es') @ map AggLine ls))))"

text \<open>
  The turns until the thread is stopped, each with what the rest of the module does while it sleeps.
\<close>

fun sys_poll_thread :: "((poll_state \<Rightarrow> poll_state) \<times> poll_env) list \<Rightarrow> poll_state \<Rightarrow> poll_state \<times> poll_effect list" where
  "sys_poll_thread [] s = (s, [])"
| "sys_poll_thread ((meanwhile, V) # turns) s =
     (case poll_turn V (meanwhile s) of (s', es) \<Rightarrow>
        (case sys_poll_thread turns s' of (s'', es') \<Rightarrow> (s'', Sleep (get_window_sz_ms (fst s)) # es @ es')))"

section \<open>Laws\<close>

definition poll_ok :: "dirtyrate_lib \<Rightarrow> poll_state \<Rightarrow> bool" where
  "poll_ok L s \<longleftrightarrow> (case s of (r, cd, A) \<Rightarrow> recorder_ok r \<and> context_good L cd \<and> agg_ok A)"

fun agg_lines :: "poll_effect list \<Rightarrow> raw_line list" where
  "agg_lines [] = []"
| "agg_lines (AggLine l # es) = l # agg_lines es"
| "agg_lines (e # es) = agg_lines es"

lemma agg_lines_simps [simp]:
  "agg_lines (es @ fs) = agg_lines es @ agg_lines fs" "agg_lines (map ContextEvent cs) = []" "agg_lines (map AggLine ls) = ls"
proof -
  show "agg_lines (es @ fs) = agg_lines es @ agg_lines fs" by (induction es rule: agg_lines.induct) simp_all
  show "agg_lines (map ContextEvent cs) = []" by (induction cs) simp_all
  show "agg_lines (map AggLine ls) = ls" by (induction ls) simp_all
qed

text \<open>A turn keeps the invariants of the three parts.\<close>

lemma poll_turn_keeps:
  assumes "poll_ok (pv_lib V) s"
  shows "poll_ok (pv_lib V) (fst (poll_turn V s))"
proof -
  obtain r cd A where s: "s = (r, cd, A)" by (cases s)
  let ?r = "smart_io_periodic_tick (pv_reclaim_now V) (pv_now V) r"
  obtain cd' es where p: "update_dirtyrate_policy (pv_lib V) (rc_raw ?r) (pv_policy_sample V) cd = (cd', es)" by fastforce
  have "context_good (pv_lib V) cd'"
    using context_policy.step_inv [OF _ context_step.tick [OF p]] assms by (simp add: poll_ok_def s)
  moreover have "recorder_ok ?r" using assms by (simp add: poll_ok_def s tick_ok)
  moreover have "agg_ok (fst (smart_io_filemap_agg_flush (pv_bucket V) (rc_raw ?r) A))"
    using assms by (simp add: poll_ok_def s smart_io_filemap_agg_flush_def agg_ok_def)
  ultimately show ?thesis by (simp add: s poll_turn_def poll_ok_def Let_def p split: prod.split) (metis fst_conv)
qed

lemma poll_thread_keeps:
  assumes "\<And>m V. (m, V) \<in> set turns \<Longrightarrow> pv_lib V = L" and "\<And>m V s. (m, V) \<in> set turns \<Longrightarrow> poll_ok L s \<Longrightarrow> poll_ok L (m s)"
    and "poll_ok L s"
  shows "poll_ok L (fst (sys_poll_thread turns s))"
  using assms
proof (induction turns arbitrary: s)
  case (Cons t turns)
  obtain m V where t: "t = (m, V)" by fastforce
  have mv: "(m, V) \<in> set (t # turns)" by (simp add: t)
  have "poll_ok L (m s)" using Cons.prems(2) [OF mv Cons.prems(3)] .
  then have "poll_ok L (fst (poll_turn V (m s)))" using poll_turn_keeps [of V "m s"] Cons.prems(1) [OF mv] by simp
  then have "poll_ok L (fst (sys_poll_thread turns (fst (poll_turn V (m s)))))"
    using Cons.prems(1,2) by (intro Cons.IH; (assumption | metis list.set_intros(2)))
  then show ?case by (simp add: t case_prod_beta)
qed simp

text \<open>
  A turn leaves no aggregated page behind: in raw mode every entry is printed once, otherwise nothing
  is printed.
\<close>

lemma poll_turn_flushes:
  assumes "poll_ok (pv_lib V) (r, cd, A)" and "\<forall>ev h u. pv_bucket V ev h u < 256"
    and "poll_turn V (r, cd, A) = ((r', cd', A'), es)"
  shows "ag_table A' = [] \<and> mset (agg_lines es) = (if rc_raw r' then image_mset agg_line (mset (ag_table A)) else {#})"
proof -
  have e: "ag_entries A = 0 \<longleftrightarrow> ag_table A = []"
    using assms(1) by (auto simp: poll_ok_def agg_ok_def unat_eq_zero)
  show ?thesis using assms(3) flush_prints_all [OF assms(2), of "ag_table A"] e
    by (auto simp: poll_turn_def Let_def smart_io_filemap_agg_flush_def simp del: map_map split: prod.splits if_splits)
qed

end
