(* ===== verification/Spec2Isabelle.thy ===== *)
theory Spec2Isabelle
  imports Deadline_Props Throttle_Laws Dirtyrate_Config System_Laws Q_Tree Fp32_Infer Io_Stat_Laws
    Psi Setup Procfs_Laws Probe_Life Module_Machine Deadline_Drain Deadline_Bio Poll_Thread
begin

text \<open>
  Smart I/O scheduler: a kernel module with an elevator whose background requests are throttled by a
  learned policy, a recorder of block requests, a limiter of dirty pages, and probes that feed them.

  Parts of the program and where they are modelled (files under src/).
  \<^item> \<open>smart_io_throttle.c\<close>, \<open>smart_io_throttle.h\<close>: per queue, the metadata of requests, the depth and
    pending counters, the window of device latencies, the inference that yields an action (level,
    policy, target depth) and the gate that holds background requests back.  Throttle_Types,
    Throttle_Meta, Throttle_Window, Throttle_Trace, Throttle_Control, Throttle_Events and
    Throttle_Config hold the code; Throttle_Inv, Acct, Frames, Slots, Gate, Good, Safety and Complete
    the invariants and that every operation keeps them; Throttle_Machine the handlers as steps of a
    transition system; Throttle_Wake, Throttle_Props and Throttle_Laws what follows for every run.
  \<^item> \<open>smart_deadline.c\<close>: the elevator that asks the gate before it dispatches.  Deadline is the code,
    Deadline_Lists the invariant of its lists and trees, Deadline_Machine the simulation of its runs by
    runs of the throttle, Admission the contract of the gate, Deadline_Props the properties,
    Deadline_Drain the order in which an elevator is emptied while throttling is off, Deadline_Bio the
    merging of a bio.
  \<^item> \<open>smart_io_model_fp32.c\<close>, \<open>smart_io_model_fp32_asm.S\<close>, \<open>smart_io_model_fp32_params.h\<close>: the encoding of
    the state as floats, the inference routine and the words of the network (Fp32, Fp32_Infer,
    Fp32_Params); \<open>smart_io_model_tree.h\<close>: the decision tree (Q_Tree_Data, Q_Tree).
  \<^item> \<open>smart_io_dirtyrate.c\<close>: the token bucket that paces background writers (Dirtyrate; Dirtyrate_Laws,
    Dirtyrate_Props, Dirtyrate_Config); \<open>system_context.c\<close>: the foreground context and the policy that
    switches the bucket on and off (System_Context, System_Laws), run by the polling thread
    (Poll_Thread).
  \<^item> \<open>io_semantics.c\<close>: the recorder.  Io_Types, Io_Hot, Io_Stats, Io_Record, Io_Lines and Io_Events are
    its data, hot inodes, statistics, helpers, raw lines and handlers; Io_Laws and Io_Stat_Laws the
    laws.  Chain is the model of its hash tables.  \<open>block_helper.c\<close> (Block_Helper), \<open>tool.c\<close> (Tool,
    Tool_Laws), \<open>filter.c\<close> (Policy) and \<open>trace_instance.c\<close> (Trace_Instance) are what it calls.
  \<^item> The probes: \<open>tp_block.c\<close>, \<open>tp_f2fs.c\<close>, \<open>tp_sched.c\<close> and \<open>ufs_priority.c\<close> (Hooks), \<open>tp_psi.c\<close> (Psi),
    \<open>tp_binder.c\<close> (Binder), \<open>tp_filemap.c\<close> (Filemap), \<open>tp_pagecache_demo.c\<close> (Pagecache); their tables and
    \<open>tp_manager.c\<close> (Tracepoints); the registration of those with a state of their own (Probe_Life);
    \<open>setup.c\<close> (Setup).  The binder and scheduler probes are modelled although \<open>tp_manager.c\<close>
    has their registration commented out, the file-map probes although nothing registers them.
  \<^item> \<open>procfs_export.c\<close>: the files that set and show all of this (Procfs, Procfs_Nodes, Procfs_Laws), over
    the text functions of the kernel library (Text_Io).

  How they interact.  A block event goes to the throttle and then to the recorder (Hooks).  The
  elevator calls the throttle under its own lock; its runs are runs of the throttle with the same
  effects, so every property of throttle runs holds below it.  Module_Machine joins elevator, throttle
  and recorder through the callbacks of the probes: a run of the module is a run of each part on its
  own.  The policy drives the limiter in the same way.  The polling thread rolls the recorder's window,
  runs the policy and flushes the file map.  The recorder reads the foreground context, the hot inodes
  feed the page-cache demo, and the procfs files write all of them through the setters of the
  components.

  Correspondence.  A struct is a record and an enumeration that the code does not range-check is a
  datatype; machine integers are words of their width.  Pointers to requests, bios and tasks are
  natural numbers; a hash table is the list of its entries, newest first, which answers every lookup
  as the buckets do (Chain), except the table of the throttle, whose scan is bounded and is modelled
  with its buckets.  A lock region, or a handler that runs under one lock, is one function from the
  state to the state, a result and a list of effects (lines written, queues run, references taken);
  a handler with several regions is given in its parts and as a whole.  Errors are values.  What the
  kernel provides is an argument: the clock readings, numbered by the place that takes them, the
  random number, allocations, the bucket of a key, the arithmetic of floats, the red-black tree and
  the outcome of a merge.

  Interfaces.  Machine states the contracts as locales: a transition system with an invariant, one
  that owes a signal whenever a condition ends (the gate and the run of the hardware queues), and one
  that runs on top of another (elevator on throttle, policy on limiter, module on elevator and on
  recorder); Ledger states the balance of references (the binder waits); Admission states the contract
  of the gate.  Each is interpreted on the model of the component that provides it.

  What the lemmas show.  Accounting: depth, pending and in-flight counters equal the numbers of
  requests that carry them.  Safety: when a background request may be dispatched, when a page may be
  kept, and that a dispatch neither loses nor invents a request.  Liveness: a gate that opens wakes
  the queues, an elevator without throttling is emptied by as many dispatches as requests wait, a
  writer that slept as told is admitted, a configuration change ends every wait, an inference without
  an answer is timed out.  Equivalence and refinement: the elevator's report of work
  against its dispatch, the slow-window test against its specification, the assembly routine against
  the network, the tree walk against the tree, elevator,
  policy and module against what they run on.  Bounds
  and round trips: rates, target depths, percentiles, the hot-inode table, the text of the procfs
  files.  Errors: unwinding of the module and of the probe tables; the remaining statements of this
  kind describe where the code does not do what it means to.

  Bounds and fuel.  The walk down the tree has an iteration bound in the code; the model makes the
  same number of iterations, the greatest depth plus one, and the theorem shows that they suffice.
  The scan of the throttle's table is bounded by the size of the pool, which suffices under the
  invariant.  All other recursion is structural or has a termination proof.

  Not modelled.  The code under \<open>#if 0\<close> and the code commented out (the deadline dispatcher of
  \<open>smart_deadline.c\<close>, the static ranges of the page-cache demo, the fault probes of the file map); the
  logging macros of \<open>smart_io_log.h\<close> and the build file; the rendering of a line as text, of which the
  labels and values are kept; the functions that compute a bucket number of a list-modelled table; the
  duration of a sleep; the opening of a procfs file, which only names its print function.  What is left
  are declarations, includes and forwarding macros, so nothing more of the program's own behaviour
  remains to be modelled.
\<close>

end
